(* ===== verification/Prelude.thy ===== *)
theory Prelude
  imports Main "HOL-Library.Word"
begin

section \<open>Shared vocabulary of the development\<close>

text \<open>
  The part of Rust's standard library the modelled crates use, and the generic lemmas the
  component theories share.

  \<^item> Unsigned machine integers are words (\<open>u8\<close>, \<open>u32\<close>, \<open>u64\<close>). Signed ones are \<open>int\<close>
    with the width written out: every operation of the source that can leave the width is
    either saturating or checked, and appears here as the function of that name.
  \<^item> A Rust \<open>String\<close> or \<open>&str\<close> is the list of its UTF-8 bytes (\<open>string\<close>, whose \<open>char\<close> is
    one byte), so \<open>len\<close> is \<open>length\<close> and equality is equality. Operations over Unicode scalar
    values go through \<open>scalars\<close>, which cuts the bytes at the lead bytes.
  \<^item> \<open>Result<T, E>\<close> is \<open>E + T\<close> (\<open>Inl\<close> the error), \<open>Option<T>\<close> is \<open>'a option\<close>, \<open>Vec<T>\<close> is a list.
\<close>

unbundle bit_operations_syntax

named_theorems rust_int \<open>unfolding of the fixed-width integer operations\<close>

type_synonym u8 = "8 word"
type_synonym u32 = "32 word"
type_synonym u64 = "64 word"
type_synonym i32 = int
type_synonym i64 = int
type_synonym i128 = int

subsection \<open>Fixed-width signed arithmetic\<close>

definition clamp_signed :: "nat \<Rightarrow> int \<Rightarrow> int" where
  "clamp_signed w x = max (- (2 ^ (w - 1))) (min (2 ^ (w - 1) - 1) x)"

definition in_signed :: "nat \<Rightarrow> int \<Rightarrow> bool" where
  "in_signed w x \<longleftrightarrow> - (2 ^ (w - 1)) \<le> x \<and> x < 2 ^ (w - 1)"

definition saturating_add :: "nat \<Rightarrow> int \<Rightarrow> int \<Rightarrow> int" where
  "saturating_add w a b = clamp_signed w (a + b)"

definition saturating_sub :: "nat \<Rightarrow> int \<Rightarrow> int \<Rightarrow> int" where
  "saturating_sub w a b = clamp_signed w (a - b)"

definition saturating_mul :: "nat \<Rightarrow> int \<Rightarrow> int \<Rightarrow> int" where
  "saturating_mul w a b = clamp_signed w (a * b)"

definition checked_signed :: "nat \<Rightarrow> int \<Rightarrow> int option" where
  "checked_signed w x = (if in_signed w x then Some x else None)"

lemmas [rust_int] = clamp_signed_def in_signed_def saturating_add_def saturating_sub_def
  saturating_mul_def checked_signed_def

lemma clamp_signed_in [simp]: "in_signed w (clamp_signed w x)"
  by (auto simp: rust_int max_def min_def)

lemma clamp_signed_id: "in_signed w x \<Longrightarrow> clamp_signed w x = x"
  by (auto simp: rust_int)

lemma clamp_signed_mono: "x \<le> y \<Longrightarrow> clamp_signed w x \<le> clamp_signed w y"
  by (auto simp: rust_int)

lemma checked_signed_Some [simp]: "checked_signed w x = Some y \<longleftrightarrow> y = x \<and> in_signed w x"
  by (auto simp: checked_signed_def)

subsection \<open>Unsigned helpers\<close>

text \<open>\<open>u32::try_from(n).unwrap_or(u32::MAX)\<close> on a length, and \<open>saturating_sub\<close> on \<open>u32\<close>.\<close>

definition u32_of_len :: "nat \<Rightarrow> u32" where
  "u32_of_len n = (if n < 2 ^ 32 then of_nat n else 4294967295)"

definition u32_saturating_sub :: "u32 \<Rightarrow> u32 \<Rightarrow> u32" where
  "u32_saturating_sub a b = (if b \<le> a then a - b else 0)"

definition u32_saturating_add :: "u32 \<Rightarrow> u32 \<Rightarrow> u32" where
  "u32_saturating_add a b = (if unat a + unat b < 2 ^ 32 then a + b else 4294967295)"

lemma u32_of_len_code [code]:
  "u32_of_len n = (if int n < 4294967296 then of_nat n else 4294967295)"
  by (simp add: u32_of_len_def)

lemma unat_u32_of_len: "unat (u32_of_len n) = min n (2 ^ 32 - 1)"
  by (simp add: u32_of_len_def unat_of_nat)

lemma unat_u32_saturating_sub: "unat (u32_saturating_sub a b) = unat a - unat b"
  by (simp add: u32_saturating_sub_def unat_sub word_le_nat_alt)

lemma unat_u32_saturating_add:
  "unat (u32_saturating_add a b) = min (unat a + unat b) (2 ^ 32 - 1)"
  by (simp add: u32_saturating_add_def unat_word_ariths)

subsection \<open>Lists and options\<close>

text \<open>\<open>Iterator::position\<close>.\<close>

fun position :: "('a \<Rightarrow> bool) \<Rightarrow> 'a list \<Rightarrow> nat option" where
  "position p [] = None"
| "position p (x # xs) = (if p x then Some 0 else map_option Suc (position p xs))"

lemma position_SomeD: "position p xs = Some i \<Longrightarrow> i < length xs \<and> p (xs ! i)"
  by (induction p xs arbitrary: i rule: position.induct) (auto split: if_splits)

lemma find_SomeD: "List.find p xs = Some x \<Longrightarrow> x \<in> set xs \<and> p x"
  by (induction xs) (auto split: if_splits)

text \<open>\<open>slice.get(i)\<close>.\<close>

definition get_at :: "'a list \<Rightarrow> nat \<Rightarrow> 'a option" where
  "get_at xs i = (if i < length xs then Some (xs ! i) else None)"

lemma get_at_SomeD: "get_at xs i = Some x \<Longrightarrow> i < length xs \<and> x = xs ! i"
  by (auto simp: get_at_def split: if_splits)

text \<open>\<open>Option::or\<close> and \<open>[String]::join\<close>.\<close>

definition or_else :: "'a option \<Rightarrow> 'a option \<Rightarrow> 'a option" where
  "or_else a b = (case a of Some x \<Rightarrow> Some x | None \<Rightarrow> b)"

lemma or_else_simps [simp]: "or_else (Some x) b = Some x" "or_else None b = b"
  "or_else a None = a"
  by (auto simp: or_else_def split: option.splits)

fun join_with :: "string \<Rightarrow> string list \<Rightarrow> string" where
  "join_with sep [] = []"
| "join_with sep [x] = x"
| "join_with sep (x # xs) = x @ sep @ join_with sep xs"

lemma map_filter_append: "List.map_filter f (xs @ ys) = List.map_filter f xs @ List.map_filter f ys"
  by (induction xs) (auto split: option.splits)

lemma set_map_filter_iff: "y \<in> set (List.map_filter f xs) \<longleftrightarrow> (\<exists>x\<in>set xs. f x = Some y)"
  by (force simp: List.map_filter_def)

subsection \<open>The two halves of a result\<close>

text \<open>The \<open>?\<close> operator: an error returns at once, a value is passed on.\<close>

definition try_bind :: "'e + 'a \<Rightarrow> ('a \<Rightarrow> 'e + 'b) \<Rightarrow> 'e + 'b" where
  "try_bind r k = (case r of Inl e \<Rightarrow> Inl e | Inr x \<Rightarrow> k x)"

lemma try_bind_simps [simp]: "try_bind (Inl e) k = Inl e" "try_bind (Inr x) k = k x"
  by (simp_all add: try_bind_def)

lemma try_bind_Inr: "try_bind r k = Inr y \<longleftrightarrow> (\<exists>x. r = Inr x \<and> k x = Inr y)"
  by (cases r) simp_all

lemma try_bind_Inl: "try_bind r k = Inl e \<longleftrightarrow> r = Inl e \<or> (\<exists>x. r = Inr x \<and> k x = Inl e)"
  by (cases r) auto

text \<open>\<open>Option::ok_or\<close>.\<close>

definition ok_or :: "'e \<Rightarrow> 'a option \<Rightarrow> 'e + 'a" where
  "ok_or e x = (case x of None \<Rightarrow> Inl e | Some y \<Rightarrow> Inr y)"

lemma ok_or_Inr [simp]: "ok_or e x = Inr y \<longleftrightarrow> x = Some y"
  by (auto simp: ok_or_def split: option.splits)

subsection \<open>Bytes of text\<close>

text \<open>The value of an ASCII digit and of a hexadecimal digit of either case.\<close>

definition ascii_digit :: "char \<Rightarrow> bool" where
  "ascii_digit c \<longleftrightarrow> 48 \<le> (of_char c :: nat) \<and> (of_char c :: nat) \<le> 57"

definition hex_value :: "char \<Rightarrow> nat option" where
  "hex_value c =
     (let n = of_char c in
      if 48 \<le> n \<and> n \<le> 57 then Some (n - 48)
      else if 97 \<le> n \<and> n \<le> 102 then Some (n - 87)
      else if 65 \<le> n \<and> n \<le> 70 then Some (n - 55)
      else None)"

definition hex_digits :: string where
  "hex_digits = ''0123456789abcdef''"

text \<open>One byte as two lowercase hexadecimal digits (\<open>{byte:02x}\<close>, and \<open>hex\<close> of the machine).\<close>

definition hex_byte :: "u8 \<Rightarrow> string" where
  "hex_byte b = [hex_digits ! unat (drop_bit 4 b), hex_digits ! unat (b AND 15)]"

lemma less_16_cases: "(n::nat) < 16 \<Longrightarrow> n \<in> {0,1,2,3,4,5,6,7,8,9,10,11,12,13,14,15}"
  by (simp add: numeral_eq_Suc less_Suc_eq)

lemma hex_value_digit: "n < 16 \<Longrightarrow> hex_value (hex_digits ! n) = Some n"
  by (drule less_16_cases) (auto simp: hex_digits_def hex_value_def)

lemma hex_digit_plain: "n < 16 \<Longrightarrow> hex_digits ! n \<noteq> CHR ''-'' \<and> hex_digits ! n \<noteq> CHR ''+''"
  by (drule less_16_cases) (auto simp: hex_digits_def)

lemma unat_high_nibble: "unat (drop_bit 4 (b::u8)) = unat b div 16"
  by (simp add: unat_drop_bit_eq drop_bit_eq_div[of 4 "unat b"] del: drop_bit_eq_div)

lemma unat_low_nibble: "unat ((b::u8) AND 15) = unat b mod 16"
proof -
  have "b AND 15 = take_bit 4 b"
    by (simp add: take_bit_eq_mask mask_eq_exp_minus_1)
  then show ?thesis
    by (simp add: take_bit_eq_mod unat_mod)
qed

lemma u8_nibbles_bound: "unat (b::u8) div 16 < 16"
proof -
  have "unat b < 256" using unsigned_less [of b] by simp
  then show ?thesis by simp
qed

lemma length_hex_byte [simp]: "length (hex_byte b) = 2"
  by (simp add: hex_byte_def)

text \<open>\<open>str::split\<close> on one character, and the decimal \<open>parse\<close> of an unsigned integer.\<close>

fun split_char :: "char \<Rightarrow> string \<Rightarrow> string list" where
  "split_char c [] = [[]]"
| "split_char c (x # xs) =
     (if x = c then [] # split_char c xs
      else (case split_char c xs of [] \<Rightarrow> [[x]] | y # ys \<Rightarrow> (x # y) # ys))"

fun digits_value_acc :: "nat \<Rightarrow> string \<Rightarrow> nat" where
  "digits_value_acc acc [] = acc"
| "digits_value_acc acc (c # cs) = digits_value_acc (10 * acc + (of_char c - 48)) cs"

definition digits_value :: "string \<Rightarrow> nat" where
  "digits_value s = digits_value_acc 0 s"

text \<open>
  \<open>FromStr\<close> for unsigned integers below \<open>bound\<close>: one optional leading plus, at least one digit,
  digits only, and an error on overflow.
\<close>

definition parse_unsigned :: "nat \<Rightarrow> string \<Rightarrow> nat option" where
  "parse_unsigned bound s =
     (let ds = (case s of [] \<Rightarrow> [] | c # cs \<Rightarrow> if c = CHR ''+'' then cs else s) in
      if ds \<noteq> [] \<and> list_all ascii_digit ds \<and> digits_value ds < bound
      then Some (digits_value ds) else None)"

text \<open>\<open>to_string\<close> of an unsigned integer.\<close>

fun decimal :: "nat \<Rightarrow> string" where
  "decimal n =
     (if n < 10 then [char_of (48 + n)] else decimal (n div 10) @ [char_of (48 + n mod 10)])"

declare decimal.simps [simp del]

text \<open>\<open>to_string\<close> of a signed integer.\<close>

definition signed_decimal :: "int \<Rightarrow> string" where
  "signed_decimal x = (if x < 0 then ''-'' @ decimal (nat (- x)) else decimal (nat x))"

lemma split_char_nonempty [simp]: "split_char c s \<noteq> []"
  by (induction s) (auto split: list.splits)

lemma split_char_none: "c \<notin> set s \<Longrightarrow> split_char c s = [s]"
  by (induction s) auto

lemma split_char_append: "c \<notin> set a \<Longrightarrow> split_char c (a @ c # b) = a # split_char c b"
  by (induction a) auto

lemma digits_value_acc_append:
  "digits_value_acc acc (xs @ ys) = digits_value_acc (digits_value_acc acc xs) ys"
  by (induction acc xs rule: digits_value_acc.induct) auto

lemma of_char_digit: "n < 10 \<Longrightarrow> (of_char (char_of (48 + n) :: char) :: nat) = 48 + n"
  by simp

lemma digits_value_decimal: "digits_value (decimal n) = n"
proof (induction n rule: decimal.induct)
  case (1 n)
  show ?case
  proof (cases "n < 10")
    case True
    then show ?thesis by (simp add: decimal.simps [of n] digits_value_def)
  next
    case False
    with 1 have "digits_value (decimal (n div 10)) = n div 10" by simp
    with False show ?thesis
      by (simp add: decimal.simps [of n] digits_value_def digits_value_acc_append)
  qed
qed

lemma decimal_ascii: "list_all ascii_digit (decimal n)"
proof (induction n rule: decimal.induct)
  case (1 n)
  then show ?case
    by (cases "n < 10") (simp_all add: decimal.simps [of n] ascii_digit_def)
qed

lemma decimal_nonempty [simp]: "decimal n \<noteq> []"
  by (subst decimal.simps) simp

lemma decimal_hd: "10 \<le> n \<Longrightarrow> hd (decimal n) \<noteq> CHR ''0''"
proof (induction n rule: decimal.induct)
  case (1 n)
  have step: "decimal n = decimal (n div 10) @ [char_of (48 + n mod 10)]"
    using "1.prems" by (subst decimal.simps) simp
  show ?case
  proof (cases "10 \<le> n div 10")
    case True
    with 1 step show ?thesis by (simp add: hd_append)
  next
    case False
    have "n div 10 \<noteq> 0" using "1.prems" by simp
    have "decimal (n div 10) = [char_of (48 + n div 10)]"
      using False by (simp add: decimal.simps [of "n div 10"])
    moreover have "char_of (48 + n div 10) \<noteq> CHR ''0''"
    proof
      assume "char_of (48 + n div 10) = CHR ''0''"
      then have "of_char (char_of (48 + n div 10) :: char) = (of_char CHR ''0'' :: nat)"
        by (rule arg_cong)
      with False \<open>n div 10 \<noteq> 0\<close> show False by simp
    qed
    ultimately show ?thesis using step by simp
  qed
qed

lemma ascii_digit_chars: "list_all ascii_digit s \<Longrightarrow> \<not> ascii_digit c \<Longrightarrow> c \<notin> set s"
  by (auto simp: list_all_iff)

lemma parse_unsigned_decimal: "n < bound \<Longrightarrow> parse_unsigned bound (decimal n) = Some n"
proof -
  assume "n < bound"
  moreover have "CHR ''+'' \<notin> set (decimal n)"
    by (rule ascii_digit_chars [OF decimal_ascii]) (simp add: ascii_digit_def)
  ultimately show ?thesis
    using decimal_nonempty [of n] decimal_ascii [of n] digits_value_decimal [of n]
    by (cases "decimal n") (auto simp: parse_unsigned_def Let_def)
qed

subsection \<open>Unicode scalar values\<close>

text \<open>
  \<open>str::chars\<close>: a scalar value is a lead byte with its continuation bytes (the bytes from
  128 to 191), so the bytes of a text are cut at the lead bytes.
\<close>

definition continuation_byte :: "char \<Rightarrow> bool" where
  "continuation_byte c \<longleftrightarrow> 128 \<le> (of_char c :: nat) \<and> (of_char c :: nat) < 192"

function scalars :: "string \<Rightarrow> string list" where
  "scalars [] = []"
| "scalars (c # cs) = (c # takeWhile continuation_byte cs) # scalars (dropWhile continuation_byte cs)"
  by pat_completeness auto
termination
  by (relation "measure length") (auto simp: le_imp_less_Suc length_dropWhile_le)

lemma concat_scalars [simp]: "concat (scalars s) = s"
  by (induction s rule: scalars.induct) simp_all

lemma length_scalars_le: "length (scalars s) \<le> length s"
proof (induction s rule: scalars.induct)
  case (2 c cs)
  then show ?case using length_dropWhile_le [of continuation_byte cs] by simp
qed simp

lemma scalars_ascii: "list_all (\<lambda>c. (of_char c :: nat) < 128) s \<Longrightarrow> scalars s = map (\<lambda>c. [c]) s"
proof (induction s rule: scalars.induct)
  case (2 c cs)
  then have "takeWhile continuation_byte cs = []" "dropWhile continuation_byte cs = cs"
    by (cases cs; simp add: continuation_byte_def)+
  with 2 show ?case by simp
qed simp

end
