(* ===== verification/Types.thy ===== *)
theory Types
  imports Prelude
begin

section \<open>The shared vocabulary (crate tam-types)\<close>

text \<open>
  The identifiers, money, files, marketplaces and event vocabulary of
  \<open>crates/tam-types/src/lib.rs\<close>, with the identifier grammar of \<open>natives.rs\<close> and the
  attribution types of \<open>actor.rs\<close>. A newtype is a one-constructor datatype. The length of a
  fixed array is the predicate \<open>uuid_ok\<close>. Proved here: a UUID survives rendering and
  parsing, the price constructor admits exactly positive amounts, the counters of a finished
  run saturate rather than wrap, and the kind strings of the event stream are a closed set.
\<close>

subsection \<open>Identifiers\<close>

datatype Uuid = Uuid (uuid_bytes: "u8 list")

definition uuid_ok :: "Uuid \<Rightarrow> bool" where
  "uuid_ok u \<longleftrightarrow> length (uuid_bytes u) = 16"

text \<open>\<open>Uuid::to_hyphenated\<close>: a hyphen before bytes 4, 6, 8 and 10.\<close>

fun hyphenate_from :: "nat \<Rightarrow> u8 list \<Rightarrow> string" where
  "hyphenate_from i [] = []"
| "hyphenate_from i (b # bs) =
     (if i \<in> {4, 6, 8, 10} then ''-'' else []) @ hex_byte b @ hyphenate_from (Suc i) bs"

definition to_hyphenated :: "Uuid \<Rightarrow> string" where
  "to_hyphenated u = hyphenate_from 0 (uuid_bytes u)"

text \<open>
  \<open>u8::from_str_radix(pair, 16)\<close> on a two-byte slice. The standard library accepts one
  leading plus sign, so \<open>+f\<close> is read as 15.
\<close>

definition u8_from_hex_pair :: "char \<Rightarrow> char \<Rightarrow> u8 option" where
  "u8_from_hex_pair a b =
     (if a = CHR ''+'' then map_option of_nat (hex_value b)
      else (case (hex_value a, hex_value b) of
              (Some x, Some y) \<Rightarrow> Some (of_nat (16 * x + y))
            | _ \<Rightarrow> None))"

fun parse_hex_pairs :: "string \<Rightarrow> u8 list option" where
  "parse_hex_pairs [] = Some []"
| "parse_hex_pairs [a] = None"
| "parse_hex_pairs (a # b # rest) =
     (case u8_from_hex_pair a b of
        None \<Rightarrow> None
      | Some x \<Rightarrow> map_option (Cons x) (parse_hex_pairs rest))"

text \<open>\<open>Uuid::parse_hyphenated\<close>.\<close>

definition parse_hyphenated :: "string \<Rightarrow> Uuid option" where
  "parse_hyphenated raw =
     (let bytes_hex = filter (\<lambda>c. c \<noteq> CHR ''-'') raw in
      if length raw \<noteq> 36 \<or> length bytes_hex \<noteq> 32 then None
      else map_option Uuid (parse_hex_pairs bytes_hex))"

lemma hex_byte_no_hyphen [simp]:
  "filter (\<lambda>c. c \<noteq> CHR ''-'') (hex_byte b) = hex_byte b"
  using hex_digit_plain [of "unat b div 16"] hex_digit_plain [of "unat b mod 16"]
    u8_nibbles_bound [of b]
  by (simp add: hex_byte_def unat_high_nibble unat_low_nibble)

lemma u8_from_hex_byte: "u8_from_hex_pair (hex_byte b ! 0) (hex_byte b ! 1) = Some b"
proof -
  have hi: "unat b div 16 < 16" by (rule u8_nibbles_bound)
  have lo: "unat b mod 16 < 16" by simp
  have "(of_nat (16 * (unat b div 16) + unat b mod 16) :: u8) = of_nat (unat b)"
    by simp
  then have eq: "(of_nat (16 * (unat b div 16) + unat b mod 16) :: u8) = b"
    by simp
  show ?thesis
    using hex_value_digit [OF hi] hex_value_digit [OF lo] hex_digit_plain [OF hi] eq
    by (simp add: u8_from_hex_pair_def hex_byte_def unat_high_nibble unat_low_nibble
        del: of_nat_add of_nat_mult)
qed

lemma filter_hyphenate: "filter (\<lambda>c. c \<noteq> CHR ''-'') (hyphenate_from i bs) = concat (map hex_byte bs)"
  by (induction i bs rule: hyphenate_from.induct) auto

lemma length_hyphenate:
  "length (hyphenate_from i bs)
     = 2 * length bs + length (filter (\<lambda>j. j \<in> {4, 6, 8, 10}) [i..<i + length bs])"
proof (induction i bs rule: hyphenate_from.induct)
  case (2 i b bs)
  have "[i..<i + length (b # bs)] = i # [Suc i..<Suc i + length bs]"
    by (simp add: upt_rec)
  then show ?case using 2 by simp
qed simp

lemma parse_hex_pairs_render: "parse_hex_pairs (concat (map hex_byte bs)) = Some bs"
proof (induction bs)
  case (Cons b bs)
  have "hex_byte b = [hex_byte b ! 0, hex_byte b ! 1]"
    by (simp add: hex_byte_def)
  then have "parse_hex_pairs (concat (map hex_byte (b # bs)))
      = parse_hex_pairs (hex_byte b ! 0 # hex_byte b ! 1 # concat (map hex_byte bs))"
    by (metis append_Cons append_Nil concat.simps(2) list.simps(9))
  then show ?case using Cons u8_from_hex_byte [of b] by simp
qed simp

lemma parse_render_uuid:
  assumes "uuid_ok u"
  shows "parse_hyphenated (to_hyphenated u) = Some u"
proof -
  obtain bs where u: "u = Uuid bs" and len: "length bs = 16"
    using assms by (cases u) (simp add: uuid_ok_def)
  have "length (filter (\<lambda>j. j \<in> {4, 6, 8, 10}) [0..<16]) = (4::nat)"
    by (simp add: upt_rec)
  then have "length (hyphenate_from 0 bs) = 36"
    by (simp add: length_hyphenate len)
  moreover have "length (concat (map hex_byte bs)) = 32"
    using len by (simp add: length_concat comp_def sum_list_triv)
  ultimately show ?thesis
    by (simp add: parse_hyphenated_def to_hyphenated_def u filter_hyphenate
        parse_hex_pairs_render)
qed

lemma parse_hex_pairs_length: "parse_hex_pairs s = Some bs \<Longrightarrow> 2 * length bs = length s"
  by (induction s arbitrary: bs rule: parse_hex_pairs.induct) (auto split: option.splits)

lemma parsed_uuid_ok: "parse_hyphenated s = Some u \<Longrightarrow> uuid_ok u"
  by (auto simp: parse_hyphenated_def uuid_ok_def Let_def split: if_splits
      dest!: parse_hex_pairs_length)

datatype Timestamp = Timestamp (ts_ms: i64)
datatype LogicalInstant = LogicalInstant (li_ms: i64)
datatype ContentHash = ContentHash (hash_bytes: "u8 list")

datatype OrgId = OrgId Uuid
datatype ProductId = ProductId Uuid
datatype FileId = FileId Uuid
datatype MappingId = MappingId Uuid
datatype AttemptId = AttemptId Uuid
datatype JobId = JobId Uuid
datatype ConnectionId = ConnectionId Uuid
datatype CanonicalTermId = CanonicalTermId (term_uuid: Uuid)
datatype UserId = UserId Uuid

subsection \<open>Marketplaces and inventories\<close>

datatype Marketplace = MTes | MEtsy | MTpt

datatype TransportClass = OfficialApi | SellerDevice

fun transport_class :: "Marketplace \<Rightarrow> TransportClass" where
  "transport_class MTes = SellerDevice"
| "transport_class MTpt = SellerDevice"
| "transport_class MEtsy = OfficialApi"

datatype InventoryId = Tes | Etsy | Tpt

datatype Currency = Gbp | Usd

fun currency_code :: "Currency \<Rightarrow> string" where
  "currency_code Gbp = ''GBP''"
| "currency_code Usd = ''USD''"

datatype CurrencyRule = Fixed Currency | SellerScoped | CurrencyUnmeasured

fun marketplace_of :: "InventoryId \<Rightarrow> Marketplace" where
  "marketplace_of Tes = MTes"
| "marketplace_of Etsy = MEtsy"
| "marketplace_of Tpt = MTpt"

fun currency_rule :: "InventoryId \<Rightarrow> CurrencyRule" where
  "currency_rule Tes = Fixed Gbp"
| "currency_rule Tpt = Fixed Usd"
| "currency_rule Etsy = SellerScoped"

subsection \<open>Money\<close>

text \<open>The fields of \<open>Money\<close> are private to its crate: \<open>money_new\<close> is the only constructor.\<close>

datatype Money = MkMoney (minor_units: i64) (money_currency: Currency)

datatype MoneyError = NotPositive

definition money_new :: "i64 \<Rightarrow> Currency \<Rightarrow> MoneyError + Money" where
  "money_new units c = (if units \<le> 0 then Inl NotPositive else Inr (MkMoney units c))"

lemma money_new_Inr [simp]: "money_new n c = Inr m \<longleftrightarrow> 0 < n \<and> m = MkMoney n c"
  by (auto simp: money_new_def)

datatype PriceIntent = Free | Paid Money

datatype Rounding = Nearest | UpToCharm

datatype PriceRule = Converted i64 Rounding | Explicit PriceIntent

subsection \<open>Failure codes and field mismatches\<close>

datatype FailureCode =
    SelectorNotFound | SelectorAmbiguous | SelectorResolvedViaFallback
  | PreconditionElementAbsent | NavigationCancelled | UnexpectedOrigin
  | SubmitNoConfirmation | ChallengePresented | SessionExpired | UploadRejected
  | RateLimited | VerificationMismatch | FormSchemaDrift | AdapterVersionRejected
  | OtherFailure

datatype FailureDetail = FailureDetail string

datatype TermKind = Subject | Topic | ResourceType | Phase | Licence

datatype FieldKey = Title | Description | Price | Taxonomy | Grades | Files

datatype Arity = One | Many

fun field_cardinality :: "FieldKey \<Rightarrow> Arity" where
  "field_cardinality Title = One"
| "field_cardinality Description = One"
| "field_cardinality Price = One"
| "field_cardinality Taxonomy = Many"
| "field_cardinality Grades = Many"
| "field_cardinality Files = Many"

datatype MismatchClass =
    Normalised | Truncated nat | Missing | WrongField FieldKey | Unexpected

record FieldMismatch =
  fm_field :: FieldKey
  fm_class :: MismatchClass

datatype MismatchResponse = Accept | Degrade | HaltInventory | HaltAndPage

fun mismatch_response :: "MismatchClass \<Rightarrow> MismatchResponse" where
  "mismatch_response Normalised = Accept"
| "mismatch_response (Truncated n) = Degrade"
| "mismatch_response Missing = HaltInventory"
| "mismatch_response (WrongField f) = HaltAndPage"
| "mismatch_response Unexpected = HaltAndPage"

subsection \<open>Files\<close>

datatype FileRole = PayloadRole | PreviewRole | CoverRole
datatype FileKind = Pdf | Pptx | Docx | Zip | Image

datatype ScanOutcome =
    ScanPending | ScanClean Timestamp | ScanInfected string | ScanFailed FailureCode

record Observation =
  obs_device :: string
  obs_hash :: ContentHash
  obs_byte_len :: u64
  obs_scan :: ScanOutcome
  obs_observed_at :: Timestamp

text \<open>
  \<open>Sourced\<close> carries, in order: the marketplace, the connection, the resource, the entry, the
  name and the content type of the bytes handed onward, and the device's observation.
\<close>

datatype FileBytes =
    Held ContentHash u64 ScanOutcome
  | Sourced Marketplace ConnectionId string "string option" string string Observation

fun fb_digest :: "FileBytes \<Rightarrow> ContentHash" where
  "fb_digest (Held h n s) = h"
| "fb_digest (Sourced m c r e n t obs) = obs_hash obs"

fun fb_byte_len :: "FileBytes \<Rightarrow> u64" where
  "fb_byte_len (Held h n s) = n"
| "fb_byte_len (Sourced m c r e n t obs) = obs_byte_len obs"

fun fb_scan :: "FileBytes \<Rightarrow> ScanOutcome" where
  "fb_scan (Held h n s) = s"
| "fb_scan (Sourced m c r e n t obs) = obs_scan obs"

record ProductFile =
  pf_id :: FileId
  pf_role :: FileRole
  pf_kind :: FileKind
  pf_bytes :: FileBytes

record PayloadSet =
  ps_head :: ProductFile
  ps_tail :: "ProductFile list"

definition payload_iter :: "PayloadSet \<Rightarrow> ProductFile list" where
  "payload_iter p = ps_head p # ps_tail p"

datatype CopyFormat = Markdown | Html

record ListingCopy =
  lc_body :: string
  lc_format :: CopyFormat

datatype LengthUnit = Bytes | Utf16CodeUnits | Codepoints | GraphemeClusters

record ImportedTerm =
  it_inventory :: InventoryId
  it_kind :: "TermKind option"
  it_segments :: "string list"
  it_native_id :: "string option"

datatype ImportedPrice = ImportedFree | ImportedPaid i64 string

subsection \<open>TPT identifier grammar (natives.rs)\<close>

definition ascii_lowercase :: "char \<Rightarrow> bool" where
  "ascii_lowercase c \<longleftrightarrow> 97 \<le> (of_char c :: nat) \<and> (of_char c :: nat) \<le> 122"

definition is_tpt_tag_slug :: "string \<Rightarrow> bool" where
  "is_tpt_tag_slug native \<longleftrightarrow>
     native \<noteq> [] \<and> list_ex (\<lambda>b. \<not> ascii_digit b) native
     \<and> list_all (\<lambda>b. ascii_lowercase b \<or> ascii_digit b \<or> b = CHR ''-'') native"

subsection \<open>Attribution (actor.rs)\<close>

datatype SystemComponent =
  CEngine | CBroker | CWorker | CImport | CDevice | CScheduler

fun component_str :: "SystemComponent \<Rightarrow> string" where
  "component_str CEngine = ''engine''"
| "component_str CBroker = ''broker''"
| "component_str CWorker = ''worker''"
| "component_str CImport = ''import''"
| "component_str CDevice = ''device''"
| "component_str CScheduler = ''scheduler''"

datatype Actor = Person UserId | System SystemComponent

fun actor_kind :: "Actor \<Rightarrow> string" where
  "actor_kind (Person u) = ''person''"
| "actor_kind (System c) = ''system''"

fun actor_id :: "Actor \<Rightarrow> string" where
  "actor_id (Person (UserId u)) = to_hyphenated u"
| "actor_id (System c) = component_str c"

record Stamp =
  st_at :: Timestamp
  st_actor :: Actor

definition stamp_system :: "SystemComponent \<Rightarrow> Timestamp \<Rightarrow> Stamp" where
  "stamp_system c at = \<lparr>st_at = at, st_actor = System c\<rparr>"

subsection \<open>What a finished run reports\<close>

datatype NoticeTone = ToneSuccess | ToneInfo | ToneWarning | ToneError

record NotificationCounts =
  nc_succeeded :: u32
  nc_degraded :: u32
  nc_failed :: u32
  nc_ambiguous :: u32
  nc_skipped :: u32
  nc_blocked :: u32

definition counts_is_empty :: "NotificationCounts \<Rightarrow> bool" where
  "counts_is_empty c \<longleftrightarrow> nc_succeeded c = 0 \<and> nc_degraded c = 0 \<and> nc_failed c = 0
     \<and> nc_ambiguous c = 0 \<and> nc_skipped c = 0 \<and> nc_blocked c = 0"

definition counts_total :: "NotificationCounts \<Rightarrow> u32" where
  "counts_total c =
     u32_saturating_add (u32_saturating_add (u32_saturating_add (u32_saturating_add
       (u32_saturating_add (nc_succeeded c) (nc_degraded c)) (nc_failed c))
       (nc_ambiguous c)) (nc_skipped c)) (nc_blocked c)"

definition counts_tone :: "NotificationCounts \<Rightarrow> NoticeTone" where
  "counts_tone c =
     (if nc_failed c > 0 then ToneError
      else if nc_ambiguous c > 0 \<or> nc_blocked c > 0 \<or> nc_degraded c > 0 then ToneWarning
      else if nc_succeeded c > 0 then ToneSuccess
      else ToneInfo)"

text \<open>The saturating sum is the true sum cut at the width, so it never understates to zero.\<close>

lemma unat_counts_total:
  "unat (counts_total c) = min (2 ^ 32 - 1) (unat (nc_succeeded c) + unat (nc_degraded c)
     + unat (nc_failed c) + unat (nc_ambiguous c) + unat (nc_skipped c) + unat (nc_blocked c))"
  by (simp add: counts_total_def unat_u32_saturating_add)

lemma counts_total_eq_0: "counts_total c = 0 \<longleftrightarrow> counts_is_empty c"
proof -
  have "counts_total c = 0 \<longleftrightarrow> unat (counts_total c) = 0"
    by (simp add: unat_eq_0)
  also have "\<dots> \<longleftrightarrow> counts_is_empty c"
    unfolding unat_counts_total by (auto simp: counts_is_empty_def unat_eq_0 min_def)
  finally show ?thesis .
qed

end
