(* ===== verification/Adapter.thy ===== *)
theory Adapter
  imports Types
begin

section \<open>The marketplace adapter seam (crate tam-marketplace)\<close>

text \<open>
  The vocabulary that crosses between the sync machine, its driver and a marketplace adapter
  (\<open>crates/tam-marketplace/src/lib.rs\<close>): listing identifiers, receipts, the reasons a read is
  permitted, the six outcomes, adapter errors, locators and observations, together with
  \<open>settle\<close>, the only function that mints a receipt, and the canonical encoding behind the
  idempotency key (\<open>idempotency.rs\<close>). The UUIDv5 digest itself belongs to the \<open>uuid\<close> crate and is a
  parameter of \<open>derive_idempotency_key\<close>.
\<close>

datatype WriteAttemptId = WriteAttemptId Uuid
datatype FormId = FormId Uuid
datatype IdempotencyKey = IdempotencyKey Uuid

datatype RemoteListingId = RTes string | RTpt u64 | REtsy u64

fun remote_marketplace :: "RemoteListingId \<Rightarrow> Marketplace" where
  "remote_marketplace (RTes url) = MTes"
| "remote_marketplace (RTpt product_id) = MTpt"
| "remote_marketplace (REtsy listing_id) = MEtsy"

subsection \<open>Receipts and the reasons a read is permitted\<close>

record WriteReceipt =
  wr_attempt :: AttemptId
  wr_id :: RemoteListingId
  wr_at :: Timestamp

definition issue :: "AttemptId \<Rightarrow> RemoteListingId \<Rightarrow> Timestamp \<Rightarrow> WriteReceipt" where
  "issue attempt i at = \<lparr>wr_attempt = attempt, wr_id = i, wr_at = at\<rparr>"

record CanaryGrant =
  cg_inventory :: InventoryId
  cg_decided_at :: Timestamp

datatype FetchReason =
    FirstPartyExport InventoryId
  | VerifyWrite WriteReceipt
  | VerifyAttempt WriteAttemptId
  | PollLifecycle WriteReceipt
  | StructuralProbe CanaryGrant

datatype CorrelationMarker = CorrelationMarker string
datatype RecordedTitle = RecordedTitle string

record FieldDiffReport =
  fd_normaliser_version :: u32
  fd_mismatches :: "FieldMismatch list"

datatype AmbiguityCause =
    SubmitTimedOut | ResponseEventLost | ProcessKilledByBackstop
  | ReadBackIndeterminate | NoDurableIdentifier

fun ambiguity_name :: "AmbiguityCause \<Rightarrow> string" where
  "ambiguity_name SubmitTimedOut = ''submit_timed_out''"
| "ambiguity_name ResponseEventLost = ''response_event_lost''"
| "ambiguity_name ProcessKilledByBackstop = ''process_killed_by_backstop''"
| "ambiguity_name ReadBackIndeterminate = ''read_back_indeterminate''"
| "ambiguity_name NoDurableIdentifier = ''no_durable_identifier''"

datatype ChallengeKind =
  EmailedOneTimePassword | Captcha | JavaScriptInterstitial | ReauthRequired

datatype EvidenceRef = EvidenceRef string

subsection \<open>Outcomes\<close>

datatype Outcome =
    Out_Committed WriteReceipt FieldDiffReport
  | Out_Degraded WriteReceipt FieldDiffReport
  | Out_Rejected FailureCode FailureDetail
  | Out_Ambiguous AttemptId AmbiguityCause EvidenceRef
  | Out_Blocked ChallengeKind
  | Out_Skipped FailureCode

fun is_truncated :: "MismatchClass \<Rightarrow> bool" where
  "is_truncated (Truncated n) = True"
| "is_truncated Normalised = False"
| "is_truncated Missing = False"
| "is_truncated (WrongField f) = False"
| "is_truncated Unexpected = False"

definition settle :: "AttemptId \<Rightarrow> RemoteListingId \<Rightarrow> Timestamp \<Rightarrow> FieldDiffReport \<Rightarrow> Outcome" where
  "settle attempt i at report =
     (let receipt = issue attempt i at;
          degraded = list_ex (\<lambda>m. is_truncated (fm_class m)) (fd_mismatches report)
      in if degraded then Out_Degraded receipt report else Out_Committed receipt report)"

definition verify_after :: "WriteReceipt \<Rightarrow> FetchReason" where
  "verify_after receipt = VerifyWrite receipt"

subsection \<open>Lifecycles and create strategies\<close>

datatype MarkerField = DescriptionTail | InternalReference
datatype MarkerLifetime = MarkerLifetime u32

datatype RemoteLifecycleKind =
  K_Absent | K_Draft | K_Submitted | K_InReview | K_Live | K_Rejected | K_Withdrawn

datatype CreateStrategy =
    DraftThenPublish RemoteLifecycleKind
  | MarkerStrategy MarkerField MarkerLifetime
  | HaltOnAmbiguity

datatype RemoteLifecycle =
    L_Absent | L_Draft | L_Submitted Timestamp | L_InReview Timestamp | L_Live Timestamp
  | L_Rejected Timestamp "string option" | L_Withdrawn Timestamp

datatype ListingState = Draft | Live

record LifecycleTransition =
  lt_from :: ListingState
  lt_to :: ListingState

subsection \<open>Adapter errors\<close>

datatype FormSchemaFingerprint = FormSchemaFingerprint ContentHash

record SchemaDrift =
  sd_form :: FormId
  sd_expected :: FormSchemaFingerprint
  sd_observed :: FormSchemaFingerprint
  sd_added :: "string list"
  sd_removed :: "string list"

datatype ConnectFailure = DnsFailure | TcpRefused | TlsHandshakeFailed | NoRouteToHost

datatype AdapterError =
    AE_Ambiguous AmbiguityCause
  | AE_Rejected FailureCode FailureDetail
  | AE_Challenge ChallengeKind
  | AE_SessionExpired
  | AE_SchemaDrift SchemaDrift
  | AE_RateLimited "u32 option"
  | AE_NotSent ConnectFailure
  | AE_Uncaptured string

subsection \<open>Field sets, evidence, locators and observations\<close>

record FieldSet =
  fs_entries :: "(FieldKey \<times> string) list"
  fs_files :: "FileId list"
  fs_cover :: "FileId option"
  fs_body_format :: "CopyFormat option"
  fs_appropriate_for_country :: "bool option"

record NativeTerm =
  nt_native_id :: "string option"
  nt_segments :: "string list"

record SubmitEvidence =
  se_http_status :: "16 word option"
  se_response_body_digest :: "ContentHash option"
  se_landed_on_route :: "string option"
  se_landed :: "RemoteListingId option"
  se_observed_lag :: bool

datatype ListingLocator =
    Durable RemoteListingId
  | Marker CorrelationMarker InventoryId
  | Recorded RecordedTitle InventoryId

record ObservedListing =
  ol_id :: RemoteListingId
  ol_fields :: "(FieldKey \<times> string) list"
  ol_lifecycle :: RemoteLifecycle

subsection \<open>The idempotency key (idempotency.rs)\<close>

fun inventory_ordinal :: "InventoryId \<Rightarrow> u8" where
  "inventory_ordinal Tes = 0"
| "inventory_ordinal Etsy = 2"
| "inventory_ordinal Tpt = 3"

text \<open>\<open>u32::to_be_bytes\<close>.\<close>

definition to_be_bytes :: "u32 \<Rightarrow> u8 list" where
  "to_be_bytes v = [ucast (drop_bit 24 v), ucast (drop_bit 16 v), ucast (drop_bit 8 v), ucast v]"

fun org_bytes :: "OrgId \<Rightarrow> u8 list" where
  "org_bytes (OrgId u) = uuid_bytes u"

fun product_bytes :: "ProductId \<Rightarrow> u8 list" where
  "product_bytes (ProductId u) = uuid_bytes u"

text \<open>The 69-byte canonical encoding the key is digested from.\<close>

definition canonical_intent ::
  "OrgId \<Rightarrow> InventoryId \<Rightarrow> ProductId \<Rightarrow> u32 \<Rightarrow> ContentHash \<Rightarrow> u8 list" where
  "canonical_intent org inventory pid version hash =
     org_bytes org @ [inventory_ordinal inventory] @ product_bytes pid
       @ to_be_bytes version @ hash_bytes hash"

definition namespace_tam_intent :: Uuid where
  "namespace_tam_intent =
     Uuid [0x1d, 0xe8, 0xf6, 0xc1, 0x9f, 0x8b, 0x4a, 0x55, 0x9b, 0x52, 0x7a, 0x1c, 0x3d, 0x1f, 0x5a, 0x10]"

definition derive_idempotency_key ::
  "(Uuid \<Rightarrow> u8 list \<Rightarrow> Uuid) \<Rightarrow> OrgId \<Rightarrow> InventoryId \<Rightarrow> ProductId \<Rightarrow> u32 \<Rightarrow> ContentHash
     \<Rightarrow> IdempotencyKey" where
  "derive_idempotency_key new_v5 org inventory pid version hash =
     IdempotencyKey (new_v5 namespace_tam_intent (canonical_intent org inventory pid version hash))"

lemma inventory_ordinal_inj: "inventory_ordinal a = inventory_ordinal b \<Longrightarrow> a = b"
  by (cases a; cases b) simp_all

lemma to_be_bytes_inj:
  assumes "to_be_bytes a = to_be_bytes b"
  shows "a = b"
proof (rule bit_word_eqI)
  fix n assume n: "n < LENGTH(32)"
  have bits: "\<And>k m. k \<in> {0, 8, 16, 24} \<Longrightarrow> m < 8 \<Longrightarrow> bit a (k + m) = bit b (k + m)"
  proof -
    fix k m :: nat assume k: "k \<in> {0, 8, 16, 24}" and m: "m < 8"
    have "(ucast (drop_bit k a) :: u8) = ucast (drop_bit k b)"
      using assms k by (auto simp: to_be_bytes_def)
    then have "bit (ucast (drop_bit k a) :: u8) m = bit (ucast (drop_bit k b) :: u8) m"
      by simp
    then show "bit a (k + m) = bit b (k + m)"
      using m by (simp add: bit_ucast_iff bit_drop_bit_eq)
  qed
  define k where "k = 8 * (n div 8)"
  have "k \<in> {0, 8, 16, 24}" using n by (auto simp: k_def)
  moreover have "n = k + n mod 8" by (simp add: k_def)
  ultimately show "bit a n = bit b n"
    using bits [of k "n mod 8"] by simp
qed

lemma canonical_intent_length:
  assumes "length (org_bytes org) = 16" "length (product_bytes p) = 16" "length (hash_bytes h) = 32"
  shows "length (canonical_intent org inventory p v h) = 69"
  using assms by (simp add: canonical_intent_def to_be_bytes_def)

text \<open>Every field is fixed-width, so the encoding determines the intent.\<close>

lemma canonical_intent_determines:
  assumes "canonical_intent o1 i1 p1 v1 h1 = canonical_intent o2 i2 p2 v2 h2"
    and "length (org_bytes o1) = 16" "length (org_bytes o2) = 16"
    and "length (product_bytes p1) = 16" "length (product_bytes p2) = 16"
  shows "o1 = o2 \<and> i1 = i2 \<and> p1 = p2 \<and> v1 = v2 \<and> h1 = h2"
proof -
  have "org_bytes o1 = org_bytes o2" and i: "inventory_ordinal i1 = inventory_ordinal i2"
    and rest: "product_bytes p1 @ to_be_bytes v1 @ hash_bytes h1
      = product_bytes p2 @ to_be_bytes v2 @ hash_bytes h2"
    using assms by (auto simp: canonical_intent_def append_eq_append_conv)
  from rest assms(4,5) have "product_bytes p1 = product_bytes p2"
    and "to_be_bytes v1 @ hash_bytes h1 = to_be_bytes v2 @ hash_bytes h2"
    by (auto simp: append_eq_append_conv)
  moreover from this(2) have "to_be_bytes v1 = to_be_bytes v2" "hash_bytes h1 = hash_bytes h2"
    by (auto simp: append_eq_append_conv to_be_bytes_def)
  ultimately show ?thesis
    using \<open>org_bytes o1 = org_bytes o2\<close> inventory_ordinal_inj [OF i] to_be_bytes_inj
    by (cases o1; cases o2; cases p1; cases p2; cases h1; cases h2)
      (auto intro: Uuid.expand)
qed

subsection \<open>Settling\<close>

lemma settle_class:
  "(\<exists>r rep. settle a i t report = Out_Degraded r rep)
     \<longleftrightarrow> (\<exists>m \<in> set (fd_mismatches report). is_truncated (fm_class m))"
  by (auto simp: settle_def Let_def list_ex_iff)

lemma settle_receipt:
  "settle a i t report \<in> {Out_Committed (issue a i t) report, Out_Degraded (issue a i t) report}"
  by (auto simp: settle_def Let_def)

end
