(* ===== verification/Domain.thy ===== *)
theory Domain
  imports Adapter
begin

section \<open>The domain vocabulary (crate tam-domain, lib.rs)\<close>

text \<open>
  The constants, taxonomy vocabulary, mapping aggregate, canonical product and job vocabulary
  declared in \<open>crates/tam-domain/src/lib.rs\<close> ahead of the sync machine, and the pure predicates
  beside them: the version gate for marketplace-sourced payloads, the attempt budget, the age
  interval constructor and the identifier check of a mapping.
\<close>

subsection \<open>Protocol constants and the version gate\<close>

definition LEASE_TTL_SECS :: i32 where "LEASE_TTL_SECS = 600"
definition ENTITLEMENT_GRACE_HOURS :: i32 where "ENTITLEMENT_GRACE_HOURS = 24"
definition ENTITLEMENT_TOKEN_VALIDITY_SECS :: i64 where "ENTITLEMENT_TOKEN_VALIDITY_SECS = 3600"

text \<open>A version is three \<open>u32\<close>s, held as naturals below \<open>2 ^ 32\<close>.\<close>

type_synonym version = "nat \<times> nat \<times> nat"

definition SOURCED_PAYLOAD_MIN_VERSION :: version where
  "SOURCED_PAYLOAD_MIN_VERSION = (0, 9, 0)"

text \<open>\<open>>=\<close> on Rust tuples is lexicographic.\<close>

fun version_ge :: "version \<Rightarrow> version \<Rightarrow> bool" where
  "version_ge (a, b, c) (x, y, z) \<longleftrightarrow> a > x \<or> a = x \<and> (b > y \<or> b = y \<and> c \<ge> z)"

definition segment :: "string \<Rightarrow> nat option" where
  "segment raw =
     (if length raw > 1 \<and> hd raw = CHR ''0'' then None else parse_unsigned (2 ^ 32) raw)"

definition parse_version_triple :: "string \<Rightarrow> version option" where
  "parse_version_triple raw =
     (let numeric = takeWhile (\<lambda>c. c \<noteq> CHR ''-'' \<and> c \<noteq> CHR ''+'') raw in
      case split_char (CHR ''.'') numeric of
        [p, q, r] \<Rightarrow>
          (case segment p of None \<Rightarrow> None | Some major \<Rightarrow>
          (case segment q of None \<Rightarrow> None | Some minor \<Rightarrow>
          (case segment r of None \<Rightarrow> None | Some patch \<Rightarrow> Some (major, minor, patch))))
      | _ \<Rightarrow> None)"

definition runs_sourced_payloads :: "string \<Rightarrow> bool" where
  "runs_sourced_payloads app_version =
     (case parse_version_triple app_version of
        None \<Rightarrow> False
      | Some triple \<Rightarrow> version_ge triple SOURCED_PAYLOAD_MIN_VERSION)"

definition attempt_budget_spent :: "i32 \<Rightarrow> i32 \<Rightarrow> bool" where
  "attempt_budget_spent attempt_count attempts_max \<longleftrightarrow>
     saturating_add 32 attempt_count 1 \<ge> attempts_max"

subsection \<open>Taxonomy vocabulary\<close>

datatype JobItemId = JobItemId Uuid

record CanonicalTerm =
  ct_id :: CanonicalTermId
  ct_kind :: TermKind
  ct_parent :: "CanonicalTermId option"
  ct_label :: string

datatype VocabularyId = VocabularyId (vid_inventory: InventoryId) (vid_kind: TermKind)

record VocabularyPath =
  vp_vocabulary :: VocabularyId
  vp_segments :: "string list"
  vp_native_id :: "string option"

datatype EdgeKind = Exact | Broader | Narrower

datatype Decider = Imported string | Human UserId OrgId

record ProjectionEdge =
  pe_from :: CanonicalTermId
  pe_to :: VocabularyPath
  pe_kind :: EdgeKind
  pe_decided_by :: Decider
  pe_decided_at :: Timestamp

datatype TermProjection =
    TP_Exact VocabularyPath
  | TP_Broadened VocabularyPath "CanonicalTermId list"
  | TP_Ambiguous "VocabularyPath list"
  | TP_Absent

datatype AgeInterval = MkAge (low_years: u8) (high_years: u8)
datatype AgeIntervalError = Inverted

definition age_interval_new :: "u8 \<Rightarrow> u8 \<Rightarrow> AgeIntervalError + AgeInterval" where
  "age_interval_new lo hi = (if lo > hi then Inl Inverted else Inr (MkAge lo hi))"

datatype DeclarationSource = DeclImported VocabularyId | DeclSeller

record GradeDeclaration =
  gd_source :: DeclarationSource
  gd_raw :: "VocabularyPath list"
  gd_derived :: "AgeInterval option"

subsection \<open>The mapping aggregate\<close>

datatype SeverCause = RemovedByMarketplace | RemovedBySeller | NotFoundOnVerify

datatype Verification =
    V_Stale Timestamp
  | V_Clean Timestamp
  | V_Mismatched Timestamp FieldMismatch "FieldMismatch list"

datatype Binding =
    Unbound
  | Creating AttemptId "CorrelationMarker option"
  | Bound RemoteListingId Timestamp Verification
  | AmbiguousCreate AttemptId "RemoteListingId list" Timestamp
  | Severed RemoteListingId Timestamp SeverCause

datatype FieldPolicy = Managed | Frozen | ProposeField

record FieldPolicies =
  fp_title :: FieldPolicy
  fp_description :: FieldPolicy
  fp_price :: FieldPolicy
  fp_taxonomy :: FieldPolicy
  fp_grades :: FieldPolicy
  fp_files :: FieldPolicy

datatype PublishMode = DryRun | ProposePublish | Publish

record Mapping =
  mp_id :: MappingId
  mp_org :: OrgId
  mp_product :: ProductId
  mp_inventory :: InventoryId
  mp_binding :: Binding
  mp_policies :: FieldPolicies
  mp_price_rule :: PriceRule
  mp_publish :: PublishMode
  mp_lifecycle :: RemoteLifecycle

datatype MappingError = IdentifierMarketplaceMismatch

definition held_marketplace :: "Binding \<Rightarrow> Marketplace option" where
  "held_marketplace b =
     (case b of
        Bound i _ _ \<Rightarrow> Some (remote_marketplace i)
      | Severed i _ _ \<Rightarrow> Some (remote_marketplace i)
      | Unbound \<Rightarrow> None | Creating _ _ \<Rightarrow> None | AmbiguousCreate _ _ _ \<Rightarrow> None)"

definition mapping_check :: "Mapping \<Rightarrow> MappingError + unit" where
  "mapping_check m =
     (case held_marketplace (mp_binding m) of
        Some k \<Rightarrow> if k \<noteq> marketplace_of (mp_inventory m)
                  then Inl IdentifierMarketplaceMismatch else Inr ()
      | None \<Rightarrow> Inr ())"

subsection \<open>The canonical product\<close>

datatype RightsDeclaration = Unstated | Declared VocabularyPath

record CanonicalProduct =
  cp_id :: ProductId
  cp_org :: OrgId
  cp_title :: string
  cp_body :: ListingCopy
  cp_payload :: "PayloadSet option"
  cp_cover :: "ProductFile option"
  cp_previews :: "ProductFile list"
  cp_subjects :: "CanonicalTermId list"
  cp_grades :: GradeDeclaration
  cp_price :: PriceIntent
  cp_rights :: RightsDeclaration
  cp_native_residue :: "ImportedTerm list"

definition payload_files :: "CanonicalProduct \<Rightarrow> ProductFile list" where
  "payload_files p = (case cp_payload p of None \<Rightarrow> [] | Some s \<Rightarrow> payload_iter s)"

definition has_payload :: "CanonicalProduct \<Rightarrow> bool" where
  "has_payload p \<longleftrightarrow> cp_payload p \<noteq> None"

subsection \<open>The job vocabulary\<close>

datatype ItemOutcome =
  IO_Succeeded | IO_Degraded | IO_Failed | IO_Ambiguous | IO_Skipped | IO_Blocked

datatype BlockCause = BC_Reauth | BC_Challenge | BC_Reconciliation | BC_RateGovernor

datatype StepBudget = StepBudget (actions_remaining: u32)

record HaltScope =
  hs_org :: OrgId
  hs_inventory :: InventoryId

datatype CaptureCause =
  CC_Ambiguity | CC_SchemaDrift | CC_VerificationMismatch | CC_UnexpectedOrigin

datatype SellerEvent =
  SE_ReauthRequired | SE_ItemParked | SE_JobSettled | SE_InventoryHalted

subsection \<open>Lemmas\<close>

text \<open>A canonical three-part version: three decimal numbers, optionally a suffix.\<close>

definition render_version :: "nat \<Rightarrow> nat \<Rightarrow> nat \<Rightarrow> string" where
  "render_version a b c = decimal a @ ''.'' @ decimal b @ ''.'' @ decimal c"

lemma segment_decimal: "n < 2 ^ 32 \<Longrightarrow> segment (decimal n) = Some n"
proof -
  assume n: "n < 2 ^ 32"
  have "\<not> (length (decimal n) > 1 \<and> hd (decimal n) = CHR ''0'')"
    using decimal_hd [of n] by (cases "n < 10") (simp_all add: decimal.simps [of n])
  then show ?thesis using parse_unsigned_decimal [OF n] by (simp add: segment_def)
qed

lemma decimal_no_mark:
  "CHR ''.'' \<notin> set (decimal n)" "CHR ''-'' \<notin> set (decimal n)" "CHR ''+'' \<notin> set (decimal n)"
  by (rule ascii_digit_chars [OF decimal_ascii], simp add: ascii_digit_def)+

lemma takeWhile_suffix:
  assumes "\<And>c. c \<in> set a \<Longrightarrow> P c" and "suffix = [] \<or> \<not> P (hd suffix)"
  shows "takeWhile P (a @ suffix) = a"
  using assms by (cases suffix) (auto simp: takeWhile_append)

lemma parse_version_rendered:
  assumes "a < 2 ^ 32" "b < 2 ^ 32" "c < 2 ^ 32"
    and suffix: "suffix = [] \<or> hd suffix = CHR ''-'' \<or> hd suffix = CHR ''+''"
  shows "parse_version_triple (render_version a b c @ suffix) = Some (a, b, c)"
proof -
  have "takeWhile (\<lambda>x. x \<noteq> CHR ''-'' \<and> x \<noteq> CHR ''+'') (render_version a b c @ suffix)
      = render_version a b c"
    by (rule takeWhile_suffix)
      (use suffix decimal_no_mark in \<open>auto simp: render_version_def\<close>)
  moreover have "split_char (CHR ''.'') (render_version a b c) = [decimal a, decimal b, decimal c]"
    using decimal_no_mark by (simp add: render_version_def split_char_append split_char_none)
  ultimately show ?thesis
    using assms(1-3) by (simp add: parse_version_triple_def segment_decimal)
qed

lemma attempt_budget_spent_iff:
  assumes "in_signed 32 n" "in_signed 32 k"
  shows "attempt_budget_spent n k \<longleftrightarrow> n + 1 \<ge> k"
  using assms by (auto simp: attempt_budget_spent_def rust_int)

lemma age_interval_never_inverted: "age_interval_new lo hi = Inr a \<Longrightarrow> low_years a \<le> high_years a"
  by (auto simp: age_interval_new_def split: if_splits)

lemma payload_files_empty: "payload_files p = [] \<longleftrightarrow> \<not> has_payload p"
  by (simp add: payload_files_def has_payload_def payload_iter_def split: option.splits)

end
