(* ===== verification/SyncMachine.thy ===== *)
theory SyncMachine
  imports Domain
begin

section \<open>The sync machine (crate tam-domain, lib.rs)\<close>

text \<open>
  \<open>SyncMachine\<close>, \<open>SyncState\<close>, \<open>Input\<close>, \<open>Effect\<close> and the transition function \<open>step\<close>, handler by
  handler and in the source's order: \<open>initial\<close>, \<open>entry_row\<close>, \<open>step\<close>, \<open>attempt_conflict\<close> and one
  \<open>_rows\<close> function per state. A \<open>Result<Transition, MachineError>\<close> is \<open>MachineError + Transition\<close>.
  The machine is consumed by every step, so the functions take it as a value and return the
  next one. At the end, \<open>sync_row\<close> lists every accepted transition as one rule, and
  \<open>step_iff_row\<close> shows that \<open>step\<close> accepts exactly those; the invariants of the following
  theories are inductions over these rules.
\<close>

subsection \<open>Operations, and the two predicates machine and driver share\<close>

datatype ItemOperation =
    Create
  | PublishTo ListingState
  | Revise RemoteListingId LifecycleTransition
  | Remove RemoteListingId ListingState

fun subject :: "ItemOperation \<Rightarrow> RemoteListingId option" where
  "subject Create = None"
| "subject (PublishTo to) = None"
| "subject (Revise s t) = Some s"
| "subject (Remove s st) = Some s"

fun seller_clears :: "ChallengeKind \<Rightarrow> bool" where
  "seller_clears ReauthRequired = True"
| "seller_clears EmailedOneTimePassword = True"
| "seller_clears Captcha = False"
| "seller_clears JavaScriptInterstitial = False"

definition park_gate_for :: "ChallengeKind \<Rightarrow> ChallengeKind option" where
  "park_gate_for challenge = (if seller_clears challenge then Some ReauthRequired else None)"

fun is_live :: "RemoteLifecycle \<Rightarrow> bool" where
  "is_live (L_Live since) = True"
| "is_live L_Absent = False"
| "is_live L_Draft = False"
| "is_live (L_Submitted at) = False"
| "is_live (L_InReview since) = False"
| "is_live (L_Rejected at reason) = False"
| "is_live (L_Withdrawn at) = False"

definition reaches :: "RemoteLifecycle \<Rightarrow> ListingState \<Rightarrow> bool" where
  "reaches lifecycle to =
     (case to of Draft \<Rightarrow> lifecycle \<noteq> L_Absent | Live \<Rightarrow> is_live lifecycle)"

fun verification_settles :: "ItemOperation \<Rightarrow> ObservedListing \<Rightarrow> bool" where
  "verification_settles Create observed = (ol_lifecycle observed \<noteq> L_Absent)"
| "verification_settles (PublishTo to) observed = reaches (ol_lifecycle observed) to"
| "verification_settles (Revise s t) observed = reaches (ol_lifecycle observed) (lt_to t)"
| "verification_settles (Remove s st) observed = (ol_lifecycle observed = L_Absent)"

subsection \<open>States, inputs, effects\<close>

datatype SyncState =
    S_AwaitingPreflight
  | S_PreflightAsserted "FormSchemaFingerprint option"
  | S_IntentRecorded WriteAttemptId "FormSchemaFingerprint option"
  | S_Submitted WriteAttemptId SubmitEvidence
  | S_AwaitingReadBack WriteAttemptId ListingLocator
  | S_Parked "WriteAttemptId option" ChallengeKind
  | S_Stranded WriteAttemptId ListingLocator
  | S_Terminal Outcome

datatype Input =
    I_PreflightResult "SchemaDrift + FormSchemaFingerprint"
  | I_IntentRecorded WriteAttemptId
  | I_SubmitResult "AdapterError + SubmitEvidence"
  | I_ReadBackResult "AdapterError + ObservedListing"
  | I_ReconcileResult "AdapterError + RemoteListingId option"
  | I_ResumeStranded WriteAttemptId RecordedTitle
  | I_ChallengeCleared
  | I_ParkExpired
  | I_BudgetExhausted

datatype Effect =
    E_AssertFormSchema FormId
  | E_RecordIntent ContentHash
  | E_Submit WriteAttemptId IdempotencyKey FieldSet
  | E_Revise WriteAttemptId RemoteListingId FieldSet LifecycleTransition
  | E_Remove WriteAttemptId RemoteListingId ListingState
  | E_ReadBack ListingLocator FetchReason
  | E_Reconcile WriteAttemptId ListingLocator
  | E_ParkItem JobItemId ChallengeKind LogicalInstant
  | E_RequeueBehindGate ConnectionId BlockCause
  | E_CaptureDiagnostics "WriteAttemptId option" CaptureCause
  | E_Halt HaltScope
  | E_Notify OrgId SellerEvent

datatype MachineError =
    InputNotApplicable | AttemptMismatch | EffectBudgetExceeded | UnloweredPublish
  | ResumeNotACreate

datatype Capture = Diagnostics | SkipCapture

definition PARK_TTL_MS :: i64 where
  "PARK_TTL_MS = 24 * 60 * 60 * 1000"

record SyncMachine =
  sm_org :: OrgId
  sm_inventory :: InventoryId
  sm_connection :: ConnectionId
  sm_form :: FormId
  sm_item :: JobItemId
  sm_key :: IdempotencyKey
  sm_intent_hash :: ContentHash
  sm_fields :: FieldSet
  sm_strategy :: CreateStrategy
  sm_operation :: ItemOperation
  sm_state :: SyncState
  sm_budget :: StepBudget

record Transition =
  tr_next :: SyncMachine
  tr_effects :: "Effect list"

subsection \<open>Renderings\<close>

fun attempt_uuid :: "WriteAttemptId \<Rightarrow> Uuid" where
  "attempt_uuid (WriteAttemptId u) = u"

definition as_attempt_id :: "WriteAttemptId \<Rightarrow> AttemptId" where
  "as_attempt_id attempt = AttemptId (attempt_uuid attempt)"

definition hex :: "Uuid \<Rightarrow> string" where
  "hex u = concat (map hex_byte (uuid_bytes u))"

definition ambiguous :: "WriteAttemptId \<Rightarrow> AmbiguityCause \<Rightarrow> Outcome" where
  "ambiguous attempt cause =
     Out_Ambiguous (as_attempt_id attempt) cause
       (EvidenceRef (''write-attempt:'' @ hex (attempt_uuid attempt)))"

definition marker_for :: "WriteAttemptId \<Rightarrow> CorrelationMarker" where
  "marker_for attempt = CorrelationMarker (''tam-'' @ hex (attempt_uuid attempt))"

definition unnormalised_report :: FieldDiffReport where
  "unnormalised_report = \<lparr>fd_normaliser_version = 0, fd_mismatches = []\<rparr>"

definition drift_detail :: "SchemaDrift \<Rightarrow> FailureDetail" where
  "drift_detail drift = FailureDetail
     (''form schema drift: added ['' @ join_with '', '' (sd_added drift)
       @ ''], removed ['' @ join_with '', '' (sd_removed drift) @ '']'')"

subsection \<open>Charging a transition\<close>

definition remaining :: "SyncMachine \<Rightarrow> u32" where
  "remaining m = actions_remaining (sm_budget m)"

definition charged :: "SyncMachine \<Rightarrow> SyncState \<Rightarrow> Effect list \<Rightarrow> Transition" where
  "charged m state effects =
     \<lparr>tr_next = m\<lparr>sm_budget := StepBudget
                    (u32_saturating_sub (remaining m) (u32_of_len (length effects))),
                  sm_state := state\<rparr>,
      tr_effects = effects\<rparr>"

definition advance :: "SyncMachine \<Rightarrow> SyncState \<Rightarrow> Effect list \<Rightarrow> MachineError + Transition" where
  "advance m state effects =
     (if u32_of_len (length effects) > remaining m then Inl EffectBudgetExceeded
      else Inr (charged m state effects))"

definition emit_unbilled :: "SyncMachine \<Rightarrow> SyncState \<Rightarrow> Effect list \<Rightarrow> Transition" where
  "emit_unbilled m state effects = charged m state effects"

definition halt_scope :: "SyncMachine \<Rightarrow> HaltScope" where
  "halt_scope m = \<lparr>hs_org = sm_org m, hs_inventory = sm_inventory m\<rparr>"

subsection \<open>Entry\<close>

definition entry_row :: "SyncMachine \<Rightarrow> FormId \<Rightarrow> SyncState \<times> Effect list" where
  "entry_row m form =
     (case sm_operation m of
        Create \<Rightarrow> (S_AwaitingPreflight, [E_AssertFormSchema form])
      | PublishTo _ \<Rightarrow> (S_PreflightAsserted None, [E_RecordIntent (sm_intent_hash m)])
      | Revise _ _ \<Rightarrow> (S_PreflightAsserted None, [E_RecordIntent (sm_intent_hash m)])
      | Remove _ _ \<Rightarrow> (S_PreflightAsserted None, [E_RecordIntent (sm_intent_hash m)]))"

text \<open>
  \<open>SyncMachine::initial\<close> builds the machine from its eleven arguments in \<open>AwaitingPreflight\<close>
  and applies the entry row.
\<close>

definition initial :: "OrgId \<Rightarrow> InventoryId \<Rightarrow> ConnectionId \<Rightarrow> FormId \<Rightarrow> JobItemId
    \<Rightarrow> IdempotencyKey \<Rightarrow> ContentHash \<Rightarrow> FieldSet \<Rightarrow> CreateStrategy \<Rightarrow> ItemOperation
    \<Rightarrow> StepBudget \<Rightarrow> MachineError + Transition" where
  "initial org inventory connection form item key intent_hash fieldset strategy operation budget =
     (let machine = \<lparr>sm_org = org, sm_inventory = inventory, sm_connection = connection,
            sm_form = form, sm_item = item, sm_key = key, sm_intent_hash = intent_hash,
            sm_fields = fieldset, sm_strategy = strategy, sm_operation = operation,
            sm_state = S_AwaitingPreflight, sm_budget = budget\<rparr>;
          (state, effects) = entry_row machine form
      in advance machine state effects)"

subsection \<open>Ambiguity, strands and challenges\<close>

definition halt_ambiguous ::
  "SyncMachine \<Rightarrow> WriteAttemptId \<Rightarrow> AmbiguityCause \<Rightarrow> Capture \<Rightarrow> MachineError + Transition" where
  "halt_ambiguous m attempt cause capture =
     advance m (S_Terminal (ambiguous attempt cause))
       ((case capture of Diagnostics \<Rightarrow> [E_CaptureDiagnostics (Some attempt) CC_Ambiguity]
         | SkipCapture \<Rightarrow> [])
        @ [E_Halt (halt_scope m), E_Notify (sm_org m) SE_InventoryHalted])"

definition ambiguous_no_identifier :: "SyncMachine \<Rightarrow> WriteAttemptId \<Rightarrow> MachineError + Transition" where
  "ambiguous_no_identifier m attempt = halt_ambiguous m attempt NoDurableIdentifier Diagnostics"

definition await_read_back ::
  "SyncMachine \<Rightarrow> WriteAttemptId \<Rightarrow> RemoteListingId option \<Rightarrow> MachineError + Transition" where
  "await_read_back m attempt landed =
     (let go = (\<lambda>locator. advance m (S_AwaitingReadBack attempt locator)
                  [E_ReadBack locator (VerifyAttempt attempt)])
      in case (landed, sm_strategy m) of
           (Some i, _) \<Rightarrow> go (Durable i)
         | (None, MarkerStrategy _ _) \<Rightarrow> go (Marker (marker_for attempt) (sm_inventory m))
         | (None, _) \<Rightarrow> ambiguous_no_identifier m attempt)"

definition recorded_title :: "SyncMachine \<Rightarrow> RecordedTitle option" where
  "recorded_title m =
     map_option (\<lambda>(key, value). RecordedTitle value)
       (List.find (\<lambda>(key, value). key = Title) (fs_entries (sm_fields m)))"

definition resume_stranded ::
  "SyncMachine \<Rightarrow> WriteAttemptId \<Rightarrow> RecordedTitle \<Rightarrow> MachineError + Transition" where
  "resume_stranded m attempt recorded =
     (if sm_operation m \<noteq> Create then Inl ResumeNotACreate
      else (let go = (\<lambda>locator. advance m (S_AwaitingReadBack attempt locator)
                        [E_Reconcile attempt locator])
            in case sm_strategy m of
                 MarkerStrategy _ _ \<Rightarrow> go (Marker (marker_for attempt) (sm_inventory m))
               | DraftThenPublish _ \<Rightarrow> go (Recorded recorded (sm_inventory m))
               | HaltOnAmbiguity \<Rightarrow>
                   advance m (S_Terminal (ambiguous attempt NoDurableIdentifier))
                     [E_Notify (sm_org m) SE_ItemParked]))"

definition reconcile :: "SyncMachine \<Rightarrow> WriteAttemptId \<Rightarrow> MachineError + Transition" where
  "reconcile m attempt =
     (case subject (sm_operation m) of
        Some s \<Rightarrow>
          advance m (S_AwaitingReadBack attempt (Durable s))
            [E_ReadBack (Durable s) (VerifyAttempt attempt),
             E_CaptureDiagnostics (Some attempt) CC_Ambiguity]
      | None \<Rightarrow>
          (case sm_strategy m of
             MarkerStrategy _ _ \<Rightarrow>
               (let locator = Marker (marker_for attempt) (sm_inventory m)
                in advance m (S_AwaitingReadBack attempt locator)
                     [E_Reconcile attempt locator,
                      E_CaptureDiagnostics (Some attempt) CC_Ambiguity])
           | DraftThenPublish _ \<Rightarrow> halt_ambiguous m attempt NoDurableIdentifier Diagnostics
           | HaltOnAmbiguity \<Rightarrow> halt_ambiguous m attempt NoDurableIdentifier Diagnostics))"

fun is_draft_then_publish :: "CreateStrategy \<Rightarrow> bool" where
  "is_draft_then_publish (DraftThenPublish k) = True"
| "is_draft_then_publish (MarkerStrategy f t) = False"
| "is_draft_then_publish HaltOnAmbiguity = False"

definition ambiguous_submit :: "SyncMachine \<Rightarrow> WriteAttemptId \<Rightarrow> MachineError + Transition" where
  "ambiguous_submit m attempt =
     (if subject (sm_operation m) \<noteq> None \<or> \<not> is_draft_then_publish (sm_strategy m)
      then reconcile m attempt
      else (case recorded_title m of
              None \<Rightarrow> halt_ambiguous m attempt NoDurableIdentifier Diagnostics
            | Some title \<Rightarrow>
                advance m (S_Stranded attempt (Recorded title (sm_inventory m)))
                  [E_CaptureDiagnostics (Some attempt) CC_Ambiguity]))"

definition park_expiry :: "LogicalInstant \<Rightarrow> LogicalInstant" where
  "park_expiry now = LogicalInstant (saturating_add 64 (li_ms now) PARK_TTL_MS)"

definition challenged ::
  "SyncMachine \<Rightarrow> WriteAttemptId \<Rightarrow> ChallengeKind \<Rightarrow> LogicalInstant \<Rightarrow> MachineError + Transition" where
  "challenged m attempt challenge now =
     (if \<not> seller_clears challenge then
        (if sm_operation m = Create then ambiguous_submit m attempt
         else advance m (S_Terminal (Out_Blocked challenge)) [])
      else (case park_gate_for challenge of
              None \<Rightarrow> advance m (S_Terminal (Out_Blocked challenge)) []
            | Some gate \<Rightarrow>
                advance m (S_Parked (Some attempt) gate)
                  [E_ParkItem (sm_item m) gate (park_expiry now),
                   E_RequeueBehindGate (sm_connection m) BC_Reauth,
                   E_Notify (sm_org m) SE_ReauthRequired]))"

subsection \<open>The rows of each state\<close>

fun awaiting_preflight_rows :: "SyncMachine \<Rightarrow> Input \<Rightarrow> MachineError + Transition" where
  "awaiting_preflight_rows m (I_ResumeStranded attempt recorded) = resume_stranded m attempt recorded"
| "awaiting_preflight_rows m (I_PreflightResult (Inr schema)) =
     advance m (S_PreflightAsserted (Some schema)) [E_RecordIntent (sm_intent_hash m)]"
| "awaiting_preflight_rows m (I_PreflightResult (Inl drift)) =
     advance m (S_Terminal (Out_Rejected FormSchemaDrift (drift_detail drift)))
       [E_CaptureDiagnostics None CC_SchemaDrift, E_Halt (halt_scope m),
        E_Notify (sm_org m) SE_InventoryHalted]"
| "awaiting_preflight_rows m _ = Inl InputNotApplicable"

definition stranded_rows ::
  "SyncMachine \<Rightarrow> Input \<Rightarrow> WriteAttemptId \<Rightarrow> MachineError + Transition" where
  "stranded_rows m input attempt =
     (case input of
        I_ResumeStranded offered recorded \<Rightarrow>
          if offered \<noteq> attempt then Inl AttemptMismatch
          else resume_stranded m offered recorded
      | _ \<Rightarrow> Inl InputNotApplicable)"

definition write_effect :: "SyncMachine \<Rightarrow> WriteAttemptId \<Rightarrow> MachineError + Effect" where
  "write_effect m attempt =
     (case sm_operation m of
        PublishTo _ \<Rightarrow> Inl UnloweredPublish
      | Create \<Rightarrow> Inr (E_Submit attempt (sm_key m) (sm_fields m))
      | Revise s t \<Rightarrow> Inr (E_Revise attempt s (sm_fields m) t)
      | Remove s st \<Rightarrow> Inr (E_Remove attempt s st))"

definition preflight_asserted_rows ::
  "SyncMachine \<Rightarrow> Input \<Rightarrow> FormSchemaFingerprint option \<Rightarrow> MachineError + Transition" where
  "preflight_asserted_rows m input schema =
     (case input of
        I_IntentRecorded attempt \<Rightarrow>
          try_bind (write_effect m attempt)
            (\<lambda>e. advance m (S_IntentRecorded attempt schema) [e])
      | _ \<Rightarrow> Inl InputNotApplicable)"

definition submit_failed ::
  "SyncMachine \<Rightarrow> AdapterError \<Rightarrow> WriteAttemptId \<Rightarrow> FormSchemaFingerprint option
     \<Rightarrow> LogicalInstant \<Rightarrow> MachineError + Transition" where
  "submit_failed m error attempt schema now =
     (case error of
        AE_Ambiguous _ \<Rightarrow> ambiguous_submit m attempt
      | AE_Rejected code detail \<Rightarrow> advance m (S_Terminal (Out_Rejected code detail)) []
      | AE_Challenge challenge \<Rightarrow> challenged m attempt challenge now
      | AE_SessionExpired \<Rightarrow> challenged m attempt ReauthRequired now
      | AE_SchemaDrift drift \<Rightarrow>
          advance m (S_Terminal (Out_Rejected FormSchemaDrift (drift_detail drift)))
            [E_CaptureDiagnostics (Some attempt) CC_SchemaDrift, E_Halt (halt_scope m)]
      | AE_RateLimited _ \<Rightarrow> advance m (S_Terminal (Out_Skipped RateLimited)) []
      | AE_Uncaptured _ \<Rightarrow> advance m (S_Terminal (Out_Skipped OtherFailure)) []
      | AE_NotSent _ \<Rightarrow>
          advance m (S_PreflightAsserted schema) [E_RecordIntent (sm_intent_hash m)])"

definition intent_recorded_rows ::
  "SyncMachine \<Rightarrow> Input \<Rightarrow> WriteAttemptId \<Rightarrow> FormSchemaFingerprint option \<Rightarrow> LogicalInstant
     \<Rightarrow> MachineError + Transition" where
  "intent_recorded_rows m input attempt schema now =
     (case input of
        I_SubmitResult (Inr evidence) \<Rightarrow> await_read_back m attempt (se_landed evidence)
      | I_SubmitResult (Inl error) \<Rightarrow> submit_failed m error attempt schema now
      | _ \<Rightarrow> Inl InputNotApplicable)"

fun is_remove :: "ItemOperation \<Rightarrow> bool" where
  "is_remove (Remove s st) = True"
| "is_remove Create = False"
| "is_remove (PublishTo to) = False"
| "is_remove (Revise s t) = False"

definition removal_still_found :: FailureDetail where
  "removal_still_found =
     FailureDetail ''the removal's verification read still found the listing''"

definition observed_rows ::
  "SyncMachine \<Rightarrow> ObservedListing \<Rightarrow> WriteAttemptId \<Rightarrow> LogicalInstant \<Rightarrow> MachineError + Transition" where
  "observed_rows m observed attempt now =
     (if verification_settles (sm_operation m) observed then
        advance m (S_Terminal (settle (as_attempt_id attempt) (ol_id observed)
                     (Timestamp (li_ms now)) unnormalised_report)) []
      else if is_remove (sm_operation m) then
        advance m (S_Terminal (Out_Rejected VerificationMismatch removal_still_found)) []
      else halt_ambiguous m attempt ReadBackIndeterminate Diagnostics)"

definition awaiting_read_back_rows ::
  "SyncMachine \<Rightarrow> Input \<Rightarrow> WriteAttemptId \<Rightarrow> LogicalInstant \<Rightarrow> MachineError + Transition" where
  "awaiting_read_back_rows m input attempt now =
     (case input of
        I_ReadBackResult (Inr observed) \<Rightarrow> observed_rows m observed attempt now
      | I_ReadBackResult (Inl (AE_Ambiguous cause)) \<Rightarrow>
          advance m (S_Terminal (ambiguous attempt cause))
            [E_CaptureDiagnostics (Some attempt) CC_Ambiguity, E_Halt (halt_scope m),
             E_Notify (sm_org m) SE_InventoryHalted]
      | I_ReconcileResult (Inr (Some i)) \<Rightarrow> await_read_back m attempt (Some i)
      | I_ReconcileResult (Inr None) \<Rightarrow> halt_ambiguous m attempt NoDurableIdentifier SkipCapture
      | I_ReconcileResult (Inl _) \<Rightarrow> halt_ambiguous m attempt ReadBackIndeterminate SkipCapture
      | _ \<Rightarrow> Inl InputNotApplicable)"

definition parked_rows :: "SyncMachine \<Rightarrow> Input \<Rightarrow> ChallengeKind \<Rightarrow> MachineError + Transition" where
  "parked_rows m input challenge =
     (case input of
        I_ChallengeCleared \<Rightarrow> (let (state, effects) = entry_row m (sm_form m) in advance m state effects)
      | I_ParkExpired \<Rightarrow>
          advance m (S_Terminal (Out_Blocked challenge)) [E_Notify (sm_org m) SE_ItemParked]
      | _ \<Rightarrow> Inl InputNotApplicable)"

definition exhaust_budget :: "SyncMachine \<Rightarrow> MachineError + Transition" where
  "exhaust_budget m =
     (let report = (\<lambda>attempt outcome. Inr (emit_unbilled m (S_Terminal outcome)
                      [E_CaptureDiagnostics attempt CC_Ambiguity]));
          backstop = (\<lambda>attempt. report (Some attempt) (ambiguous attempt ProcessKilledByBackstop))
      in case sm_state m of
           S_AwaitingPreflight \<Rightarrow> report None (Out_Skipped OtherFailure)
         | S_PreflightAsserted _ \<Rightarrow> report None (Out_Skipped OtherFailure)
         | S_Parked attempt _ \<Rightarrow> report attempt (Out_Skipped OtherFailure)
         | S_IntentRecorded attempt _ \<Rightarrow> backstop attempt
         | S_Submitted attempt _ \<Rightarrow> backstop attempt
         | S_Stranded attempt _ \<Rightarrow> backstop attempt
         | S_AwaitingReadBack attempt _ \<Rightarrow> backstop attempt
         | S_Terminal _ \<Rightarrow> Inl InputNotApplicable)"

subsection \<open>The transition function\<close>

fun owned_attempt :: "SyncState \<Rightarrow> WriteAttemptId option" where
  "owned_attempt S_AwaitingPreflight = None"
| "owned_attempt (S_PreflightAsserted schema) = None"
| "owned_attempt (S_Terminal outcome) = None"
| "owned_attempt (S_IntentRecorded attempt schema) = Some attempt"
| "owned_attempt (S_Submitted attempt evidence) = Some attempt"
| "owned_attempt (S_Stranded attempt locator) = Some attempt"
| "owned_attempt (S_AwaitingReadBack attempt locator) = Some attempt"
| "owned_attempt (S_Parked attempt challenge) = attempt"

definition attempt_conflict :: "SyncMachine \<Rightarrow> Input \<Rightarrow> MachineError option" where
  "attempt_conflict m input =
     (case input of
        I_IntentRecorded offered \<Rightarrow>
          (case owned_attempt (sm_state m) of
             None \<Rightarrow> None
           | Some held \<Rightarrow> Some (if held = offered then InputNotApplicable else AttemptMismatch))
      | _ \<Rightarrow> None)"

definition step :: "SyncMachine \<Rightarrow> Input \<Rightarrow> LogicalInstant \<Rightarrow> MachineError + Transition" where
  "step m input now =
     (case attempt_conflict m input of
        Some conflict \<Rightarrow> Inl conflict
      | None \<Rightarrow>
          if input = I_BudgetExhausted then exhaust_budget m
          else (case sm_state m of
                  S_AwaitingPreflight \<Rightarrow> awaiting_preflight_rows m input
                | S_PreflightAsserted schema \<Rightarrow> preflight_asserted_rows m input schema
                | S_IntentRecorded attempt schema \<Rightarrow> intent_recorded_rows m input attempt schema now
                | S_Submitted _ _ \<Rightarrow> Inl InputNotApplicable
                | S_Terminal _ \<Rightarrow> Inl InputNotApplicable
                | S_Stranded attempt _ \<Rightarrow> stranded_rows m input attempt
                | S_AwaitingReadBack attempt _ \<Rightarrow> awaiting_read_back_rows m input attempt now
                | S_Parked _ challenge \<Rightarrow> parked_rows m input challenge))"

subsection \<open>The accepted transitions, one rule each\<close>

text \<open>
  \<open>sync_row m input now state effects\<close>: from machine \<open>m\<close>, \<open>input\<close> leads to \<open>state\<close> emitting
  \<open>effects\<close>. \<open>adopts\<close> is the pair of states a resume may start from, and \<open>fate_unknown\<close> the
  two errors after which a create may or may not exist.
\<close>

definition adopts :: "SyncMachine \<Rightarrow> WriteAttemptId \<Rightarrow> bool" where
  "adopts m attempt \<longleftrightarrow> sm_operation m = Create \<and>
     (sm_state m = S_AwaitingPreflight \<or> (\<exists>l. sm_state m = S_Stranded attempt l))"

definition fate_unknown :: "SyncMachine \<Rightarrow> AdapterError \<Rightarrow> bool" where
  "fate_unknown m error \<longleftrightarrow> (\<exists>c. error = AE_Ambiguous c) \<or>
     (sm_operation m = Create \<and> (\<exists>c. error = AE_Challenge c \<and> \<not> seller_clears c))"

definition asks_seller :: "AdapterError \<Rightarrow> bool" where
  "asks_seller error \<longleftrightarrow> error = AE_SessionExpired \<or> (\<exists>c. error = AE_Challenge c \<and> seller_clears c)"

definition halting :: "SyncMachine \<Rightarrow> Effect list" where
  "halting m = [E_Halt (halt_scope m), E_Notify (sm_org m) SE_InventoryHalted]"

inductive sync_row :: "SyncMachine \<Rightarrow> Input \<Rightarrow> LogicalInstant \<Rightarrow> SyncState \<Rightarrow> Effect list \<Rightarrow> bool"
  for m :: SyncMachine where
  preflight_ok: "sm_state m = S_AwaitingPreflight \<Longrightarrow>
    sync_row m (I_PreflightResult (Inr schema)) now (S_PreflightAsserted (Some schema))
      [E_RecordIntent (sm_intent_hash m)]"
| preflight_drift: "sm_state m = S_AwaitingPreflight \<Longrightarrow>
    sync_row m (I_PreflightResult (Inl drift)) now
      (S_Terminal (Out_Rejected FormSchemaDrift (drift_detail drift)))
      (E_CaptureDiagnostics None CC_SchemaDrift # halting m)"
| resume_marker: "adopts m a \<Longrightarrow> sm_strategy m = MarkerStrategy f t \<Longrightarrow>
    loc = Marker (marker_for a) (sm_inventory m) \<Longrightarrow>
    sync_row m (I_ResumeStranded a rec) now (S_AwaitingReadBack a loc) [E_Reconcile a loc]"
| resume_recorded: "adopts m a \<Longrightarrow> sm_strategy m = DraftThenPublish k \<Longrightarrow>
    loc = Recorded rec (sm_inventory m) \<Longrightarrow>
    sync_row m (I_ResumeStranded a rec) now (S_AwaitingReadBack a loc) [E_Reconcile a loc]"
| resume_unsearchable: "adopts m a \<Longrightarrow> sm_strategy m = HaltOnAmbiguity \<Longrightarrow>
    sync_row m (I_ResumeStranded a rec) now (S_Terminal (ambiguous a NoDurableIdentifier))
      [E_Notify (sm_org m) SE_ItemParked]"
| write_issued: "sm_state m = S_PreflightAsserted schema \<Longrightarrow> write_effect m a = Inr e \<Longrightarrow>
    sync_row m (I_IntentRecorded a) now (S_IntentRecorded a schema) [e]"
| landed: "sm_state m = S_IntentRecorded a schema \<Longrightarrow> se_landed ev = Some i \<Longrightarrow>
    sync_row m (I_SubmitResult (Inr ev)) now (S_AwaitingReadBack a (Durable i))
      [E_ReadBack (Durable i) (VerifyAttempt a)]"
| landed_marker: "sm_state m = S_IntentRecorded a schema \<Longrightarrow> se_landed ev = None \<Longrightarrow>
    sm_strategy m = MarkerStrategy f t \<Longrightarrow> loc = Marker (marker_for a) (sm_inventory m) \<Longrightarrow>
    sync_row m (I_SubmitResult (Inr ev)) now (S_AwaitingReadBack a loc)
      [E_ReadBack loc (VerifyAttempt a)]"
| landed_unstated: "sm_state m = S_IntentRecorded a schema \<Longrightarrow> se_landed ev = None \<Longrightarrow>
    (\<And>f t. sm_strategy m \<noteq> MarkerStrategy f t) \<Longrightarrow>
    sync_row m (I_SubmitResult (Inr ev)) now (S_Terminal (ambiguous a NoDurableIdentifier))
      (E_CaptureDiagnostics (Some a) CC_Ambiguity # halting m)"
| lost_subject: "sm_state m = S_IntentRecorded a schema \<Longrightarrow> fate_unknown m error \<Longrightarrow>
    subject (sm_operation m) = Some s \<Longrightarrow>
    sync_row m (I_SubmitResult (Inl error)) now (S_AwaitingReadBack a (Durable s))
      [E_ReadBack (Durable s) (VerifyAttempt a), E_CaptureDiagnostics (Some a) CC_Ambiguity]"
| lost_marker: "sm_state m = S_IntentRecorded a schema \<Longrightarrow> fate_unknown m error \<Longrightarrow>
    subject (sm_operation m) = None \<Longrightarrow> sm_strategy m = MarkerStrategy f t \<Longrightarrow>
    loc = Marker (marker_for a) (sm_inventory m) \<Longrightarrow>
    sync_row m (I_SubmitResult (Inl error)) now (S_AwaitingReadBack a loc)
      [E_Reconcile a loc, E_CaptureDiagnostics (Some a) CC_Ambiguity]"
| lost_stranded: "sm_state m = S_IntentRecorded a schema \<Longrightarrow> fate_unknown m error \<Longrightarrow>
    subject (sm_operation m) = None \<Longrightarrow> sm_strategy m = DraftThenPublish k \<Longrightarrow>
    recorded_title m = Some title \<Longrightarrow>
    sync_row m (I_SubmitResult (Inl error)) now (S_Stranded a (Recorded title (sm_inventory m)))
      [E_CaptureDiagnostics (Some a) CC_Ambiguity]"
| lost_unsearchable: "sm_state m = S_IntentRecorded a schema \<Longrightarrow> fate_unknown m error \<Longrightarrow>
    subject (sm_operation m) = None \<Longrightarrow>
    sm_strategy m = HaltOnAmbiguity \<or> (sm_strategy m = DraftThenPublish k \<and> recorded_title m = None) \<Longrightarrow>
    sync_row m (I_SubmitResult (Inl error)) now (S_Terminal (ambiguous a NoDurableIdentifier))
      (E_CaptureDiagnostics (Some a) CC_Ambiguity # halting m)"
| rejected: "sm_state m = S_IntentRecorded a schema \<Longrightarrow>
    sync_row m (I_SubmitResult (Inl (AE_Rejected code detail))) now
      (S_Terminal (Out_Rejected code detail)) []"
| parked: "sm_state m = S_IntentRecorded a schema \<Longrightarrow> asks_seller error \<Longrightarrow>
    sync_row m (I_SubmitResult (Inl error)) now (S_Parked (Some a) ReauthRequired)
      [E_ParkItem (sm_item m) ReauthRequired (park_expiry now),
       E_RequeueBehindGate (sm_connection m) BC_Reauth,
       E_Notify (sm_org m) SE_ReauthRequired]"
| blocked: "sm_state m = S_IntentRecorded a schema \<Longrightarrow> \<not> seller_clears c \<Longrightarrow>
    sm_operation m \<noteq> Create \<Longrightarrow>
    sync_row m (I_SubmitResult (Inl (AE_Challenge c))) now (S_Terminal (Out_Blocked c)) []"
| submit_drift: "sm_state m = S_IntentRecorded a schema \<Longrightarrow>
    sync_row m (I_SubmitResult (Inl (AE_SchemaDrift drift))) now
      (S_Terminal (Out_Rejected FormSchemaDrift (drift_detail drift)))
      [E_CaptureDiagnostics (Some a) CC_SchemaDrift, E_Halt (halt_scope m)]"
| rate_limited: "sm_state m = S_IntentRecorded a schema \<Longrightarrow>
    sync_row m (I_SubmitResult (Inl (AE_RateLimited r))) now
      (S_Terminal (Out_Skipped RateLimited)) []"
| uncaptured: "sm_state m = S_IntentRecorded a schema \<Longrightarrow>
    sync_row m (I_SubmitResult (Inl (AE_Uncaptured u))) now
      (S_Terminal (Out_Skipped OtherFailure)) []"
| not_sent: "sm_state m = S_IntentRecorded a schema \<Longrightarrow>
    sync_row m (I_SubmitResult (Inl (AE_NotSent n))) now (S_PreflightAsserted schema)
      [E_RecordIntent (sm_intent_hash m)]"
| verified: "sm_state m = S_AwaitingReadBack a loc \<Longrightarrow>
    verification_settles (sm_operation m) observed \<Longrightarrow>
    sync_row m (I_ReadBackResult (Inr observed)) now
      (S_Terminal (settle (as_attempt_id a) (ol_id observed) (Timestamp (li_ms now))
         unnormalised_report)) []"
| removal_found: "sm_state m = S_AwaitingReadBack a loc \<Longrightarrow>
    \<not> verification_settles (sm_operation m) observed \<Longrightarrow> is_remove (sm_operation m) \<Longrightarrow>
    sync_row m (I_ReadBackResult (Inr observed)) now
      (S_Terminal (Out_Rejected VerificationMismatch removal_still_found)) []"
| unverified: "sm_state m = S_AwaitingReadBack a loc \<Longrightarrow>
    \<not> verification_settles (sm_operation m) observed \<Longrightarrow> \<not> is_remove (sm_operation m) \<Longrightarrow>
    sync_row m (I_ReadBackResult (Inr observed)) now
      (S_Terminal (ambiguous a ReadBackIndeterminate))
      (E_CaptureDiagnostics (Some a) CC_Ambiguity # halting m)"
| read_ambiguous: "sm_state m = S_AwaitingReadBack a loc \<Longrightarrow>
    sync_row m (I_ReadBackResult (Inl (AE_Ambiguous cause))) now (S_Terminal (ambiguous a cause))
      (E_CaptureDiagnostics (Some a) CC_Ambiguity # halting m)"
| reconciled_found: "sm_state m = S_AwaitingReadBack a loc \<Longrightarrow>
    sync_row m (I_ReconcileResult (Inr (Some i))) now (S_AwaitingReadBack a (Durable i))
      [E_ReadBack (Durable i) (VerifyAttempt a)]"
| reconciled_absent: "sm_state m = S_AwaitingReadBack a loc \<Longrightarrow>
    sync_row m (I_ReconcileResult (Inr None)) now (S_Terminal (ambiguous a NoDurableIdentifier))
      (halting m)"
| reconcile_failed: "sm_state m = S_AwaitingReadBack a loc \<Longrightarrow>
    sync_row m (I_ReconcileResult (Inl error)) now (S_Terminal (ambiguous a ReadBackIndeterminate))
      (halting m)"
| cleared: "sm_state m = S_Parked a c \<Longrightarrow> entry_row m (sm_form m) = (s, es) \<Longrightarrow>
    sync_row m I_ChallengeCleared now s es"
| park_expired: "sm_state m = S_Parked a c \<Longrightarrow>
    sync_row m I_ParkExpired now (S_Terminal (Out_Blocked c)) [E_Notify (sm_org m) SE_ItemParked]"
| exhausted_before: "sm_state m = S_AwaitingPreflight \<or> sm_state m = S_PreflightAsserted schema \<Longrightarrow>
    sync_row m I_BudgetExhausted now (S_Terminal (Out_Skipped OtherFailure))
      [E_CaptureDiagnostics None CC_Ambiguity]"
| exhausted_parked: "sm_state m = S_Parked p c \<Longrightarrow>
    sync_row m I_BudgetExhausted now (S_Terminal (Out_Skipped OtherFailure))
      [E_CaptureDiagnostics p CC_Ambiguity]"
| exhausted_after: "sm_state m = S_IntentRecorded a schema \<or> sm_state m = S_Submitted a ev \<or>
      sm_state m = S_Stranded a loc \<or> sm_state m = S_AwaitingReadBack a loc \<Longrightarrow>
    sync_row m I_BudgetExhausted now (S_Terminal (ambiguous a ProcessKilledByBackstop))
      [E_CaptureDiagnostics (Some a) CC_Ambiguity]"

text \<open>Soundness and completeness of the rules for \<open>step\<close>, handler by handler.\<close>

lemma advance_Inr_iff:
  "advance m s es = Inr t \<longleftrightarrow> u32_of_len (length es) \<le> remaining m \<and> t = charged m s es"
  by (auto simp: advance_def)

lemma row_accepted:
  assumes "sync_row m i now s es" "i \<noteq> I_BudgetExhausted \<Longrightarrow> u32_of_len (length es) \<le> remaining m"
  shows "step m i now = Inr (charged m s es)"
  using assms
  by (induction rule: sync_row.cases)
    (auto simp: step_def attempt_conflict_def halting_def adopts_def fate_unknown_def asks_seller_def
      advance_Inr_iff resume_stranded_def preflight_asserted_rows_def intent_recorded_rows_def
      awaiting_read_back_rows_def await_read_back_def ambiguous_no_identifier_def halt_ambiguous_def
      submit_failed_def ambiguous_submit_def reconcile_def challenged_def park_gate_for_def
      observed_rows_def parked_rows_def exhaust_budget_def emit_unbilled_def stranded_rows_def
      try_bind_def Let_def
     split: option.splits CreateStrategy.splits)

definition yields :: "SyncMachine \<Rightarrow> Input \<Rightarrow> LogicalInstant \<Rightarrow> Transition \<Rightarrow> bool" where
  "yields m i now t \<longleftrightarrow> (\<exists>s es. sync_row m i now s es \<and> t = charged m s es \<and>
      (i = I_BudgetExhausted \<or> u32_of_len (length es) \<le> remaining m))"

lemma yieldsI:
  "sync_row m i now s es \<Longrightarrow> u32_of_len (length es) \<le> remaining m \<Longrightarrow> yields m i now (charged m s es)"
  by (auto simp: yields_def)

lemma resume_yields:
  "resume_stranded m a r = Inr t \<Longrightarrow> adopts m a \<or> sm_operation m \<noteq> Create \<Longrightarrow>
    yields m (I_ResumeStranded a r) now t"
  by (auto simp: resume_stranded_def Let_def advance_Inr_iff split: CreateStrategy.splits if_splits
      intro!: yieldsI intro: sync_row.intros)

lemma is_draft_then_publish_iff: "is_draft_then_publish s \<longleftrightarrow> (\<exists>k. s = DraftThenPublish k)"
  by (cases s) auto

lemma is_remove_iff: "is_remove p \<longleftrightarrow> (\<exists>s st. p = Remove s st)"
  by (cases p) auto

lemma ambiguous_submit_yields:
  "ambiguous_submit m a = Inr t \<Longrightarrow> sm_state m = S_IntentRecorded a schema \<Longrightarrow>
    fate_unknown m error \<Longrightarrow> yields m (I_SubmitResult (Inl error)) now t"
  by (auto simp: is_draft_then_publish_iff ambiguous_submit_def reconcile_def halt_ambiguous_def Let_def advance_Inr_iff
      simp flip: halting_def
      split: CreateStrategy.splits if_splits option.splits
      intro!: yieldsI intro: sync_row.intros)

lemma challenged_yields:
  "challenged m a c now = Inr t \<Longrightarrow> sm_state m = S_IntentRecorded a schema \<Longrightarrow>
    error = AE_Challenge c \<or> (error = AE_SessionExpired \<and> c = ReauthRequired) \<Longrightarrow>
    yields m (I_SubmitResult (Inl error)) now t"
  apply (auto simp: challenged_def park_gate_for_def advance_Inr_iff split: if_splits)
  apply (auto intro!: ambiguous_submit_yields yieldsI intro: sync_row.intros simp: fate_unknown_def)
  apply (auto intro!: sync_row.parked simp: asks_seller_def)
  done


lemma fate_unknown_Ambiguous: "fate_unknown m (AE_Ambiguous c)"
  by (simp add: fate_unknown_def)

lemma intent_yields:
  "intent_recorded_rows m i a schema now = Inr t \<Longrightarrow> sm_state m = S_IntentRecorded a schema \<Longrightarrow>
    yields m i now t"
  by (auto simp: intent_recorded_rows_def await_read_back_def ambiguous_no_identifier_def
      submit_failed_def halt_ambiguous_def Let_def advance_Inr_iff
      simp flip: halting_def
      split: Input.splits sum.splits option.splits CreateStrategy.splits AdapterError.splits
      intro!: yieldsI
      intro: challenged_yields ambiguous_submit_yields fate_unknown_Ambiguous sync_row.intros)

lemma read_back_yields:
  "awaiting_read_back_rows m i a now = Inr t \<Longrightarrow> sm_state m = S_AwaitingReadBack a loc \<Longrightarrow>
    yields m i now t"
  by (auto simp: awaiting_read_back_rows_def await_read_back_def observed_rows_def halt_ambiguous_def
      Let_def advance_Inr_iff
      simp flip: halting_def
      split: Input.splits sum.splits option.splits AdapterError.splits if_splits
      intro!: yieldsI intro: sync_row.intros)

lemma preflight_yields:
  "awaiting_preflight_rows m i = Inr t \<Longrightarrow> sm_state m = S_AwaitingPreflight \<Longrightarrow> yields m i now t"
  by (induction m i rule: awaiting_preflight_rows.induct)
    (auto simp: advance_Inr_iff resume_stranded_def adopts_def
      simp flip: halting_def split: if_splits intro!: yieldsI resume_yields intro: sync_row.intros)

lemma exhaust_yields:
  "exhaust_budget m = Inr t \<Longrightarrow> yields m I_BudgetExhausted now t"
  unfolding yields_def
  by (auto simp: exhaust_budget_def emit_unbilled_def split: SyncState.splits
      intro: exhausted_before exhausted_parked exhausted_after)

lemma step_yields: "step m i now = Inr t \<Longrightarrow> yields m i now t"
  by (auto simp: step_def preflight_asserted_rows_def stranded_rows_def parked_rows_def
      try_bind_Inr advance_Inr_iff adopts_def
      split: option.splits if_splits SyncState.splits Input.splits prod.splits
      dest: exhaust_yields preflight_yields intent_yields read_back_yields resume_yields
      intro!: yieldsI
      intro: sync_row.intros)

lemma step_iff_row:
  "step m i now = Inr t \<longleftrightarrow> (\<exists>s es. sync_row m i now s es \<and> t = charged m s es \<and>
     (i = I_BudgetExhausted \<or> u32_of_len (length es) \<le> remaining m))"
  using step_yields row_accepted by (fastforce simp: yields_def)

end
