(* ===== verification/Traces.thy ===== *)
theory Traces
  imports Prelude
begin

section \<open>Runs of a fallible transition function\<close>

text \<open>
  The interface of every component of the program that is a pure transition function consumed
  one input at a time: \<open>accept\<close> takes a machine and an input to an error or to the next machine
  and what it emits, and \<open>go\<close> runs a list of inputs, failing at the first refused one and
  concatenating what was emitted. Each locale adds one promise about the single transition and
  proves what follows for whole runs; the components interpret them on their own definitions.
\<close>

locale traces =
  fixes accept :: "'m \<Rightarrow> 'i \<Rightarrow> 'err + ('m \<times> 'e list)"
    and go :: "'m \<Rightarrow> 'i list \<Rightarrow> 'err + ('m \<times> 'e list)"
  assumes go_Nil: "go m [] = Inr (m, [])"
    and go_Cons: "go m (i # is) =
      try_bind (accept m i) (\<lambda>(m1, es1). try_bind (go m1 is) (\<lambda>(m2, es2). Inr (m2, es1 @ es2)))"
begin

lemma go_append:
  "go m (xs @ ys) =
     try_bind (go m xs) (\<lambda>(m1, es1). try_bind (go m1 ys) (\<lambda>(m2, es2). Inr (m2, es1 @ es2)))"
proof (induction xs arbitrary: m)
  case Nil
  show ?case by (cases "go m ys") (auto simp: go_Nil)
next
  case (Cons x xs)
  show ?case
  proof (cases "accept m x")
    case (Inr r)
    then show ?thesis
      by (cases r; cases "go (fst r) xs") (auto simp: go_Cons Cons.IH try_bind_def split: sum.splits)
  qed (simp add: go_Cons)
qed

lemma go_snoc_iff:
  "go m (xs @ [i]) = Inr (m2, es) \<longleftrightarrow>
     (\<exists>m1 es1 es2. go m xs = Inr (m1, es1) \<and> accept m1 i = Inr (m2, es2) \<and> es = es1 @ es2)"
  by (cases "go m xs") (auto simp: go_append go_Cons go_Nil try_bind_Inr)

lemma go_induct [consumes 1, case_names start extend]:
  assumes "go m is = Inr (m', es)"
    and "P [] m []"
    and "\<And>is m1 es1 i m2 es2. go m is = Inr (m1, es1) \<Longrightarrow> P is m1 es1 \<Longrightarrow>
           accept m1 i = Inr (m2, es2) \<Longrightarrow> P (is @ [i]) m2 (es1 @ es2)"
  shows "P is m' es"
  using assms(1)
proof (induction "is" arbitrary: m' es rule: rev_induct)
  case Nil
  then show ?case using assms(2) by (simp add: go_Nil)
next
  case (snoc i xs)
  then show ?case using assms(3) by (auto simp: go_snoc_iff)
qed

lemma go_invariant:
  assumes "go m is = Inr (m', es)" "I m"
    and "\<And>m1 i m2 es2. I m1 \<Longrightarrow> accept m1 i = Inr (m2, es2) \<Longrightarrow> I m2"
  shows "I m'"
  using assms(1) by (induction rule: go_induct) (use assms(2,3) in auto)

lemma go_emitted:
  assumes "go m is = Inr (m', es)" "I m"
    and "\<And>m1 i m2 es2. I m1 \<Longrightarrow> accept m1 i = Inr (m2, es2) \<Longrightarrow> I m2 \<and> list_all Q es2"
  shows "list_all Q es"
proof -
  have "I m' \<and> list_all Q es"
    using assms(1) by (induction rule: go_induct) (use assms(2,3) in auto)
  then show ?thesis ..
qed

lemma go_absorbed:
  assumes "go m is = Inr (m', es)" "\<And>i. \<exists>err. accept m i = Inl err"
  shows "is = []"
proof (cases "is")
  case (Cons i rest)
  moreover obtain err where "accept m i = Inl err" using assms(2) by blast
  ultimately show ?thesis using assms(1) by (simp add: go_Cons)
qed

end

text \<open>
  A component whose outward actions are each licensed by exactly one input: what the emitted
  actions name is, in order, what the inputs authorised.
\<close>

locale licensed = traces accept go
  for accept :: "'m \<Rightarrow> 'i \<Rightarrow> 'err + ('m \<times> 'e list)" and go +
  fixes performs :: "'e \<Rightarrow> 'a option"
    and authorises :: "'i \<Rightarrow> 'a option"
  assumes accept_licensed: "accept m i = Inr (m', es) \<Longrightarrow>
    List.map_filter performs es = List.map_filter authorises [i]"
begin

lemma go_licensed:
  assumes "go m is = Inr (m', es)"
  shows "List.map_filter performs es = List.map_filter authorises is"
  using assms
proof (induction rule: go_induct)
  case start
  show ?case by simp
next
  case (extend xs m1 es1 i m2 es2)
  then show ?case using accept_licensed [OF extend.hyps(2)] by (simp add: map_filter_append)
qed

lemma go_at_most_once:
  assumes "go m is = Inr (m', es)" "distinct (List.map_filter authorises is)"
  shows "distinct (List.map_filter performs es)"
  using assms by (simp add: go_licensed)

end

text \<open>
  A component that carries an allowance: an accepted input spends one unit for every action it
  emits, except that a report may be exempt.
\<close>

locale metered = traces accept go
  for accept :: "'m \<Rightarrow> 'i \<Rightarrow> 'err + ('m \<times> 'e list)" and go +
  fixes allowance :: "'m \<Rightarrow> nat"
    and exempt :: "'i \<Rightarrow> bool"
  assumes accept_spends: "accept m i = Inr (m', es) \<Longrightarrow> \<not> exempt i \<Longrightarrow>
      allowance m' + length es = allowance m"
    and accept_exempt: "accept m i = Inr (m', es) \<Longrightarrow> exempt i \<Longrightarrow>
      length es \<le> 1 \<and> allowance m' = allowance m - length es \<and> (\<forall>j. \<exists>err. accept m' j = Inl err)"
begin

lemma go_spends:
  assumes "go m is = Inr (m', es)"
  shows "if list_ex exempt is
         then allowance m' \<le> allowance m \<and> length es \<le> allowance m + 1 \<and> (\<forall>j. \<exists>err. accept m' j = Inl err)
         else allowance m' + length es = allowance m"
  using assms
proof (induction rule: go_induct)
  case start
  then show ?case by simp
next
  case (extend xs m1 es1 i m2 es2)
  show ?case
  proof (cases "list_ex exempt xs")
    case True
    with extend.IH obtain err where "accept m1 i = Inl err" by auto
    with extend.hyps(2) show ?thesis by simp
  next
    case False
    then have spent: "allowance m1 + length es1 = allowance m" using extend.IH by simp
    show ?thesis
      using False spent accept_spends [OF extend.hyps(2)] accept_exempt [OF extend.hyps(2)]
      by (cases "exempt i") auto
  qed
qed

end

end
