(* ===== verification/SyncRuns.thy ===== *)
theory SyncRuns
  imports SyncMachine Traces
begin

section \<open>Runs of the sync machine\<close>

text \<open>
  Sequences of accepted inputs from a machine built by \<open>initial\<close>, and what holds over every one
  of them: the five properties \<open>docs/design/sync-machine.md\<close> rests its correctness argument on
  and the property suite of \<open>crates/tam-domain/src/lib.rs\<close> samples, and the invariant of the
  states a run can reach. \<open>run\<close> is the suite's \<open>drive\<close> restricted to the accepted inputs (a refused
  input leaves the suite's machine as it was), and \<open>write_attempt_of\<close> is its reading of a write.
\<close>

type_synonym delivery = "Input \<times> LogicalInstant"

definition transit :: "SyncMachine \<Rightarrow> delivery \<Rightarrow> MachineError + (SyncMachine \<times> Effect list)" where
  "transit m d = (case step m (fst d) (snd d) of
     Inl e \<Rightarrow> Inl e | Inr t \<Rightarrow> Inr (tr_next t, tr_effects t))"

fun run :: "SyncMachine \<Rightarrow> delivery list \<Rightarrow> MachineError + (SyncMachine \<times> Effect list)" where
  "run m [] = Inr (m, [])"
| "run m (d # ds) = try_bind (transit m d)
     (\<lambda>(m1, es1). try_bind (run m1 ds) (\<lambda>(m2, es2). Inr (m2, es1 @ es2)))"

fun write_attempt_of :: "Effect \<Rightarrow> WriteAttemptId option" where
  "write_attempt_of (E_Submit a k f) = Some a"
| "write_attempt_of (E_Revise a s f t) = Some a"
| "write_attempt_of (E_Remove a s st) = Some a"
| "write_attempt_of (E_AssertFormSchema f) = None"
| "write_attempt_of (E_RecordIntent h) = None"
| "write_attempt_of (E_ReadBack l r) = None"
| "write_attempt_of (E_Reconcile a l) = None"
| "write_attempt_of (E_ParkItem i c e) = None"
| "write_attempt_of (E_RequeueBehindGate c b) = None"
| "write_attempt_of (E_CaptureDiagnostics a c) = None"
| "write_attempt_of (E_Halt s) = None"
| "write_attempt_of (E_Notify o' e) = None"

text \<open>The attempt an input opens, and the attempt a resume adopts.\<close>

fun opened :: "delivery \<Rightarrow> WriteAttemptId option" where
  "opened (I_IntentRecorded a, now) = Some a"
| "opened d = None"

fun adopted :: "delivery \<Rightarrow> WriteAttemptId option" where
  "adopted (I_ResumeStranded a r, now) = Some a"
| "adopted d = None"

fun is_terminal :: "SyncState \<Rightarrow> bool" where
  "is_terminal (S_Terminal out) = True"
| "is_terminal s = False"

fun is_budget_report :: "delivery \<Rightarrow> bool" where
  "is_budget_report (I_BudgetExhausted, now) = True"
| "is_budget_report d = False"

fun is_record_intent :: "Effect \<Rightarrow> bool" where
  "is_record_intent (E_RecordIntent h) = True"
| "is_record_intent e = False"

fun read_attempt_of :: "Effect \<Rightarrow> WriteAttemptId option" where
  "read_attempt_of (E_ReadBack l (VerifyAttempt a)) = Some a"
| "read_attempt_of (E_Reconcile a l) = Some a"
| "read_attempt_of e = None"

subsection \<open>One transition\<close>

lemma is_terminal_iff: "is_terminal s \<longleftrightarrow> (\<exists>out. s = S_Terminal out)"
  by (cases s) auto

lemma is_budget_report_iff: "is_budget_report d \<longleftrightarrow> fst d = I_BudgetExhausted"
  by (cases d rule: is_budget_report.cases) auto

lemma charged_simps [simp]:
  "tr_effects (charged m s es) = es"
  "sm_state (tr_next (charged m s es)) = s"
  "sm_operation (tr_next (charged m s es)) = sm_operation m"
  "sm_strategy (tr_next (charged m s es)) = sm_strategy m"
  "sm_org (tr_next (charged m s es)) = sm_org m"
  "sm_inventory (tr_next (charged m s es)) = sm_inventory m"
  "sm_fields (tr_next (charged m s es)) = sm_fields m"
  "sm_key (tr_next (charged m s es)) = sm_key m"
  "sm_item (tr_next (charged m s es)) = sm_item m"
  "sm_connection (tr_next (charged m s es)) = sm_connection m"
  "sm_form (tr_next (charged m s es)) = sm_form m"
  "sm_intent_hash (tr_next (charged m s es)) = sm_intent_hash m"
  "remaining (tr_next (charged m s es)) = u32_saturating_sub (remaining m) (u32_of_len (length es))"
  by (simp_all add: charged_def remaining_def)

lemma transit_iff:
  "transit m d = Inr (m', es) \<longleftrightarrow> (\<exists>s. sync_row m (fst d) (snd d) s es \<and>
     m' = tr_next (charged m s es) \<and>
     (fst d = I_BudgetExhausted \<or> u32_of_len (length es) \<le> remaining m))"
proof -
  have "transit m d = Inr (m', es) \<longleftrightarrow>
      (\<exists>t. step m (fst d) (snd d) = Inr t \<and> m' = tr_next t \<and> es = tr_effects t)"
    by (auto simp: transit_def split: sum.splits)
  then show ?thesis unfolding step_iff_row by (metis charged_simps(1))
qed

inductive_cases terminal_rowE: "sync_row m i now s es"

lemma row_effects_few: "sync_row m i now s es \<Longrightarrow> length es \<le> 3"
  by (erule sync_row.cases) (auto simp: halting_def entry_row_def split: ItemOperation.splits)

lemma write_effect_attempt: "write_effect m a = Inr e \<Longrightarrow> write_attempt_of e = Some a"
  by (auto simp: write_effect_def split: ItemOperation.splits)

lemma row_licensed:
  "sync_row m i now s es \<Longrightarrow>
     List.map_filter write_attempt_of es = List.map_filter opened [(i, now)]"
  by (erule sync_row.cases)
    (auto simp: halting_def entry_row_def write_effect_attempt split: ItemOperation.splits)

lemma row_from_terminal: "sync_row m i now s es \<Longrightarrow> \<not> is_terminal (sm_state m)"
  by (erule sync_row.cases) (auto simp: adopts_def)

lemma transit_terminal: "is_terminal (sm_state m) \<Longrightarrow> \<exists>err. transit m d = Inl err"
  by (cases "transit m d") (auto simp: transit_iff dest: row_from_terminal)

lemma transit_spends:
  assumes "transit m d = Inr (m', es)" "\<not> is_budget_report d"
  shows "unat (remaining m') + length es = unat (remaining m)"
proof -
  obtain s where row: "sync_row m (fst d) (snd d) s es" and m': "m' = tr_next (charged m s es)"
    and fits: "u32_of_len (length es) \<le> remaining m"
    using assms by (auto simp: transit_iff is_budget_report_iff)
  have "unat (u32_of_len (length es)) = length es"
    using row_effects_few [OF row] by (simp add: unat_u32_of_len)
  with fits show ?thesis by (simp add: m' unat_u32_saturating_sub word_le_nat_alt)
qed

lemma row_exhausts:
  "sync_row m I_BudgetExhausted now s es \<Longrightarrow> is_terminal s \<and> length es = 1"
  by (erule sync_row.cases) auto

lemma transit_exhausts:
  assumes "transit m d = Inr (m', es)" "is_budget_report d"
  shows "length es \<le> 1 \<and> unat (remaining m') = unat (remaining m) - length es
     \<and> (\<forall>j. \<exists>err. transit m' j = Inl err)"
  using assms
  by (auto simp: transit_iff is_budget_report_iff unat_u32_saturating_sub unat_u32_of_len
      dest!: row_exhausts intro!: transit_terminal)

subsection \<open>The machine as a licensed, metered transition function\<close>

interpretation sync: traces transit run
  by unfold_locales simp_all

interpretation sync: licensed transit run write_attempt_of opened
  by unfold_locales (auto simp: transit_iff dest: row_licensed)

interpretation sync: metered transit run "\<lambda>m. unat (remaining m)" is_budget_report
  by unfold_locales (use transit_spends transit_exhausts in auto)

subsection \<open>Histories: a run from the entry row\<close>

definition history ::
  "MachineError + Transition \<Rightarrow> delivery list \<Rightarrow> MachineError + (SyncMachine \<times> Effect list)" where
  "history start ds = try_bind start (\<lambda>t. try_bind (run (tr_next t) ds)
     (\<lambda>(m, es). Inr (m, tr_effects t @ es)))"

lemma initial_entry:
  assumes "initial org inventory connection form item key h fieldset strategy operation budget = Inr t"
  shows "sm_org (tr_next t) = org" "sm_inventory (tr_next t) = inventory"
    "sm_connection (tr_next t) = connection" "sm_form (tr_next t) = form"
    "sm_item (tr_next t) = item" "sm_key (tr_next t) = key" "sm_intent_hash (tr_next t) = h"
    "sm_fields (tr_next t) = fieldset" "sm_strategy (tr_next t) = strategy"
    "sm_operation (tr_next t) = operation"
    "entry_row (tr_next t) form = (sm_state (tr_next t), tr_effects t)"
    "unat (remaining (tr_next t)) + length (tr_effects t) = unat (actions_remaining budget)"
  using assms
  by (auto simp: initial_def entry_row_def advance_Inr_iff Let_def remaining_def charged_def
      unat_u32_saturating_sub unat_u32_of_len word_le_nat_alt
      split: ItemOperation.splits)

lemma history_split:
  "history (Inr t) ds = Inr (m, es) \<longleftrightarrow> (\<exists>es'. run (tr_next t) ds = Inr (m, es') \<and> es = tr_effects t @ es')"
  by (auto simp: history_def try_bind_Inr)

lemma history_started: "history r ds = Inr me \<Longrightarrow> \<exists>t. r = Inr t"
  by (auto simp: history_def try_bind_Inr)

lemma history_induct [consumes 1, case_names start extend]:
  assumes h: "history r ds = Inr (m, es)"
    and start: "\<And>t. r = Inr t \<Longrightarrow> P [] (tr_next t) (tr_effects t)"
    and extend: "\<And>ds m es i now s es2. history r ds = Inr (m, es) \<Longrightarrow> P ds m es \<Longrightarrow>
       sync_row m i now s es2 \<Longrightarrow> P (ds @ [(i, now)]) (tr_next (charged m s es2)) (es @ es2)"
  shows "P ds m es"
proof -
  obtain t where r: "r = Inr t" using history_started [OF h] ..
  then obtain es' where run: "run (tr_next t) ds = Inr (m, es')" and es: "es = tr_effects t @ es'"
    using h by (auto simp: history_split)
  have "P ds m (tr_effects t @ es')"
    using run
  proof (induction rule: sync.go_induct)
    case start
    show ?case using assms(2) [OF r] by simp
  next
    case (extend ds m1 es1 d m2 es2)
    then obtain s where row: "sync_row m1 (fst d) (snd d) s es2" and m2: "m2 = tr_next (charged m1 s es2)"
      by (auto simp: transit_iff)
    have "history r ds = Inr (m1, tr_effects t @ es1)"
      using extend.hyps(1) r by (simp add: history_split)
    from assms(3) [OF this extend.IH row] show ?case by (simp add: m2)
  qed
  then show ?thesis by (simp add: es)
qed

lemma entry_row_cases:
  "entry_row m f = (s, es) \<longleftrightarrow>
     (if sm_operation m = Create then s = S_AwaitingPreflight \<and> es = [E_AssertFormSchema f]
      else s = S_PreflightAsserted None \<and> es = [E_RecordIntent (sm_intent_hash m)])"
  by (auto simp: entry_row_def split: ItemOperation.splits)

subsection \<open>Where a run can be\<close>

text \<open>
  \<open>accounted ds es w\<close>: the attempt \<open>w\<close> was opened by a recorded intent of this run, after the
  machine asked for one, or adopted by a resume of an earlier run's.
\<close>

definition accounted :: "delivery list \<Rightarrow> Effect list \<Rightarrow> WriteAttemptId \<Rightarrow> bool" where
  "accounted ds es w \<longleftrightarrow>
     (w \<in> set (List.map_filter opened ds) \<and> list_ex is_record_intent es)
     \<or> w \<in> set (List.map_filter adopted ds)"

definition read_before :: "Effect list \<Rightarrow> WriteAttemptId \<Rightarrow> bool" where
  "read_before es w \<longleftrightarrow> w \<in> set (List.map_filter read_attempt_of es)"

definition settled_from_read :: "SyncMachine \<Rightarrow> delivery list \<Rightarrow> WriteReceipt \<Rightarrow> WriteAttemptId \<Rightarrow> bool" where
  "settled_from_read m ds r w \<longleftrightarrow> (\<exists>observed now. ds \<noteq> [] \<and> last ds = (I_ReadBackResult (Inr observed), now) \<and>
      verification_settles (sm_operation m) observed \<and>
      r = issue (as_attempt_id w) (ol_id observed) (Timestamp (li_ms now)))"

definition outcome_grounded ::
  "SyncMachine \<Rightarrow> delivery list \<Rightarrow> Effect list \<Rightarrow> Outcome \<Rightarrow> bool" where
  "outcome_grounded m ds es out =
     (case out of
        Out_Ambiguous a cause ev \<Rightarrow> (\<exists>w. Out_Ambiguous a cause ev = ambiguous w cause \<and> accounted ds es w)
      | Out_Committed r report \<Rightarrow>
          report = unnormalised_report \<and>
          (\<exists>w. accounted ds es w \<and> read_before es w \<and> settled_from_read m ds r w)
      | Out_Degraded r report \<Rightarrow> False
      | _ \<Rightarrow> True)"

definition grounded :: "SyncMachine \<Rightarrow> delivery list \<Rightarrow> Effect list \<Rightarrow> bool" where
  "grounded m ds es =
     (case sm_state m of
        S_AwaitingPreflight \<Rightarrow> sm_operation m = Create
      | S_PreflightAsserted schema \<Rightarrow>
          list_ex is_record_intent es \<and> (schema = None \<longleftrightarrow> sm_operation m \<noteq> Create)
      | S_IntentRecorded w schema \<Rightarrow>
          w \<in> set (List.map_filter opened ds) \<and> list_ex is_record_intent es
          \<and> w \<in> set (List.map_filter write_attempt_of es)
          \<and> (subject (sm_operation m) = None \<longrightarrow> sm_operation m = Create)
          \<and> (schema = None \<longleftrightarrow> sm_operation m \<noteq> Create)
      | S_Submitted w ev \<Rightarrow> False
      | S_AwaitingReadBack w l \<Rightarrow> accounted ds es w \<and> read_before es w
      | S_Parked p c \<Rightarrow> c = ReauthRequired \<and> (\<exists>w. p = Some w \<and> accounted ds es w)
      | S_Stranded w l \<Rightarrow>
          accounted ds es w \<and> sm_operation m = Create \<and> is_draft_then_publish (sm_strategy m)
          \<and> (\<exists>title. recorded_title m = Some title \<and> l = Recorded title (sm_inventory m))
      | S_Terminal out \<Rightarrow> outcome_grounded m ds es out)"

lemma accounted_mono: "accounted ds es w \<Longrightarrow> accounted (ds @ ds') (es @ es') w"
  by (auto simp: accounted_def map_filter_append)

lemma read_before_mono: "read_before es w \<Longrightarrow> read_before (es @ es') w"
  by (auto simp: read_before_def map_filter_append)

lemma write_effect_subject:
  "write_effect m w = Inr e \<Longrightarrow> subject (sm_operation m) = None \<Longrightarrow> sm_operation m = Create"
  by (cases "sm_operation m") (auto simp: write_effect_def)

lemma settle_unnormalised:
  "settle a i t unnormalised_report = Out_Committed (issue a i t) unnormalised_report"
  by (simp add: settle_def unnormalised_report_def Let_def)

lemma recorded_title_charged [simp]: "recorded_title (tr_next (charged m s es)) = recorded_title m"
  by (simp add: recorded_title_def)


end
