(* ===== verification/SyncSafety.thy ===== *)
theory SyncSafety
  imports SyncRuns
begin

section \<open>Safety of the sync machine\<close>

text \<open>
  The properties of every history of the machine (a run from \<open>initial\<close>): the five of the design
  document, and what each state it can reach says about the attempt it holds.
\<close>

lemma grounded_entry:
  assumes "initial org inventory connection form item key h fieldset strategy operation budget = Inr t"
  shows "grounded (tr_next t) [] (tr_effects t)"
  using initial_entry [OF assms]
  by (auto simp: grounded_def entry_row_cases split: if_splits)

lemma grounded_row:
  assumes "sync_row m i now s es2" "grounded m ds es"
  shows "grounded (tr_next (charged m s es2)) (ds @ [(i, now)]) (es @ es2)"
  using assms
  by (induction rule: sync_row.cases)
    (auto simp: grounded_def outcome_grounded_def entry_row_cases write_effect_attempt
       settle_unnormalised settled_from_read_def accounted_def read_before_def map_filter_append halting_def
       ambiguous_def is_draft_then_publish_iff adopts_def asks_seller_def
       dest: write_effect_subject split: if_splits)

lemma history_grounded:
  assumes "history (initial org inventory connection form item key h fieldset strategy operation budget) ds
      = Inr (m, es)"
  shows "grounded m ds es"
  using assms
  by (induction rule: history_induct) (auto intro: grounded_entry grounded_row)

subsection \<open>Writes and attempts\<close>

lemma entry_emits:
  assumes "initial org inventory connection form item key h fieldset strategy operation budget = Inr t"
  shows "List.map_filter write_attempt_of (tr_effects t) = []" "length (tr_effects t) = 1"
    "list_all (\<lambda>e. write_attempt_of e = None) (tr_effects t)"
  using initial_entry(11) [OF assms] by (auto simp: entry_row_cases split: if_splits)

lemma history_licensed:
  assumes "history (initial org inventory connection form item key h fieldset strategy operation budget) ds
      = Inr (m, es)"
  shows "List.map_filter write_attempt_of es = List.map_filter opened ds"
proof -
  obtain t es' where t: "initial org inventory connection form item key h fieldset strategy operation budget = Inr t"
    and "run (tr_next t) ds = Inr (m, es')" "es = tr_effects t @ es'"
    using assms history_started [OF assms] by (auto simp: history_split)
  then show ?thesis
    by (simp add: map_filter_append entry_emits(1) [OF t] sync.go_licensed)
qed

subsection \<open>A sample item, for the witnesses\<close>

definition sample_uuid :: "nat \<Rightarrow> Uuid" where
  "sample_uuid n = Uuid (replicate 15 0 @ [of_nat n])"

definition sample_attempt :: WriteAttemptId where
  "sample_attempt = WriteAttemptId (sample_uuid 7)"

definition sample_fields :: FieldSet where
  "sample_fields = \<lparr>fs_entries = [(Title, ''Fractions'')], fs_files = [], fs_cover = None,
     fs_body_format = None, fs_appropriate_for_country = None\<rparr>"

definition sample_item ::
  "ItemOperation \<Rightarrow> CreateStrategy \<Rightarrow> u32 \<Rightarrow> MachineError + Transition" where
  "sample_item operation strategy budget =
     initial (OrgId (sample_uuid 1)) Tes (ConnectionId (sample_uuid 2)) (FormId (sample_uuid 3))
       (JobItemId (sample_uuid 4)) (IdempotencyKey (sample_uuid 5)) (ContentHash [])
       sample_fields strategy operation (StepBudget budget)"

definition sample_evidence :: "RemoteListingId option \<Rightarrow> SubmitEvidence" where
  "sample_evidence landed = \<lparr>se_http_status = Some 200, se_response_body_digest = None,
     se_landed_on_route = None, se_landed = landed, se_observed_lag = False\<rparr>"

definition sample_listing :: "RemoteLifecycle \<Rightarrow> ObservedListing" where
  "sample_listing lifecycle = \<lparr>ol_id = RTes ''r-1'', ol_fields = [], ol_lifecycle = lifecycle\<rparr>"

definition sample_create :: "delivery list" where
  "sample_create =
     [(I_PreflightResult (Inr (FormSchemaFingerprint (ContentHash []))), LogicalInstant 1),
      (I_IntentRecorded sample_attempt, LogicalInstant 2),
      (I_SubmitResult (Inr (sample_evidence (Some (RTes ''r-1'')))), LogicalInstant 3),
      (I_ReadBackResult (Inr (sample_listing L_Draft)), LogicalInstant 4)]"

definition reached :: "MachineError + (SyncMachine \<times> Effect list) \<Rightarrow> (SyncState \<times> Effect list) option" where
  "reached r = (case r of Inl e \<Rightarrow> None | Inr me \<Rightarrow> Some (sm_state (fst me), snd me))"

lemma reached_SomeD: "reached r = Some (s, es) \<Longrightarrow> \<exists>m. r = Inr (m, es) \<and> sm_state m = s"
  by (cases r) (auto simp: reached_def)

lemma sample_commits:
  "reached (history (sample_item Create HaltOnAmbiguity 9) sample_create) =
     Some (S_Terminal (Out_Committed
             \<lparr>wr_attempt = AttemptId (sample_uuid 7), wr_id = RTes ''r-1'', wr_at = Timestamp 4\<rparr>
             unnormalised_report),
           [E_AssertFormSchema (FormId (sample_uuid 3)), E_RecordIntent (ContentHash []),
            E_Submit sample_attempt (IdempotencyKey (sample_uuid 5)) sample_fields,
            E_ReadBack (Durable (RTes ''r-1'')) (VerifyAttempt sample_attempt)])"
  by code_simp

definition sample_lost :: "delivery list" where
  "sample_lost = take 2 sample_create @
     [(I_SubmitResult (Inl (AE_Ambiguous ProcessKilledByBackstop)), LogicalInstant 3)]"

lemma sample_goes_ambiguous:
  "reached (history (sample_item Create HaltOnAmbiguity 9) sample_lost) =
     Some (S_Terminal (ambiguous sample_attempt NoDurableIdentifier),
           [E_AssertFormSchema (FormId (sample_uuid 3)), E_RecordIntent (ContentHash []),
            E_Submit sample_attempt (IdempotencyKey (sample_uuid 5)) sample_fields,
            E_CaptureDiagnostics (Some sample_attempt) CC_Ambiguity,
            E_Halt \<lparr>hs_org = OrgId (sample_uuid 1), hs_inventory = Tes\<rparr>,
            E_Notify (OrgId (sample_uuid 1)) SE_InventoryHalted])"
  by code_simp

subsection \<open>The properties\<close>

text \<open>
  C1. The writes a history emits are exactly the attempts its recorded intents opened, in order;
  so where the driver opens a fresh attempt for every recorded intent, no attempt is ever
  written twice.
\<close>

theorem writes_follow_recorded_intents:
  assumes "history (initial org inventory connection form item key h fieldset strategy operation budget) ds
      = Inr (m, es)"
  shows "List.map_filter write_attempt_of es = List.map_filter opened ds \<and>
    (distinct (List.map_filter opened ds) \<longrightarrow> distinct (List.map_filter write_attempt_of es))"
  using history_licensed [OF assms] by simp_all

theorem writes_follow_recorded_intents_witness:
  "\<exists>m es. history (sample_item Create HaltOnAmbiguity 9) sample_create = Inr (m, es) \<and>
     List.map_filter write_attempt_of es = [sample_attempt] \<and>
     distinct (List.map_filter write_attempt_of es)"
proof -
  obtain m es where h: "history (sample_item Create HaltOnAmbiguity 9) sample_create = Inr (m, es)"
    using reached_SomeD [OF sample_commits] by blast
  have "List.map_filter opened sample_create = [sample_attempt]"
    by (simp add: sample_create_def)
  with h writes_follow_recorded_intents [OF h [unfolded sample_item_def]] show ?thesis by auto
qed

text \<open>
  A history that ends ambiguous names an attempt it can account for: one opened by an intent
  it asked to record before, or one a resume adopted from the run that recorded it; and the
  evidence it cites is that attempt's.
\<close>

theorem ambiguous_terminal_is_accounted:
  assumes "history (initial org inventory connection form item key h fieldset strategy operation budget) ds
      = Inr (m, es)"
    and "sm_state m = S_Terminal (Out_Ambiguous a cause evidence)"
  shows "\<exists>w. Out_Ambiguous a cause evidence = ambiguous w cause \<and>
     (w \<in> set (List.map_filter opened ds) \<and> list_ex is_record_intent es
      \<or> w \<in> set (List.map_filter adopted ds))"
  using history_grounded [OF assms(1)] assms(2)
  by (simp add: grounded_def outcome_grounded_def accounted_def)

theorem ambiguous_terminal_is_accounted_witness:
  "\<exists>m es. history (sample_item Create HaltOnAmbiguity 9) sample_lost = Inr (m, es) \<and>
     (\<exists>w. sm_state m = S_Terminal (ambiguous w NoDurableIdentifier) \<and>
        (w \<in> set (List.map_filter opened sample_lost) \<and> list_ex is_record_intent es
         \<or> w \<in> set (List.map_filter adopted sample_lost)))"
proof -
  obtain m es where h: "history (sample_item Create HaltOnAmbiguity 9) sample_lost = Inr (m, es)"
    and s: "sm_state m = S_Terminal (ambiguous sample_attempt NoDurableIdentifier)"
    using reached_SomeD [OF sample_goes_ambiguous] by blast
  from ambiguous_terminal_is_accounted [OF h [unfolded sample_item_def] s [unfolded ambiguous_def]]
  show ?thesis using h s by (auto simp: ambiguous_def)
qed

text \<open>What the read of each operation has to show, apart from the code that asks.\<close>

definition read_shows :: "ItemOperation \<Rightarrow> RemoteLifecycle \<Rightarrow> bool" where
  "read_shows operation lifecycle \<longleftrightarrow>
     (case operation of
        Create \<Rightarrow> lifecycle \<noteq> L_Absent
      | PublishTo to \<Rightarrow> reaches lifecycle to
      | Revise s t \<Rightarrow> reaches lifecycle (lt_to t)
      | Remove s st \<Rightarrow> lifecycle = L_Absent)"

lemma settles_shows: "verification_settles operation observed \<longleftrightarrow> read_shows operation (ol_lifecycle observed)"
  by (cases operation) (simp_all add: read_shows_def)

text \<open>
  C2. A history that ends committed was settled by a read of that very attempt: the machine had
  asked for a read-back or a reconcile of it, the last thing it was told is a read that met the
  operation's own test, and the receipt names the listing and the instant of that read. The
  machine never ends degraded.
\<close>

theorem committed_terminal_follows_its_read:
  assumes "history (initial org inventory connection form item key h fieldset strategy operation budget) ds
      = Inr (m, es)"
  shows "(\<forall>r report. sm_state m \<noteq> S_Terminal (Out_Degraded r report)) \<and>
    (\<forall>r report. sm_state m = S_Terminal (Out_Committed r report) \<longrightarrow>
      (\<exists>w observed now. w \<in> set (List.map_filter read_attempt_of es) \<and>
        (w \<in> set (List.map_filter opened ds) \<or> w \<in> set (List.map_filter adopted ds)) \<and>
        ds \<noteq> [] \<and> last ds = (I_ReadBackResult (Inr observed), now) \<and>
        read_shows (sm_operation m) (ol_lifecycle observed) \<and>
        r = issue (as_attempt_id w) (ol_id observed) (Timestamp (li_ms now))))"
  using history_grounded [OF assms]
  by (fastforce simp: grounded_def outcome_grounded_def accounted_def read_before_def settled_from_read_def settles_shows)

theorem committed_terminal_follows_its_read_witness:
  "\<exists>m es. history (sample_item Create HaltOnAmbiguity 9) sample_create = Inr (m, es) \<and>
     (\<forall>r report. sm_state m \<noteq> S_Terminal (Out_Degraded r report)) \<and>
     (\<exists>r report. sm_state m = S_Terminal (Out_Committed r report) \<and> wr_id r = RTes ''r-1'' \<and>
       (\<exists>w. w \<in> set (List.map_filter read_attempt_of es) \<and> wr_attempt r = as_attempt_id w))"
proof -
  obtain m es where h: "history (sample_item Create HaltOnAmbiguity 9) sample_create = Inr (m, es)"
    and s: "sm_state m = S_Terminal (Out_Committed
             \<lparr>wr_attempt = AttemptId (sample_uuid 7), wr_id = RTes ''r-1'', wr_at = Timestamp 4\<rparr>
             unnormalised_report)"
    using reached_SomeD [OF sample_commits] by blast
  note settled = committed_terminal_follows_its_read [OF h [unfolded sample_item_def]]
  show ?thesis using settled h s by (auto simp: issue_def)
qed


text \<open>
  The states after which the machine only settles: a read is awaited, the create is stranded,
  or the item is decided.
\<close>

fun settling :: "SyncState \<Rightarrow> bool" where
  "settling (S_AwaitingReadBack w l) = True"
| "settling (S_Stranded w l) = True"
| "settling (S_Terminal out) = True"
| "settling S_AwaitingPreflight = False"
| "settling (S_PreflightAsserted schema) = False"
| "settling (S_IntentRecorded w schema) = False"
| "settling (S_Submitted w ev) = False"
| "settling (S_Parked p c) = False"

lemma settling_row:
  "sync_row m i now s es \<Longrightarrow> settling (sm_state m) \<Longrightarrow>
     settling s \<and> list_all (\<lambda>e. write_attempt_of e = None) es"
  by (erule sync_row.cases) (auto simp: halting_def adopts_def)

text \<open>
  C3. From the moment a write's fate is being settled (a read is awaited, the create is stranded,
  or the outcome is stated) no continuation of the run writes again: an ambiguous write is
  reconciled or escalated, never retried. Once the outcome is stated every input is refused.
\<close>

theorem nothing_is_written_while_settling:
  assumes "settling (sm_state m)" "run m ds = Inr (m', es)"
  shows "settling (sm_state m') \<and> (\<forall>e\<in>set es. write_attempt_of e = None) \<and>
    (is_terminal (sm_state m) \<longrightarrow> ds = [] \<and> (\<forall>i now. step m i now = Inl InputNotApplicable))"
proof -
  have closed: "settling (sm_state m2) \<and> list_all (\<lambda>e. write_attempt_of e = None) es2"
    if "settling (sm_state m1)" "transit m1 d = Inr (m2, es2)" for m1 d m2 es2
    using that by (auto simp: transit_iff dest: settling_row)
  have "settling (sm_state m')"
    by (rule sync.go_invariant [OF assms(2), of "\<lambda>m. settling (sm_state m)"]) (use assms(1) closed in auto)
  moreover have "list_all (\<lambda>e. write_attempt_of e = None) es"
    by (rule sync.go_emitted [OF assms(2), of "\<lambda>m. settling (sm_state m)"]) (use assms(1) closed in auto)
  moreover have "ds = []" if "is_terminal (sm_state m)"
    by (rule sync.go_absorbed [OF assms(2) transit_terminal [OF that]])
  moreover have "step m i now = Inl InputNotApplicable" if "is_terminal (sm_state m)" for i now
    using that by (auto simp: is_terminal_iff step_def attempt_conflict_def exhaust_budget_def Let_def
        split: Input.splits)
  ultimately show ?thesis by (simp add: list_all_iff)
qed

definition sample_stranded :: "delivery list" where
  "sample_stranded = take 2 sample_create @
     [(I_SubmitResult (Inl (AE_Challenge Captcha)), LogicalInstant 3)]"

definition sample_resumed :: "delivery list" where
  "sample_resumed =
     [(I_ResumeStranded sample_attempt (RecordedTitle ''Fractions''), LogicalInstant 5),
      (I_ReconcileResult (Inr (Some (RTes ''r-1''))), LogicalInstant 6),
      (I_ReadBackResult (Inr (sample_listing L_Draft)), LogicalInstant 7)]"

lemma sample_strands:
  "reached (history (sample_item Create (DraftThenPublish K_Draft) 12) sample_stranded) =
     Some (S_Stranded sample_attempt (Recorded (RecordedTitle ''Fractions'') Tes),
           [E_AssertFormSchema (FormId (sample_uuid 3)), E_RecordIntent (ContentHash []),
            E_Submit sample_attempt (IdempotencyKey (sample_uuid 5)) sample_fields,
            E_CaptureDiagnostics (Some sample_attempt) CC_Ambiguity])"
  by code_simp

lemma sample_reconciles:
  "reached (case history (sample_item Create (DraftThenPublish K_Draft) 12) sample_stranded of
       Inl e \<Rightarrow> Inl e | Inr me \<Rightarrow> run (fst me) sample_resumed) =
     Some (S_Terminal (Out_Committed
             \<lparr>wr_attempt = AttemptId (sample_uuid 7), wr_id = RTes ''r-1'', wr_at = Timestamp 7\<rparr>
             unnormalised_report),
           [E_Reconcile sample_attempt (Recorded (RecordedTitle ''Fractions'') Tes),
            E_ReadBack (Durable (RTes ''r-1'')) (VerifyAttempt sample_attempt)])"
  by code_simp

theorem nothing_is_written_while_settling_witness:
  "\<exists>m es m' es'. history (sample_item Create (DraftThenPublish K_Draft) 12) sample_stranded = Inr (m, es) \<and>
     list_ex (\<lambda>e. write_attempt_of e \<noteq> None) es \<and>
     run m sample_resumed = Inr (m', es') \<and> es' \<noteq> [] \<and> (\<forall>e\<in>set es'. write_attempt_of e = None) \<and>
     is_terminal (sm_state m')"
proof -
  obtain m es where h: "history (sample_item Create (DraftThenPublish K_Draft) 12) sample_stranded = Inr (m, es)"
    and s: "sm_state m = S_Stranded sample_attempt (Recorded (RecordedTitle ''Fractions'') Tes)"
    and es: "list_ex (\<lambda>e. write_attempt_of e \<noteq> None) es"
    using reached_SomeD [OF sample_strands] by auto
  obtain m' es' where r: "run m sample_resumed = Inr (m', es')" "is_terminal (sm_state m')" "es' \<noteq> []"
    using reached_SomeD [OF sample_reconciles] h by auto
  have "settling (sm_state m)" by (simp add: s)
  from nothing_is_written_while_settling [OF this r(1)] h es r show ?thesis by blast
qed

text \<open>The attempt a state holds whose write may have gone out.\<close>

fun write_may_be_out :: "SyncState \<Rightarrow> WriteAttemptId option" where
  "write_may_be_out (S_IntentRecorded w schema) = Some w"
| "write_may_be_out (S_Submitted w ev) = Some w"
| "write_may_be_out (S_Stranded w l) = Some w"
| "write_may_be_out (S_AwaitingReadBack w l) = Some w"
| "write_may_be_out S_AwaitingPreflight = None"
| "write_may_be_out (S_PreflightAsserted schema) = None"
| "write_may_be_out (S_Parked p c) = None"
| "write_may_be_out (S_Terminal out) = None"

text \<open>
  C4. The budget report is never refused and always decides the item in one transition, whatever
  allowance is left, even none: ambiguous for the attempt whose write may have gone out, skipped
  where none may have.
\<close>

theorem budget_report_decides_the_item:
  assumes "\<not> is_terminal (sm_state m)"
  shows "\<exists>t. step m I_BudgetExhausted now = Inr t \<and> length (tr_effects t) = 1 \<and>
    sm_state (tr_next t) = S_Terminal
      (case write_may_be_out (sm_state m) of
         Some w \<Rightarrow> ambiguous w ProcessKilledByBackstop
       | None \<Rightarrow> Out_Skipped OtherFailure)"
  using assms
  by (cases "sm_state m")
    (simp_all add: step_def attempt_conflict_def exhaust_budget_def emit_unbilled_def Let_def)

theorem budget_report_decides_the_item_witness:
  "\<exists>m es t. history (sample_item Create (DraftThenPublish K_Draft) 4) sample_stranded = Inr (m, es) \<and>
     remaining m = 0 \<and> step m I_BudgetExhausted (LogicalInstant 9) = Inr t \<and>
     sm_state (tr_next t) = S_Terminal (ambiguous sample_attempt ProcessKilledByBackstop)"
proof -
  have "(case history (sample_item Create (DraftThenPublish K_Draft) 4) sample_stranded of
           Inl e \<Rightarrow> False | Inr me \<Rightarrow> remaining (fst me) = 0 \<and>
             write_may_be_out (sm_state (fst me)) = Some sample_attempt \<and> \<not> is_terminal (sm_state (fst me)))"
    by code_simp
  then obtain m es where "history (sample_item Create (DraftThenPublish K_Draft) 4) sample_stranded = Inr (m, es)"
    "remaining m = 0" "write_may_be_out (sm_state m) = Some sample_attempt" "\<not> is_terminal (sm_state m)"
    by (auto split: sum.splits)
  with budget_report_decides_the_item [of m "LogicalInstant 9"] show ?thesis by auto
qed

text \<open>
  The allowance is exact: until the budget report every emitted effect costs one unit of the
  starting allowance, the entry row's included, and the report itself can add one effect; so a
  history never emits more than its allowance plus one and never gains allowance.
\<close>

theorem allowance_is_spent_exactly:
  assumes "history (initial org inventory connection form item key h fieldset strategy operation budget) ds
      = Inr (m, es)"
  shows "if list_ex is_budget_report ds
    then unat (remaining m) \<le> unat (actions_remaining budget) \<and>
         length es \<le> unat (actions_remaining budget) + 1
    else unat (remaining m) + length es = unat (actions_remaining budget)"
proof -
  obtain t es' where t: "initial org inventory connection form item key h fieldset strategy operation budget = Inr t"
    and go: "run (tr_next t) ds = Inr (m, es')" and es: "es = tr_effects t @ es'"
    using assms history_started [OF assms] by (auto simp: history_split)
  show ?thesis
    using sync.go_spends [OF go] initial_entry(12) [OF t] by (auto simp: es split: if_splits)
qed

theorem allowance_is_spent_exactly_witness:
  "\<exists>m es. history (sample_item Create HaltOnAmbiguity 9) sample_create = Inr (m, es) \<and>
     unat (remaining m) + length es = 9"
proof -
  obtain m es where h: "history (sample_item Create HaltOnAmbiguity 9) sample_create = Inr (m, es)"
    using reached_SomeD [OF sample_commits] by blast
  have "\<not> list_ex is_budget_report sample_create" by (simp add: sample_create_def)
  with h allowance_is_spent_exactly [OF h [unfolded sample_item_def]] show ?thesis by auto
qed

text \<open>
  What licenses a further write: an answer proving the last request never left, or the seller
  clearing a challenge.
\<close>

fun licenses_retry :: "delivery \<Rightarrow> bool" where
  "licenses_retry (I_SubmitResult (Inl (AE_NotSent n)), now) = True"
| "licenses_retry (I_ChallengeCleared, now) = True"
| "licenses_retry d = False"

fun may_still_write :: "SyncState \<Rightarrow> bool" where
  "may_still_write S_AwaitingPreflight = True"
| "may_still_write (S_PreflightAsserted schema) = True"
| "may_still_write s = False"

definition retry_bound :: "delivery list \<Rightarrow> SyncMachine \<Rightarrow> Effect list \<Rightarrow> bool" where
  "retry_bound ds m es \<longleftrightarrow>
     length (List.map_filter write_attempt_of es) + (if may_still_write (sm_state m) then 1 else 0)
       \<le> 1 + length (filter licenses_retry ds)"

lemma retry_bound_row:
  "sync_row m i now s es2 \<Longrightarrow> retry_bound ds m es \<Longrightarrow>
     retry_bound (ds @ [(i, now)]) (tr_next (charged m s es2)) (es @ es2)"
  by (erule sync_row.cases)
    (auto simp: retry_bound_def map_filter_append halting_def entry_row_cases write_effect_attempt
       split: if_splits)

text \<open>
  C5. A history writes at most once, and once more for each answer that proves the last request
  never left and for each challenge the seller cleared: nothing else brings the machine back in
  front of a write.
\<close>

theorem every_retry_is_licensed:
  assumes "history (initial org inventory connection form item key h fieldset strategy operation budget) ds
      = Inr (m, es)"
  shows "length (List.map_filter write_attempt_of es) \<le> 1 + length (filter licenses_retry ds)"
proof -
  have "retry_bound ds m es"
    using assms
  proof (induction rule: history_induct)
    case (start t)
    then show ?case by (simp add: retry_bound_def entry_emits)
  qed (rule retry_bound_row)
  then show ?thesis by (auto simp: retry_bound_def split: if_splits)
qed

definition sample_retried :: "delivery list" where
  "sample_retried = take 2 sample_create @
     [(I_SubmitResult (Inl (AE_NotSent TcpRefused)), LogicalInstant 3),
      (I_IntentRecorded (WriteAttemptId (sample_uuid 8)), LogicalInstant 4)]"

theorem every_retry_is_licensed_witness:
  "\<exists>m es. history (sample_item Create HaltOnAmbiguity 9) sample_retried = Inr (m, es) \<and>
     length (List.map_filter write_attempt_of es) = 2 \<and> 2 \<le> 1 + length (filter licenses_retry sample_retried)"
proof -
  have "(case history (sample_item Create HaltOnAmbiguity 9) sample_retried of Inl e \<Rightarrow> False
         | Inr me \<Rightarrow> length (List.map_filter write_attempt_of (snd me)) = 2)"
    by code_simp
  then obtain m es where h: "history (sample_item Create HaltOnAmbiguity 9) sample_retried = Inr (m, es)"
    and two: "length (List.map_filter write_attempt_of es) = 2"
    by (auto split: sum.splits)
  from every_retry_is_licensed [OF h [unfolded sample_item_def]] h two show ?thesis by auto
qed

text \<open>
  The effects an item may ask for: writes carry its own key, fields, subject and transition,
  halts name its own organisation and inventory, and parks, gates and notices its own item,
  connection and organisation.
\<close>

fun own_effect :: "SyncMachine \<Rightarrow> Effect \<Rightarrow> bool" where
  "own_effect m (E_AssertFormSchema f) \<longleftrightarrow> f = sm_form m \<and> sm_operation m = Create"
| "own_effect m (E_RecordIntent h) \<longleftrightarrow> h = sm_intent_hash m"
| "own_effect m (E_Submit a k f) \<longleftrightarrow> k = sm_key m \<and> f = sm_fields m \<and> sm_operation m = Create"
| "own_effect m (E_Revise a s f t) \<longleftrightarrow> f = sm_fields m \<and> sm_operation m = Revise s t"
| "own_effect m (E_Remove a s st) \<longleftrightarrow> sm_operation m = Remove s st"
| "own_effect m (E_ReadBack l r) \<longleftrightarrow> (\<exists>a. r = VerifyAttempt a)"
| "own_effect m (E_Reconcile a l) \<longleftrightarrow> sm_operation m = Create"
| "own_effect m (E_ParkItem i c e) \<longleftrightarrow> i = sm_item m \<and> c = ReauthRequired"
| "own_effect m (E_RequeueBehindGate c b) \<longleftrightarrow> c = sm_connection m \<and> b = BC_Reauth"
| "own_effect m (E_CaptureDiagnostics a c) \<longleftrightarrow> c = CC_Ambiguity \<or> c = CC_SchemaDrift"
| "own_effect m (E_Halt s) \<longleftrightarrow> hs_org s = sm_org m \<and> hs_inventory s = sm_inventory m"
| "own_effect m (E_Notify o' e) \<longleftrightarrow> o' = sm_org m"

definition same_item :: "SyncMachine \<Rightarrow> SyncMachine \<Rightarrow> bool" where
  "same_item m m' \<longleftrightarrow> m' = m\<lparr>sm_state := sm_state m', sm_budget := sm_budget m'\<rparr>"

lemma same_item_fields:
  "same_item m m' \<longleftrightarrow> sm_org m' = sm_org m \<and> sm_inventory m' = sm_inventory m
     \<and> sm_connection m' = sm_connection m \<and> sm_form m' = sm_form m \<and> sm_item m' = sm_item m
     \<and> sm_key m' = sm_key m \<and> sm_intent_hash m' = sm_intent_hash m \<and> sm_fields m' = sm_fields m
     \<and> sm_strategy m' = sm_strategy m \<and> sm_operation m' = sm_operation m"
  by (cases m; cases m') (auto simp: same_item_def)

lemma own_effect_cong: "same_item m m' \<Longrightarrow> own_effect m' e = own_effect m e"
  by (cases e) (auto simp: same_item_fields)

lemma own_effects_row:
  "sync_row m i now s es \<Longrightarrow> grounded m ds fx \<Longrightarrow> list_all (own_effect m) es"
  by (erule sync_row.cases)
    (auto simp: halting_def halt_scope_def entry_row_cases adopts_def grounded_def
       write_effect_def split: ItemOperation.splits if_splits)

text \<open>
  A history never changes what the item is and never acts outside it: the construction data
  are framed, only a create asserts a form, submits or searches, a revise and a removal write to
  exactly the listing they were given, and every halt, gate, park and notice names the item's
  own organisation, inventory, connection and item.
\<close>

theorem effects_stay_within_the_item:
  assumes "history (initial org inventory connection form item key h fieldset strategy operation budget) ds
      = Inr (m, es)"
  shows "sm_org m = org \<and> sm_inventory m = inventory \<and> sm_connection m = connection \<and>
    sm_form m = form \<and> sm_item m = item \<and> sm_key m = key \<and> sm_intent_hash m = h \<and>
    sm_fields m = fieldset \<and> sm_strategy m = strategy \<and> sm_operation m = operation \<and>
    (\<forall>e\<in>set es. own_effect m e)"
  using assms
proof (induction rule: history_induct)
  case (start t)
  then show ?case using initial_entry [OF start] by (auto simp: entry_row_cases split: if_splits)
next
  case (extend ds m es i now s es2)
  let ?m' = "tr_next (charged m s es2)"
  have same: "same_item m ?m'" by (simp add: same_item_fields)
  have "list_all (own_effect m) es2"
    by (rule own_effects_row [OF extend.hyps(2) history_grounded [OF extend.hyps(1)]])
  with extend.IH show ?case by (auto simp: own_effect_cong [OF same] list_all_iff)
qed

theorem effects_stay_within_the_item_witness:
  "\<exists>m es. history (sample_item Create HaltOnAmbiguity 9) sample_lost = Inr (m, es) \<and>
     E_Halt \<lparr>hs_org = OrgId (sample_uuid 1), hs_inventory = Tes\<rparr> \<in> set es \<and>
     sm_org m = OrgId (sample_uuid 1) \<and> (\<forall>e\<in>set es. own_effect m e)"
proof -
  obtain m es where h: "history (sample_item Create HaltOnAmbiguity 9) sample_lost = Inr (m, es)"
    and halted: "E_Halt \<lparr>hs_org = OrgId (sample_uuid 1), hs_inventory = Tes\<rparr> \<in> set es"
    using reached_SomeD [OF sample_goes_ambiguous] by auto
  from effects_stay_within_the_item [OF h [unfolded sample_item_def]] h halted show ?thesis by blast
qed

end
