(* ===== verification/SyncTable.thy ===== *)
theory SyncTable
  imports SyncSafety
begin

section \<open>The documented transition table\<close>

text \<open>
  The transition table of \<open>docs/design/sync-machine.md\<close>, row by row, as an abstract
  specification of \<open>step\<close>: states, inputs and effects stand for their kinds, so a row says which
  state an input leads to and what is emitted, and not with which data. \<open>documented\<close> is the
  document's table and \<open>undocumented\<close> the rows the code has beyond it.
\<close>

datatype StateKind =
    SK_AwaitingPreflight | SK_PreflightAsserted | SK_IntentRecorded | SK_Submitted
  | SK_AwaitingReadBack | SK_Parked | SK_Stranded
  | SK_Committed | SK_Degraded | SK_Rejected FailureCode | SK_RejectedAsTold
  | SK_Ambiguous AmbiguityCause | SK_AmbiguousAsTold | SK_Blocked | SK_Skipped FailureCode

datatype InputKind =
    IK_PreflightOk | IK_PreflightErr | IK_IntentRecorded | IK_SubmitOk | IK_SubmitAmbiguous
  | IK_SubmitRejected | IK_SubmitChallengeSeller | IK_SubmitChallengeEdge | IK_SubmitSessionExpired
  | IK_SubmitSchemaDrift | IK_SubmitRateLimited | IK_SubmitNotSent | IK_SubmitUncaptured
  | IK_ReadOk | IK_ReadAmbiguous | IK_ReadOtherErr
  | IK_ReconcileFound | IK_ReconcileAbsent | IK_ReconcileErr
  | IK_ResumeStranded | IK_ChallengeCleared | IK_ParkExpired | IK_BudgetExhausted

datatype EffectKind =
    EK_AssertFormSchema | EK_RecordIntent | EK_Submit | EK_Revise | EK_Remove | EK_ReadBack
  | EK_Reconcile | EK_ParkItem | EK_RequeueBehindGate | EK_CaptureDiagnostics | EK_Halt | EK_Notify

fun state_kind :: "SyncState \<Rightarrow> StateKind" where
  "state_kind S_AwaitingPreflight = SK_AwaitingPreflight"
| "state_kind (S_PreflightAsserted s) = SK_PreflightAsserted"
| "state_kind (S_IntentRecorded w s) = SK_IntentRecorded"
| "state_kind (S_Submitted w e) = SK_Submitted"
| "state_kind (S_AwaitingReadBack w l) = SK_AwaitingReadBack"
| "state_kind (S_Parked p c) = SK_Parked"
| "state_kind (S_Stranded w l) = SK_Stranded"
| "state_kind (S_Terminal (Out_Committed r rep)) = SK_Committed"
| "state_kind (S_Terminal (Out_Degraded r rep)) = SK_Degraded"
| "state_kind (S_Terminal (Out_Rejected c d)) = SK_Rejected c"
| "state_kind (S_Terminal (Out_Ambiguous a c ev)) = SK_Ambiguous c"
| "state_kind (S_Terminal (Out_Blocked c)) = SK_Blocked"
| "state_kind (S_Terminal (Out_Skipped c)) = SK_Skipped c"

fun input_kind :: "Input \<Rightarrow> InputKind" where
  "input_kind (I_PreflightResult (Inr s)) = IK_PreflightOk"
| "input_kind (I_PreflightResult (Inl d)) = IK_PreflightErr"
| "input_kind (I_IntentRecorded a) = IK_IntentRecorded"
| "input_kind (I_SubmitResult (Inr ev)) = IK_SubmitOk"
| "input_kind (I_SubmitResult (Inl (AE_Ambiguous c))) = IK_SubmitAmbiguous"
| "input_kind (I_SubmitResult (Inl (AE_Rejected c d))) = IK_SubmitRejected"
| "input_kind (I_SubmitResult (Inl (AE_Challenge c))) =
     (if seller_clears c then IK_SubmitChallengeSeller else IK_SubmitChallengeEdge)"
| "input_kind (I_SubmitResult (Inl AE_SessionExpired)) = IK_SubmitSessionExpired"
| "input_kind (I_SubmitResult (Inl (AE_SchemaDrift d))) = IK_SubmitSchemaDrift"
| "input_kind (I_SubmitResult (Inl (AE_RateLimited r))) = IK_SubmitRateLimited"
| "input_kind (I_SubmitResult (Inl (AE_NotSent n))) = IK_SubmitNotSent"
| "input_kind (I_SubmitResult (Inl (AE_Uncaptured u))) = IK_SubmitUncaptured"
| "input_kind (I_ReadBackResult (Inr ob)) = IK_ReadOk"
| "input_kind (I_ReadBackResult (Inl (AE_Ambiguous c))) = IK_ReadAmbiguous"
| "input_kind (I_ReadBackResult (Inl e)) = IK_ReadOtherErr"
| "input_kind (I_ReconcileResult (Inr (Some i))) = IK_ReconcileFound"
| "input_kind (I_ReconcileResult (Inr None)) = IK_ReconcileAbsent"
| "input_kind (I_ReconcileResult (Inl e)) = IK_ReconcileErr"
| "input_kind (I_ResumeStranded a r) = IK_ResumeStranded"
| "input_kind I_ChallengeCleared = IK_ChallengeCleared"
| "input_kind I_ParkExpired = IK_ParkExpired"
| "input_kind I_BudgetExhausted = IK_BudgetExhausted"

fun effect_kind :: "Effect \<Rightarrow> EffectKind" where
  "effect_kind (E_AssertFormSchema f) = EK_AssertFormSchema"
| "effect_kind (E_RecordIntent h) = EK_RecordIntent"
| "effect_kind (E_Submit a k f) = EK_Submit"
| "effect_kind (E_Revise a s f t) = EK_Revise"
| "effect_kind (E_Remove a s st) = EK_Remove"
| "effect_kind (E_ReadBack l r) = EK_ReadBack"
| "effect_kind (E_Reconcile a l) = EK_Reconcile"
| "effect_kind (E_ParkItem i c e) = EK_ParkItem"
| "effect_kind (E_RequeueBehindGate c b) = EK_RequeueBehindGate"
| "effect_kind (E_CaptureDiagnostics a c) = EK_CaptureDiagnostics"
| "effect_kind (E_Halt s) = EK_Halt"
| "effect_kind (E_Notify o' e) = EK_Notify"

text \<open>A result the input itself carries is not part of a row: a rejection as told, an ambiguity as told.\<close>

fun as_told :: "InputKind \<Rightarrow> StateKind \<Rightarrow> StateKind" where
  "as_told IK_SubmitRejected (SK_Rejected c) = SK_RejectedAsTold"
| "as_told IK_ReadAmbiguous (SK_Ambiguous c) = SK_AmbiguousAsTold"
| "as_told i s = s"

type_synonym row = "StateKind \<times> InputKind \<times> StateKind \<times> EffectKind list"

definition documented :: "row list" where
  "documented =
    [(SK_AwaitingPreflight, IK_ResumeStranded, SK_AwaitingReadBack, [EK_Reconcile]),
     (SK_AwaitingPreflight, IK_ResumeStranded, SK_Ambiguous NoDurableIdentifier, [EK_Notify]),
     (SK_AwaitingPreflight, IK_PreflightOk, SK_PreflightAsserted, [EK_RecordIntent]),
     (SK_AwaitingPreflight, IK_PreflightErr, SK_Rejected FormSchemaDrift,
        [EK_CaptureDiagnostics, EK_Halt, EK_Notify]),
     (SK_PreflightAsserted, IK_IntentRecorded, SK_IntentRecorded, [EK_Submit]),
     (SK_IntentRecorded, IK_SubmitOk, SK_AwaitingReadBack, [EK_ReadBack]),
     (SK_IntentRecorded, IK_SubmitAmbiguous, SK_AwaitingReadBack, [EK_Reconcile, EK_CaptureDiagnostics]),
     (SK_IntentRecorded, IK_SubmitAmbiguous, SK_Stranded, [EK_CaptureDiagnostics]),
     (SK_IntentRecorded, IK_SubmitAmbiguous, SK_Ambiguous NoDurableIdentifier,
        [EK_CaptureDiagnostics, EK_Halt, EK_Notify]),
     (SK_IntentRecorded, IK_SubmitRejected, SK_RejectedAsTold, []),
     (SK_IntentRecorded, IK_SubmitChallengeSeller, SK_Parked,
        [EK_ParkItem, EK_RequeueBehindGate, EK_Notify]),
     (SK_IntentRecorded, IK_SubmitChallengeEdge, SK_Blocked, []),
     (SK_IntentRecorded, IK_SubmitChallengeEdge, SK_AwaitingReadBack, [EK_Reconcile, EK_CaptureDiagnostics]),
     (SK_IntentRecorded, IK_SubmitChallengeEdge, SK_Stranded, [EK_CaptureDiagnostics]),
     (SK_IntentRecorded, IK_SubmitChallengeEdge, SK_Ambiguous NoDurableIdentifier,
        [EK_CaptureDiagnostics, EK_Halt, EK_Notify]),
     (SK_IntentRecorded, IK_SubmitSessionExpired, SK_Parked,
        [EK_ParkItem, EK_RequeueBehindGate, EK_Notify]),
     (SK_IntentRecorded, IK_SubmitSchemaDrift, SK_Rejected FormSchemaDrift,
        [EK_CaptureDiagnostics, EK_Halt]),
     (SK_IntentRecorded, IK_SubmitRateLimited, SK_Skipped RateLimited, []),
     (SK_IntentRecorded, IK_SubmitNotSent, SK_PreflightAsserted, [EK_RecordIntent]),
     (SK_AwaitingReadBack, IK_ReadOk, SK_Committed, []),
     (SK_AwaitingReadBack, IK_ReadOk, SK_Degraded, []),
     (SK_AwaitingReadBack, IK_ReadAmbiguous, SK_AmbiguousAsTold,
        [EK_CaptureDiagnostics, EK_Halt, EK_Notify]),
     (SK_AwaitingReadBack, IK_ReconcileFound, SK_AwaitingReadBack, [EK_ReadBack]),
     (SK_AwaitingReadBack, IK_ReconcileAbsent, SK_Ambiguous NoDurableIdentifier, [EK_Halt, EK_Notify]),
     (SK_AwaitingReadBack, IK_ReconcileErr, SK_Ambiguous ReadBackIndeterminate, [EK_Halt, EK_Notify]),
     (SK_Stranded, IK_ResumeStranded, SK_AwaitingReadBack, [EK_Reconcile]),
     (SK_Stranded, IK_ResumeStranded, SK_Ambiguous NoDurableIdentifier, [EK_Notify]),
     (SK_Parked, IK_ChallengeCleared, SK_AwaitingPreflight, [EK_AssertFormSchema]),
     (SK_Parked, IK_ParkExpired, SK_Blocked, [EK_Notify])]
    @ map (\<lambda>s. (s, IK_BudgetExhausted, SK_Skipped OtherFailure, [EK_CaptureDiagnostics]))
        [SK_AwaitingPreflight, SK_PreflightAsserted, SK_Parked]
    @ map (\<lambda>s. (s, IK_BudgetExhausted, SK_Ambiguous ProcessKilledByBackstop, [EK_CaptureDiagnostics]))
        [SK_IntentRecorded, SK_Submitted, SK_AwaitingReadBack, SK_Stranded]"

text \<open>
  Beyond the document: the lifecycle writes in place of the submit and their re-entry without a
  form, the read of a known subject after a lost lifecycle write, a landing nobody can name, a
  capability no capture settles, and a read that does not prove the write.
\<close>

definition undocumented :: "row list" where
  "undocumented =
    [(SK_PreflightAsserted, IK_IntentRecorded, SK_IntentRecorded, [EK_Revise]),
     (SK_PreflightAsserted, IK_IntentRecorded, SK_IntentRecorded, [EK_Remove]),
     (SK_IntentRecorded, IK_SubmitAmbiguous, SK_AwaitingReadBack, [EK_ReadBack, EK_CaptureDiagnostics]),
     (SK_IntentRecorded, IK_SubmitOk, SK_Ambiguous NoDurableIdentifier,
        [EK_CaptureDiagnostics, EK_Halt, EK_Notify]),
     (SK_IntentRecorded, IK_SubmitUncaptured, SK_Skipped OtherFailure, []),
     (SK_AwaitingReadBack, IK_ReadOk, SK_Rejected VerificationMismatch, []),
     (SK_AwaitingReadBack, IK_ReadOk, SK_Ambiguous ReadBackIndeterminate,
        [EK_CaptureDiagnostics, EK_Halt, EK_Notify]),
     (SK_Parked, IK_ChallengeCleared, SK_PreflightAsserted, [EK_RecordIntent])]"

text \<open>The one documented row the code has not: the machine's own reads carry no mismatch to degrade on.\<close>

definition degraded_row :: row where
  "degraded_row = (SK_AwaitingReadBack, IK_ReadOk, SK_Degraded, [])"

definition row_of :: "SyncMachine \<Rightarrow> Input \<Rightarrow> Transition \<Rightarrow> row" where
  "row_of m i t = (state_kind (sm_state m), input_kind i,
     as_told (input_kind i) (state_kind (sm_state (tr_next t))), map effect_kind (tr_effects t))"

lemma row_documented:
  "sync_row m i now s es \<Longrightarrow>
     row_of m i (charged m s es) \<in> set documented - {degraded_row} \<union> set undocumented"
  by (erule sync_row.cases)
    (auto simp: row_of_def documented_def undocumented_def halting_def adopts_def fate_unknown_def
       asks_seller_def ambiguous_def settle_unnormalised entry_row_cases write_effect_def
       removal_still_found_def degraded_row_def
     split: ItemOperation.splits if_splits)

text \<open>One machine and input for every row.\<close>

definition sample_machine :: "ItemOperation \<Rightarrow> CreateStrategy \<Rightarrow> SyncState \<Rightarrow> SyncMachine" where
  "sample_machine operation strategy state =
     \<lparr>sm_org = OrgId (sample_uuid 1), sm_inventory = Tes, sm_connection = ConnectionId (sample_uuid 2),
      sm_form = FormId (sample_uuid 3), sm_item = JobItemId (sample_uuid 4),
      sm_key = IdempotencyKey (sample_uuid 5), sm_intent_hash = ContentHash [],
      sm_fields = sample_fields, sm_strategy = strategy, sm_operation = operation,
      sm_state = state, sm_budget = StepBudget 9\<rparr>"

definition sample_deliveries :: "(SyncMachine \<times> Input) list" where
  "sample_deliveries =
    (let w = sample_attempt; i = RTes ''r-1''; loc = Durable i;
         marker = MarkerStrategy DescriptionTail (MarkerLifetime 1); title = DraftThenPublish K_Draft;
         schema = FormSchemaFingerprint (ContentHash []);
         revise = Revise i \<lparr>lt_from = Draft, lt_to = Draft\<rparr>; remove = Remove i Draft;
         drift = \<lparr>sd_form = FormId (sample_uuid 3), sd_expected = schema, sd_observed = schema, sd_added = [], sd_removed = []\<rparr>;
         at = (\<lambda>op strategy state input. (sample_machine op strategy state, input));
         resume = I_ResumeStranded w (RecordedTitle ''Fractions'');
         recorded = S_IntentRecorded w (Some schema); reading = S_AwaitingReadBack w loc;
         parked = S_Parked (Some w) ReauthRequired; stranded = S_Stranded w loc;
         asserted = S_PreflightAsserted None;
         lost = I_SubmitResult (Inl (AE_Ambiguous ProcessKilledByBackstop));
         edge = I_SubmitResult (Inl (AE_Challenge Captcha))
     in [at Create title S_AwaitingPreflight resume,
         at Create HaltOnAmbiguity S_AwaitingPreflight resume,
         at Create title S_AwaitingPreflight (I_PreflightResult (Inr schema)),
         at Create title S_AwaitingPreflight (I_PreflightResult (Inl drift)),
         at Create title asserted (I_IntentRecorded w),
         at Create title recorded (I_SubmitResult (Inr (sample_evidence (Some i)))),
         at Create marker recorded lost, at Create title recorded lost,
         at Create HaltOnAmbiguity recorded lost,
         at Create title recorded (I_SubmitResult (Inl (AE_Rejected OtherFailure (FailureDetail [])))),
         at Create title recorded (I_SubmitResult (Inl (AE_Challenge EmailedOneTimePassword))),
         at revise title recorded edge, at Create marker recorded edge,
         at Create title recorded edge, at Create HaltOnAmbiguity recorded edge,
         at Create title recorded (I_SubmitResult (Inl AE_SessionExpired)),
         at Create title recorded (I_SubmitResult (Inl (AE_SchemaDrift drift))),
         at Create title recorded (I_SubmitResult (Inl (AE_RateLimited None))),
         at Create title recorded (I_SubmitResult (Inl (AE_NotSent DnsFailure))),
         at Create title reading (I_ReadBackResult (Inr (sample_listing L_Draft))),
         at Create title reading (I_ReadBackResult (Inl (AE_Ambiguous ReadBackIndeterminate))),
         at Create title reading (I_ReconcileResult (Inr (Some i))),
         at Create title reading (I_ReconcileResult (Inr None)),
         at Create title reading (I_ReconcileResult (Inl AE_SessionExpired)),
         at Create title stranded resume, at Create HaltOnAmbiguity stranded resume,
         at Create title parked I_ChallengeCleared, at Create title parked I_ParkExpired,
         at Create title S_AwaitingPreflight I_BudgetExhausted,
         at Create title asserted I_BudgetExhausted, at Create title parked I_BudgetExhausted,
         at Create title recorded I_BudgetExhausted,
         at Create title (S_Submitted w (sample_evidence None)) I_BudgetExhausted,
         at Create title reading I_BudgetExhausted, at Create title stranded I_BudgetExhausted,
         at revise title asserted (I_IntentRecorded w),
         at remove title asserted (I_IntentRecorded w),
         at revise title recorded lost,
         at Create title recorded (I_SubmitResult (Inr (sample_evidence None))),
         at Create title recorded (I_SubmitResult (Inl (AE_Uncaptured []))),
         at remove title reading (I_ReadBackResult (Inr (sample_listing L_Draft))),
         at Create title reading (I_ReadBackResult (Inr (sample_listing L_Absent))),
         at revise title parked I_ChallengeCleared])"

definition row_result :: "SyncMachine \<times> Input \<Rightarrow> row option" where
  "row_result mi = (case step (fst mi) (snd mi) (LogicalInstant 0) of
     Inl e \<Rightarrow> None | Inr t \<Rightarrow> Some (row_of (fst mi) (snd mi) t))"

lemma samples_cover:
  "map row_result sample_deliveries = map Some (filter (\<lambda>r. r \<noteq> degraded_row) (documented @ undocumented))"
  by code_simp

lemma row_resultD:
  "row_result mi = Some r \<Longrightarrow> \<exists>t. step (fst mi) (snd mi) (LogicalInstant 0) = Inr t \<and> row_of (fst mi) (snd mi) t = r"
  by (auto simp: row_result_def split: sum.splits)

lemma every_row_realised:
  assumes "r \<in> set documented - {degraded_row} \<union> set undocumented"
  shows "\<exists>m i now t. step m i now = Inr t \<and> row_of m i t = r"
proof -
  have "degraded_row \<notin> set undocumented" by (simp add: degraded_row_def undocumented_def)
  with assms have "Some r \<in> set (map row_result sample_deliveries)"
    unfolding samples_cover by auto
  then obtain mi where "row_result mi = Some r" by auto
  then show ?thesis using row_resultD by blast
qed

text \<open>
  C22. The transitions \<open>step\<close> accepts are, by kind, exactly the rows of the documented table without
  the degraded one, together with the eight rows listed as undocumented.
\<close>

theorem step_implements_the_table:
  "{row_of m i t | m i now t. step m i now = Inr t} =
     set documented - {degraded_row} \<union> set undocumented"
proof
  show "{row_of m i t | m i now t. step m i now = Inr t} \<subseteq>
      set documented - {degraded_row} \<union> set undocumented"
    using row_documented by (fastforce simp: step_iff_row)
  show "set documented - {degraded_row} \<union> set undocumented \<subseteq>
      {row_of m i t | m i now t. step m i now = Inr t}"
  proof
    fix r assume "r \<in> set documented - {degraded_row} \<union> set undocumented"
    from every_row_realised [OF this] show "r \<in> {row_of m i t | m i now t. step m i now = Inr t}"
      unfolding mem_Collect_eq by metis
  qed
qed

end
