(* ===== verification/Vocabulary.thy ===== *)
theory Vocabulary
  imports Prelude
begin

section \<open>Closed vocabularies\<close>

text \<open>
  The contract the program's enumerations with a stored spelling, a text or a wire id, share: \<open>ALL\<close> lists every
  value, no two values share a spelling, and the reader is the first value of \<open>ALL\<close> spelled that
  way. What a client relies on follows: reading a written value gives it back, and a spelling
  outside the set is refused.
\<close>

definition read_spelling :: "'a list \<Rightarrow> ('a \<Rightarrow> 'b) \<Rightarrow> 'b \<Rightarrow> 'a option" where
  "read_spelling vals spell raw = List.find (\<lambda>x. spell x = raw) vals"

locale closed_vocabulary =
  fixes vals :: "'a list" and spell :: "'a \<Rightarrow> 'b"
  assumes total: "x \<in> set vals"
    and distinct_spellings: "distinct (map spell vals)"
begin

lemma spell_inj: "spell x = spell y \<Longrightarrow> x = y"
  using distinct_spellings total by (metis distinct_map inj_onD)

lemma read_iff: "read_spelling vals spell raw = Some x \<longleftrightarrow> spell x = raw"
proof
  assume "read_spelling vals spell raw = Some x"
  then show "spell x = raw" by (auto simp: read_spelling_def dest: find_SomeD)
next
  assume x: "spell x = raw"
  then have "List.find (\<lambda>x. spell x = raw) vals \<noteq> None"
    using total by (auto simp: find_None_iff)
  then obtain y where y: "List.find (\<lambda>x. spell x = raw) vals = Some y" by auto
  then have "spell y = raw" by (auto dest: find_SomeD)
  with x have "y = x" using spell_inj by simp
  with y show "read_spelling vals spell raw = Some x" by (simp add: read_spelling_def)
qed

lemma read_spell [simp]: "read_spelling vals spell (spell x) = Some x"
  by (simp add: read_iff)

lemma read_None_iff: "read_spelling vals spell raw = None \<longleftrightarrow> raw \<notin> range spell"
  using read_iff by (cases "read_spelling vals spell raw") auto

end

end
