(* ===== verification/Connection.thy ===== *)
theory Connection
  imports Types Vocabulary
begin

section \<open>What a seller is told about a connection (crate tam-types, connection.rs)\<close>

text \<open>
  The stored connection state, the verification columns and \<open>connection_status\<close>, which derives
  the seller-facing answer from them, with the precedence its comment numbers.
\<close>

definition VERIFICATION_FRESHNESS_MS :: i64 where
  "VERIFICATION_FRESHNESS_MS = 24 * 60 * 60 * 1000"

datatype ConnectionStatus = CS_Connected | CS_Checking | CS_Unstable | CS_Disconnected

fun connection_status_str :: "ConnectionStatus \<Rightarrow> string" where
  "connection_status_str CS_Connected = ''connected''"
| "connection_status_str CS_Checking = ''checking''"
| "connection_status_str CS_Unstable = ''unstable''"
| "connection_status_str CS_Disconnected = ''disconnected''"

datatype ConnectionEvent =
  CE_Linked | CE_Claimed | CE_Refreshed | CE_RefreshFailed | CE_NeedsReauth | CE_Relinked
  | CE_Revoked | CE_Unlinked

fun connection_event_str :: "ConnectionEvent \<Rightarrow> string" where
  "connection_event_str CE_Linked = ''linked''"
| "connection_event_str CE_Claimed = ''claimed''"
| "connection_event_str CE_Refreshed = ''refreshed''"
| "connection_event_str CE_RefreshFailed = ''refresh_failed''"
| "connection_event_str CE_NeedsReauth = ''needs_reauth''"
| "connection_event_str CE_Relinked = ''relinked''"
| "connection_event_str CE_Revoked = ''revoked''"
| "connection_event_str CE_Unlinked = ''unlinked''"

datatype ConnectionState = C_Unlinked | C_Linking | C_Linked | C_NeedsReauth | C_Revoked

definition connection_states :: "ConnectionState list" where
  "connection_states = [C_Unlinked, C_Linking, C_Linked, C_NeedsReauth, C_Revoked]"

fun connection_state_str :: "ConnectionState \<Rightarrow> string" where
  "connection_state_str C_Unlinked = ''unlinked''"
| "connection_state_str C_Linking = ''linking''"
| "connection_state_str C_Linked = ''linked''"
| "connection_state_str C_NeedsReauth = ''needs_reauth''"
| "connection_state_str C_Revoked = ''revoked''"

definition connection_state_from_db :: "string \<Rightarrow> ConnectionState option" where
  "connection_state_from_db raw = read_spelling connection_states connection_state_str raw"

record ConnectionHealth =
  ch_state :: ConnectionState
  ch_session_verified_at :: "Timestamp option"
  ch_session_refresh_after :: "Timestamp option"
  ch_refresh_failures :: i32

definition connection_status :: "ConnectionHealth \<Rightarrow> Timestamp \<Rightarrow> ConnectionStatus" where
  "connection_status health now =
     (case ch_state health of
        C_Revoked \<Rightarrow> CS_Disconnected
      | C_Unlinked \<Rightarrow> CS_Disconnected
      | C_NeedsReauth \<Rightarrow> CS_Disconnected
      | C_Linking \<Rightarrow> CS_Checking
      | C_Linked \<Rightarrow>
          if ch_refresh_failures health > 0 then CS_Unstable
          else (case ch_session_verified_at health of
                  None \<Rightarrow> CS_Checking
                | Some verified \<Rightarrow>
                    if (case ch_session_refresh_after health of
                          None \<Rightarrow> False | Some due \<Rightarrow> ts_ms now \<ge> ts_ms due)
                    then CS_Checking
                    else if saturating_sub 64 (ts_ms now) (ts_ms verified) \<le> VERIFICATION_FRESHNESS_MS
                    then CS_Connected
                    else CS_Checking))"

interpretation connection_states: closed_vocabulary connection_states connection_state_str
proof
  fix x show "x \<in> set connection_states" by (cases x) (simp_all add: connection_states_def)
qed (simp add: connection_states_def)

subsection \<open>Properties\<close>

lemma connected_iff:
  "connection_status h now = CS_Connected \<longleftrightarrow>
     ch_state h = C_Linked \<and> ch_refresh_failures h \<le> 0 \<and>
     (\<forall>due. ch_session_refresh_after h = Some due \<longrightarrow> ts_ms now < ts_ms due) \<and>
     (\<exists>v. ch_session_verified_at h = Some v \<and>
        saturating_sub 64 (ts_ms now) (ts_ms v) \<le> VERIFICATION_FRESHNESS_MS)"
  by (auto simp: connection_status_def split: ConnectionState.splits option.splits)

lemma fresh_iff:
  assumes "in_signed 64 (ts_ms now)" "in_signed 64 (ts_ms v)"
  shows "saturating_sub 64 (ts_ms now) (ts_ms v) \<le> VERIFICATION_FRESHNESS_MS \<longleftrightarrow>
    ts_ms now - ts_ms v \<le> 86400000"
  using assms by (auto simp: rust_int VERIFICATION_FRESHNESS_MS_def min_def max_def)

text \<open>
  A connection is reported connected exactly on evidence: it is linked, nothing failed since
  its last success, that success is at most a day old, and no verification is due. For a linked
  row with no failures everything short of that is reported as checking.
\<close>

theorem connected_only_on_evidence:
  assumes "in_signed 64 (ts_ms now)"
    and "\<And>v. ch_session_verified_at h = Some v \<Longrightarrow> in_signed 64 (ts_ms v)"
  shows "connection_status h now =
    (if ch_state h \<in> {C_Revoked, C_Unlinked, C_NeedsReauth} then CS_Disconnected
     else if ch_state h = C_Linked \<and> ch_refresh_failures h > 0 then CS_Unstable
     else if ch_state h = C_Linked \<and>
             (\<exists>v. ch_session_verified_at h = Some v \<and> ts_ms now - ts_ms v \<le> 86400000) \<and>
             (\<forall>due. ch_session_refresh_after h = Some due \<longrightarrow> ts_ms now < ts_ms due)
     then CS_Connected
     else CS_Checking)"
  using assms
  by (auto simp: connection_status_def fresh_iff split: ConnectionState.splits option.splits)

theorem connected_only_on_evidence_witness:
  "let h = \<lparr>ch_state = C_Linked, ch_session_verified_at = Some (Timestamp 1000),
            ch_session_refresh_after = Some (Timestamp 5000), ch_refresh_failures = 0\<rparr>
   in connection_status h (Timestamp 4999) = CS_Connected \<and> connection_status h (Timestamp 5000) = CS_Checking"
proof -
  let ?h = "\<lparr>ch_state = C_Linked, ch_session_verified_at = Some (Timestamp 1000),
            ch_session_refresh_after = Some (Timestamp 5000), ch_refresh_failures = 0\<rparr>"
  have "connection_status ?h (Timestamp 4999) = CS_Connected"
    by (subst connected_only_on_evidence) (auto simp: rust_int)
  moreover have "connection_status ?h (Timestamp 5000) = CS_Checking"
    by (subst connected_only_on_evidence) (auto simp: rust_int)
  ultimately show ?thesis by (simp add: Let_def)
qed

text \<open>Waiting is no evidence: a row not reported connected is not connected later either.\<close>

lemma connected_is_not_regained_by_waiting:
  assumes "ts_ms now \<le> ts_ms later" "connection_status h later = CS_Connected"
  shows "connection_status h now = CS_Connected"
proof -
  obtain v where v: "ch_session_verified_at h = Some v"
    and fresh: "saturating_sub 64 (ts_ms later) (ts_ms v) \<le> VERIFICATION_FRESHNESS_MS"
    using assms(2) by (auto simp: connected_iff)
  have "saturating_sub 64 (ts_ms now) (ts_ms v) \<le> saturating_sub 64 (ts_ms later) (ts_ms v)"
    using assms(1) by (simp add: saturating_sub_def clamp_signed_mono)
  with v fresh assms show ?thesis by (auto simp: connected_iff)
qed

lemma connection_state_from_db_iff:
  "connection_state_from_db raw = Some s \<longleftrightarrow> connection_state_str s = raw"
  by (simp add: connection_state_from_db_def connection_states.read_iff)

end
