(* ===== verification/PlanLimits.thy ===== *)
theory PlanLimits
  imports Vocabulary
begin

section \<open>Plans, capabilities and the price list (crate tam-limits)\<close>

text \<open>
  The plan ladder, what each plan grants, the price keys and the price and pack tables, and the
  comparison table computed from the capabilities. \<open>u32::MAX\<close> is the sentinel for no ceiling,
  so the counts are words. Names, taglines and labels are carried as texts; the operational
  constants of the crate's submodules are the ones the compile-time assertions relate.
\<close>

abbreviation (input) no_ceiling :: u32 where
  "no_ceiling \<equiv> 4294967295"

datatype Plan = Free_Plan | Starter | Subscriber | Studio

definition plans :: "Plan list" where
  "plans = [Free_Plan, Starter, Subscriber, Studio]"

fun plan_str :: "Plan \<Rightarrow> string" where
  "plan_str Free_Plan = ''free''"
| "plan_str Starter = ''starter''"
| "plan_str Subscriber = ''subscriber''"
| "plan_str Studio = ''studio''"

definition plan_parse :: "string \<Rightarrow> Plan option" where
  "plan_parse raw = read_spelling plans plan_str raw"

fun strength :: "Plan \<Rightarrow> u8" where
  "strength Free_Plan = 0"
| "strength Starter = 1"
| "strength Subscriber = 2"
| "strength Studio = 3"

datatype Support = Guides | Email2Days | Email1Day

definition supports :: "Support list" where
  "supports = [Guides, Email2Days, Email1Day]"

fun support_str :: "Support \<Rightarrow> string" where
  "support_str Guides = ''guides''"
| "support_str Email2Days = ''email_2_days''"
| "support_str Email1Day = ''email_1_day''"

record Capabilities =
  cap_resources_max :: u32
  cap_marketplaces_max :: u32
  cap_storage_bytes_max :: u64
  cap_import_spreadsheet :: bool
  cap_import_marketplace :: bool
  cap_duplicate_review :: bool
  cap_publish_marketplaces_max :: u32
  cap_moves_per_month :: u32
  cap_moves_accrual_cap :: u32
  cap_free_moves_lifetime :: u32
  cap_pack_edit_days :: u32
  cap_scheduling :: bool
  cap_term_and_price_rules :: bool
  cap_sync_pull_interval_secs :: "u32 option"
  cap_auto_publish_rules :: bool
  cap_templates_max :: u32
  cap_collections_max :: u32
  cap_labels_max :: u32
  cap_analytics :: bool
  cap_export :: bool
  cap_devices_max :: u32
  cap_ai_fills_per_month :: u32
  cap_previews_per_month :: u32
  cap_previews_lifetime :: u32
  cap_uploads_in_flight_max :: u32
  cap_support :: Support

definition capabilities :: "Plan \<Rightarrow> u32 option \<Rightarrow> Capabilities" where
  "capabilities plan rung = (case plan of
    Free_Plan \<Rightarrow> \<lparr>
        cap_resources_max = 100,
        cap_marketplaces_max = no_ceiling,
        cap_storage_bytes_max = push_bit 20 256,
        cap_import_spreadsheet = True,
        cap_import_marketplace = True,
        cap_duplicate_review = True,
        cap_publish_marketplaces_max = no_ceiling,
        cap_moves_per_month = 0,
        cap_moves_accrual_cap = 0,
        cap_free_moves_lifetime = 5,
        cap_pack_edit_days = 90,
        cap_scheduling = False,
        cap_term_and_price_rules = False,
        cap_sync_pull_interval_secs = None,
        cap_auto_publish_rules = False,
        cap_templates_max = 1,
        cap_collections_max = 1,
        cap_labels_max = 1,
        cap_analytics = False,
        cap_export = True,
        cap_devices_max = 5,
        cap_ai_fills_per_month = 0,
        cap_previews_per_month = 0,
        cap_previews_lifetime = 5,
        cap_uploads_in_flight_max = 1,
        cap_support = Guides\<rparr>
    | Starter \<Rightarrow> \<lparr>
        cap_resources_max = 250,
        cap_marketplaces_max = no_ceiling,
        cap_storage_bytes_max = push_bit 30 5,
        cap_import_spreadsheet = True,
        cap_import_marketplace = True,
        cap_duplicate_review = True,
        cap_publish_marketplaces_max = no_ceiling,
        cap_moves_per_month = 10,
        cap_moves_accrual_cap = 30,
        cap_free_moves_lifetime = 0,
        cap_pack_edit_days = 90,
        cap_scheduling = False,
        cap_term_and_price_rules = False,
        cap_sync_pull_interval_secs = None,
        cap_auto_publish_rules = False,
        cap_templates_max = 5,
        cap_collections_max = 5,
        cap_labels_max = 5,
        cap_analytics = True,
        cap_export = True,
        cap_devices_max = 5,
        cap_ai_fills_per_month = 0,
        cap_previews_per_month = 20,
        cap_previews_lifetime = 0,
        cap_uploads_in_flight_max = 2,
        cap_support = Email2Days\<rparr>
    | Subscriber \<Rightarrow> \<lparr>
        cap_resources_max = 500,
        cap_marketplaces_max = no_ceiling,
        cap_storage_bytes_max = push_bit 30 20,
        cap_import_spreadsheet = True,
        cap_import_marketplace = True,
        cap_duplicate_review = True,
        cap_publish_marketplaces_max = no_ceiling,
        cap_moves_per_month = 25,
        cap_moves_accrual_cap = 75,
        cap_free_moves_lifetime = 0,
        cap_pack_edit_days = 90,
        cap_scheduling = True,
        cap_term_and_price_rules = True,
        cap_sync_pull_interval_secs = Some (7 * 24 * 3600),
        cap_auto_publish_rules = True,
        cap_templates_max = 10,
        cap_collections_max = 10,
        cap_labels_max = 10,
        cap_analytics = True,
        cap_export = True,
        cap_devices_max = 5,
        cap_ai_fills_per_month = 200,
        cap_previews_per_month = 50,
        cap_previews_lifetime = 0,
        cap_uploads_in_flight_max = 3,
        cap_support = Email2Days\<rparr>
    | Studio \<Rightarrow> \<lparr>
        cap_resources_max = no_ceiling,
        cap_marketplaces_max = no_ceiling,
        cap_storage_bytes_max = push_bit 30 200,
        cap_import_spreadsheet = True,
        cap_import_marketplace = True,
        cap_duplicate_review = True,
        cap_publish_marketplaces_max = no_ceiling,
        cap_moves_per_month = (case rung of Some granted \<Rightarrow> if granted > 100 then granted else 100 | None \<Rightarrow> 100),
        cap_moves_accrual_cap = 300,
        cap_free_moves_lifetime = 0,
        cap_pack_edit_days = 90,
        cap_scheduling = True,
        cap_term_and_price_rules = True,
        cap_sync_pull_interval_secs = Some (24 * 3600),
        cap_auto_publish_rules = True,
        cap_templates_max = no_ceiling,
        cap_collections_max = no_ceiling,
        cap_labels_max = no_ceiling,
        cap_analytics = True,
        cap_export = True,
        cap_devices_max = 5,
        cap_ai_fills_per_month = 600,
        cap_previews_per_month = no_ceiling,
        cap_previews_lifetime = 0,
        cap_uploads_in_flight_max = 3,
        cap_support = Email1Day\<rparr>
    )"

datatype PreviewAllowance = Lifetime u32 | Monthly u32

fun allowance_cap :: "PreviewAllowance \<Rightarrow> u32" where
  "allowance_cap (Lifetime c) = c"
| "allowance_cap (Monthly c) = c"

definition previews :: "Capabilities \<Rightarrow> PreviewAllowance" where
  "previews caps = (if cap_previews_lifetime caps > 0 then Lifetime (cap_previews_lifetime caps)
     else Monthly (cap_previews_per_month caps))"

subsection \<open>Price keys, plans and packs\<close>

datatype PriceKey =
    StarterMonthly
  | StarterYearly
  | ProMonthly
  | ProYearly
  | StudioMonthly
  | StudioYearly
  | Pack20
  | Pack50
  | Pack100
  | Pack250
  | Pack500

definition price_keys :: "PriceKey list" where
  "price_keys = [StarterMonthly, StarterYearly, ProMonthly, ProYearly, StudioMonthly, StudioYearly, Pack20, Pack50, Pack100, Pack250, Pack500]"

fun price_key_str :: "PriceKey \<Rightarrow> string" where
  "price_key_str StarterMonthly = ''starter_monthly''"
| "price_key_str StarterYearly = ''starter_yearly''"
| "price_key_str ProMonthly = ''pro_monthly''"
| "price_key_str ProYearly = ''pro_yearly''"
| "price_key_str StudioMonthly = ''studio_monthly''"
| "price_key_str StudioYearly = ''studio_yearly''"
| "price_key_str Pack20 = ''pack_20''"
| "price_key_str Pack50 = ''pack_50''"
| "price_key_str Pack100 = ''pack_100''"
| "price_key_str Pack250 = ''pack_250''"
| "price_key_str Pack500 = ''pack_500''"

definition price_key_parse :: "string \<Rightarrow> PriceKey option" where
  "price_key_parse raw = read_spelling price_keys price_key_str raw"

fun key_plan :: "PriceKey \<Rightarrow> Plan option" where
  "key_plan StarterMonthly = Some Starter"
| "key_plan StarterYearly = Some Starter"
| "key_plan ProMonthly = Some Subscriber"
| "key_plan ProYearly = Some Subscriber"
| "key_plan StudioMonthly = Some Studio"
| "key_plan StudioYearly = Some Studio"
| "key_plan Pack20 = None"
| "key_plan Pack50 = None"
| "key_plan Pack100 = None"
| "key_plan Pack250 = None"
| "key_plan Pack500 = None"

definition recurring :: "PriceKey \<Rightarrow> bool" where
  "recurring key = (key_plan key \<noteq> None)"

record PlanRow =
  pr_id :: Plan
  pr_name :: string
  pr_monthly_cents :: "u32 option"
  pr_yearly_cents :: "u32 option"
  pr_monthly_key :: "PriceKey option"
  pr_yearly_key :: "PriceKey option"
  pr_trial_days :: u32
  pr_recommended :: bool
  pr_tagline :: string

record Pack =
  pk_key :: PriceKey
  pk_moves :: u32
  pk_price_cents :: u32
  pk_per_move_cents :: u32

definition PLANS :: "PlanRow list" where
  "PLANS = [
    \<lparr>pr_id = Free_Plan, pr_name = ''Look'', pr_monthly_cents = None, pr_yearly_cents = None,
      pr_monthly_key = None, pr_yearly_key = None, pr_trial_days = 0, pr_recommended = False,
      pr_tagline = ''For a small shop: bring your resources in, make five previews and try five moves.''\<rparr>,
    \<lparr>pr_id = Starter, pr_name = ''Starter'', pr_monthly_cents = Some 1200, pr_yearly_cents = Some 9600,
      pr_monthly_key = Some StarterMonthly, pr_yearly_key = Some StarterYearly, pr_trial_days = 0, pr_recommended = False,
      pr_tagline = ''For teachers who add a resource now and then.''\<rparr>,
    \<lparr>pr_id = Subscriber, pr_name = ''Pro'', pr_monthly_cents = Some 2900, pr_yearly_cents = Some 24000,
      pr_monthly_key = Some ProMonthly, pr_yearly_key = Some ProYearly, pr_trial_days = 0, pr_recommended = True,
      pr_tagline = ''For teachers who add resources every week.''\<rparr>,
    \<lparr>pr_id = Studio, pr_name = ''Studio'', pr_monthly_cents = Some 5900, pr_yearly_cents = Some 48000,
      pr_monthly_key = Some StudioMonthly, pr_yearly_key = Some StudioYearly, pr_trial_days = 0, pr_recommended = False,
      pr_tagline = ''For big catalogues and whole-shop moves.''\<rparr>]"

definition PACKS :: "Pack list" where
  "PACKS = [
    \<lparr>pk_key = Pack20, pk_moves = 20, pk_price_cents = 4700, pk_per_move_cents = 235\<rparr>,
    \<lparr>pk_key = Pack50, pk_moves = 50, pk_price_cents = 7700, pk_per_move_cents = 154\<rparr>,
    \<lparr>pk_key = Pack100, pk_moves = 100, pk_price_cents = 12700, pk_per_move_cents = 127\<rparr>,
    \<lparr>pk_key = Pack250, pk_moves = 250, pk_price_cents = 24700, pk_per_move_cents = 98\<rparr>,
    \<lparr>pk_key = Pack500, pk_moves = 500, pk_price_cents = 39700, pk_per_move_cents = 79\<rparr>]"

text \<open>
  \<open>list_cents\<close>: the two \<open>while\<close> loops over the tables, in order, with their early returns.
\<close>

fun plan_row_cents :: "PriceKey \<Rightarrow> PlanRow list \<Rightarrow> u32 option" where
  "plan_row_cents key [] = None"
| "plan_row_cents key (row # rows) =
     (case (pr_monthly_key row, pr_monthly_cents row) of
        (Some k, Some cents) \<Rightarrow>
          if k = key then Some cents
          else (case (pr_yearly_key row, pr_yearly_cents row) of
                  (Some k', Some cents') \<Rightarrow> if k' = key then Some cents' else plan_row_cents key rows
                | _ \<Rightarrow> plan_row_cents key rows)
      | _ \<Rightarrow> (case (pr_yearly_key row, pr_yearly_cents row) of
                (Some k', Some cents') \<Rightarrow> if k' = key then Some cents' else plan_row_cents key rows
              | _ \<Rightarrow> plan_row_cents key rows))"

fun pack_cents :: "PriceKey \<Rightarrow> Pack list \<Rightarrow> u32" where
  "pack_cents key [] = 0"
| "pack_cents key (pack # packs) = (if pk_key pack = key then pk_price_cents pack else pack_cents key packs)"

definition list_cents :: "PriceKey \<Rightarrow> u32" where
  "list_cents key = (case plan_row_cents key PLANS of Some cents \<Rightarrow> cents | None \<Rightarrow> pack_cents key PACKS)"

subsection \<open>The comparison table\<close>

record 'a PerPlan =
  pp_free :: 'a
  pp_starter :: 'a
  pp_subscriber :: 'a
  pp_studio :: 'a

fun per_plan :: "'a PerPlan \<Rightarrow> Plan \<Rightarrow> 'a" where
  "per_plan row Free_Plan = pp_free row"
| "per_plan row Starter = pp_starter row"
| "per_plan row Subscriber = pp_subscriber row"
| "per_plan row Studio = pp_studio row"

datatype Included = Flag bool | Limit u32

definition counted :: "u32 \<Rightarrow> Included" where
  "counted n = (if n = 0 then Flag False else if n = no_ceiling then Flag True else Limit n)"

datatype FeatureUnit = Count | PerMonth | Megabytes | EveryHours | Catalogue_Unit

datatype FeatureGroup = Moving | Automation | Catalogue_Group | Insight | Support_Group

fun group_label :: "FeatureGroup \<Rightarrow> string" where
  "group_label Moving = ''Moves and updates''"
| "group_label Automation = ''Automations''"
| "group_label Catalogue_Group = ''Your catalogue''"
| "group_label Insight = ''Statistics and AI''"
| "group_label Support_Group = ''Help''"

datatype FeatureKey =
    F_Moves
  | F_MovesRollover
  | F_CopyOrMove
  | F_EditSync
  | F_BulkActions
  | F_Scheduling
  | F_AutoPublishRules
  | F_TermAndPriceRules
  | F_Resources
  | F_Storage
  | F_Import
  | F_DuplicateReview
  | F_RichText
  | F_WatermarkedPreviews
  | F_Templates
  | F_Collections
  | F_Labels
  | F_Export
  | F_Analytics
  | F_AiFill
  | F_DesktopApp
  | F_EmailSupport
  | F_PrioritySupport

definition feature_keys :: "FeatureKey list" where
  "feature_keys = [F_Moves, F_MovesRollover, F_CopyOrMove, F_EditSync, F_BulkActions, F_Scheduling, F_AutoPublishRules, F_TermAndPriceRules, F_Resources, F_Storage, F_Import, F_DuplicateReview, F_RichText, F_WatermarkedPreviews, F_Templates, F_Collections, F_Labels, F_Export, F_Analytics, F_AiFill, F_DesktopApp, F_EmailSupport, F_PrioritySupport]"

fun included :: "FeatureKey \<Rightarrow> Capabilities \<Rightarrow> Included" where
  "included F_Moves caps = counted (cap_moves_per_month caps)"
| "included F_MovesRollover caps = counted (cap_moves_accrual_cap caps)"
| "included F_EditSync caps = (case cap_sync_pull_interval_secs caps of
     Some secs \<Rightarrow> Limit (secs div 3600) | None \<Rightarrow> Flag False)"
| "included F_Scheduling caps = Flag (cap_scheduling caps)"
| "included F_AutoPublishRules caps = Flag (cap_auto_publish_rules caps)"
| "included F_TermAndPriceRules caps = Flag (cap_term_and_price_rules caps)"
| "included F_Resources caps = counted (cap_resources_max caps)"
| "included F_Storage caps = counted (ucast (drop_bit 20 (cap_storage_bytes_max caps)))"
| "included F_Import caps = Flag (cap_import_spreadsheet caps \<and> cap_import_marketplace caps)"
| "included F_DuplicateReview caps = Flag (cap_duplicate_review caps)"
| "included F_Templates caps = counted (cap_templates_max caps)"
| "included F_Collections caps = counted (cap_collections_max caps)"
| "included F_Labels caps = counted (cap_labels_max caps)"
| "included F_Export caps = Flag (cap_export caps)"
| "included F_Analytics caps = Flag (cap_analytics caps)"
| "included F_AiFill caps = counted (cap_ai_fills_per_month caps)"
| "included F_WatermarkedPreviews caps = counted (cap_previews_per_month caps)"
| "included F_DesktopApp caps = Flag (cap_devices_max caps > 0)"
| "included F_EmailSupport caps = Flag (cap_support caps \<noteq> Guides)"
| "included F_PrioritySupport caps = Flag (cap_support caps = Email1Day)"
| "included F_CopyOrMove caps = Flag True"
| "included F_BulkActions caps = Flag True"
| "included F_RichText caps = Flag True"

record PlanFeature =
  ft_key :: FeatureKey
  ft_label :: string
  ft_group :: FeatureGroup
  ft_unit :: "FeatureUnit option"
  ft_soon :: bool
  ft_included :: "Included PerPlan"

datatype AiStatus = ComingSoon

record AiOffer =
  ai_status :: AiStatus
  ai_included_fills :: u32
  ai_add_on_fills :: u32
  ai_add_on_cents :: u32

definition AI :: AiOffer where
  "AI = \<lparr>ai_status = ComingSoon, ai_included_fills = 200, ai_add_on_fills = 100, ai_add_on_cents = 500\<rparr>"

definition feature :: "FeatureKey \<Rightarrow> string \<Rightarrow> FeatureGroup \<Rightarrow> FeatureUnit option \<Rightarrow> PlanFeature" where
  "feature key label grp unit =
     \<lparr>ft_key = key, ft_label = label, ft_group = grp, ft_unit = unit,
      ft_soon = (key = F_AiFill \<and> ai_status AI = ComingSoon),
      ft_included = \<lparr>pp_free = included key (capabilities Free_Plan None),
        pp_starter = included key (capabilities Starter None),
        pp_subscriber = included key (capabilities Subscriber None),
        pp_studio = included key (capabilities Studio None)\<rparr>\<rparr>"

definition PLAN_FEATURES :: "PlanFeature list" where
  "PLAN_FEATURES = [
    feature F_Moves ''Moves'' Moving (Some PerMonth),
    feature F_MovesRollover ''Unused moves carry over, up to'' Moving (Some Count),
    feature F_CopyOrMove ''Copy or move resources between marketplaces'' Moving None,
    feature F_EditSync ''Edits sent to every marketplace'' Moving (Some EveryHours),
    feature F_BulkActions ''Bulk actions'' Moving None,
    feature F_Scheduling ''Schedule when a listing goes live'' Automation None,
    feature F_AutoPublishRules ''Automatic publishing rules'' Automation None,
    feature F_TermAndPriceRules ''Term mapping and price rules'' Automation None,
    feature F_Resources ''Catalogue size'' Catalogue_Group (Some Catalogue_Unit),
    feature F_Storage ''Storage for covers and previews'' Catalogue_Group (Some Megabytes),
    feature F_Import ''Import from your shops or a spreadsheet'' Catalogue_Group None,
    feature F_DuplicateReview ''Find and merge duplicates'' Catalogue_Group None,
    feature F_RichText ''Rich-text descriptions'' Catalogue_Group None,
    feature F_WatermarkedPreviews ''Watermarked previews'' Catalogue_Group (Some PerMonth),
    feature F_Templates ''Templates'' Catalogue_Group (Some Count),
    feature F_Collections ''Collections'' Catalogue_Group (Some Count),
    feature F_Labels ''Labels'' Catalogue_Group (Some Count),
    feature F_Export ''Export to a spreadsheet'' Catalogue_Group None,
    feature F_Analytics ''Statistics on every shop'' Insight None,
    feature F_AiFill ''AI description fill'' Insight (Some PerMonth),
    feature F_DesktopApp ''Desktop app for your own devices'' Support_Group None,
    feature F_EmailSupport ''Email support'' Support_Group None,
    feature F_PrioritySupport ''Priority support, answered within a day'' Support_Group None]"

subsection \<open>Operational bounds\<close>

definition REQUEST_BODY_BYTES_MAX :: u64 where "REQUEST_BODY_BYTES_MAX = 2 * 1024 * 1024"
definition UPLOAD_BODY_BYTES_MAX :: u64 where "UPLOAD_BODY_BYTES_MAX = 96 * 1024 * 1024"
definition ARCHIVE_UNCOMPRESSED_BYTES_MAX :: u64 where "ARCHIVE_UNCOMPRESSED_BYTES_MAX = 1024 * 1024 * 1024"
definition ARCHIVE_COMPRESSION_RATIO_MAX :: u64 where "ARCHIVE_COMPRESSION_RATIO_MAX = 200"
definition SPREADSHEET_BYTES_MAX :: u64 where "SPREADSHEET_BYTES_MAX = 8 * 1024 * 1024"

subsection \<open>The plan order\<close>

text \<open>Plans compare by \<open>strength\<close>, which is what decides between two unexpired grants.\<close>

lemma strength_inj: "strength p = strength q \<Longrightarrow> p = q"
  by (cases p; cases q) simp_all

instantiation Plan :: linorder
begin

definition less_eq_Plan :: "Plan \<Rightarrow> Plan \<Rightarrow> bool" where
  "less_eq_Plan p q \<longleftrightarrow> strength p \<le> strength q"

definition less_Plan :: "Plan \<Rightarrow> Plan \<Rightarrow> bool" where
  "less_Plan p q \<longleftrightarrow> strength p < strength q"

instance
proof
  fix p q r :: Plan
  show "(p < q) = (p \<le> q \<and> \<not> q \<le> p)"
    by (auto simp: less_eq_Plan_def less_Plan_def)
  show "p \<le> p" by (simp add: less_eq_Plan_def)
  show "p \<le> q \<Longrightarrow> q \<le> r \<Longrightarrow> p \<le> r" by (simp add: less_eq_Plan_def)
  show "p \<le> q \<Longrightarrow> q \<le> p \<Longrightarrow> p = q"
    unfolding less_eq_Plan_def by (rule strength_inj) simp
  show "p \<le> q \<or> q \<le> p" by (auto simp: less_eq_Plan_def)
qed

end

interpretation plans: closed_vocabulary plans plan_str
proof
  fix x show "x \<in> set plans" by (cases x) (simp_all add: plans_def)
qed (simp add: plans_def)

interpretation price_keys: closed_vocabulary price_keys price_key_str
proof
  fix x show "x \<in> set price_keys" by (cases x) (simp_all add: price_keys_def)
qed (simp add: price_keys_def)

lemma plan_parse_iff: "plan_parse raw = Some p \<longleftrightarrow> plan_str p = raw"
  by (simp add: plan_parse_def plans.read_iff)

lemma price_key_parse_iff: "price_key_parse raw = Some k \<longleftrightarrow> price_key_str k = raw"
  by (simp add: price_key_parse_def price_keys.read_iff)

lemma all_plans: "(\<forall>p. P p) \<longleftrightarrow> P Free_Plan \<and> P Starter \<and> P Subscriber \<and> P Studio"
  by (metis Plan.exhaust)

text \<open>\<open>grants_at_least a b\<close>: everything \<open>b\<close> allows on a renewing basis, \<open>a\<close> allows too.\<close>

definition sync_secs :: "Capabilities \<Rightarrow> u32" where
  "sync_secs c = (case cap_sync_pull_interval_secs c of None \<Rightarrow> no_ceiling | Some s \<Rightarrow> s)"

definition grants_at_least :: "Capabilities \<Rightarrow> Capabilities \<Rightarrow> bool" where
  "grants_at_least a b \<longleftrightarrow>
     list_all (\<lambda>count. count b \<le> count a)
       [cap_resources_max, cap_marketplaces_max, cap_publish_marketplaces_max, cap_moves_per_month,
        cap_moves_accrual_cap, cap_pack_edit_days, cap_templates_max, cap_collections_max,
        cap_labels_max, cap_devices_max, cap_ai_fills_per_month, cap_previews_per_month,
        cap_uploads_in_flight_max] \<and>
     list_all (\<lambda>flag. flag b \<longrightarrow> flag a)
       [cap_import_spreadsheet, cap_import_marketplace, cap_duplicate_review, cap_scheduling,
        cap_term_and_price_rules, cap_auto_publish_rules, cap_analytics, cap_export] \<and>
     cap_storage_bytes_max b \<le> cap_storage_bytes_max a \<and> sync_secs a \<le> sync_secs b"

text \<open>
  The plans are a ladder: whatever a plan allows on a renewing basis (counts, storage, sync
  cadence and every flag), each stronger plan allows at least as much of, whatever allowance an
  operator granted; export is on every plan, and an operator's grant never lowers a figure.
\<close>

theorem plans_form_a_ladder:
  assumes "p \<le> q"
  shows "grants_at_least (capabilities q rung) (capabilities p rung) \<and>
    grants_at_least (capabilities q rung) (capabilities q None) \<and>
    cap_export (capabilities p rung)"
  using assms
  by (cases p; cases q)
    (auto simp: less_eq_Plan_def grants_at_least_def sync_secs_def capabilities_def
       word_le_nat_alt word_less_nat_alt split: option.splits)

theorem plans_form_a_ladder_witness:
  "Starter \<le> Studio \<and> grants_at_least (capabilities Studio (Some 40)) (capabilities Starter (Some 40)) \<and>
   cap_moves_per_month (capabilities Studio (Some 40)) = 100"
  using plans_form_a_ladder [of Starter Studio "Some 40"]
  by (simp add: less_eq_Plan_def capabilities_def)

definition names_price :: "PriceKey \<Rightarrow> u32 \<Rightarrow> bool" where
  "names_price key cents \<longleftrightarrow>
     (case key_plan key of
        Some p \<Rightarrow> list_ex (\<lambda>row. pr_id row = p \<and>
          (pr_monthly_key row = Some key \<and> pr_monthly_cents row = Some cents \<or>
           pr_yearly_key row = Some key \<and> pr_yearly_cents row = Some cents)) PLANS
      | None \<Rightarrow> list_ex (\<lambda>pack. pk_key pack = key \<and> pk_price_cents pack = cents) PACKS)"

text \<open>
  Every price key charges the one row that names it: a recurring key the monthly or yearly
  price of the plan it grants, a pack key the price of its pack, and never nothing.
\<close>

theorem every_key_charges_its_row:
  "names_price key (list_cents key) \<and> list_cents key > 0"
  by (cases key) (simp_all add: names_price_def list_cents_def PLANS_def PACKS_def)

text \<open>
  The comparison table sells exactly what the plans enforce: it has one row for every
  feature, in order, and each plan's cell in it is that feature of that plan's capabilities.
\<close>

theorem the_table_sells_the_capabilities:
  "map ft_key PLAN_FEATURES = feature_keys \<and>
   list_all (\<lambda>row. list_all (\<lambda>p. per_plan (ft_included row) p = included (ft_key row) (capabilities p None)) plans)
     PLAN_FEATURES"
  by (simp add: PLAN_FEATURES_def feature_keys_def feature_def plans_def)

text \<open>The relations between the byte bounds the crate asserts at compile time.\<close>

lemma byte_bounds:
  "REQUEST_BODY_BYTES_MAX \<le> UPLOAD_BODY_BYTES_MAX"
  "UPLOAD_BODY_BYTES_MAX \<le> ARCHIVE_UNCOMPRESSED_BYTES_MAX"
  "unat UPLOAD_BODY_BYTES_MAX * unat ARCHIVE_COMPRESSION_RATIO_MAX > unat ARCHIVE_UNCOMPRESSED_BYTES_MAX"
  "REQUEST_BODY_BYTES_MAX < SPREADSHEET_BYTES_MAX" "SPREADSHEET_BYTES_MAX < UPLOAD_BODY_BYTES_MAX"
  by (simp_all add: REQUEST_BODY_BYTES_MAX_def UPLOAD_BODY_BYTES_MAX_def
      ARCHIVE_UNCOMPRESSED_BYTES_MAX_def ARCHIVE_COMPRESSION_RATIO_MAX_def SPREADSHEET_BYTES_MAX_def)

text \<open>The packs cost less per move the larger they are, and the printed figure is the division.\<close>

lemma packs_ladder:
  "list_all (\<lambda>pack. pk_per_move_cents pack = pk_price_cents pack div pk_moves pack) PACKS"
  "sorted (map pk_moves PACKS)" "sorted (rev (map pk_per_move_cents PACKS))"
  by (simp_all add: PACKS_def word_le_nat_alt)

end
