(* ===== verification/Gates.thy ===== *)
theory Gates
  imports Domain PlanLimits
begin

section \<open>Entitlement tokens and serve capabilities\<close>

text \<open>
  The two signed claim sets of crate tam-domain (\<open>entitlement.rs\<close>, \<open>serve.rs\<close>) and the gate the
  desktop client answers from them (\<open>apps/desktop/src-tauri/src/entitlement.rs\<close>). The signature
  check belongs to the \<open>jsonwebtoken\<close> crate: \<open>decode token key\<close> is a parameter that yields the
  claims a signature under \<open>key\<close> covers, or the reason it does not.
\<close>

subsection \<open>The entitlement token\<close>

definition AUDIENCE :: string where "AUDIENCE = ''tam-desktop''"
definition ISSUER :: string where "ISSUER = ''tam-server''"
definition SECS_PER_HOUR :: i64 where "SECS_PER_HOUR = 3600"

record Claims =
  cl_sub :: string
  cl_aud :: string
  cl_iss :: string
  cl_device :: string
  cl_marketplaces :: "Marketplace list"
  cl_plan :: Plan
  cl_exp :: i64
  cl_grace :: i64

definition mint :: "string \<Rightarrow> string \<Rightarrow> Marketplace list \<Rightarrow> Plan \<Rightarrow> i64 \<Rightarrow> Claims" where
  "mint sub_id device marketplaces plan issued_at_secs =
     (let exp = saturating_add 64 issued_at_secs ENTITLEMENT_TOKEN_VALIDITY_SECS in
      \<lparr>cl_sub = sub_id, cl_aud = AUDIENCE, cl_iss = ISSUER, cl_device = device,
       cl_marketplaces = marketplaces, cl_plan = plan, cl_exp = exp,
       cl_grace = saturating_add 64 exp (ENTITLEMENT_GRACE_HOURS * SECS_PER_HOUR)\<rparr>)"

subsection \<open>The gate on the seller's device\<close>

datatype EntitlementError = Rejected_Token string | WrongDevice | GraceBeforeExpiry

datatype Entitlement = Entitlement (en_claims: Claims)

definition bind_claims :: "Claims \<Rightarrow> string \<Rightarrow> EntitlementError + Entitlement" where
  "bind_claims claims device =
     (if cl_device claims \<noteq> device then Inl WrongDevice
      else if cl_grace claims < cl_exp claims then Inl GraceBeforeExpiry
      else Inr (Entitlement claims))"

definition SMALL_ORDER_KEY :: "u8 list" where
  "SMALL_ORDER_KEY = replicate 32 0"

definition no_key_reason :: string where
  "no_key_reason = ''this build carries no entitlement key, so no token can verify''"

definition small_order_reason :: string where
  "small_order_reason =
     ''an all-zero entitlement key is a small-order point, against which a signature can be forged without a private key''"

text \<open>The loop of \<open>Entitlement::verify\<close> over the keys, carrying the refusal so far.\<close>

fun verify_keys :: "(string \<Rightarrow> u8 list \<Rightarrow> string + Claims) \<Rightarrow> string \<Rightarrow> string \<Rightarrow> EntitlementError
    \<Rightarrow> u8 list list \<Rightarrow> EntitlementError + Entitlement" where
  "verify_keys decode token device refusal [] = Inl refusal"
| "verify_keys decode token device refusal (key # keys) =
     (if key = SMALL_ORDER_KEY
      then verify_keys decode token device (Rejected_Token small_order_reason) keys
      else (case decode token key of
              Inr claims \<Rightarrow> bind_claims claims device
            | Inl why \<Rightarrow> verify_keys decode token device (Rejected_Token why) keys))"

definition verify :: "(string \<Rightarrow> u8 list \<Rightarrow> string + Claims) \<Rightarrow> string \<Rightarrow> u8 list list \<Rightarrow> string
    \<Rightarrow> EntitlementError + Entitlement" where
  "verify decode token public_keys device =
     verify_keys decode token device (Rejected_Token no_key_reason) public_keys"

definition millis :: "i64 \<Rightarrow> i64 option" where
  "millis seconds = checked_signed 64 (seconds * 1000)"

definition needs_revalidation :: "Entitlement \<Rightarrow> Timestamp \<Rightarrow> bool" where
  "needs_revalidation e now =
     (case millis (cl_exp (en_claims e)) of None \<Rightarrow> True | Some exp \<Rightarrow> ts_ms now > exp)"

type_synonym EntitlementGate = "Entitlement option"

definition may_work :: "EntitlementGate \<Rightarrow> Marketplace \<Rightarrow> Timestamp \<Rightarrow> bool" where
  "may_work gate marketplace now =
     (case gate of
        None \<Rightarrow> False
      | Some e \<Rightarrow>
          (case millis (cl_grace (en_claims e)) of
             None \<Rightarrow> False
           | Some grace \<Rightarrow> marketplace \<in> set (cl_marketplaces (en_claims e)) \<and> ts_ms now \<le> grace))"

subsection \<open>The serve capability\<close>

definition SERVE_AUDIENCE :: string where "SERVE_AUDIENCE = ''tam-desktop/serve''"
definition SERVE_VALIDITY_SECS :: i64 where "SERVE_VALIDITY_SECS = 120"

record ServeClaims =
  sc_sub :: string
  sc_aud :: string
  sc_iss :: string
  sc_device :: string
  sc_stream :: string
  sc_hash :: string
  sc_first :: u64
  sc_last :: u64
  sc_exp :: i64

text \<open>\<open>u64::saturating_sub\<close> and \<open>saturating_add(1)\<close>.\<close>

definition serve_len :: "ServeClaims \<Rightarrow> u64" where
  "serve_len c =
     (let span = (if sc_first c \<le> sc_last c then sc_last c - sc_first c else 0)
      in if span = 18446744073709551615 then span else span + 1)"

datatype Refusal = R_Missing | R_Capability | R_Range

fun refusal_word :: "Refusal \<Rightarrow> string" where
  "refusal_word R_Missing = ''missing''"
| "refusal_word R_Capability = ''capability''"
| "refusal_word R_Range = ''range''"

definition refusal_from_word :: "string \<Rightarrow> Refusal option" where
  "refusal_from_word w =
     (if w = ''missing'' then Some R_Missing
      else if w = ''capability'' then Some R_Capability
      else if w = ''range'' then Some R_Range
      else None)"

subsection \<open>Lemmas\<close>

lemma mint_exp_grace:
  assumes "in_signed 64 at" "at + 90000 < 2 ^ 63"
  shows "cl_exp (mint s d ms p at) = at + 3600" "cl_grace (mint s d ms p at) = at + 90000"
  using assms
  by (auto simp: mint_def Let_def rust_int ENTITLEMENT_TOKEN_VALIDITY_SECS_def
      ENTITLEMENT_GRACE_HOURS_def SECS_PER_HOUR_def)

lemma mint_grace_after_exp: "cl_exp (mint s d ms p at) \<le> cl_grace (mint s d ms p at)"
  by (auto simp: mint_def Let_def rust_int ENTITLEMENT_TOKEN_VALIDITY_SECS_def
      ENTITLEMENT_GRACE_HOURS_def SECS_PER_HOUR_def)

lemma mint_fields [simp]:
  "cl_device (mint s d ms p at) = d" "cl_marketplaces (mint s d ms p at) = ms"
  "cl_plan (mint s d ms p at) = p"
  by (simp_all add: mint_def Let_def)

lemma bind_mint: "bind_claims (mint s d ms p at) d = Inr (Entitlement (mint s d ms p at))"
  using mint_grace_after_exp [of s d ms p at] by (simp add: bind_claims_def)

lemma verify_keys_sound:
  "verify_keys decode token device refusal keys = Inr e \<Longrightarrow>
     \<exists>key\<in>set keys. key \<noteq> SMALL_ORDER_KEY \<and> decode token key = Inr (en_claims e) \<and>
       cl_device (en_claims e) = device \<and> cl_exp (en_claims e) \<le> cl_grace (en_claims e)"
  by (induction keys arbitrary: refusal)
    (auto simp: bind_claims_def split: if_splits sum.splits)

text \<open>
  C23. A device works a marketplace only under a signature: whatever the gate permits rests on a
  key of the build that is not the all-zero one, whose verified claims name this device, list
  the marketplace, and reach at least to now, with a grace that does not precede the expiry.
  Without a key no token opens the gate.
\<close>

theorem gate_opens_only_under_a_signature:
  assumes "verify decode token keys device = Inr e" "may_work (Some e) marketplace now"
  shows "\<exists>key\<in>set keys. key \<noteq> SMALL_ORDER_KEY \<and>
    (\<exists>claims. decode token key = Inr claims \<and> cl_device claims = device \<and>
       marketplace \<in> set (cl_marketplaces claims) \<and> ts_ms now \<le> cl_grace claims * 1000 \<and>
       cl_exp claims \<le> cl_grace claims)"
  using verify_keys_sound [OF assms(1) [unfolded verify_def]] assms(2)
  by (auto simp: may_work_def millis_def split: option.splits)

definition sample_decode :: "string \<Rightarrow> u8 list \<Rightarrow> string + Claims" where
  "sample_decode token key =
     (if key = replicate 32 1 then Inr (mint ''org'' ''dev'' [MTes] Studio 1000)
      else Inl ''InvalidSignature'')"

theorem gate_opens_only_under_a_signature_witness:
  "\<exists>e. verify sample_decode ''t'' [replicate 32 0, replicate 32 2, replicate 32 1] ''dev'' = Inr e \<and>
     may_work (Some e) MTes (Timestamp 91000000) \<and>
     (\<exists>key\<in>set [replicate 32 0, replicate 32 2, replicate 32 1 :: u8 list]. key \<noteq> SMALL_ORDER_KEY \<and>
       (\<exists>claims. sample_decode ''t'' key = Inr claims \<and> ts_ms (Timestamp 91000000) \<le> cl_grace claims * 1000))"
proof -
  let ?e = "Entitlement (mint ''org'' ''dev'' [MTes] Studio 1000)"
  have v: "verify sample_decode ''t'' [replicate 32 0, replicate 32 2, replicate 32 1] ''dev'' = Inr ?e"
    by code_simp
  have w: "may_work (Some ?e) MTes (Timestamp 91000000)" by code_simp
  from gate_opens_only_under_a_signature [OF v w] v w show ?thesis by blast
qed

text \<open>
  A minted token works on the device it was minted for: it binds there and nowhere else,
  permits exactly its marketplaces for twenty-five hours from its minting to the second, and
  asks to be revalidated after the first.
\<close>

theorem minted_token_lifetime:
  assumes "0 \<le> at" "at \<le> 9000000000000000"
  shows "bind_claims (mint s d ms p at) device =
      (if device = d then Inr (Entitlement (mint s d ms p at)) else Inl WrongDevice) \<and>
    (may_work (Some (Entitlement (mint s d ms p at))) m now \<longleftrightarrow>
       m \<in> set ms \<and> ts_ms now \<le> (at + 90000) * 1000) \<and>
    (needs_revalidation (Entitlement (mint s d ms p at)) now \<longleftrightarrow> ts_ms now > (at + 3600) * 1000)"
proof -
  have "in_signed 64 at" "at + 90000 < 2 ^ 63" using assms by (auto simp: rust_int)
  note windows = mint_exp_grace [OF this]
  have "millis (at + 3600) = Some ((at + 3600) * 1000)" "millis (at + 90000) = Some ((at + 90000) * 1000)"
    using assms by (auto simp: millis_def rust_int)
  then show ?thesis
    using bind_mint [of s d ms p at]
    by (auto simp: may_work_def needs_revalidation_def windows bind_claims_def)
qed

theorem minted_token_lifetime_witness:
  "may_work (Some (Entitlement (mint ''org'' ''dev'' [MTes] Studio 1000))) MTes (Timestamp 91000000) \<and>
   \<not> may_work (Some (Entitlement (mint ''org'' ''dev'' [MTes] Studio 1000))) MTes (Timestamp 91000001)"
proof -
  have "may_work (Some (Entitlement (mint ''org'' ''dev'' [MTes] Studio 1000))) MTes (Timestamp n)
      \<longleftrightarrow> n \<le> 91000000" for n
    using minted_token_lifetime [of 1000 "''org''" "''dev''" "[MTes]" Studio "''dev''" MTes "Timestamp n"] by simp
  then show ?thesis by simp
qed

text \<open>A served range is never empty, and its length is the inclusive one.\<close>

lemma serve_len_pos: "serve_len c > 0"
proof -
  have "x + 1 > 0" if "x \<noteq> 18446744073709551615" for x :: u64
  proof -
    have "(18446744073709551615 :: u64) = - 1" by simp
    then have "x \<noteq> - 1" using that by metis
    then have "x + 1 \<noteq> 0" by (simp add: eq_neg_iff_add_eq_0)
    then show ?thesis by (simp add: word_greater_zero_iff)
  qed
  then show ?thesis by (auto simp: serve_len_def Let_def)
qed

lemma serve_len_exact:
  assumes "sc_first c \<le> sc_last c" "sc_last c - sc_first c \<noteq> 18446744073709551615"
  shows "serve_len c = sc_last c - sc_first c + 1"
  using assms by (simp add: serve_len_def)

lemma refusal_round_trip: "refusal_from_word w = Some r \<longleftrightarrow> refusal_word r = w"
  by (cases r) (auto simp: refusal_from_word_def)

end
