(* ===== verification/Engine.thy ===== *)
theory Engine
  imports Adapter
begin

section \<open>The fleet breaker, the canary and the outbox drainer (crate tam-engine)\<close>

text \<open>
  \<open>breaker.rs\<close>, \<open>canary.rs\<close> and \<open>outbox.rs\<close>. The database is not part of the core: the recent
  outcomes the breaker reads and the messages the drainer claims arrive as lists, the halts both
  watchers raise are returned as values, and the outbox store is a record of the three marks the
  drainer makes on it, each taking the store's state to an answer and the next state. Instants
  are in range, so the sums \<open>now + backoff\<close> and \<open>now - window\<close> are exact.
\<close>

subsection \<open>The breaker\<close>

definition BREAKER_WINDOW_MS :: i64 where "BREAKER_WINDOW_MS = 30 * 60 * 1000"
definition BREAKER_MIN_SAMPLE :: i64 where "BREAKER_MIN_SAMPLE = 5"
definition BREAKER_TRIP_PERMILLE :: i64 where "BREAKER_TRIP_PERMILLE = 500"
definition BREAKER_MIN_TENANTS :: i64 where "BREAKER_MIN_TENANTS = 3"

record InventoryFailureWindow =
  fw_inventory :: InventoryId
  fw_settled :: i64
  fw_adverse :: i64
  fw_adverse_orgs :: i64

record HaltCause =
  hc_raised_by :: string
  hc_reason :: string
  hc_at :: Timestamp

definition breaker_reason :: "InventoryFailureWindow \<Rightarrow> string" where
  "breaker_reason w = signed_decimal (fw_adverse w) @ '' of '' @ signed_decimal (fw_settled w)
     @ '' settlements across '' @ signed_decimal (fw_adverse_orgs w)
     @ '' organisations ended failed, ambiguous or blocked in the window''"

definition trips :: "InventoryFailureWindow \<Rightarrow> bool" where
  "trips w \<longleftrightarrow> \<not> fw_settled w < BREAKER_MIN_SAMPLE \<and> fw_adverse_orgs w \<ge> BREAKER_MIN_TENANTS \<and>
     saturating_mul 64 (fw_adverse w) 1000 \<ge> saturating_mul 64 BREAKER_TRIP_PERMILLE (fw_settled w)"

text \<open>\<open>run_breaker\<close>: the loop over the windows, as the fleet halts it raises in order.\<close>

fun run_breaker :: "Timestamp \<Rightarrow> InventoryFailureWindow list \<Rightarrow> (InventoryId \<times> HaltCause) list" where
  "run_breaker now [] = []"
| "run_breaker now (w # ws) =
     (if trips w
      then (fw_inventory w, \<lparr>hc_raised_by = ''breaker'', hc_reason = breaker_reason w, hc_at = now\<rparr>)
             # run_breaker now ws
      else run_breaker now ws)"

definition breaker_since :: "Timestamp \<Rightarrow> Timestamp" where
  "breaker_since now = Timestamp (ts_ms now - BREAKER_WINDOW_MS)"

subsection \<open>The canary\<close>

datatype ProbeVerdict = Clean | Drifted string | Probe_Failed string

text \<open>
  \<open>asserted\<close> is what the adapter's form assertion answers; the two renderings by \<open>Debug\<close> are
  parameters. The second component is the fleet halt raised, if any.
\<close>

definition probe :: "(string list \<Rightarrow> string) \<Rightarrow> (AdapterError \<Rightarrow> string) \<Rightarrow> InventoryId \<Rightarrow> Timestamp
    \<Rightarrow> AdapterError + FormSchemaFingerprint \<Rightarrow> ProbeVerdict \<times> (InventoryId \<times> HaltCause) option" where
  "probe debug_names debug_error inventory now asserted =
     (case asserted of
        Inr _ \<Rightarrow> (Clean, None)
      | Inl (AE_SchemaDrift drift) \<Rightarrow>
          (let detail = ''added '' @ debug_names (sd_added drift) @ '', removed '' @ debug_names (sd_removed drift)
           in (Drifted detail,
               Some (inventory, \<lparr>hc_raised_by = ''canary'', hc_reason = detail, hc_at = now\<rparr>)))
      | Inl err \<Rightarrow> (Probe_Failed (debug_error err), None))"

subsection \<open>The outbox\<close>

definition OUTBOX_BACKOFF_BASE_MS :: i64 where "OUTBOX_BACKOFF_BASE_MS = 30000"
definition OUTBOX_BACKOFF_MAX_MS :: i64 where "OUTBOX_BACKOFF_MAX_MS = 3600000"
definition OUTBOX_ATTEMPTS_MAX :: i32 where "OUTBOX_ATTEMPTS_MAX = 12"

datatype DeliveryError = Retryable string | Poison string

record DrainReport =
  dr_delivered :: u32
  dr_retried :: u32
  dr_dead :: u32

text \<open>\<open>u32::try_from(attempts).unwrap_or(0).min(24)\<close> is the exponent.\<close>

definition backoff_ms :: "i32 \<Rightarrow> i64" where
  "backoff_ms attempts =
     (let exponent = min (if attempts < 0 then 0 else nat attempts) 24
      in min (saturating_mul 64 OUTBOX_BACKOFF_BASE_MS (2 ^ exponent)) OUTBOX_BACKOFF_MAX_MS)"

record 'r OutboxMessage =
  ob_reference :: 'r
  ob_attempts :: i32

record ('s, 'r, 'err) OutboxStore =
  os_mark_delivered :: "'r \<Rightarrow> Timestamp \<Rightarrow> 's \<Rightarrow> ('err + bool) \<times> 's"
  os_retry_later :: "'r \<Rightarrow> Timestamp \<Rightarrow> string \<Rightarrow> 's \<Rightarrow> ('err + bool) \<times> 's"
  os_mark_dead :: "'r \<Rightarrow> string \<Rightarrow> 's \<Rightarrow> ('err + bool) \<times> 's"

text \<open>What one message's delivery asks of the store, and the counter it moves where the store agrees.\<close>

datatype Disposition = Delivered | RetryAt Timestamp string | Dead string

definition disposition ::
  "Timestamp \<Rightarrow> 'r OutboxMessage \<Rightarrow> DeliveryError + unit \<Rightarrow> Disposition" where
  "disposition now message result =
     (case result of
        Inr _ \<Rightarrow> Delivered
      | Inl (Retryable e) \<Rightarrow>
          if ob_attempts message + 1 \<ge> OUTBOX_ATTEMPTS_MAX then Dead e
          else RetryAt (Timestamp (ts_ms now + backoff_ms (ob_attempts message))) e
      | Inl (Poison e) \<Rightarrow> Dead e)"

definition mark :: "('s, 'r, 'err) OutboxStore \<Rightarrow> Timestamp \<Rightarrow> 'r \<Rightarrow> Disposition \<Rightarrow> 's \<Rightarrow> ('err + bool) \<times> 's" where
  "mark outbox now reference d st =
     (case d of
        Delivered \<Rightarrow> os_mark_delivered outbox reference now st
      | RetryAt at e \<Rightarrow> os_retry_later outbox reference at e st
      | Dead e \<Rightarrow> os_mark_dead outbox reference e st)"

fun tally :: "Disposition \<Rightarrow> DrainReport \<Rightarrow> DrainReport" where
  "tally Delivered r = r\<lparr>dr_delivered := dr_delivered r + 1\<rparr>"
| "tally (RetryAt at e) r = r\<lparr>dr_retried := dr_retried r + 1\<rparr>"
| "tally (Dead e) r = r\<lparr>dr_dead := dr_dead r + 1\<rparr>"

fun drain_from :: "('s, 'r, 'err) OutboxStore \<Rightarrow> ('r OutboxMessage \<Rightarrow> DeliveryError + unit) \<Rightarrow> Timestamp
    \<Rightarrow> DrainReport \<Rightarrow> 'r OutboxMessage list \<Rightarrow> 's \<Rightarrow> ('err + DrainReport) \<times> 's" where
  "drain_from outbox deliver now report [] st = (Inr report, st)"
| "drain_from outbox deliver now report (message # rest) st =
     (let d = disposition now message (deliver message)
      in case mark outbox now (ob_reference message) d st of
           (Inl e, st') \<Rightarrow> (Inl e, st')
         | (Inr agreed, st') \<Rightarrow>
             drain_from outbox deliver now (if agreed then tally d report else report) rest st')"

definition drain where
  "drain outbox deliver now messages st =
     drain_from outbox deliver now \<lparr>dr_delivered = 0, dr_retried = 0, dr_dead = 0\<rparr> messages st"

subsection \<open>Properties of the breaker\<close>

lemma trips_iff:
  assumes "0 \<le> fw_adverse w" "0 \<le> fw_settled w" "fw_settled w \<le> 9000000000000000"
    "fw_adverse w \<le> 9000000000000000"
  shows "trips w \<longleftrightarrow> 5 \<le> fw_settled w \<and> 3 \<le> fw_adverse_orgs w \<and> fw_settled w \<le> 2 * fw_adverse w"
  using assms
  by (auto simp: trips_def rust_int BREAKER_MIN_SAMPLE_def BREAKER_MIN_TENANTS_def BREAKER_TRIP_PERMILLE_def)

lemma set_run_breaker:
  "set (run_breaker now ws) =
     {(fw_inventory w, \<lparr>hc_raised_by = ''breaker'', hc_reason = breaker_reason w, hc_at = now\<rparr>) | w.
        w \<in> set ws \<and> trips w}"
  by (induction ws) auto

text \<open>
  The breaker halts an inventory for the whole fleet exactly when a window of it shows at
  least five settlements, at least half of them adverse, and adverse ones from at least three
  organisations; so no one or two organisations can stop the fleet, and it halts nothing else.
\<close>

theorem breaker_halts_on_a_fleet_wide_rate:
  assumes "\<And>w. w \<in> set ws \<Longrightarrow> 0 \<le> fw_adverse w \<and> fw_adverse w \<le> fw_settled w \<and>
      fw_settled w \<le> 9000000000000000"
  shows "(\<exists>cause. (inventory, cause) \<in> set (run_breaker now ws)) \<longleftrightarrow>
    (\<exists>w\<in>set ws. fw_inventory w = inventory \<and> 5 \<le> fw_settled w \<and> 3 \<le> fw_adverse_orgs w \<and>
       fw_settled w \<le> 2 * fw_adverse w)"
proof -
  have "trips w \<longleftrightarrow> 5 \<le> fw_settled w \<and> 3 \<le> fw_adverse_orgs w \<and> fw_settled w \<le> 2 * fw_adverse w"
    if "w \<in> set ws" for w
    using assms [OF that] by (intro trips_iff) auto
  then show ?thesis by (auto simp: set_run_breaker)
qed

theorem breaker_halts_on_a_fleet_wide_rate_witness:
  "let w = \<lparr>fw_inventory = Tpt, fw_settled = 6, fw_adverse = 3, fw_adverse_orgs = 3\<rparr>;
       v = \<lparr>fw_inventory = Tes, fw_settled = 9, fw_adverse = 9, fw_adverse_orgs = 2\<rparr>
   in (\<exists>cause. (Tpt, cause) \<in> set (run_breaker (Timestamp 0) [w, v])) \<and>
      \<not> (\<exists>cause. (Tes, cause) \<in> set (run_breaker (Timestamp 0) [w, v]))"
proof -
  let ?ws = "[\<lparr>fw_inventory = Tpt, fw_settled = 6, fw_adverse = 3, fw_adverse_orgs = 3\<rparr>,
              \<lparr>fw_inventory = Tes, fw_settled = 9, fw_adverse = 9, fw_adverse_orgs = 2\<rparr>]"
  have "(\<exists>cause. (i, cause) \<in> set (run_breaker (Timestamp 0) ?ws)) \<longleftrightarrow> i = Tpt" for i
    by (subst breaker_halts_on_a_fleet_wide_rate) auto
  from this [of Tpt] this [of Tes] show ?thesis unfolding Let_def by simp
qed

subsection \<open>Properties of the outbox\<close>

lemma capped_product:
  "1 \<le> x \<Longrightarrow> x \<le> 2 ^ 24 \<Longrightarrow> min (saturating_mul 64 30000 x) 3600000 = min (30000 * x) 3600000"
  by (auto simp: rust_int)

lemma backoff_closed: "backoff_ms n = min (30000 * 2 ^ min (nat n) 24) 3600000"
proof -
  have "(2::int) ^ min (nat n) 24 \<le> 2 ^ 24" by (rule power_increasing) auto
  moreover have "(if n < 0 then 0 else nat n) = nat n" by simp
  ultimately show ?thesis
    by (simp add: backoff_ms_def Let_def capped_product OUTBOX_BACKOFF_BASE_MS_def OUTBOX_BACKOFF_MAX_MS_def
        del: power_increasing_iff)
qed

lemma backoff_mono: "m \<le> n \<Longrightarrow> backoff_ms m \<le> backoff_ms n"
  unfolding backoff_closed by (intro min.mono mult_left_mono power_increasing) auto

lemma backoff_bounds: "30000 \<le> backoff_ms n \<and> backoff_ms n \<le> 3600000"
proof -
  have "(1::int) \<le> 2 ^ min (nat n) 24" by simp
  then show ?thesis by (simp add: backoff_closed)
qed

lemma backoff_small: "0 \<le> a \<Longrightarrow> a < 11 \<Longrightarrow> backoff_ms a = min (30000 * 2 ^ nat a) 3600000"
  by (simp add: backoff_closed min_def)

text \<open>
  A message is retried at most eleven times, each wait doubling from half a minute up to an
  hour; a delivery marks it delivered, a poisoned message and the twelfth refusal mark it dead.
\<close>

theorem outbox_disposition:
  "disposition now message result =
     (case result of
        Inr _ \<Rightarrow> Delivered
      | Inl (Poison e) \<Rightarrow> Dead e
      | Inl (Retryable e) \<Rightarrow>
          if ob_attempts message \<ge> 11 then Dead e
          else RetryAt (Timestamp (ts_ms now + min (30000 * 2 ^ min (nat (ob_attempts message)) 24) 3600000)) e)"
  by (auto simp: disposition_def OUTBOX_ATTEMPTS_MAX_def backoff_closed split: sum.splits DeliveryError.splits)

lemma drain_from_log:
  assumes "\<And>r d st. log (snd (mark outbox now r d st)) = log st @ [(r, d)]"
    and "drain_from outbox deliver now report messages st = (Inr report', st')"
  shows "log st' = log st @ map (\<lambda>m. (ob_reference m, disposition now m (deliver m))) messages"
  using assms(2)
proof (induction messages arbitrary: report st)
  case (Cons m ms)
  let ?d = "disposition now m (deliver m)"
  obtain agreed st1 where one: "mark outbox now (ob_reference m) ?d st = (Inr agreed, st1)"
    and rest: "drain_from outbox deliver now (if agreed then tally ?d report else report) ms st1
        = (Inr report', st')"
    using Cons.prems by (auto simp: Let_def split: prod.splits sum.splits)
  have "log st1 = log st @ [(ob_reference m, ?d)]"
    using assms(1) [of "ob_reference m" ?d st] one by simp
  with Cons.IH [OF rest] show ?case by simp
qed simp

text \<open>
  A drain that the store never fails marks every claimed message exactly once, in the order
  claimed, with the disposition its own delivery decided.
\<close>

theorem drain_marks_every_message_once:
  assumes "\<And>r d st. log (snd (mark outbox now r d st)) = log st @ [(r, d)]"
    and "drain outbox deliver now messages st = (Inr report, st')"
  shows "log st' = log st @ map (\<lambda>m. (ob_reference m, disposition now m (deliver m))) messages"
  using drain_from_log [where log = log, OF assms(1) assms(2) [unfolded drain_def]] .

definition sample_store :: "((nat \<times> Disposition) list, nat, unit) OutboxStore" where
  "sample_store = \<lparr>os_mark_delivered = (\<lambda>r at st. (Inr True, st @ [(r, Delivered)])),
     os_retry_later = (\<lambda>r at e st. (Inr True, st @ [(r, RetryAt at e)])),
     os_mark_dead = (\<lambda>r e st. (Inr True, st @ [(r, Dead e)]))\<rparr>"

theorem drain_marks_every_message_once_witness:
  "\<exists>report st'. drain sample_store (\<lambda>m. if ob_reference m = 1 then Inr () else Inl (Retryable ''x''))
      (Timestamp 0) [\<lparr>ob_reference = 1, ob_attempts = 0\<rparr>, \<lparr>ob_reference = 2, ob_attempts = 11\<rparr>] []
      = (Inr report, st') \<and> st' = [(1, Delivered), (2, Dead ''x'')]"
proof -
  let ?deliver = "\<lambda>m. if ob_reference m = 1 then Inr () else Inl (Retryable ''x'')"
  let ?ms = "[\<lparr>ob_reference = 1, ob_attempts = 0\<rparr>, \<lparr>ob_reference = 2, ob_attempts = 11\<rparr>] :: nat OutboxMessage list"
  have logs: "snd (mark sample_store (Timestamp 0) r d st) = st @ [(r, d)]" for r d st
    by (cases d) (simp_all add: mark_def sample_store_def)
  obtain report st' where run: "drain sample_store ?deliver (Timestamp 0) ?ms [] = (Inr report, st')"
    by (simp add: drain_def Let_def mark_def sample_store_def disposition_def OUTBOX_ATTEMPTS_MAX_def)
  from drain_marks_every_message_once [where log = "\<lambda>st. st", OF logs run] run show ?thesis
    by (simp add: disposition_def OUTBOX_ATTEMPTS_MAX_def)
qed

end
