(* ===== verification/SellerText.thy ===== *)
theory SellerText
  imports Domain
begin

section \<open>Text as the seller rules read it (crate tam-domain, seller_rules.rs)\<close>

text \<open>
  The parts of Rust's text library the seller rules use, on UTF-8 bytes, and the words a buyer
  would read in a description: \<open>visible_description\<close> with its tag and entity removal.
\<close>

subsection \<open>The text library\<close>

text \<open>The encoding of one scalar value, and \<open>char::is_whitespace\<close>: the 25 scalar values of the
  Unicode White_Space property, encoded.\<close>

definition utf8 :: "nat \<Rightarrow> string" where
  "utf8 n =
     (if n < 128 then [char_of n]
      else if n < 2048 then [char_of (192 + n div 64), char_of (128 + n mod 64)]
      else if n < 65536
      then [char_of (224 + n div 4096), char_of (128 + n div 64 mod 64), char_of (128 + n mod 64)]
      else [char_of (240 + n div 262144), char_of (128 + n div 4096 mod 64),
            char_of (128 + n div 64 mod 64), char_of (128 + n mod 64)])"

definition white_space :: "string list" where
  "white_space = [
    [CHR 0x09], [CHR 0x0A], [CHR 0x0B], [CHR 0x0C], [CHR 0x0D], [CHR 0x20], [CHR 0xC2, CHR 0x85],
     [CHR 0xC2, CHR 0xA0], [CHR 0xE1, CHR 0x9A, CHR 0x80], [CHR 0xE2, CHR 0x80, CHR 0x80],
     [CHR 0xE2, CHR 0x80, CHR 0x81], [CHR 0xE2, CHR 0x80, CHR 0x82],
     [CHR 0xE2, CHR 0x80, CHR 0x83], [CHR 0xE2, CHR 0x80, CHR 0x84],
     [CHR 0xE2, CHR 0x80, CHR 0x85], [CHR 0xE2, CHR 0x80, CHR 0x86],
     [CHR 0xE2, CHR 0x80, CHR 0x87], [CHR 0xE2, CHR 0x80, CHR 0x88],
     [CHR 0xE2, CHR 0x80, CHR 0x89], [CHR 0xE2, CHR 0x80, CHR 0x8A],
     [CHR 0xE2, CHR 0x80, CHR 0xA8], [CHR 0xE2, CHR 0x80, CHR 0xA9],
     [CHR 0xE2, CHR 0x80, CHR 0xAF], [CHR 0xE2, CHR 0x81, CHR 0x9F], [CHR 0xE3, CHR 0x80, CHR 0x80]]"

definition trim :: "string \<Rightarrow> string" where
  "trim s = concat (rev (dropWhile (\<lambda>c. c \<in> set white_space)
     (rev (dropWhile (\<lambda>c. c \<in> set white_space) (scalars s)))))"

text \<open>\<open>str::split_once\<close> on one byte, \<open>str::contains\<close> and \<open>eq_ignore_ascii_case\<close>.\<close>

fun split_once :: "char \<Rightarrow> string \<Rightarrow> (string \<times> string) option" where
  "split_once c [] = None"
| "split_once c (x # xs) =
     (if x = c then Some ([], xs)
      else map_option (\<lambda>(before, after). (x # before, after)) (split_once c xs))"

fun contains_text :: "string \<Rightarrow> string \<Rightarrow> bool" where
  "contains_text needle [] = (needle = [])"
| "contains_text needle (x # xs) =
     (take (length needle) (x # xs) = needle \<or> contains_text needle xs)"

definition to_ascii_lowercase :: "char \<Rightarrow> char" where
  "to_ascii_lowercase c =
     (let n = of_char c in if 65 \<le> n \<and> n \<le> (90::nat) then char_of (n + 32) else c)"

definition eq_ignore_ascii_case :: "string \<Rightarrow> string \<Rightarrow> bool" where
  "eq_ignore_ascii_case a b \<longleftrightarrow> map to_ascii_lowercase a = map to_ascii_lowercase b"

lemma split_once_Some:
  "split_once c s = Some (a, b) \<longleftrightarrow> s = a @ c # b \<and> c \<notin> set a"
proof (induction s arbitrary: a)
  case (Cons x xs)
  then show ?case by (cases a) (auto split: if_splits)
qed simp

lemma split_once_None: "split_once c s = None \<longleftrightarrow> c \<notin> set s"
  by (induction s) auto

lemma split_once_shorter: "split_once c s = Some (a, b) \<Longrightarrow> length b < length s"
  by (auto simp: split_once_Some)

subsection \<open>The visible description\<close>

text \<open>\<open>strip_tags\<close> walks the scalar values; the two it looks for are single bytes, so it walks bytes.\<close>

fun strip_from :: "bool \<Rightarrow> string \<Rightarrow> string" where
  "strip_from inside [] = []"
| "strip_from inside (c # cs) =
     (if c = CHR ''<'' then CHR '' '' # strip_from True cs
      else if c = CHR ''>'' \<and> inside then strip_from False cs
      else if inside then strip_from True cs
      else c # strip_from False cs)"

definition strip_tags :: "string \<Rightarrow> string" where
  "strip_tags body = strip_from False body"

definition NAMED :: "(string \<times> string) list" where
  "NAMED = [(''amp'', ''&''), (''lt'', ''<''), (''gt'', ''>''), (''quot'', [CHR 0x22]),
     (''apos'', [CHR 0x27]), (''nbsp'', '' '')]"

text \<open>\<open>u32::from_str_radix(hex, 16)\<close> takes one leading plus, as \<open>parse\<close> does.\<close>

fun hex_number :: "nat \<Rightarrow> string \<Rightarrow> nat option" where
  "hex_number acc [] = Some acc"
| "hex_number acc (c # cs) =
     (case hex_value c of None \<Rightarrow> None | Some d \<Rightarrow> hex_number (16 * acc + d) cs)"

definition parse_hex_u32 :: "string \<Rightarrow> nat option" where
  "parse_hex_u32 s =
     (let ds = (case s of [] \<Rightarrow> [] | c # cs \<Rightarrow> if c = CHR ''+'' then cs else s) in
      if ds = [] then None
      else (case hex_number 0 ds of
              None \<Rightarrow> None
            | Some n \<Rightarrow> if n < 4294967296 then Some n else None))"

text \<open>\<open>char::from_u32\<close>: not a surrogate and not above the last plane.\<close>

definition char_from_u32 :: "nat \<Rightarrow> string option" where
  "char_from_u32 n =
     (if n < 55296 \<or> 57343 < n \<and> n < 1114112 then Some (utf8 n) else None)"

definition numeric_entity :: "string \<Rightarrow> string option" where
  "numeric_entity body =
     (case body of
        [] \<Rightarrow> None
      | c # digits \<Rightarrow>
          if c \<noteq> CHR ''#'' then None
          else (let code = (case digits of
                  [] \<Rightarrow> parse_unsigned 4294967296 digits
                | x # hex \<Rightarrow> if x = CHR ''x'' \<or> x = CHR ''X'' then parse_hex_u32 hex
                             else parse_unsigned 4294967296 digits)
                in case code of None \<Rightarrow> None | Some n \<Rightarrow> char_from_u32 n))"

function decode_entities :: "string \<Rightarrow> string" where
  "decode_entities s =
     (case split_once (CHR ''&'') s of
        None \<Rightarrow> s
      | Some (before, after) \<Rightarrow>
          before @
          (case position (\<lambda>b. b = CHR '';'') (take 9 after) of
             None \<Rightarrow> ''&'' @ decode_entities after
           | Some end \<Rightarrow>
               (let body = take end after; remaining = drop (Suc end) after in
                (case map_of NAMED body of
                   Some decoded \<Rightarrow> decoded
                 | None \<Rightarrow>
                     (case numeric_entity body of
                        Some decoded \<Rightarrow> decoded
                      | None \<Rightarrow> ''&'' @ body @ '';'')) @ decode_entities remaining)))"
  by pat_completeness auto
termination
  by (relation "measure length") (auto dest!: split_once_shorter)

declare decode_entities.simps [simp del]

definition visible_description :: "ListingCopy \<Rightarrow> string" where
  "visible_description copy =
     (case lc_format copy of
        Markdown \<Rightarrow> lc_body copy
      | Html \<Rightarrow> decode_entities (strip_tags (lc_body copy)))"

subsection \<open>Lemmas\<close>

lemma strip_no_tag: "CHR ''<'' \<notin> set s \<Longrightarrow> strip_from False s = s"
  by (induction s) auto

lemma strip_removes_tags: "CHR ''<'' \<notin> set (strip_from inside s)"
  by (induction inside s rule: strip_from.induct) auto

lemma strip_tag: "CHR ''>'' \<notin> set tag \<Longrightarrow> CHR ''<'' \<notin> set tag \<Longrightarrow>
    strip_from True (tag @ CHR ''>'' # s) = strip_from False s"
  by (induction tag) auto

lemma decode_Nil [simp]: "decode_entities [] = []"
  by (simp add: decode_entities.simps)

lemma decode_plain: "c \<noteq> CHR ''&'' \<Longrightarrow> decode_entities (c # s) = c # decode_entities s"
  by (simp add: decode_entities.simps [of "c # s"] decode_entities.simps [of s] split: option.split)

lemma position_take:
  "position p (take n xs) = (case position p xs of None \<Rightarrow> None | Some i \<Rightarrow> if i < n then Some i else None)"
  by (induction p xs arbitrary: n rule: position.induct)
    (auto simp: take_Cons' split: option.splits nat.splits)

lemma decode_named:
  "map_of NAMED body = Some decoded \<Longrightarrow> CHR '';'' \<notin> set body \<Longrightarrow> length body < 9 \<Longrightarrow>
     decode_entities (CHR ''&'' # body @ CHR '';'' # s) = decoded @ decode_entities s"
proof -
  assume m: "map_of NAMED body = Some decoded" and n: "CHR '';'' \<notin> set body" and l: "length body < 9"
  have p: "position (\<lambda>b. b = CHR '';'') (body @ CHR '';'' # s) = Some (length body)"
    using n by (induction body) auto
  show ?thesis
    by (simp add: decode_entities.simps [of "CHR ''&'' # body @ CHR '';'' # s"] position_take p l m del: take_append)
      (simp add: m)
qed

text \<open>The inverse a browser's author applies: the five characters of markup as entities.\<close>

definition escape_char :: "char \<Rightarrow> string" where
  "escape_char c =
     (if c = CHR ''&'' then ''&amp;'' else if c = CHR ''<'' then ''&lt;''
      else if c = CHR ''>'' then ''&gt;'' else if c = CHR 0x22 then ''&quot;''
      else if c = CHR 0x27 then ''&apos;'' else [c])"

definition escape_markup :: "string \<Rightarrow> string" where
  "escape_markup s = concat (map escape_char s)"

lemma decode_escape_char: "decode_entities (escape_char c @ s) = c # decode_entities s"
  using decode_named [of "''amp''" "''&''" s] decode_named [of "''lt''" "''<''" s]
    decode_named [of "''gt''" "''>''" s] decode_named [of "''quot''" "[CHR 0x22]" s]
    decode_named [of "''apos''" "[CHR 0x27]" s]
  by (simp add: escape_char_def NAMED_def decode_plain)

lemma decode_escape: "decode_entities (escape_markup s) = s"
  by (induction s) (simp_all add: escape_markup_def decode_escape_char)

lemma escape_no_tag: "CHR ''<'' \<notin> set (escape_markup s)"
  by (auto simp: escape_markup_def escape_char_def)

end
