(* ===== verification/Registry.thy ===== *)
theory Registry
  imports Domain
begin

section \<open>The field registry (crate tam-domain, registry/)\<close>

text \<open>
  What each inventory declares: the constraints on the canonical six fields, its native fields
  and the equivalence axes it binds or was measured to lack (\<open>registry/mod.rs\<close> and the data of
  \<open>tes.rs\<close>, \<open>tpt.rs\<close> and \<open>etsy.rs\<close> in full), and \<open>truncate\<close>, which cuts a text at a declared cap.
  A scalar value of a text is a lead byte with its continuation bytes; it is two UTF-16 code
  units wide exactly when it takes four bytes.
\<close>

record LengthCap =
  lcap_limit :: nat
  lcap_unit :: LengthUnit

record CountCap =
  ccap_limit :: nat

record FieldSpec =
  fsp_cap :: "LengthCap option"
  fsp_required :: bool

definition UNRECORDED :: FieldSpec where "UNRECORDED = \<lparr>fsp_cap = None, fsp_required = False\<rparr>"
definition REQUIRED :: FieldSpec where "REQUIRED = \<lparr>fsp_cap = None, fsp_required = True\<rparr>"

record CanonicalFields =
  cf_title :: FieldSpec
  cf_description :: FieldSpec
  cf_price :: FieldSpec
  cf_taxonomy :: FieldSpec
  cf_grades :: FieldSpec
  cf_files :: FieldSpec

definition UNRECORDED_FIELDS :: CanonicalFields where
  "UNRECORDED_FIELDS = \<lparr>cf_title = UNRECORDED, cf_description = UNRECORDED, cf_price = UNRECORDED,
     cf_taxonomy = UNRECORDED, cf_grades = UNRECORDED, cf_files = UNRECORDED\<rparr>"

fun canonical_get :: "CanonicalFields \<Rightarrow> FieldKey \<Rightarrow> FieldSpec" where
  "canonical_get c Title = cf_title c"
| "canonical_get c Description = cf_description c"
| "canonical_get c Price = cf_price c"
| "canonical_get c Taxonomy = cf_taxonomy c"
| "canonical_get c Grades = cf_grades c"
| "canonical_get c Files = cf_files c"

datatype FieldDirection = Written | ReadOnly | BothWays

datatype NativeVocabulary = Closed "string list" | ClosedUncaptured | FreeText | Numeric | Unmeasured

datatype Cardinality = One | Many "CountCap option"

datatype NonDelegable = LegalContent

datatype Delegation = ByOptIn | Never NonDelegable

datatype FormGroup =
    G_Name | G_Files | G_Description | G_Price | G_Categories | G_EducationStandards | G_Details | G_Copyright | G_ProductStatus

fun form_heading :: "FormGroup \<Rightarrow> string" where
  "form_heading G_Name = ''Name''"
| "form_heading G_Files = ''Files''"
| "form_heading G_Description = ''Description''"
| "form_heading G_Price = ''Price''"
| "form_heading G_Categories = ''Categories''"
| "form_heading G_EducationStandards = ''Education Standards''"
| "form_heading G_Details = ''Details''"
| "form_heading G_Copyright = ''Copyright''"
| "form_heading G_ProductStatus = ''Product Status''"

datatype TesStep = T_Description | T_Files | T_Categories | T_Licence | T_Publish

fun step_heading :: "TesStep \<Rightarrow> string" where
  "step_heading T_Description = ''Description''"
| "step_heading T_Files = ''Add Files''"
| "step_heading T_Categories = ''Categories''"
| "step_heading T_Licence = ''Licence''"
| "step_heading T_Publish = ''Publish''"

datatype FieldGroup = Tes_Group TesStep | Tpt_Group FormGroup

definition field_groups :: "FieldGroup list" where
  "field_groups =
    [Tes_Group T_Description, Tes_Group T_Files, Tes_Group T_Categories, Tes_Group T_Licence, Tes_Group T_Publish,
     Tpt_Group G_Name, Tpt_Group G_Files, Tpt_Group G_Description, Tpt_Group G_Price, Tpt_Group G_Categories, Tpt_Group G_EducationStandards, Tpt_Group G_Details, Tpt_Group G_Copyright, Tpt_Group G_ProductStatus]"

fun group_token :: "FieldGroup \<Rightarrow> string" where
  "group_token (Tes_Group T_Description) = ''tes_description''"
| "group_token (Tes_Group T_Files) = ''tes_files''"
| "group_token (Tes_Group T_Categories) = ''tes_categories''"
| "group_token (Tes_Group T_Licence) = ''tes_licence''"
| "group_token (Tes_Group T_Publish) = ''tes_publish''"
| "group_token (Tpt_Group G_Name) = ''tpt_name''"
| "group_token (Tpt_Group G_Files) = ''tpt_files''"
| "group_token (Tpt_Group G_Description) = ''tpt_description''"
| "group_token (Tpt_Group G_Price) = ''tpt_price''"
| "group_token (Tpt_Group G_Categories) = ''tpt_categories''"
| "group_token (Tpt_Group G_EducationStandards) = ''tpt_education_standards''"
| "group_token (Tpt_Group G_Details) = ''tpt_details''"
| "group_token (Tpt_Group G_Copyright) = ''tpt_copyright''"
| "group_token (Tpt_Group G_ProductStatus) = ''tpt_product_status''"

fun group_heading :: "FieldGroup \<Rightarrow> string" where
  "group_heading (Tes_Group step) = step_heading step"
| "group_heading (Tpt_Group grp) = form_heading grp"

record FormPlacement =
  pl_group :: FieldGroup
  pl_ordinal :: u8

record NativeField =
  nf_name :: string
  nf_label :: "string option"
  nf_placement :: "FormPlacement option"
  nf_direction :: FieldDirection
  nf_required :: bool
  nf_vocabulary :: NativeVocabulary
  nf_delegation :: Delegation

record AxisBinding =
  ab_axis :: TermKind
  ab_native :: string
  ab_cardinality :: Cardinality
  ab_delegation :: Delegation

record InventoryRegistry =
  ir_inventory :: InventoryId
  ir_canonical :: CanonicalFields
  ir_natives :: "NativeField list"
  ir_equivalence_axes :: "AxisBinding list"
  ir_absent_axes :: "TermKind list"

subsection \<open>The inventories\<close>

definition TES_NATIVES :: "NativeField list" where
  "TES_NATIVES = [
    \<lparr>nf_name = ''licence'', nf_label = Some ''Licence'',
      nf_placement = Some \<lparr>pl_group = Tes_Group T_Licence, pl_ordinal = 0\<rparr>,
      nf_direction = BothWays, nf_required = True,
      nf_vocabulary = Closed [''CC-BY'', ''CC-BY-ND'', ''CC-BY-SA'', ''TES-PAID'', ''TES-PAID-SCHOOL'', ''TES-V1'', ''TES-V2''],
      nf_delegation = Never LegalContent\<rparr>,
    \<lparr>nf_name = ''curriculum'', nf_label = Some ''Curriculum'',
      nf_placement = Some \<lparr>pl_group = Tes_Group T_Categories, pl_ordinal = 0\<rparr>,
      nf_direction = ReadOnly, nf_required = False,
      nf_vocabulary = Closed [''American'', ''Australian'', ''Canadian'', ''English'', ''International'', ''Irish'', ''New Zealand'', ''Northern Irish'', ''Scottish'', ''Welsh'', ''Zambian'', ''[rest of world]''],
      nf_delegation = ByOptIn\<rparr>,
    \<lparr>nf_name = ''mainType'', nf_label = Some ''Resource type'',
      nf_placement = Some \<lparr>pl_group = Tes_Group T_Files, pl_ordinal = 0\<rparr>,
      nf_direction = Written, nf_required = False,
      nf_vocabulary = Closed [''99001'', ''99002'', ''99003'', ''99004'', ''99005'', ''99006'', ''99007'', ''99008'', ''99009''],
      nf_delegation = ByOptIn\<rparr>,
    \<lparr>nf_name = ''mainAge'', nf_label = None,
      nf_placement = Some \<lparr>pl_group = Tes_Group T_Categories, pl_ordinal = 2\<rparr>,
      nf_direction = Written, nf_required = False,
      nf_vocabulary = Numeric,
      nf_delegation = ByOptIn\<rparr>,
    \<lparr>nf_name = ''yearGroups'', nf_label = None,
      nf_placement = Some \<lparr>pl_group = Tes_Group T_Categories, pl_ordinal = 1\<rparr>,
      nf_direction = BothWays, nf_required = False,
      nf_vocabulary = Closed [''1'', ''2'', ''3'', ''4'', ''5'', ''6'', ''7'', ''8'', ''9'', ''10'', ''11'', ''12'', ''13'', ''14'', ''15'', ''16'', ''17'', ''18'', ''19'', ''20'', ''21'', ''22'', ''23'', ''24'', ''25'', ''26'', ''27'', ''28'', ''29'', ''30''],
      nf_delegation = ByOptIn\<rparr>,
    \<lparr>nf_name = ''descriptionRawType'', nf_label = None,
      nf_placement = Some \<lparr>pl_group = Tes_Group T_Description, pl_ordinal = 0\<rparr>,
      nf_direction = Written, nf_required = False,
      nf_vocabulary = Unmeasured,
      nf_delegation = ByOptIn\<rparr>,
    \<lparr>nf_name = ''ageRanges'', nf_label = Some ''Main age range'',
      nf_placement = Some \<lparr>pl_group = Tes_Group T_Categories, pl_ordinal = 1\<rparr>,
      nf_direction = BothWays, nf_required = False,
      nf_vocabulary = Closed [''1'', ''2'', ''3'', ''4'', ''5'', ''6'', ''7''],
      nf_delegation = ByOptIn\<rparr>,
    \<lparr>nf_name = ''categories'', nf_label = Some ''Subjects and topics'',
      nf_placement = Some \<lparr>pl_group = Tes_Group T_Categories, pl_ordinal = 3\<rparr>,
      nf_direction = BothWays, nf_required = False,
      nf_vocabulary = Numeric,
      nf_delegation = ByOptIn\<rparr>,
    \<lparr>nf_name = ''primaryCategory'', nf_label = None,
      nf_placement = Some \<lparr>pl_group = Tes_Group T_Categories, pl_ordinal = 4\<rparr>,
      nf_direction = Written, nf_required = False,
      nf_vocabulary = Numeric,
      nf_delegation = ByOptIn\<rparr>]"

definition TES_AXES :: "AxisBinding list" where
  "TES_AXES = [
    \<lparr>ab_axis = Subject, ab_native = ''categories'', ab_cardinality = Many None, ab_delegation = ByOptIn\<rparr>,
    \<lparr>ab_axis = Topic, ab_native = ''categories'', ab_cardinality = Many None, ab_delegation = ByOptIn\<rparr>,
    \<lparr>ab_axis = ResourceType, ab_native = ''mainType'', ab_cardinality = One, ab_delegation = ByOptIn\<rparr>,
    \<lparr>ab_axis = Phase, ab_native = ''ageRanges'', ab_cardinality = Many None, ab_delegation = ByOptIn\<rparr>,
    \<lparr>ab_axis = Licence, ab_native = ''licence'', ab_cardinality = One, ab_delegation = Never LegalContent\<rparr>]"

definition TPT_NATIVES :: "NativeField list" where
  "TPT_NATIVES = [
    \<lparr>nf_name = ''taxonomyTags'', nf_label = None,
      nf_placement = Some \<lparr>pl_group = Tpt_Group G_Categories, pl_ordinal = 0\<rparr>,
      nf_direction = BothWays, nf_required = False,
      nf_vocabulary = ClosedUncaptured,
      nf_delegation = ByOptIn\<rparr>,
    \<lparr>nf_name = ''categories'', nf_label = Some ''Custom Category'',
      nf_placement = Some \<lparr>pl_group = Tpt_Group G_Categories, pl_ordinal = 4\<rparr>,
      nf_direction = BothWays, nf_required = False,
      nf_vocabulary = Numeric,
      nf_delegation = ByOptIn\<rparr>,
    \<lparr>nf_name = ''ItemTaxCode.tax_code_id'', nf_label = Some ''Tax Code'',
      nf_placement = Some \<lparr>pl_group = Tpt_Group G_Price, pl_ordinal = 4\<rparr>,
      nf_direction = BothWays, nf_required = False,
      nf_vocabulary = Closed [''1'', ''2'', ''3'', ''4'', ''5''],
      nf_delegation = ByOptIn\<rparr>,
    \<lparr>nf_name = ''itemType'', nf_label = None,
      nf_placement = None,
      nf_direction = ReadOnly, nf_required = False,
      nf_vocabulary = Closed [''DIGITAL_PRODUCT'', ''BUNDLE'', ''ONLINE_RESOURCE'', ''EASEL'', ''VIDEO''],
      nf_delegation = ByOptIn\<rparr>,
    \<lparr>nf_name = ''status'', nf_label = None,
      nf_placement = None,
      nf_direction = ReadOnly, nf_required = False,
      nf_vocabulary = Unmeasured,
      nf_delegation = ByOptIn\<rparr>,
    \<lparr>nf_name = ''kind'', nf_label = None,
      nf_placement = None,
      nf_direction = ReadOnly, nf_required = False,
      nf_vocabulary = Unmeasured,
      nf_delegation = ByOptIn\<rparr>,
    \<lparr>nf_name = ''ItemsCommonCoreStandard.common_core_standard_id'', nf_label = None,
      nf_placement = Some \<lparr>pl_group = Tpt_Group G_EducationStandards, pl_ordinal = 0\<rparr>,
      nf_direction = Written, nf_required = False,
      nf_vocabulary = ClosedUncaptured,
      nf_delegation = ByOptIn\<rparr>,
    \<lparr>nf_name = ''Item.status_user'', nf_label = Some ''Make Listing Active'',
      nf_placement = Some \<lparr>pl_group = Tpt_Group G_ProductStatus, pl_ordinal = 0\<rparr>,
      nf_direction = Written, nf_required = False,
      nf_vocabulary = Closed [''0'', ''1''],
      nf_delegation = ByOptIn\<rparr>,
    \<lparr>nf_name = ''ItemsProperty.copyright_declaration'', nf_label = Some ''Intellectual Property Rights'',
      nf_placement = Some \<lparr>pl_group = Tpt_Group G_Copyright, pl_ordinal = 0\<rparr>,
      nf_direction = BothWays, nf_required = False,
      nf_vocabulary = Closed [''1'', ''2''],
      nf_delegation = Never LegalContent\<rparr>,
    \<lparr>nf_name = ''ItemsProperty.answer_key'', nf_label = Some ''Answer Key'',
      nf_placement = Some \<lparr>pl_group = Tpt_Group G_Details, pl_ordinal = 2\<rparr>,
      nf_direction = BothWays, nf_required = False,
      nf_vocabulary = Closed [''0'', ''1'', ''2'', ''3'', ''4'', ''5''],
      nf_delegation = ByOptIn\<rparr>,
    \<lparr>nf_name = ''ItemsProperty.duration'', nf_label = Some ''Teaching Duration'',
      nf_placement = Some \<lparr>pl_group = Tpt_Group G_Details, pl_ordinal = 0\<rparr>,
      nf_direction = BothWays, nf_required = False,
      nf_vocabulary = Closed [''0'', ''1'', ''2'', ''3'', ''4'', ''5'', ''6'', ''7'', ''8'', ''9'', ''10'', ''11'', ''12'', ''13'', ''14'', ''15'', ''16'', ''17'', ''18'', ''19'', ''20'', ''21'', ''22''],
      nf_delegation = ByOptIn\<rparr>,
    \<lparr>nf_name = ''Item.generate_thumbnail'', nf_label = None,
      nf_placement = Some \<lparr>pl_group = Tpt_Group G_Files, pl_ordinal = 1\<rparr>,
      nf_direction = Written, nf_required = False,
      nf_vocabulary = ClosedUncaptured,
      nf_delegation = ByOptIn\<rparr>,
    \<lparr>nf_name = ''ItemsLocalization.country_id_flag'', nf_label = None,
      nf_placement = Some \<lparr>pl_group = Tpt_Group G_Categories, pl_ordinal = 5\<rparr>,
      nf_direction = Written, nf_required = False,
      nf_vocabulary = ClosedUncaptured,
      nf_delegation = ByOptIn\<rparr>,
    \<lparr>nf_name = ''Item.free'', nf_label = Some ''Free Resource'',
      nf_placement = Some \<lparr>pl_group = Tpt_Group G_Price, pl_ordinal = 0\<rparr>,
      nf_direction = Written, nf_required = False,
      nf_vocabulary = ClosedUncaptured,
      nf_delegation = ByOptIn\<rparr>,
    \<lparr>nf_name = ''thumbs'', nf_label = None,
      nf_placement = None,
      nf_direction = Written, nf_required = False,
      nf_vocabulary = ClosedUncaptured,
      nf_delegation = ByOptIn\<rparr>,
    \<lparr>nf_name = ''ItemDigital.product'', nf_label = None,
      nf_placement = None,
      nf_direction = Written, nf_required = False,
      nf_vocabulary = Unmeasured,
      nf_delegation = ByOptIn\<rparr>,
    \<lparr>nf_name = ''thumbs_collection_key'', nf_label = None,
      nf_placement = None,
      nf_direction = Written, nf_required = False,
      nf_vocabulary = Unmeasured,
      nf_delegation = ByOptIn\<rparr>]"

definition TPT_AXES :: "AxisBinding list" where
  "TPT_AXES = [
    \<lparr>ab_axis = Subject, ab_native = ''taxonomyTags'', ab_cardinality = Many None, ab_delegation = ByOptIn\<rparr>,
    \<lparr>ab_axis = Topic, ab_native = ''taxonomyTags'', ab_cardinality = Many None, ab_delegation = ByOptIn\<rparr>,
    \<lparr>ab_axis = ResourceType, ab_native = ''taxonomyTags'', ab_cardinality = Many None, ab_delegation = ByOptIn\<rparr>,
    \<lparr>ab_axis = Phase, ab_native = ''taxonomyTags'', ab_cardinality = Many (Some \<lparr>ccap_limit = 4\<rparr>), ab_delegation = ByOptIn\<rparr>]"

definition ETSY_NATIVES :: "NativeField list" where
  "ETSY_NATIVES = [
    \<lparr>nf_name = ''quantity'', nf_label = None,
      nf_placement = None,
      nf_direction = Written, nf_required = True,
      nf_vocabulary = Numeric,
      nf_delegation = ByOptIn\<rparr>,
    \<lparr>nf_name = ''who_made'', nf_label = None,
      nf_placement = None,
      nf_direction = Written, nf_required = True,
      nf_vocabulary = Closed [''i_did'', ''someone_else'', ''collective''],
      nf_delegation = ByOptIn\<rparr>,
    \<lparr>nf_name = ''when_made'', nf_label = None,
      nf_placement = None,
      nf_direction = Written, nf_required = True,
      nf_vocabulary = ClosedUncaptured,
      nf_delegation = ByOptIn\<rparr>,
    \<lparr>nf_name = ''tags'', nf_label = None,
      nf_placement = None,
      nf_direction = Written, nf_required = False,
      nf_vocabulary = FreeText,
      nf_delegation = ByOptIn\<rparr>]"

definition TES_REGISTRY :: InventoryRegistry where
  "TES_REGISTRY = \<lparr>ir_inventory = Tes, ir_canonical = UNRECORDED_FIELDS, ir_natives = TES_NATIVES,
     ir_equivalence_axes = TES_AXES, ir_absent_axes = []\<rparr>"

definition TPT_REGISTRY :: InventoryRegistry where
  "TPT_REGISTRY = \<lparr>ir_inventory = Tpt,
     ir_canonical = \<lparr>cf_title = UNRECORDED,
       cf_description = \<lparr>fsp_cap = Some \<lparr>lcap_limit = 45000, lcap_unit = Utf16CodeUnits\<rparr>, fsp_required = False\<rparr>,
       cf_price = UNRECORDED, cf_taxonomy = UNRECORDED, cf_grades = UNRECORDED, cf_files = UNRECORDED\<rparr>,
     ir_natives = TPT_NATIVES, ir_equivalence_axes = TPT_AXES, ir_absent_axes = [Licence]\<rparr>"

definition ETSY_REGISTRY :: InventoryRegistry where
  "ETSY_REGISTRY = \<lparr>ir_inventory = Etsy,
     ir_canonical = \<lparr>cf_title = \<lparr>fsp_cap = Some \<lparr>lcap_limit = 140, lcap_unit = Codepoints\<rparr>, fsp_required = True\<rparr>,
       cf_description = REQUIRED, cf_price = REQUIRED, cf_taxonomy = REQUIRED,
       cf_grades = UNRECORDED, cf_files = UNRECORDED\<rparr>,
     ir_natives = ETSY_NATIVES, ir_equivalence_axes = [], ir_absent_axes = []\<rparr>"

fun registry :: "InventoryId \<Rightarrow> InventoryRegistry" where
  "registry Tes = TES_REGISTRY"
| "registry Etsy = ETSY_REGISTRY"
| "registry Tpt = TPT_REGISTRY"

subsection \<open>Lookups\<close>

definition axis_of :: "InventoryRegistry \<Rightarrow> TermKind \<Rightarrow> AxisBinding option" where
  "axis_of r axis = List.find (\<lambda>b. ab_axis b = axis) (ir_equivalence_axes r)"

definition declares_absent :: "InventoryRegistry \<Rightarrow> TermKind \<Rightarrow> bool" where
  "declares_absent r axis = list_ex (\<lambda>a. a = axis) (ir_absent_axes r)"

definition registry_transport_class :: "InventoryRegistry \<Rightarrow> TransportClass" where
  "registry_transport_class r = transport_class (marketplace_of (ir_inventory r))"

definition native :: "InventoryRegistry \<Rightarrow> string \<Rightarrow> NativeField option" where
  "native r name = List.find (\<lambda>n. nf_name n = name) (ir_natives r)"

definition groups :: "InventoryRegistry \<Rightarrow> FieldGroup list" where
  "groups r = filter (\<lambda>g. list_ex (\<lambda>n. case nf_placement n of None \<Rightarrow> False
     | Some p \<Rightarrow> pl_group p = g) (ir_natives r)) field_groups"

subsection \<open>Truncation at a cap\<close>

fun char_width :: "LengthUnit \<Rightarrow> string \<Rightarrow> nat" where
  "char_width Bytes c = length c"
| "char_width Utf16CodeUnits c = (if length c = 4 then 2 else 1)"
| "char_width Codepoints c = 1"
| "char_width GraphemeClusters c = 1"

fun truncate_from :: "LengthCap \<Rightarrow> nat \<Rightarrow> string list \<Rightarrow> string" where
  "truncate_from cap used [] = []"
| "truncate_from cap used (c # cs) =
     (let next = used + char_width (lcap_unit cap) c
      in if next > lcap_limit cap then [] else c @ truncate_from cap next cs)"

definition truncate_text :: "string \<Rightarrow> LengthCap \<Rightarrow> string" where
  "truncate_text text cap = truncate_from cap 0 (scalars text)"

definition capped :: "string \<Rightarrow> FieldSpec \<Rightarrow> string" where
  "capped text spec = (case fsp_cap spec of None \<Rightarrow> text | Some cap \<Rightarrow> truncate_text text cap)"

text \<open>The size of a text in a unit, which the cap bounds.\<close>

definition text_size :: "LengthUnit \<Rightarrow> string list \<Rightarrow> nat" where
  "text_size unit cs = sum_list (map (char_width unit) cs)"

lemma truncate_from_prefix:
  "\<exists>n\<le>length cs. truncate_from cap used cs = concat (take n cs) \<and>
     (used \<le> lcap_limit cap \<longrightarrow> used + text_size (lcap_unit cap) (take n cs) \<le> lcap_limit cap) \<and>
     (n < length cs \<longrightarrow> used + text_size (lcap_unit cap) (take (Suc n) cs) > lcap_limit cap)"
proof (induction cap used cs rule: truncate_from.induct)
  case (1 cap used)
  then show ?case by (simp add: text_size_def)
next
  case (2 cap used c cs)
  define nxt where "nxt = used + char_width (lcap_unit cap) c"
  show ?case
  proof (cases "nxt > lcap_limit cap")
    case True
    then show ?thesis by (intro exI [of _ 0]) (simp add: text_size_def nxt_def)
  next
    case False
    with 2 nxt_def obtain n where n: "n \<le> length cs" "truncate_from cap nxt cs = concat (take n cs)"
      "nxt \<le> lcap_limit cap \<longrightarrow> nxt + text_size (lcap_unit cap) (take n cs) \<le> lcap_limit cap"
      "n < length cs \<longrightarrow> nxt + text_size (lcap_unit cap) (take (Suc n) cs) > lcap_limit cap"
      by auto
    with False show ?thesis
      by (intro exI [of _ "Suc n"]) (auto simp: text_size_def nxt_def Let_def)
  qed
qed

lemma char_width_pos: "char_width unit c = 0 \<Longrightarrow> unit = Bytes \<and> c = []"
  by (cases unit) (auto split: if_splits)

text \<open>
  Truncation keeps the longest run of whole characters that fits the cap in the cap's own
  unit: it never splits a character, never exceeds the limit, and stops early only where the
  next character would exceed it.
\<close>

theorem truncate_keeps_the_longest_fitting_prefix:
  "\<exists>n\<le>length (scalars text).
     truncate_text text cap = concat (take n (scalars text)) \<and>
     text_size (lcap_unit cap) (take n (scalars text)) \<le> lcap_limit cap \<and>
     (n = length (scalars text) \<or>
      text_size (lcap_unit cap) (take (Suc n) (scalars text)) > lcap_limit cap)"
  using truncate_from_prefix [of "scalars text" cap 0]
  unfolding truncate_text_def by (metis add_0 le_neq_implies_less zero_le)

lemma truncate_fitting:
  "text_size (lcap_unit cap) (scalars text) \<le> lcap_limit cap \<Longrightarrow> truncate_text text cap = text"
proof -
  assume fits: "text_size (lcap_unit cap) (scalars text) \<le> lcap_limit cap"
  have mono: "text_size u (take k xs) \<le> text_size u xs" for u k xs
  proof -
    have "text_size u xs = text_size u (take k xs) + text_size u (drop k xs)"
      unfolding text_size_def by (metis append_take_drop_id map_append sum_list.append)
    then show ?thesis by simp
  qed
  obtain n where n: "n \<le> length (scalars text)" "truncate_text text cap = concat (take n (scalars text))"
    "n < length (scalars text) \<longrightarrow> text_size (lcap_unit cap) (take (Suc n) (scalars text)) > lcap_limit cap"
    using truncate_from_prefix [of "scalars text" cap 0] unfolding truncate_text_def by auto
  have "n = length (scalars text)"
    using n fits mono [of "lcap_unit cap" "Suc n" "scalars text"] by (metis le_neq_implies_less le_trans not_less)
  with n(2) show ?thesis by simp
qed

subsection \<open>The declared data\<close>

lemmas registries = TES_REGISTRY_def TPT_REGISTRY_def ETSY_REGISTRY_def

definition registry_consistent :: "InventoryRegistry \<Rightarrow> bool" where
  "registry_consistent r \<longleftrightarrow>
     list_all (\<lambda>b. native r (ab_native b) \<noteq> None) (ir_equivalence_axes r) \<and>
     distinct (map ab_axis (ir_equivalence_axes r)) \<and>
     list_all (\<lambda>a. axis_of r a = None) (ir_absent_axes r) \<and>
     list_all (\<lambda>b. ab_axis b \<noteq> Licence \<or> ab_delegation b = Never LegalContent) (ir_equivalence_axes r) \<and>
     distinct (map nf_name (ir_natives r))"

text \<open>
  The registry is consistent with itself on every inventory: each bound axis lands in a
  native field declared beside it and is bound once, none is both bound and measured absent,
  and the licence, wherever it is bound, is never delegable.
\<close>

theorem every_registry_is_consistent:
  "registry_consistent (registry inventory) \<and> ir_inventory (registry inventory) = inventory"
  by (cases inventory)
    (simp_all add: registry_consistent_def registries native_def axis_of_def TES_NATIVES_def TES_AXES_def
      TPT_NATIVES_def TPT_AXES_def ETSY_NATIVES_def)

lemma licence_required_only_by_tes:
  "map_option nf_required (native (registry Tes) ''licence'') = Some True"
  "axis_of (registry Tpt) Licence = None" "declares_absent (registry Tpt) Licence"
  by (simp_all add: registries native_def axis_of_def declares_absent_def TES_NATIVES_def TPT_AXES_def)

lemma written_fields_of_tpt:
  "length (filter (\<lambda>n. nf_direction n \<noteq> ReadOnly) (ir_natives (registry Tpt))) = 14"
  by (simp add: registries TPT_NATIVES_def)

lemma axis_of_axis: "axis_of r a = Some b \<Longrightarrow> ab_axis b = a"
  by (auto simp: axis_of_def dest: find_SomeD)

end
