(* ===== verification/Equivalence.thy ===== *)
theory Equivalence
  imports Registry "HOL-Library.Multiset"
begin

section \<open>What a projection could not settle (crate tam-domain, equivalence.rs)\<close>

text \<open>
  Gaps, elections, losses and standing answers, the best-fit suggestion, and the two smart
  constructors that refuse a machine's say over legal content. A stable sort by key is
  \<open>sort_key\<close>. The two lists of answers a projection consults, settled questions and standing
  rules, share one contract, the locale \<open>standing_answers\<close>: an answer is found by the election's
  own key and by nothing else.
\<close>

datatype PricingBranch = PB_Free | PB_Paid

fun pricing_str :: "PricingBranch \<Rightarrow> string" where
  "pricing_str PB_Free = ''free''"
| "pricing_str PB_Paid = ''paid''"

record VocabularyGap =
  vg_term :: CanonicalTermId
  vg_target :: VocabularyId
  vg_projection :: TermProjection

datatype ElectionTrigger =
    Supply PricingBranch
  | ElectOne "VocabularyPath list"
  | OverCap nat "VocabularyPath list"
  | Narrow VocabularyPath "VocabularyPath list"

record Election =
  el_product :: ProductId
  el_inventory :: InventoryId
  el_axis :: TermKind
  el_trigger :: ElectionTrigger

datatype ElectionTriggerKind = TK_Supply | TK_ElectOne | TK_OverCap | TK_Narrow

fun trigger_kind_str :: "ElectionTriggerKind \<Rightarrow> string" where
  "trigger_kind_str TK_Supply = ''supply''"
| "trigger_kind_str TK_ElectOne = ''elect_one''"
| "trigger_kind_str TK_OverCap = ''over_cap''"
| "trigger_kind_str TK_Narrow = ''narrow''"

fun trigger_kind :: "ElectionTrigger \<Rightarrow> ElectionTriggerKind" where
  "trigger_kind (Supply p) = TK_Supply"
| "trigger_kind (ElectOne f) = TK_ElectOne"
| "trigger_kind (OverCap c f) = TK_OverCap"
| "trigger_kind (Narrow f c) = TK_Narrow"

fun trigger_key :: "ElectionTrigger \<Rightarrow> string option" where
  "trigger_key (Supply p) = Some (pricing_str p)"
| "trigger_key (Narrow from c) =
     Some (case vp_native_id from of Some i \<Rightarrow> i | None \<Rightarrow> join_with ''/'' (vp_segments from))"
| "trigger_key (ElectOne f) = None"
| "trigger_key (OverCap c f) = None"

datatype Loss =
    Loss_Broadened VocabularyPath "CanonicalTermId list"
  | Loss_NoTargetField TermKind VocabularyPath
  | Loss_Collapsed VocabularyPath "VocabularyPath list"
  | Loss_Elected "VocabularyPath list" "VocabularyPath list" Decider

datatype LossKind = LK_Broadened | LK_NoTargetField | LK_Collapsed | LK_Elected

fun loss_kind :: "Loss \<Rightarrow> LossKind" where
  "loss_kind (Loss_Broadened t d) = LK_Broadened"
| "loss_kind (Loss_NoTargetField a v) = LK_NoTargetField"
| "loss_kind (Loss_Collapsed t f) = LK_Collapsed"
| "loss_kind (Loss_Elected k d b) = LK_Elected"

fun loss_kind_str :: "LossKind \<Rightarrow> string" where
  "loss_kind_str LK_Broadened = ''broadened''"
| "loss_kind_str LK_NoTargetField = ''no_target_field''"
| "loss_kind_str LK_Collapsed = ''collapsed''"
| "loss_kind_str LK_Elected = ''elected''"

record AxisOutcome =
  ao_resolved :: "VocabularyPath list"
  ao_loss :: "Loss list"
  ao_gaps :: "VocabularyGap list"
  ao_elections :: "Election list"
  ao_unrecognised :: "VocabularyPath list"
  ao_omitted :: "CanonicalTermId list"
  ao_decided_by_seller :: bool

definition is_publishable :: "AxisOutcome \<Rightarrow> bool" where
  "is_publishable o' \<longleftrightarrow> ao_gaps o' = [] \<and> ao_elections o' = []"

subsection \<open>Best fit\<close>

datatype Mode = SellerDecides | BestFit

definition resolution_for :: "AxisBinding \<Rightarrow> bool \<Rightarrow> Mode" where
  "resolution_for binding opted_in =
     (case (ab_delegation binding, opted_in) of
        (Never _, _) \<Rightarrow> SellerDecides
      | (ByOptIn, False) \<Rightarrow> SellerDecides
      | (ByOptIn, True) \<Rightarrow> BestFit)"

record Candidate =
  cd_path :: VocabularyPath
  cd_edge :: EdgeKind

record Ranked =
  rk_path :: VocabularyPath
  rk_edge :: "EdgeKind option"

record Suggestion =
  sg_keep :: "Ranked list"
  sg_dropped :: "Ranked list"

fun edge_rank :: "EdgeKind option \<Rightarrow> nat" where
  "edge_rank (Some Exact) = 0"
| "edge_rank (Some Broader) = 1"
| "edge_rank (Some Narrower) = 2"
| "edge_rank None = 3"

fun offered :: "ElectionTrigger \<Rightarrow> (VocabularyPath list \<times> nat) option" where
  "offered (Supply p) = None"
| "offered (ElectOne from) = Some (from, 1)"
| "offered (OverCap cap from) = Some (from, cap)"
| "offered (Narrow f candidates) = Some (candidates, length candidates)"

definition ranked_path :: "Candidate list \<Rightarrow> VocabularyPath \<Rightarrow> Ranked" where
  "ranked_path candidates path =
     \<lparr>rk_path = path, rk_edge = map_option cd_edge (List.find (\<lambda>c. cd_path c = path) candidates)\<rparr>"

definition best_fit ::
  "AxisBinding \<Rightarrow> bool \<Rightarrow> ElectionTrigger \<Rightarrow> Candidate list \<Rightarrow> Suggestion option" where
  "best_fit binding opted_in trigger candidates =
     (if resolution_for binding opted_in \<noteq> BestFit then None
      else (case offered trigger of
              None \<Rightarrow> None
            | Some (paths, cap) \<Rightarrow>
                let ranked = sort_key (\<lambda>r. edge_rank (rk_edge r)) (map (ranked_path candidates) paths);
                    kept = take cap ranked
                in if kept = [] then None
                   else Some \<lparr>sg_keep = kept, sg_dropped = drop cap ranked\<rparr>))"

subsection \<open>Overrides and standing rules\<close>

datatype OverrideKind = OK_Exact | OK_Broader

record ProjectionOverride =
  po_org :: OrgId
  po_inventory :: InventoryId
  po_axis :: TermKind
  po_from :: CanonicalTermId
  po_to :: VocabularyPath
  po_kind :: OverrideKind
  po_decided_by :: Decider
  po_decided_at :: Timestamp

datatype ProjectionOverrideError = LicenceNeverOverridden | EmptyPath | OverrideUnboundAxis

text \<open>\<open>ProjectionOverride::new\<close>; the request has the override's own fields.\<close>

definition override_new ::
  "ProjectionOverride \<Rightarrow> ProjectionOverrideError + ProjectionOverride" where
  "override_new request =
     (if po_axis request = Licence then Inl LicenceNeverOverridden
      else if vp_segments (po_to request) = [] then Inl EmptyPath
      else if axis_of (registry (po_inventory request)) (po_axis request) = None
      then Inl OverrideUnboundAxis
      else Inr request)"

definition override_answers ::
  "ProjectionOverride \<Rightarrow> InventoryId \<Rightarrow> TermKind \<Rightarrow> CanonicalTermId \<Rightarrow> bool" where
  "override_answers entry inventory axis term \<longleftrightarrow>
     po_inventory entry = inventory \<and> po_axis entry = axis \<and> po_from entry = term"

datatype ElectionAnswer =
    AnswerValue VocabularyPath
  | AnswerOrdering "VocabularyPath list"
  | AnswerDelegate

datatype ElectionRuleError = NotDelegable NonDelegable | RuleUnboundAxis

record ElectionRule =
  er_org :: OrgId
  er_inventory :: InventoryId
  er_axis :: TermKind
  er_trigger_kind :: ElectionTriggerKind
  er_trigger_key :: "string option"
  er_answer :: ElectionAnswer
  er_decided_by :: Decider
  er_decided_at :: Timestamp

text \<open>\<open>ElectionRule::new\<close>; the request has the rule's own fields.\<close>

definition rule_new :: "ElectionRule \<Rightarrow> ElectionRuleError + ElectionRule" where
  "rule_new request =
     (case axis_of (registry (er_inventory request)) (er_axis request) of
        None \<Rightarrow> Inl RuleUnboundAxis
      | Some binding \<Rightarrow>
          (case (ab_delegation binding, er_answer request) of
             (Never why, AnswerDelegate) \<Rightarrow> Inl (NotDelegable why)
           | _ \<Rightarrow> Inr request))"

definition rule_answers :: "ElectionRule \<Rightarrow> Election \<Rightarrow> bool" where
  "rule_answers rule e \<longleftrightarrow> er_inventory rule = el_inventory e \<and> er_axis rule = el_axis e
     \<and> er_trigger_kind rule = trigger_kind (el_trigger e)
     \<and> er_trigger_key rule = trigger_key (el_trigger e)"

definition among ::
  "VocabularyPath list \<Rightarrow> VocabularyPath list \<Rightarrow> nat \<Rightarrow> VocabularyPath list option" where
  "among offer chosen cap =
     (let kept = take cap (filter (\<lambda>p. p \<in> set offer) chosen)
      in if kept = [] then None else Some kept)"

fun resolved_by :: "ElectionTrigger \<Rightarrow> ElectionAnswer \<Rightarrow> VocabularyPath list option" where
  "resolved_by (Supply p) (AnswerValue path) = Some [path]"
| "resolved_by (Supply p) (AnswerOrdering prefer) =
     (case prefer of [] \<Rightarrow> None | path # _ \<Rightarrow> Some [path])"
| "resolved_by (ElectOne from) (AnswerValue path) = among from [path] 1"
| "resolved_by (ElectOne from) (AnswerOrdering prefer) = among from prefer 1"
| "resolved_by (OverCap cap from) (AnswerOrdering prefer) = among from prefer cap"
| "resolved_by (OverCap cap from) (AnswerValue path) = among from [path] cap"
| "resolved_by (Narrow f candidates) (AnswerValue path) = among candidates [path] (length candidates)"
| "resolved_by (Narrow f candidates) (AnswerOrdering prefer) = among candidates prefer (length candidates)"
| "resolved_by t AnswerDelegate = None"

record SettledElection =
  st_product :: ProductId
  st_inventory :: InventoryId
  st_axis :: TermKind
  st_trigger_kind :: ElectionTriggerKind
  st_trigger_key :: "string option"
  st_chosen :: "VocabularyPath list"

definition settled_answers :: "SettledElection \<Rightarrow> Election \<Rightarrow> bool" where
  "settled_answers s e \<longleftrightarrow> st_product s = el_product e \<and> st_inventory s = el_inventory e
     \<and> st_axis s = el_axis e \<and> st_trigger_kind s = trigger_kind (el_trigger e)
     \<and> st_trigger_key s = trigger_key (el_trigger e)"

definition settled_by :: "SettledElection list \<Rightarrow> Election \<Rightarrow> VocabularyPath list option" where
  "settled_by settled e = map_option st_chosen (List.find (\<lambda>s. settled_answers s e) settled)"

definition satisfied_by :: "ElectionRule list \<Rightarrow> Election \<Rightarrow> ElectionAnswer option" where
  "satisfied_by rules e = map_option er_answer (List.find (\<lambda>r. rule_answers r e) rules)"

subsection \<open>Standing answers as an interface\<close>

text \<open>
  \<open>speaks\<close> says whether a stored answer is about an election, \<open>lookup\<close> is the search. Both lists
  decide by a key of the election, so two elections with one key get one answer.
\<close>

locale standing_answers =
  fixes speaks :: "'a \<Rightarrow> 'q \<Rightarrow> bool" and key :: "'q \<Rightarrow> 'k" and answer :: "'a \<Rightarrow> 'v"
    and lookup :: "'a list \<Rightarrow> 'q \<Rightarrow> 'v option"
  assumes keyed: "key q = key q' \<Longrightarrow> speaks a q = speaks a q'"
    and lookup_first: "lookup as q = map_option answer (List.find (\<lambda>a. speaks a q) as)"
begin

lemma lookup_same_key: "key q = key q' \<Longrightarrow> lookup as q = lookup as q'"
  by (simp add: lookup_first keyed [of q q'])

lemma lookup_Some: "lookup as q = Some v \<Longrightarrow> \<exists>a\<in>set as. speaks a q \<and> answer a = v"
  by (auto simp: lookup_first dest: find_SomeD)

lemma lookup_None: "lookup as q = None \<longleftrightarrow> (\<forall>a\<in>set as. \<not> speaks a q)"
  by (auto simp: lookup_first find_None_iff)

lemma lookup_added: "lookup (a # as) q = (if speaks a q then Some (answer a) else lookup as q)"
  by (simp add: lookup_first)

end

interpretation rules: standing_answers rule_answers
  "\<lambda>e. (el_inventory e, el_axis e, trigger_kind (el_trigger e), trigger_key (el_trigger e))"
  er_answer satisfied_by
  by unfold_locales (auto simp: rule_answers_def satisfied_by_def)

interpretation settled: standing_answers settled_answers
  "\<lambda>e. (el_product e, el_inventory e, el_axis e, trigger_kind (el_trigger e), trigger_key (el_trigger e))"
  st_chosen settled_by
  by unfold_locales (auto simp: settled_answers_def settled_by_def)

subsection \<open>Lemmas\<close>

lemma among_Some: "among offer chosen cap = Some kept \<Longrightarrow>
    kept \<noteq> [] \<and> set kept \<subseteq> set offer \<inter> set chosen \<and> length kept \<le> cap"
  by (auto simp: among_def Let_def split: if_splits dest: in_set_takeD)

text \<open>
  An answer never injects a value: what a standing or settled answer settles an election to
  is non-empty, comes from the set the trigger offered (a supply, which offers none, takes the
  value named), and never exceeds what the trigger allows; delegation settles nothing.
\<close>

theorem an_answer_stays_within_the_offer:
  assumes "resolved_by trigger ans = Some kept"
  shows "ans \<noteq> AnswerDelegate \<and> kept \<noteq> [] \<and>
    (case offered trigger of
       None \<Rightarrow> length kept = 1
     | Some (paths, cap) \<Rightarrow> set kept \<subseteq> set paths \<and> length kept \<le> cap)"
  using assms
  by (cases "(trigger, ans)" rule: resolved_by.cases)
    (auto split: list.splits dest!: among_Some)

definition sample_path :: "string \<Rightarrow> VocabularyPath" where
  "sample_path s = \<lparr>vp_vocabulary = VocabularyId Tes Subject, vp_segments = [s], vp_native_id = Some s\<rparr>"

theorem an_answer_stays_within_the_offer_witness:
  "resolved_by (OverCap 1 [sample_path ''a'', sample_path ''b''])
      (AnswerOrdering [sample_path ''c'', sample_path ''b'', sample_path ''a'']) = Some [sample_path ''b''] \<and>
   set [sample_path ''b''] \<subseteq> set [sample_path ''a'', sample_path ''b'']"
proof -
  have r: "resolved_by (OverCap 1 [sample_path ''a'', sample_path ''b''])
      (AnswerOrdering [sample_path ''c'', sample_path ''b'', sample_path ''a'']) = Some [sample_path ''b'']"
    by (simp add: among_def sample_path_def)
  from an_answer_stays_within_the_offer [OF r] r show ?thesis by simp
qed

lemma resolution_never: "ab_delegation b = Never why \<Longrightarrow> resolution_for b o' = SellerDecides"
  by (simp add: resolution_for_def)

lemma best_fit_SomeD:
  assumes "best_fit binding opted_in trigger candidates = Some s"
  obtains paths cap ranked where "offered trigger = Some (paths, cap)"
    "ranked = sort_key (\<lambda>r. edge_rank (rk_edge r)) (map (ranked_path candidates) paths)"
    "sg_keep s = take cap ranked" "sg_dropped s = drop cap ranked" "sg_keep s \<noteq> []"
    "ab_delegation binding = ByOptIn" "opted_in"
  using assms
  by (auto simp: best_fit_def resolution_for_def Let_def
      split: if_splits option.splits prod.splits Delegation.splits bool.splits)

text \<open>
  A suggestion is a ranking of the seller's own set and of nothing else: together with what
  it drops it is a permutation of the paths the trigger offered, ordered by the edge they were
  reached by, within the target's cap; and there is none where the axis is never delegable,
  where the seller did not opt in, or for a supply.
\<close>

theorem best_fit_only_ranks_the_offer:
  assumes "best_fit binding opted_in trigger candidates = Some s"
  shows "ab_delegation binding = ByOptIn \<and> opted_in \<and>
    (\<exists>paths cap. offered trigger = Some (paths, cap) \<and>
       mset (map rk_path (sg_keep s @ sg_dropped s)) = mset paths \<and>
       sorted (map (\<lambda>r. edge_rank (rk_edge r)) (sg_keep s @ sg_dropped s)) \<and>
       sg_keep s \<noteq> [] \<and> length (sg_keep s) \<le> cap)"
proof -
  obtain paths cap ranked where o: "offered trigger = Some (paths, cap)"
    and r: "ranked = sort_key (\<lambda>r. edge_rank (rk_edge r)) (map (ranked_path candidates) paths)"
    and s: "sg_keep s = take cap ranked" "sg_dropped s = drop cap ranked" "sg_keep s \<noteq> []"
    and b: "ab_delegation binding = ByOptIn" "opted_in"
    using assms by (rule best_fit_SomeD)
  have all: "sg_keep s @ sg_dropped s = ranked" using s by simp
  have "mset (map rk_path ranked) = mset paths"
    by (simp add: r ranked_path_def image_mset.compositionality comp_def)
  moreover have "sorted (map (\<lambda>r. edge_rank (rk_edge r)) ranked)"
    by (simp add: r)
  ultimately show ?thesis using o s b unfolding all by auto
qed

definition sample_binding :: AxisBinding where
  "sample_binding = \<lparr>ab_axis = Subject, ab_native = ''categories'', ab_cardinality = One, ab_delegation = ByOptIn\<rparr>"

theorem best_fit_only_ranks_the_offer_witness:
  "\<exists>s. best_fit sample_binding True (ElectOne [sample_path ''a'', sample_path ''b''])
        [\<lparr>cd_path = sample_path ''b'', cd_edge = Exact\<rparr>] = Some s \<and>
     map rk_path (sg_keep s) = [sample_path ''b''] \<and>
     mset (map rk_path (sg_keep s @ sg_dropped s)) = mset [sample_path ''a'', sample_path ''b'']"
proof -
  obtain s where s: "best_fit sample_binding True (ElectOne [sample_path ''a'', sample_path ''b''])
        [\<lparr>cd_path = sample_path ''b'', cd_edge = Exact\<rparr>] = Some s" "map rk_path (sg_keep s) = [sample_path ''b'']"
    by (simp add: best_fit_def resolution_for_def sample_binding_def ranked_path_def sample_path_def)
  from best_fit_only_ranks_the_offer [OF s(1)] s show ?thesis by auto
qed

lemma licence_never_delegable:
  "axis_of (registry i) Licence = Some b \<Longrightarrow> ab_delegation b = Never LegalContent"
  by (cases i) (auto simp: registries axis_of_def TES_AXES_def TPT_AXES_def)

text \<open>
  Nothing but the seller's own word decides a licence: no override of the licence axis, and
  no rule that delegates it, can be constructed on any inventory, and best fit never speaks on
  an axis a registry binds as the licence.
\<close>

theorem legal_content_is_never_delegated:
  "override_new (request\<lparr>po_axis := Licence\<rparr>) = Inl LicenceNeverOverridden \<and>
   rule_new (rule\<lparr>er_axis := Licence, er_answer := AnswerDelegate\<rparr>)
     \<in> {Inl (NotDelegable LegalContent), Inl RuleUnboundAxis} \<and>
   (case axis_of (registry inventory) Licence of
      None \<Rightarrow> True
    | Some binding \<Rightarrow> best_fit binding opted_in trigger candidates = None)"
  by (auto simp: override_new_def rule_new_def best_fit_def resolution_never
      split: option.splits dest: licence_never_delegable)

end
