(* ===== verification/SellerRules.thy ===== *)
theory SellerRules
  imports SellerText Equivalence
begin

section \<open>Seller rules (crate tam-domain, seller_rules.rs)\<close>

text \<open>
  A seller's pricing and mapping rules: their vocabulary, the exact arithmetic of a converted
  price, the admissibility of a definition, and \<open>evaluate\<close>, which settles the target's price,
  licence and resource type from every matching rule or leaves the field unset with a sentence
  that says why. \<open>Rendering\<close> holds the two parts of Rust's text library whose tables are not
  restated: \<open>str::to_lowercase\<close> over Unicode and the \<open>Debug\<close> form of a text.
\<close>

record Rendering =
  rd_lowercase :: "string \<Rightarrow> string"
  rd_debug :: "string \<Rightarrow> string"

definition MICROS_PER_UNIT :: i128 where "MICROS_PER_UNIT = 1000000"
definition RATE_FRACTION_DIGITS_MAX :: nat where "RATE_FRACTION_DIGITS_MAX = 6"
definition MINOR_UNITS_PER_MAJOR :: i128 where "MINOR_UNITS_PER_MAJOR = 100"
definition CHARM_REMAINDER :: i128 where "CHARM_REMAINDER = 99"
definition TES_PAID_MIN_MINOR_UNITS :: i64 where "TES_PAID_MIN_MINOR_UNITS = 100"
definition TES_PAID_MAX_MINOR_UNITS :: i64 where "TES_PAID_MAX_MINOR_UNITS = 30000"
definition TES_LICENCE_PAID :: "string list" where "TES_LICENCE_PAID = [''TES-PAID'']"
definition TES_LICENCE_FREE :: "string list" where
  "TES_LICENCE_FREE = [''CC-BY'', ''CC-BY-ND'', ''CC-BY-SA'']"

subsection \<open>Vocabulary\<close>

datatype RuleKind = RK_Pricing | RK_Mapping

datatype RuleUse = UseCopy | UseMove | UseCrossList

datatype PricingCondition = PC_Any | PC_Free | PC_Paid

datatype ConditionMode = CM_All | CM_Any

record AttributeCondition =
  ac_axis :: TermKind
  ac_values :: "string list"
  ac_mode :: ConditionMode

record RuleConditions =
  rc_pricing :: PricingCondition
  rc_resource_types :: "string list"
  rc_keywords :: "string list"
  rc_keyword_mode :: ConditionMode
  rc_attributes :: "AttributeCondition list"

text \<open>A pricing action holds its rate, its rounding and its reference quote; a mapping one its licence and its resource type.\<close>

datatype RuleAction =
    PricingAction string Rounding "Uuid option"
  | MappingAction "string option" "string option"

fun action_kind :: "RuleAction \<Rightarrow> RuleKind" where
  "action_kind (PricingAction rate rounding reference) = RK_Pricing"
| "action_kind (MappingAction licence resource_type) = RK_Mapping"

record SellerRuleDefinition =
  sd_title :: string
  sd_description :: string
  sd_enabled :: bool
  sd_source :: InventoryId
  sd_target :: InventoryId
  sd_auto_apply :: "RuleUse list"
  sd_conditions :: RuleConditions
  sd_action :: RuleAction

definition auto_applies_to :: "SellerRuleDefinition \<Rightarrow> RuleUse \<Rightarrow> bool" where
  "auto_applies_to d use \<longleftrightarrow> sd_enabled d \<and> use \<in> set (sd_auto_apply d)"

record SellerRuleRecord =
  sr_id :: Uuid
  sr_revision :: i64
  sr_definition :: SellerRuleDefinition
  sr_author :: UserId
  sr_created_at :: Timestamp
  sr_updated_at :: Timestamp

record RuleMatch =
  rm_id :: Uuid
  rm_revision :: i64
  rm_title :: string
  rm_description :: string

definition match_of :: "SellerRuleRecord \<Rightarrow> RuleMatch" where
  "match_of r = \<lparr>rm_id = sr_id r, rm_revision = sr_revision r,
     rm_title = sd_title (sr_definition r), rm_description = sd_description (sr_definition r)\<rparr>"

record TargetFields =
  tf_price :: "PriceIntent option"
  tf_licence :: "string option"
  tf_resource_type :: "string option"

definition NO_FIELDS :: TargetFields where
  "NO_FIELDS = \<lparr>tf_price = None, tf_licence = None, tf_resource_type = None\<rparr>"

definition fields_is_empty :: "TargetFields \<Rightarrow> bool" where
  "fields_is_empty f \<longleftrightarrow> tf_price f = None \<and> tf_licence f = None \<and> tf_resource_type f = None"

definition merge_over :: "TargetFields \<Rightarrow> TargetFields \<Rightarrow> TargetFields" where
  "merge_over f base =
     \<lparr>tf_price = or_else (tf_price f) (tf_price base),
      tf_licence = or_else (tf_licence f) (tf_licence base),
      tf_resource_type = or_else (tf_resource_type f) (tf_resource_type base)\<rparr>"

record SellerTermChoice =
  tc_native_id :: string
  tc_author :: UserId

record FrozenRuleOutput =
  fz_price :: PriceIntent
  fz_licence :: "SellerTermChoice option"
  fz_resource_type :: "SellerTermChoice option"
  fz_matches :: "RuleMatch list"

definition freeze :: "TargetFields \<Rightarrow> PriceIntent \<Rightarrow> UserId \<Rightarrow> RuleMatch list \<Rightarrow> FrozenRuleOutput" where
  "freeze approved canonical author matches =
     (let choice = (\<lambda>native_id. \<lparr>tc_native_id = native_id, tc_author = author\<rparr>)
      in \<lparr>fz_price = (case tf_price approved of Some p \<Rightarrow> p | None \<Rightarrow> canonical),
          fz_licence = map_option choice (tf_licence approved),
          fz_resource_type = map_option choice (tf_resource_type approved),
          fz_matches = matches\<rparr>)"

fun escape_token :: "string \<Rightarrow> string" where
  "escape_token [] = []"
| "escape_token (c # cs) =
     (if c = CHR 0x5C then [CHR 0x5C, CHR 0x5C]
      else if c = CHR 0x0A then [CHR 0x5C, CHR ''n'']
      else [c]) @ escape_token cs"

definition digest_choice :: "string \<Rightarrow> SellerTermChoice option \<Rightarrow> string" where
  "digest_choice tag choice =
     [CHR 0x0A] @ tag @ ''='' @
     (case choice of None \<Rightarrow> ''-'' | Some c \<Rightarrow> escape_token (tc_native_id c))"

fun digest_price :: "PriceIntent \<Rightarrow> string" where
  "digest_price Free = ''free''"
| "digest_price (Paid money) =
     ''paid:'' @ signed_decimal (minor_units money) @ '':'' @ currency_code (money_currency money)"

definition digest_material :: "FrozenRuleOutput \<Rightarrow> string" where
  "digest_material f =
     ''price='' @ digest_price (fz_price f)
     @ digest_choice ''licence'' (fz_licence f) @ digest_choice ''resource_type'' (fz_resource_type f)"

record RuleEvaluation =
  ev_fields :: TargetFields
  ev_matches :: "RuleMatch list"
  ev_blockers :: "string list"

record RuleOverrides =
  ro_rate :: "string option"
  ro_price :: "PriceIntent option"
  ro_licence :: "string option"
  ro_resource_type :: "string option"

definition NO_OVERRIDES :: RuleOverrides where
  "NO_OVERRIDES = \<lparr>ro_rate = None, ro_price = None, ro_licence = None, ro_resource_type = None\<rparr>"

subsection \<open>Refusals\<close>

datatype RuleError =
    TitleBlank
  | RateBlank
  | RateMalformed string
  | RateNotPositive string
  | RateTooPrecise nat
  | RateOutOfRange string
  | SameInventory InventoryId
  | DuplicateAutoApply RuleUse
  | KeywordBlank
  | ResourceTypeBlank
  | AttributeValuesEmpty TermKind
  | AttributeValueBlank TermKind
  | UnsupportedAxis TermKind
  | SourceAxisUnclassifiable InventoryId TermKind
  | MappingEmpty
  | PriceCurrencyUnsupported InventoryId
  | SourceCurrencyMismatch Currency Currency
  | PaidBecameZero
  | PriceOverflow
  | PriceOutOfRange i64 i64 i64
  | AxisAbsentOnTarget InventoryId TermKind
  | AxisUnmeasuredOnTarget InventoryId TermKind
  | VocabularyUnmeasured InventoryId TermKind
  | NotInTargetVocabulary InventoryId TermKind string
  | LicenceNotWritable string
  | LicenceContradictsPrice string bool

text \<open>The derived \<open>Debug\<close> form of a unit variant is its name.\<close>

fun inventory_debug :: "InventoryId \<Rightarrow> string" where
  "inventory_debug Tes = ''Tes''"
| "inventory_debug Etsy = ''Etsy''"
| "inventory_debug Tpt = ''Tpt''"

fun axis_debug :: "TermKind \<Rightarrow> string" where
  "axis_debug Subject = ''Subject''"
| "axis_debug Topic = ''Topic''"
| "axis_debug ResourceType = ''ResourceType''"
| "axis_debug Phase = ''Phase''"
| "axis_debug Licence = ''Licence''"

fun use_debug :: "RuleUse \<Rightarrow> string" where
  "use_debug UseCopy = ''Copy''"
| "use_debug UseMove = ''Move''"
| "use_debug UseCrossList = ''CrossList''"

fun rule_error_str :: "(string \<Rightarrow> string) \<Rightarrow> RuleError \<Rightarrow> string" where
  "rule_error_str dbg TitleBlank = ''a rule needs a title to be recognised by''"
| "rule_error_str dbg RateBlank = ''a pricing rule needs a rate''"
| "rule_error_str dbg (RateMalformed rate) = dbg rate @ '' is not a decimal rate''"
| "rule_error_str dbg (RateNotPositive rate) = dbg rate @ '' is not a positive rate''"
| "rule_error_str dbg (RateTooPrecise digits) = ''a rate carries at most ''
     @ decimal RATE_FRACTION_DIGITS_MAX @ '' fraction digits, not '' @ decimal digits"
| "rule_error_str dbg (RateOutOfRange rate) = dbg rate @ '' is larger than any rate this converts at''"
| "rule_error_str dbg (SameInventory i) =
     ''a rule crosses two inventories, not '' @ inventory_debug i @ '' twice''"
| "rule_error_str dbg (DuplicateAutoApply u) = use_debug u @ '' is opted into twice''"
| "rule_error_str dbg KeywordBlank = ''a blank keyword matches every description''"
| "rule_error_str dbg ResourceTypeBlank = ''a blank resource type names nothing''"
| "rule_error_str dbg (AttributeValuesEmpty a) = ''the '' @ axis_debug a @ '' condition lists no values''"
| "rule_error_str dbg (AttributeValueBlank a) = ''the '' @ axis_debug a @ '' condition holds a blank value''"
| "rule_error_str dbg (UnsupportedAxis a) = ''no source declaration is retained for '' @ axis_debug a"
| "rule_error_str dbg (SourceAxisUnclassifiable s a) =
     inventory_debug s @ '' retains no '' @ axis_debug a @ '' declaration this system can recognise''"
| "rule_error_str dbg MappingEmpty = ''a mapping rule sets a licence, a resource type, or both''"
| "rule_error_str dbg (PriceCurrencyUnsupported i) = inventory_debug i @ '' has no single measured currency''"
| "rule_error_str dbg (SourceCurrencyMismatch expected found) = ''the source prices in ''
     @ currency_code expected @ '' and this price is in '' @ currency_code found"
| "rule_error_str dbg PaidBecameZero = ''the conversion takes a paid resource to nothing''"
| "rule_error_str dbg PriceOverflow = ''the conversion does not fit in the money this system holds''"
| "rule_error_str dbg (PriceOutOfRange n lo hi) = ''the target accepts '' @ signed_decimal lo @ '' to ''
     @ signed_decimal hi @ '' minor units and the conversion gives '' @ signed_decimal n
     @ '', which is refused rather than clamped''"
| "rule_error_str dbg (AxisAbsentOnTarget t a) =
     inventory_debug t @ '' carries no '' @ axis_debug a @ '' field on its wire at all''"
| "rule_error_str dbg (AxisUnmeasuredOnTarget t a) =
     ''nothing has been measured about '' @ axis_debug a @ '' on '' @ inventory_debug t"
| "rule_error_str dbg (VocabularyUnmeasured t a) =
     ''the '' @ axis_debug a @ '' vocabulary on '' @ inventory_debug t @ '' is not captured''"
| "rule_error_str dbg (NotInTargetVocabulary t a v) =
     dbg v @ '' is not a '' @ axis_debug a @ '' value '' @ inventory_debug t @ '' issues''"
| "rule_error_str dbg (LicenceNotWritable v) = dbg v @ '' is not a licence value this system can write''"
| "rule_error_str dbg (LicenceContradictsPrice v is_free) = dbg v @ '' is not a licence a ''
     @ (if is_free then ''free'' else ''paid'') @ '' resource may carry''"

subsection \<open>Arithmetic\<close>

definition is_ascii_digits :: "string \<Rightarrow> bool" where
  "is_ascii_digits raw = list_all ascii_digit raw"

text \<open>\<open>parse::<i128>\<close> of a text that is digits only.\<close>

definition digits_i128 :: "string \<Rightarrow> i128 option" where
  "digits_i128 s = checked_signed 128 (int (digits_value s))"

definition parse_rate :: "string \<Rightarrow> RuleError + i64" where
  "parse_rate rate =
     (let trimmed = trim rate in
      if trimmed = [] then Inl RateBlank
      else (let (whole, fraction) =
              (case split_once (CHR ''.'') trimmed of Some p \<Rightarrow> p | None \<Rightarrow> (trimmed, []))
            in if whole = [] \<or> \<not> is_ascii_digits whole \<or> \<not> is_ascii_digits fraction
               then Inl (RateMalformed trimmed)
               else if length fraction > RATE_FRACTION_DIGITS_MAX
               then Inl (RateTooPrecise (length fraction))
               else try_bind (ok_or (RateOutOfRange trimmed) (digits_i128 whole))
                 (\<lambda>units. try_bind (ok_or (RateOutOfRange trimmed)
                     (digits_i128 (fraction @ replicate (RATE_FRACTION_DIGITS_MAX - length fraction) (CHR ''0''))))
                 (\<lambda>micros. try_bind (ok_or (RateOutOfRange trimmed)
                     (Option.bind (checked_signed 128 (units * MICROS_PER_UNIT))
                        (\<lambda>scaled. checked_signed 128 (scaled + micros))))
                 (\<lambda>total. if total \<le> 0 then Inl (RateNotPositive trimmed)
                     else ok_or (RateOutOfRange trimmed) (checked_signed 64 total))))))"

definition fixed_currency :: "InventoryId \<Rightarrow> RuleError + Currency" where
  "fixed_currency inventory =
     (case currency_rule inventory of
        Fixed c \<Rightarrow> Inr c
      | SellerScoped \<Rightarrow> Inl (PriceCurrencyUnsupported inventory)
      | CurrencyUnmeasured \<Rightarrow> Inl (PriceCurrencyUnsupported inventory))"

definition nearest_minor_units :: "i128 \<Rightarrow> i128 option" where
  "nearest_minor_units exact =
     map_option (\<lambda>shifted. shifted div MICROS_PER_UNIT) (checked_signed 128 (exact + MICROS_PER_UNIT div 2))"

definition charm_minor_units :: "i128 \<Rightarrow> i128 option" where
  "charm_minor_units exact =
     (let whole = exact div MICROS_PER_UNIT in
      Option.bind (if exact mod MICROS_PER_UNIT = 0 then Some whole else checked_signed 128 (whole + 1))
        (\<lambda>ceiling. Option.bind (checked_signed 128 (ceiling - ceiling mod MINOR_UNITS_PER_MAJOR))
        (\<lambda>major. checked_signed 128 (major + CHARM_REMAINDER))))"

definition check_target_range :: "InventoryId \<Rightarrow> i64 \<Rightarrow> RuleError + unit" where
  "check_target_range target units =
     (case target of
        Tes \<Rightarrow> if units < TES_PAID_MIN_MINOR_UNITS \<or> units > TES_PAID_MAX_MINOR_UNITS
               then Inl (PriceOutOfRange units TES_PAID_MIN_MINOR_UNITS TES_PAID_MAX_MINOR_UNITS)
               else Inr ()
      | Tpt \<Rightarrow> Inr ()
      | Etsy \<Rightarrow> Inr ())"

definition convert_price ::
  "PriceIntent \<Rightarrow> InventoryId \<Rightarrow> InventoryId \<Rightarrow> i64 \<Rightarrow> Rounding \<Rightarrow> RuleError + PriceIntent" where
  "convert_price price source target rate_micros rounding =
     try_bind (fixed_currency source) (\<lambda>source_currency.
     try_bind (fixed_currency target) (\<lambda>target_currency.
       if rate_micros \<le> 0 then Inl (RateNotPositive (signed_decimal rate_micros))
       else (case price of
               Free \<Rightarrow> Inr Free
             | Paid money \<Rightarrow>
                 if money_currency money \<noteq> source_currency
                 then Inl (SourceCurrencyMismatch source_currency (money_currency money))
                 else try_bind (ok_or PriceOverflow (checked_signed 128 (minor_units money * rate_micros)))
                   (\<lambda>exact. try_bind (ok_or PriceOverflow
                       (case rounding of Nearest \<Rightarrow> nearest_minor_units exact
                                       | UpToCharm \<Rightarrow> charm_minor_units exact))
                   (\<lambda>minor. if minor \<le> 0 then Inl PaidBecameZero
                     else try_bind (ok_or PriceOverflow (checked_signed 64 minor))
                       (\<lambda>minor. try_bind (check_target_range target minor)
                       (\<lambda>_. case money_new minor target_currency of
                               Inl _ \<Rightarrow> Inl PaidBecameZero
                             | Inr m \<Rightarrow> Inr (Paid m))))))))"

subsection \<open>Validation\<close>

fun first_duplicate :: "RuleUse list \<Rightarrow> RuleUse option" where
  "first_duplicate [] = None"
| "first_duplicate (u # us) = (if u \<in> set us then Some u else first_duplicate us)"

fun axis_is_matchable :: "TermKind \<Rightarrow> bool" where
  "axis_is_matchable Subject = True"
| "axis_is_matchable ResourceType = True"
| "axis_is_matchable Phase = True"
| "axis_is_matchable Licence = True"
| "axis_is_matchable Topic = False"

definition classified_axis_vocabulary :: "InventoryId \<Rightarrow> TermKind \<Rightarrow> string list option" where
  "classified_axis_vocabulary inventory axis =
     (let entry = registry inventory in
      case axis_of entry axis of
        None \<Rightarrow> None
      | Some binding \<Rightarrow>
          if length (filter (\<lambda>other. ab_native other = ab_native binding) (ir_equivalence_axes entry)) > 1
          then None
          else (case native entry (ab_native binding) of
                  None \<Rightarrow> None
                | Some n \<Rightarrow> (case nf_vocabulary n of Closed members \<Rightarrow> Some members | _ \<Rightarrow> None)))"

definition source_can_declare :: "InventoryId \<Rightarrow> TermKind \<Rightarrow> RuleError + unit" where
  "source_can_declare source axis =
     (let established = (case axis of
            Subject \<Rightarrow> True | Phase \<Rightarrow> True | Licence \<Rightarrow> True
          | ResourceType \<Rightarrow> classified_axis_vocabulary source axis \<noteq> None
          | Topic \<Rightarrow> False)
      in if established then Inr () else Inl (SourceAxisUnclassifiable source axis))"

fun validate_attributes :: "AttributeCondition list \<Rightarrow> InventoryId \<Rightarrow> RuleError + unit" where
  "validate_attributes [] source = Inr ()"
| "validate_attributes (c # cs) source =
     (if \<not> axis_is_matchable (ac_axis c) then Inl (UnsupportedAxis (ac_axis c))
      else if ac_values c = [] then Inl (AttributeValuesEmpty (ac_axis c))
      else if list_ex (\<lambda>v. trim v = []) (ac_values c) then Inl (AttributeValueBlank (ac_axis c))
      else try_bind (source_can_declare source (ac_axis c)) (\<lambda>_. validate_attributes cs source))"

definition validate_conditions :: "RuleConditions \<Rightarrow> InventoryId \<Rightarrow> RuleError + unit" where
  "validate_conditions c source =
     (if list_ex (\<lambda>w. trim w = []) (rc_keywords c) then Inl KeywordBlank
      else if list_ex (\<lambda>v. trim v = []) (rc_resource_types c) then Inl ResourceTypeBlank
      else try_bind (if rc_resource_types c \<noteq> [] then source_can_declare source ResourceType else Inr ())
             (\<lambda>_. validate_attributes (rc_attributes c) source))"

definition check_native_value :: "InventoryId \<Rightarrow> TermKind \<Rightarrow> string \<Rightarrow> RuleError + unit" where
  "check_native_value target axis v =
     (let inventory = registry target in
      case axis_of inventory axis of
        None \<Rightarrow> Inl (if declares_absent inventory axis then AxisAbsentOnTarget target axis
                     else AxisUnmeasuredOnTarget target axis)
      | Some binding \<Rightarrow>
          (case native inventory (ab_native binding) of
             None \<Rightarrow> Inl (AxisUnmeasuredOnTarget target axis)
           | Some n \<Rightarrow>
               (case nf_vocabulary n of
                  Closed members \<Rightarrow>
                    if v \<in> set members then Inr () else Inl (NotInTargetVocabulary target axis v)
                | ClosedUncaptured \<Rightarrow>
                    if target = Tpt
                    then (if is_tpt_tag_slug v then Inr () else Inl (NotInTargetVocabulary target axis v))
                    else Inl (VocabularyUnmeasured target axis)
                | _ \<Rightarrow> Inl (VocabularyUnmeasured target axis))))"

definition check_licence_is_writable :: "InventoryId \<Rightarrow> string \<Rightarrow> RuleError + unit" where
  "check_licence_is_writable target v =
     (if target = Tes \<and> v \<notin> set TES_LICENCE_PAID \<and> v \<notin> set TES_LICENCE_FREE
      then Inl (LicenceNotWritable v) else Inr ())"

definition check_licence_against_price :: "InventoryId \<Rightarrow> string \<Rightarrow> PriceIntent \<Rightarrow> RuleError + unit" where
  "check_licence_against_price target v price =
     (if target \<noteq> Tes then Inr ()
      else (let price_is_free = (price = Free);
                permitted = (if price_is_free then TES_LICENCE_FREE else TES_LICENCE_PAID)
            in if v \<in> set permitted then Inr () else Inl (LicenceContradictsPrice v price_is_free)))"

definition validate_action :: "SellerRuleDefinition \<Rightarrow> RuleError + unit" where
  "validate_action d =
     (case sd_action d of
        PricingAction rate rounding reference \<Rightarrow>
          try_bind (parse_rate rate) (\<lambda>_. try_bind (fixed_currency (sd_source d))
            (\<lambda>_. try_bind (fixed_currency (sd_target d)) (\<lambda>_. Inr ())))
      | MappingAction licence resource_type \<Rightarrow>
          if licence = None \<and> resource_type = None then Inl MappingEmpty
          else try_bind (case licence of None \<Rightarrow> Inr ()
                         | Some v \<Rightarrow> try_bind (check_native_value (sd_target d) Licence v)
                                       (\<lambda>_. check_licence_is_writable (sd_target d) v))
                 (\<lambda>_. case resource_type of None \<Rightarrow> Inr ()
                      | Some v \<Rightarrow> check_native_value (sd_target d) ResourceType v))"

definition validate_definition :: "SellerRuleDefinition \<Rightarrow> RuleError + unit" where
  "validate_definition d =
     (if trim (sd_title d) = [] then Inl TitleBlank
      else if sd_source d = sd_target d then Inl (SameInventory (sd_source d))
      else (case first_duplicate (sd_auto_apply d) of
              Some u \<Rightarrow> Inl (DuplicateAutoApply u)
            | None \<Rightarrow> try_bind (validate_conditions (sd_conditions d) (sd_source d))
                        (\<lambda>_. validate_action d)))"

subsection \<open>Matching\<close>

definition residue_carries_axis :: "InventoryId \<Rightarrow> TermKind \<Rightarrow> ImportedTerm \<Rightarrow> bool" where
  "residue_carries_axis source axis t =
     (case it_kind t of
        Some kind \<Rightarrow> kind = axis
      | None \<Rightarrow>
          (case (classified_axis_vocabulary source axis, it_native_id t) of
             (Some members, Some i) \<Rightarrow> i \<in> set members
           | _ \<Rightarrow> False))"

definition residue_names :: "ImportedTerm \<Rightarrow> string \<Rightarrow> bool" where
  "residue_names t v \<longleftrightarrow>
     it_native_id t = Some v \<or> list_ex (\<lambda>s. eq_ignore_ascii_case s v) (it_segments t)"

definition path_names :: "VocabularyPath \<Rightarrow> string \<Rightarrow> bool" where
  "path_names path v \<longleftrightarrow>
     vp_native_id path = Some v \<or> list_ex (\<lambda>s. eq_ignore_ascii_case s v) (vp_segments path)"

definition source_declares :: "CanonicalProduct \<Rightarrow> InventoryId \<Rightarrow> TermKind \<Rightarrow> string \<Rightarrow> bool" where
  "source_declares product source axis v \<longleftrightarrow>
     list_ex (\<lambda>t. it_inventory t = source \<and> residue_carries_axis source axis t \<and> residue_names t v)
       (cp_native_residue product) \<or>
     (case axis of
        Subject \<Rightarrow> list_ex (\<lambda>s. eq_ignore_ascii_case (to_hyphenated (term_uuid s)) v) (cp_subjects product)
      | Phase \<Rightarrow> list_ex (\<lambda>p. vid_inventory (vp_vocabulary p) = source \<and> path_names p v)
                   (gd_raw (cp_grades product))
      | Licence \<Rightarrow> (case cp_rights product of
                     Unstated \<Rightarrow> False
                   | Declared path \<Rightarrow> vid_inventory (vp_vocabulary path) = source \<and> path_names path v)
      | ResourceType \<Rightarrow> False
      | Topic \<Rightarrow> False)"

fun pricing_matches :: "PricingCondition \<Rightarrow> PriceIntent \<Rightarrow> bool" where
  "pricing_matches PC_Any p = True"
| "pricing_matches PC_Free p = (p = Free)"
| "pricing_matches PC_Paid p = (p \<noteq> Free)"

definition keywords_match :: "Rendering \<Rightarrow> string list \<Rightarrow> ConditionMode \<Rightarrow> string \<Rightarrow> bool" where
  "keywords_match rd keywords mode folded \<longleftrightarrow>
     keywords = [] \<or>
     (let hit = (\<lambda>k. contains_text (rd_lowercase rd k) folded)
      in case mode of CM_All \<Rightarrow> list_all hit keywords | CM_Any \<Rightarrow> list_ex hit keywords)"

definition attribute_matches :: "AttributeCondition \<Rightarrow> CanonicalProduct \<Rightarrow> InventoryId \<Rightarrow> bool" where
  "attribute_matches c product source =
     (let hit = source_declares product source (ac_axis c)
      in case ac_mode c of CM_All \<Rightarrow> list_all hit (ac_values c) | CM_Any \<Rightarrow> list_ex hit (ac_values c))"

definition conditions_match ::
  "Rendering \<Rightarrow> RuleConditions \<Rightarrow> CanonicalProduct \<Rightarrow> InventoryId \<Rightarrow> string \<Rightarrow> bool" where
  "conditions_match rd c product source folded \<longleftrightarrow>
     pricing_matches (rc_pricing c) (cp_price product) \<and>
     (rc_resource_types c = [] \<or> list_ex (source_declares product source ResourceType) (rc_resource_types c)) \<and>
     keywords_match rd (rc_keywords c) (rc_keyword_mode c) folded \<and>
     list_all (\<lambda>a. attribute_matches a product source) (rc_attributes c)"

subsection \<open>Evaluation\<close>

text \<open>A proposal is a rule's title with the value it proposes.\<close>

record Proposals =
  pp_prices :: "(string \<times> (RuleError + PriceIntent)) list"
  pp_licences :: "(string \<times> string) list"
  pp_resource_types :: "(string \<times> string) list"

definition collect_proposals ::
  "SellerRuleRecord \<Rightarrow> CanonicalProduct \<Rightarrow> InventoryId \<times> InventoryId \<Rightarrow> Proposals \<Rightarrow> Proposals" where
  "collect_proposals record product direction into =
     (let (source, target) = direction; d = sr_definition record; title = sd_title d in
      case sd_action d of
        PricingAction rate rounding reference \<Rightarrow>
          into\<lparr>pp_prices := pp_prices into @ [(title, try_bind (parse_rate rate)
            (\<lambda>micros. convert_price (cp_price product) source target micros rounding))]\<rparr>
      | MappingAction licence resource_type \<Rightarrow>
          into\<lparr>pp_licences := pp_licences into @ (case licence of None \<Rightarrow> [] | Some v \<Rightarrow> [(title, v)]),
               pp_resource_types := pp_resource_types into
                 @ (case resource_type of None \<Rightarrow> [] | Some v \<Rightarrow> [(title, v)])\<rparr>)"

definition two_digits :: "nat \<Rightarrow> string" where
  "two_digits n = (if n < 10 then ''0'' @ decimal n else decimal n)"

fun render_price :: "PriceIntent \<Rightarrow> string" where
  "render_price Free = ''free''"
| "render_price (Paid money) =
     currency_code (money_currency money) @ '' '' @ signed_decimal (minor_units money div 100) @ ''.''
     @ two_digits (nat (minor_units money mod 100))"

definition rendered_prices :: "PriceIntent list \<Rightarrow> string" where
  "rendered_prices prices =
     join_with '', '' (foldl (\<lambda>seen p. if render_price p \<in> set seen then seen else seen @ [render_price p]) [] prices)"

text \<open>
  \<open>resolve_price\<close> and \<open>resolve_term\<close> push their blockers on the evaluation's; here they return what
  they push beside what they settle.
\<close>

fun split_prices :: "Rendering \<Rightarrow> (string \<times> (RuleError + PriceIntent)) list \<Rightarrow> PriceIntent list \<times> string list" where
  "split_prices rd [] = ([], [])"
| "split_prices rd ((title, proposal) # rest) =
     (let (converted, blockers) = split_prices rd rest in
      case proposal of
        Inr price \<Rightarrow> (price # converted, blockers)
      | Inl e \<Rightarrow> (converted, (''rule '' @ rd_debug rd title @ '' cannot price this resource: ''
                    @ rule_error_str (rd_debug rd) e) # blockers))"

definition resolve_price ::
  "Rendering \<Rightarrow> (string \<times> (RuleError + PriceIntent)) list \<Rightarrow> RuleOverrides \<Rightarrow> CanonicalProduct
     \<Rightarrow> InventoryId \<times> InventoryId \<Rightarrow> PriceIntent option \<times> string list" where
  "resolve_price rd prices overrides product direction =
     (case ro_price overrides of
        Some approved \<Rightarrow> (Some approved, [])
      | None \<Rightarrow>
          (case ro_rate overrides of
             Some rate \<Rightarrow>
               (case try_bind (parse_rate rate) (\<lambda>micros. convert_price (cp_price product)
                       (fst direction) (snd direction) micros Nearest) of
                  Inr price \<Rightarrow> (Some price, [])
                | Inl e \<Rightarrow> (None, [''the one-off rate '' @ rd_debug rd rate
                             @ '' cannot price this resource: '' @ rule_error_str (rd_debug rd) e]))
           | None \<Rightarrow>
               (let (converted, blockers) = split_prices rd prices in
                case converted of
                  [] \<Rightarrow> (None, blockers)
                | first # _ \<Rightarrow>
                    if list_all (\<lambda>p. p = first) converted then (Some first, blockers)
                    else (None, blockers @ [''matching rules propose different target prices (''
                       @ rendered_prices converted @ ''); approve one with an explicit rate'']))))"

fun axis_noun :: "TermKind \<Rightarrow> string" where
  "axis_noun Licence = ''licence''"
| "axis_noun ResourceType = ''resource type''"
| "axis_noun Subject = ''subject''"
| "axis_noun Topic = ''topic''"
| "axis_noun Phase = ''phase''"

definition checked_term :: "TermKind \<Rightarrow> InventoryId \<Rightarrow> string \<Rightarrow> PriceIntent \<Rightarrow> RuleError + unit" where
  "checked_term axis target v price =
     try_bind (check_native_value target axis v)
       (\<lambda>_. if axis = Licence
            then try_bind (check_licence_is_writable target v)
                   (\<lambda>_. check_licence_against_price target v price)
            else Inr ())"

fun split_terms :: "Rendering \<Rightarrow> TermKind \<Rightarrow> InventoryId \<times> PriceIntent \<Rightarrow> (string \<times> string) list
    \<Rightarrow> string list \<times> string list" where
  "split_terms rd axis target_price [] = ([], [])"
| "split_terms rd axis target_price ((title, v) # rest) =
     (let (admissible, blockers) = split_terms rd axis target_price rest in
      case checked_term axis (fst target_price) v (snd target_price) of
        Inr _ \<Rightarrow> (v # admissible, blockers)
      | Inl e \<Rightarrow> (admissible, (''rule '' @ rd_debug rd title @ '' cannot set a '' @ axis_noun axis
                    @ '' here: '' @ rule_error_str (rd_debug rd) e) # blockers))"

definition resolve_term ::
  "Rendering \<Rightarrow> TermKind \<Rightarrow> (string \<times> string) list \<Rightarrow> string option \<Rightarrow> InventoryId \<times> PriceIntent
     \<Rightarrow> string option \<times> string list" where
  "resolve_term rd axis candidates override_value target_price =
     (case override_value of
        Some v \<Rightarrow>
          (case checked_term axis (fst target_price) v (snd target_price) of
             Inr _ \<Rightarrow> (Some v, [])
           | Inl e \<Rightarrow> (None, [''the one-off '' @ axis_noun axis @ '' choice '' @ rd_debug rd v
                        @ '' is refused: '' @ rule_error_str (rd_debug rd) e]))
      | None \<Rightarrow>
          (let (admissible, blockers) = split_terms rd axis target_price candidates in
           case admissible of
             [] \<Rightarrow> (None, blockers)
           | first # _ \<Rightarrow>
               if list_all (\<lambda>v. v = first) admissible then (Some first, blockers)
               else (None, blockers @ [''matching rules propose different '' @ axis_noun axis @ '' values (''
                 @ join_with '', '' (foldl (\<lambda>seen v. if v \<in> set seen then seen else seen @ [v]) [] admissible)
                 @ ''); choose one explicitly''])))"

definition check_inherited_licence ::
  "Rendering \<Rightarrow> TargetFields \<Rightarrow> InventoryId \<times> PriceIntent \<Rightarrow> string list" where
  "check_inherited_licence rd base target_price =
     (case tf_licence base of
        None \<Rightarrow> []
      | Some v \<Rightarrow>
          (case checked_term Licence (fst target_price) v (snd target_price) of
             Inr _ \<Rightarrow> []
           | Inl e \<Rightarrow> [''the approved licence '' @ rd_debug rd v
                @ '' does not fit the price this listing would carry: '' @ rule_error_str (rd_debug rd) e]))"

text \<open>One rule of the loop: skipped, refused with a blocker, skipped again, or matched.\<close>

definition consider_rule ::
  "Rendering \<Rightarrow> CanonicalProduct \<Rightarrow> InventoryId \<times> InventoryId \<Rightarrow> string
     \<Rightarrow> RuleEvaluation \<times> Proposals \<Rightarrow> SellerRuleRecord \<Rightarrow> RuleEvaluation \<times> Proposals" where
  "consider_rule rd product direction haystack state record =
     (let (evaluation, proposals) = state; d = sr_definition record in
      if sd_source d \<noteq> fst direction \<or> sd_target d \<noteq> snd direction then state
      else (case validate_definition d of
              Inl e \<Rightarrow>
                (evaluation\<lparr>ev_blockers := ev_blockers evaluation @ [''rule '' @ rd_debug rd (sd_title d)
                    @ '' cannot be applied: '' @ rule_error_str (rd_debug rd) e]\<rparr>, proposals)
            | Inr _ \<Rightarrow>
                if \<not> conditions_match rd (sd_conditions d) product (fst direction) haystack then state
                else (evaluation\<lparr>ev_matches := ev_matches evaluation @ [match_of record]\<rparr>,
                      collect_proposals record product direction proposals)))"

definition gather ::
  "Rendering \<Rightarrow> CanonicalProduct \<Rightarrow> InventoryId \<times> InventoryId \<Rightarrow> SellerRuleRecord list
     \<Rightarrow> RuleEvaluation \<times> Proposals" where
  "gather rd product direction rules =
     foldl (consider_rule rd product direction (rd_lowercase rd (visible_description (cp_body product))))
       (\<lparr>ev_fields = NO_FIELDS, ev_matches = [], ev_blockers = []\<rparr>,
        \<lparr>pp_prices = [], pp_licences = [], pp_resource_types = []\<rparr>) rules"

definition evaluate ::
  "Rendering \<Rightarrow> CanonicalProduct \<Rightarrow> InventoryId \<times> InventoryId \<Rightarrow> SellerRuleRecord list
     \<Rightarrow> RuleOverrides \<Rightarrow> TargetFields \<Rightarrow> RuleEvaluation" where
  "evaluate rd product direction rules overrides base =
     (let (evaluation, proposals) = gather rd product direction rules;
          (price, price_blockers) = resolve_price rd (pp_prices proposals) overrides product direction;
          target_price = (snd direction,
            case or_else price (tf_price base) of Some p \<Rightarrow> p | None \<Rightarrow> cp_price product);
          (licence, licence_blockers) =
            resolve_term rd Licence (pp_licences proposals) (ro_licence overrides) target_price;
          (resource_type, type_blockers) =
            resolve_term rd ResourceType (pp_resource_types proposals) (ro_resource_type overrides) target_price;
          inherited = (if licence = None then check_inherited_licence rd base target_price else [])
      in evaluation\<lparr>ev_fields := \<lparr>tf_price = price, tf_licence = licence, tf_resource_type = resource_type\<rparr>,
           ev_blockers := ev_blockers evaluation @ price_blockers @ licence_blockers @ type_blockers @ inherited\<rparr>)"

subsection \<open>Presets\<close>

text \<open>A preset's notice and the documents it cites are prose no operation reads; the rest is here.\<close>

record RulePreset =
  rp_id :: string
  rp_definition :: SellerRuleDefinition

definition ANY_PRICE :: RuleConditions where
  "ANY_PRICE = \<lparr>rc_pricing = PC_Any, rc_resource_types = [], rc_keywords = [], rc_keyword_mode = CM_All,
     rc_attributes = []\<rparr>"

definition manual_rate_preset :: RulePreset where
  "manual_rate_preset =
     \<lparr>rp_id = ''tpt-to-tes-manual-usd-gbp-0-75'',
      rp_definition =
        \<lparr>sd_title = ''TPT to Tes at a manual 0.75 estimate'',
         sd_description = ''Multiply the USD price by 0.75 and round to the nearest penny.'',
         sd_enabled = True, sd_source = Tpt, sd_target = Tes, sd_auto_apply = [],
         sd_conditions = ANY_PRICE\<lparr>rc_pricing := PC_Paid\<rparr>,
         sd_action = PricingAction ''0.75'' Nearest None\<rparr>\<rparr>"

definition paid_licence_preset :: RulePreset where
  "paid_licence_preset =
     \<lparr>rp_id = ''tpt-to-tes-paid-tes-paid'',
      rp_definition =
        \<lparr>sd_title = ''Paid TPT resources take the Tes paid licence'',
         sd_description = ''Set the Tes licence to TES-PAID on resources the source sells.'',
         sd_enabled = True, sd_source = Tpt, sd_target = Tes, sd_auto_apply = [],
         sd_conditions = ANY_PRICE\<lparr>rc_pricing := PC_Paid\<rparr>,
         sd_action = MappingAction (Some ''TES-PAID'') None\<rparr>\<rparr>"

definition free_licence_preset :: RulePreset where
  "free_licence_preset =
     \<lparr>rp_id = ''tpt-to-tes-free-cc-by-nd'',
      rp_definition =
        \<lparr>sd_title = ''Free TPT resources take CC-BY-ND on Tes'',
         sd_description = ''Set the Tes licence to CC-BY-ND on resources the source gives away.'',
         sd_enabled = True, sd_source = Tpt, sd_target = Tes, sd_auto_apply = [],
         sd_conditions = ANY_PRICE\<lparr>rc_pricing := PC_Free\<rparr>,
         sd_action = MappingAction (Some ''CC-BY-ND'') None\<rparr>\<rparr>"

definition presets :: "RulePreset list" where
  "presets = [manual_rate_preset, paid_licence_preset, free_licence_preset]"

end
