(* ===== verification/SellerRulesSafety.thy ===== *)
theory SellerRulesSafety
  imports SellerRules
begin

section \<open>What the seller rules promise\<close>

text \<open>
  The arithmetic is exact, a rule is never silently ignored, what an evaluation sets is what the
  target takes at the price the listing will carry, and the frozen output's digest separates
  what will be posted.
\<close>

subsection \<open>Rates\<close>

lemma digits_value_acc_zeros: "digits_value_acc acc (replicate n (CHR ''0'')) = acc * 10 ^ n"
  by (induction n arbitrary: acc) (simp_all add: algebra_simps)

lemma digits_value_zeros: "digits_value (s @ replicate n (CHR ''0'')) = digits_value s * 10 ^ n"
  by (simp add: digits_value_def digits_value_acc_append digits_value_acc_zeros)

text \<open>
  A rate is exact: what \<open>parse_rate\<close> accepts is digits, optionally a point and at most six
  digits, and the micros it returns are that decimal number times a million, positive and in range.
\<close>

theorem a_parsed_rate_is_exact:
  assumes "parse_rate rate = Inr micros"
  shows "\<exists>whole fraction. (trim rate = whole \<and> fraction = [] \<or> trim rate = whole @ ''.'' @ fraction) \<and>
    whole \<noteq> [] \<and> is_ascii_digits (whole @ fraction) \<and> length fraction \<le> 6 \<and>
    micros = int (digits_value whole * 10 ^ 6 + digits_value fraction * 10 ^ (6 - length fraction)) \<and>
    0 < micros \<and> micros < 2 ^ 63"
proof -
  define p where "p = (case split_once (CHR ''.'') (trim rate) of Some p \<Rightarrow> p | None \<Rightarrow> (trim rate, []))"
  obtain whole fraction where wf: "p = (whole, fraction)" by (cases p)
  have shape: "trim rate = whole \<and> fraction = [] \<or> trim rate = whole @ ''.'' @ fraction"
    using wf by (auto simp: p_def split_once_Some split: option.splits)
  have "whole \<noteq> []" "is_ascii_digits (whole @ fraction)" "length fraction \<le> 6"
    "micros = int (digits_value whole) * 1000000 + int (digits_value fraction * 10 ^ (6 - length fraction))"
    "0 < micros" "micros < 2 ^ 63"
    using assms wf [unfolded p_def]
    by (auto simp: parse_rate_def Let_def try_bind_Inr digits_i128_def RATE_FRACTION_DIGITS_MAX_def
        MICROS_PER_UNIT_def is_ascii_digits_def digits_value_zeros in_signed_def bind_eq_Some_conv
        simp del: of_nat_mult of_nat_power split: if_splits)
  with shape show ?thesis by auto
qed

lemma replicate_6: "replicate 6 c = [c, c, c, c, c, c]" and replicate_4: "replicate 4 c = [c, c, c, c]"
  by (simp_all add: numeral_eq_Suc)

lemmas parse_rate_eval = is_ascii_digits_def ascii_digit_def RATE_FRACTION_DIGITS_MAX_def digits_i128_def
  MICROS_PER_UNIT_def digits_value_def rust_int
  replicate_6 replicate_4 ok_or_def Let_def

theorem a_parsed_rate_is_exact_witness:
  "parse_rate '' 0.75 '' = Inr 750000 \<and>
   (\<exists>whole fraction. (trim '' 0.75 '' = whole \<and> fraction = [] \<or> trim '' 0.75 '' = whole @ ''.'' @ fraction) \<and>
     750000 = int (digits_value whole * 10 ^ 6 + digits_value fraction * 10 ^ (6 - length fraction)))"
proof -
  have t: "trim '' 0.75 '' = ''0.75''" by code_simp
  have r: "parse_rate '' 0.75 '' = Inr 750000"
    by (simp add: parse_rate_def t parse_rate_eval)
  from a_parsed_rate_is_exact [OF r] r show ?thesis by blast
qed

text \<open>The grammar still has several spellings of one rate.\<close>

lemma one_rate_has_several_spellings:
  "parse_rate ''1'' = Inr 1000000" "parse_rate ''1.'' = Inr 1000000" "parse_rate ''01.00'' = Inr 1000000"
proof -
  have t: "trim ''1'' = ''1''" "trim ''1.'' = ''1.''" "trim ''01.00'' = ''01.00''" by code_simp+
  show "parse_rate ''1'' = Inr 1000000" "parse_rate ''1.'' = Inr 1000000" "parse_rate ''01.00'' = Inr 1000000"
    by (simp_all add: parse_rate_def t parse_rate_eval)
qed

subsection \<open>Converted prices\<close>

lemma div_bounds:
  fixes e m :: int
  assumes "0 < m"
  shows "e div m * m \<le> e" "e < e div m * m + m"
proof -
  have "e div m * m + e mod m = e" by (rule div_mult_mod_eq)
  moreover have "0 \<le> e mod m" "e mod m < m"
    using assms by (simp_all add: pos_mod_sign pos_mod_bound)
  ultimately show "e div m * m \<le> e" "e < e div m * m + m" by linarith+
qed

lemma ceiling_least:
  fixes exact n m :: int
  assumes "0 < m"
  shows "exact \<le> n * m \<longleftrightarrow> (if exact mod m = 0 then exact div m else exact div m + 1) \<le> n"
proof -
  define q r where "q = exact div m" and "r = exact mod m"
  have e: "exact = q * m + r" by (simp add: q_def r_def)
  have r: "0 \<le> r" "r < m" using assms by (simp_all add: r_def pos_mod_sign pos_mod_bound)
  have "q * m + r \<le> n * m \<longleftrightarrow> (if r = 0 then q else q + 1) \<le> n"
  proof (cases "r = 0")
    case True
    then show ?thesis using assms by simp
  next
    case False
    have "q * m + r \<le> n * m" if "q + 1 \<le> n"
    proof -
      have "(q + 1) * m \<le> n * m" using that assms by (intro mult_right_mono) auto
      with r show ?thesis by (simp add: algebra_simps)
    qed
    moreover have "q + 1 \<le> n" if "q * m + r \<le> n * m"
    proof -
      have "q * m < n * m" using that False r by linarith
      then show ?thesis using assms by simp
    qed
    ultimately show ?thesis using False by auto
  qed
  then show ?thesis by (simp add: e [symmetric] q_def [symmetric] r_def [symmetric])
qed

lemma nearest_bounds:
  assumes "nearest_minor_units exact = Some minor"
  shows "minor * 1000000 - 500000 \<le> exact" "exact < minor * 1000000 + 500000"
proof -
  have "minor = (exact + 500000) div 1000000"
    using assms by (auto simp: nearest_minor_units_def MICROS_PER_UNIT_def)
  then show "minor * 1000000 - 500000 \<le> exact" "exact < minor * 1000000 + 500000"
    using div_bounds [of 1000000 "exact + 500000"] by simp_all
qed

lemma charm_least:
  fixes c n :: int
  shows "c \<le> c - c mod 100 + 99" "(c - c mod 100 + 99) mod 100 = 99"
    "n mod 100 = 99 \<Longrightarrow> c \<le> n \<Longrightarrow> c - c mod 100 + 99 \<le> n"
proof -
  have c: "c - c mod 100 = c div 100 * 100" by (simp add: minus_mod_eq_div_mult)
  show "c \<le> c - c mod 100 + 99" using pos_mod_bound [of 100 c] by simp
  show "(c - c mod 100 + 99) mod 100 = 99" unfolding c by simp
  assume "n mod 100 = 99" "c \<le> n"
  moreover have "n = n div 100 * 100 + n mod 100" by simp
  moreover have "c div 100 \<le> n div 100" using \<open>c \<le> n\<close> by (simp add: zdiv_mono1)
  ultimately show "c - c mod 100 + 99 \<le> n" unfolding c by linarith
qed

lemma charm_exact:
  assumes "charm_minor_units exact = Some minor"
  shows "exact \<le> minor * 1000000 \<and> minor mod 100 = 99 \<and>
    (\<forall>n. n mod 100 = 99 \<and> exact \<le> n * 1000000 \<longrightarrow> minor \<le> n)"
proof -
  define ceiling where "ceiling = (if exact mod 1000000 = 0 then exact div 1000000 else exact div 1000000 + 1)"
  have m: "minor = ceiling - ceiling mod 100 + 99"
    using assms by (auto simp: charm_minor_units_def Let_def bind_eq_Some_conv MICROS_PER_UNIT_def
        MINOR_UNITS_PER_MAJOR_def CHARM_REMAINDER_def ceiling_def split: if_splits)
  have least: "exact \<le> n * 1000000 \<longleftrightarrow> ceiling \<le> n" for n
    unfolding ceiling_def by (rule ceiling_least) simp
  have "ceiling \<le> minor" "minor mod 100 = 99" using charm_least(1,2) [of ceiling] unfolding m .
  moreover have "minor \<le> n" if "n mod 100 = 99" "ceiling \<le> n" for n
    using charm_least(3) [OF that] unfolding m .
  ultimately show ?thesis unfolding least by blast
qed

lemma convert_paid:
  assumes "convert_price (Paid money) source target micros rounding = Inr p"
  shows "\<exists>minor currency. p = Paid (MkMoney minor currency) \<and> fixed_currency target = Inr currency \<and>
    fixed_currency source = Inr (money_currency money) \<and> 0 < minor \<and> 0 < micros \<and>
    (case rounding of Nearest \<Rightarrow> nearest_minor_units (minor_units money * micros)
        | UpToCharm \<Rightarrow> charm_minor_units (minor_units money * micros)) = Some minor \<and>
    check_target_range target minor = Inr ()"
  using assms
  by (auto simp: convert_price_def try_bind_Inr money_new_def not_le split: if_splits)

text \<open>
  C37. A conversion is exact up to its rounding and never changes what a price is: free stays
  free; a paid price in the source's own currency becomes a paid price in the target's, positive
  and inside the target's measured range, which is the exact product rounded half up to a minor
  unit, or the least amount ending in .99 that is not below it.
\<close>

theorem a_converted_price_is_exact:
  assumes "convert_price price source target micros rounding = Inr p"
  shows "case price of
      Free \<Rightarrow> p = Free
    | Paid money \<Rightarrow>
        (\<exists>minor currency. p = Paid (MkMoney minor currency) \<and> currency_rule target = Fixed currency \<and>
          currency_rule source = Fixed (money_currency money) \<and> 0 < minor \<and>
          (target = Tes \<longrightarrow> 100 \<le> minor \<and> minor \<le> 30000) \<and>
          (case rounding of
             Nearest \<Rightarrow> minor * 1000000 - 500000 \<le> minor_units money * micros \<and>
               minor_units money * micros < minor * 1000000 + 500000
           | UpToCharm \<Rightarrow> minor_units money * micros \<le> minor * 1000000 \<and> minor mod 100 = 99 \<and>
               (\<forall>n. n mod 100 = 99 \<and> minor_units money * micros \<le> n * 1000000 \<longrightarrow> minor \<le> n)))"
proof (cases price)
  case Free
  then show ?thesis using assms by (auto simp: convert_price_def try_bind_Inr split: if_splits)
next
  case (Paid money)
  obtain minor currency where m: "p = Paid (MkMoney minor currency)" "fixed_currency target = Inr currency"
    "fixed_currency source = Inr (money_currency money)" "0 < minor"
    "(case rounding of Nearest \<Rightarrow> nearest_minor_units (minor_units money * micros)
        | UpToCharm \<Rightarrow> charm_minor_units (minor_units money * micros)) = Some minor"
    "check_target_range target minor = Inr ()"
    using convert_paid [OF assms [unfolded Paid]] by blast
  have "currency_rule target = Fixed currency" "currency_rule source = Fixed (money_currency money)"
    using m(2,3) by (auto simp: fixed_currency_def split: CurrencyRule.splits)
  moreover have "target = Tes \<longrightarrow> 100 \<le> minor \<and> minor \<le> 30000"
    using m(6) by (auto simp: check_target_range_def TES_PAID_MIN_MINOR_UNITS_def TES_PAID_MAX_MINOR_UNITS_def
        split: if_splits)
  moreover have "case rounding of
      Nearest \<Rightarrow> minor * 1000000 - 500000 \<le> minor_units money * micros \<and>
        minor_units money * micros < minor * 1000000 + 500000
    | UpToCharm \<Rightarrow> minor_units money * micros \<le> minor * 1000000 \<and> minor mod 100 = 99 \<and>
        (\<forall>n. n mod 100 = 99 \<and> minor_units money * micros \<le> n * 1000000 \<longrightarrow> minor \<le> n)"
    using m(5) by (cases rounding) (simp_all add: nearest_bounds charm_exact)
  ultimately show ?thesis using m(1,4) Paid by auto
qed

theorem a_converted_price_is_exact_witness:
  "convert_price (Paid (MkMoney 1601 Usd)) Tpt Tes 750000 UpToCharm = Inr (Paid (MkMoney 1299 Gbp)) \<and>
   1601 * 750000 \<le> (1299::int) * 1000000"
proof -
  have c: "convert_price (Paid (MkMoney 1601 Usd)) Tpt Tes 750000 UpToCharm = Inr (Paid (MkMoney 1299 Gbp))"
    by code_simp
  from a_converted_price_is_exact [OF c] c show ?thesis by auto
qed

subsection \<open>Gathering the rules\<close>

definition haystack :: "Rendering \<Rightarrow> CanonicalProduct \<Rightarrow> string" where
  "haystack rd product = rd_lowercase rd (visible_description (cp_body product))"

definition directed :: "InventoryId \<times> InventoryId \<Rightarrow> SellerRuleRecord \<Rightarrow> bool" where
  "directed direction r \<longleftrightarrow>
     sd_source (sr_definition r) = fst direction \<and> sd_target (sr_definition r) = snd direction"

definition applies :: "Rendering \<Rightarrow> CanonicalProduct \<Rightarrow> InventoryId \<times> InventoryId \<Rightarrow> SellerRuleRecord \<Rightarrow> bool" where
  "applies rd product direction r \<longleftrightarrow> directed direction r \<and>
     validate_definition (sr_definition r) = Inr () \<and>
     conditions_match rd (sd_conditions (sr_definition r)) product (fst direction) (haystack rd product)"

definition refused :: "InventoryId \<times> InventoryId \<Rightarrow> SellerRuleRecord \<Rightarrow> bool" where
  "refused direction r \<longleftrightarrow> directed direction r \<and> validate_definition (sr_definition r) \<noteq> Inr ()"

fun price_of_action :: "PriceIntent \<Rightarrow> InventoryId \<times> InventoryId \<Rightarrow> RuleAction \<Rightarrow> (RuleError + PriceIntent) list" where
  "price_of_action price direction (PricingAction rate rounding reference) =
     [try_bind (parse_rate rate) (\<lambda>micros. convert_price price (fst direction) (snd direction) micros rounding)]"
| "price_of_action price direction (MappingAction licence resource_type) = []"

fun term_of_action :: "TermKind \<Rightarrow> RuleAction \<Rightarrow> string list" where
  "term_of_action axis (PricingAction rate rounding reference) = []"
| "term_of_action axis (MappingAction licence resource_type) =
     (case (if axis = Licence then licence else resource_type) of None \<Rightarrow> [] | Some v \<Rightarrow> [v])"

definition titled :: "(RuleAction \<Rightarrow> 'a list) \<Rightarrow> SellerRuleRecord \<Rightarrow> (string \<times> 'a) list" where
  "titled f r = map (\<lambda>v. (sd_title (sr_definition r), v)) (f (sd_action (sr_definition r)))"

lemma collect_fields:
  "pp_prices (collect_proposals r product direction into)
     = pp_prices into @ titled (price_of_action (cp_price product) direction) r"
  "pp_licences (collect_proposals r product direction into)
     = pp_licences into @ titled (term_of_action Licence) r"
  "pp_resource_types (collect_proposals r product direction into)
     = pp_resource_types into @ titled (term_of_action ResourceType) r"
  by (cases "sd_action (sr_definition r)";
      auto simp: collect_proposals_def Let_def titled_def case_prod_unfold split: option.splits)+

lemma gather_Nil [simp]:
  "gather rd product direction [] =
     (\<lparr>ev_fields = NO_FIELDS, ev_matches = [], ev_blockers = []\<rparr>,
      \<lparr>pp_prices = [], pp_licences = [], pp_resource_types = []\<rparr>)"
  by (simp add: gather_def)

lemma gather_snoc [simp]:
  "gather rd product direction (rs @ [r]) =
     consider_rule rd product direction (haystack rd product) (gather rd product direction rs) r"
  by (simp add: gather_def haystack_def)

lemma consider_cases:
  "consider_rule rd product direction (haystack rd product) (ev, pp) r =
     (if applies rd product direction r
      then (ev\<lparr>ev_matches := ev_matches ev @ [match_of r]\<rparr>, collect_proposals r product direction pp)
      else if refused direction r
      then (ev\<lparr>ev_blockers := ev_blockers ev @ [''rule '' @ rd_debug rd (sd_title (sr_definition r))
              @ '' cannot be applied: '' @ rule_error_str (rd_debug rd) (projl (validate_definition (sr_definition r)))]\<rparr>, pp)
      else (ev, pp))"
  by (cases "validate_definition (sr_definition r)")
    (auto simp: consider_rule_def Let_def applies_def refused_def directed_def)

lemma gather_proposals:
  "pp_prices (snd (gather rd product direction rs)) =
     concat (map (titled (price_of_action (cp_price product) direction)) (filter (applies rd product direction) rs))"
  "pp_licences (snd (gather rd product direction rs)) =
     concat (map (titled (term_of_action Licence)) (filter (applies rd product direction) rs))"
  "pp_resource_types (snd (gather rd product direction rs)) =
     concat (map (titled (term_of_action ResourceType)) (filter (applies rd product direction) rs))"
proof (induction rs rule: rev_induct)
  case (snoc r rs)
  obtain ev pp where "gather rd product direction rs = (ev, pp)" by (cases "gather rd product direction rs")
  with snoc show
    "pp_prices (snd (gather rd product direction (rs @ [r]))) = concat (map (titled (price_of_action (cp_price product) direction))
       (filter (applies rd product direction) (rs @ [r])))"
    "pp_licences (snd (gather rd product direction (rs @ [r]))) = concat (map (titled (term_of_action Licence))
       (filter (applies rd product direction) (rs @ [r])))"
    "pp_resource_types (snd (gather rd product direction (rs @ [r]))) = concat (map (titled (term_of_action ResourceType))
       (filter (applies rd product direction) (rs @ [r])))"
    by (simp_all add: consider_cases collect_fields)
qed simp_all

lemma gather_blockers:
  "ev_blockers (fst (gather rd product direction rs)) = [] \<longleftrightarrow> (\<forall>r\<in>set rs. \<not> refused direction r)"
proof (induction rs rule: rev_induct)
  case (snoc r rs)
  obtain ev pp where "gather rd product direction rs = (ev, pp)" by (cases "gather rd product direction rs")
  moreover have "applies rd product direction r \<Longrightarrow> \<not> refused direction r"
    by (simp add: applies_def refused_def)
  ultimately show ?case using snoc by (auto simp: consider_cases)
qed simp

lemma set_titled: "snd ` set (titled f r) = set (f (sd_action (sr_definition r)))"
  by (auto simp: titled_def image_iff)

subsection \<open>Agreement\<close>

text \<open>What a list of proposals agrees on: its one value.\<close>

definition agreed :: "'a list \<Rightarrow> 'a option" where
  "agreed xs = (case xs of [] \<Rightarrow> None | x # _ \<Rightarrow> if list_all (\<lambda>y. y = x) xs then Some x else None)"

lemma agreed_iff: "agreed xs = Some x \<longleftrightarrow> set xs = {x}"
  by (cases xs) (auto simp: agreed_def list_all_iff)

lemma agreed_same_set: "set xs = set ys \<Longrightarrow> agreed xs = agreed ys"
proof -
  assume "set xs = set ys"
  then have "agreed xs = Some x \<longleftrightarrow> agreed ys = Some x" for x by (simp add: agreed_iff)
  then show ?thesis by (cases "agreed xs") (metis not_None_eq)+
qed

lemma split_prices_set: "set (fst (split_prices rd ps)) = {p. Inr p \<in> snd ` set ps}"
  by (induction rd ps rule: split_prices.induct) (auto split: sum.splits simp: case_prod_unfold Let_def image_iff)

lemma split_prices_blockers: "snd (split_prices rd ps) = [] \<longleftrightarrow> (\<forall>e. Inl e \<notin> snd ` set ps)"
  by (induction rd ps rule: split_prices.induct) (auto split: sum.splits simp: case_prod_unfold Let_def image_iff)

lemma split_terms_set:
  "set (fst (split_terms rd axis tp cs)) = {v \<in> snd ` set cs. checked_term axis (fst tp) v (snd tp) = Inr ()}"
  by (induction rd axis tp cs rule: split_terms.induct) (auto split: sum.splits simp: case_prod_unfold Let_def image_iff)

lemma split_terms_blockers:
  "snd (split_terms rd axis tp cs) = [] \<longleftrightarrow> (\<forall>v\<in>snd ` set cs. checked_term axis (fst tp) v (snd tp) = Inr ())"
  by (induction rd axis tp cs rule: split_terms.induct) (auto split: sum.splits simp: case_prod_unfold Let_def)

definition one_off_price :: "CanonicalProduct \<Rightarrow> InventoryId \<times> InventoryId \<Rightarrow> string \<Rightarrow> RuleError + PriceIntent" where
  "one_off_price product direction rate = try_bind (parse_rate rate)
     (\<lambda>micros. convert_price (cp_price product) (fst direction) (snd direction) micros Nearest)"

lemma resolve_price_fst:
  "fst (resolve_price rd ps overrides product direction) =
     (case ro_price overrides of Some p \<Rightarrow> Some p
      | None \<Rightarrow> (case ro_rate overrides of
           Some rate \<Rightarrow> (case one_off_price product direction rate of Inr p \<Rightarrow> Some p | Inl e \<Rightarrow> None)
         | None \<Rightarrow> agreed (fst (split_prices rd ps))))"
  by (auto simp: resolve_price_def one_off_price_def agreed_def case_prod_unfold Let_def
      split: option.splits sum.splits list.splits)

lemma resolve_price_blockers:
  assumes "ro_price overrides = None" "ro_rate overrides = None"
  shows "snd (resolve_price rd ps overrides product direction) = [] \<longleftrightarrow>
    (\<forall>e. Inl e \<notin> snd ` set ps) \<and> (fst (split_prices rd ps) = [] \<or> agreed (fst (split_prices rd ps)) \<noteq> None)"
  using assms split_prices_blockers [of rd ps]
  by (auto simp: resolve_price_def agreed_def case_prod_unfold Let_def split: list.splits)

lemma resolve_term_fst:
  "fst (resolve_term rd axis cs override_value tp) =
     (case override_value of
        Some v \<Rightarrow> (if checked_term axis (fst tp) v (snd tp) = Inr () then Some v else None)
      | None \<Rightarrow> agreed (fst (split_terms rd axis tp cs)))"
  by (auto simp: resolve_term_def agreed_def case_prod_unfold Let_def split: option.splits sum.splits list.splits)

lemma resolve_term_checked:
  "fst (resolve_term rd axis cs override_value tp) = Some v \<Longrightarrow> checked_term axis (fst tp) v (snd tp) = Inr ()"
  using split_terms_set [of rd axis tp cs]
  by (auto simp: resolve_term_fst agreed_iff split: option.splits if_splits)

subsection \<open>Evaluation\<close>

definition listing_price :: "CanonicalProduct \<Rightarrow> TargetFields \<Rightarrow> PriceIntent" where
  "listing_price product merged = (case tf_price merged of Some p \<Rightarrow> p | None \<Rightarrow> cp_price product)"

lemma evaluate_fields:
  fixes rd product direction rules overrides base
  defines "e \<equiv> evaluate rd product direction rules overrides base"
    and "pp \<equiv> snd (gather rd product direction rules)"
  defines "tp \<equiv> (snd direction, listing_price product (merge_over (ev_fields e) base))"
  shows "tf_price (ev_fields e) = fst (resolve_price rd (pp_prices pp) overrides product direction)"
    "tf_licence (ev_fields e) = fst (resolve_term rd Licence (pp_licences pp) (ro_licence overrides) tp)"
    "tf_resource_type (ev_fields e)
       = fst (resolve_term rd ResourceType (pp_resource_types pp) (ro_resource_type overrides) tp)"
    "ev_blockers e = ev_blockers (fst (gather rd product direction rules))
       @ snd (resolve_price rd (pp_prices pp) overrides product direction)
       @ snd (resolve_term rd Licence (pp_licences pp) (ro_licence overrides) tp)
       @ snd (resolve_term rd ResourceType (pp_resource_types pp) (ro_resource_type overrides) tp)
       @ (if tf_licence (ev_fields e) = None then check_inherited_licence rd base tp else [])"
  unfolding assms
  by (simp_all add: evaluate_def Let_def case_prod_unfold listing_price_def merge_over_def)

lemma evaluate_matches: "ev_matches (evaluate rd product direction rules overrides base)
    = ev_matches (fst (gather rd product direction rules))"
  by (simp add: evaluate_def Let_def case_prod_unfold)

lemma licence_of_Tes:
  "checked_term Licence target v price = Inr () \<Longrightarrow>
     target = Tes \<and> v \<in> set (if price = Free then TES_LICENCE_FREE else TES_LICENCE_PAID)"
  by (cases target)
    (auto simp: checked_term_def try_bind_Inr check_native_value_def registries axis_of_def
      TPT_AXES_def check_licence_against_price_def Let_def split: if_splits)

text \<open>
  The licence a listing would carry fits the price it would carry. Where an evaluation
  reports no blocker, the licence of the merged fields, whether a rule proposed it, the seller
  chose it or the target already had it, is one Tes takes at the merged price: a Creative
  Commons value on a free listing and the paid one on a paid listing, and on Tes alone.
\<close>

theorem the_licence_fits_the_price:
  assumes "e = evaluate rd product (source, target) rules overrides base" and "ev_blockers e = []"
    and "merged = merge_over (ev_fields e) base" and "tf_licence merged = Some v"
  shows "target = Tes \<and>
    (if listing_price product merged = Free then v \<in> {''CC-BY'', ''CC-BY-ND'', ''CC-BY-SA''}
     else v = ''TES-PAID'')"
proof -
  define tp where "tp = (target, listing_price product merged)"
  have "checked_term Licence (fst tp) v (snd tp) = Inr ()"
  proof (cases "tf_licence (ev_fields e)")
    case None
    then have "tf_licence base = Some v" using assms(3,4) by (simp add: merge_over_def)
    moreover have "check_inherited_licence rd base tp = []"
      using assms(1-3) None evaluate_fields(4) [of rd product "(source, target)" rules overrides base]
      by (simp add: tp_def)
    ultimately show ?thesis by (auto simp: check_inherited_licence_def split: sum.splits)
  next
    case (Some u)
    then have "u = v" using assms(3,4) by (simp add: merge_over_def)
    with Some show ?thesis
      using evaluate_fields(2) [of rd product "(source, target)" rules overrides base] assms(1,3)
      by (intro resolve_term_checked [of rd Licence]) (simp add: tp_def)
  qed
  then show ?thesis
    using licence_of_Tes by (fastforce simp: tp_def TES_LICENCE_FREE_def TES_LICENCE_PAID_def split: if_splits)
qed

text \<open>What a blocker says of a rule, by the rule's title and the error it names.\<close>

definition inadmissible_text :: "Rendering \<Rightarrow> SellerRuleRecord \<Rightarrow> RuleError \<Rightarrow> string" where
  "inadmissible_text rd r err =
     ''rule '' @ rd_debug rd (sd_title (sr_definition r)) @ '' cannot be applied: '' @ rule_error_str (rd_debug rd) err"

definition unpriceable_text :: "Rendering \<Rightarrow> SellerRuleRecord \<Rightarrow> RuleError \<Rightarrow> string" where
  "unpriceable_text rd r err =
     ''rule '' @ rd_debug rd (sd_title (sr_definition r)) @ '' cannot price this resource: '' @ rule_error_str (rd_debug rd) err"

definition disagreement_text :: "PriceIntent list \<Rightarrow> string" where
  "disagreement_text prices =
     ''matching rules propose different target prices ('' @ rendered_prices prices @ ''); approve one with an explicit rate''"

lemma gather_named:
  assumes "r \<in> set rs"
  shows "directed direction r \<Longrightarrow> validate_definition (sr_definition r) = Inl err \<Longrightarrow>
      inadmissible_text rd r err \<in> set (ev_blockers (fst (gather rd product direction rs)))"
    and "applies rd product direction r \<Longrightarrow> match_of r \<in> set (ev_matches (fst (gather rd product direction rs)))"
proof -
  have "(directed direction r \<longrightarrow> validate_definition (sr_definition r) = Inl err \<longrightarrow>
        inadmissible_text rd r err \<in> set (ev_blockers (fst (gather rd product direction rs))))
      \<and> (applies rd product direction r \<longrightarrow> match_of r \<in> set (ev_matches (fst (gather rd product direction rs))))"
    using assms
  proof (induction rs rule: rev_induct)
    case (snoc s rs)
    obtain ev pp where "gather rd product direction rs = (ev, pp)" by (cases "gather rd product direction rs")
    then show ?case
      using snoc by (auto simp: consider_cases inadmissible_text_def refused_def applies_def)
  qed simp
  then show "directed direction r \<Longrightarrow> validate_definition (sr_definition r) = Inl err \<Longrightarrow>
      inadmissible_text rd r err \<in> set (ev_blockers (fst (gather rd product direction rs)))"
    and "applies rd product direction r \<Longrightarrow> match_of r \<in> set (ev_matches (fst (gather rd product direction rs)))"
    by blast+
qed

lemma split_prices_named:
  "(sd_title (sr_definition r), Inl err) \<in> set ps \<Longrightarrow> unpriceable_text rd r err \<in> set (snd (split_prices rd ps))"
  by (induction rd ps rule: split_prices.induct)
    (auto simp: unpriceable_text_def case_prod_unfold Let_def split: sum.splits)

lemma resolve_price_named:
  assumes "ro_price overrides = None" "ro_rate overrides = None"
  shows "set (snd (split_prices rd ps)) \<subseteq> set (snd (resolve_price rd ps overrides product direction))"
    and "fst (split_prices rd ps) \<noteq> [] \<Longrightarrow> agreed (fst (split_prices rd ps)) = None \<Longrightarrow>
      disagreement_text (fst (split_prices rd ps)) \<in> set (snd (resolve_price rd ps overrides product direction))"
  using assms
  by (auto simp: resolve_price_def agreed_def disagreement_text_def case_prod_unfold Let_def split: list.splits if_splits)

lemma agreed_None: "agreed xs = None \<Longrightarrow> x \<in> set xs \<Longrightarrow> \<exists>y \<in> set xs. y \<noteq> x"
  by (cases xs) (auto simp: agreed_def list_all_iff split: if_splits)


text \<open>
  C39. The order rules are stored in decides nothing: two rule lists with the same members set the
  same fields.
\<close>

theorem rule_order_decides_nothing:
  assumes "set rules = set rules'"
  shows "ev_fields (evaluate rd product direction rules overrides base)
    = ev_fields (evaluate rd product direction rules' overrides base)"
proof -
  let ?e = "evaluate rd product direction rules overrides base"
  let ?e' = "evaluate rd product direction rules' overrides base"
  have same: "snd ` set (concat (map (titled f) (filter (applies rd product direction) rules)))
      = snd ` set (concat (map (titled f) (filter (applies rd product direction) rules')))" for f :: "RuleAction \<Rightarrow> 'c list"
    by (simp add: image_UN assms)
  have price: "tf_price (ev_fields ?e) = tf_price (ev_fields ?e')"
  proof -
    have "set (fst (split_prices rd (pp_prices (snd (gather rd product direction rules)))))
        = set (fst (split_prices rd (pp_prices (snd (gather rd product direction rules')))))"
      unfolding split_prices_set gather_proposals same by (rule refl)
    note agree = agreed_same_set [OF this]
    show ?thesis unfolding evaluate_fields(1) resolve_price_fst agree by (rule refl)
  qed
  have lists: "set (fst (split_terms rd axis tp (concat (map (titled (term_of_action axis)) (filter (applies rd product direction) rules)))))
      = set (fst (split_terms rd axis tp (concat (map (titled (term_of_action axis)) (filter (applies rd product direction) rules')))))"
    for axis tp
    unfolding split_terms_set same by (rule refl)
  have final: "listing_price product (merge_over (ev_fields ?e) base) = listing_price product (merge_over (ev_fields ?e') base)"
    using price by (simp add: listing_price_def merge_over_def)
  have "tf_licence (ev_fields ?e) = tf_licence (ev_fields ?e')"
    unfolding evaluate_fields(2) resolve_term_fst gather_proposals final
    unfolding agreed_same_set [OF lists] by (rule refl)
  moreover have "tf_resource_type (ev_fields ?e) = tf_resource_type (ev_fields ?e')"
    unfolding evaluate_fields(3) resolve_term_fst gather_proposals final
    unfolding agreed_same_set [OF lists] by (rule refl)
  ultimately show ?thesis using price by simp
qed

subsection \<open>The frozen output\<close>

lemma escape_token_inj: "escape_token a = escape_token b \<Longrightarrow> a = b"
proof (induction a arbitrary: b rule: escape_token.induct)
  case 1
  then show ?case by (cases b) (auto split: if_splits)
next
  case (2 c cs)
  then show ?case by (cases b) (auto split: if_splits)
qed

lemma escape_token_one_line: "CHR 0x0A \<notin> set (escape_token a)"
  by (induction a) auto

lemma decimal_inj: "decimal m = decimal n \<Longrightarrow> m = n"
  by (metis digits_value_decimal)

lemma decimal_plain: "\<not> ascii_digit c \<Longrightarrow> c \<notin> set (decimal n)"
  by (rule ascii_digit_chars [OF decimal_ascii])

lemma signed_decimal_inj:
  assumes "signed_decimal x = signed_decimal y"
  shows "x = y"
proof -
  have no_minus: "decimal n \<noteq> CHR ''-'' # s" for n s
  proof
    assume "decimal n = CHR ''-'' # s"
    then have "CHR ''-'' \<in> set (decimal n)" by simp
    then show False using decimal_plain [of "CHR ''-''" n] by (simp add: ascii_digit_def)
  qed
  have signs: "\<not> (x < 0 \<and> 0 \<le> y)" if "signed_decimal x = signed_decimal y" for x y
    using that no_minus [of "nat y" "decimal (nat (- x))"] by (simp add: signed_decimal_def split: if_splits)
  have "\<not> (x < 0 \<and> 0 \<le> y)" "\<not> (y < 0 \<and> 0 \<le> x)"
    using signs [OF assms] signs [OF assms [symmetric]] by simp_all
  then consider "x < 0" "y < 0" | "0 \<le> x" "0 \<le> y" by linarith
  then show ?thesis
  proof cases
    case 1
    then have "decimal (nat (- x)) = decimal (nat (- y))" using assms by (simp add: signed_decimal_def)
    with 1 show ?thesis using decimal_inj [of "nat (- x)" "nat (- y)"] by simp
  next
    case 2
    then have "decimal (nat x) = decimal (nat y)" using assms by (simp add: signed_decimal_def)
    with 2 show ?thesis using decimal_inj [of "nat x" "nat y"] by simp
  qed
qed

lemma signed_decimal_plain: "\<not> ascii_digit c \<Longrightarrow> c \<noteq> CHR ''-'' \<Longrightarrow> c \<notin> set (signed_decimal x)"
  using decimal_plain by (auto simp: signed_decimal_def)

lemma cut_at:
  fixes c :: char
  assumes "c \<notin> set a" "c \<notin> set b"
  shows "a @ c # x = b @ c # y \<longleftrightarrow> a = b \<and> x = y"
proof -
  have "split_once c (a @ c # x) = Some (a, x)" "split_once c (b @ c # y) = Some (b, y)"
    using assms by (simp_all add: split_once_Some)
  then show ?thesis by (metis option.inject prod.inject)
qed

lemma currency_code_inj: "currency_code c = currency_code d \<Longrightarrow> c = d"
  by (cases c; cases d) simp_all

lemma digest_paid_inj:
  assumes "digest_price (Paid m) = digest_price (Paid n)"
  shows "m = n"
proof -
  have colon: "CHR '':'' \<notin> set (signed_decimal x)" for x
    by (rule signed_decimal_plain) (simp_all add: ascii_digit_def)
  have "signed_decimal (minor_units m) @ CHR '':'' # currency_code (money_currency m)
      = signed_decimal (minor_units n) @ CHR '':'' # currency_code (money_currency n)"
    using assms by simp
  then have "signed_decimal (minor_units m) = signed_decimal (minor_units n)"
    "currency_code (money_currency m) = currency_code (money_currency n)"
    unfolding cut_at [OF colon colon] by blast+
  then have "minor_units m = minor_units n" "money_currency m = money_currency n"
    by (blast dest: signed_decimal_inj currency_code_inj)+
  then show ?thesis by (cases m; cases n) simp
qed

lemma digest_price_inj:
  assumes "digest_price p = digest_price q"
  shows "p = q"
proof (cases p)
  case Free
  then show ?thesis using assms by (cases q) simp_all
next
  case (Paid m)
  show ?thesis
  proof (cases q)
    case Free
    then show ?thesis using assms Paid by simp
  next
    case (Paid n)
    then show ?thesis using assms \<open>p = Paid m\<close> digest_paid_inj [of m n] by (simp del: digest_price.simps)
  qed
qed

lemma digest_price_one_line: "CHR 0x0A \<notin> set (digest_price p)"
proof (cases p)
  case (Paid m)
  have "CHR 0x0A \<notin> set (signed_decimal (minor_units m))"
    by (rule signed_decimal_plain) (simp_all add: ascii_digit_def)
  moreover have "CHR 0x0A \<notin> set (currency_code c)" for c by (cases c) simp_all
  ultimately show ?thesis using Paid by simp
qed simp

definition digest_token :: "SellerTermChoice option \<Rightarrow> string" where
  "digest_token choice = (case choice of None \<Rightarrow> ''-'' | Some c \<Rightarrow> escape_token (tc_native_id c))"

lemma digest_token_one_line: "CHR 0x0A \<notin> set (digest_token choice)"
  by (simp add: digest_token_def escape_token_one_line split: option.split)

lemma digest_token_inj:
  "digest_token a = digest_token b \<Longrightarrow> map_option tc_native_id a \<noteq> Some ''-'' \<Longrightarrow>
     map_option tc_native_id b \<noteq> Some ''-'' \<Longrightarrow> map_option tc_native_id a = map_option tc_native_id b"
  using escape_token_inj [of _ "''-''"] escape_token_inj [of "''-''"]
  by (auto simp: digest_token_def split: option.splits dest: escape_token_inj)

lemma digest_lines:
  "digest_material f = ''price='' @ digest_price (fz_price f) @ [CHR 0x0A] @ ''licence='' @ digest_token (fz_licence f)
     @ [CHR 0x0A] @ ''resource_type='' @ digest_token (fz_resource_type f)"
  by (simp add: digest_material_def digest_choice_def digest_token_def)

text \<open>
  The digest of a frozen output separates what will be posted: two outputs with one digest
  have the same price, licence and resource type, provided no native id is the single dash the
  digest writes for an absent choice.
\<close>

theorem the_digest_separates_outputs:
  assumes "digest_material f = digest_material g"
    and "\<forall>c\<in>{fz_licence f, fz_licence g, fz_resource_type f, fz_resource_type g}.
      map_option tc_native_id c \<noteq> Some ''-''"
  shows "fz_price f = fz_price g \<and>
    map_option tc_native_id (fz_licence f) = map_option tc_native_id (fz_licence g) \<and>
    map_option tc_native_id (fz_resource_type f) = map_option tc_native_id (fz_resource_type g)"
proof -
  have eq: "digest_price (fz_price f) @ CHR 0x0A # ''licence='' @ digest_token (fz_licence f)
       @ CHR 0x0A # ''resource_type='' @ digest_token (fz_resource_type f)
     = digest_price (fz_price g) @ CHR 0x0A # ''licence='' @ digest_token (fz_licence g)
       @ CHR 0x0A # ''resource_type='' @ digest_token (fz_resource_type g)"
    using assms(1) by (simp add: digest_lines)
  have p: "digest_price (fz_price f) = digest_price (fz_price g)"
    and rest: "digest_token (fz_licence f) @ CHR 0x0A # ''resource_type='' @ digest_token (fz_resource_type f)
     = digest_token (fz_licence g) @ CHR 0x0A # ''resource_type='' @ digest_token (fz_resource_type g)"
    using eq by (simp_all add: cut_at digest_price_one_line)
  have "digest_token (fz_licence f) = digest_token (fz_licence g)"
    "digest_token (fz_resource_type f) = digest_token (fz_resource_type g)"
    using rest by (simp_all add: cut_at digest_token_one_line)
  then show ?thesis
    using assms(2) digest_price_inj [OF p] by (auto intro!: digest_token_inj)
qed

text \<open>The exception is reachable: a single dash is a resource type TPT admits.\<close>

lemma a_dash_is_not_nothing:
  "check_native_value Tpt ResourceType ''-'' = Inr ()"
  "digest_material (freeze (NO_FIELDS\<lparr>tf_resource_type := Some ''-''\<rparr>) Free author matches)
     = digest_material (freeze NO_FIELDS Free author matches)"
  by (simp_all add: check_native_value_def registries axis_of_def native_def TPT_AXES_def TPT_NATIVES_def
      is_tpt_tag_slug_def ascii_digit_def freeze_def NO_FIELDS_def digest_material_def digest_choice_def)

text \<open>
  The words a buyer reads are what the matcher reads: text an author escaped as markup comes
  back verbatim, and a tag between two such texts reads as one space and nothing of its inside.
\<close>

theorem visible_words_survive_the_markup:
  assumes "CHR ''<'' \<notin> set tag" and "CHR ''>'' \<notin> set tag"
  shows "visible_description \<lparr>lc_body = escape_markup a @ ''<'' @ tag @ ''>'' @ escape_markup b, lc_format = Html\<rparr>
    = a @ '' '' @ b"
proof -
  have strip: "strip_from False (x @ y) = x @ strip_from False y" if "CHR ''<'' \<notin> set x" for x y
    using that by (induction x) auto
  have decode: "decode_entities (escape_markup x @ y) = x @ decode_entities y" for x y
    by (induction x) (simp_all add: escape_markup_def decode_escape_char)
  have "strip_tags (escape_markup a @ ''<'' @ tag @ ''>'' @ escape_markup b)
      = escape_markup a @ CHR '' '' # escape_markup b"
    using assms by (simp add: strip_tags_def strip escape_no_tag strip_tag strip_no_tag)
  then show ?thesis
    by (simp add: visible_description_def decode decode_plain decode_escape)
qed

subsection \<open>Presets and witnesses\<close>

lemma presets_are_admissible:
  "list_all (\<lambda>p. validate_definition (rp_definition p) = Inr () \<and> sd_auto_apply (rp_definition p) = []) presets"
proof -
  have t: "trim ''TPT to Tes at a manual 0.75 estimate'' \<noteq> []"
    "trim ''Paid TPT resources take the Tes paid licence'' \<noteq> []"
    "trim ''Free TPT resources take CC-BY-ND on Tes'' \<noteq> []" "trim ''0.75'' = ''0.75''"
    by code_simp+
  show ?thesis
    by (simp add: presets_def manual_rate_preset_def paid_licence_preset_def free_licence_preset_def
        validate_definition_def t validate_conditions_def ANY_PRICE_def validate_action_def
        fixed_currency_def parse_rate_def parse_rate_eval check_native_value_def registries axis_of_def
        native_def TES_AXES_def TES_NATIVES_def check_licence_is_writable_def TES_LICENCE_FREE_def TES_LICENCE_PAID_def)
qed

definition sample_rendering :: Rendering where
  "sample_rendering = \<lparr>rd_lowercase = map to_ascii_lowercase, rd_debug = (\<lambda>s. s)\<rparr>"

definition sample_product :: CanonicalProduct where
  "sample_product = \<lparr>cp_id = ProductId (Uuid (replicate 16 0)), cp_org = OrgId (Uuid (replicate 16 1)),
     cp_title = ''Fractions'', cp_body = \<lparr>lc_body = ''Ten sheets.'', lc_format = Markdown\<rparr>, cp_payload = None,
     cp_cover = None, cp_previews = [], cp_subjects = [],
     cp_grades = \<lparr>gd_source = DeclSeller, gd_raw = [], gd_derived = None\<rparr>,
     cp_price = Free, cp_rights = Unstated, cp_native_residue = []\<rparr>"

definition sample_rule :: "u8 \<Rightarrow> RuleAction \<Rightarrow> SellerRuleRecord" where
  "sample_rule b action = \<lparr>sr_id = Uuid (replicate 15 0 @ [b]), sr_revision = 1,
     sr_definition = \<lparr>sd_title = ''rule'', sd_description = [], sd_enabled = True, sd_source = Tpt, sd_target = Tes,
       sd_auto_apply = [], sd_conditions = ANY_PRICE, sd_action = action\<rparr>,
     sr_author = UserId (Uuid (replicate 16 2)), sr_created_at = Timestamp 0, sr_updated_at = Timestamp 0\<rparr>"

lemma free_licence_checked:
  "checked_term Licence Tes ''CC-BY'' Free = Inr ()"
  by (simp add: checked_term_def check_native_value_def registries axis_of_def native_def TES_AXES_def
      TES_NATIVES_def check_licence_is_writable_def check_licence_against_price_def TES_LICENCE_FREE_def)

theorem the_licence_fits_the_price_witness:
  "\<exists>e. e = evaluate sample_rendering sample_product (Tpt, Tes) [] (NO_OVERRIDES\<lparr>ro_licence := Some ''CC-BY''\<rparr>) NO_FIELDS \<and>
     ev_blockers e = [] \<and> tf_licence (merge_over (ev_fields e) NO_FIELDS) = Some ''CC-BY'' \<and>
     (if listing_price sample_product (merge_over (ev_fields e) NO_FIELDS) = Free
      then ''CC-BY'' \<in> {''CC-BY'', ''CC-BY-ND'', ''CC-BY-SA''} else ''CC-BY'' = ''TES-PAID'')"
proof -
  define e where "e = evaluate sample_rendering sample_product (Tpt, Tes) [] (NO_OVERRIDES\<lparr>ro_licence := Some ''CC-BY''\<rparr>) NO_FIELDS"
  have e: "e = \<lparr>ev_fields = NO_FIELDS\<lparr>tf_licence := Some ''CC-BY''\<rparr>, ev_matches = [], ev_blockers = []\<rparr>"
    by (simp add: e_def evaluate_def resolve_price_def resolve_term_def NO_OVERRIDES_def NO_FIELDS_def
        sample_product_def free_licence_checked)
  have l: "tf_licence (merge_over (ev_fields e) NO_FIELDS) = Some ''CC-BY''" "ev_blockers e = []"
    by (simp_all add: e merge_over_def NO_FIELDS_def)
  from the_licence_fits_the_price [OF e_def l(2) refl l(1)] l show ?thesis
    unfolding e_def [symmetric] by blast
qed

definition dear_product :: CanonicalProduct where
  "dear_product = sample_product \<lparr>cp_price := Paid (MkMoney 10000000 Usd)\<rparr>"

lemma sample_rate: "parse_rate ''0.75'' = Inr 750000"
proof -
  have "trim ''0.75'' = ''0.75''" by code_simp
  then show ?thesis by (simp add: parse_rate_def parse_rate_eval)
qed

lemma sample_rule_valid: "validate_definition (sr_definition (sample_rule b (PricingAction ''0.75'' rounding reference))) = Inr ()"
proof -
  have "trim ''rule'' \<noteq> []" by code_simp
  then show ?thesis
    by (simp add: sample_rule_def validate_definition_def validate_conditions_def ANY_PRICE_def
        validate_action_def sample_rate fixed_currency_def)
qed


theorem rule_order_decides_nothing_witness:
  "ev_fields (evaluate sample_rendering sample_product (Tpt, Tes)
      [sample_rule 1 (PricingAction ''0.75'' Nearest None), sample_rule 2 (MappingAction (Some ''CC-BY'') None)]
      NO_OVERRIDES NO_FIELDS)
   = ev_fields (evaluate sample_rendering sample_product (Tpt, Tes)
      [sample_rule 2 (MappingAction (Some ''CC-BY'') None), sample_rule 1 (PricingAction ''0.75'' Nearest None)]
      NO_OVERRIDES NO_FIELDS)"
  by (rule rule_order_decides_nothing) auto

theorem the_digest_separates_outputs_witness:
  "\<exists>f g. digest_material f = digest_material g \<and> f \<noteq> g \<and> fz_price f = fz_price g \<and>
     map_option tc_native_id (fz_licence f) = Some ''TES-PAID'' \<and>
     map_option tc_native_id (fz_licence f) = map_option tc_native_id (fz_licence g)"
proof -
  define f where "f = freeze (NO_FIELDS\<lparr>tf_licence := Some ''TES-PAID''\<rparr>) Free (UserId (Uuid [])) []"
  define g where "g = freeze (NO_FIELDS\<lparr>tf_licence := Some ''TES-PAID''\<rparr>) Free (UserId (Uuid [1])) []"
  have d: "digest_material f = digest_material g" "f \<noteq> g"
    by (simp_all add: f_def g_def freeze_def NO_FIELDS_def digest_material_def digest_choice_def)
  have h: "\<forall>c\<in>{fz_licence f, fz_licence g, fz_resource_type f, fz_resource_type g}.
      map_option tc_native_id c \<noteq> Some ''-''" "map_option tc_native_id (fz_licence f) = Some ''TES-PAID''"
    by (simp_all add: f_def g_def freeze_def NO_FIELDS_def)
  from the_digest_separates_outputs [OF d(1) h(1)] d h(2) show ?thesis by blast
qed

theorem visible_words_survive_the_markup_witness:
  "visible_description \<lparr>lc_body = escape_markup ''2 < 3'' @ ''<'' @ ''b class=x'' @ ''>'' @ escape_markup ''& more'',
      lc_format = Html\<rparr> = ''2 < 3 & more''"
  by (subst visible_words_survive_the_markup) simp_all

end
