(* ===== verification/Projection.thy ===== *)
theory Projection
  imports Equivalence
begin

section \<open>Projecting an axis and ingesting a path (crate tam-taxonomy, project.rs)\<close>

text \<open>
  \<open>project\<close> decides one term on the edge set alone, \<open>project_terms\<close> folds a list of them,
  \<open>project_axis_with_overrides\<close> adds the target's cardinality and requiredness, the seller's
  overrides and the seller's answers, and \<open>ingest\<close> is the reverse of the exact relation. A loop
  over \<open>iter_mut\<close> with an early return is a recursion on the list.
\<close>

record BlockedTerm =
  bt_term :: CanonicalTermId
  bt_projection :: TermProjection

record TermsOutcome =
  to_included :: "VocabularyPath list"
  to_loss :: "TermProjection list"
  to_blocked :: "BlockedTerm list"
  to_omitted :: "CanonicalTermId list"

subsection \<open>Terms\<close>

definition push_distinct :: "VocabularyPath list \<Rightarrow> VocabularyPath \<Rightarrow> VocabularyPath list" where
  "push_distinct acc path = (if list_ex (\<lambda>seen. seen = path) acc then acc else acc @ [path])"

definition distinct_paths :: "VocabularyPath list \<Rightarrow> VocabularyPath list" where
  "distinct_paths paths = foldl push_distinct [] paths"

definition edges_of_kind ::
  "CanonicalTermId \<Rightarrow> VocabularyId \<Rightarrow> EdgeKind \<Rightarrow> ProjectionEdge list \<Rightarrow> VocabularyPath list" where
  "edges_of_kind term vocabulary kind edges =
     map pe_to (filter (\<lambda>e. pe_from e = term \<and> vp_vocabulary (pe_to e) = vocabulary \<and> pe_kind e = kind) edges)"

definition project :: "CanonicalTermId \<Rightarrow> VocabularyId \<Rightarrow> ProjectionEdge list \<Rightarrow> TermProjection" where
  "project term vocabulary edges =
     (let exact = edges_of_kind term vocabulary Exact edges;
          broader = edges_of_kind term vocabulary Broader edges;
          otherwise = TP_Ambiguous (distinct_paths (exact @ broader))
      in case (exact, broader) of
           ([], []) \<Rightarrow> TP_Absent
         | ([to], rest) \<Rightarrow> if list_all (\<lambda>p. p = to) rest then TP_Exact to else otherwise
         | ([], first # rest) \<Rightarrow>
             if list_all (\<lambda>p. p = first) rest then TP_Broadened first [term] else otherwise
         | _ \<Rightarrow> otherwise)"

definition push_new :: "CanonicalTermId list \<Rightarrow> CanonicalTermId \<Rightarrow> CanonicalTermId list" where
  "push_new seen term = (if term \<in> set seen then seen else seen @ [term])"

fun merge_loss ::
  "TermProjection list \<Rightarrow> VocabularyPath \<Rightarrow> CanonicalTermId list \<Rightarrow> TermProjection list" where
  "merge_loss [] target dropped = [TP_Broadened target dropped]"
| "merge_loss (TP_Broadened to seen # rest) target dropped =
     (if to = target then TP_Broadened to (foldl push_new seen dropped) # rest
      else TP_Broadened to seen # merge_loss rest target dropped)"
| "merge_loss (entry # rest) target dropped = entry # merge_loss rest target dropped"

definition add_term ::
  "VocabularyId \<Rightarrow> ProjectionEdge list \<Rightarrow> (CanonicalTermId \<times> VocabularyId) list \<Rightarrow> TermsOutcome
     \<Rightarrow> CanonicalTermId \<Rightarrow> TermsOutcome" where
  "add_term vocabulary edges no_counterparts o' term =
     (case project term vocabulary edges of
        TP_Exact to \<Rightarrow> o'\<lparr>to_included := push_distinct (to_included o') to\<rparr>
      | TP_Broadened to dropped \<Rightarrow>
          o'\<lparr>to_included := push_distinct (to_included o') to,
             to_loss := merge_loss (to_loss o') to dropped\<rparr>
      | TP_Ambiguous candidates \<Rightarrow>
          o'\<lparr>to_blocked := to_blocked o' @ [\<lparr>bt_term = term, bt_projection = TP_Ambiguous candidates\<rparr>]\<rparr>
      | TP_Absent \<Rightarrow>
          if list_ex (\<lambda>(recorded, target). recorded = term \<and> target = vocabulary) no_counterparts
          then o'\<lparr>to_omitted := to_omitted o' @ [term]\<rparr>
          else o'\<lparr>to_blocked := to_blocked o' @ [\<lparr>bt_term = term, bt_projection = TP_Absent\<rparr>]\<rparr>)"

definition project_terms ::
  "CanonicalTermId list \<Rightarrow> VocabularyId \<Rightarrow> ProjectionEdge list \<Rightarrow> (CanonicalTermId \<times> VocabularyId) list
     \<Rightarrow> TermsOutcome" where
  "project_terms terms vocabulary edges no_counterparts =
     foldl (add_term vocabulary edges no_counterparts)
       \<lparr>to_included = [], to_loss = [], to_blocked = [], to_omitted = []\<rparr> terms"

subsection \<open>Axes\<close>

record AxisRequest =
  ar_product :: ProductId
  ar_inventory :: InventoryId
  ar_binding :: AxisBinding
  ar_terms :: "CanonicalTermId list"
  ar_sources :: "VocabularyPath list"
  ar_pricing :: PricingBranch
  ar_rules :: "ElectionRule list"
  ar_settled :: "SettledElection list"

definition target_of :: "AxisRequest \<Rightarrow> VocabularyId" where
  "target_of r = VocabularyId (ar_inventory r) (ab_axis (ar_binding r))"

definition requires_a_value :: "AxisRequest \<Rightarrow> bool" where
  "requires_a_value r =
     (case native (registry (ar_inventory r)) (ab_native (ar_binding r)) of
        None \<Rightarrow> False | Some n \<Rightarrow> nf_required n)"

text \<open>\<open>elect_over_cardinality\<close> takes the resolved set into the election: the second component is what is left.\<close>

definition elect_over_cardinality ::
  "Cardinality \<Rightarrow> VocabularyPath list \<Rightarrow> ElectionTrigger option \<times> VocabularyPath list" where
  "elect_over_cardinality cardinality resolved =
     (case cardinality of
        One \<Rightarrow> if length resolved > 1 then (Some (ElectOne resolved), []) else (None, resolved)
      | Many (Some cap) \<Rightarrow>
          if length resolved > ccap_limit cap then (Some (OverCap (ccap_limit cap) resolved), [])
          else (None, resolved)
      | Many None \<Rightarrow> (None, resolved))"

fun merge_axis_loss :: "Loss list \<Rightarrow> VocabularyPath \<Rightarrow> CanonicalTermId \<Rightarrow> Loss list" where
  "merge_axis_loss [] to dropped = [Loss_Broadened to [dropped]]"
| "merge_axis_loss (Loss_Broadened at terms # rest) to dropped =
     (if at = to then Loss_Broadened at (push_new terms dropped) # rest
      else Loss_Broadened at terms # merge_axis_loss rest to dropped)"
| "merge_axis_loss (entry # rest) to dropped = entry # merge_axis_loss rest to dropped"

fun broadening :: "TermProjection \<Rightarrow> Loss option" where
  "broadening (TP_Broadened to dropped) = Some (Loss_Broadened to dropped)"
| "broadening (TP_Exact to) = None"
| "broadening (TP_Ambiguous c) = None"
| "broadening TP_Absent = None"

definition narrowing :: "BlockedTerm \<Rightarrow> AxisRequest \<Rightarrow> ProjectionEdge list \<Rightarrow> ElectionTrigger option" where
  "narrowing blocked r edges =
     (if bt_projection blocked \<noteq> TP_Absent then None
      else (case position (\<lambda>t. t = bt_term blocked) (ar_terms r) of
              None \<Rightarrow> None
            | Some index \<Rightarrow>
                (case get_at (ar_sources r) index of
                   None \<Rightarrow> None
                 | Some from \<Rightarrow>
                     let candidates = distinct_paths (edges_of_kind (bt_term blocked) (target_of r) Narrower edges)
                     in if candidates = [] then None else Some (Narrow from candidates))))"

definition with_native_id :: "VocabularyPath \<Rightarrow> VocabularyId \<Rightarrow> ProjectionEdge list \<Rightarrow> VocabularyPath" where
  "with_native_id path target edges =
     (if vp_native_id path \<noteq> None \<or> vp_vocabulary path \<noteq> target then path
      else (case List.map_filter (\<lambda>e. vp_native_id (pe_to e))
                   (filter (\<lambda>e. pe_kind e = Exact \<and> vp_vocabulary (pe_to e) = target
                      \<and> vp_segments (pe_to e) = vp_segments path) edges) of
              [] \<Rightarrow> path
            | n # others \<Rightarrow>
                if list_ex (\<lambda>other. other \<noteq> n) others then path
                else path\<lparr>vp_native_id := Some n\<rparr>))"

fun named_answer :: "VocabularyId \<Rightarrow> ProjectionEdge list \<Rightarrow> ElectionAnswer \<Rightarrow> ElectionAnswer" where
  "named_answer target edges (AnswerValue path) = AnswerValue (with_native_id path target edges)"
| "named_answer target edges (AnswerOrdering prefer) =
     AnswerOrdering (map (\<lambda>p. with_native_id p target edges) prefer)"
| "named_answer target edges AnswerDelegate = AnswerDelegate"

definition resolved_against ::
  "ElectionTrigger \<Rightarrow> ElectionAnswer \<Rightarrow> VocabularyId \<Rightarrow> ProjectionEdge list \<Rightarrow> VocabularyPath list option" where
  "resolved_against trigger answer target edges = resolved_by trigger (named_answer target edges answer)"

definition raise_election :: "AxisRequest \<Rightarrow> ElectionTrigger \<Rightarrow> Election" where
  "raise_election r trigger =
     \<lparr>el_product = ar_product r, el_inventory = ar_inventory r, el_axis = ab_axis (ar_binding r),
      el_trigger = trigger\<rparr>"

definition find_override ::
  "AxisRequest \<Rightarrow> ProjectionOverride list \<Rightarrow> CanonicalTermId \<Rightarrow> ProjectionOverride option" where
  "find_override r overrides term =
     List.find (\<lambda>e. override_answers e (ar_inventory r) (ab_axis (ar_binding r)) term) overrides"

text \<open>The three loops of \<open>project_axis_with_overrides\<close>: overrides, blocked terms, answers.\<close>

definition apply_override :: "AxisOutcome \<Rightarrow> ProjectionOverride \<Rightarrow> AxisOutcome" where
  "apply_override o' entry =
     (let o1 = o'\<lparr>ao_resolved := push_distinct (ao_resolved o') (po_to entry)\<rparr>
      in if po_kind entry = OK_Broader
         then o1\<lparr>ao_loss := merge_axis_loss (ao_loss o1) (po_to entry) (po_from entry)\<rparr> else o1)"

definition raise_blocked :: "AxisRequest \<Rightarrow> ProjectionEdge list \<Rightarrow> AxisOutcome \<Rightarrow> BlockedTerm \<Rightarrow> AxisOutcome" where
  "raise_blocked r edges o' blocked =
     (case narrowing blocked r edges of
        Some trigger \<Rightarrow> o'\<lparr>ao_elections := ao_elections o' @ [raise_election r trigger]\<rparr>
      | None \<Rightarrow> o'\<lparr>ao_gaps := ao_gaps o' @ [\<lparr>vg_term = bt_term blocked, vg_target = target_of r,
                  vg_projection = bt_projection blocked\<rparr>]\<rparr>)"

definition decision ::
  "AxisRequest \<Rightarrow> ProjectionEdge list \<Rightarrow> Election \<Rightarrow> VocabularyPath list option" where
  "decision r edges election =
     or_else
       (case settled_by (ar_settled r) election of
          None \<Rightarrow> None
        | Some chosen \<Rightarrow>
            resolved_against (el_trigger election) (AnswerOrdering chosen) (target_of r) edges)
       (case satisfied_by (ar_rules r) election of
          None \<Rightarrow> None
        | Some answer \<Rightarrow> resolved_against (el_trigger election) answer (target_of r) edges)"

fun settle_elections ::
  "AxisRequest \<Rightarrow> ProjectionEdge list \<Rightarrow> VocabularyPath list \<Rightarrow> Election list
     \<Rightarrow> VocabularyPath list \<times> Election list" where
  "settle_elections r edges resolved [] = (resolved, [])"
| "settle_elections r edges resolved (e # es) =
     (case decision r edges e of
        Some paths \<Rightarrow> settle_elections r edges (foldl push_distinct resolved paths) es
      | None \<Rightarrow>
          (let (resolved', standing) = settle_elections r edges resolved es in (resolved', e # standing)))"

definition axis_before_answers ::
  "AxisRequest \<Rightarrow> ProjectionEdge list \<Rightarrow> (CanonicalTermId \<times> VocabularyId) list
     \<Rightarrow> ProjectionOverride list \<Rightarrow> AxisOutcome" where
  "axis_before_answers r edges no_counterparts overrides =
     (let overridden = List.map_filter (find_override r overrides) (ar_terms r);
          left = filter (\<lambda>t. find_override r overrides t = None) (ar_terms r);
          terms = project_terms left (target_of r) edges no_counterparts;
          o1 = \<lparr>ao_resolved = to_included terms, ao_loss = List.map_filter broadening (to_loss terms),
                ao_gaps = [], ao_elections = [], ao_unrecognised = [], ao_omitted = to_omitted terms,
                ao_decided_by_seller = (overridden \<noteq> [])\<rparr>;
          o2 = foldl apply_override o1 overridden;
          o3 = foldl (raise_blocked r edges) o2 (to_blocked terms);
          (trigger, resolved) = elect_over_cardinality (ab_cardinality (ar_binding r)) (ao_resolved o3);
          o4 = o3\<lparr>ao_resolved := resolved\<rparr>
      in case trigger of
           Some t \<Rightarrow> o4\<lparr>ao_elections := ao_elections o4 @ [raise_election r t]\<rparr>
         | None \<Rightarrow>
             if requires_a_value r \<and> ar_terms r = []
             then o4\<lparr>ao_elections := ao_elections o4 @ [raise_election r (Supply (ar_pricing r))]\<rparr>
             else o4)"

definition project_axis_with_overrides ::
  "AxisRequest \<Rightarrow> ProjectionEdge list \<Rightarrow> (CanonicalTermId \<times> VocabularyId) list
     \<Rightarrow> ProjectionOverride list \<Rightarrow> AxisOutcome" where
  "project_axis_with_overrides r edges no_counterparts overrides =
     (let o' = axis_before_answers r edges no_counterparts overrides;
          (resolved, standing) = settle_elections r edges (ao_resolved o') (ao_elections o')
      in o'\<lparr>ao_resolved := resolved, ao_elections := standing\<rparr>)"

definition project_axis ::
  "AxisRequest \<Rightarrow> ProjectionEdge list \<Rightarrow> (CanonicalTermId \<times> VocabularyId) list \<Rightarrow> AxisOutcome" where
  "project_axis r edges no_counterparts = project_axis_with_overrides r edges no_counterparts []"

subsection \<open>Ingest\<close>

fun ingest_from :: "CanonicalTermId option \<Rightarrow> VocabularyPath \<Rightarrow> ProjectionEdge list \<Rightarrow> CanonicalTermId option" where
  "ingest_from found path [] = found"
| "ingest_from found path (edge # edges) =
     (if pe_kind edge \<noteq> Exact then ingest_from found path edges
      else if vp_vocabulary (pe_to edge) \<noteq> vp_vocabulary path \<or> vp_segments (pe_to edge) \<noteq> vp_segments path
      then ingest_from found path edges
      else (case found of
              Some claimed \<Rightarrow> if claimed \<noteq> pe_from edge then None else ingest_from found path edges
            | None \<Rightarrow> ingest_from (Some (pe_from edge)) path edges))"

definition ingest :: "VocabularyPath \<Rightarrow> ProjectionEdge list \<Rightarrow> CanonicalTermId option" where
  "ingest path edges = ingest_from None path edges"

definition ingest_by_native_id :: "string \<Rightarrow> VocabularyId \<Rightarrow> ProjectionEdge list \<Rightarrow> CanonicalTermId option" where
  "ingest_by_native_id native_id vocabulary edges =
     (case filter (\<lambda>e. pe_kind e = Exact \<and> vp_vocabulary (pe_to e) = vocabulary
             \<and> vp_native_id (pe_to e) = Some native_id) edges of
        [first] \<Rightarrow> Some (pe_from first)
      | _ \<Rightarrow> None)"

record GradeIngest =
  gi_terms :: "CanonicalTermId list"
  gi_sources :: "VocabularyPath list"
  gi_unrecognised :: "VocabularyPath list"

definition recognise_term :: "ProjectionEdge list \<Rightarrow> VocabularyPath \<Rightarrow> CanonicalTermId option" where
  "recognise_term edges path =
     (case vp_native_id path of
        Some i \<Rightarrow> ingest_by_native_id i (vp_vocabulary path) edges
      | None \<Rightarrow> ingest path edges)"

fun ingest_paths :: "ProjectionEdge list \<Rightarrow> VocabularyPath list \<Rightarrow> GradeIngest" where
  "ingest_paths edges [] = \<lparr>gi_terms = [], gi_sources = [], gi_unrecognised = []\<rparr>"
| "ingest_paths edges (path # rest) =
     (let g = ingest_paths edges rest
      in case recognise_term edges path of
           Some term \<Rightarrow> g\<lparr>gi_terms := term # gi_terms g, gi_sources := path # gi_sources g\<rparr>
         | None \<Rightarrow> g\<lparr>gi_unrecognised := path # gi_unrecognised g\<rparr>)"

definition ingest_grades :: "GradeDeclaration \<Rightarrow> ProjectionEdge list \<Rightarrow> GradeIngest" where
  "ingest_grades declaration edges = ingest_paths edges (gd_raw declaration)"

end
