(* ===== verification/ProjectionSafety.thy ===== *)
theory ProjectionSafety
  imports Projection
begin

section \<open>What a projection may and may not do\<close>

text \<open>
  The lemmas that say what each loop of \<open>project_axis_with_overrides\<close> contributes, and the
  properties of the whole: it invents nothing, it loses nothing, it keeps the target's
  cardinality except for the seller's own answers, and the two directions invert each other.
\<close>

subsection \<open>Sets of paths\<close>

lemma set_push_distinct [simp]: "set (push_distinct acc p) = insert p (set acc)"
  by (auto simp: push_distinct_def list_ex_iff)

lemma set_foldl_push [simp]: "set (foldl push_distinct acc ps) = set acc \<union> set ps"
  by (induction ps arbitrary: acc) auto

lemma set_distinct_paths [simp]: "set (distinct_paths ps) = set ps"
  by (simp add: distinct_paths_def)

lemma distinct_push: "distinct acc \<Longrightarrow> distinct (push_distinct acc p)"
  by (auto simp: push_distinct_def list_ex_iff)

lemma distinct_foldl_push: "distinct acc \<Longrightarrow> distinct (foldl push_distinct acc ps)"
  by (induction ps arbitrary: acc) (auto simp: distinct_push)

lemma edges_of_kind_iff:
  "p \<in> set (edges_of_kind t v k es) \<longleftrightarrow>
     (\<exists>e\<in>set es. pe_from e = t \<and> pe_to e = p \<and> vp_vocabulary p = v \<and> pe_kind e = k)"
  by (auto simp: edges_of_kind_def)

subsection \<open>One term\<close>

lemma project_shape:
  "(case (ex, br) of
       ([], []) \<Rightarrow> TP_Absent
     | ([to], rest) \<Rightarrow> if list_all (\<lambda>p. p = to) rest then TP_Exact to else out
     | ([], first # rest) \<Rightarrow> if list_all (\<lambda>p. p = first) rest then TP_Broadened first [t] else out
     | _ \<Rightarrow> out) =
   (if ex = [] \<and> br = [] then TP_Absent
    else if length ex = 1 \<and> (\<forall>p\<in>set br. p = hd ex) then TP_Exact (hd ex)
    else if ex = [] \<and> (\<forall>p\<in>set br. p = hd br) then TP_Broadened (hd br) [t]
    else out)"
proof (cases ex)
  case Nil
  then show ?thesis by (cases br) (simp_all add: list_all_iff)
next
  case (Cons a as)
  then show ?thesis by (cases as) (simp_all add: list_all_iff)
qed

lemma project_cases:
  "project t v es =
     (let ex = edges_of_kind t v Exact es; br = edges_of_kind t v Broader es in
      if ex = [] \<and> br = [] then TP_Absent
      else if length ex = 1 \<and> (\<forall>p\<in>set br. p = hd ex) then TP_Exact (hd ex)
      else if ex = [] \<and> (\<forall>p\<in>set br. p = hd br) then TP_Broadened (hd br) [t]
      else TP_Ambiguous (distinct_paths (ex @ br)))"
  unfolding project_def Let_def project_shape by (rule refl)

lemma project_Exact:
  "project t v es = TP_Exact p \<longleftrightarrow>
     edges_of_kind t v Exact es = [p] \<and> (\<forall>q\<in>set (edges_of_kind t v Broader es). q = p)"
  by (auto simp: project_cases Let_def length_Suc_conv split: if_splits)

lemma project_Broadened:
  "project t v es = TP_Broadened p d \<longleftrightarrow>
     edges_of_kind t v Exact es = [] \<and> edges_of_kind t v Broader es \<noteq> [] \<and>
     (\<forall>q\<in>set (edges_of_kind t v Broader es). q = p) \<and> d = [t]"
  by (auto simp: project_cases Let_def length_Suc_conv neq_Nil_conv split: if_splits)

lemma project_Absent:
  "project t v es = TP_Absent \<longleftrightarrow>
     edges_of_kind t v Exact es = [] \<and> edges_of_kind t v Broader es = []"
  by (auto simp: project_cases Let_def split: if_splits)

text \<open>\<open>carries es v t p\<close>: the relation carries \<open>t\<close> as \<open>p\<close>, exactly or broadened.\<close>

definition carries :: "ProjectionEdge list \<Rightarrow> VocabularyId \<Rightarrow> CanonicalTermId \<Rightarrow> VocabularyPath \<Rightarrow> bool" where
  "carries es v t p \<longleftrightarrow> project t v es = TP_Exact p \<or> (\<exists>d. project t v es = TP_Broadened p d)"

lemma carries_edge:
  "carries es v t p \<Longrightarrow> \<exists>e\<in>set es. pe_from e = t \<and> pe_to e = p \<and> vp_vocabulary p = v \<and>
     (pe_kind e = Exact \<or> pe_kind e = Broader)"
  using edges_of_kind_iff [of p t v Exact es] edges_of_kind_iff [of p t v Broader es]
  by (auto simp: carries_def project_Exact project_Broadened neq_Nil_conv)

subsection \<open>A list of terms\<close>

lemma project_terms_Nil [simp]:
  "project_terms [] v es nc = \<lparr>to_included = [], to_loss = [], to_blocked = [], to_omitted = []\<rparr>"
  by (simp add: project_terms_def)

lemma project_terms_snoc [simp]:
  "project_terms (ts @ [t]) v es nc = add_term v es nc (project_terms ts v es nc) t"
  by (simp add: project_terms_def)

definition no_counterpart :: "(CanonicalTermId \<times> VocabularyId) list \<Rightarrow> VocabularyId \<Rightarrow> CanonicalTermId \<Rightarrow> bool" where
  "no_counterpart nc v t \<longleftrightarrow> (t, v) \<in> set nc"

lemma no_counterpart_ex:
  "list_ex (\<lambda>(recorded, target). recorded = t \<and> target = v) nc \<longleftrightarrow> no_counterpart nc v t"
  by (auto simp: list_ex_iff no_counterpart_def)

lemma included_iff: "p \<in> set (to_included (project_terms ts v es nc)) \<longleftrightarrow> (\<exists>t\<in>set ts. carries es v t p)"
  by (induction ts rule: rev_induct)
    (auto simp: add_term_def no_counterpart_ex carries_def split: TermProjection.splits)

lemma included_distinct: "distinct (to_included (project_terms ts v es nc))"
  by (induction ts rule: rev_induct)
    (auto simp: add_term_def distinct_push no_counterpart_ex split: TermProjection.splits)

lemma blocked_iff:
  "b \<in> set (to_blocked (project_terms ts v es nc)) \<longleftrightarrow>
     (\<exists>t\<in>set ts. b = \<lparr>bt_term = t, bt_projection = project t v es\<rparr> \<and>
        ((\<exists>c. project t v es = TP_Ambiguous c) \<or> (project t v es = TP_Absent \<and> \<not> no_counterpart nc v t)))"
  by (induction ts rule: rev_induct)
    (auto simp: add_term_def no_counterpart_ex split: TermProjection.splits)

lemma omitted_iff:
  "t \<in> set (to_omitted (project_terms ts v es nc)) \<longleftrightarrow>
     t \<in> set ts \<and> project t v es = TP_Absent \<and> no_counterpart nc v t"
  by (induction ts rule: rev_induct)
    (auto simp: add_term_def no_counterpart_ex split: TermProjection.splits)

lemma term_cases:
  "(\<exists>p. carries es v t p) \<or> (\<exists>c. project t v es = TP_Ambiguous c) \<or> project t v es = TP_Absent"
  by (cases "project t v es") (auto simp: carries_def)

subsection \<open>An axis before the seller's answers\<close>

definition overridden :: "AxisRequest \<Rightarrow> ProjectionOverride list \<Rightarrow> ProjectionOverride list" where
  "overridden r overrides = List.map_filter (find_override r overrides) (ar_terms r)"

definition left_over :: "AxisRequest \<Rightarrow> ProjectionOverride list \<Rightarrow> CanonicalTermId list" where
  "left_over r overrides = filter (\<lambda>t. find_override r overrides t = None) (ar_terms r)"

definition relation_terms where
  "relation_terms r edges nc overrides = project_terms (left_over r overrides) (target_of r) edges nc"

definition candidates_for :: "AxisRequest \<Rightarrow> ProjectionEdge list \<Rightarrow> (CanonicalTermId \<times> VocabularyId) list
    \<Rightarrow> ProjectionOverride list \<Rightarrow> VocabularyPath list" where
  "candidates_for r edges nc overrides =
     foldl push_distinct (to_included (relation_terms r edges nc overrides))
       (map po_to (overridden r overrides))"

lemma foldl_apply_override:
  "ao_resolved (foldl apply_override o' es) = foldl push_distinct (ao_resolved o') (map po_to es)"
  "ao_gaps (foldl apply_override o' es) = ao_gaps o'"
  "ao_elections (foldl apply_override o' es) = ao_elections o'"
  "ao_omitted (foldl apply_override o' es) = ao_omitted o'"
  "ao_decided_by_seller (foldl apply_override o' es) = ao_decided_by_seller o'"
  by (induction es arbitrary: o') (simp_all add: apply_override_def Let_def)

lemma foldl_raise_blocked:
  "ao_resolved (foldl (raise_blocked r edges) o' bs) = ao_resolved o'"
  "ao_omitted (foldl (raise_blocked r edges) o' bs) = ao_omitted o'"
  "ao_elections (foldl (raise_blocked r edges) o' bs) =
     ao_elections o' @ map (raise_election r) (List.map_filter (\<lambda>b. narrowing b r edges) bs)"
  "ao_gaps (foldl (raise_blocked r edges) o' bs) =
     ao_gaps o' @ map (\<lambda>b. \<lparr>vg_term = bt_term b, vg_target = target_of r, vg_projection = bt_projection b\<rparr>)
       (filter (\<lambda>b. narrowing b r edges = None) bs)"
  "ao_decided_by_seller (foldl (raise_blocked r edges) o' bs) = ao_decided_by_seller o'"
  by (induction bs arbitrary: o') (simp_all add: raise_blocked_def split: option.splits)

definition blocked_triggers where
  "blocked_triggers r edges nc overrides =
     List.map_filter (\<lambda>b. narrowing b r edges) (to_blocked (relation_terms r edges nc overrides))"

definition set_triggers :: "AxisRequest \<Rightarrow> ProjectionEdge list \<Rightarrow> (CanonicalTermId \<times> VocabularyId) list
    \<Rightarrow> ProjectionOverride list \<Rightarrow> ElectionTrigger list" where
  "set_triggers r edges nc overrides =
     (case fst (elect_over_cardinality (ab_cardinality (ar_binding r)) (candidates_for r edges nc overrides)) of
        Some t \<Rightarrow> [t]
      | None \<Rightarrow> if requires_a_value r \<and> ar_terms r = [] then [Supply (ar_pricing r)] else [])"

lemma axis_before_answers:
  "ao_resolved (axis_before_answers r edges nc overrides) =
     snd (elect_over_cardinality (ab_cardinality (ar_binding r)) (candidates_for r edges nc overrides))"
  "ao_elections (axis_before_answers r edges nc overrides) =
     map (raise_election r) (blocked_triggers r edges nc overrides @ set_triggers r edges nc overrides)"
  "ao_gaps (axis_before_answers r edges nc overrides) =
     map (\<lambda>b. \<lparr>vg_term = bt_term b, vg_target = target_of r, vg_projection = bt_projection b\<rparr>)
       (filter (\<lambda>b. narrowing b r edges = None) (to_blocked (relation_terms r edges nc overrides)))"
  "ao_omitted (axis_before_answers r edges nc overrides) = to_omitted (relation_terms r edges nc overrides)"
  "ao_decided_by_seller (axis_before_answers r edges nc overrides) \<longleftrightarrow> overridden r overrides \<noteq> []"
  by (simp_all add: axis_before_answers_def Let_def relation_terms_def left_over_def overridden_def
      candidates_for_def blocked_triggers_def set_triggers_def foldl_apply_override foldl_raise_blocked
      split: prod.splits option.splits)

subsection \<open>The answers\<close>

lemma settle_standing:
  "snd (settle_elections r edges res es) = filter (\<lambda>e. decision r edges e = None) es"
  by (induction es arbitrary: res) (auto split: option.splits prod.splits simp: case_prod_unfold Let_def)

lemma settle_resolved:
  "set (fst (settle_elections r edges res es)) =
     set res \<union> {p. \<exists>e\<in>set es. \<exists>paths. decision r edges e = Some paths \<and> p \<in> set paths}"
  by (induction es arbitrary: res) (auto split: option.splits prod.splits simp: case_prod_unfold Let_def)

lemma settled_outcome:
  "ao_resolved (project_axis_with_overrides r edges nc ov) =
     fst (settle_elections r edges (ao_resolved (axis_before_answers r edges nc ov))
       (ao_elections (axis_before_answers r edges nc ov)))"
  "ao_elections (project_axis_with_overrides r edges nc ov) =
     filter (\<lambda>e. decision r edges e = None) (ao_elections (axis_before_answers r edges nc ov))"
  "ao_gaps (project_axis_with_overrides r edges nc ov) = ao_gaps (axis_before_answers r edges nc ov)"
  "ao_omitted (project_axis_with_overrides r edges nc ov) = ao_omitted (axis_before_answers r edges nc ov)"
  "ao_loss (project_axis_with_overrides r edges nc ov) = ao_loss (axis_before_answers r edges nc ov)"
  by (simp_all add: project_axis_with_overrides_def Let_def case_prod_unfold settle_standing)

lemma elect_over_cases:
  "elect_over_cardinality c paths = (None, paths) \<or>
   elect_over_cardinality c paths = (Some (ElectOne paths), []) \<or>
   (\<exists>cap. c = Many (Some cap) \<and> elect_over_cardinality c paths = (Some (OverCap (ccap_limit cap) paths), []))"
  by (auto simp: elect_over_cardinality_def split: Cardinality.splits option.splits)

lemma overridden_paths:
  "p \<in> po_to ` set (overridden r ov) \<longleftrightarrow>
     (\<exists>t\<in>set (ar_terms r). \<exists>entry. find_override r ov t = Some entry \<and> po_to entry = p)"
  unfolding overridden_def image_iff Bex_def set_map_filter_iff by blast

lemma candidates_iff:
  "p \<in> set (candidates_for r edges nc ov) \<longleftrightarrow>
     (\<exists>t\<in>set (ar_terms r). find_override r ov t = None \<and> carries edges (target_of r) t p) \<or>
     (\<exists>t\<in>set (ar_terms r). \<exists>entry. find_override r ov t = Some entry \<and> po_to entry = p)"
proof -
  have "p \<in> set (candidates_for r edges nc ov) \<longleftrightarrow>
      (\<exists>t\<in>set (left_over r ov). carries edges (target_of r) t p) \<or> p \<in> po_to ` set (overridden r ov)"
    by (simp add: candidates_for_def relation_terms_def included_iff)
  then show ?thesis unfolding overridden_paths left_over_def by auto
qed

lemma before_answers_subset:
  "set (ao_resolved (axis_before_answers r edges nc ov)) \<subseteq> set (candidates_for r edges nc ov)"
  using elect_over_cases [of "ab_cardinality (ar_binding r)" "candidates_for r edges nc ov"]
  by (auto simp: axis_before_answers)

subsection \<open>What the seller said\<close>

text \<open>
  The seller's words on an election: the answer settled for this very election, or the standing rule for its kind.
  \<open>spelt_like\<close>: a value carries the vocabulary and the segments of the one they wrote, under the identifier they gave, or,
  where they gave none, under one an exact edge of that spelling carries.
\<close>

definition seller_said :: "AxisRequest \<Rightarrow> Election \<Rightarrow> ElectionAnswer \<Rightarrow> bool" where
  "seller_said r e answer \<longleftrightarrow>
     (\<exists>s\<in>set (ar_settled r). settled_answers s e \<and> answer = AnswerOrdering (st_chosen s))
   \<or> (\<exists>rule\<in>set (ar_rules r). rule_answers rule e \<and> answer = er_answer rule)"

fun answer_values :: "ElectionAnswer \<Rightarrow> VocabularyPath list" where
  "answer_values (AnswerValue path) = [path]"
| "answer_values (AnswerOrdering prefer) = prefer"
| "answer_values AnswerDelegate = []"

definition spelt_like :: "ProjectionEdge list \<Rightarrow> VocabularyPath \<Rightarrow> VocabularyPath \<Rightarrow> bool" where
  "spelt_like edges q p \<longleftrightarrow> vp_vocabulary p = vp_vocabulary q \<and> vp_segments p = vp_segments q \<and>
     (vp_native_id p = vp_native_id q \<or>
      vp_native_id q = None \<and>
        (\<exists>e\<in>set edges. pe_kind e = Exact \<and> vp_segments (pe_to e) = vp_segments q \<and> vp_native_id (pe_to e) = vp_native_id p))"

lemma native_named: "spelt_like edges q (with_native_id q target edges)"
proof (cases "vp_native_id q \<noteq> None \<or> vp_vocabulary q \<noteq> target")
  case False
  let ?ids = "List.map_filter (\<lambda>e. vp_native_id (pe_to e))
    (filter (\<lambda>e. pe_kind e = Exact \<and> vp_vocabulary (pe_to e) = target \<and> vp_segments (pe_to e) = vp_segments q) edges)"
  show ?thesis
  proof (cases ?ids)
    case Nil
    with False show ?thesis by (simp add: with_native_id_def spelt_like_def)
  next
    case (Cons n ns)
    then have "n \<in> set ?ids" by simp
    then have "\<exists>e\<in>set edges. pe_kind e = Exact \<and> vp_segments (pe_to e) = vp_segments q \<and> vp_native_id (pe_to e) = Some n"
      unfolding set_map_filter_iff by auto
    with False Cons show ?thesis by (auto simp: with_native_id_def spelt_like_def)
  qed
qed (auto simp: with_native_id_def spelt_like_def)

lemma decided_by_seller:
  assumes "decision r edges e = Some paths"
  shows "\<exists>answer. seller_said r e answer \<and> resolved_against (el_trigger e) answer (target_of r) edges = Some paths"
  using assms
  by (auto simp: decision_def or_else_def seller_said_def split: option.splits
      dest!: settled.lookup_Some rules.lookup_Some)

lemma among_kept: "among offer chosen cap = Some kept \<Longrightarrow> p \<in> set kept \<Longrightarrow> p \<in> set offer \<and> p \<in> set chosen"
  using among_Some [of offer chosen cap kept] by blast

lemma resolved_written:
  assumes "resolved_against trigger answer target edges = Some paths" "p \<in> set paths"
  shows "(\<exists>q\<in>set (answer_values answer). spelt_like edges q p)
    \<and> (case offered trigger of None \<Rightarrow> True | Some (offer, cap) \<Rightarrow> p \<in> set offer)"
proof -
  have "(\<exists>q\<in>set (answer_values answer). p = with_native_id q target edges)
      \<and> (case offered trigger of None \<Rightarrow> True | Some (offer, cap) \<Rightarrow> p \<in> set offer)"
    using assms unfolding resolved_against_def
    by (cases "(trigger, answer)" rule: resolved_by.cases) (auto split: list.splits dest!: among_kept)
  then show ?thesis using native_named by auto
qed

text \<open>\<open>led_to\<close>: an edge of one of the kinds leads from a term of the request nobody overrode to the value.\<close>

definition led_to :: "AxisRequest \<Rightarrow> ProjectionEdge list \<Rightarrow> ProjectionOverride list \<Rightarrow> EdgeKind set \<Rightarrow> VocabularyPath \<Rightarrow> bool" where
  "led_to r edges overrides kinds p \<longleftrightarrow>
     (\<exists>t\<in>set (ar_terms r). find_override r overrides t = None \<and>
        (\<exists>e\<in>set edges. pe_from e = t \<and> pe_to e = p \<and> vp_vocabulary p = target_of r \<and> pe_kind e \<in> kinds))"

definition override_names :: "AxisRequest \<Rightarrow> ProjectionOverride list \<Rightarrow> VocabularyPath \<Rightarrow> bool" where
  "override_names r overrides p \<longleftrightarrow>
     (\<exists>t\<in>set (ar_terms r). \<exists>entry. find_override r overrides t = Some entry \<and> po_to entry = p)"

lemma led_to_mono: "kinds \<subseteq> kinds' \<Longrightarrow> led_to r edges overrides kinds p \<Longrightarrow> led_to r edges overrides kinds' p"
  by (auto simp: led_to_def)

lemma candidate_mapped:
  "p \<in> set (candidates_for r edges nc overrides) \<Longrightarrow> led_to r edges overrides {Exact, Broader} p \<or> override_names r overrides p"
  unfolding candidates_iff led_to_def override_names_def by (auto dest!: carries_edge)

lemma narrowed_mapped:
  assumes "trigger \<in> set (blocked_triggers r edges nc overrides)" "offered trigger = Some (offer, cap)" "p \<in> set offer"
  shows "led_to r edges overrides {Narrower} p"
proof -
  from assms(1) obtain b where b: "b \<in> set (to_blocked (relation_terms r edges nc overrides))" "narrowing b r edges = Some trigger"
    by (auto simp: blocked_triggers_def set_map_filter_iff)
  from b(1) have "bt_term b \<in> set (left_over r overrides)" by (auto simp: relation_terms_def blocked_iff)
  moreover from b(2) assms(2,3) have "p \<in> set (edges_of_kind (bt_term b) (target_of r) Narrower edges)"
    by (auto simp: narrowing_def Let_def split: if_splits option.splits)
  ultimately show ?thesis by (auto simp: led_to_def left_over_def edges_of_kind_iff)
qed

lemma offer_mapped:
  assumes "e \<in> set (ao_elections (axis_before_answers r edges nc overrides))"
    and "offered (el_trigger e) = Some (offer, cap)" "p \<in> set offer"
  shows "led_to r edges overrides {Exact, Broader, Narrower} p \<or> override_names r overrides p"
proof -
  from assms(1) obtain trigger where t: "el_trigger e = trigger"
    "trigger \<in> set (blocked_triggers r edges nc overrides) \<or> trigger \<in> set (set_triggers r edges nc overrides)"
    by (auto simp: axis_before_answers raise_election_def)
  from t(2) show ?thesis
  proof
    assume "trigger \<in> set (blocked_triggers r edges nc overrides)"
    from narrowed_mapped [OF this] assms(2,3) t(1) led_to_mono [of "{Narrower}" "{Exact, Broader, Narrower}"] show ?thesis by simp
  next
    assume "trigger \<in> set (set_triggers r edges nc overrides)"
    then have "offer = candidates_for r edges nc overrides"
      using assms(2) unfolding t(1)
      using elect_over_cases [of "ab_cardinality (ar_binding r)" "candidates_for r edges nc overrides"]
      by (auto simp: set_triggers_def split: option.splits if_splits)
    with assms(3) candidate_mapped [of p r edges nc overrides] led_to_mono [of "{Exact, Broader}" "{Exact, Broader, Narrower}"]
    show ?thesis by auto
  qed
qed

text \<open>
  C34. Projection invents nothing. Every value it resolves is one an edge of the relation leads to, exactly or
  broadened, from a term of the request nobody overrode; or the value the seller's own override names for a term; or
  one the seller wrote, with the segments and the vocabulary they wrote it in, in an answer of theirs that speaks to
  an election this very axis raised; and there, unless the election asked for a value and offered none, the value is
  among those offered, which come of the request's terms, narrower edges included, and of the overrides alone.
\<close>

theorem projection_invents_nothing:
  assumes "p \<in> set (ao_resolved (project_axis_with_overrides r edges nc overrides))"
  shows "led_to r edges overrides {Exact, Broader} p \<or> override_names r overrides p \<or>
    (\<exists>e\<in>set (ao_elections (axis_before_answers r edges nc overrides)).
       \<exists>answer. seller_said r e answer \<and> (\<exists>q\<in>set (answer_values answer). spelt_like edges q p) \<and>
         (case offered (el_trigger e) of
            None \<Rightarrow> True
          | Some (offer, cap) \<Rightarrow> p \<in> set offer \<and>
              (led_to r edges overrides {Exact, Broader, Narrower} p \<or> override_names r overrides p)))"
proof (cases "p \<in> set (candidates_for r edges nc overrides)")
  case True
  from candidate_mapped [OF this] show ?thesis by blast
next
  case False
  then obtain e paths where e: "e \<in> set (ao_elections (axis_before_answers r edges nc overrides))"
    and d: "decision r edges e = Some paths" "p \<in> set paths"
    using assms before_answers_subset [of r edges nc overrides] by (auto simp: settled_outcome settle_resolved)
  obtain answer where a: "seller_said r e answer"
    "resolved_against (el_trigger e) answer (target_of r) edges = Some paths"
    using decided_by_seller [OF d(1)] by blast
  from e a(1) resolved_written [OF a(2) d(2)] offer_mapped [OF e] show ?thesis
    by (intro disjI2 bexI [of _ e]) (auto split: option.splits)
qed

subsection \<open>Nothing is lost\<close>

definition records_loss :: "Loss list \<Rightarrow> VocabularyPath \<Rightarrow> CanonicalTermId \<Rightarrow> bool" where
  "records_loss ls p t \<longleftrightarrow> (\<exists>dropped. Loss_Broadened p dropped \<in> set ls \<and> t \<in> set dropped)"

lemma set_push_new [simp]: "set (push_new seen t) = insert t (set seen)"
  by (auto simp: push_new_def)

lemma set_foldl_push_new [simp]: "set (foldl push_new seen ts) = set seen \<union> set ts"
  by (induction ts arbitrary: seen) auto

lemma merge_loss_keeps:
  "records_loss (List.map_filter broadening ls) p t \<Longrightarrow>
     records_loss (List.map_filter broadening (merge_loss ls q ds)) p t"
  by (induction ls q ds rule: merge_loss.induct)
    (auto simp: records_loss_def split: if_splits)

lemma merge_loss_adds:
  "t \<in> set ds \<Longrightarrow> records_loss (List.map_filter broadening (merge_loss ls q ds)) q t"
  by (induction ls q ds rule: merge_loss.induct)
    (auto simp: records_loss_def split: if_splits)

lemma merge_axis_loss_keeps: "records_loss ls p t \<Longrightarrow> records_loss (merge_axis_loss ls q d) p t"
  by (induction ls q d rule: merge_axis_loss.induct) (auto simp: records_loss_def)

lemma merge_axis_loss_adds: "records_loss (merge_axis_loss ls q d) q d"
  by (induction ls q d rule: merge_axis_loss.induct) (auto simp: records_loss_def)

lemma project_terms_loss:
  "t \<in> set ts \<Longrightarrow> project t v es = TP_Broadened p ds \<Longrightarrow>
     records_loss (List.map_filter broadening (to_loss (project_terms ts v es nc))) p t"
proof (induction ts rule: rev_induct)
  case (snoc u us)
  have "t \<in> set ds" using snoc.prems by (simp add: project_Broadened)
  with snoc show ?case
    by (auto simp: add_term_def merge_loss_keeps merge_loss_adds split: TermProjection.splits)
qed simp

lemma apply_override_loss:
  "records_loss (ao_loss o') p t \<Longrightarrow> records_loss (ao_loss (foldl apply_override o' es)) p t"
proof (induction es arbitrary: o')
  case (Cons e es)
  have "records_loss (ao_loss (apply_override o' e)) p t"
    using Cons.prems by (simp add: apply_override_def Let_def merge_axis_loss_keeps)
  then show ?case using Cons.IH by simp
qed simp

lemma override_loss_adds:
  "e \<in> set es \<Longrightarrow> po_kind e = OK_Broader \<Longrightarrow>
     records_loss (ao_loss (foldl apply_override o' es)) (po_to e) (po_from e)"
proof (induction es arbitrary: o')
  case (Cons e' es)
  show ?case
  proof (cases "e = e'")
    case True
    then have "records_loss (ao_loss (apply_override o' e')) (po_to e) (po_from e)"
      using Cons.prems by (simp add: apply_override_def Let_def merge_axis_loss_adds)
    then show ?thesis using apply_override_loss by simp
  next
    case False
    then show ?thesis using Cons by simp
  qed
qed simp

lemma raise_blocked_loss: "ao_loss (foldl (raise_blocked r edges) o' bs) = ao_loss o'"
  by (induction bs arbitrary: o') (simp_all add: raise_blocked_def split: option.splits)

lemma axis_loss:
  "ao_loss (axis_before_answers r edges nc ov) =
     ao_loss (foldl apply_override
       \<lparr>ao_resolved = to_included (relation_terms r edges nc ov),
        ao_loss = List.map_filter broadening (to_loss (relation_terms r edges nc ov)),
        ao_gaps = [], ao_elections = [], ao_unrecognised = [],
        ao_omitted = to_omitted (relation_terms r edges nc ov),
        ao_decided_by_seller = (overridden r ov \<noteq> [])\<rparr> (overridden r ov))"
  by (simp add: axis_before_answers_def Let_def relation_terms_def left_over_def overridden_def
      raise_blocked_loss split: prod.splits option.splits)

text \<open>
  \<open>asked\<close>: the outcome still holds the question, or the seller has answered it and every value their answer settles
  it to is among the resolved. \<open>placed\<close>: a value is resolved, or it was put to the seller.
\<close>

definition asked :: "AxisRequest \<Rightarrow> ProjectionEdge list \<Rightarrow> AxisOutcome \<Rightarrow> ElectionTrigger \<Rightarrow> bool" where
  "asked r edges out trigger \<longleftrightarrow>
     raise_election r trigger \<in> set (ao_elections out) \<or>
     (\<exists>answer paths. seller_said r (raise_election r trigger) answer \<and>
        resolved_against trigger answer (target_of r) edges = Some paths \<and> paths \<noteq> [] \<and> set paths \<subseteq> set (ao_resolved out))"

definition placed :: "AxisRequest \<Rightarrow> ProjectionEdge list \<Rightarrow> AxisOutcome \<Rightarrow> VocabularyPath \<Rightarrow> bool" where
  "placed r edges out p \<longleftrightarrow> p \<in> set (ao_resolved out) \<or>
     (\<exists>trigger paths cap. offered trigger = Some (paths, cap) \<and> p \<in> set paths \<and> asked r edges out trigger)"

lemma resolved_nonempty: "resolved_by trigger answer = Some paths \<Longrightarrow> paths \<noteq> []"
  by (cases "(trigger, answer)" rule: resolved_by.cases) (auto split: list.splits dest!: among_Some)

lemma raised_asked:
  assumes "raise_election r trigger \<in> set (ao_elections (axis_before_answers r edges nc ov))"
  shows "asked r edges (project_axis_with_overrides r edges nc ov) trigger"
proof (cases "decision r edges (raise_election r trigger)")
  case None
  then show ?thesis using assms by (simp add: asked_def settled_outcome)
next
  case (Some paths)
  obtain answer where "seller_said r (raise_election r trigger) answer"
    "resolved_against trigger answer (target_of r) edges = Some paths"
    using decided_by_seller [OF Some] by (auto simp: raise_election_def)
  moreover from this(2) have "paths \<noteq> []" unfolding resolved_against_def by (rule resolved_nonempty)
  moreover have "set paths \<subseteq> set (ao_resolved (project_axis_with_overrides r edges nc ov))"
    using Some assms by (auto simp: settled_outcome settle_resolved)
  ultimately show ?thesis unfolding asked_def by blast
qed

lemma candidate_placed:
  assumes p: "p \<in> set (candidates_for r edges nc ov)"
  shows "placed r edges (project_axis_with_overrides r edges nc ov) p"
proof -
  let ?c = "candidates_for r edges nc ov" and ?k = "ab_cardinality (ar_binding r)"
  let ?out = "project_axis_with_overrides r edges nc ov"
  have raised: "asked r edges ?out t" if "fst (elect_over_cardinality ?k ?c) = Some t" for t
    using that by (intro raised_asked) (simp add: axis_before_answers set_triggers_def)
  consider "snd (elect_over_cardinality ?k ?c) = ?c"
    | "fst (elect_over_cardinality ?k ?c) = Some (ElectOne ?c)"
    | cap where "fst (elect_over_cardinality ?k ?c) = Some (OverCap cap ?c)"
    using elect_over_cases [of ?k ?c] by force
  then show ?thesis
  proof cases
    case 1
    then show ?thesis using p by (simp add: placed_def settled_outcome settle_resolved axis_before_answers)
  next
    case 2
    then show ?thesis using p raised unfolding placed_def by (metis offered.simps(2))
  next
    case (3 cap)
    then show ?thesis using p raised unfolding placed_def by (metis offered.simps(3))
  qed
qed

definition gap_of :: "AxisRequest \<Rightarrow> ProjectionEdge list \<Rightarrow> CanonicalTermId \<Rightarrow> VocabularyGap" where
  "gap_of r edges t =
     \<lparr>vg_term = t, vg_target = target_of r, vg_projection = project t (target_of r) edges\<rparr>"

text \<open>
  \<open>narrowed\<close>: the question put to the seller about a term. It shows the value the term came from, the one at the
  term's own place among the sources, and offers every narrower value of that very term and no other.
\<close>

definition narrowed :: "AxisRequest \<Rightarrow> ProjectionEdge list \<Rightarrow> CanonicalTermId \<Rightarrow> ElectionTrigger \<Rightarrow> bool" where
  "narrowed r edges t trigger \<longleftrightarrow>
     (\<exists>i offer. i < length (ar_terms r) \<and> i < length (ar_sources r) \<and> ar_terms r ! i = t \<and> offer \<noteq> [] \<and> distinct offer \<and>
        set offer = {p. \<exists>e\<in>set edges. pe_from e = t \<and> pe_to e = p \<and> vp_vocabulary p = target_of r \<and> pe_kind e = Narrower} \<and>
        trigger = Narrow (ar_sources r ! i) offer)"

lemma set_edges_of_kind: "set (edges_of_kind t v k edges) =
    {p. \<exists>e\<in>set edges. pe_from e = t \<and> pe_to e = p \<and> vp_vocabulary p = v \<and> pe_kind e = k}"
  by (auto simp: edges_of_kind_iff)

lemma narrowing_SomeD:
  assumes "narrowing b r edges = Some tr"
  shows "narrowed r edges (bt_term b) tr \<and> bt_projection b = TP_Absent"
proof -
  let ?offer = "distinct_paths (edges_of_kind (bt_term b) (target_of r) Narrower edges)"
  from assms obtain i source where i: "position (\<lambda>t. t = bt_term b) (ar_terms r) = Some i" "get_at (ar_sources r) i = Some source"
    and tr: "?offer \<noteq> []" "tr = Narrow source ?offer" "bt_projection b = TP_Absent"
    by (auto simp: narrowing_def Let_def split: if_splits option.splits)
  have "distinct ?offer" by (simp add: distinct_paths_def distinct_foldl_push)
  with tr position_SomeD [OF i(1)] get_at_SomeD [OF i(2)] show ?thesis
    unfolding narrowed_def by (intro conjI exI [of _ i] exI [of _ ?offer]) (simp_all add: set_edges_of_kind)
qed

lemma narrowed_kind: "narrowed r edges t trigger \<Longrightarrow> trigger_kind trigger = TK_Narrow"
  by (auto simp: narrowed_def)

lemma blocked_asked:
  assumes "b \<in> set (to_blocked (relation_terms r edges nc ov))"
  shows "gap_of r edges (bt_term b) \<in> set (ao_gaps (project_axis_with_overrides r edges nc ov)) \<or>
    project (bt_term b) (target_of r) edges = TP_Absent \<and>
    (\<exists>trigger. narrowed r edges (bt_term b) trigger \<and> asked r edges (project_axis_with_overrides r edges nc ov) trigger)"
proof (cases "narrowing b r edges")
  case None
  have "bt_projection b = project (bt_term b) (target_of r) edges"
    using assms by (auto simp: relation_terms_def blocked_iff)
  then show ?thesis using assms None by (auto simp: settled_outcome axis_before_answers gap_of_def)
next
  case (Some tr)
  have "tr \<in> set (blocked_triggers r edges nc ov)"
    using assms Some by (auto simp: blocked_triggers_def set_map_filter_iff)
  then have "asked r edges (project_axis_with_overrides r edges nc ov) tr"
    by (intro raised_asked) (simp add: axis_before_answers)
  moreover have "bt_projection b = project (bt_term b) (target_of r) edges"
    using assms by (auto simp: relation_terms_def blocked_iff)
  ultimately show ?thesis using narrowing_SomeD [OF Some] by auto
qed

lemma term_accounted:
  assumes "t \<in> set (ar_terms r)" and "out = project_axis_with_overrides r edges nc overrides"
  shows "case find_override r overrides t of
      Some entry \<Rightarrow> placed r edges out (po_to entry) \<and>
        (po_kind entry = OK_Broader \<longrightarrow> records_loss (ao_loss out) (po_to entry) t)
    | None \<Rightarrow>
       (case project t (target_of r) edges of
          TP_Exact p \<Rightarrow> placed r edges out p
        | TP_Broadened p dropped \<Rightarrow> placed r edges out p \<and> records_loss (ao_loss out) p t
        | TP_Ambiguous candidates \<Rightarrow> gap_of r edges t \<in> set (ao_gaps out)
        | TP_Absent \<Rightarrow> t \<in> set (ao_omitted out) \<and> no_counterpart nc (target_of r) t \<or>
            gap_of r edges t \<in> set (ao_gaps out) \<or>
            (\<exists>trigger. narrowed r edges t trigger \<and> asked r edges out trigger))"
proof (cases "find_override r overrides t")
  case (Some entry)
  have e: "entry \<in> set (overridden r overrides)" "po_from entry = t"
    using assms(1) Some
    by (auto simp: overridden_def set_map_filter_iff find_override_def override_answers_def dest: find_SomeD)
  have "placed r edges out (po_to entry)"
    unfolding assms(2) using assms(1) Some by (intro candidate_placed) (auto simp: candidates_iff)
  moreover have "po_kind entry = OK_Broader \<Longrightarrow> records_loss (ao_loss out) (po_to entry) t"
    using override_loss_adds [OF e(1)] e(2) by (simp add: assms(2) settled_outcome axis_loss)
  ultimately show ?thesis using Some by simp
next
  case None
  have left: "t \<in> set (left_over r overrides)" using assms(1) None by (simp add: left_over_def)
  have carried: "placed r edges out p" if "carries edges (target_of r) t p" for p
    unfolding assms(2) using assms(1) None that by (intro candidate_placed) (auto simp: candidates_iff)
  have blocked: "\<lparr>bt_term = t, bt_projection = project t (target_of r) edges\<rparr>
      \<in> set (to_blocked (relation_terms r edges nc overrides))"
    if "(\<exists>c. project t (target_of r) edges = TP_Ambiguous c) \<or>
      project t (target_of r) edges = TP_Absent \<and> \<not> no_counterpart nc (target_of r) t"
    using left that by (auto simp: relation_terms_def blocked_iff)
  show ?thesis
  proof (cases "project t (target_of r) edges")
    case (TP_Exact p)
    then show ?thesis using None carried by (simp add: carries_def)
  next
    case (TP_Broadened p ds)
    have "records_loss (ao_loss out) p t"
      unfolding assms(2) settled_outcome axis_loss
      by (rule apply_override_loss) (simp add: relation_terms_def project_terms_loss [OF left TP_Broadened])
    then show ?thesis using None carried TP_Broadened by (simp add: carries_def)
  next
    case (TP_Ambiguous c)
    then show ?thesis using None blocked_asked [OF blocked] by (simp add: assms(2))
  next
    case TP_Absent
    have "t \<in> set (ao_omitted out)" if "no_counterpart nc (target_of r) t"
      using that left TP_Absent
      by (simp add: assms(2) settled_outcome axis_before_answers relation_terms_def omitted_iff)
    then show ?thesis using None TP_Absent blocked_asked [OF blocked] by (auto simp: assms(2))
  qed
qed

text \<open>
  C35. Projection loses nothing silently. For every term of the request: an overridden term's
  value is placed; a term the relation carries is placed, and where it was broadened the loss is
  recorded under its name; an ambiguous term is a gap that names its candidates; an absent term is
  recorded as having no counterpart, or is a gap, or is itself put to the seller: the question shows the
  value this term came from and offers exactly this term's narrower values, and it stands open or is
  settled by an answer of the seller's whose values are resolved.
\<close>

theorem every_term_is_accounted_for:
  assumes "t \<in> set (ar_terms r)" and "out = project_axis_with_overrides r edges nc overrides"
  shows "case find_override r overrides t of
      Some entry \<Rightarrow> placed r edges out (po_to entry) \<and>
        (po_kind entry = OK_Broader \<longrightarrow> records_loss (ao_loss out) (po_to entry) t)
    | None \<Rightarrow>
       (case project t (target_of r) edges of
          TP_Exact p \<Rightarrow> placed r edges out p
        | TP_Broadened p dropped \<Rightarrow> placed r edges out p \<and> records_loss (ao_loss out) p t
        | TP_Ambiguous candidates \<Rightarrow> gap_of r edges t \<in> set (ao_gaps out)
        | TP_Absent \<Rightarrow> t \<in> set (ao_omitted out) \<and> no_counterpart nc (target_of r) t \<or>
            gap_of r edges t \<in> set (ao_gaps out) \<or>
            (\<exists>trigger. narrowed r edges t trigger \<and> asked r edges out trigger))"
  using assms by (rule term_accounted)

subsection \<open>The target's cardinality\<close>

fun within :: "Cardinality \<Rightarrow> nat \<Rightarrow> bool" where
  "within One n \<longleftrightarrow> n \<le> 1"
| "within (Many (Some cap)) n \<longleftrightarrow> n \<le> ccap_limit cap"
| "within (Many None) n \<longleftrightarrow> True"

lemma within_mono: "within c n \<Longrightarrow> m \<le> n \<Longrightarrow> within c m"
  by (cases "(c, n)" rule: within.cases) auto

lemma length_push_distinct: "length (push_distinct acc p) \<le> Suc (length acc)"
  by (simp add: push_distinct_def)

lemma length_foldl_push: "length (foldl push_distinct acc ps) \<le> length acc + length ps"
proof (induction ps arbitrary: acc)
  case (Cons p ps)
  have "length (foldl push_distinct acc (p # ps)) \<le> length (push_distinct acc p) + length ps"
    using Cons.IH by simp
  also have "\<dots> \<le> length acc + length (p # ps)" using length_push_distinct [of acc p] by simp
  finally show ?case .
qed simp

lemma elect_over_within:
  "elect_over_cardinality c paths = (None, rest) \<Longrightarrow> rest = paths \<and> within c (length paths)"
  by (cases "(c, 0::nat)" rule: within.cases) (auto simp: elect_over_cardinality_def split: if_splits)

lemma elect_over_raised:
  "elect_over_cardinality c paths = (Some trigger, rest) \<Longrightarrow>
     rest = [] \<and> offered trigger \<noteq> None \<and> within c (snd (the (offered trigger)))"
  by (cases "(c, 0::nat)" rule: within.cases) (auto simp: elect_over_cardinality_def split: if_splits)

lemma registry_cap_positive: "axis_of (registry i) a = Some b \<Longrightarrow> within (ab_cardinality b) 1"
proof -
  have "\<forall>b\<in>set (ir_equivalence_axes (registry i)). within (ab_cardinality b) 1"
    by (cases i) (simp_all add: registries TES_AXES_def TPT_AXES_def)
  then show "axis_of (registry i) a = Some b \<Longrightarrow> within (ab_cardinality b) 1"
    by (auto simp: axis_of_def dest: find_SomeD)
qed

lemma raise_trigger [simp]: "el_trigger (raise_election r t) = t"
  by (simp add: raise_election_def)

lemma decision_within:
  assumes "decision r edges e = Some paths"
  shows "case offered (el_trigger e) of None \<Rightarrow> length paths = 1 | Some (ps, cap) \<Rightarrow> length paths \<le> cap"
proof -
  obtain ans where "resolved_by (el_trigger e) ans = Some paths"
    using assms by (auto simp: decision_def or_else_def resolved_against_def split: option.splits)
  then show ?thesis
    by (cases "(el_trigger e, ans)" rule: resolved_by.cases)
      (auto split: list.splits dest!: among_Some)
qed

lemma blocked_triggers_narrow: "t \<in> set (blocked_triggers r edges nc ov) \<Longrightarrow> trigger_kind t = TK_Narrow"
  by (auto simp: blocked_triggers_def set_map_filter_iff dest!: narrowing_SomeD dest: narrowed_kind)

lemma settle_one:
  "length (fst (settle_elections r edges [] [e])) \<le> (case decision r edges e of None \<Rightarrow> 0 | Some ps \<Rightarrow> length ps)"
  using length_foldl_push [of "[]"] by (simp split: option.splits)

lemma settle_one_capped:
  "offered (el_trigger e) = Some (ps, cap) \<Longrightarrow> length (fst (settle_elections r edges [] [e])) \<le> cap"
  "offered (el_trigger e) = None \<Longrightarrow> length (fst (settle_elections r edges [] [e])) \<le> 1"
  using settle_one [of r edges e] decision_within [of r edges e]
  by (auto split: option.splits)

text \<open>
  The target's cardinality holds for everything but the answer to a narrowing: on an axis as
  its registry binds it, when no narrowing was raised, the resolved values fit the axis, whatever
  the relation, the overrides, the standing rules and the settled answers say.
\<close>

theorem resolved_values_fit_the_axis:
  assumes "axis_of (registry (ar_inventory r)) axis = Some (ar_binding r)"
    and "\<forall>e\<in>set (ao_elections (axis_before_answers r edges nc overrides)).
           trigger_kind (el_trigger e) \<noteq> TK_Narrow"
  shows "within (ab_cardinality (ar_binding r))
    (length (ao_resolved (project_axis_with_overrides r edges nc overrides)))"
proof -
  let ?k = "ab_cardinality (ar_binding r)" and ?c = "candidates_for r edges nc overrides"
  let ?n = "length (ao_resolved (project_axis_with_overrides r edges nc overrides))"
  have none: "blocked_triggers r edges nc overrides = []"
    using assms(2) blocked_triggers_narrow [of _ r edges nc overrides]
    by (cases "blocked_triggers r edges nc overrides") (auto simp: axis_before_answers)
  obtain tr rest where e: "elect_over_cardinality ?k ?c = (tr, rest)" by (cases "elect_over_cardinality ?k ?c")
  have n: "?n = length (fst (settle_elections r edges rest
      (map (raise_election r) (set_triggers r edges nc overrides))))"
    by (simp add: settled_outcome axis_before_answers none e)
  show ?thesis
  proof (cases tr)
    case (Some t)
    note t = elect_over_raised [OF e [unfolded Some]]
    then obtain ps cap where o: "offered t = Some (ps, cap)" by auto
    have "?n \<le> cap"
      using settle_one_capped(1) [of "raise_election r t"] t o by (simp add: n set_triggers_def e Some del: settle_elections.simps)
    with t o show ?thesis by (auto intro: within_mono)
  next
    case None
    note w = elect_over_within [OF e [unfolded None]]
    show ?thesis
    proof (cases "requires_a_value r \<and> ar_terms r = []")
      case True
      then have "?c = []" by (simp add: candidates_for_def relation_terms_def left_over_def overridden_def)
      with w have "rest = []" by simp
      then have "?n \<le> 1"
        using True settle_one_capped(2) [of "raise_election r (Supply (ar_pricing r))"]
        by (simp add: n set_triggers_def e None del: settle_elections.simps)
      then show ?thesis using registry_cap_positive [OF assms(1)] by (auto intro: within_mono)
    next
      case False
      then show ?thesis using w by (auto simp: n set_triggers_def e None)
    qed
  qed
qed

subsection \<open>There and back\<close>

definition spelled :: "VocabularyPath \<Rightarrow> ProjectionEdge \<Rightarrow> bool" where
  "spelled path e \<longleftrightarrow> pe_kind e = Exact \<and> vp_vocabulary (pe_to e) = vp_vocabulary path
     \<and> vp_segments (pe_to e) = vp_segments path"

lemma ingest_from_iff:
  "ingest_from found path es = Some t \<longleftrightarrow>
     (\<forall>e\<in>set es. spelled path e \<longrightarrow> pe_from e = t) \<and>
     (found = Some t \<or> found = None \<and> (\<exists>e\<in>set es. spelled path e))"
  by (induction es arbitrary: found) (auto simp: spelled_def split: option.splits)

lemma ingest_iff:
  "ingest path es = Some t \<longleftrightarrow>
     (\<forall>e\<in>set es. spelled path e \<longrightarrow> pe_from e = t) \<and> (\<exists>e\<in>set es. spelled path e)"
  by (simp add: ingest_def ingest_from_iff)

lemma spelled_exact:
  "spelled path e \<Longrightarrow> e \<in> set es \<Longrightarrow> pe_to e \<in> set (edges_of_kind (pe_from e) (vp_vocabulary path) Exact es)"
  by (auto simp: spelled_def edges_of_kind_iff)

text \<open>
  C36. Ingest and projection invert each other. A path that ingests as a term and a term that
  projects exactly into that path's vocabulary agree on the path's spelling; and an exact image
  ingests back to its own term unless another term claims the same spelling, in which case
  ingest refuses to choose.
\<close>

theorem ingest_inverts_exact_projection:
  assumes "project t v edges = TP_Exact q"
  shows "(\<forall>path. vp_vocabulary path = v \<longrightarrow> ingest path edges = Some t \<longrightarrow> vp_segments path = vp_segments q) \<and>
    (ingest q edges = Some t \<or>
      ingest q edges = None \<and> (\<exists>e\<in>set edges. spelled q e \<and> pe_from e \<noteq> t))"
proof -
  have one: "edges_of_kind t v Exact edges = [q]" using assms by (simp add: project_Exact)
  then obtain e where e: "e \<in> set edges" "pe_from e = t" "pe_to e = q" "vp_vocabulary q = v" "pe_kind e = Exact"
    using edges_of_kind_iff [of q t v Exact edges] by auto
  then have sp: "spelled q e" by (simp add: spelled_def)
  have "vp_segments path = vp_segments q"
    if v: "vp_vocabulary path = v" and i: "ingest path edges = Some t" for path
  proof -
    obtain e' where "e' \<in> set edges" "spelled path e'" "pe_from e' = t"
      using i by (auto simp: ingest_iff)
    then show ?thesis using spelled_exact [of path e' edges] one v by (auto simp: spelled_def)
  qed
  moreover have "ingest q edges = Some t \<or>
      ingest q edges = None \<and> (\<exists>e\<in>set edges. spelled q e \<and> pe_from e \<noteq> t)"
  proof (cases "\<exists>e\<in>set edges. spelled q e \<and> pe_from e \<noteq> t")
    case True
    then have "ingest q edges \<noteq> Some u" for u using e(1,2) sp by (auto simp: ingest_iff)
    with True show ?thesis by auto
  next
    case False
    then show ?thesis using e(1) sp by (auto simp: ingest_iff)
  qed
  ultimately show ?thesis by blast
qed

subsection \<open>Concrete axes\<close>

definition sample_tag :: "InventoryId \<Rightarrow> string \<Rightarrow> VocabularyPath" where
  "sample_tag i s = \<lparr>vp_vocabulary = VocabularyId i Phase, vp_segments = [s], vp_native_id = Some s\<rparr>"

definition sample_term :: "u8 \<Rightarrow> CanonicalTermId" where
  "sample_term b = CanonicalTermId (Uuid (replicate 15 0 @ [b]))"

definition sample_edge :: "EdgeKind \<Rightarrow> u8 \<Rightarrow> string \<Rightarrow> ProjectionEdge" where
  "sample_edge k b s =
     \<lparr>pe_from = sample_term b, pe_to = sample_tag Tpt s, pe_kind = k,
      pe_decided_by = Imported ''seed'', pe_decided_at = Timestamp 0\<rparr>"

definition sample_grades :: "string list" where
  "sample_grades = [''K'', ''1st'', ''2nd'', ''3rd'', ''4th'']"

definition sample_request :: AxisRequest where
  "sample_request =
     \<lparr>ar_product = ProductId (Uuid (replicate 16 0)), ar_inventory = Tpt, ar_binding = TPT_AXES ! 3,
      ar_terms = [sample_term 1], ar_sources = [sample_tag Tes ''ks1''], ar_pricing = PB_Paid, ar_rules = [],
      ar_settled = [\<lparr>st_product = ProductId (Uuid (replicate 16 0)), st_inventory = Tpt, st_axis = Phase,
        st_trigger_kind = TK_Narrow, st_trigger_key = Some ''ks1'', st_chosen = map (sample_tag Tpt) sample_grades\<rparr>]\<rparr>"

lemma sample_target: "target_of sample_request = VocabularyId Tpt Phase"
  by (simp add: sample_request_def target_of_def TPT_AXES_def)

lemma sample_projected: "project (sample_term 1) (VocabularyId Tpt Phase) (map (sample_edge Narrower 1) sample_grades) = TP_Absent"
  by (auto simp: project_Absent edges_of_kind_def sample_edge_def)

lemma sample_narrowed:
  "distinct_paths (edges_of_kind (sample_term 1) (VocabularyId Tpt Phase) Narrower
     (map (sample_edge Narrower 1) sample_grades)) = map (sample_tag Tpt) sample_grades"
  by (simp add: edges_of_kind_def sample_edge_def sample_grades_def sample_tag_def distinct_paths_def push_distinct_def)

lemma sample_narrowing:
  "narrowing \<lparr>bt_term = sample_term 1, bt_projection = TP_Absent\<rparr> sample_request
     (map (sample_edge Narrower 1) sample_grades) =
   Some (Narrow (sample_tag Tes ''ks1'') (map (sample_tag Tpt) sample_grades))"
proof -
  have "ar_terms sample_request = [sample_term 1]" "ar_sources sample_request = [sample_tag Tes ''ks1'']"
    by (simp_all add: sample_request_def)
  moreover have "map (sample_tag Tpt) sample_grades \<noteq> []" by (simp add: sample_grades_def)
  ultimately show ?thesis
    by (simp add: narrowing_def sample_target sample_narrowed Let_def get_at_def del: map_is_Nil_conv)
qed

lemma sample_before:
  "relation_terms sample_request (map (sample_edge Narrower 1) sample_grades) [] [] =
     \<lparr>to_included = [], to_loss = [], to_blocked = [\<lparr>bt_term = sample_term 1, bt_projection = TP_Absent\<rparr>],
      to_omitted = []\<rparr>"
  "candidates_for sample_request (map (sample_edge Narrower 1) sample_grades) [] [] = []"
  "blocked_triggers sample_request (map (sample_edge Narrower 1) sample_grades) [] [] =
     [Narrow (sample_tag Tes ''ks1'') (map (sample_tag Tpt) sample_grades)]"
proof -
  have l: "left_over sample_request [] = [sample_term 1]" "overridden sample_request [] = []"
    by (simp_all add: left_over_def overridden_def find_override_def sample_request_def List.map_filter_def)
  show rt: "relation_terms sample_request (map (sample_edge Narrower 1) sample_grades) [] [] =
     \<lparr>to_included = [], to_loss = [], to_blocked = [\<lparr>bt_term = sample_term 1, bt_projection = TP_Absent\<rparr>],
      to_omitted = []\<rparr>"
    by (simp add: relation_terms_def l sample_target project_terms_def add_term_def sample_projected)
  show "candidates_for sample_request (map (sample_edge Narrower 1) sample_grades) [] [] = []"
    by (simp add: candidates_for_def rt l)
  show "blocked_triggers sample_request (map (sample_edge Narrower 1) sample_grades) [] [] =
     [Narrow (sample_tag Tes ''ks1'') (map (sample_tag Tpt) sample_grades)]"
    by (simp add: blocked_triggers_def rt List.map_filter_simps sample_narrowing)
qed

lemma sample_decided:
  "decision sample_request (map (sample_edge Narrower 1) sample_grades)
     (raise_election sample_request (Narrow (sample_tag Tes ''ks1'') (map (sample_tag Tpt) sample_grades)))
   = Some (map (sample_tag Tpt) sample_grades)"
proof -
  have s: "settled_by (ar_settled sample_request)
     (raise_election sample_request (Narrow (sample_tag Tes ''ks1'') (map (sample_tag Tpt) sample_grades)))
     = Some (map (sample_tag Tpt) sample_grades)"
    by (simp add: settled_by_def settled_answers_def sample_request_def raise_election_def sample_tag_def TPT_AXES_def)
  have w: "with_native_id (sample_tag Tpt g) v es = sample_tag Tpt g" for g v es
    by (simp add: with_native_id_def sample_tag_def)
  show ?thesis
    by (simp add: decision_def s resolved_against_def w comp_def among_def) (simp add: sample_grades_def)
qed

lemma sample_request_out:
  "is_publishable (project_axis sample_request (map (sample_edge Narrower 1) sample_grades) [])"
  "ao_resolved (project_axis sample_request (map (sample_edge Narrower 1) sample_grades) [])
     = map (sample_tag Tpt) sample_grades"
proof -
  let ?es = "map (sample_edge Narrower 1) sample_grades"
  have c: "elect_over_cardinality (ab_cardinality (ar_binding sample_request)) [] = (None, [])"
    by (simp add: sample_request_def TPT_AXES_def elect_over_cardinality_def)
  have st: "set_triggers sample_request ?es [] [] = []"
    by (simp add: set_triggers_def sample_before c) (simp add: sample_request_def)
  show "is_publishable (project_axis sample_request ?es [])"
    by (simp add: sample_narrowing project_axis_def is_publishable_def settled_outcome axis_before_answers sample_before st sample_decided)
  show "ao_resolved (project_axis sample_request ?es []) = map (sample_tag Tpt) sample_grades"
    by (simp add: project_axis_def settled_outcome axis_before_answers sample_before st sample_decided c)
      (simp add: sample_grades_def sample_tag_def push_distinct_def)
qed

text \<open>
  The gap the previous property leaves is real: a seller's settled answer to a narrowing may
  name every candidate, no cap is applied to it, and the axis comes out publishable with more
  values than the target takes (five grades on an axis TpT caps at four).
\<close>

theorem a_narrowing_answer_can_exceed_the_cap:
  "axis_of (registry (ar_inventory sample_request)) Phase = Some (ar_binding sample_request) \<and>
   is_publishable (project_axis sample_request (map (sample_edge Narrower 1) sample_grades) []) \<and>
   \<not> within (ab_cardinality (ar_binding sample_request))
     (length (ao_resolved (project_axis sample_request (map (sample_edge Narrower 1) sample_grades) [])))"
  unfolding sample_request_out(2) using sample_request_out(1)
  by (simp add: sample_request_def registries axis_of_def TPT_AXES_def sample_grades_def)

subsection \<open>Witnesses\<close>

theorem projection_invents_nothing_witness:
  "\<exists>e\<in>set (ao_elections (axis_before_answers sample_request (map (sample_edge Narrower 1) sample_grades) [] [])).
     \<exists>answer. seller_said sample_request e answer \<and> (\<exists>q\<in>set (answer_values answer). vp_segments q = [''K'']) \<and>
       (\<exists>offer cap. offered (el_trigger e) = Some (offer, cap) \<and> sample_tag Tpt ''K'' \<in> set offer)"
proof -
  let ?es = "map (sample_edge Narrower 1) sample_grades"
  have p: "sample_tag Tpt ''K'' \<in> set (ao_resolved (project_axis_with_overrides sample_request ?es [] []))"
    unfolding project_axis_def [symmetric] sample_request_out by (simp add: sample_grades_def)
  have none: "\<not> led_to sample_request ?es [] {Exact, Broader} (sample_tag Tpt ''K'')"
    "\<not> override_names sample_request [] (sample_tag Tpt ''K'')"
    by (auto simp: led_to_def override_names_def sample_edge_def find_override_def)
  have c: "elect_over_cardinality (ab_cardinality (ar_binding sample_request)) [] = (None, [])"
    by (simp add: sample_request_def TPT_AXES_def elect_over_cardinality_def)
  have "set_triggers sample_request ?es [] [] = []"
    by (simp add: set_triggers_def sample_before c) (simp add: sample_request_def)
  then have offers: "offered (el_trigger e) \<noteq> None" if "e \<in> set (ao_elections (axis_before_answers sample_request ?es [] []))" for e
    using that by (auto simp: axis_before_answers sample_before raise_election_def)
  show ?thesis
    using projection_invents_nothing [OF p] none offers
    by (fastforce simp: spelt_like_def sample_tag_def split: option.splits)
qed

theorem every_term_is_accounted_for_witness:
  "\<exists>offer. set offer = sample_tag Tpt ` set sample_grades \<and>
     asked sample_request (map (sample_edge Narrower 1) sample_grades)
       (project_axis sample_request (map (sample_edge Narrower 1) sample_grades) [])
       (Narrow (sample_tag Tes ''ks1'') offer)"
proof -
  let ?es = "map (sample_edge Narrower 1) sample_grades"
  have t: "sample_term 1 \<in> set (ar_terms sample_request)" by (simp add: sample_request_def)
  have g: "ao_gaps (project_axis_with_overrides sample_request ?es [] []) = []"
    "ao_omitted (project_axis_with_overrides sample_request ?es [] []) = []"
    by (simp_all add: settled_outcome axis_before_answers sample_before sample_narrowing)
  have "\<exists>trigger. narrowed sample_request ?es (sample_term 1) trigger \<and>
      asked sample_request ?es (project_axis sample_request ?es []) trigger"
    using every_term_is_accounted_for [OF t refl, of ?es "[]" "[]"] t
    by (simp add: project_axis_def find_override_def sample_target sample_projected g)
  then obtain i offer where "i < length (ar_sources sample_request)"
    "set offer = {p. \<exists>e\<in>set ?es. pe_from e = sample_term 1 \<and> pe_to e = p \<and> vp_vocabulary p = target_of sample_request \<and>
       pe_kind e = Narrower}"
    "asked sample_request ?es (project_axis sample_request ?es []) (Narrow (ar_sources sample_request ! i) offer)"
    by (auto simp: narrowed_def)
  moreover have "i < length (ar_sources sample_request) \<Longrightarrow> ar_sources sample_request ! i = sample_tag Tes ''ks1''" for i
    by (simp add: sample_request_def)
  moreover have "{p. \<exists>e\<in>set ?es. pe_from e = sample_term 1 \<and> pe_to e = p \<and> vp_vocabulary p = target_of sample_request \<and>
       pe_kind e = Narrower} = sample_tag Tpt ` set sample_grades"
    by (auto simp: sample_edge_def sample_target sample_tag_def)
  ultimately show ?thesis by auto
qed

lemma sample_carried:
  "relation_terms sample_request [sample_edge Exact 1 ''K''] [] [] =
     \<lparr>to_included = [sample_tag Tpt ''K''], to_loss = [], to_blocked = [], to_omitted = []\<rparr>"
proof -
  have l: "left_over sample_request [] = [sample_term 1]"
    by (simp add: left_over_def find_override_def sample_request_def)
  have p: "project (sample_term 1) (VocabularyId Tpt Phase) [sample_edge Exact 1 ''K''] = TP_Exact (sample_tag Tpt ''K'')"
    by (simp add: project_Exact edges_of_kind_def sample_edge_def sample_tag_def)
  show ?thesis
    by (simp add: relation_terms_def l sample_target project_terms_def add_term_def p push_distinct_def)
qed

theorem resolved_values_fit_the_axis_witness:
  "axis_of (registry (ar_inventory sample_request)) Phase = Some (ar_binding sample_request) \<and>
   within (ab_cardinality (ar_binding sample_request))
     (length (ao_resolved (project_axis sample_request [sample_edge Exact 1 ''K''] [])))"
proof -
  have a: "axis_of (registry (ar_inventory sample_request)) Phase = Some (ar_binding sample_request)"
    by (simp add: sample_request_def registries axis_of_def TPT_AXES_def)
  have c: "candidates_for sample_request [sample_edge Exact 1 ''K''] [] [] = [sample_tag Tpt ''K'']"
    by (simp add: candidates_for_def sample_carried overridden_def find_override_def List.map_filter_def)
  have e: "fst (elect_over_cardinality (ab_cardinality (ar_binding sample_request)) [sample_tag Tpt ''K'']) = None"
    by (simp add: sample_request_def TPT_AXES_def elect_over_cardinality_def)
  have "ao_elections (axis_before_answers sample_request [sample_edge Exact 1 ''K''] [] []) = []"
    by (simp add: axis_before_answers blocked_triggers_def set_triggers_def sample_carried c e List.map_filter_simps)
      (simp add: sample_request_def)
  then have "\<forall>e\<in>set (ao_elections (axis_before_answers sample_request [sample_edge Exact 1 ''K''] [] [])).
      trigger_kind (el_trigger e) \<noteq> TK_Narrow" by simp
  from resolved_values_fit_the_axis [OF a this] a show ?thesis by (simp add: project_axis_def)
qed

theorem ingest_inverts_exact_projection_witness:
  "project (sample_term 1) (VocabularyId Tpt Phase) [sample_edge Exact 1 ''K''] = TP_Exact (sample_tag Tpt ''K'') \<and>
   ingest (sample_tag Tpt ''K'') [sample_edge Exact 1 ''K''] = Some (sample_term 1)"
proof -
  have p: "project (sample_term 1) (VocabularyId Tpt Phase) [sample_edge Exact 1 ''K''] = TP_Exact (sample_tag Tpt ''K'')"
    by (simp add: project_Exact edges_of_kind_def sample_edge_def sample_tag_def)
  from ingest_inverts_exact_projection [OF p] p show ?thesis
    by (auto simp: sample_edge_def spelled_def)
qed

end
