(* ===== verification/Listing.thy ===== *)
theory Listing
  imports SellerRules ProjectionSafety
begin

section \<open>The listing projection (crate tam-taxonomy, listing.rs)\<close>

text \<open>
  \<open>project_listing_with_overrides\<close>: the axes of a product through the relation, then the four
  publish gates in order, then the rendering. The loop over the routed axes is \<open>route_axes\<close>,
  whose state \<open>Routed\<close> holds the six vectors the source extends.
\<close>

record ListingProjection =
  lp_cover :: "FileId option"
  lp_inventory :: InventoryId
  lp_title :: string
  lp_body :: string
  lp_body_format :: CopyFormat
  lp_price :: PriceIntent
  lp_taxonomy :: "VocabularyPath list"
  lp_grades :: "VocabularyPath list"
  lp_files :: "FileId list"
  lp_natives :: "(TermKind \<times> VocabularyPath) list"
  lp_loss :: "Loss list"

text \<open>\<open>Blocked\<close> holds the gaps, the elections, the unrecognised values and the losses.\<close>

datatype ProjectionBlocked =
    ListingBlocked "VocabularyGap list" "Election list" "VocabularyPath list" "Loss list"
  | CurrencyUnknown InventoryId
  | CurrencyMismatch InventoryId Currency Currency
  | CoverMissing
  | ScanIncomplete FileId

record ListingContext =
  lx_org :: OrgId
  lx_mapping :: MappingId
  lx_inventory :: InventoryId
  lx_now :: Timestamp
  lx_terms :: "CanonicalTerm list"
  lx_edges :: "ProjectionEdge list"
  lx_no_counterparts :: "(CanonicalTermId \<times> VocabularyId) list"
  lx_rules :: "ElectionRule list"
  lx_settled :: "SettledElection list"

definition ROUTED_AXES :: "TermKind list" where
  "ROUTED_AXES = [Subject, Topic, ResourceType, Phase, Licence]"

definition routed_axes :: "InventoryId \<Rightarrow> AxisBinding list" where
  "routed_axes inventory =
     filter (\<lambda>b. ab_axis b \<in> set ROUTED_AXES) (ir_equivalence_axes (registry inventory))"

definition routed_vocabularies :: "InventoryId \<Rightarrow> VocabularyId list" where
  "routed_vocabularies inventory = map (\<lambda>b. VocabularyId inventory (ab_axis b)) (routed_axes inventory)"

definition rights_source :: "CanonicalProduct \<Rightarrow> VocabularyPath option" where
  "rights_source product =
     (case cp_rights product of Unstated \<Rightarrow> None | Declared source \<Rightarrow> Some source)"

definition projection_vocabularies :: "InventoryId \<Rightarrow> CanonicalProduct \<Rightarrow> VocabularyId list" where
  "projection_vocabularies inventory product =
     foldl (\<lambda>wanted path. if vp_vocabulary path \<in> set wanted then wanted else wanted @ [vp_vocabulary path])
       (routed_vocabularies inventory)
       (gd_raw (cp_grades product) @ (case rights_source product of None \<Rightarrow> [] | Some s \<Rightarrow> [s]))"

definition accepted_term :: "FrozenRuleOutput option \<Rightarrow> TermKind \<Rightarrow> SellerTermChoice option" where
  "accepted_term approved axis =
     (case approved of
        None \<Rightarrow> None
      | Some frozen \<Rightarrow>
          (case axis of
             Licence \<Rightarrow> fz_licence frozen
           | ResourceType \<Rightarrow> fz_resource_type frozen
           | Subject \<Rightarrow> None | Topic \<Rightarrow> None | Phase \<Rightarrow> None))"

definition accepted_path :: "SellerTermChoice \<Rightarrow> VocabularyId \<Rightarrow> ProjectionEdge list \<Rightarrow> VocabularyPath" where
  "accepted_path choice vocabulary edges =
     (case List.find (\<lambda>p. vp_vocabulary p = vocabulary \<and> vp_native_id p = Some (tc_native_id choice))
             (map pe_to edges) of
        Some path \<Rightarrow> path
      | None \<Rightarrow> \<lparr>vp_vocabulary = vocabulary, vp_segments = [tc_native_id choice],
                 vp_native_id = Some (tc_native_id choice)\<rparr>)"

definition carried_in :: "CanonicalProduct \<Rightarrow> TermKind \<Rightarrow> VocabularyPath list" where
  "carried_in product axis =
     (case axis of
        Licence \<Rightarrow> (case rights_source product of None \<Rightarrow> [] | Some s \<Rightarrow> [s])
      | Phase \<Rightarrow> gd_raw (cp_grades product)
      | Subject \<Rightarrow> [] | Topic \<Rightarrow> [] | ResourceType \<Rightarrow> [])"

text \<open>The map of the catalogue: collecting pairs into a map keeps the last one of a key.\<close>

definition term_kinds :: "CanonicalTerm list \<Rightarrow> CanonicalTermId \<Rightarrow> TermKind option" where
  "term_kinds terms = map_of (rev (map (\<lambda>t. (ct_id t, ct_kind t)) terms))"

text \<open>What the product brings to the axes: its grades and its rights, ingested.\<close>

record Inbound =
  in_grade_terms :: "CanonicalTermId list"
  in_grade_sources :: "VocabularyPath list"
  in_rights_terms :: "CanonicalTermId list"
  in_rights_sources :: "VocabularyPath list"
  in_unrecognised :: "VocabularyPath list"

definition inbound :: "CanonicalProduct \<Rightarrow> ProjectionEdge list \<Rightarrow> Inbound" where
  "inbound product edges =
     (let g = ingest_grades (cp_grades product) edges;
          i = \<lparr>in_grade_terms = gi_terms g, in_grade_sources = gi_sources g, in_rights_terms = [],
               in_rights_sources = [], in_unrecognised = gi_unrecognised g\<rparr>
      in case rights_source product of
           None \<Rightarrow> i
         | Some source \<Rightarrow>
             (case ingest source edges of
                Some term \<Rightarrow> i\<lparr>in_rights_terms := [term], in_rights_sources := [source]\<rparr>
              | None \<Rightarrow> i\<lparr>in_unrecognised := in_unrecognised i @ [source]\<rparr>))"

definition price_of :: "FrozenRuleOutput option \<Rightarrow> CanonicalProduct \<Rightarrow> PriceIntent" where
  "price_of approved product = (case approved of Some frozen \<Rightarrow> fz_price frozen | None \<Rightarrow> cp_price product)"

fun pricing_branch :: "PriceIntent \<Rightarrow> PricingBranch" where
  "pricing_branch Free = PB_Free"
| "pricing_branch (Paid m) = PB_Paid"

text \<open>The request one binding makes of the relation.\<close>

definition axis_request ::
  "CanonicalProduct \<Rightarrow> ListingContext \<Rightarrow> FrozenRuleOutput option \<Rightarrow> AxisBinding \<Rightarrow> AxisRequest" where
  "axis_request product ctx approved binding =
     (let i = inbound product (lx_edges ctx);
          of_kind = filter (\<lambda>t. term_kinds (lx_terms ctx) t = Some (ab_axis binding)) (cp_subjects product);
          (terms, sources) = (case ab_axis binding of
              Phase \<Rightarrow> (in_grade_terms i, in_grade_sources i)
            | Licence \<Rightarrow> (in_rights_terms i, in_rights_sources i)
            | _ \<Rightarrow> (of_kind, []))
      in \<lparr>ar_product = cp_id product, ar_inventory = lx_inventory ctx, ar_binding = binding, ar_terms = terms,
          ar_sources = sources, ar_pricing = pricing_branch (price_of approved product),
          ar_rules = lx_rules ctx, ar_settled = lx_settled ctx\<rparr>)"

definition axis_outcome ::
  "CanonicalProduct \<Rightarrow> ListingContext \<Rightarrow> ProjectionOverride list \<Rightarrow> FrozenRuleOutput option \<Rightarrow> AxisBinding
     \<Rightarrow> AxisOutcome" where
  "axis_outcome product ctx overrides approved binding =
     project_axis_with_overrides (axis_request product ctx approved binding) (lx_edges ctx)
       (lx_no_counterparts ctx) overrides"

record Routed =
  rt_included :: "VocabularyPath list"
  rt_grades :: "VocabularyPath list"
  rt_natives :: "(TermKind \<times> VocabularyPath) list"
  rt_loss :: "Loss list"
  rt_gaps :: "VocabularyGap list"
  rt_elections :: "Election list"

definition route_axis ::
  "CanonicalProduct \<Rightarrow> ListingContext \<Rightarrow> ProjectionOverride list \<Rightarrow> FrozenRuleOutput option \<Rightarrow> Routed
     \<Rightarrow> AxisBinding \<Rightarrow> Routed" where
  "route_axis product ctx overrides approved routed binding =
     (case accepted_term approved (ab_axis binding) of
        Some choice \<Rightarrow>
          routed\<lparr>rt_natives := rt_natives routed @ [(ab_axis binding,
             accepted_path choice (VocabularyId (lx_inventory ctx) (ab_axis binding)) (lx_edges ctx))]\<rparr>
      | None \<Rightarrow>
          (let outcome = axis_outcome product ctx overrides approved binding;
               filed = (case ab_axis binding of
                   Subject \<Rightarrow> routed\<lparr>rt_included := rt_included routed @ ao_resolved outcome\<rparr>
                 | Topic \<Rightarrow> routed\<lparr>rt_included := rt_included routed @ ao_resolved outcome\<rparr>
                 | Phase \<Rightarrow> routed\<lparr>rt_grades := rt_grades routed @ ao_resolved outcome\<rparr>
                 | ResourceType \<Rightarrow> routed\<lparr>rt_natives := rt_natives routed
                     @ map (\<lambda>p. (ab_axis binding, p)) (ao_resolved outcome)\<rparr>
                 | Licence \<Rightarrow> routed\<lparr>rt_natives := rt_natives routed
                     @ map (\<lambda>p. (ab_axis binding, p)) (ao_resolved outcome)\<rparr>)
           in filed\<lparr>rt_loss := rt_loss filed @ ao_loss outcome, rt_gaps := rt_gaps filed @ ao_gaps outcome,
                    rt_elections := rt_elections filed @ ao_elections outcome\<rparr>))"

definition route_axes ::
  "CanonicalProduct \<Rightarrow> ListingContext \<Rightarrow> ProjectionOverride list \<Rightarrow> FrozenRuleOutput option \<Rightarrow> Routed" where
  "route_axes product ctx overrides approved =
     foldl (route_axis product ctx overrides approved)
       \<lparr>rt_included = [], rt_grades = [], rt_natives = [], rt_loss = [], rt_gaps = [], rt_elections = []\<rparr>
       (routed_axes (lx_inventory ctx))"

definition absent_losses :: "CanonicalProduct \<Rightarrow> InventoryId \<Rightarrow> Loss list" where
  "absent_losses product inventory =
     concat (map (\<lambda>axis. map (Loss_NoTargetField axis) (carried_in product axis))
       (ir_absent_axes (registry inventory)))"

definition unclassified_gaps :: "CanonicalProduct \<Rightarrow> ListingContext \<Rightarrow> VocabularyGap list" where
  "unclassified_gaps product ctx =
     map (\<lambda>t. \<lparr>vg_term = t, vg_target = VocabularyId (lx_inventory ctx) Subject, vg_projection = TP_Absent\<rparr>)
       (filter (\<lambda>t. term_kinds (lx_terms ctx) t = None) (cp_subjects product))"

subsection \<open>The gates\<close>

definition relation_gate ::
  "CanonicalProduct \<Rightarrow> ListingContext \<Rightarrow> ProjectionOverride list \<Rightarrow> FrozenRuleOutput option
     \<Rightarrow> ProjectionBlocked + Routed" where
  "relation_gate product ctx overrides approved =
     (let routed = route_axes product ctx overrides approved;
          loss = rt_loss routed @ absent_losses product (lx_inventory ctx);
          gaps = rt_gaps routed @ unclassified_gaps product ctx
      in if gaps \<noteq> [] \<or> rt_elections routed \<noteq> []
         then Inl (ListingBlocked gaps (rt_elections routed)
                     (in_unrecognised (inbound product (lx_edges ctx))) loss)
         else Inr (routed\<lparr>rt_loss := loss\<rparr>))"

definition currency_gate :: "InventoryId \<Rightarrow> PriceIntent \<Rightarrow> ProjectionBlocked + unit" where
  "currency_gate inventory price =
     (case price of
        Free \<Rightarrow> Inr ()
      | Paid money \<Rightarrow>
          (case currency_rule inventory of
             Fixed sells \<Rightarrow>
               if sells = money_currency money then Inr ()
               else Inl (CurrencyMismatch inventory (money_currency money) sells)
           | SellerScoped \<Rightarrow> Inl (CurrencyUnknown inventory)
           | CurrencyUnmeasured \<Rightarrow> Inl (CurrencyUnknown inventory)))"

definition cover_gate :: "CanonicalProduct \<Rightarrow> ProjectionBlocked + unit" where
  "cover_gate product = (if cp_cover product = None then Inl CoverMissing else Inr ())"

fun is_clean :: "ScanOutcome \<Rightarrow> bool" where
  "is_clean (ScanClean at) = True"
| "is_clean ScanPending = False"
| "is_clean (ScanInfected name) = False"
| "is_clean (ScanFailed code) = False"

fun scan_gate :: "ProductFile list \<Rightarrow> ProjectionBlocked + unit" where
  "scan_gate [] = Inr ()"
| "scan_gate (file # files) =
     (if is_clean (fb_scan (pf_bytes file)) then scan_gate files else Inl (ScanIncomplete (pf_id file)))"

definition project_listing_with_overrides ::
  "CanonicalProduct \<Rightarrow> ListingContext \<Rightarrow> ProjectionOverride list \<Rightarrow> FrozenRuleOutput option
     \<Rightarrow> ProjectionBlocked + ListingProjection" where
  "project_listing_with_overrides product ctx overrides approved =
     try_bind (relation_gate product ctx overrides approved) (\<lambda>routed.
     try_bind (currency_gate (lx_inventory ctx) (price_of approved product)) (\<lambda>_.
     try_bind (cover_gate product) (\<lambda>_.
     try_bind (scan_gate (payload_files product)) (\<lambda>_.
       let declared = ir_canonical (registry (lx_inventory ctx)) in
       Inr \<lparr>lp_cover = map_option pf_id (cp_cover product), lp_inventory = lx_inventory ctx,
            lp_title = capped (cp_title product) (cf_title declared),
            lp_body = capped (lc_body (cp_body product)) (cf_description declared),
            lp_body_format = lc_format (cp_body product), lp_price = price_of approved product,
            lp_taxonomy = rt_included routed, lp_grades = rt_grades routed,
            lp_files = map pf_id (payload_files product), lp_natives = rt_natives routed,
            lp_loss = rt_loss routed\<rparr>))))"

definition project_listing ::
  "CanonicalProduct \<Rightarrow> ListingContext \<Rightarrow> ProjectionBlocked + ListingProjection" where
  "project_listing product ctx = project_listing_with_overrides product ctx [] None"

end
