(* ===== verification/ListingSafety.thy ===== *)
theory ListingSafety
  imports Listing
begin

section \<open>What a listing may be published with\<close>

text \<open>
  A listing is rendered only past its four gates, a refusal names the first gate that failed, and
  the licence is never lost in silence on the two inventories whose licence field is measured.
\<close>

subsection \<open>The loop over the axes\<close>

definition relation_axes :: "ListingContext \<Rightarrow> FrozenRuleOutput option \<Rightarrow> AxisBinding list" where
  "relation_axes ctx approved =
     filter (\<lambda>b. accepted_term approved (ab_axis b) = None) (routed_axes (lx_inventory ctx))"

lemma route_fold:
  fixes product ctx overrides approved
  defines "go \<equiv> foldl (route_axis product ctx overrides approved)"
    and "rel \<equiv> \<lambda>bs. filter (\<lambda>b. accepted_term approved (ab_axis b) = None) bs"
    and "out \<equiv> axis_outcome product ctx overrides approved"
  shows "rt_gaps (go r bs) = rt_gaps r @ concat (map (\<lambda>b. ao_gaps (out b)) (rel bs))"
    "rt_elections (go r bs) = rt_elections r @ concat (map (\<lambda>b. ao_elections (out b)) (rel bs))"
    "rt_loss (go r bs) = rt_loss r @ concat (map (\<lambda>b. ao_loss (out b)) (rel bs))"
  unfolding assms
  by (induction bs arbitrary: r)
    (auto simp: route_axis_def Let_def split: option.splits TermKind.splits)

lemma route_natives_keeps:
  "x \<in> set (rt_natives r) \<Longrightarrow> x \<in> set (rt_natives (foldl (route_axis product ctx overrides approved) r bs))"
proof (induction bs arbitrary: r)
  case (Cons b bs)
  have "x \<in> set (rt_natives (route_axis product ctx overrides approved r b))"
    using Cons.prems by (auto simp: route_axis_def Let_def split: option.splits TermKind.splits)
  then show ?case using Cons.IH by simp
qed simp

lemma route_natives_adds:
  assumes "b \<in> set bs" and "ab_axis b \<in> {Licence, ResourceType}"
    and "accepted_term approved (ab_axis b) = None \<Longrightarrow> p \<in> set (ao_resolved (axis_outcome product ctx overrides approved b))"
  shows "\<exists>q. (ab_axis b, q) \<in> set (rt_natives (foldl (route_axis product ctx overrides approved) r bs))"
  using assms(1)
proof (induction bs arbitrary: r)
  case (Cons c bs)
  show ?case
  proof (cases "b = c")
    case True
    have "\<exists>q. (ab_axis b, q) \<in> set (rt_natives (route_axis product ctx overrides approved r b))"
      using assms(2,3) by (cases "accepted_term approved (ab_axis b)") (force simp: route_axis_def Let_def)+
    then show ?thesis using True route_natives_keeps by fastforce
  next
    case False
    then show ?thesis using Cons by simp
  qed
qed simp

lemma gate_one:
  "relation_gate product ctx overrides approved = Inr routed \<Longrightarrow>
     rt_natives routed = rt_natives (route_axes product ctx overrides approved) \<and>
     rt_loss routed = rt_loss (route_axes product ctx overrides approved) @ absent_losses product (lx_inventory ctx) \<and>
     (\<forall>b\<in>set (relation_axes ctx approved). is_publishable (axis_outcome product ctx overrides approved b)) \<and>
     (\<forall>t\<in>set (cp_subjects product). term_kinds (lx_terms ctx) t \<noteq> None)"
  by (auto simp: relation_gate_def Let_def route_axes_def route_fold is_publishable_def relation_axes_def
      unclassified_gaps_def filter_empty_conv split: if_splits)

lemma relation_refusal:
  "relation_gate product ctx overrides approved = Inl b \<Longrightarrow>
     \<exists>gaps elections unrecognised loss. b = ListingBlocked gaps elections unrecognised loss \<and> (gaps \<noteq> [] \<or> elections \<noteq> [])"
  unfolding relation_gate_def Let_def by (simp split: if_splits) blast

lemma scan_gate_clean: "scan_gate fs = Inr () \<longleftrightarrow> (\<forall>f\<in>set fs. is_clean (fb_scan (pf_bytes f)))"
  by (induction fs) auto

lemma scan_gate_first:
  "scan_gate fs = Inl b \<Longrightarrow> \<exists>before f after. fs = before @ f # after \<and>
     (\<forall>g\<in>set before. is_clean (fb_scan (pf_bytes g))) \<and> \<not> is_clean (fb_scan (pf_bytes f)) \<and> b = ScanIncomplete (pf_id f)"
proof (induction fs)
  case (Cons g gs)
  show ?case
  proof (cases "is_clean (fb_scan (pf_bytes g))")
    case True
    then obtain before f after where "gs = before @ f # after" "\<not> is_clean (fb_scan (pf_bytes f))"
      "\<forall>g\<in>set before. is_clean (fb_scan (pf_bytes g))" "b = ScanIncomplete (pf_id f)"
      using Cons by auto
    with True show ?thesis by (intro exI [of _ "g # before"]) auto
  next
    case False
    then show ?thesis using Cons.prems by (intro exI [of _ "[]"]) auto
  qed
qed simp

lemma currency_gate_Inl:
  "currency_gate i price = Inl b \<Longrightarrow> \<exists>m. price = Paid m \<and>
     ((\<exists>sells. currency_rule i = Fixed sells \<and> money_currency m \<noteq> sells
         \<and> b = CurrencyMismatch i (money_currency m) sells) \<or>
      (\<forall>c. currency_rule i \<noteq> Fixed c) \<and> b = CurrencyUnknown i)"
  by (cases price; cases "currency_rule i") (auto simp: currency_gate_def split: if_splits)

lemma is_clean_iff: "is_clean s \<longleftrightarrow> (\<exists>at. s = ScanClean at)"
  by (cases s) simp_all

lemma currency_gate_Inr:
  "currency_gate i price = Inr () \<longleftrightarrow> (\<forall>m. price = Paid m \<longrightarrow> currency_rule i = Fixed (money_currency m))"
  by (auto simp: currency_gate_def split: PriceIntent.splits CurrencyRule.splits)

lemma projected:
  "project_listing_with_overrides product ctx overrides approved = Inr lp \<longleftrightarrow>
     (\<exists>routed. relation_gate product ctx overrides approved = Inr routed \<and>
        currency_gate (lx_inventory ctx) (price_of approved product) = Inr () \<and>
        cp_cover product \<noteq> None \<and> scan_gate (payload_files product) = Inr () \<and>
        lp = \<lparr>lp_cover = map_option pf_id (cp_cover product), lp_inventory = lx_inventory ctx,
            lp_title = capped (cp_title product) (cf_title (ir_canonical (registry (lx_inventory ctx)))),
            lp_body = capped (lc_body (cp_body product)) (cf_description (ir_canonical (registry (lx_inventory ctx)))),
            lp_body_format = lc_format (cp_body product), lp_price = price_of approved product,
            lp_taxonomy = rt_included routed, lp_grades = rt_grades routed,
            lp_files = map pf_id (payload_files product), lp_natives = rt_natives routed,
            lp_loss = rt_loss routed\<rparr>)"
  by (auto simp: project_listing_with_overrides_def try_bind_Inr cover_gate_def Let_def)

text \<open>
  C40. A listing is rendered only past its gates: every axis the seller did not answer is
  publishable, every subject is classified, a price is in the currency the inventory sells in, the
  cover is there and every file scanned clean; and the rendering names those files, that price and
  that inventory.
\<close>

theorem a_listing_is_rendered_only_past_its_gates:
  assumes "project_listing_with_overrides product ctx overrides approved = Inr lp"
  shows "(\<forall>b\<in>set (routed_axes (lx_inventory ctx)). accepted_term approved (ab_axis b) = None \<longrightarrow>
       is_publishable (axis_outcome product ctx overrides approved b)) \<and>
    (\<forall>t\<in>set (cp_subjects product). term_kinds (lx_terms ctx) t \<noteq> None) \<and>
    (\<forall>m. lp_price lp = Paid m \<longrightarrow> currency_rule (lx_inventory ctx) = Fixed (money_currency m)) \<and>
    lp_cover lp \<noteq> None \<and>
    (\<forall>f\<in>set (payload_files product). \<exists>at. fb_scan (pf_bytes f) = ScanClean at) \<and>
    lp_files lp = map pf_id (payload_files product) \<and> lp_inventory lp = lx_inventory ctx \<and>
    lp_price lp = (case approved of None \<Rightarrow> cp_price product | Some frozen \<Rightarrow> fz_price frozen)"
  using assms gate_one [of product ctx overrides approved]
  by (auto simp: projected currency_gate_Inr scan_gate_clean is_clean_iff relation_axes_def price_of_def
      split: option.splits)

text \<open>
  A refusal names the first gate that failed, and why: no earlier gate would have refused,
  and what the refusal carries is what that gate saw.
\<close>

theorem a_refusal_names_the_first_failing_gate:
  assumes "project_listing_with_overrides product ctx overrides approved = Inl blocked"
  shows "case blocked of
      ListingBlocked gaps elections unrecognised loss \<Rightarrow>
        relation_gate product ctx overrides approved = Inl blocked \<and> (gaps \<noteq> [] \<or> elections \<noteq> [])
    | CurrencyMismatch i priced sells \<Rightarrow>
        (\<exists>routed m. relation_gate product ctx overrides approved = Inr routed \<and> i = lx_inventory ctx \<and>
          price_of approved product = Paid m \<and> money_currency m = priced \<and>
          currency_rule i = Fixed sells \<and> priced \<noteq> sells)
    | CurrencyUnknown i \<Rightarrow>
        (\<exists>routed m. relation_gate product ctx overrides approved = Inr routed \<and> i = lx_inventory ctx \<and>
          price_of approved product = Paid m \<and> (\<forall>c. currency_rule i \<noteq> Fixed c))
    | CoverMissing \<Rightarrow>
        cp_cover product = None \<and> currency_gate (lx_inventory ctx) (price_of approved product) = Inr ()
    | ScanIncomplete file \<Rightarrow>
        cp_cover product \<noteq> None \<and>
        (\<exists>before f after. payload_files product = before @ f # after \<and> pf_id f = file \<and>
          (\<forall>g\<in>set before. is_clean (fb_scan (pf_bytes g))) \<and> \<not> is_clean (fb_scan (pf_bytes f)))"
proof -
  consider (relation) "relation_gate product ctx overrides approved = Inl blocked"
    | (currency) routed where "relation_gate product ctx overrides approved = Inr routed"
        "currency_gate (lx_inventory ctx) (price_of approved product) = Inl blocked"
    | (cover) "currency_gate (lx_inventory ctx) (price_of approved product) = Inr ()" "cover_gate product = Inl blocked"
    | (scan) "cover_gate product = Inr ()" "scan_gate (payload_files product) = Inl blocked"
    using assms by (auto simp: project_listing_with_overrides_def try_bind_Inl Let_def)
  then show ?thesis
  proof cases
    case relation
    then show ?thesis using relation_refusal [OF relation] by auto
  next
    case currency
    then show ?thesis using currency_gate_Inl [OF currency(2)] by auto
  next
    case cover
    then show ?thesis by (auto simp: cover_gate_def split: if_splits)
  next
    case scan
    then show ?thesis using scan_gate_first [OF scan(2)] by (auto simp: cover_gate_def split: if_splits)
  qed
qed

subsection \<open>The licence\<close>

lemma answered_is_resolved:
  assumes "is_publishable (project_axis_with_overrides r edges nc ov)"
    and "asked r edges (project_axis_with_overrides r edges nc ov) trigger"
  shows "ao_resolved (project_axis_with_overrides r edges nc ov) \<noteq> []"
  using assms by (auto simp: asked_def is_publishable_def)

lemma placed_is_resolved:
  "is_publishable (project_axis_with_overrides r edges nc ov) \<Longrightarrow>
     placed r edges (project_axis_with_overrides r edges nc ov) p \<Longrightarrow>
     ao_resolved (project_axis_with_overrides r edges nc ov) \<noteq> []"
  using answered_is_resolved by (fastforce simp: placed_def)

text \<open>A required axis that comes out publishable has a value, unless a term of it has no counterpart.\<close>

lemma required_axis_has_a_value:
  assumes pub: "is_publishable (project_axis_with_overrides r edges nc ov)" and req: "requires_a_value r"
  shows "ao_resolved (project_axis_with_overrides r edges nc ov) \<noteq> [] \<or>
    (\<exists>t\<in>set (ar_terms r). no_counterpart nc (target_of r) t)"
proof (cases "ar_terms r")
  case Nil
  then have c: "candidates_for r edges nc ov = []"
    by (simp add: candidates_for_def relation_terms_def left_over_def overridden_def)
  have "elect_over_cardinality k [] = (None, [])" for k
    by (cases "(k, 0::nat)" rule: within.cases) (simp_all add: elect_over_cardinality_def)
  then have "set_triggers r edges nc ov = [Supply (ar_pricing r)]"
    using req Nil by (simp add: set_triggers_def c)
  then have "asked r edges (project_axis_with_overrides r edges nc ov) (Supply (ar_pricing r))"
    by (intro raised_asked) (simp add: axis_before_answers)
  then show ?thesis using answered_is_resolved [OF pub] by blast
next
  case (Cons t ts)
  then have t: "t \<in> set (ar_terms r)" by simp
  show ?thesis
    using term_accounted [OF t refl, of edges nc ov] placed_is_resolved [OF pub] answered_is_resolved [OF pub] t pub
    by (auto simp: is_publishable_def split: option.splits TermProjection.splits)
qed

lemma tes_licence_binding:
  obtains b where "b \<in> set (routed_axes Tes)" "ab_axis b = Licence" "ab_native b = ''licence''"
  by (force simp: routed_axes_def ROUTED_AXES_def registries TES_AXES_def)

lemma tpt_discloses_rights:
  "cp_rights product = Declared source \<Longrightarrow> Loss_NoTargetField Licence source \<in> set (absent_losses product Tpt)"
  by (simp add: absent_losses_def registries carried_in_def rights_source_def)

lemma licence_request:
  "ab_axis b = Licence \<Longrightarrow> ar_binding (axis_request product ctx approved b) = b \<and>
     ar_inventory (axis_request product ctx approved b) = lx_inventory ctx \<and>
     ar_terms (axis_request product ctx approved b) = in_rights_terms (inbound product (lx_edges ctx))"
  by (simp add: axis_request_def Let_def)

lemma rights_terms:
  "t \<in> set (in_rights_terms (inbound product edges)) \<Longrightarrow>
     \<exists>source. cp_rights product = Declared source \<and> ingest source edges = Some t"
  by (auto simp: inbound_def Let_def rights_source_def split: RightsDeclaration.splits option.splits)

text \<open>
  The licence is never lost in silence where its field is measured. A listing rendered for
  Tes carries a licence, the seller's accepted one or the relation's, unless the declared right is
  recorded as having no counterpart there; a listing rendered for TpT, which has no licence field,
  discloses the declared right as lost.
\<close>

theorem the_licence_is_never_lost_in_silence:
  assumes "project_listing_with_overrides product ctx overrides approved = Inr lp"
  shows "case lx_inventory ctx of
      Tes \<Rightarrow> (\<exists>p. (Licence, p) \<in> set (lp_natives lp)) \<or>
        (\<exists>source t. cp_rights product = Declared source \<and> ingest source (lx_edges ctx) = Some t \<and>
           (t, VocabularyId Tes Licence) \<in> set (lx_no_counterparts ctx))
    | Tpt \<Rightarrow> (\<forall>source. cp_rights product = Declared source \<longrightarrow> Loss_NoTargetField Licence source \<in> set (lp_loss lp))
    | Etsy \<Rightarrow> True"
proof -
  obtain routed where g: "relation_gate product ctx overrides approved = Inr routed"
    and lp: "lp_natives lp = rt_natives routed" "lp_loss lp = rt_loss routed"
    using assms unfolding projected by auto
  note one = gate_one [OF g]
  show ?thesis
  proof (cases "lx_inventory ctx")
    case Tes
    obtain b where b: "b \<in> set (routed_axes Tes)" "ab_axis b = Licence" "ab_native b = ''licence''"
      by (rule tes_licence_binding)
    define r where "r = axis_request product ctx approved b"
    have r: "ar_binding r = b" "ar_inventory r = Tes" "ar_terms r = in_rights_terms (inbound product (lx_edges ctx))"
      using licence_request [OF b(2), of product ctx approved] Tes by (simp_all add: r_def)
    have out: "axis_outcome product ctx overrides approved b
        = project_axis_with_overrides r (lx_edges ctx) (lx_no_counterparts ctx) overrides"
      by (simp add: axis_outcome_def r_def)
    have req: "requires_a_value r"
      using licence_required_only_by_tes(1) r(1,2) b(3) by (auto simp: requires_a_value_def split: option.splits)
    show ?thesis
    proof (cases "\<exists>t\<in>set (ar_terms r). no_counterpart (lx_no_counterparts ctx) (target_of r) t")
      case True
      then show ?thesis using Tes r b(2) rights_terms by (fastforce simp: no_counterpart_def target_of_def)
    next
      case False
      have "\<exists>q. (ab_axis b, q) \<in> set (rt_natives (route_axes product ctx overrides approved))"
      proof (cases "accepted_term approved (ab_axis b)")
        case None
        then have "is_publishable (axis_outcome product ctx overrides approved b)"
          using one b(1) Tes by (simp add: relation_axes_def)
        then obtain p where "p \<in> set (ao_resolved (axis_outcome product ctx overrides approved b))"
          using required_axis_has_a_value [of r] req False unfolding out by (metis list.set_intros(1) neq_Nil_conv)
        then show ?thesis
          unfolding route_axes_def using b Tes by (intro route_natives_adds) auto
      next
        case (Some choice)
        then show ?thesis unfolding route_axes_def using b Tes by (intro route_natives_adds) auto
      qed
      then show ?thesis using one lp b(2) Tes by auto
    qed
  next
    case Tpt
    then show ?thesis using one lp tpt_discloses_rights by auto
  qed simp
qed

text \<open>
  Nothing is disclosed on Etsy, whose axes are unmeasured: subjects, grades and rights of a listing
  rendered there are dropped without a gap or a loss.
\<close>

lemma etsy_drops_every_axis:
  assumes "project_listing_with_overrides product ctx overrides approved = Inr lp" and "lx_inventory ctx = Etsy"
  shows "lp_taxonomy lp = [] \<and> lp_grades lp = [] \<and> lp_natives lp = [] \<and> lp_loss lp = []"
proof -
  have "routed_axes Etsy = []" "absent_losses product Etsy = []"
    by (simp_all add: routed_axes_def absent_losses_def registries)
  then show ?thesis
    using assms by (auto simp: projected relation_gate_def Let_def route_axes_def split: if_splits)
qed

text \<open>
  The exception of the previous property is reachable: \<open>project_axis\<close> asks for a required value only
  where the request has no term, so a term recorded as having no counterpart leaves a required axis
  publishable and empty.
\<close>

definition sample_licence_request :: AxisRequest where
  "sample_licence_request =
     \<lparr>ar_product = ProductId (Uuid []), ar_inventory = Tes, ar_binding = TES_AXES ! 4, ar_terms = [sample_term 9],
      ar_sources = [], ar_pricing = PB_Free, ar_rules = [], ar_settled = []\<rparr>"

lemma a_required_axis_can_come_out_empty:
  "requires_a_value sample_licence_request \<and>
   is_publishable (project_axis sample_licence_request [] [(sample_term 9, VocabularyId Tes Licence)]) \<and>
   ao_resolved (project_axis sample_licence_request [] [(sample_term 9, VocabularyId Tes Licence)]) = []"
proof -
  let ?nc = "[(sample_term 9, VocabularyId Tes Licence)]" and ?r = sample_licence_request
  have f: "ar_terms ?r = [sample_term 9]" "target_of ?r = VocabularyId Tes Licence" "ar_binding ?r = TES_AXES ! 4"
    "ab_cardinality (TES_AXES ! 4) = One"
    by (simp_all add: sample_licence_request_def target_of_def TES_AXES_def)
  have p: "project (sample_term 9) v [] = TP_Absent" for v by (simp add: project_Absent edges_of_kind_def)
  have rt: "relation_terms ?r [] ?nc [] = \<lparr>to_included = [], to_loss = [], to_blocked = [], to_omitted = [sample_term 9]\<rparr>"
    by (simp add: relation_terms_def left_over_def find_override_def f project_terms_def add_term_def p)
  have c: "candidates_for ?r [] ?nc [] = []"
    by (simp add: candidates_for_def rt overridden_def find_override_def f List.map_filter_simps)
  have "requires_a_value ?r"
    using licence_required_only_by_tes(1)
    by (auto simp: requires_a_value_def sample_licence_request_def TES_AXES_def split: option.splits)
  then show ?thesis
    by (simp add: project_axis_def is_publishable_def settled_outcome axis_before_answers blocked_triggers_def
        set_triggers_def rt c f elect_over_cardinality_def List.map_filter_simps)
qed

subsection \<open>Witnesses\<close>

lemma silent_axis:
  assumes "ar_terms r = []" and "\<not> requires_a_value r"
  shows "ao_gaps (project_axis_with_overrides r edges nc ov) = []"
    "ao_elections (project_axis_with_overrides r edges nc ov) = []"
    "ao_loss (project_axis_with_overrides r edges nc ov) = []"
proof -
  have f: "relation_terms r edges nc ov = \<lparr>to_included = [], to_loss = [], to_blocked = [], to_omitted = []\<rparr>"
    "overridden r ov = []"
    using assms(1) by (simp_all add: relation_terms_def left_over_def overridden_def)
  then have c: "candidates_for r edges nc ov = []" by (simp add: candidates_for_def)
  have k: "elect_over_cardinality k [] = (None, [])" for k
    by (cases "(k, 0::nat)" rule: within.cases) (simp_all add: elect_over_cardinality_def)
  show "ao_gaps (project_axis_with_overrides r edges nc ov) = []"
    "ao_elections (project_axis_with_overrides r edges nc ov) = []"
    "ao_loss (project_axis_with_overrides r edges nc ov) = []"
    using assms(2) by (simp_all add: settled_outcome axis_before_answers axis_loss blocked_triggers_def
        set_triggers_def f c k List.map_filter_simps)
qed

definition sample_right :: VocabularyPath where
  "sample_right = \<lparr>vp_vocabulary = VocabularyId Tes Licence, vp_segments = [''CC-BY''], vp_native_id = Some ''CC-BY''\<rparr>"

definition sample_listed :: "ProductFile option \<Rightarrow> CanonicalProduct" where
  "sample_listed cover =
     \<lparr>cp_id = ProductId (Uuid []), cp_org = OrgId (Uuid []), cp_title = ''Fractions'',
      cp_body = \<lparr>lc_body = ''Ten sheets.'', lc_format = Markdown\<rparr>, cp_payload = None, cp_cover = cover, cp_previews = [],
      cp_subjects = [], cp_grades = \<lparr>gd_source = DeclSeller, gd_raw = [], gd_derived = None\<rparr>,
      cp_price = Free, cp_rights = Declared sample_right, cp_native_residue = []\<rparr>"

definition sample_cover :: ProductFile where
  "sample_cover = \<lparr>pf_id = FileId (Uuid [7]), pf_role = CoverRole, pf_kind = Image,
     pf_bytes = Held (ContentHash []) 10 (ScanClean (Timestamp 0))\<rparr>"

definition sample_context :: ListingContext where
  "sample_context = \<lparr>lx_org = OrgId (Uuid []), lx_mapping = MappingId (Uuid []), lx_inventory = Tpt,
     lx_now = Timestamp 0, lx_terms = [], lx_edges = [], lx_no_counterparts = [], lx_rules = [], lx_settled = []\<rparr>"

lemma sample_routed:
  "relation_gate (sample_listed cover) sample_context [] None = Inr routed \<longleftrightarrow>
     routed = (route_axes (sample_listed cover) sample_context [] None)\<lparr>rt_loss := [Loss_NoTargetField Licence sample_right]\<rparr>"
proof -
  have req: "\<not> requires_a_value (axis_request (sample_listed cover) sample_context None b)"
    "ar_terms (axis_request (sample_listed cover) sample_context None b) = []"
    if "b \<in> set (routed_axes Tpt)" for b
    using that by (auto simp: axis_request_def Let_def requires_a_value_def sample_context_def sample_listed_def
        inbound_def ingest_grades_def rights_source_def ingest_def routed_axes_def ROUTED_AXES_def registries
        TPT_AXES_def native_def TPT_NATIVES_def)
  have out: "ao_gaps (axis_outcome (sample_listed cover) sample_context [] None b) = []"
    "ao_elections (axis_outcome (sample_listed cover) sample_context [] None b) = []"
    "ao_loss (axis_outcome (sample_listed cover) sample_context [] None b) = []"
    if "b \<in> set (routed_axes Tpt)" for b
    using silent_axis [OF req(2) [OF that] req(1) [OF that]] by (simp_all add: axis_outcome_def)
  have i: "lx_inventory sample_context = Tpt" "unclassified_gaps (sample_listed cover) sample_context = []"
    "absent_losses (sample_listed cover) Tpt = [Loss_NoTargetField Licence sample_right]"
    by (simp_all add: sample_context_def sample_listed_def unclassified_gaps_def absent_losses_def registries
        carried_in_def rights_source_def)
  have "rt_gaps (route_axes (sample_listed cover) sample_context [] None) = []"
    "rt_elections (route_axes (sample_listed cover) sample_context [] None) = []"
    "rt_loss (route_axes (sample_listed cover) sample_context [] None) = []"
    by (auto simp: route_axes_def route_fold i out)
  then show ?thesis by (auto simp: relation_gate_def Let_def i)
qed

lemma sample_listing_projected:
  "\<exists>lp. project_listing (sample_listed (Some sample_cover)) sample_context = Inr lp"
  unfolding project_listing_def projected sample_routed
  by (simp add: price_of_def currency_gate_def payload_files_def) (simp add: sample_listed_def)

theorem a_listing_is_rendered_only_past_its_gates_witness:
  "\<exists>lp. project_listing (sample_listed (Some sample_cover)) sample_context = Inr lp \<and>
     lp_cover lp \<noteq> None \<and> lp_inventory lp = Tpt \<and> lp_files lp = map pf_id (payload_files (sample_listed (Some sample_cover)))"
proof -
  obtain lp where lp: "project_listing (sample_listed (Some sample_cover)) sample_context = Inr lp"
    using sample_listing_projected by blast
  from a_listing_is_rendered_only_past_its_gates [OF lp [unfolded project_listing_def]] lp show ?thesis
    by (auto simp: sample_context_def)
qed

theorem a_refusal_names_the_first_failing_gate_witness:
  "project_listing (sample_listed None) sample_context = Inl CoverMissing \<and> cp_cover (sample_listed None) = None"
proof -
  have r: "relation_gate (sample_listed None) sample_context [] None = Inr ((route_axes (sample_listed None)
      sample_context [] None)\<lparr>rt_loss := [Loss_NoTargetField Licence sample_right]\<rparr>)"
    by (simp add: sample_routed)
  have c: "project_listing (sample_listed None) sample_context = Inl CoverMissing"
    by (simp add: project_listing_def project_listing_with_overrides_def r price_of_def)
      (simp add: sample_listed_def currency_gate_def cover_gate_def)
  from a_refusal_names_the_first_failing_gate [OF c [unfolded project_listing_def]] c show ?thesis by simp
qed

theorem the_licence_is_never_lost_in_silence_witness:
  "\<exists>lp. project_listing (sample_listed (Some sample_cover)) sample_context = Inr lp \<and>
     Loss_NoTargetField Licence sample_right \<in> set (lp_loss lp)"
proof -
  obtain lp where lp: "project_listing (sample_listed (Some sample_cover)) sample_context = Inr lp"
    using sample_listing_projected by blast
  from the_licence_is_never_lost_in_silence [OF lp [unfolded project_listing_def]] lp show ?thesis
    by (simp add: sample_context_def) (simp add: sample_listed_def)
qed

end
