(* ===== verification/DriverTypes.thy ===== *)
theory DriverTypes
  imports SyncRuns
begin

section \<open>The driver's vocabulary (crate tam-engine-driver)\<close>

text \<open>
  The values the interpreter and the ledger exchange (\<open>crates/tam-engine-driver/src/vocabulary.rs\<close>),
  the recorded intent and the seed (\<open>seed.rs\<close>, \<open>driver.rs\<close>), and the pure conversions of
  \<open>driver.rs\<close>: an outcome becomes an item verdict, an attempt state and a landing effect, a bind
  disposition an anomaly, an input or a state the ambiguity it names.

  A \<open>serde_json::Value\<close> is \<open>Json\<close>; an object is a finite map read as a function of the key, which
  is what the crate's ordered map is to equality. Its text and the blake3 digest of that text
  belong to other crates and are parameters.
\<close>

subsection \<open>Leases, attempts and verdicts (vocabulary.rs)\<close>

record LeaseRef =
  lr_org :: OrgId
  lr_item :: JobItemId
  lr_lease_epoch :: i64

record LeasedItem =
  le_org :: OrgId
  le_item :: JobItemId
  le_job :: JobId
  le_mapping :: MappingId
  le_inventory :: InventoryId
  le_idempotency_key :: IdempotencyKey
  le_operation :: ItemOperation
  le_lease_epoch :: i64
  le_attempt_count :: i32
  le_requires_bound_on :: "InventoryId option"

definition lease_ref :: "LeasedItem \<Rightarrow> LeaseRef" where
  "lease_ref lease = \<lparr>lr_org = le_org lease, lr_item = le_item lease,
     lr_lease_epoch = le_lease_epoch lease\<rparr>"

datatype Json =
    J_Null
  | J_String string
  | J_Int i64
  | J_Array "Json list"
  | J_Object "string \<Rightarrow> Json option"

record AttemptIntent =
  ai_body :: Json
  ai_hash :: "u8 list"

record NewAttempt =
  na_attempt :: Uuid
  na_mapping :: MappingId
  na_intent :: AttemptIntent

record Attestation =
  at_attested_by :: string
  at_attested_at_ms :: i64

record AttemptRef =
  af_attempt :: Uuid
  af_mapping :: MappingId

datatype LandingEffect =
    LE_None
  | LE_Addressed RemoteListingId
  | LE_Landed RemoteListingId RemoteLifecycle
  | LE_Severed RemoteListingId

record AttemptVerdict =
  av_state :: string
  av_failure_code :: "FailureCode option"
  av_ambiguity :: "AmbiguityCause option"
  av_landing :: LandingEffect

datatype BindDisposition =
    BD_NotLanded | BD_Addressed | BD_Bound | BD_AlreadyBound
  | BD_DivergentLanding RemoteListingId
  | BD_ClaimedElsewhere MappingId
  | BD_Refused string
  | BD_Severed
  | BD_SeverRefused string
  | BD_SeverDiverged RemoteListingId

record ItemVerdict =
  iv_outcome :: ItemOutcome
  iv_failure_code :: "FailureCode option"
  iv_failure_detail :: "FailureDetail option"

record PreflightStreak =
  ps_failures :: u32
  ps_edge_only :: bool

datatype BudgetGrant = Granted i32 | Exhausted

datatype GrantKind = GK_Write | GK_VerifyRead | GK_FormRead

datatype LedgerError =
    LG_AttemptInFlight | LG_MappingAlreadyBound | LG_StaleLease | LG_Refused string

fun ledger_error_str :: "LedgerError \<Rightarrow> string" where
  "ledger_error_str LG_AttemptInFlight = ''an attempt is already in flight''"
| "ledger_error_str LG_MappingAlreadyBound =
     ''that mapping is already bound, so this create has nothing to make''"
| "ledger_error_str LG_StaleLease = ''the lease epoch is stale''"
| "ledger_error_str (LG_Refused detail) = ''the ledger refused the write: '' @ detail"

record Renewed =
  rn_server_now_ms :: i64
  rn_server_deadline_ms :: i64

text \<open>The events of \<open>tam-types/src/lib.rs\<close>; the driver records five of them.\<close>

datatype BindAnomaly =
    BA_DivergentLanding string
  | BA_ClaimedElsewhere MappingId
  | BA_Refused string
  | BA_SeverDiverged string
  | BA_SeveredAfterSteal i64

datatype JobEventPayload =
    JE_JobQueued u32
  | JE_JobStarted u32
  | JE_ItemQueued MappingId
  | JE_ItemLeased string i64
  | JE_ItemActionStarted u32 string
  | JE_ItemActionFinished u32
  | JE_ItemBlocked string
  | JE_ItemParked i64
  | JE_ItemGateChanged string
  | JE_ItemResumed
  | JE_ItemSettled string
  | JE_JobSettled u32 u32 u32 u32 u32 u32
  | JE_JobHalted string
  | JE_ImportDrainMeasured InventoryId InventoryId u32 u32 u32 u32 u32 u32
  | JE_ItemBindAnomaly BindAnomaly
  | JE_ImportPageApplied Uuid u32 u32
  | JE_ImportCompleted Uuid "JobId option" u32 u32
  | JE_ImportRunListed Uuid u32
  | JE_ImportRunProgress Uuid u32 u32 u32 u32 u32 u32 u32
  | JE_ImportRunItemSettled Uuid string string
  | JE_ImportRunSettled Uuid string

fun job_event_kind :: "JobEventPayload \<Rightarrow> string" where
  "job_event_kind (JE_JobQueued _) = ''JobQueued''"
| "job_event_kind (JE_JobStarted _) = ''JobStarted''"
| "job_event_kind (JE_ItemQueued _) = ''ItemQueued''"
| "job_event_kind (JE_ItemLeased _ _) = ''ItemLeased''"
| "job_event_kind (JE_ItemActionStarted _ _) = ''ItemActionStarted''"
| "job_event_kind (JE_ItemActionFinished _) = ''ItemActionFinished''"
| "job_event_kind (JE_ItemBlocked _) = ''ItemBlocked''"
| "job_event_kind (JE_ItemParked _) = ''ItemParked''"
| "job_event_kind (JE_ItemGateChanged _) = ''ItemGateChanged''"
| "job_event_kind JE_ItemResumed = ''ItemResumed''"
| "job_event_kind (JE_ItemSettled _) = ''ItemSettled''"
| "job_event_kind (JE_JobSettled _ _ _ _ _ _) = ''JobSettled''"
| "job_event_kind (JE_JobHalted _) = ''JobHalted''"
| "job_event_kind (JE_ImportDrainMeasured _ _ _ _ _ _ _ _) = ''ImportDrainMeasured''"
| "job_event_kind (JE_ItemBindAnomaly _) = ''ItemBindAnomaly''"
| "job_event_kind (JE_ImportPageApplied _ _ _) = ''ImportPageApplied''"
| "job_event_kind (JE_ImportCompleted _ _ _ _) = ''ImportCompleted''"
| "job_event_kind (JE_ImportRunListed _ _) = ''ImportRunListed''"
| "job_event_kind (JE_ImportRunProgress _ _ _ _ _ _ _ _) = ''ImportRunProgress''"
| "job_event_kind (JE_ImportRunItemSettled _ _ _) = ''ImportRunItemSettled''"
| "job_event_kind (JE_ImportRunSettled _ _) = ''ImportRunSettled''"

definition ALL_KINDS :: "string list" where
  "ALL_KINDS = [''JobQueued'', ''JobStarted'', ''ItemQueued'', ''ItemLeased'', ''ItemActionStarted'',
     ''ItemActionFinished'', ''ItemBlocked'', ''ItemParked'', ''ItemGateChanged'', ''ItemResumed'',
     ''ItemSettled'', ''JobSettled'', ''JobHalted'', ''ImportDrainMeasured'', ''ItemBindAnomaly'',
     ''ImportPageApplied'', ''ImportCompleted'', ''ImportRunListed'', ''ImportRunProgress'',
     ''ImportRunItemSettled'', ''ImportRunSettled'']"

lemma every_kind_is_listed: "job_event_kind payload \<in> set ALL_KINDS"
  by (cases payload) (simp_all add: ALL_KINDS_def)

subsection \<open>Plans of the adapter (tam-marketplace)\<close>

record RevisePlan =
  rpl_subject :: RemoteListingId
  rpl_fields :: FieldSet
  rpl_transition :: LifecycleTransition

record RemovalPlan =
  rml_attempt :: WriteAttemptId
  rml_subject :: RemoteListingId
  rml_state :: ListingState

subsection \<open>The policy of the verification poll and the seed\<close>

record VerifyPolicy =
  vo_tries :: u32
  vo_interval_ms :: u32

definition window_ms :: "VerifyPolicy \<Rightarrow> u64" where
  "window_ms policy = ucast (vo_tries policy) * ucast (vo_interval_ms policy)"

record MachineSeed =
  ms_resume :: "(WriteAttemptId \<times> RecordedTitle) option"
  ms_attestation :: "Attestation option"
  ms_form :: FormId
  ms_fields :: FieldSet
  ms_intent_hash :: ContentHash
  ms_strategy :: CreateStrategy
  ms_budget :: StepBudget
  ms_verify :: VerifyPolicy

datatype RunVerdict = RV_Settled ItemOutcome | RV_Parked | RV_Abandoned string

datatype EngineError =
  EE_Ledger LedgerError | EE_Machine MachineError | EE_Projection AdapterError

subsection \<open>The recorded intent\<close>

fun state_name :: "ListingState \<Rightarrow> string" where
  "state_name Draft = ''draft''"
| "state_name Live = ''live''"

definition obj :: "(string \<times> Json) list \<Rightarrow> Json" where
  "obj kvs = J_Object (map_of kvs)"

fun subject_as_json :: "RemoteListingId \<Rightarrow> Json" where
  "subject_as_json (RTes url) = obj [(''kind'', J_String ''tes''), (''url'', J_String url)]"
| "subject_as_json (RTpt product_id) =
     obj [(''kind'', J_String ''tpt''), (''id'', J_Int (uint product_id))]"
| "subject_as_json (REtsy listing_id) =
     obj [(''kind'', J_String ''etsy''), (''id'', J_Int (uint listing_id))]"

text \<open>The derived \<open>Debug\<close> and \<open>Serialize\<close> spelling of a field key, and a file's serialisation.\<close>

fun field_key_name :: "FieldKey \<Rightarrow> string" where
  "field_key_name Title = ''Title''"
| "field_key_name Description = ''Description''"
| "field_key_name Price = ''Price''"
| "field_key_name Taxonomy = ''Taxonomy''"
| "field_key_name Grades = ''Grades''"
| "field_key_name Files = ''Files''"

fun file_as_json :: "FileId \<Rightarrow> Json" where
  "file_as_json (FileId u) = J_String (to_hyphenated u)"

definition entries_as_json :: "FieldSet \<Rightarrow> Json" where
  "entries_as_json fieldset =
     J_Array (map (\<lambda>(key, value). J_Array [J_String (field_key_name key), J_String value])
       (fs_entries fieldset))"

definition files_as_json :: "FieldSet \<Rightarrow> Json" where
  "files_as_json fieldset = J_Array (map file_as_json (fs_files fieldset))"

definition intent_as_json :: "ItemOperation \<Rightarrow> FieldSet \<Rightarrow> Json" where
  "intent_as_json operation fieldset =
     (let entries = entries_as_json fieldset; files = files_as_json fieldset
      in case operation of
           Create \<Rightarrow> obj [(''operation'', J_String ''create''), (''entries'', entries), (''files'', files)]
         | Revise s t \<Rightarrow>
             obj [(''operation'', J_String ''revise''), (''subject'', subject_as_json s),
                  (''from'', J_String (state_name (lt_from t))),
                  (''to'', J_String (state_name (lt_to t))),
                  (''entries'', entries), (''files'', files)]
         | PublishTo to \<Rightarrow>
             obj [(''operation'', J_String ''publish''), (''to'', J_String (state_name to)),
                  (''entries'', entries), (''files'', files)]
         | Remove s state \<Rightarrow>
             obj [(''operation'', J_String ''remove''), (''subject'', subject_as_json s),
                  (''state'', J_String (state_name state))])"

definition attested_intent :: "ItemOperation \<Rightarrow> FieldSet \<Rightarrow> Attestation option \<Rightarrow> Json" where
  "attested_intent operation fieldset attestation =
     (let body = intent_as_json operation fieldset
      in case (attestation, body) of
           (Some a, J_Object object) \<Rightarrow>
             J_Object (object(''attested_by'' \<mapsto> J_String (at_attested_by a),
                              ''attested_at_ms'' \<mapsto> J_Int (at_attested_at_ms a)))
         | _ \<Rightarrow> body)"

subsection \<open>The seed (seed.rs)\<close>

text \<open>
  \<open>ItemPreparation\<close>, without the projected listing, which \<open>project_fields\<close> of the adapter has
  already rendered. The digest is taken over the text \<open>to_string\<close> gives the value.
\<close>

record ItemPreparation =
  ip_operation :: ItemOperation
  ip_form :: FormId
  ip_strategy :: CreateStrategy
  ip_budget :: StepBudget
  ip_verify :: VerifyPolicy

definition rendered_as_json :: "FieldSet \<Rightarrow> Json" where
  "rendered_as_json fieldset =
     obj [(''entries'', entries_as_json fieldset), (''files'', files_as_json fieldset)]"

definition seed_of :: "ItemPreparation \<Rightarrow> FieldSet \<Rightarrow> ContentHash \<Rightarrow> MachineSeed" where
  "seed_of preparation fieldset hash =
     \<lparr>ms_resume = None, ms_attestation = None, ms_form = ip_form preparation,
      ms_fields = fieldset, ms_intent_hash = hash, ms_strategy = ip_strategy preparation,
      ms_budget = ip_budget preparation, ms_verify = ip_verify preparation\<rparr>"

definition seed_from_projection ::
  "(Json \<Rightarrow> string) \<Rightarrow> (string \<Rightarrow> ContentHash) \<Rightarrow> AdapterError + FieldSet \<Rightarrow> ItemPreparation
     \<Rightarrow> EngineError + MachineSeed" where
  "seed_from_projection to_string blake3 project_fields preparation =
     (case project_fields of
        Inl refused \<Rightarrow> Inl (EE_Projection refused)
      | Inr fieldset \<Rightarrow>
          Inr (seed_of preparation fieldset (blake3 (to_string (rendered_as_json fieldset)))))"

definition seed_for_removal ::
  "(Json \<Rightarrow> string) \<Rightarrow> (string \<Rightarrow> ContentHash) \<Rightarrow> ItemPreparation \<Rightarrow> MachineSeed" where
  "seed_for_removal to_string blake3 preparation =
     (let fieldset = \<lparr>fs_entries = [], fs_files = [], fs_cover = None, fs_body_format = None,
                      fs_appropriate_for_country = None\<rparr>
      in seed_of preparation fieldset
           (blake3 (to_string (intent_as_json (ip_operation preparation) fieldset))))"

subsection \<open>Verdicts\<close>

definition challenge_verdict :: "ChallengeKind \<Rightarrow> FailureCode \<times> FailureDetail" where
  "challenge_verdict challenge =
     (if seller_clears challenge then
        (SessionExpired, FailureDetail
          ''this marketplace connection needs re-linking: it is asking us to sign in again'')
      else
        (ChallengePresented, FailureDetail
          ''the marketplace is challenging our requests; retrying is ours to do, not yours''))"

definition ambiguity_verdict :: "AmbiguityCause \<Rightarrow> FailureCode \<times> FailureDetail" where
  "ambiguity_verdict cause =
     (OtherFailure, FailureDetail (''this write's fate is unknown ('' @ ambiguity_name cause
        @ ''); an operator settles it rather than a retry''))"

fun outcome_to_item :: "Outcome \<Rightarrow> ItemVerdict" where
  "outcome_to_item (Out_Committed receipt report) =
     \<lparr>iv_outcome = IO_Succeeded, iv_failure_code = None, iv_failure_detail = None\<rparr>"
| "outcome_to_item (Out_Degraded receipt report) =
     \<lparr>iv_outcome = IO_Degraded, iv_failure_code = None, iv_failure_detail = None\<rparr>"
| "outcome_to_item (Out_Rejected code detail) =
     \<lparr>iv_outcome = IO_Failed, iv_failure_code = Some code, iv_failure_detail = Some detail\<rparr>"
| "outcome_to_item (Out_Ambiguous attempt cause evidence) =
     (let (code, detail) = ambiguity_verdict cause
      in \<lparr>iv_outcome = IO_Ambiguous, iv_failure_code = Some code, iv_failure_detail = Some detail\<rparr>)"
| "outcome_to_item (Out_Blocked challenge) =
     (let (code, detail) = challenge_verdict challenge
      in \<lparr>iv_outcome = IO_Blocked, iv_failure_code = Some code, iv_failure_detail = Some detail\<rparr>)"
| "outcome_to_item (Out_Skipped code) =
     \<lparr>iv_outcome = IO_Skipped, iv_failure_code = Some code, iv_failure_detail = None\<rparr>"

fun committed_listing :: "Outcome \<Rightarrow> RemoteListingId option" where
  "committed_listing (Out_Committed receipt report) = Some (wr_id receipt)"
| "committed_listing (Out_Degraded receipt report) = Some (wr_id receipt)"
| "committed_listing (Out_Rejected code detail) = None"
| "committed_listing (Out_Ambiguous attempt cause evidence) = None"
| "committed_listing (Out_Blocked challenge) = None"
| "committed_listing (Out_Skipped code) = None"

definition outcome_to_landing ::
  "ItemOperation \<Rightarrow> Outcome \<Rightarrow> RemoteLifecycle option \<Rightarrow> LandingEffect" where
  "outcome_to_landing operation outcome observed =
     (let landed = (\<lambda>i. case observed of None \<Rightarrow> LE_None | Some lifecycle \<Rightarrow> LE_Landed i lifecycle)
      in case (operation, committed_listing outcome) of
           (Remove _ _, Some i) \<Rightarrow> LE_Severed i
         | (Create, Some i) \<Rightarrow> landed i
         | (PublishTo _, Some i) \<Rightarrow> landed i
         | (Revise _ _, Some i) \<Rightarrow> landed i
         | (Create, None) \<Rightarrow> LE_None
         | (PublishTo _, None) \<Rightarrow> LE_None
         | (Revise s _, None) \<Rightarrow> LE_Addressed s
         | (Remove s _, None) \<Rightarrow> LE_Addressed s)"

fun outcome_to_attempt_state :: "Outcome \<Rightarrow> string" where
  "outcome_to_attempt_state (Out_Committed receipt report) = ''committed''"
| "outcome_to_attempt_state (Out_Degraded receipt report) = ''committed''"
| "outcome_to_attempt_state (Out_Rejected code detail) = ''failed''"
| "outcome_to_attempt_state (Out_Ambiguous attempt cause evidence) = ''ambiguous''"
| "outcome_to_attempt_state (Out_Blocked challenge) = ''abandoned''"
| "outcome_to_attempt_state (Out_Skipped code) = ''abandoned''"

definition addressed_by :: "ItemOperation \<Rightarrow> LandingEffect" where
  "addressed_by operation =
     (case subject operation of None \<Rightarrow> LE_None | Some i \<Rightarrow> LE_Addressed i)"

definition may_settle_unverified :: "ItemOperation \<Rightarrow> bool" where
  "may_settle_unverified operation \<longleftrightarrow> operation \<noteq> Create"

subsection \<open>Ambiguities\<close>

fun outcome_ambiguity :: "Outcome \<Rightarrow> AmbiguityCause option" where
  "outcome_ambiguity (Out_Ambiguous attempt cause evidence) = Some cause"
| "outcome_ambiguity (Out_Committed receipt report) = None"
| "outcome_ambiguity (Out_Degraded receipt report) = None"
| "outcome_ambiguity (Out_Rejected code detail) = None"
| "outcome_ambiguity (Out_Blocked challenge) = None"
| "outcome_ambiguity (Out_Skipped code) = None"

fun error_ambiguity :: "AdapterError \<Rightarrow> AmbiguityCause option" where
  "error_ambiguity (AE_Ambiguous cause) = Some cause"
| "error_ambiguity (AE_Rejected code detail) = None"
| "error_ambiguity (AE_Challenge challenge) = None"
| "error_ambiguity AE_SessionExpired = None"
| "error_ambiguity (AE_SchemaDrift drift) = None"
| "error_ambiguity (AE_RateLimited retry) = None"
| "error_ambiguity (AE_NotSent failure) = None"
| "error_ambiguity (AE_Uncaptured detail) = None"

fun input_ambiguity :: "Input \<Rightarrow> AmbiguityCause option" where
  "input_ambiguity (I_SubmitResult (Inl error)) = error_ambiguity error"
| "input_ambiguity (I_ReadBackResult (Inl error)) = error_ambiguity error"
| "input_ambiguity (I_ReconcileResult (Inl error)) = error_ambiguity error"
| "input_ambiguity (I_PreflightResult result) = None"
| "input_ambiguity (I_IntentRecorded attempt) = None"
| "input_ambiguity (I_SubmitResult (Inr evidence)) = None"
| "input_ambiguity (I_ReadBackResult (Inr observed)) = None"
| "input_ambiguity (I_ReconcileResult (Inr found)) = None"
| "input_ambiguity (I_ResumeStranded attempt recorded) = None"
| "input_ambiguity I_ChallengeCleared = None"
| "input_ambiguity I_ParkExpired = None"
| "input_ambiguity I_BudgetExhausted = None"

fun state_ambiguity :: "SyncState \<Rightarrow> AmbiguityCause option" where
  "state_ambiguity (S_Terminal outcome) = outcome_ambiguity outcome"
| "state_ambiguity S_AwaitingPreflight = None"
| "state_ambiguity (S_PreflightAsserted schema) = None"
| "state_ambiguity (S_IntentRecorded attempt schema) = None"
| "state_ambiguity (S_Submitted attempt evidence) = None"
| "state_ambiguity (S_AwaitingReadBack attempt locator) = None"
| "state_ambiguity (S_Stranded attempt locator) = None"
| "state_ambiguity (S_Parked attempt challenge) = None"

definition ambiguity_now ::
  "AmbiguityCause option \<Rightarrow> Input option \<Rightarrow> SyncState \<Rightarrow> AmbiguityCause option" where
  "ambiguity_now observed pending state =
     or_else (or_else (Option.bind pending input_ambiguity) (state_ambiguity state)) observed"

fun recorded_by :: "ListingLocator \<Rightarrow> RecordedTitle option" where
  "recorded_by (Recorded title inventory) = Some title"
| "recorded_by (Marker marker inventory) = None"
| "recorded_by (Durable i) = None"

subsection \<open>Names\<close>

text \<open>The derived \<open>Debug\<close> names of the field-less enums the driver prints.\<close>

fun challenge_name :: "ChallengeKind \<Rightarrow> string" where
  "challenge_name EmailedOneTimePassword = ''EmailedOneTimePassword''"
| "challenge_name Captcha = ''Captcha''"
| "challenge_name JavaScriptInterstitial = ''JavaScriptInterstitial''"
| "challenge_name ReauthRequired = ''ReauthRequired''"

fun item_outcome_name :: "ItemOutcome \<Rightarrow> string" where
  "item_outcome_name IO_Succeeded = ''Succeeded''"
| "item_outcome_name IO_Degraded = ''Degraded''"
| "item_outcome_name IO_Failed = ''Failed''"
| "item_outcome_name IO_Ambiguous = ''Ambiguous''"
| "item_outcome_name IO_Skipped = ''Skipped''"
| "item_outcome_name IO_Blocked = ''Blocked''"

fun capture_cause_name :: "CaptureCause \<Rightarrow> string" where
  "capture_cause_name CC_Ambiguity = ''Ambiguity''"
| "capture_cause_name CC_SchemaDrift = ''SchemaDrift''"
| "capture_cause_name CC_VerificationMismatch = ''VerificationMismatch''"
| "capture_cause_name CC_UnexpectedOrigin = ''UnexpectedOrigin''"

fun block_cause_name :: "BlockCause \<Rightarrow> string" where
  "block_cause_name BC_Reauth = ''reauth''"
| "block_cause_name BC_Challenge = ''challenge''"
| "block_cause_name BC_Reconciliation = ''reconciliation''"
| "block_cause_name BC_RateGovernor = ''rate-governor''"

text \<open>The derived \<open>Debug\<close> text of the structured values that only reach a log or a reason.\<close>

record DebugText =
  dt_adapter_error :: "AdapterError \<Rightarrow> string"
  dt_engine_error :: "EngineError \<Rightarrow> string"
  dt_remote :: "RemoteListingId \<Rightarrow> string"
  dt_attempt :: "WriteAttemptId option \<Rightarrow> string"

definition capture_label ::
  "DebugText \<Rightarrow> CaptureCause \<Rightarrow> AmbiguityCause option \<Rightarrow> WriteAttemptId option \<Rightarrow> string" where
  "capture_label dt cause ambiguity attempt =
     ''capture:'' @ capture_cause_name cause @ '':''
       @ (case ambiguity of None \<Rightarrow> ''unknown'' | Some c \<Rightarrow> ambiguity_name c)
       @ '':'' @ dt_attempt dt attempt"

fun bind_anomaly :: "DebugText \<Rightarrow> BindDisposition \<Rightarrow> BindAnomaly option" where
  "bind_anomaly dt BD_Bound = None"
| "bind_anomaly dt BD_AlreadyBound = None"
| "bind_anomaly dt BD_NotLanded = None"
| "bind_anomaly dt BD_Addressed = None"
| "bind_anomaly dt BD_Severed = None"
| "bind_anomaly dt (BD_DivergentLanding existing) = Some (BA_DivergentLanding (dt_remote dt existing))"
| "bind_anomaly dt (BD_ClaimedElsewhere m) = Some (BA_ClaimedElsewhere m)"
| "bind_anomaly dt (BD_Refused state) = Some (BA_Refused state)"
| "bind_anomaly dt (BD_SeverRefused state) = Some (BA_Refused state)"
| "bind_anomaly dt (BD_SeverDiverged existing) = Some (BA_SeverDiverged (dt_remote dt existing))"

fun preflight_challenge :: "AdapterError \<Rightarrow> ChallengeKind" where
  "preflight_challenge (AE_Challenge kind) = kind"
| "preflight_challenge AE_SessionExpired = ReauthRequired"
| "preflight_challenge (AE_Ambiguous cause) = ReauthRequired"
| "preflight_challenge (AE_Rejected code detail) = ReauthRequired"
| "preflight_challenge (AE_SchemaDrift drift) = ReauthRequired"
| "preflight_challenge (AE_RateLimited retry) = ReauthRequired"
| "preflight_challenge (AE_NotSent failure) = ReauthRequired"
| "preflight_challenge (AE_Uncaptured detail) = ReauthRequired"

subsection \<open>Lemmas\<close>

text \<open>
  The attestation reaches the recorded body and nothing else: the body without its two keys is the
  value the intent hash is taken over.
\<close>

lemma intent_is_an_object: "\<exists>f. intent_as_json operation fieldset = J_Object f
    \<and> f ''attested_by'' = None \<and> f ''attested_at_ms'' = None"
  by (cases operation) (simp_all add: intent_as_json_def obj_def Let_def)

lemma an_attestation_stays_out_of_the_hash:
  "\<exists>f. attested_intent operation fieldset attestation = J_Object f
     \<and> intent_as_json operation fieldset = J_Object (f(''attested_by'' := None, ''attested_at_ms'' := None))"
proof -
  obtain f where f: "intent_as_json operation fieldset = J_Object f"
    "f ''attested_by'' = None" "f ''attested_at_ms'' = None"
    using intent_is_an_object by blast
  then have "f = f(''attested_by'' := None, ''attested_at_ms'' := None)" by auto
  with f show ?thesis
    by (cases attestation) (auto simp: attested_intent_def Let_def fun_upd_twist)
qed

lemma window_never_overflows: "uint (window_ms p) = uint (vo_tries p) * uint (vo_interval_ms p)"
proof -
  have a: "uint (vo_tries p) < 2 ^ 32" "uint (vo_interval_ms p) < 2 ^ 32"
    using unsigned_less [where 'a = int and w = "vo_tries p"]
      unsigned_less [where 'a = int and w = "vo_interval_ms p"] by simp_all
  have "uint (vo_tries p) * uint (vo_interval_ms p) < 2 ^ 32 * 2 ^ 32"
    by (rule mult_strict_mono) (use a in simp_all)
  then show ?thesis
    using a by (simp add: window_ms_def uint_word_ariths uint_up_ucast is_up unsigned_ucast_eq take_bit_eq_mod)
qed

text \<open>A settled outcome names a landing only where it committed, and severs only for a removal.\<close>

lemma landing_needs_a_commit:
  "outcome_to_landing operation outcome observed = LE_Landed i l \<Longrightarrow>
     committed_listing outcome = Some i \<and> observed = Some l \<and> \<not> is_remove operation"
  "outcome_to_landing operation outcome observed = LE_Severed i \<Longrightarrow>
     committed_listing outcome = Some i \<and> is_remove operation"
  by (cases operation; cases "committed_listing outcome"; cases observed;
      simp add: outcome_to_landing_def)+

end
