(* ===== verification/DriverPorts.thy ===== *)
theory DriverPorts
  imports DriverTypes
begin

section \<open>The driver's ports\<close>

text \<open>
  What the interpreter may ask of the outside (\<open>crates/tam-engine-driver/src/ports.rs\<close> and the
  context of \<open>driver.rs\<close>): the adapter, the seller's catalogue, the ledger, the clock, the id
  source, the cancellation flag and the pause. Everything behind a port is a parameter: a
  \<open>DriverContext\<close> gives the answer to a call from the calls made before it, so it may depend on
  all of them and be different each time.

  A function of the driver is an \<open>act\<close>: it is run on the log of the calls made so far, newest first,
  and returns the longer log with a \<open>Flow\<close>: \<open>Go\<close> a value, \<open>Return\<close> from the run with a verdict, or
  \<open>Raise\<close> the error \<open>?\<close> propagates.
\<close>

datatype Call =
    C_Now Timestamp
  | C_IsCancelled bool
  | C_Pause u32
  | C_NewId Uuid
  | C_AssertFormSchema FormId "AdapterError + FormSchemaFingerprint"
  | C_Submit IdempotencyKey FieldSet Timestamp "AdapterError + SubmitEvidence"
  | C_Revise RevisePlan Timestamp "AdapterError + SubmitEvidence"
  | C_Remove RemovalPlan Timestamp "AdapterError + SubmitEvidence"
  | C_ReadBack ListingLocator FetchReason Timestamp "AdapterError + ObservedListing"
  | C_FindListing ListingLocator WriteAttemptId "AdapterError + RemoteListingId option"
  | C_ConnectionFor LeaseRef InventoryId "LedgerError + ConnectionId option"
  | C_PreflightSucceeded LeaseRef "LedgerError + unit"
  | C_PreflightFailed LeaseRef bool "LedgerError + PreflightStreak"
  | C_Park LeaseRef string "LedgerError + unit"
  | C_SettleItem LeaseRef ItemVerdict Timestamp "LedgerError + unit"
  | C_OpenAttempt LeaseRef NewAttempt Timestamp "LedgerError + unit"
  | C_SettleAttempt LeaseRef AttemptRef AttemptVerdict Timestamp "LedgerError + BindDisposition"
  | C_GateConnection LeaseRef InventoryId Timestamp "LedgerError + unit"
  | C_HaltThisTenant LeaseRef InventoryId string Timestamp "LedgerError + unit"
  | C_RequestGrant LeaseRef ConnectionId GrantKind Timestamp "LedgerError + BudgetGrant"
  | C_Renew LeaseRef "LedgerError + Renewed"
  | C_RecordEvent LeaseRef JobEventPayload Timestamp "LedgerError + unit"
  | C_Notify LeaseRef SellerEvent Timestamp "LedgerError + unit"
  | C_HandBack LeaseRef Timestamp "LedgerError + unit"

type_synonym Log = "Call list"

record ItemLedger =
  il_connection_for :: "Log \<Rightarrow> LeaseRef \<Rightarrow> InventoryId \<Rightarrow> LedgerError + ConnectionId option"
  il_preflight_succeeded :: "Log \<Rightarrow> LeaseRef \<Rightarrow> LedgerError + unit"
  il_preflight_failed :: "Log \<Rightarrow> LeaseRef \<Rightarrow> bool \<Rightarrow> LedgerError + PreflightStreak"
  il_park :: "Log \<Rightarrow> LeaseRef \<Rightarrow> string \<Rightarrow> LedgerError + unit"
  il_settle_item :: "Log \<Rightarrow> LeaseRef \<Rightarrow> ItemVerdict \<Rightarrow> Timestamp \<Rightarrow> LedgerError + unit"
  il_open_attempt :: "Log \<Rightarrow> LeaseRef \<Rightarrow> NewAttempt \<Rightarrow> Timestamp \<Rightarrow> LedgerError + unit"
  il_settle_attempt ::
    "Log \<Rightarrow> LeaseRef \<Rightarrow> AttemptRef \<Rightarrow> AttemptVerdict \<Rightarrow> Timestamp \<Rightarrow> LedgerError + BindDisposition"
  il_gate_connection :: "Log \<Rightarrow> LeaseRef \<Rightarrow> InventoryId \<Rightarrow> Timestamp \<Rightarrow> LedgerError + unit"
  il_halt_this_tenant ::
    "Log \<Rightarrow> LeaseRef \<Rightarrow> InventoryId \<Rightarrow> string \<Rightarrow> Timestamp \<Rightarrow> LedgerError + unit"
  il_request_grant ::
    "Log \<Rightarrow> LeaseRef \<Rightarrow> ConnectionId \<Rightarrow> GrantKind \<Rightarrow> Timestamp \<Rightarrow> LedgerError + BudgetGrant"
  il_renew :: "Log \<Rightarrow> LeaseRef \<Rightarrow> LedgerError + Renewed"
  il_record_event :: "Log \<Rightarrow> LeaseRef \<Rightarrow> JobEventPayload \<Rightarrow> Timestamp \<Rightarrow> LedgerError + unit"
  il_notify :: "Log \<Rightarrow> LeaseRef \<Rightarrow> SellerEvent \<Rightarrow> Timestamp \<Rightarrow> LedgerError + unit"
  il_hand_back :: "Log \<Rightarrow> LeaseRef \<Rightarrow> Timestamp \<Rightarrow> LedgerError + unit"

record MarketplaceAdapter =
  ma_assert_form_schema :: "Log \<Rightarrow> FormId \<Rightarrow> AdapterError + FormSchemaFingerprint"
  ma_submit :: "Log \<Rightarrow> IdempotencyKey \<Rightarrow> FieldSet \<Rightarrow> Timestamp \<Rightarrow> AdapterError + SubmitEvidence"
  ma_revise :: "Log \<Rightarrow> RevisePlan \<Rightarrow> Timestamp \<Rightarrow> AdapterError + SubmitEvidence"
  ma_remove :: "Log \<Rightarrow> RemovalPlan \<Rightarrow> Timestamp \<Rightarrow> AdapterError + SubmitEvidence"
  ma_read_back ::
    "Log \<Rightarrow> ListingLocator \<Rightarrow> FetchReason \<Rightarrow> Timestamp \<Rightarrow> AdapterError + ObservedListing"

record DriverContext =
  dc_adapter :: MarketplaceAdapter
  dc_find_listing :: "Log \<Rightarrow> ListingLocator \<Rightarrow> WriteAttemptId \<Rightarrow> AdapterError + RemoteListingId option"
  dc_ledger :: ItemLedger
  dc_now :: "Log \<Rightarrow> Timestamp"
  dc_new_id :: "Log \<Rightarrow> Uuid"
  dc_is_cancelled :: "Log \<Rightarrow> bool"
  dc_debug :: DebugText

subsection \<open>Acts\<close>

datatype 'a Flow = Go 'a | Return RunVerdict | Raise EngineError

type_synonym 'a act = "Log \<Rightarrow> 'a Flow \<times> Log"

definition go :: "'a \<Rightarrow> 'a act" where
  "go x = (\<lambda>l. (Go x, l))"

definition return_with :: "RunVerdict \<Rightarrow> 'a act" where
  "return_with v = (\<lambda>l. (Return v, l))"

definition raise :: "EngineError \<Rightarrow> 'a act" where
  "raise e = (\<lambda>l. (Raise e, l))"

definition andthen :: "'a act \<Rightarrow> ('a \<Rightarrow> 'b act) \<Rightarrow> 'b act" where
  "andthen m f = (\<lambda>l. case m l of
       (Go x, l') \<Rightarrow> f x l'
     | (Return v, l') \<Rightarrow> (Return v, l')
     | (Raise e, l') \<Rightarrow> (Raise e, l'))"

lemma andthen_cong [fundef_cong]:
  "m = m' \<Longrightarrow> (\<And>x. f x = f' x) \<Longrightarrow> andthen m f = andthen m' f'"
  by (simp add: ext [of f f'])

text \<open>One call: the answer is taken from the log and the call is recorded with it.\<close>

definition ask :: "(Log \<Rightarrow> 'a) \<Rightarrow> ('a \<Rightarrow> Call) \<Rightarrow> 'a act" where
  "ask answer call = (\<lambda>l. let x = answer l in (Go x, call x # l))"

text \<open>\<open>?\<close> on a ledger's and on a machine's result.\<close>

definition ledger_try :: "(LedgerError + 'a) act \<Rightarrow> 'a act" where
  "ledger_try m = andthen m (\<lambda>r. case r of Inl e \<Rightarrow> raise (EE_Ledger e) | Inr x \<Rightarrow> go x)"

definition machine_try :: "MachineError + 'a \<Rightarrow> 'a act" where
  "machine_try r = (case r of Inl e \<Rightarrow> raise (EE_Machine e) | Inr x \<Rightarrow> go x)"

subsection \<open>The calls\<close>

definition ask_now :: "DriverContext \<Rightarrow> Timestamp act" where
  "ask_now ctx = ask (dc_now ctx) C_Now"

definition ask_cancelled :: "DriverContext \<Rightarrow> bool act" where
  "ask_cancelled ctx = ask (dc_is_cancelled ctx) C_IsCancelled"

definition pause_for :: "DriverContext \<Rightarrow> u32 \<Rightarrow> unit act" where
  "pause_for ctx ms = ask (\<lambda>l. ()) (\<lambda>u. C_Pause ms)"

definition new_id :: "DriverContext \<Rightarrow> Uuid act" where
  "new_id ctx = ask (dc_new_id ctx) C_NewId"

definition assert_form_schema ::
  "DriverContext \<Rightarrow> FormId \<Rightarrow> (AdapterError + FormSchemaFingerprint) act" where
  "assert_form_schema ctx form =
     ask (\<lambda>l. ma_assert_form_schema (dc_adapter ctx) l form) (C_AssertFormSchema form)"

definition submit ::
  "DriverContext \<Rightarrow> IdempotencyKey \<Rightarrow> FieldSet \<Rightarrow> Timestamp \<Rightarrow> (AdapterError + SubmitEvidence) act" where
  "submit ctx key fieldset at =
     ask (\<lambda>l. ma_submit (dc_adapter ctx) l key fieldset at) (C_Submit key fieldset at)"

definition revise ::
  "DriverContext \<Rightarrow> RevisePlan \<Rightarrow> Timestamp \<Rightarrow> (AdapterError + SubmitEvidence) act" where
  "revise ctx plan at = ask (\<lambda>l. ma_revise (dc_adapter ctx) l plan at) (C_Revise plan at)"

definition remove_listing ::
  "DriverContext \<Rightarrow> RemovalPlan \<Rightarrow> Timestamp \<Rightarrow> (AdapterError + SubmitEvidence) act" where
  "remove_listing ctx plan at = ask (\<lambda>l. ma_remove (dc_adapter ctx) l plan at) (C_Remove plan at)"

definition read_back ::
  "DriverContext \<Rightarrow> ListingLocator \<Rightarrow> FetchReason \<Rightarrow> Timestamp \<Rightarrow> (AdapterError + ObservedListing) act" where
  "read_back ctx locator reason at =
     ask (\<lambda>l. ma_read_back (dc_adapter ctx) l locator reason at) (C_ReadBack locator reason at)"

definition find_listing ::
  "DriverContext \<Rightarrow> ListingLocator \<Rightarrow> WriteAttemptId \<Rightarrow> (AdapterError + RemoteListingId option) act" where
  "find_listing ctx locator attempt =
     ask (\<lambda>l. dc_find_listing ctx l locator attempt) (C_FindListing locator attempt)"

definition connection_for ::
  "DriverContext \<Rightarrow> LeaseRef \<Rightarrow> InventoryId \<Rightarrow> (LedgerError + ConnectionId option) act" where
  "connection_for ctx lease inventory =
     ask (\<lambda>l. il_connection_for (dc_ledger ctx) l lease inventory) (C_ConnectionFor lease inventory)"

definition ledger_preflight_succeeded :: "DriverContext \<Rightarrow> LeaseRef \<Rightarrow> (LedgerError + unit) act" where
  "ledger_preflight_succeeded ctx lease =
     ask (\<lambda>l. il_preflight_succeeded (dc_ledger ctx) l lease) (C_PreflightSucceeded lease)"

definition ledger_preflight_failed ::
  "DriverContext \<Rightarrow> LeaseRef \<Rightarrow> bool \<Rightarrow> (LedgerError + PreflightStreak) act" where
  "ledger_preflight_failed ctx lease edge_class =
     ask (\<lambda>l. il_preflight_failed (dc_ledger ctx) l lease edge_class) (C_PreflightFailed lease edge_class)"

definition park :: "DriverContext \<Rightarrow> LeaseRef \<Rightarrow> string \<Rightarrow> (LedgerError + unit) act" where
  "park ctx lease blocked_on =
     ask (\<lambda>l. il_park (dc_ledger ctx) l lease blocked_on) (C_Park lease blocked_on)"

definition settle_item ::
  "DriverContext \<Rightarrow> LeaseRef \<Rightarrow> ItemVerdict \<Rightarrow> Timestamp \<Rightarrow> (LedgerError + unit) act" where
  "settle_item ctx lease verdict at =
     ask (\<lambda>l. il_settle_item (dc_ledger ctx) l lease verdict at) (C_SettleItem lease verdict at)"

definition open_attempt ::
  "DriverContext \<Rightarrow> LeaseRef \<Rightarrow> NewAttempt \<Rightarrow> Timestamp \<Rightarrow> (LedgerError + unit) act" where
  "open_attempt ctx lease new at =
     ask (\<lambda>l. il_open_attempt (dc_ledger ctx) l lease new at) (C_OpenAttempt lease new at)"

definition settle_attempt ::
  "DriverContext \<Rightarrow> LeaseRef \<Rightarrow> AttemptRef \<Rightarrow> AttemptVerdict \<Rightarrow> Timestamp
     \<Rightarrow> (LedgerError + BindDisposition) act" where
  "settle_attempt ctx lease attempt verdict at =
     ask (\<lambda>l. il_settle_attempt (dc_ledger ctx) l lease attempt verdict at)
       (C_SettleAttempt lease attempt verdict at)"

definition gate_connection ::
  "DriverContext \<Rightarrow> LeaseRef \<Rightarrow> InventoryId \<Rightarrow> Timestamp \<Rightarrow> (LedgerError + unit) act" where
  "gate_connection ctx lease inventory at =
     ask (\<lambda>l. il_gate_connection (dc_ledger ctx) l lease inventory at) (C_GateConnection lease inventory at)"

definition halt_this_tenant ::
  "DriverContext \<Rightarrow> LeaseRef \<Rightarrow> InventoryId \<Rightarrow> string \<Rightarrow> Timestamp \<Rightarrow> (LedgerError + unit) act" where
  "halt_this_tenant ctx lease inventory reason at =
     ask (\<lambda>l. il_halt_this_tenant (dc_ledger ctx) l lease inventory reason at)
       (C_HaltThisTenant lease inventory reason at)"

definition request_grant ::
  "DriverContext \<Rightarrow> LeaseRef \<Rightarrow> ConnectionId \<Rightarrow> GrantKind \<Rightarrow> Timestamp \<Rightarrow> (LedgerError + BudgetGrant) act" where
  "request_grant ctx lease connection kind at =
     ask (\<lambda>l. il_request_grant (dc_ledger ctx) l lease connection kind at)
       (C_RequestGrant lease connection kind at)"

definition renew :: "DriverContext \<Rightarrow> LeaseRef \<Rightarrow> (LedgerError + Renewed) act" where
  "renew ctx lease = ask (\<lambda>l. il_renew (dc_ledger ctx) l lease) (C_Renew lease)"

definition ledger_record_event ::
  "DriverContext \<Rightarrow> LeaseRef \<Rightarrow> JobEventPayload \<Rightarrow> Timestamp \<Rightarrow> (LedgerError + unit) act" where
  "ledger_record_event ctx lease payload at =
     ask (\<lambda>l. il_record_event (dc_ledger ctx) l lease payload at) (C_RecordEvent lease payload at)"

definition ledger_notify ::
  "DriverContext \<Rightarrow> LeaseRef \<Rightarrow> SellerEvent \<Rightarrow> Timestamp \<Rightarrow> (LedgerError + unit) act" where
  "ledger_notify ctx lease event at =
     ask (\<lambda>l. il_notify (dc_ledger ctx) l lease event at) (C_Notify lease event at)"

definition hand_back :: "DriverContext \<Rightarrow> LeaseRef \<Rightarrow> Timestamp \<Rightarrow> (LedgerError + unit) act" where
  "hand_back ctx lease at =
     ask (\<lambda>l. il_hand_back (dc_ledger ctx) l lease at) (C_HandBack lease at)"

end
