(* ===== verification/Driver.thy ===== *)
theory Driver
  imports DriverPorts
begin

section \<open>The effect interpreter (crate tam-engine-driver, driver.rs)\<close>

text \<open>
  \<open>run_item\<close> and the functions it is made of, in the order of their use: the two polls, the
  helpers that settle or abandon, one \<open>perform_\<close> definition per arm of the effect match, one pass
  of the loop, and the loop. \<open>pump\<close> is the loop itself; it ends because every pass that continues
  has stepped the machine, and a step spends allowance or reaches a terminal state
  (\<open>step_shrinks\<close>).
\<close>

definition STRAND_SETTLE_WAIT_MS :: u32 where "STRAND_SETTLE_WAIT_MS = 30000"
definition RECONCILE_WALKS_MAX :: nat where "RECONCILE_WALKS_MAX = 3"
definition RECONCILE_WALK_INTERVAL_MS :: u32 where "RECONCILE_WALK_INTERVAL_MS = 30000"
definition WAIT_SLICE_MS :: u32 where "WAIT_SLICE_MS = 2000"
definition PREFLIGHT_FAILURES_MAX :: u32 where "PREFLIGHT_FAILURES_MAX = 3"

text \<open>\<open>tam_limits::job\<close>.\<close>

definition ATTEMPTS_MAX :: i32 where "ATTEMPTS_MAX = 5"
definition WALL_CLOCK_MAX_MS :: i64 where "WALL_CLOCK_MAX_MS = 30 * 60 * 1000"

subsection \<open>The verification poll\<close>

record Verification_poll =
  vf_policy :: VerifyPolicy
  vf_locator :: ListingLocator
  vf_reason :: FetchReason
  vf_operation :: ItemOperation
  vf_connection :: ConnectionId
  vf_deadline :: i64

datatype VerifyStop = RateWindowClosed | Cut | ReadCondition AdapterError

datatype VerifyOutcome = Observed "AdapterError + ObservedListing" | Stopped VerifyStop

fun stop_reason :: "DebugText \<Rightarrow> VerifyStop \<Rightarrow> string" where
  "stop_reason dt RateWindowClosed = ''the per-connection rate window closed''"
| "stop_reason dt Cut = ''the run was cut''"
| "stop_reason dt (ReadCondition error) =
     ''the verification read answered '' @ dt_adapter_error dt error"

definition poll_verdict :: "ObservedListing option \<Rightarrow> VerifyOutcome" where
  "poll_verdict seen_last = (case seen_last of None \<Rightarrow> Stopped Cut | Some listing \<Rightarrow> Observed (Inr listing))"

fun verify_tries ::
  "DriverContext \<Rightarrow> LeasedItem \<Rightarrow> Verification_poll \<Rightarrow> nat \<Rightarrow> ObservedListing option \<Rightarrow> VerifyOutcome act" where
  "verify_tries ctx lease request 0 seen_last = go (poll_verdict seen_last)"
| "verify_tries ctx lease request (Suc left) seen_last =
     andthen (ask_now ctx) (\<lambda>at.
     andthen (ask_cancelled ctx) (\<lambda>cancelled.
     if cancelled \<or> ts_ms at \<ge> vf_deadline request then go (Stopped Cut)
     else
     andthen (ledger_try (renew ctx (lease_ref lease))) (\<lambda>renewed.
     andthen (ledger_try (request_grant ctx (lease_ref lease) (vf_connection request) GK_VerifyRead at))
       (\<lambda>grant.
     if grant = Exhausted then go (Stopped RateWindowClosed)
     else
     andthen (read_back ctx (vf_locator request) (vf_reason request) at) (\<lambda>observed.
     case observed of
       Inl error \<Rightarrow>
         (case error of
            AE_Ambiguous cause \<Rightarrow> go (Observed (Inl (AE_Ambiguous cause)))
          | _ \<Rightarrow> go (Stopped (ReadCondition error)))
     | Inr listing \<Rightarrow>
         if verification_settles (vf_operation request) listing then go (Observed (Inr listing))
         else
           andthen (if 0 < left then pause_for ctx (vo_interval_ms (vf_policy request)) else go ())
             (\<lambda>u. verify_tries ctx lease request left (Some listing)))))))"

definition verify_with_backoff ::
  "DriverContext \<Rightarrow> LeasedItem \<Rightarrow> Verification_poll \<Rightarrow> VerifyOutcome act" where
  "verify_with_backoff ctx lease request =
     verify_tries ctx lease request (unat (vo_tries (vf_policy request))) None"

subsection \<open>Waiting, and the walk of the catalogue\<close>

definition may_go_on :: "DriverContext \<Rightarrow> i64 \<Rightarrow> bool act" where
  "may_go_on ctx deadline =
     andthen (ask_cancelled ctx) (\<lambda>cancelled.
     if cancelled then go False
     else andthen (ask_now ctx) (\<lambda>at. go (ts_ms at < deadline)))"

definition wait_slice :: "u32 \<Rightarrow> u32" where
  "wait_slice left = min WAIT_SLICE_MS left"

lemma wait_slice_pos: "left \<noteq> 0 \<Longrightarrow> 0 < unat (wait_slice left) \<and> wait_slice left \<le> left"
  by (auto simp: wait_slice_def WAIT_SLICE_MS_def min_def unat_gt_0)

lemma wait_shrinks: "left \<noteq> 0 \<Longrightarrow> unat (left - wait_slice left) < unat left"
  using wait_slice_pos [of left] by (simp add: unat_sub word_le_nat_alt)

text \<open>\<open>left\<close> is \<open>total_ms - waited\<close>.\<close>

function wait_left :: "DriverContext \<Rightarrow> i64 \<Rightarrow> u32 \<Rightarrow> bool act" where
  "wait_left ctx deadline left =
     andthen (may_go_on ctx deadline) (\<lambda>on.
     if left = 0 \<or> \<not> on then go on
     else andthen (pause_for ctx (wait_slice left))
            (\<lambda>u. wait_left ctx deadline (left - wait_slice left)))"
  by pat_completeness auto
termination
  by (relation "measure (\<lambda>(ctx, deadline, left). unat left)") (auto intro: wait_shrinks)

declare wait_left.simps [simp del]

definition waited_through :: "DriverContext \<Rightarrow> u32 \<Rightarrow> i64 \<Rightarrow> bool act" where
  "waited_through ctx total_ms deadline = wait_left ctx deadline total_ms"

record Reconciliation =
  rcn_locator :: ListingLocator
  rcn_attempt :: WriteAttemptId
  rcn_connection :: ConnectionId
  rcn_deadline :: i64

datatype ReconcileOutcome =
  Answered "AdapterError + RemoteListingId option" | WalkStopped string

text \<open>\<open>left\<close> walks remain; the last answers whatever it saw.\<close>

fun reconcile_walks ::
  "DriverContext \<Rightarrow> LeasedItem \<Rightarrow> Reconciliation \<Rightarrow> nat \<Rightarrow> ReconcileOutcome act" where
  "reconcile_walks ctx lease request 0 = go (WalkStopped ''the reconcile never walked'')"
| "reconcile_walks ctx lease request (Suc left) =
     andthen (ask_now ctx) (\<lambda>at.
     andthen (ask_cancelled ctx) (\<lambda>cancelled.
     if cancelled \<or> ts_ms at \<ge> rcn_deadline request then go (WalkStopped ''the run was cut'')
     else
     andthen (ledger_try (renew ctx (lease_ref lease))) (\<lambda>renewed.
     andthen (ledger_try (request_grant ctx (lease_ref lease) (rcn_connection request) GK_VerifyRead at))
       (\<lambda>grant.
     if grant = Exhausted then go (WalkStopped ''the per-connection rate window closed'')
     else
     andthen (find_listing ctx (rcn_locator request) (rcn_attempt request)) (\<lambda>found.
     if found \<noteq> Inr None \<or> left = 0 then go (Answered found)
     else
     andthen (waited_through ctx RECONCILE_WALK_INTERVAL_MS (rcn_deadline request)) (\<lambda>on.
     if \<not> on then go (WalkStopped ''the run was cut'')
     else reconcile_walks ctx lease request left))))))"

definition reconcile_with_backoff ::
  "DriverContext \<Rightarrow> LeasedItem \<Rightarrow> Reconciliation \<Rightarrow> ReconcileOutcome act" where
  "reconcile_with_backoff ctx lease request = reconcile_walks ctx lease request RECONCILE_WALKS_MAX"

subsection \<open>Recording, notifying and settling\<close>

definition record_event :: "DriverContext \<Rightarrow> LeasedItem \<Rightarrow> JobEventPayload \<Rightarrow> Timestamp \<Rightarrow> unit act" where
  "record_event ctx lease payload at = ledger_try (ledger_record_event ctx (lease_ref lease) payload at)"

definition record_action ::
  "DriverContext \<Rightarrow> LeasedItem \<Rightarrow> u32 \<Rightarrow> string \<Rightarrow> Timestamp \<Rightarrow> unit act" where
  "record_action ctx lease sequence label at =
     record_event ctx lease (JE_ItemActionStarted sequence label) at"

definition notify :: "DriverContext \<Rightarrow> LeasedItem \<Rightarrow> SellerEvent \<Rightarrow> Timestamp \<Rightarrow> unit act" where
  "notify ctx lease event at = ledger_try (ledger_notify ctx (lease_ref lease) event at)"

definition consume_write_grant ::
  "DriverContext \<Rightarrow> LeaseRef \<Rightarrow> ConnectionId \<Rightarrow> Timestamp \<Rightarrow> BudgetGrant act" where
  "consume_write_grant ctx lease connection at =
     ledger_try (request_grant ctx lease connection GK_Write at)"

definition settle_open_attempt ::
  "DriverContext \<Rightarrow> LeaseRef \<Rightarrow> AttemptRef \<Rightarrow> AttemptVerdict \<Rightarrow> Timestamp \<Rightarrow> unit act" where
  "settle_open_attempt ctx lease settling verdict at =
     andthen (settle_attempt ctx lease settling verdict at) (\<lambda>r.
       case r of
         Inr disposition \<Rightarrow> go ()
       | Inl e \<Rightarrow> if e = LG_StaleLease then go () else raise (EE_Ledger e))"

record Abandonment =
  ab_settling :: AttemptRef
  ab_operation :: ItemOperation
  ab_at :: Timestamp
  ab_reason :: string

definition abandoned_verdict :: "ItemOperation \<Rightarrow> AttemptVerdict" where
  "abandoned_verdict operation =
     \<lparr>av_state = ''abandoned'', av_failure_code = None, av_ambiguity = None,
      av_landing = addressed_by operation\<rparr>"

definition rate_refused_before_the_write ::
  "DriverContext \<Rightarrow> LeaseRef \<Rightarrow> Abandonment \<Rightarrow> 'a act" where
  "rate_refused_before_the_write ctx lease abandonment =
     andthen (settle_open_attempt ctx lease (ab_settling abandonment)
                (abandoned_verdict (ab_operation abandonment)) (ab_at abandonment))
       (\<lambda>u. return_with (RV_Abandoned (ab_reason abandonment)))"

subsection \<open>A failed preflight, and a refused seed\<close>

definition blocked_cause :: "ChallengeKind \<Rightarrow> BlockCause" where
  "blocked_cause challenge = (if seller_clears challenge then BC_Reauth else BC_Challenge)"

text \<open>The blocked settlement, once the streak or the attempt budget has decided.\<close>

definition settle_preflight_blocked ::
  "DriverContext \<Rightarrow> LeasedItem \<Rightarrow> ChallengeKind \<Rightarrow> Timestamp \<Rightarrow> 'a act" where
  "settle_preflight_blocked ctx lease challenge at =
     (let lref = lease_ref lease;
          cause = blocked_cause challenge;
          verdict = \<lparr>iv_outcome = IO_Blocked,
                     iv_failure_code = Some (fst (challenge_verdict challenge)),
                     iv_failure_detail = Some (snd (challenge_verdict challenge))\<rparr>
      in
      andthen (if cause = BC_Reauth
               then ledger_try (gate_connection ctx lref (le_inventory lease) at) else go ()) (\<lambda>u.
      andthen (record_event ctx lease (JE_ItemBlocked (block_cause_name cause)) at) (\<lambda>u.
      andthen (ledger_try (settle_item ctx lref verdict at)) (\<lambda>u.
      andthen (record_event ctx lease (JE_ItemSettled (item_outcome_name IO_Blocked)) at) (\<lambda>u.
      andthen (if cause = BC_Reauth then notify ctx lease SE_ReauthRequired at else go ())
        (\<lambda>u. return_with (RV_Settled IO_Blocked)))))))"

definition preflight_failed ::
  "DriverContext \<Rightarrow> LeasedItem \<Rightarrow> AdapterError \<Rightarrow> Timestamp \<Rightarrow> 'a act" where
  "preflight_failed ctx lease error at =
     (let seen = preflight_challenge error;
          last_attempt = attempt_budget_spent (le_attempt_count lease) ATTEMPTS_MAX
      in andthen (ledger_try (ledger_preflight_failed ctx (lease_ref lease) (\<not> seller_clears seen)))
           (\<lambda>streak.
         if ps_failures streak < PREFLIGHT_FAILURES_MAX \<and> \<not> last_attempt
         then return_with (RV_Abandoned (''preflight failed transiently: ''
                @ dt_adapter_error (dc_debug ctx) error))
         else settle_preflight_blocked ctx lease
                (if ps_edge_only streak then seen else ReauthRequired) at))"

definition seed_refused ::
  "DriverContext \<Rightarrow> LeasedItem \<Rightarrow> EngineError \<Rightarrow> Timestamp \<Rightarrow> 'a act" where
  "seed_refused ctx lease error at =
     (case error of
        EE_Projection (AE_Rejected code detail) \<Rightarrow>
          (let verdict = \<lparr>iv_outcome = IO_Failed, iv_failure_code = Some code,
                          iv_failure_detail = Some detail\<rparr>
           in
           andthen (ledger_try (settle_item ctx (lease_ref lease) verdict at)) (\<lambda>u.
           andthen (record_event ctx lease (JE_ItemSettled (item_outcome_name IO_Failed)) at)
             (\<lambda>u. return_with (RV_Settled IO_Failed))))
      | _ \<Rightarrow> return_with (RV_Abandoned (''the seed failed and may yet succeed: ''
               @ dt_engine_error (dc_debug ctx) error)))"

subsection \<open>The state of the loop\<close>

text \<open>What \<open>drive_item\<close> binds once, and the variables its loop assigns.\<close>

record Run =
  ru_ctx :: DriverContext
  ru_lease :: LeasedItem
  ru_connection :: ConnectionId
  ru_deadline :: i64
  ru_verify :: VerifyPolicy
  ru_attestation :: "Attestation option"

record Drive =
  dv_transition :: Transition
  dv_attempt :: "WriteAttemptId option"
  dv_ambiguity :: "AmbiguityCause option"
  dv_lifecycle :: "RemoteLifecycle option"
  dv_sequence :: u32
  dv_resumed :: bool
  dv_blocked :: bool
  dv_pending :: "Input option"

definition ru_ref :: "Run \<Rightarrow> LeaseRef" where
  "ru_ref ru = lease_ref (ru_lease ru)"

definition ru_operation :: "Run \<Rightarrow> ItemOperation" where
  "ru_operation ru = le_operation (ru_lease ru)"

definition attempt_ref :: "Run \<Rightarrow> WriteAttemptId \<Rightarrow> AttemptRef" where
  "attempt_ref ru attempt =
     \<lparr>af_attempt = attempt_uuid attempt, af_mapping = le_mapping (ru_lease ru)\<rparr>"

subsection \<open>The effects\<close>

definition perform_assert_form :: "Run \<Rightarrow> FormId \<Rightarrow> Timestamp \<Rightarrow> Drive \<Rightarrow> Drive act" where
  "perform_assert_form ru form at dv =
     (let ctx = ru_ctx ru in
      andthen (ledger_try (renew ctx (ru_ref ru))) (\<lambda>renewed.
      andthen (ledger_try (request_grant ctx (ru_ref ru) (ru_connection ru) GK_FormRead at)) (\<lambda>grant.
      if grant = Exhausted then
        return_with (RV_Abandoned
          ''the rate window closed before the form scrape, with nothing attempted'')
      else
      andthen (assert_form_schema ctx form) (\<lambda>asserted.
      case asserted of
        Inr fingerprint \<Rightarrow>
          andthen (ledger_try (ledger_preflight_succeeded ctx (ru_ref ru)))
            (\<lambda>u. go (dv\<lparr>dv_pending := Some (I_PreflightResult (Inr fingerprint))\<rparr>))
      | Inl error \<Rightarrow>
          (case error of
             AE_SchemaDrift drift \<Rightarrow> go (dv\<lparr>dv_pending := Some (I_PreflightResult (Inl drift))\<rparr>)
           | _ \<Rightarrow> preflight_failed ctx (ru_lease ru) error at)))))"

definition already_bound_verdict :: ItemVerdict where
  "already_bound_verdict =
     \<lparr>iv_outcome = IO_Skipped, iv_failure_code = Some OtherFailure,
      iv_failure_detail = Some (FailureDetail
        (''the listing this item would have created was created by another run, ''
         @ ''so this item had nothing left to do''))\<rparr>"

definition perform_record_intent ::
  "Run \<Rightarrow> SyncMachine \<Rightarrow> ContentHash \<Rightarrow> Timestamp \<Rightarrow> Drive \<Rightarrow> Drive act" where
  "perform_record_intent ru next hash at dv =
     (let ctx = ru_ctx ru; lease = ru_lease ru in
      andthen (new_id ctx) (\<lambda>minted.
      andthen (open_attempt ctx (ru_ref ru)
                 \<lparr>na_attempt = minted, na_mapping = le_mapping lease,
                  na_intent = \<lparr>ai_body = attested_intent (ru_operation ru) (sm_fields next)
                                          (ru_attestation ru),
                               ai_hash = hash_bytes hash\<rparr>\<rparr> at) (\<lambda>attempt.
      case attempt of
        Inr u \<Rightarrow> go (dv\<lparr>dv_attempt := Some (WriteAttemptId minted),
                       dv_pending := Some (I_IntentRecorded (WriteAttemptId minted))\<rparr>)
      | Inl e \<Rightarrow>
          (case e of
             LG_AttemptInFlight \<Rightarrow>
               return_with (RV_Abandoned ''another attempt is in flight for this mapping'')
           | LG_MappingAlreadyBound \<Rightarrow>
               andthen (ledger_try (settle_item ctx (ru_ref ru) already_bound_verdict at)) (\<lambda>u.
               andthen (record_event ctx lease (JE_ItemSettled (item_outcome_name IO_Skipped)) at)
                 (\<lambda>u. return_with (RV_Settled IO_Skipped)))
           | _ \<Rightarrow> raise (EE_Ledger e)))))"

text \<open>
  The three write arms open the same way: a write grant, or the attempt is settled abandoned; the
  lease is extended; the action is recorded.
\<close>

definition before_the_write :: "Run \<Rightarrow> WriteAttemptId \<Rightarrow> string \<Rightarrow> u32 \<Rightarrow> Timestamp \<Rightarrow> unit act" where
  "before_the_write ru attempt label sequence at =
     (let ctx = ru_ctx ru in
      andthen (consume_write_grant ctx (ru_ref ru) (ru_connection ru) at) (\<lambda>grant.
      if grant = Exhausted then
        rate_refused_before_the_write ctx (ru_ref ru)
          \<lparr>ab_settling = attempt_ref ru attempt, ab_operation = ru_operation ru, ab_at = at,
           ab_reason = ''the per-connection rate window is exhausted''\<rparr>
      else
      andthen (ledger_try (renew ctx (ru_ref ru))) (\<lambda>renewed.
        record_action ctx (ru_lease ru) sequence label at)))"

fun answered_by_the_edge :: "AdapterError + SubmitEvidence \<Rightarrow> bool" where
  "answered_by_the_edge (Inl (AE_Challenge c)) = True"
| "answered_by_the_edge (Inl AE_SessionExpired) = True"
| "answered_by_the_edge r = False"

definition perform_submit ::
  "Run \<Rightarrow> WriteAttemptId \<Rightarrow> IdempotencyKey \<Rightarrow> FieldSet \<Rightarrow> Timestamp \<Rightarrow> Drive \<Rightarrow> Drive act" where
  "perform_submit ru attempt key fieldset at dv =
     andthen (before_the_write ru attempt ''submit'' (dv_sequence dv) at) (\<lambda>u.
     andthen (submit (ru_ctx ru) key fieldset at) (\<lambda>submitted.
       go (dv\<lparr>dv_blocked := answered_by_the_edge submitted,
              dv_pending := Some (I_SubmitResult submitted)\<rparr>)))"

definition perform_revise ::
  "Run \<Rightarrow> WriteAttemptId \<Rightarrow> RemoteListingId \<Rightarrow> FieldSet \<Rightarrow> LifecycleTransition \<Rightarrow> Timestamp \<Rightarrow> Drive
     \<Rightarrow> Drive act" where
  "perform_revise ru attempt s fieldset lifecycle at dv =
     andthen (before_the_write ru attempt ''revise'' (dv_sequence dv) at) (\<lambda>u.
     andthen (revise (ru_ctx ru) \<lparr>rpl_subject = s, rpl_fields = fieldset, rpl_transition = lifecycle\<rparr> at)
       (\<lambda>revised. go (dv\<lparr>dv_pending := Some (I_SubmitResult revised)\<rparr>)))"

definition perform_remove ::
  "Run \<Rightarrow> WriteAttemptId \<Rightarrow> RemoteListingId \<Rightarrow> ListingState \<Rightarrow> Timestamp \<Rightarrow> Drive \<Rightarrow> Drive act" where
  "perform_remove ru attempt s state at dv =
     andthen (before_the_write ru attempt ''remove'' (dv_sequence dv) at) (\<lambda>u.
     andthen (remove_listing (ru_ctx ru) \<lparr>rml_attempt = attempt, rml_subject = s, rml_state = state\<rparr> at)
       (\<lambda>removed. go (dv\<lparr>dv_pending := Some (I_SubmitResult removed)\<rparr>)))"

text \<open>The poll stopped with nothing to say: only a write that cannot repeat settles its attempt.\<close>

definition settling_unverified :: "Run \<Rightarrow> Drive \<Rightarrow> WriteAttemptId option" where
  "settling_unverified ru dv =
     (if may_settle_unverified (ru_operation ru) then dv_attempt dv else None)"

definition unverified_verdict :: "Run \<Rightarrow> Drive \<Rightarrow> AttemptVerdict" where
  "unverified_verdict ru dv =
     \<lparr>av_state = ''ambiguous'', av_failure_code = None, av_ambiguity = dv_ambiguity dv,
      av_landing = addressed_by (ru_operation ru)\<rparr>"

definition walk_away_unverified :: "Run \<Rightarrow> Drive \<Rightarrow> VerifyStop \<Rightarrow> Timestamp \<Rightarrow> 'a act" where
  "walk_away_unverified ru dv stop at =
     (let settling = settling_unverified ru dv;
          fenced = if settling = None \<and> dv_attempt dv \<noteq> None
                   then ''; the attempt stays in flight so the create cannot repeat'' else ''''
      in andthen
           (case settling of
              None \<Rightarrow> go ()
            | Some attempt \<Rightarrow>
                settle_open_attempt (ru_ctx ru) (ru_ref ru) (attempt_ref ru attempt)
                  (unverified_verdict ru dv) at)
           (\<lambda>u. return_with (RV_Abandoned (stop_reason (dc_debug (ru_ctx ru)) stop
                   @ '' before the write could be verified'' @ fenced))))"

fun observed_lifecycle :: "RemoteLifecycle option \<Rightarrow> AdapterError + ObservedListing \<Rightarrow> RemoteLifecycle option" where
  "observed_lifecycle held (Inr listing) = Some (ol_lifecycle listing)"
| "observed_lifecycle held (Inl error) = held"

definition perform_read_back ::
  "Run \<Rightarrow> ListingLocator \<Rightarrow> FetchReason \<Rightarrow> Timestamp \<Rightarrow> Drive \<Rightarrow> Drive act" where
  "perform_read_back ru locator reason at dv =
     (let ctx = ru_ctx ru in
      andthen (ledger_try (renew ctx (ru_ref ru))) (\<lambda>renewed.
      andthen (record_action ctx (ru_lease ru) (dv_sequence dv) ''read-back'' at) (\<lambda>u.
      andthen (verify_with_backoff ctx (ru_lease ru)
                 \<lparr>vf_policy = ru_verify ru, vf_locator = locator, vf_reason = reason,
                  vf_operation = ru_operation ru, vf_connection = ru_connection ru,
                  vf_deadline = ru_deadline ru\<rparr>) (\<lambda>verified.
      case verified of
        Observed observed \<Rightarrow>
          go (dv\<lparr>dv_lifecycle := observed_lifecycle (dv_lifecycle dv) observed,
                 dv_pending := Some (I_ReadBackResult observed)\<rparr>)
      | Stopped stop \<Rightarrow> walk_away_unverified ru dv stop at))))"

definition perform_reconcile ::
  "Run \<Rightarrow> WriteAttemptId \<Rightarrow> ListingLocator \<Rightarrow> Timestamp \<Rightarrow> Drive \<Rightarrow> Drive act" where
  "perform_reconcile ru attempt locator at dv =
     (let ctx = ru_ctx ru in
      andthen (record_action ctx (ru_lease ru) (dv_sequence dv) ''reconcile'' at) (\<lambda>u.
      andthen (reconcile_with_backoff ctx (ru_lease ru)
                 \<lparr>rcn_locator = locator, rcn_attempt = attempt, rcn_connection = ru_connection ru,
                  rcn_deadline = ru_deadline ru\<rparr>) (\<lambda>walked.
      case walked of
        WalkStopped stopped_by \<Rightarrow>
          return_with (RV_Abandoned (stopped_by
            @ '' before the seller's catalogue could answer for this create; ''
            @ ''the attempt stays in flight so the create cannot repeat''))
      | Answered found \<Rightarrow>
          go (dv\<lparr>dv_attempt := (case found of Inr (Some i) \<Rightarrow> Some attempt | _ \<Rightarrow> dv_attempt dv),
                 dv_pending := Some (I_ReconcileResult found)\<rparr>))))"

definition perform_park ::
  "Run \<Rightarrow> ChallengeKind \<Rightarrow> LogicalInstant \<Rightarrow> Timestamp \<Rightarrow> Drive \<Rightarrow> Drive act" where
  "perform_park ru challenge expires at dv =
     andthen (ledger_try (park (ru_ctx ru) (ru_ref ru) (challenge_name challenge))) (\<lambda>u.
     andthen (record_event (ru_ctx ru) (ru_lease ru) (JE_ItemParked (li_ms expires)) at) (\<lambda>u. go dv))"

definition perform_requeue :: "Run \<Rightarrow> BlockCause \<Rightarrow> Timestamp \<Rightarrow> Drive \<Rightarrow> Drive act" where
  "perform_requeue ru cause at dv =
     andthen (if cause = BC_Reauth
              then ledger_try (gate_connection (ru_ctx ru) (ru_ref ru) (le_inventory (ru_lease ru)) at)
              else go ()) (\<lambda>u.
     andthen (record_event (ru_ctx ru) (ru_lease ru) (JE_ItemBlocked (block_cause_name cause)) at)
       (\<lambda>u. go dv))"

definition perform_capture ::
  "Run \<Rightarrow> SyncMachine \<Rightarrow> WriteAttemptId option \<Rightarrow> CaptureCause \<Rightarrow> Timestamp \<Rightarrow> Drive \<Rightarrow> Drive act" where
  "perform_capture ru next attempt cause at dv =
     (let ambiguity = ambiguity_now (dv_ambiguity dv) (dv_pending dv) (sm_state next);
          dv' = dv\<lparr>dv_ambiguity := ambiguity\<rparr>
      in andthen (record_action (ru_ctx ru) (ru_lease ru) (dv_sequence dv')
                    (capture_label (dc_debug (ru_ctx ru)) cause ambiguity attempt) at)
           (\<lambda>u. go dv'))"

definition perform :: "Run \<Rightarrow> SyncMachine \<Rightarrow> Effect \<Rightarrow> Timestamp \<Rightarrow> Drive \<Rightarrow> Drive act" where
  "perform ru next effect at dv =
     (case effect of
        E_AssertFormSchema form \<Rightarrow> perform_assert_form ru form at dv
      | E_RecordIntent hash \<Rightarrow> perform_record_intent ru next hash at dv
      | E_Submit attempt key fieldset \<Rightarrow> perform_submit ru attempt key fieldset at dv
      | E_Revise attempt s fieldset lifecycle \<Rightarrow> perform_revise ru attempt s fieldset lifecycle at dv
      | E_Remove attempt s state \<Rightarrow> perform_remove ru attempt s state at dv
      | E_ReadBack locator reason \<Rightarrow> perform_read_back ru locator reason at dv
      | E_Reconcile attempt locator \<Rightarrow> perform_reconcile ru attempt locator at dv
      | E_ParkItem item challenge expires \<Rightarrow> perform_park ru challenge expires at dv
      | E_RequeueBehindGate connection cause \<Rightarrow> perform_requeue ru cause at dv
      | E_CaptureDiagnostics attempt cause \<Rightarrow> perform_capture ru next attempt cause at dv
      | E_Halt scope \<Rightarrow>
          andthen (ledger_try (halt_this_tenant (ru_ctx ru) (ru_ref ru) (hs_inventory scope)
                     ''the transition table demanded a halt'' at)) (\<lambda>u. go dv)
      | E_Notify org event \<Rightarrow>
          andthen (notify (ru_ctx ru) (ru_lease ru) event at) (\<lambda>u. go dv))"

fun perform_all :: "Run \<Rightarrow> SyncMachine \<Rightarrow> Effect list \<Rightarrow> Drive \<Rightarrow> Drive act" where
  "perform_all ru next [] dv = go dv"
| "perform_all ru next (effect # effects) dv =
     andthen (ask_now (ru_ctx ru)) (\<lambda>at.
     andthen (perform ru next effect at (dv\<lparr>dv_sequence := dv_sequence dv + 1\<rparr>)) (\<lambda>dv'.
       perform_all ru next effects dv'))"

subsection \<open>A terminal state\<close>

definition terminal_attempt_verdict :: "Run \<Rightarrow> Outcome \<Rightarrow> Drive \<Rightarrow> AttemptVerdict" where
  "terminal_attempt_verdict ru outcome dv =
     \<lparr>av_state = outcome_to_attempt_state outcome,
      av_failure_code = iv_failure_code (outcome_to_item outcome),
      av_ambiguity = or_else (outcome_ambiguity outcome) (dv_ambiguity dv),
      av_landing = outcome_to_landing (ru_operation ru) outcome (dv_lifecycle dv)\<rparr>"

text \<open>Settles the run's attempt, if it has one, and answers whether the mapping was severed.\<close>

definition settle_terminal_attempt :: "Run \<Rightarrow> Outcome \<Rightarrow> Drive \<Rightarrow> Timestamp \<Rightarrow> bool act" where
  "settle_terminal_attempt ru outcome dv at =
     (case dv_attempt dv of
        None \<Rightarrow> go False
      | Some attempt \<Rightarrow>
          andthen (settle_attempt (ru_ctx ru) (ru_ref ru) (attempt_ref ru attempt)
                     (terminal_attempt_verdict ru outcome dv) at) (\<lambda>settled.
          case settled of
            Inl error \<Rightarrow>
              return_with (RV_Abandoned (''the attempt settle was fenced: '' @ ledger_error_str error))
          | Inr disposition \<Rightarrow>
              andthen (case bind_anomaly (dc_debug (ru_ctx ru)) disposition of
                         None \<Rightarrow> go ()
                       | Some anomaly \<Rightarrow>
                           record_event (ru_ctx ru) (ru_lease ru) (JE_ItemBindAnomaly anomaly) at)
                (\<lambda>u. go (disposition = BD_Severed))))"

definition settle_terminal :: "Run \<Rightarrow> Outcome \<Rightarrow> Drive \<Rightarrow> 'a act" where
  "settle_terminal ru outcome dv =
     (let ctx = ru_ctx ru; lease = ru_lease ru; verdict = outcome_to_item outcome in
      andthen (ask_now ctx) (\<lambda>at.
      andthen (case outcome of
                 Out_Blocked challenge \<Rightarrow>
                   record_event ctx lease (JE_ItemBlocked (block_cause_name (blocked_cause challenge))) at
               | _ \<Rightarrow> go ()) (\<lambda>u.
      andthen (settle_terminal_attempt ru outcome dv at) (\<lambda>severed.
      andthen (settle_item ctx (ru_ref ru) verdict at) (\<lambda>item_settled.
      andthen (if severed \<and> item_settled = Inl LG_StaleLease
               then record_event ctx lease (JE_ItemBindAnomaly
                      (BA_SeveredAfterSteal (lr_lease_epoch (ru_ref ru)))) at
               else go ()) (\<lambda>u.
      andthen (ledger_try (go item_settled)) (\<lambda>u.
      andthen (record_event ctx lease (JE_ItemSettled (item_outcome_name (iv_outcome verdict))) at)
        (\<lambda>u. return_with (RV_Settled (iv_outcome verdict))))))))))"

subsection \<open>One pass of the loop\<close>

text \<open>
  The stop, before the effects of a transition run: nothing attempted hands the lease back, an
  attempt that has sent nothing is settled abandoned, and a write that may be out reports the
  exhausted budget to the machine.
\<close>

definition stop_before_effects :: "Run \<Rightarrow> Drive \<Rightarrow> bool \<Rightarrow> Timestamp \<Rightarrow> Transition act" where
  "stop_before_effects ru dv stopping at =
     (let transition = dv_transition dv; machine = tr_next transition in
      if \<not> stopping then go transition
      else (case sm_state machine of
              S_AwaitingPreflight \<Rightarrow>
                return_with (RV_Abandoned ''stopped before the first request, with nothing attempted'')
            | S_PreflightAsserted schema \<Rightarrow>
                return_with (RV_Abandoned ''stopped before the first request, with nothing attempted'')
            | S_IntentRecorded attempt schema \<Rightarrow>
                rate_refused_before_the_write (ru_ctx ru) (ru_ref ru)
                  \<lparr>ab_settling = attempt_ref ru attempt, ab_operation = ru_operation ru, ab_at = at,
                   ab_reason = ''stopped after the intent was recorded and before the write, ''
                     @ ''having sent nothing''\<rparr>
            | S_Terminal outcome \<Rightarrow> go transition
            | S_Parked attempt challenge \<Rightarrow> go transition
            | S_Stranded attempt locator \<Rightarrow> go transition
            | _ \<Rightarrow> machine_try (step machine I_BudgetExhausted (LogicalInstant (ts_ms at)))))"

definition strand_resume :: "SyncMachine \<Rightarrow> Drive \<Rightarrow> (WriteAttemptId \<times> RecordedTitle) option" where
  "strand_resume next dv =
     (case sm_state next of
        S_Stranded attempt locator \<Rightarrow>
          if dv_resumed dv \<or> dv_blocked dv then None
          else map_option (\<lambda>title. (attempt, title)) (recorded_by locator)
      | _ \<Rightarrow> None)"

definition strand_why :: "Drive \<Rightarrow> string" where
  "strand_why dv =
     (if dv_blocked dv then
        ''the marketplace is challenging this device, so the catalogue cannot be walked from here ''
        @ ''either; the item is reconciled once the challenge is cleared''
      else if dv_resumed dv then
        ''this run has already searched the seller's catalogue for it once''
      else ''this strand records no identification a catalogue walk could use'')"

definition resume_the_strand ::
  "Run \<Rightarrow> SyncMachine \<Rightarrow> (WriteAttemptId \<times> RecordedTitle) option \<Rightarrow> Drive \<Rightarrow> Drive act" where
  "resume_the_strand ru next found dv =
     (case found of
        None \<Rightarrow>
          return_with (RV_Abandoned (''the write went out and its fate is unknown; the attempt stays ''
            @ ''in flight and '' @ strand_why dv))
      | Some (attempt, recorded) \<Rightarrow>
          andthen (ledger_try (renew (ru_ctx ru) (ru_ref ru))) (\<lambda>renewed.
          andthen (waited_through (ru_ctx ru) STRAND_SETTLE_WAIT_MS (ru_deadline ru)) (\<lambda>on.
          if \<not> on then
            return_with (RV_Abandoned (''the write went out and its fate is unknown; the run was ''
              @ ''cut while waiting for the marketplace to publish it, and the attempt stays in ''
              @ ''flight so the create cannot repeat''))
          else
          andthen (ask_now (ru_ctx ru)) (\<lambda>at.
          andthen (machine_try (step next (I_ResumeStranded attempt recorded) (LogicalInstant (ts_ms at))))
            (\<lambda>transition. go (dv\<lparr>dv_resumed := True, dv_transition := transition\<rparr>))))))"

definition feed_back :: "Run \<Rightarrow> SyncMachine \<Rightarrow> Drive \<Rightarrow> Drive act" where
  "feed_back ru next dv =
     (case dv_pending dv of
        Some input \<Rightarrow>
          andthen (ask_now (ru_ctx ru)) (\<lambda>at.
          andthen (machine_try (step next input (LogicalInstant (ts_ms at)))) (\<lambda>transition.
            go (dv\<lparr>dv_ambiguity := or_else (input_ambiguity input) (dv_ambiguity dv),
                   dv_transition := transition\<rparr>)))
      | None \<Rightarrow>
          return_with (RV_Abandoned
            ''the effects produced no next input in a non-terminal state''))"

definition conclude ::
  "Run \<Rightarrow> SyncMachine \<Rightarrow> (WriteAttemptId \<times> RecordedTitle) option \<Rightarrow> Drive \<Rightarrow> Drive act" where
  "conclude ru next found dv =
     (case sm_state next of
        S_Terminal outcome \<Rightarrow> settle_terminal ru outcome dv
      | S_Parked attempt challenge \<Rightarrow> return_with RV_Parked
      | S_Stranded attempt locator \<Rightarrow> resume_the_strand ru next found dv
      | _ \<Rightarrow> feed_back ru next dv)"

definition run_transition :: "Run \<Rightarrow> Drive \<Rightarrow> Transition \<Rightarrow> Drive act" where
  "run_transition ru dv transition =
     (let next = tr_next transition; found = strand_resume next dv
      in andthen (perform_all ru next (tr_effects transition)
                    (dv\<lparr>dv_transition := transition, dv_pending := None\<rparr>))
           (conclude ru next found))"

definition pass :: "Run \<Rightarrow> Drive \<Rightarrow> Drive act" where
  "pass ru dv =
     andthen (ask_now (ru_ctx ru)) (\<lambda>at.
     andthen (ask_cancelled (ru_ctx ru)) (\<lambda>cancelled.
     andthen (stop_before_effects ru dv (cancelled \<or> ts_ms at \<ge> ru_deadline ru) at)
       (run_transition ru dv)))"

subsection \<open>The loop ends\<close>

text \<open>
  Every pass that continues has stepped the machine. A step from a state that is not terminal
  reaches a terminal one or spends at least one action, so \<open>weight\<close> falls.
\<close>

definition weight :: "SyncMachine \<Rightarrow> nat" where
  "weight m = (if is_terminal (sm_state m) then 0 else Suc (unat (remaining m)))"

lemma row_spends: "sync_row m i at s es \<Longrightarrow> \<not> is_terminal s \<Longrightarrow> es \<noteq> []"
  by (erule sync_row.cases) (auto simp: entry_row_def split: ItemOperation.splits)

lemma step_shrinks:
  assumes "step m i at = Inr t"
  shows "weight (tr_next t) < weight m"
proof -
  have tr: "transit m (i, at) = Inr (tr_next t, tr_effects t)"
    using assms by (simp add: transit_def)
  then obtain s where row: "sync_row m i at s (tr_effects t)"
    and next_m: "tr_next t = tr_next (charged m s (tr_effects t))"
    by (auto simp: transit_iff)
  from next_m have state: "sm_state (tr_next t) = s"
    by (simp only: charged_simps)
  have live: "\<not> is_terminal (sm_state m)" using row row_from_terminal by blast
  show ?thesis
  proof (cases "is_terminal s")
    case True
    then show ?thesis using live state by (simp add: weight_def)
  next
    case False
    then have "\<not> is_budget_report (i, at)"
      using row row_exhausts by (auto simp: is_budget_report_iff)
    with transit_spends [OF tr] row_spends [OF row False] show ?thesis
      using live state False by (cases "tr_effects t") (auto simp: weight_def)
  qed
qed

text \<open>\<open>gives m Q\<close>: every value \<open>m\<close> goes on with satisfies \<open>Q\<close>.\<close>

definition gives :: "'a act \<Rightarrow> ('a \<Rightarrow> bool) \<Rightarrow> bool" where
  "gives m Q \<longleftrightarrow> (\<forall>l x l'. m l = (Go x, l') \<longrightarrow> Q x)"

named_theorems gives_rules \<open>what an act goes on with\<close>

lemma gives_andthen:
  assumes "gives m P" "\<And>x. P x \<Longrightarrow> gives (f x) Q"
  shows "gives (andthen m f) Q"
  unfolding gives_def
proof (intro allI impI)
  fix l y l'
  assume "andthen m f l = (Go y, l')"
  then obtain x l1 where "m l = (Go x, l1)" "f x l1 = (Go y, l')"
    by (auto simp: andthen_def split: prod.splits Flow.splits)
  then show "Q y" using assms unfolding gives_def by metis
qed

lemma gives_any: "(\<And>x. gives (f x) Q) \<Longrightarrow> gives (andthen m f) Q"
  by (rule gives_andthen [where P = "\<lambda>x. True"]) (simp_all add: gives_def)

lemma gives_go [gives_rules]: "Q x \<Longrightarrow> gives (go x) Q"
  by (simp add: gives_def go_def)

lemma gives_return [gives_rules]: "gives (return_with v) Q"
  by (simp add: gives_def return_with_def)

lemma gives_raise [gives_rules]: "gives (raise e) Q"
  by (simp add: gives_def raise_def)

lemma gives_machine_try [gives_rules]: "(\<And>t. r = Inr t \<Longrightarrow> Q t) \<Longrightarrow> gives (machine_try r) Q"
  by (auto simp: gives_def machine_try_def raise_def go_def split: sum.splits)

lemma gives_refused [gives_rules]: "gives (rate_refused_before_the_write ctx lease ab) Q"
  unfolding rate_refused_before_the_write_def by (intro gives_any gives_rules)

lemma gives_settle_terminal [gives_rules]: "gives (settle_terminal ru outcome dv) Q"
  unfolding settle_terminal_def Let_def by (intro gives_any gives_rules)

lemma gives_stop:
  "gives (stop_before_effects ru dv stopping at)
     (\<lambda>t. weight (tr_next t) \<le> weight (tr_next (dv_transition dv)))"
  unfolding stop_before_effects_def Let_def
  by (auto intro!: gives_rules split: SyncState.split dest: step_shrinks)

lemma gives_step:
  assumes "\<And>t. dv_transition (g t) = t"
  shows "gives (andthen (machine_try (step next i at)) (\<lambda>t. go (g t)))
    (\<lambda>dv. weight (tr_next (dv_transition dv)) < weight next)"
  by (rule gives_andthen [where P = "\<lambda>t. weight (tr_next t) < weight next"])
    (auto intro!: gives_rules simp: assms dest: step_shrinks)

lemma gives_feed_back:
  "gives (feed_back ru next dv) (\<lambda>dv'. weight (tr_next (dv_transition dv')) < weight next)"
  unfolding feed_back_def
  by (auto intro!: gives_any [where m = "ask_now ctx" for ctx] gives_rules gives_step split: option.split)

lemma gives_resume_the_strand:
  "gives (resume_the_strand ru next found dv) (\<lambda>dv'. weight (tr_next (dv_transition dv')) < weight next)"
proof (cases found)
  case (Some p)
  obtain attempt recorded where p: "p = (attempt, recorded)" by (cases p)
  show ?thesis unfolding resume_the_strand_def Some p option.case prod.case
    apply (rule gives_any, rule gives_any)
    subgoal for u on
      by (cases on) (auto intro!: gives_any [where m = "ask_now ctx" for ctx] gives_rules gives_step)
    done
qed (simp add: resume_the_strand_def gives_rules)

lemma gives_conclude:
  "gives (conclude ru next found dv) (\<lambda>dv'. weight (tr_next (dv_transition dv')) < weight next)"
  unfolding conclude_def
  by (auto intro!: gives_rules gives_feed_back gives_resume_the_strand split: SyncState.split)

lemma gives_run_transition:
  "gives (run_transition ru dv t) (\<lambda>dv'. weight (tr_next (dv_transition dv')) < weight (tr_next t))"
  unfolding run_transition_def Let_def by (rule gives_any) (rule gives_conclude)

lemma gives_weaken: "gives m P \<Longrightarrow> (\<And>x. P x \<Longrightarrow> Q x) \<Longrightarrow> gives m Q"
  by (auto simp: gives_def)

lemma pass_shrinks:
  "gives (pass ru dv) (\<lambda>dv'. weight (tr_next (dv_transition dv')) < weight (tr_next (dv_transition dv)))"
  unfolding pass_def
  apply (rule gives_any, rule gives_any)
  apply (rule gives_andthen [OF gives_stop])
  apply (rule gives_weaken [OF gives_run_transition])
  apply simp
  done

subsection \<open>The loop, and the run of an item\<close>

function pump :: "Run \<Rightarrow> Drive \<Rightarrow> Log \<Rightarrow> (EngineError + RunVerdict) \<times> Log" where
  "pump ru dv l =
     (case pass ru dv l of
        (Go dv', l') \<Rightarrow> pump ru dv' l'
      | (Return v, l') \<Rightarrow> (Inr v, l')
      | (Raise e, l') \<Rightarrow> (Inl e, l'))"
  by pat_completeness auto
termination
proof (relation "measure (\<lambda>(ru, dv, l). weight (tr_next (dv_transition dv)))", goal_cases)
  case 1
  show ?case by simp
next
  case (2 ru dv l flow l' dv')
  then have "pass ru dv l = (Go dv', l')" by simp
  with pass_shrinks [of ru dv]
  have "weight (tr_next (dv_transition dv')) < weight (tr_next (dv_transition dv))"
    unfolding gives_def by blast
  then show ?case by simp
qed

declare pump.simps [simp del]

text \<open>
  The head of \<open>drive_item\<close>: the connection, the deadline, the machine, and the resume of a stranded
  create, whose effects replace the entry row's.
\<close>

definition first_transition ::
  "DriverContext \<Rightarrow> LeasedItem \<Rightarrow> MachineSeed \<Rightarrow> ConnectionId \<Rightarrow> Transition act" where
  "first_transition ctx lease seed connection =
     andthen (machine_try (initial (le_org lease) (le_inventory lease) connection (ms_form seed)
                (le_item lease) (le_idempotency_key lease) (ms_intent_hash seed) (ms_fields seed)
                (ms_strategy seed) (le_operation lease) (ms_budget seed))) (\<lambda>entry.
     case ms_resume seed of
       None \<Rightarrow> go entry
     | Some (stranded, recorded) \<Rightarrow>
         andthen (ask_now ctx) (\<lambda>at.
           machine_try (step (tr_next entry) (I_ResumeStranded stranded recorded)
             (LogicalInstant (ts_ms at)))))"

definition first_drive :: "Transition \<Rightarrow> Drive" where
  "first_drive transition =
     \<lparr>dv_transition = transition, dv_attempt = None, dv_ambiguity = None, dv_lifecycle = None,
      dv_sequence = 0, dv_resumed = False, dv_blocked = False, dv_pending = None\<rparr>"

definition begin_run :: "DriverContext \<Rightarrow> LeasedItem \<Rightarrow> MachineSeed \<Rightarrow> (Run \<times> Drive) act" where
  "begin_run ctx lease seed =
     andthen (ledger_try (connection_for ctx (lease_ref lease) (le_inventory lease))) (\<lambda>found.
     case found of
       None \<Rightarrow> return_with (RV_Abandoned ''no linked connection at run time'')
     | Some connection \<Rightarrow>
         andthen (ask_now ctx) (\<lambda>started.
         andthen (first_transition ctx lease seed connection) (\<lambda>transition.
         go (\<lparr>ru_ctx = ctx, ru_lease = lease, ru_connection = connection,
              ru_deadline = ts_ms started + WALL_CLOCK_MAX_MS, ru_verify = ms_verify seed,
              ru_attestation = ms_attestation seed\<rparr>, first_drive transition))))"

definition drive_item ::
  "DriverContext \<Rightarrow> LeasedItem \<Rightarrow> MachineSeed \<Rightarrow> Log \<Rightarrow> (EngineError + RunVerdict) \<times> Log" where
  "drive_item ctx lease seed l =
     (case begin_run ctx lease seed l of
        (Go (ru, dv), l') \<Rightarrow> pump ru dv l'
      | (Return v, l') \<Rightarrow> (Inr v, l')
      | (Raise e, l') \<Rightarrow> (Inl e, l'))"

fun undecided :: "EngineError + RunVerdict \<Rightarrow> bool" where
  "undecided (Inr (RV_Settled outcome)) = False"
| "undecided (Inr RV_Parked) = False"
| "undecided (Inr (RV_Abandoned reason)) = True"
| "undecided (Inl e) = True"

definition not_handed_back ::
  "EngineError + RunVerdict \<Rightarrow> LedgerError + unit \<Rightarrow> EngineError + RunVerdict" where
  "not_handed_back verdict handed =
     (case (verdict, handed) of
        (Inr (RV_Abandoned reason), Inl why) \<Rightarrow>
          if why \<noteq> LG_StaleLease then
            Inr (RV_Abandoned (reason @ ''; and the lease could not be handed back, so it runs to its ''
              @ ''expiry: '' @ ledger_error_str why))
          else verdict
      | _ \<Rightarrow> verdict)"

definition run_item ::
  "DriverContext \<Rightarrow> LeasedItem \<Rightarrow> MachineSeed \<Rightarrow> Log \<Rightarrow> (EngineError + RunVerdict) \<times> Log" where
  "run_item ctx lease seed l =
     (let (verdict, l1) = drive_item ctx lease seed l
      in if \<not> undecided verdict then (verdict, l1)
         else (case andthen (ask_now ctx) (\<lambda>at. hand_back ctx (lease_ref lease) at) l1 of
                 (Go handed, l2) \<Rightarrow> (not_handed_back verdict handed, l2)
               | (_, l2) \<Rightarrow> (verdict, l2)))"

end
