(* ===== verification/DriverLogic.thy ===== *)
theory DriverLogic
  imports Driver
begin

section \<open>Reasoning about the driver\<close>

text \<open>
  The weakest precondition of an act, with one postcondition for the value it goes on with and one
  for the verdict or error it leaves the run with; what a log says; and the contracts of the polls
  and of every effect.
\<close>

subsection \<open>Weakest preconditions\<close>

definition wp :: "'a act \<Rightarrow> ('a \<Rightarrow> Log \<Rightarrow> bool) \<Rightarrow> (EngineError + RunVerdict \<Rightarrow> Log \<Rightarrow> bool) \<Rightarrow> Log \<Rightarrow> bool"
  where
  "wp m Q E l = (case m l of
       (Go x, l') \<Rightarrow> Q x l'
     | (Return v, l') \<Rightarrow> E (Inr v) l'
     | (Raise e, l') \<Rightarrow> E (Inl e) l')"

named_theorems wp_simps \<open>the precondition of each combinator and call\<close>

lemma wp_andthen [wp_simps]: "wp (andthen m f) Q E = wp m (\<lambda>x. wp (f x) Q E) E"
  by (rule ext) (simp add: wp_def andthen_def split: prod.split Flow.split)

lemma wp_go [wp_simps]: "wp (go x) Q E = Q x"
  by (rule ext) (simp add: wp_def go_def)

lemma wp_return [wp_simps]: "wp (return_with v) Q E = E (Inr v)"
  by (rule ext) (simp add: wp_def return_with_def)

lemma wp_raise [wp_simps]: "wp (raise e) Q E = E (Inl e)"
  by (rule ext) (simp add: wp_def raise_def)

lemma wp_ask: "wp (ask answer call) Q E l = (\<exists>x. x = answer l \<and> Q x (call x # l))"
  by (simp add: wp_def ask_def Let_def)

lemma wp_ledger_try [wp_simps]: "wp (ledger_try m) Q E =
    wp m (\<lambda>r l'. (\<forall>e. r = Inl e \<longrightarrow> E (Inl (EE_Ledger e)) l') \<and> (\<forall>x. r = Inr x \<longrightarrow> Q x l')) E"
  by (rule ext) (auto simp: ledger_try_def wp_def andthen_def raise_def go_def split: prod.split Flow.split sum.split)

lemma wp_machine_try [wp_simps]: "wp (machine_try r) Q E l =
    ((\<forall>e. r = Inl e \<longrightarrow> E (Inl (EE_Machine e)) l) \<and> (\<forall>t. r = Inr t \<longrightarrow> Q t l))"
  by (auto simp: machine_try_def wp_def raise_def go_def split: sum.split)

lemma wp_if: "wp (if b then m else m') Q E = (if b then wp m Q E else wp m' Q E)"
  by simp

lemma wp_mono:
  assumes "wp m Q E l" "\<And>x l'. Q x l' \<Longrightarrow> Q' x l'" "\<And>r l'. E r l' \<Longrightarrow> E' r l'"
  shows "wp m Q' E' l"
  using assms by (auto simp: wp_def split: prod.splits Flow.splits)

text \<open>A call is answered in some way: the contracts hold for every answer.\<close>

lemma wp_call: "(\<And>x. Q x (call x # l)) \<Longrightarrow> wp (ask answer call) Q E l"
  by (simp add: wp_ask)

lemmas call_defs = ask_now_def ask_cancelled_def pause_for_def new_id_def assert_form_schema_def
  submit_def revise_def remove_listing_def read_back_def find_listing_def connection_for_def
  ledger_preflight_succeeded_def ledger_preflight_failed_def park_def settle_item_def
  open_attempt_def settle_attempt_def gate_connection_def halt_this_tenant_def request_grant_def
  renew_def ledger_record_event_def ledger_notify_def hand_back_def

subsection \<open>What a log says\<close>

text \<open>The requests to a marketplace, and the allowance each is charged to.\<close>

fun request_kind :: "Call \<Rightarrow> GrantKind option" where
  "request_kind (C_AssertFormSchema form answer) = Some GK_FormRead"
| "request_kind (C_Submit key fieldset at answer) = Some GK_Write"
| "request_kind (C_Revise plan at answer) = Some GK_Write"
| "request_kind (C_Remove plan at answer) = Some GK_Write"
| "request_kind (C_ReadBack locator reason at answer) = Some GK_VerifyRead"
| "request_kind (C_FindListing locator attempt answer) = Some GK_VerifyRead"
| "request_kind c = None"

fun write_answer :: "Call \<Rightarrow> (AdapterError + SubmitEvidence) option" where
  "write_answer (C_Submit key fieldset at answer) = Some answer"
| "write_answer (C_Revise plan at answer) = Some answer"
| "write_answer (C_Remove plan at answer) = Some answer"
| "write_answer c = None"

fun is_renewal :: "LeaseRef \<Rightarrow> Call \<Rightarrow> bool" where
  "is_renewal lease (C_Renew held (Inr renewed)) = (held = lease)"
| "is_renewal lease c = False"

fun is_grant :: "LeaseRef \<Rightarrow> GrantKind \<Rightarrow> Call \<Rightarrow> bool" where
  "is_grant lease kind (C_RequestGrant held connection asked at (Inr (Granted used))) =
     (held = lease \<and> asked = kind)"
| "is_grant lease kind c = False"

text \<open>
  \<open>covered\<close>: since the last request the lease was renewed and an allowance of this kind granted.
\<close>

definition since_request :: "Log \<Rightarrow> Log" where
  "since_request l = takeWhile (\<lambda>c. request_kind c = None) l"

definition covered :: "LeaseRef \<Rightarrow> GrantKind \<Rightarrow> Log \<Rightarrow> bool" where
  "covered lease kind l \<longleftrightarrow>
     list_ex (is_renewal lease) (since_request l) \<and> list_ex (is_grant lease kind) (since_request l)"

text \<open>\<open>unused\<close>: an attempt was opened since the last write. \<open>unsent\<close>: no write left the device.\<close>

fun unused :: "Log \<Rightarrow> bool" where
  "unused [] = False"
| "unused (c # l) =
     (case c of
        C_OpenAttempt lease new at (Inr u) \<Rightarrow> True
      | _ \<Rightarrow> if write_answer c = None then unused l else False)"

fun not_sent :: "AdapterError + SubmitEvidence \<Rightarrow> bool" where
  "not_sent (Inl (AE_NotSent failure)) = True"
| "not_sent r = False"

definition unsent :: "Log \<Rightarrow> bool" where
  "unsent l = list_all (\<lambda>c. case write_answer c of None \<Rightarrow> True | Some r \<Rightarrow> not_sent r) l"

fun opens :: "WriteAttemptId \<Rightarrow> Call \<Rightarrow> bool" where
  "opens a (C_OpenAttempt lease new at (Inr u)) = (na_attempt new = attempt_uuid a)"
| "opens a c = False"

definition opened_in :: "Log \<Rightarrow> WriteAttemptId \<Rightarrow> bool" where
  "opened_in l a = list_ex (opens a) l"

text \<open>The item settlements the ledger took, oldest first, and the attempts it settled.\<close>

fun settled_outcome :: "Call \<Rightarrow> ItemOutcome option" where
  "settled_outcome (C_SettleItem lease verdict at (Inr u)) = Some (iv_outcome verdict)"
| "settled_outcome c = None"

definition settled_outcomes :: "Log \<Rightarrow> ItemOutcome list" where
  "settled_outcomes l = List.map_filter settled_outcome (rev l)"

fun released :: "Call \<Rightarrow> AttemptRef option" where
  "released (C_SettleAttempt lease attempt verdict at (Inr disposition)) = Some attempt"
| "released c = None"

definition unreleased :: "Log \<Rightarrow> bool" where
  "unreleased l = list_all (\<lambda>c. released c = None) l"

text \<open>The writes, as a marketplace saw them, and as the machine ordered them.\<close>

datatype Write =
    W_Submit IdempotencyKey FieldSet
  | W_Revise RemoteListingId FieldSet LifecycleTransition
  | W_Remove WriteAttemptId RemoteListingId ListingState

fun call_write :: "Call \<Rightarrow> Write option" where
  "call_write (C_Submit key fieldset at answer) = Some (W_Submit key fieldset)"
| "call_write (C_Revise plan at answer) =
     Some (W_Revise (rpl_subject plan) (rpl_fields plan) (rpl_transition plan))"
| "call_write (C_Remove plan at answer) =
     Some (W_Remove (rml_attempt plan) (rml_subject plan) (rml_state plan))"
| "call_write c = None"

fun effect_write :: "Effect \<Rightarrow> Write option" where
  "effect_write (E_Submit a key fieldset) = Some (W_Submit key fieldset)"
| "effect_write (E_Revise a s fieldset t) = Some (W_Revise s fieldset t)"
| "effect_write (E_Remove a s state) = Some (W_Remove a s state)"
| "effect_write e = None"

definition writes_of :: "Log \<Rightarrow> Write list" where
  "writes_of l = List.map_filter call_write (rev l)"

definition ordered_writes :: "Effect list \<Rightarrow> Write list" where
  "ordered_writes es = List.map_filter effect_write es"

fun is_hand_back :: "Call \<Rightarrow> bool" where
  "is_hand_back (C_HandBack lease at answer) = True"
| "is_hand_back c = False"

fun asks_to_open :: "Call \<Rightarrow> bool" where
  "asks_to_open (C_OpenAttempt lease new at answer) = True"
| "asks_to_open c = False"

lemma call_write_iff: "call_write c = None \<longleftrightarrow> write_answer c = None"
  by (cases c) simp_all

lemma effect_write_iff: "effect_write e = None \<longleftrightarrow> write_attempt_of e = None"
  by (cases e) simp_all

text \<open>
  The guard on a call: a request is covered; a write has an attempt of its own and follows no write
  that left; an attempt is opened while none has been settled; and nothing is handed back before the
  run has ended.
\<close>

definition guard :: "LeaseRef \<Rightarrow> Call \<Rightarrow> Log \<Rightarrow> bool" where
  "guard lease c l \<longleftrightarrow>
     (case request_kind c of None \<Rightarrow> True | Some kind \<Rightarrow> covered lease kind l)
     \<and> (write_answer c = None \<or> unused l \<and> unsent l)
     \<and> (asks_to_open c \<longrightarrow> unreleased l)
     \<and> \<not> is_hand_back c"

fun guarded :: "LeaseRef \<Rightarrow> Log \<Rightarrow> bool" where
  "guarded lease [] = True"
| "guarded lease (c # l) = (guard lease c l \<and> guarded lease l)"

text \<open>
  \<open>releases_nothing_sent\<close>: an attempt settled in this log was opened in it and had sent nothing.
\<close>

fun releases_nothing_sent :: "Log \<Rightarrow> bool" where
  "releases_nothing_sent [] = True"
| "releases_nothing_sent (c # l) =
     ((case released c of None \<Rightarrow> True
       | Some attempt \<Rightarrow> unsent l \<and> opened_in l (WriteAttemptId (af_attempt attempt)))
      \<and> releases_nothing_sent l)"

lemma unreleased_releases: "unreleased l \<Longrightarrow> releases_nothing_sent l"
  by (induction l) (auto simp: unreleased_def)

lemma since_request_Cons [simp]:
  "since_request (c # l) = (if request_kind c = None then c # since_request l else [])"
  by (simp add: since_request_def)

lemma covered_Cons [simp]:
  "covered lease kind (c # l) \<longleftrightarrow> request_kind c = None \<and>
     (is_renewal lease c \<or> list_ex (is_renewal lease) (since_request l)) \<and>
     (is_grant lease kind c \<or> list_ex (is_grant lease kind) (since_request l))"
  by (simp add: covered_def)

lemma unsent_Cons [simp]:
  "unsent (c # l) \<longleftrightarrow> (case write_answer c of None \<Rightarrow> True | Some r \<Rightarrow> not_sent r) \<and> unsent l"
  by (simp add: unsent_def)

lemma opened_in_Cons [simp]: "opened_in (c # l) a \<longleftrightarrow> opens a c \<or> opened_in l a"
  by (simp add: opened_in_def)

lemma unreleased_Cons [simp]: "unreleased (c # l) \<longleftrightarrow> released c = None \<and> unreleased l"
  by (simp add: unreleased_def)

lemma settled_outcomes_Cons [simp]:
  "settled_outcomes (c # l) = settled_outcomes l @ (case settled_outcome c of None \<Rightarrow> [] | Some r \<Rightarrow> [r])"
  by (simp add: settled_outcomes_def map_filter_append List.map_filter_simps split: option.split)

lemma writes_of_Cons [simp]:
  "writes_of (c # l) = writes_of l @ (case call_write c of None \<Rightarrow> [] | Some w \<Rightarrow> [w])"
  by (simp add: writes_of_def map_filter_append List.map_filter_simps split: option.split)

subsection \<open>Quiet calls\<close>

text \<open>
  A call is quiet when it neither writes, opens or settles an attempt, settles the item nor hands
  the lease back: the log says the same after it.
\<close>

fun quiet :: "Call \<Rightarrow> bool" where
  "quiet (C_Submit key fieldset at answer) = False"
| "quiet (C_Revise plan at answer) = False"
| "quiet (C_Remove plan at answer) = False"
| "quiet (C_OpenAttempt lease new at answer) = False"
| "quiet (C_SettleAttempt lease attempt verdict at answer) = False"
| "quiet (C_SettleItem lease verdict at answer) = False"
| "quiet (C_HandBack lease at answer) = False"
| "quiet c = True"

definition paid :: "LeaseRef \<Rightarrow> Call \<Rightarrow> Log \<Rightarrow> bool" where
  "paid lease c l \<longleftrightarrow> (case request_kind c of None \<Rightarrow> True | Some kind \<Rightarrow> covered lease kind l)"

text \<open>What a log says of the run so far, as one value.\<close>

record Standing =
  sg_writes :: "Write list"
  sg_unsent :: bool
  sg_unused :: bool
  sg_unreleased :: bool
  sg_settled :: "ItemOutcome list"

definition standing :: "Log \<Rightarrow> Standing" where
  "standing l = \<lparr>sg_writes = writes_of l, sg_unsent = unsent l, sg_unused = unused l,
     sg_unreleased = unreleased l, sg_settled = settled_outcomes l\<rparr>"

lemma standing_quiet: "quiet c \<Longrightarrow> standing (c # l) = standing l"
  by (cases c) (simp_all add: standing_def)

lemma opened_quiet: "opened_in l a \<Longrightarrow> opened_in (c # l) a"
  by simp

lemma guard_quiet: "quiet c \<Longrightarrow> paid lease c l \<Longrightarrow> guard lease c l"
  by (cases c) (auto simp: guard_def paid_def)


subsection \<open>Acts that only make quiet calls\<close>

definition raised :: "EngineError + RunVerdict \<Rightarrow> bool" where
  "raised r \<longleftrightarrow> (\<exists>e. r = Inl e)"

lemma raised_Inl [simp]: "raised (Inl e)"
  by (simp add: raised_def)

locale quiet_invariant =
  fixes lease :: LeaseRef and I :: "Log \<Rightarrow> bool"
  assumes keep: "I l \<Longrightarrow> quiet c \<Longrightarrow> paid lease c l \<Longrightarrow> I (c # l)"
begin

definition calm :: "'a act \<Rightarrow> bool" where
  "calm m \<longleftrightarrow> (\<forall>l. I l \<longrightarrow> wp m (\<lambda>x. I) (\<lambda>r l'. I l' \<and> raised r) l)"

lemma calmD: "calm m \<Longrightarrow> I l \<Longrightarrow> wp m (\<lambda>x. I) (\<lambda>r l'. I l' \<and> raised r) l"
  by (simp add: calm_def)

lemma calm_go: "calm (go x)"
  by (simp add: calm_def wp_simps)

lemma calm_raise: "calm (raise e)"
  by (simp add: calm_def wp_simps)

lemma calm_ask: "(\<And>x. quiet (call x)) \<Longrightarrow> (\<And>x l. paid lease (call x) l) \<Longrightarrow> calm (ask answer call)"
  by (simp add: calm_def wp_ask keep)

lemma calm_andthen: "calm m \<Longrightarrow> (\<And>x. calm (f x)) \<Longrightarrow> calm (andthen m f)"
  unfolding calm_def by (auto simp: wp_andthen intro: wp_mono)

lemma calm_ledger_try: "calm m \<Longrightarrow> calm (ledger_try m)"
  unfolding calm_def by (auto simp: wp_ledger_try elim!: wp_mono)

lemma calm_calls:
  "calm (ask_now ctx)" "calm (ask_cancelled ctx)" "calm (pause_for ctx ms)" "calm (new_id ctx)"
  "calm (ledger_preflight_succeeded ctx lr)" "calm (ledger_preflight_failed ctx lr edge)"
  "calm (park ctx lr why)" "calm (gate_connection ctx lr i at)"
  "calm (halt_this_tenant ctx lr i why at)" "calm (renew ctx lr)"
  "calm (request_grant ctx lr con kind at)" "calm (connection_for ctx lr i)"
  "calm (ledger_record_event ctx lr payload at)" "calm (ledger_notify ctx lr ev at)"
  by (simp_all add: call_defs calm_ask paid_def)

lemma calm_record_event: "calm (record_event ctx lz payload at)"
  by (simp add: record_event_def calm_ledger_try calm_calls)

lemma calm_record_action: "calm (record_action ctx lz sequence label at)"
  by (simp add: record_action_def calm_record_event)

lemma calm_notify: "calm (notify ctx lz event at)"
  by (simp add: notify_def calm_ledger_try calm_calls)

lemma calm_may_go_on: "calm (may_go_on ctx deadline)"
  unfolding may_go_on_def by (auto intro!: calm_andthen calm_calls calm_go)

lemma calm_wait_left: "calm (wait_left ctx deadline left)"
proof (induction ctx deadline left rule: wait_left.induct)
  case (1 ctx deadline left)
  show ?case
    apply (subst wait_left.simps)
    apply (rule calm_andthen [OF calm_may_go_on])
    subgoal for on
      using 1 by (auto intro!: calm_andthen calm_calls calm_go)
    done
qed

lemma calm_waited_through: "calm (waited_through ctx ms deadline)"
  by (simp add: waited_through_def calm_wait_left)

text \<open>The three chains that end in a read: a renewed lease, a granted allowance, the request.\<close>

lemma paid_read:
  assumes "I l" "lr = lease"
    and read: "\<And>x. quiet (call x)" "\<And>x. request_kind (call x) = Some kind"
    and closed: "\<And>l'. I l' \<Longrightarrow> wp (m' :: 'a act) Q E l'"
    and failed: "\<And>e l'. I l' \<Longrightarrow> E (Inl (EE_Ledger e)) l'"
    and rest: "\<And>x l'. I l' \<Longrightarrow> wp (f x) Q E l'"
  shows "wp (andthen (ledger_try (renew ctx lr)) (\<lambda>renewed.
      andthen (ledger_try (request_grant ctx lr con kind at)) (\<lambda>grant.
      if grant = Exhausted then m' else andthen (ask answer call) f))) Q E l"
proof -
  have renewed: "I (C_Renew lr r # l)" for r
    using assms(1) by (simp add: keep paid_def)
  have asked: "I (C_RequestGrant lr con kind at g # C_Renew lr r # l)" for r g
    using renewed by (simp add: keep paid_def)
  have granted: "I (C_RequestGrant lr con kind at (Inr g) # C_Renew lr (Inr r) # l)" for r g
    by (rule asked)
  have answered: "I (call x # C_RequestGrant lr con kind at (Inr g) # C_Renew lr (Inr r) # l)"
    if "g \<noteq> Exhausted" for x g r
    by (rule keep [OF granted]) (use that read \<open>lr = lease\<close> in \<open>cases g; simp add: paid_def\<close>)+
  show ?thesis
    using renewed asked answered by (auto simp: wp_simps renew_def request_grant_def wp_ask intro: closed failed rest)
qed

lemma calm_paid_read:
  assumes "lr = lease" "\<And>x. quiet (call x)" "\<And>x. request_kind (call x) = Some kind"
    and "calm m'" "\<And>x. calm (f x)"
  shows "calm (andthen (ledger_try (renew ctx lr)) (\<lambda>renewed.
      andthen (ledger_try (request_grant ctx lr con kind at)) (\<lambda>grant.
      if grant = Exhausted then m' else andthen (ask answer call) f)))"
  unfolding calm_def
proof (intro allI impI)
  fix l assume "I l"
  then show "wp (andthen (ledger_try (renew ctx lr)) (\<lambda>renewed.
      andthen (ledger_try (request_grant ctx lr con kind at)) (\<lambda>grant.
      if grant = Exhausted then m' else andthen (ask answer call) f)))
    (\<lambda>x. I) (\<lambda>r l'. I l' \<and> raised r) l"
    by (rule paid_read [OF _ assms(1-3)]) (simp_all add: assms(4,5) calmD)
qed

lemma calm_if: "calm m \<Longrightarrow> calm m' \<Longrightarrow> calm (if b then m else m')"
  by simp

lemma verify_tries_calm:
  assumes "lease_ref lz = lease"
  shows "calm (verify_tries ctx lz request left seen)"
proof (induction left arbitrary: seen)
  case 0
  show ?case by (simp add: calm_go)
next
  case (Suc left)
  have rest: "calm (case observed of
       Inl error \<Rightarrow>
         (case error of
            AE_Ambiguous cause \<Rightarrow> go (Observed (Inl (AE_Ambiguous cause)))
          | _ \<Rightarrow> go (Stopped (ReadCondition error)))
     | Inr listing \<Rightarrow>
         if verification_settles (vf_operation request) listing then go (Observed (Inr listing))
         else andthen (if 0 < left then pause_for ctx (vo_interval_ms (vf_policy request)) else go ())
             (\<lambda>u. verify_tries ctx lz request left (Some listing)))" for observed
    using Suc by (auto intro!: calm_andthen calm_go calm_calls split: sum.split AdapterError.split)
  show ?case
    unfolding verify_tries.simps read_back_def
    by (intro calm_andthen [OF calm_calls(1)] calm_andthen [OF calm_calls(2)] calm_if calm_go
        calm_paid_read rest) (simp_all add: assms)
qed

lemma reconcile_walks_calm:
  assumes "lease_ref lz = lease"
  shows "calm (reconcile_walks ctx lz request left)"
proof (induction left)
  case 0
  show ?case by (simp add: calm_go)
next
  case (Suc left)
  have rest: "calm (if found \<noteq> Inr None \<or> left = 0 then go (Answered found)
     else
     andthen (waited_through ctx RECONCILE_WALK_INTERVAL_MS (rcn_deadline request)) (\<lambda>on.
     if \<not> on then go (WalkStopped ''the run was cut'')
     else reconcile_walks ctx lz request left))" for found
    using Suc by (auto intro!: calm_andthen calm_go calm_waited_through)
  show ?case
    unfolding reconcile_walks.simps find_listing_def
    by (intro calm_andthen [OF calm_calls(1)] calm_andthen [OF calm_calls(2)] calm_if [OF calm_go]
        calm_paid_read rest calm_go) (simp_all add: assms)
qed

end

end
