(* ===== verification/DriverRuns.thy ===== *)
theory DriverRuns
  imports DriverLogic "HOL-Library.Sublist"
begin

section \<open>Contracts of the effects, and of the loop\<close>

text \<open>
  What performing one effect keeps and how it may leave the run; then one pass, the loop and the
  whole run of an item, with the machine's history the run follows.
\<close>

definition held :: "LeaseRef \<Rightarrow> Standing \<Rightarrow> WriteAttemptId set \<Rightarrow> Log \<Rightarrow> bool" where
  "held lease s A l \<longleftrightarrow> guarded lease l \<and> standing l = s \<and> (\<forall>a\<in>A. opened_in l a)"

interpretation kept: quiet_invariant lease "held lease s A" for lease s A
  by unfold_locales (auto simp: held_def guard_quiet standing_quiet)

subsection \<open>Between the effects\<close>

text \<open>The inputs an effect other than a write may leave pending.\<close>

fun read_input :: "Input \<Rightarrow> bool" where
  "read_input (I_PreflightResult r) = True"
| "read_input (I_IntentRecorded a) = True"
| "read_input (I_ReadBackResult r) = True"
| "read_input (I_ReconcileResult r) = True"
| "read_input i = False"

definition pending_ok :: "Input option \<Rightarrow> Log \<Rightarrow> bool" where
  "pending_ok p l \<longleftrightarrow> (\<forall>i. p = Some i \<longrightarrow> read_input i) \<and>
     (\<forall>a. p = Some (I_IntentRecorded a) \<longrightarrow> opened_in l a \<and> unused l)"

definition amid :: "LeaseRef \<Rightarrow> Write list \<Rightarrow> bool \<Rightarrow> Input option \<Rightarrow> Log \<Rightarrow> bool" where
  "amid lease ws u p l \<longleftrightarrow> guarded lease l \<and> writes_of l = ws \<and> unsent l = u \<and> unreleased l
     \<and> settled_outcomes l = [] \<and> pending_ok p l"

definition exits :: "ItemOperation \<Rightarrow> LeaseRef \<Rightarrow> Write list \<Rightarrow> EngineError + RunVerdict \<Rightarrow> Log \<Rightarrow> bool" where
  "exits operation lease ws r l \<longleftrightarrow> guarded lease l \<and> writes_of l = ws
     \<and> (case r of
          Inl e \<Rightarrow> length (settled_outcomes l) \<le> 1
        | Inr v \<Rightarrow> settled_outcomes l = (case v of RV_Settled outcome \<Rightarrow> [outcome] | _ \<Rightarrow> []))
     \<and> (operation = Create \<and> (\<exists>why. r = Inr (RV_Abandoned why)) \<longrightarrow> releases_nothing_sent l)"

lemma amid_exits:
  "amid lease ws u p l \<Longrightarrow> (\<And>outcome. r \<noteq> Inr (RV_Settled outcome)) \<Longrightarrow> exits operation lease ws r l"
  by (auto simp: amid_def exits_def unreleased_releases split: sum.split RunVerdict.split)

lemma amid_held:
  "amid lease ws u p l \<Longrightarrow> held lease (standing l) {a. opened_in l a} l"
  by (simp add: amid_def held_def)

lemma held_amid:
  assumes "amid lease ws u p l" "held lease (standing l) {a. opened_in l a} l'"
  shows "amid lease ws u p l'"
  using assms by (auto simp: amid_def held_def standing_def pending_ok_def)

lemma amid_pending:
  "amid lease ws u p l \<Longrightarrow> read_input i \<Longrightarrow> (\<And>a. i \<noteq> I_IntentRecorded a) \<Longrightarrow> amid lease ws u (Some i) l"
  by (auto simp: amid_def pending_ok_def)

text \<open>A calm act between two effects.\<close>

lemma calm_amid:
  assumes calm: "kept.calm lease (standing l) {a. opened_in l a} m" and amid: "amid lease ws u p l"
    and rest: "\<And>x l'. amid lease ws u p l' \<Longrightarrow> Q x l'"
    and out: "\<And>r l'. raised r \<Longrightarrow> amid lease ws u p l' \<Longrightarrow> E r l'"
  shows "wp m Q E l"
  by (rule wp_mono [OF kept.calmD [OF calm amid_held [OF amid]]])
    (auto intro: rest out held_amid [OF amid])

lemmas calm_acts = kept.calm_calls kept.calm_record_event kept.calm_record_action kept.calm_notify
  kept.calm_waited_through kept.calm_go kept.calm_if kept.calm_ledger_try kept.calm_andthen

text \<open>The shape of a wp goal under a calm act: the log stays amid, and an error leaves the run.\<close>

lemma calm_exits:
  assumes "\<And>s A. kept.calm lease s A m" "amid lease ws u p l"
    and "\<And>x l'. amid lease ws u p l' \<Longrightarrow> wp (f x) Q (exits operation lease ws) l'"
  shows "wp (andthen m f) Q (exits operation lease ws) l"
  unfolding wp_andthen
  by (rule calm_amid [OF assms(1,2)]) (auto simp: raised_def intro: assms(3) amid_exits)

text \<open>After the item is settled: what is left of the run is calm.\<close>

definition settled_as :: "LeaseRef \<Rightarrow> Write list \<Rightarrow> ItemOutcome \<Rightarrow> Log \<Rightarrow> bool" where
  "settled_as lease ws outcome l \<longleftrightarrow> guarded lease l \<and> writes_of l = ws \<and> settled_outcomes l = [outcome]"

lemma settled_exits:
  "settled_as lease ws outcome l \<Longrightarrow> exits operation lease ws (Inr (RV_Settled outcome)) l"
  "settled_as lease ws outcome l \<Longrightarrow> exits operation lease ws (Inl e) l"
  by (simp_all add: settled_as_def exits_def)

lemma calm_settled:
  assumes "\<And>s A. kept.calm lease s A m" "settled_as lease ws outcome l"
    and "\<And>x l'. settled_as lease ws outcome l' \<Longrightarrow> wp (f x) Q (exits operation lease ws) l'"
  shows "wp (andthen m f) Q (exits operation lease ws) l"
proof -
  have "held lease (standing l) {} l" using assms(2) by (simp add: held_def settled_as_def)
  moreover have "settled_as lease ws outcome l'" if "held lease (standing l) {} l'" for l'
    using that assms(2) by (simp add: held_def settled_as_def standing_def)
  ultimately show ?thesis
    unfolding wp_andthen
    by (intro wp_mono [OF kept.calmD [OF assms(1)]]) (auto simp: raised_def intro: assms(3) settled_exits)
qed

lemma settles_item:
  assumes "amid lease ws u p l" "iv_outcome verdict = outcome"
    and "\<And>l'. settled_as lease ws outcome l' \<Longrightarrow> wp (f ()) Q (exits operation lease ws) l'"
  shows "wp (andthen (ledger_try (settle_item ctx lref verdict at)) f) Q (exits operation lease ws) l"
proof -
  have "exits operation lease ws (Inl e) (C_SettleItem lref verdict at (Inl e') # l)" for e e'
    using assms(1) by (auto simp: amid_def exits_def guard_def)
  moreover have "settled_as lease ws outcome (C_SettleItem lref verdict at (Inr x) # l)" for x
    using assms(1,2) by (auto simp: amid_def settled_as_def guard_def)
  ultimately show ?thesis
    using assms(3) by (auto simp: wp_simps settle_item_def wp_ask)
qed

subsection \<open>A preflight that failed\<close>

lemma settle_preflight_blocked_exits:
  assumes "amid (lease_ref lz) ws u p l"
  shows "wp (settle_preflight_blocked ctx lz challenge at) Q (exits operation (lease_ref lz) ws) l"
  unfolding settle_preflight_blocked_def Let_def
  by (rule calm_exits [OF _ assms], (intro calm_acts),
      rule calm_exits, (intro calm_acts), assumption,
      rule settles_item, assumption, simp,
      rule calm_settled, (intro calm_acts), assumption,
      rule calm_settled, (intro calm_acts), assumption)
    (simp add: wp_simps settled_exits)

lemma preflight_failed_exits:
  assumes "amid (lease_ref lz) ws u p l"
  shows "wp (preflight_failed ctx lz error at) Q (exits operation (lease_ref lz) ws) l"
  unfolding preflight_failed_def Let_def
  by (rule calm_exits [OF _ assms], (intro calm_acts))
    (simp add: wp_if wp_return amid_exits settle_preflight_blocked_exits)

subsection \<open>The effects that do not write\<close>

text \<open>
  \<open>performs\<close>: from a log amid the run the act goes on amid it, or leaves it as \<open>exits\<close> says.
\<close>

definition performs :: "ItemOperation \<Rightarrow> LeaseRef \<Rightarrow> Drive \<Rightarrow> Drive act \<Rightarrow> bool" where
  "performs operation lease dv m \<longleftrightarrow> (\<forall>ws u l. amid lease ws u (dv_pending dv) l \<longrightarrow>
     wp m (\<lambda>dv'. amid lease ws u (dv_pending dv')) (exits operation lease ws) l)"

lemma performs_assert_form: "performs operation (ru_ref ru) dv (perform_assert_form ru form at dv)"
  unfolding performs_def
proof (intro allI impI)
  fix ws u l assume amid: "amid (ru_ref ru) ws u (dv_pending dv) l"
  note amid_again = held_amid [OF amid]
  show "wp (perform_assert_form ru form at dv) (\<lambda>dv'. amid (ru_ref ru) ws u (dv_pending dv'))
      (exits operation (ru_ref ru) ws) l"
    unfolding perform_assert_form_def Let_def assert_form_schema_def
  proof (rule kept.paid_read [OF amid_held [OF amid] refl])
    fix asserted l' assume "held (ru_ref ru) (standing l) {a. opened_in l a} l'"
    then have amid': "amid (ru_ref ru) ws u (dv_pending dv) l'" by (rule amid_again)
    show "wp (case asserted of
        Inr fingerprint \<Rightarrow>
          andthen (ledger_try (ledger_preflight_succeeded (ru_ctx ru) (ru_ref ru)))
            (\<lambda>u. go (dv\<lparr>dv_pending := Some (I_PreflightResult (Inr fingerprint))\<rparr>))
      | Inl error \<Rightarrow>
          (case error of
             AE_SchemaDrift drift \<Rightarrow> go (dv\<lparr>dv_pending := Some (I_PreflightResult (Inl drift))\<rparr>)
           | _ \<Rightarrow> preflight_failed (ru_ctx ru) (ru_lease ru) error at))
      (\<lambda>dv'. amid (ru_ref ru) ws u (dv_pending dv')) (exits operation (ru_ref ru) ws) l'"
      using amid' unfolding ru_ref_def
      by (auto intro!: preflight_failed_exits calm_exits calm_acts
          simp: wp_go amid_pending split: sum.split AdapterError.split)
  qed (auto simp: wp_return intro: amid_exits dest: amid_again)
qed

lemma performs_record_intent:
  "performs operation (ru_ref ru) dv (perform_record_intent ru next hash at dv)"
  unfolding performs_def
proof (intro allI impI)
  fix ws u l assume amid: "amid (ru_ref ru) ws u (dv_pending dv) l"
  show "wp (perform_record_intent ru next hash at dv) (\<lambda>dv'. amid (ru_ref ru) ws u (dv_pending dv'))
      (exits operation (ru_ref ru) ws) l"
    unfolding perform_record_intent_def Let_def
  proof (rule calm_exits [OF _ amid], intro calm_acts)
    fix minted l' assume amid': "amid (ru_ref ru) ws u (dv_pending dv) l'"
    have opened: "amid (ru_ref ru) ws u (Some (I_IntentRecorded (WriteAttemptId minted)))
        (C_OpenAttempt (ru_ref ru) new at (Inr ()) # l')" if "na_attempt new = minted" for new
      using amid' that by (auto simp: amid_def pending_ok_def guard_def)
    have refused: "amid (ru_ref ru) ws u None (C_OpenAttempt (ru_ref ru) new at (Inl e) # l')" for new e
      using amid' by (auto simp: amid_def pending_ok_def guard_def)
    show "wp (andthen (open_attempt (ru_ctx ru) (ru_ref ru)
          \<lparr>na_attempt = minted, na_mapping = le_mapping (ru_lease ru),
           na_intent = \<lparr>ai_body = attested_intent (ru_operation ru) (sm_fields next)
                          (ru_attestation ru), ai_hash = hash_bytes hash\<rparr>\<rparr> at)
        (\<lambda>attempt. case attempt of
            Inr u \<Rightarrow> go (dv\<lparr>dv_attempt := Some (WriteAttemptId minted),
                           dv_pending := Some (I_IntentRecorded (WriteAttemptId minted))\<rparr>)
          | Inl e \<Rightarrow>
              (case e of
                 LG_AttemptInFlight \<Rightarrow>
                   return_with (RV_Abandoned ''another attempt is in flight for this mapping'')
               | LG_MappingAlreadyBound \<Rightarrow>
                   andthen (ledger_try (settle_item (ru_ctx ru) (ru_ref ru) already_bound_verdict at))
                     (\<lambda>u. andthen (record_event (ru_ctx ru) (ru_lease ru)
                              (JE_ItemSettled (item_outcome_name IO_Skipped)) at)
                     (\<lambda>u. return_with (RV_Settled IO_Skipped)))
               | _ \<Rightarrow> raise (EE_Ledger e))))
      (\<lambda>dv'. amid (ru_ref ru) ws u (dv_pending dv')) (exits operation (ru_ref ru) ws) l'"
      unfolding wp_andthen open_attempt_def
      apply (rule wp_call)
      apply (auto simp: wp_go wp_return wp_raise opened split: sum.split LedgerError.split
          intro: amid_exits [OF refused])
      apply (rule settles_item [OF refused], simp add: already_bound_verdict_def)
      apply (rule calm_settled, (intro calm_acts), assumption)
      apply (simp add: wp_simps settled_exits)
      done
  qed
qed

text \<open>The calm effects, and the two polls.\<close>

lemma calm_performs:
  assumes "\<And>s A. kept.calm lease s A m"
    "\<And>x ws u l. amid lease ws u (dv_pending dv) l \<Longrightarrow>
       wp (f x) (\<lambda>dv'. amid lease ws u (dv_pending dv')) (exits operation lease ws) l"
  shows "performs operation lease dv (andthen m f)"
  unfolding performs_def using assms by (auto intro: calm_exits)

lemma performs_go: "(\<And>ws u l. amid lease ws u (dv_pending dv) l \<Longrightarrow> amid lease ws u (dv_pending dv') l)
    \<Longrightarrow> performs operation lease dv (go dv')"
  by (simp add: performs_def wp_go)

lemma performsD: "performs operation lease dv m \<Longrightarrow> amid lease ws u (dv_pending dv) l \<Longrightarrow>
    wp m (\<lambda>dv'. amid lease ws u (dv_pending dv')) (exits operation lease ws) l"
  by (simp add: performs_def)

lemma performs_park: "performs operation lease dv (perform_park ru challenge expires at dv)"
  unfolding perform_park_def
  by (intro calm_performs performsD [OF performs_go] calm_exits calm_acts) (auto simp: wp_go intro: calm_exits calm_acts)

lemma performs_requeue: "performs operation lease dv (perform_requeue ru cause at dv)"
  unfolding perform_requeue_def
  by (rule calm_performs, (intro calm_acts), rule calm_exits, (intro calm_acts), assumption) (simp add: wp_go)

lemma performs_capture: "performs operation lease dv (perform_capture ru next attempt cause at dv)"
  unfolding perform_capture_def Let_def
  by (rule calm_performs, (intro calm_acts)) (simp add: wp_go)

lemma performs_halt: "performs operation lease dv
    (andthen (ledger_try (halt_this_tenant ctx lr i why at)) (\<lambda>u. go dv))"
  by (rule calm_performs, (intro calm_acts)) (simp add: wp_go)

lemma performs_notify: "performs operation lease dv (andthen (notify ctx lz event at) (\<lambda>u. go dv))"
  by (rule calm_performs, (intro calm_acts)) (simp add: wp_go)

lemma performs_reconcile: "performs operation (ru_ref ru) dv (perform_reconcile ru attempt locator at dv)"
  unfolding perform_reconcile_def Let_def
  apply (rule calm_performs, (intro calm_acts))
  apply (rule calm_exits)
    apply (simp add: reconcile_with_backoff_def kept.reconcile_walks_calm ru_ref_def)
   apply assumption
  apply (auto simp: wp_go wp_return amid_exits amid_pending split: ReconcileOutcome.split)
  done

lemma performs_read_back: "performs (ru_operation ru) (ru_ref ru) dv (perform_read_back ru locator reason at dv)"
  unfolding perform_read_back_def Let_def
  apply (rule calm_performs, (intro calm_acts))
  apply (rule calm_exits, (intro calm_acts), assumption)
  apply (rule calm_exits)
    apply (simp add: verify_with_backoff_def kept.verify_tries_calm ru_ref_def)
   apply assumption
  subgoal premises p for x ws u l xa l' verified l''
  proof (cases verified)
    case (Observed observed)
    then show ?thesis using p by (simp add: wp_go amid_pending)
  next
    case (Stopped stop)
    show ?thesis
    proof (cases "settling_unverified ru dv")
      case None
      then show ?thesis using p Stopped
        by (simp add: walk_away_unverified_def Let_def wp_simps amid_exits)
    next
      case (Some attempt)
      then have "ru_operation ru \<noteq> Create"
        by (auto simp: settling_unverified_def may_settle_unverified_def split: if_splits)
      then have walked: "exits (ru_operation ru) (ru_ref ru) ws r
          (C_SettleAttempt lr af v at answer # l'')" if "\<And>outcome. r \<noteq> Inr (RV_Settled outcome)"
        for r lr af v answer
        using p that by (auto simp: amid_def exits_def guard_def split: sum.split RunVerdict.split)
      show ?thesis using Stopped Some
        by (auto simp: walk_away_unverified_def Let_def wp_simps settle_open_attempt_def
            settle_attempt_def wp_ask walked split: sum.split)
    qed
  qed
  done

lemma performs_effect:
  assumes "write_attempt_of effect = None"
  shows "performs (ru_operation ru) (ru_ref ru) dv (perform ru next effect at dv)"
  using assms
  by (cases effect) (simp_all add: perform_def performs_assert_form performs_record_intent
      performs_read_back performs_reconcile performs_park performs_requeue performs_capture
      performs_halt performs_notify)

lemma performs_all:
  assumes "\<forall>e\<in>set effects. write_attempt_of e = None" "amid (ru_ref ru) ws u (dv_pending dv) l"
  shows "wp (perform_all ru next effects dv) (\<lambda>dv'. amid (ru_ref ru) ws u (dv_pending dv'))
    (exits (ru_operation ru) (ru_ref ru) ws) l"
  using assms
proof (induction effects arbitrary: dv l)
  case (Cons e effects)
  show ?case unfolding perform_all.simps
  proof (rule calm_exits [OF _ Cons.prems(2)], intro calm_acts)
    fix at l' assume amid': "amid (ru_ref ru) ws u (dv_pending dv) l'"
    let ?dv = "dv\<lparr>dv_sequence := dv_sequence dv + 1\<rparr>"
    have "wp (perform ru next e at ?dv) (\<lambda>dv'. amid (ru_ref ru) ws u (dv_pending dv'))
        (exits (ru_operation ru) (ru_ref ru) ws) l'"
      by (rule performsD [OF performs_effect]) (use Cons.prems(1) amid' in auto)
    then show "wp (andthen (perform ru next e at ?dv) (\<lambda>dv'. perform_all ru next effects dv'))
        (\<lambda>dv'. amid (ru_ref ru) ws u (dv_pending dv')) (exits (ru_operation ru) (ru_ref ru) ws) l'"
      unfolding wp_andthen
      by (rule wp_mono) (use Cons in auto)
  qed
qed (simp add: wp_go)

subsection \<open>The effects that write\<close>

text \<open>The log after a write: what it says, but for the write and its answer.\<close>

definition licensed_at :: "LeaseRef \<Rightarrow> Write list \<Rightarrow> WriteAttemptId \<Rightarrow> Log \<Rightarrow> bool" where
  "licensed_at lease ws a l \<longleftrightarrow> amid lease ws True None l \<and> unused l \<and> opened_in l a"

lemma before_the_write_exits:
  assumes "licensed_at (ru_ref ru) ws a l"
    and rest: "\<And>x l'. licensed_at (ru_ref ru) ws a l' \<Longrightarrow> covered (ru_ref ru) GK_Write l' \<Longrightarrow>
      wp (f x) Q (exits (ru_operation ru) (ru_ref ru) ws) l'"
  shows "wp (andthen (before_the_write ru a label sequence at) f) Q
    (exits (ru_operation ru) (ru_ref ru) ws) l"
proof -
  have amid: "amid (ru_ref ru) ws True None l" and l: "unused l" "opened_in l a" "unsent l"
    using assms(1) by (simp_all add: licensed_at_def amid_def)
  have quiet_exit: "exits (ru_operation ru) (ru_ref ru) ws (Inl e) l'"
    if "amid (ru_ref ru) ws True None l'" for e l'
    using that by (rule amid_exits) simp
  have asked: "amid (ru_ref ru) ws True None (C_RequestGrant (ru_ref ru) (ru_connection ru) GK_Write at g # l)"
    for g using amid by (auto simp: amid_def guard_def pending_ok_def)
  have renewed: "amid (ru_ref ru) ws True None
      (C_Renew (ru_ref ru) r # C_RequestGrant (ru_ref ru) (ru_connection ru) GK_Write at g # l)" for r g
    using amid by (auto simp: amid_def guard_def pending_ok_def)
  have recorded: "amid (ru_ref ru) ws True None (C_RecordEvent lr payload at r' #
      C_Renew (ru_ref ru) r # C_RequestGrant (ru_ref ru) (ru_connection ru) GK_Write at g # l)"
    for r r' g lr payload using amid by (auto simp: amid_def guard_def pending_ok_def)
  have ready: "licensed_at (ru_ref ru) ws a (C_RecordEvent lr payload at r' #
      C_Renew (ru_ref ru) (Inr r) # C_RequestGrant (ru_ref ru) (ru_connection ru) GK_Write at (Inr g) # l)"
    "g \<noteq> Exhausted \<Longrightarrow> covered (ru_ref ru) GK_Write (C_RecordEvent lr payload at r' #
      C_Renew (ru_ref ru) (Inr r) # C_RequestGrant (ru_ref ru) (ru_connection ru) GK_Write at (Inr g) # l)"
    for r r' g lr payload
    using l recorded by (auto simp: licensed_at_def) (cases g; simp)
  note on = rest [OF ready]
  have refused: "exits (ru_operation ru) (ru_ref ru) ws res (C_SettleAttempt (ru_ref ru) (attempt_ref ru a) v at r #
      C_RequestGrant (ru_ref ru) (ru_connection ru) GK_Write at g # l)"
    if "\<And>outcome. res \<noteq> Inr (RV_Settled outcome)" for res v r g
    using amid l that by (cases a; cases r)
      (auto simp: amid_def exits_def guard_def attempt_ref_def unreleased_releases
        split: sum.split RunVerdict.split option.split)
  show ?thesis
    by (auto simp: before_the_write_def consume_write_grant_def rate_refused_before_the_write_def
        settle_open_attempt_def record_action_def record_event_def Let_def wp_simps wp_if call_defs wp_ask
        split: sum.split intro: quiet_exit asked renewed recorded refused on)
qed

definition wrote :: "LeaseRef \<Rightarrow> Write list \<Rightarrow> Write \<Rightarrow> Drive \<Rightarrow> Log \<Rightarrow> bool" where
  "wrote lease ws w dv l \<longleftrightarrow> (\<exists>r. dv_pending dv = Some (I_SubmitResult r)
     \<and> amid lease (ws @ [w]) (not_sent r) None l)"

lemma performs_write:
  assumes "write_attempt_of effect = Some a" "effect_write effect = Some w"
    and "licensed_at (ru_ref ru) ws a l"
  shows "wp (perform ru next effect at dv) (wrote (ru_ref ru) ws w)
    (exits (ru_operation ru) (ru_ref ru) ws) l"
proof -
  have sent: "amid (ru_ref ru) (ws @ [w']) (not_sent r) None (c # l')"
    if "licensed_at (ru_ref ru) ws a l'" "covered (ru_ref ru) GK_Write l'"
      "request_kind c = Some GK_Write" "write_answer c = Some r" "call_write c = Some w'"
    for c r w' l'
    using that by (cases c) (auto simp: licensed_at_def amid_def guard_def pending_ok_def)
  show ?thesis
    using assms
    by (cases effect)
      (auto simp: perform_def perform_submit_def perform_revise_def perform_remove_def wp_simps
        submit_def revise_def remove_listing_def wp_ask wrote_def intro!: sent
        before_the_write_exits [unfolded wp_andthen])
qed

subsection \<open>A terminal state\<close>

text \<open>After the attempt is settled and before the item is.\<close>

definition closing :: "LeaseRef \<Rightarrow> Write list \<Rightarrow> Log \<Rightarrow> bool" where
  "closing lease ws l \<longleftrightarrow> guarded lease l \<and> writes_of l = ws \<and> settled_outcomes l = []"

lemma closing_raises: "closing lease ws l \<Longrightarrow> exits operation lease ws (Inl e) l"
  by (simp add: closing_def exits_def)

lemma calm_closing:
  assumes "\<And>s A. kept.calm lease s A m" "closing lease ws l"
    and "\<And>x l'. closing lease ws l' \<Longrightarrow> wp (f x) Q (exits operation lease ws) l'"
  shows "wp (andthen m f) Q (exits operation lease ws) l"
proof -
  have "held lease (standing l) {} l" using assms(2) by (simp add: held_def closing_def)
  moreover have "closing lease ws l'" if "held lease (standing l) {} l'" for l'
    using that assms(2) by (simp add: held_def closing_def standing_def)
  ultimately show ?thesis
    unfolding wp_andthen
    by (intro wp_mono [OF kept.calmD [OF assms(1)]]) (auto simp: raised_def intro: assms(3) closing_raises)
qed

lemma settle_terminal_attempt_exits:
  assumes "amid (ru_ref ru) ws u None l"
    and rest: "\<And>x l'. closing (ru_ref ru) ws l' \<Longrightarrow> wp (f x) Q (exits operation (ru_ref ru) ws) l'"
  shows "wp (andthen (settle_terminal_attempt ru outcome dv at) f) Q (exits operation (ru_ref ru) ws) l"
proof (cases "dv_attempt dv")
  case None
  have "closing (ru_ref ru) ws l" using assms(1) by (simp add: amid_def closing_def)
  with None rest show ?thesis by (simp add: settle_terminal_attempt_def wp_simps)
next
  case (Some attempt)
  have fenced: "exits operation (ru_ref ru) ws (Inr (RV_Abandoned why)) (C_SettleAttempt lr af v at (Inl e) # l)"
    for lr af v e why
    using assms(1) by (auto simp: amid_def exits_def guard_def intro: unreleased_releases)
  have settled: "closing (ru_ref ru) ws (C_SettleAttempt lr af v at r # l)" for lr af v r
    using assms(1) by (auto simp: amid_def closing_def guard_def)
  have anomaly: "wp (case x of None \<Rightarrow> go ()
        | Some anomaly \<Rightarrow> record_event (ru_ctx ru) (ru_lease ru) (JE_ItemBindAnomaly anomaly) at)
      (\<lambda>u. wp (f b) Q (exits operation (ru_ref ru) ws)) (exits operation (ru_ref ru) ws)
      (C_SettleAttempt lr af v at r # l)"
    for x b lr af v r
    by (rule calm_closing [OF _ settled, unfolded wp_andthen])
      (auto intro: rest kept.calm_go kept.calm_record_event split: option.split)
  show ?thesis
    using Some fenced anomaly
    by (auto simp: settle_terminal_attempt_def wp_simps settle_attempt_def wp_ask split: sum.split)
qed

lemma settle_terminal_exits:
  assumes "amid (ru_ref ru) ws u None l"
  shows "wp (settle_terminal ru outcome dv) Q (exits operation (ru_ref ru) ws) l"
  unfolding settle_terminal_def Let_def
proof (rule calm_exits [OF _ assms], intro calm_acts, rule calm_exits)
  fix at l' assume amid: "amid (ru_ref ru) ws u None l'"
  show "amid (ru_ref ru) ws u None l'" by (rule amid)
  show "kept.calm (ru_ref ru) s A (case outcome of
       Out_Blocked challenge \<Rightarrow>
         record_event (ru_ctx ru) (ru_lease ru) (JE_ItemBlocked (block_cause_name (blocked_cause challenge))) at
     | _ \<Rightarrow> go ())" for s A
    by (auto intro: calm_acts split: Outcome.split)
next
  fix at l' u' l2 assume "amid (ru_ref ru) ws u None l2"
  then show "wp (andthen (settle_terminal_attempt ru outcome dv at) (\<lambda>severed.
      andthen (settle_item (ru_ctx ru) (ru_ref ru) (outcome_to_item outcome) at) (\<lambda>item_settled.
      andthen (if severed \<and> item_settled = Inl LG_StaleLease
               then record_event (ru_ctx ru) (ru_lease ru) (JE_ItemBindAnomaly
                      (BA_SeveredAfterSteal (lr_lease_epoch (ru_ref ru)))) at
               else go ()) (\<lambda>u.
      andthen (ledger_try (go item_settled)) (\<lambda>u.
      andthen (record_event (ru_ctx ru) (ru_lease ru)
                 (JE_ItemSettled (item_outcome_name (iv_outcome (outcome_to_item outcome)))) at)
        (\<lambda>u. return_with (RV_Settled (iv_outcome (outcome_to_item outcome)))))))))
    Q (exits operation (ru_ref ru) ws) l2"
  proof (rule settle_terminal_attempt_exits)
    fix severed l3 assume closing: "closing (ru_ref ru) ws l3"
    let ?v = "outcome_to_item outcome"
    let ?rest = "\<lambda>item_settled u. andthen (ledger_try (go item_settled)) (\<lambda>u.
      andthen (record_event (ru_ctx ru) (ru_lease ru) (JE_ItemSettled (item_outcome_name (iv_outcome ?v))) at)
        (\<lambda>u. return_with (RV_Settled (iv_outcome ?v))))"
    have failed: "closing (ru_ref ru) ws (C_SettleItem lr ?v at (Inl e) # l3)" for e lr
      using closing by (simp add: closing_def guard_def)
    have settled: "settled_as (ru_ref ru) ws (iv_outcome ?v) (C_SettleItem lr ?v at (Inr x) # l3)" for x lr
      using closing by (simp add: closing_def settled_as_def guard_def)
    have refused: "wp (andthen (if b then record_event (ru_ctx ru) (ru_lease ru) payload at else go ())
        (?rest (Inl e))) Q (exits operation (ru_ref ru) ws) (C_SettleItem lr ?v at (Inl e) # l3)"
      for b payload e lr
      by (rule calm_closing [OF _ failed]) (auto simp: wp_simps intro: closing_raises calm_acts)
    have took: "wp (?rest (Inr ()) u) Q (exits operation (ru_ref ru) ws) (C_SettleItem lr ?v at (Inr x) # l3)"
      for u x lr
      unfolding wp_andthen [of "ledger_try (go r)" for r] wp_ledger_try wp_go
      by (auto intro!: calm_settled [OF _ settled] kept.calm_record_event simp: wp_return settled_exits)
    show "wp (andthen (settle_item (ru_ctx ru) (ru_ref ru) ?v at) (\<lambda>item_settled.
      andthen (if severed \<and> item_settled = Inl LG_StaleLease
               then record_event (ru_ctx ru) (ru_lease ru) (JE_ItemBindAnomaly
                      (BA_SeveredAfterSteal (lr_lease_epoch (ru_ref ru)))) at
               else go ()) (?rest item_settled))) Q (exits operation (ru_ref ru) ws) l3"
      unfolding settle_item_def wp_andthen [of "ask answer call" for answer call]
    proof (rule wp_call)
      fix answer :: "LedgerError + unit"
      show "wp (andthen (if severed \<and> answer = Inl LG_StaleLease
               then record_event (ru_ctx ru) (ru_lease ru) (JE_ItemBindAnomaly
                      (BA_SeveredAfterSteal (lr_lease_epoch (ru_ref ru)))) at
               else go ()) (?rest answer)) Q (exits operation (ru_ref ru) ws)
          (C_SettleItem (ru_ref ru) ?v at answer # l3)"
      proof (cases answer)
        case (Inl e)
        show ?thesis unfolding Inl by (rule refused)
      next
        case (Inr x)
        then show ?thesis by (simp add: wp_andthen [of "go ()"] wp_go took)
      qed
    qed
  qed
qed

end
