(* ===== verification/DriverLoop.thy ===== *)
theory DriverLoop
  imports DriverRuns
begin

section \<open>One pass, the loop and the whole run\<close>

text \<open>
  The loop invariant \<open>ready\<close>: the transition about to run ends a history of the machine whose writes
  so far are the writes of the log, a state before the write has sent nothing, and a state with a
  recorded intent orders exactly one write, under an attempt opened and not used. \<open>ends\<close> is what
  the whole run leaves behind.
\<close>

subsection \<open>The machine's rows, as the driver meets them\<close>

fun pre_write :: "SyncState \<Rightarrow> bool" where
  "pre_write S_AwaitingPreflight = True"
| "pre_write (S_PreflightAsserted schema) = True"
| "pre_write (S_IntentRecorded attempt schema) = True"
| "pre_write (S_Submitted attempt evidence) = False"
| "pre_write (S_AwaitingReadBack attempt locator) = False"
| "pre_write (S_Parked attempt challenge) = False"
| "pre_write (S_Stranded attempt locator) = False"
| "pre_write (S_Terminal outcome) = False"

lemma row_intent_recorded:
  "sync_row m i at (S_IntentRecorded a schema) es \<Longrightarrow>
     i = I_IntentRecorded a \<and> (\<exists>e. es = [e] \<and> write_attempt_of e = Some a)"
  by (erule sync_row.cases) (auto simp: entry_row_def write_effect_attempt split: ItemOperation.splits)

lemma row_writes_intent:
  "sync_row m i at s es \<Longrightarrow> (\<And>a schema. s \<noteq> S_IntentRecorded a schema) \<Longrightarrow>
     e \<in> set es \<Longrightarrow> write_attempt_of e = None"
  by (erule sync_row.cases) (auto simp: entry_row_def halting_def split: ItemOperation.splits)

lemma row_pre_write:
  "sync_row m i at s es \<Longrightarrow> pre_write s \<Longrightarrow> i \<noteq> I_ChallengeCleared \<Longrightarrow>
     pre_write (sm_state m) \<and> (\<forall>r. i = I_SubmitResult r \<longrightarrow> not_sent r)"
  by (erule sync_row.cases) auto

lemma history_step:
  assumes "history start ds = Inr (m, es)" "step m i at = Inr t"
  shows "history start (ds @ [(i, at)]) = Inr (tr_next t, es @ tr_effects t)"
proof -
  obtain t0 where t0: "start = Inr t0" using history_started [OF assms(1)] ..
  then obtain es' where "run (tr_next t0) ds = Inr (m, es')" "es = tr_effects t0 @ es'"
    using assms(1) by (auto simp: history_split)
  moreover have "transit m (i, at) = Inr (tr_next t, tr_effects t)"
    using assms(2) by (simp add: transit_def)
  ultimately show ?thesis by (auto simp: t0 history_split sync.go_snoc_iff)
qed

subsection \<open>The invariant\<close>

definition intent_ready :: "Transition \<Rightarrow> Log \<Rightarrow> bool" where
  "intent_ready t l \<longleftrightarrow>
     (case sm_state (tr_next t) of
        S_IntentRecorded a schema \<Rightarrow>
          opened_in l a \<and> unused l \<and> (\<exists>e. tr_effects t = [e] \<and> write_attempt_of e = Some a)
      | _ \<Rightarrow> \<forall>e\<in>set (tr_effects t). write_attempt_of e = None)"

definition ready :: "MachineError + Transition \<Rightarrow> ItemOperation \<Rightarrow> LeaseRef \<Rightarrow> Transition \<Rightarrow> Log \<Rightarrow> bool" where
  "ready start operation lease t l \<longleftrightarrow> sm_operation (tr_next t) = operation
     \<and> (\<exists>ds es. history start ds = Inr (tr_next t, es @ tr_effects t)
          \<and> amid lease (ordered_writes es) (unsent l) None l)
     \<and> (pre_write (sm_state (tr_next t)) \<longrightarrow> unsent l) \<and> intent_ready t l"

definition ends :: "MachineError + Transition \<Rightarrow> ItemOperation \<Rightarrow> LeaseRef \<Rightarrow> EngineError + RunVerdict \<Rightarrow> Log \<Rightarrow> bool" where
  "ends start operation lease r l \<longleftrightarrow> exits operation lease (writes_of l) r l
     \<and> (writes_of l = [] \<or> (\<exists>ds m es. history start ds = Inr (m, es)
          \<and> prefix (writes_of l) (ordered_writes es)))"

lemma ordered_writes_append [simp]: "ordered_writes (es @ es') = ordered_writes es @ ordered_writes es'"
  by (simp add: ordered_writes_def map_filter_append)

lemma ordered_writes_none: "(\<forall>e\<in>set es. write_attempt_of e = None) \<Longrightarrow> ordered_writes es = []"
  by (induction es) (auto simp: ordered_writes_def List.map_filter_simps effect_write_iff [symmetric])

lemma exits_ends:
  assumes "history start ds = Inr (m, es @ es')" "exits operation lease (ordered_writes es) r l"
  shows "ends start operation lease r l"
  unfolding ends_def
proof (intro conjI disjI2 exI)
  show "exits operation lease (writes_of l) r l" using assms(2) by (simp add: exits_def)
  show "history start ds = Inr (m, es @ es')" by (rule assms(1))
  show "prefix (writes_of l) (ordered_writes (es @ es'))" using assms(2) by (simp add: exits_def)
qed

lemma step_ready:
  assumes hist: "history start ds = Inr (m, es)" and step: "step m i at = Inr t"
    and amid: "amid lease (ordered_writes es) (unsent l) p l" and op: "sm_operation m = operation"
    and pre: "pre_write (sm_state m) \<Longrightarrow> (\<And>r. i = I_SubmitResult r \<Longrightarrow> not_sent r) \<Longrightarrow> unsent l"
    and intent: "\<And>a. i = I_IntentRecorded a \<Longrightarrow> opened_in l a \<and> unused l"
    and "i \<noteq> I_ChallengeCleared"
  shows "ready start operation lease t l"
proof -
  obtain s where row: "sync_row m i at s (tr_effects t)" and t: "t = charged m s (tr_effects t)"
    using step unfolding step_iff_row by (metis charged_simps(1))
  have state: "sm_state (tr_next t) = s" "sm_operation (tr_next t) = sm_operation m"
    by (subst t, simp)+
  have "history start (ds @ [(i, at)]) = Inr (tr_next t, es @ tr_effects t)"
    by (rule history_step [OF hist step])
  moreover have "amid lease (ordered_writes es) (unsent l) None l"
    using amid by (simp add: amid_def pending_ok_def)
  moreover have "unsent l" if "pre_write (sm_state (tr_next t))"
    using row_pre_write [OF row] that state pre assms(7) by simp
  moreover have "intent_ready t l"
  proof (cases "\<exists>a schema. s = S_IntentRecorded a schema")
    case True
    then obtain a schema where s: "s = S_IntentRecorded a schema" by blast
    show ?thesis using row_intent_recorded [OF row [unfolded s]] intent s state
      by (auto simp: intent_ready_def)
  next
    case False
    then have "\<forall>e\<in>set (tr_effects t). write_attempt_of e = None"
      using row_writes_intent [OF row] by blast
    then show ?thesis using False state by (auto simp: intent_ready_def split: SyncState.split)
  qed
  ultimately show ?thesis using op state by (auto simp: ready_def)
qed

lemma readyE:
  assumes "ready start operation lease t l"
  obtains ds es where "history start ds = Inr (tr_next t, es @ tr_effects t)"
    "amid lease (ordered_writes es) (unsent l) None l"
  using assms by (auto simp: ready_def)

subsection \<open>Feeding the machine\<close>

definition fed :: "SyncMachine \<Rightarrow> Input \<Rightarrow> Log \<Rightarrow> bool" where
  "fed m i l \<longleftrightarrow> (pre_write (sm_state m) \<and> (\<forall>r. i = I_SubmitResult r \<longrightarrow> not_sent r) \<longrightarrow> unsent l)
     \<and> (\<forall>a. i = I_IntentRecorded a \<longrightarrow> opened_in l a \<and> unused l) \<and> i \<noteq> I_ChallengeCleared"

lemma amid_now: "amid lease ws u p l \<Longrightarrow> amid lease ws u p (C_Now at # l)"
  by (auto simp: amid_def guard_def pending_ok_def)

lemma fed_now: "fed m i l \<Longrightarrow> fed m i (C_Now at # l)"
  by (simp add: fed_def)

text \<open>The clock, one step of the machine, and the next transition is ready.\<close>

lemma now_and_step:
  assumes hist: "history start ds = Inr (m, es)" and op: "sm_operation m = operation"
    and amid: "amid lease (ordered_writes es) (unsent l) None l" and fed: "fed m i l"
    and rest: "\<And>at t l'. ready start operation lease t l' \<Longrightarrow> wp (f t) Q (ends start operation lease) l'"
  shows "wp (andthen (ask_now ctx) (\<lambda>at. andthen (machine_try (step m i (LogicalInstant (ts_ms at)))) f))
    Q (ends start operation lease) l"
  unfolding wp_andthen ask_now_def
proof (rule wp_call)
  fix at
  note amid' = amid_now [OF amid, of at] and fed' = fed_now [OF fed, of at]
  have "ends start operation lease (Inl e) (C_Now at # l)" for e
    by (rule exits_ends [where es = es and es' = "[]"]) (use hist amid_exits [OF amid'] in auto)
  moreover have "ready start operation lease t (C_Now at # l)"
    if "step m i (LogicalInstant (ts_ms at)) = Inr t" for t
    by (rule step_ready [OF hist that]) (use amid' fed' op in \<open>auto simp: fed_def\<close>)
  ultimately show "wp (machine_try (step m i (LogicalInstant (ts_ms at))))
      (\<lambda>t. wp (f t) Q (ends start operation lease)) (ends start operation lease) (C_Now at # l)"
    using rest by (simp add: wp_machine_try)
qed

lemma feed_back_ready:
  assumes hist: "history start ds = Inr (next, es)" and op: "sm_operation next = operation"
    and amid: "amid lease (ordered_writes es) (unsent l) None l"
    and fed: "\<And>i. dv_pending dv = Some i \<Longrightarrow> fed next i l"
  shows "wp (feed_back ru next dv) (\<lambda>dv'. ready start operation lease (dv_transition dv'))
    (ends start operation lease) l"
proof (cases "dv_pending dv")
  case None
  have "ends start operation lease (Inr (RV_Abandoned why)) l" for why
    by (rule exits_ends [where es = es and es' = "[]"]) (use hist amid_exits [OF amid] in auto)
  with None show ?thesis by (simp add: feed_back_def wp_simps)
next
  case (Some i)
  show ?thesis unfolding feed_back_def Some option.case
    by (rule now_and_step [OF hist op amid fed [OF Some]]) (simp add: wp_go)
qed

lemma calm_ends:
  assumes "\<And>s A. kept.calm lease s A m" "amid lease ws u None l" "u = unsent l"
    and "history start ds = Inr (m', es)" "ws = ordered_writes es"
    and rest: "\<And>x l'. amid lease ws (unsent l') None l' \<Longrightarrow> unsent l' = unsent l \<Longrightarrow>
      wp (f x) Q (ends start operation lease) l'"
  shows "wp (andthen m f) Q (ends start operation lease) l"
  unfolding wp_andthen
proof (rule calm_amid [OF assms(1,2)])
  fix x l' assume "amid lease ws u None l'"
  then show "wp (f x) Q (ends start operation lease) l'"
    using assms(3) by (intro rest) (auto simp: amid_def)
next
  fix r :: "EngineError + RunVerdict" and l'
  assume "raised r" "amid lease ws u None l'"
  then have "exits operation lease ws r l'" by (auto simp: raised_def intro: amid_exits)
  then show "ends start operation lease r l'"
    using assms(4,5) by (intro exits_ends [where es = es and es' = "[]"]) auto
qed

lemma resume_the_strand_ready:
  assumes hist: "history start ds = Inr (next, es)" and op: "sm_operation next = operation"
    and amid: "amid lease (ordered_writes es) (unsent l) None l" and state: "\<not> pre_write (sm_state next)"
  shows "wp (resume_the_strand ru next found dv) (\<lambda>dv'. ready start operation lease (dv_transition dv'))
    (ends start operation lease) l"
proof -
  have abandoned: "ends start operation lease (Inr (RV_Abandoned why)) l'"
    if "amid lease (ordered_writes es) (unsent l') None l'" for why l'
    by (rule exits_ends [where es = es and es' = "[]"]) (use hist amid_exits [OF that] in auto)
  show ?thesis
  proof (cases found)
    case None
    then show ?thesis using abandoned [OF amid] by (simp add: resume_the_strand_def wp_simps)
  next
    case (Some pair)
    obtain attempt recorded where pair: "pair = (attempt, recorded)" by (cases pair)
    show ?thesis unfolding resume_the_strand_def Some pair option.case prod.case
    proof (rule calm_ends [OF _ amid refl hist refl], intro calm_acts, rule calm_ends [OF _ _ refl hist refl])
      fix x l' assume "amid lease (ordered_writes es) (unsent l') None l'"
      then show "amid lease (ordered_writes es) (unsent l') None l'" .
      show "kept.calm lease s A (waited_through (ru_ctx ru) STRAND_SETTLE_WAIT_MS (ru_deadline ru))" for s A
        by (intro calm_acts)
    next
      fix x l' on l'' assume amid'': "amid lease (ordered_writes es) (unsent l'') None l''"
      show "wp (if \<not> on then return_with (RV_Abandoned
            (''the write went out and its fate is unknown; the run was ''
              @ ''cut while waiting for the marketplace to publish it, and the attempt stays in ''
              @ ''flight so the create cannot repeat''))
          else andthen (ask_now (ru_ctx ru)) (\<lambda>at.
            andthen (machine_try (step next (I_ResumeStranded attempt recorded) (LogicalInstant (ts_ms at))))
              (\<lambda>transition. go (dv\<lparr>dv_resumed := True, dv_transition := transition\<rparr>))))
        (\<lambda>dv'. ready start operation lease (dv_transition dv')) (ends start operation lease) l''"
        unfolding wp_if using abandoned [OF amid''] state
        by (auto simp: wp_return fed_def wp_go intro!: now_and_step [OF hist op amid''])
    qed
  qed
qed

subsection \<open>One pass\<close>

lemma conclude_ready:
  assumes hist: "history start ds = Inr (next, es)" and op: "sm_operation next = ru_operation ru"
    and amid: "amid (ru_ref ru) (ordered_writes es) (unsent l) None l"
    and fed: "\<And>i. dv_pending dv = Some i \<Longrightarrow> fed next i l"
  shows "wp (conclude ru next found dv)
    (\<lambda>dv'. ready start (ru_operation ru) (ru_ref ru) (dv_transition dv'))
    (ends start (ru_operation ru) (ru_ref ru)) l"
proof -
  have ends: "ends start (ru_operation ru) (ru_ref ru) r l'"
    if "exits (ru_operation ru) (ru_ref ru) (ordered_writes es) r l'" for r l'
    by (rule exits_ends [where es = es and es' = "[]"]) (use hist that in auto)
  have terminal: "wp (settle_terminal ru outcome dv) Q (ends start (ru_operation ru) (ru_ref ru)) l"
    for outcome Q
    by (rule wp_mono [OF settle_terminal_exits [OF amid, of _ _ _ "ru_operation ru"]]) (auto intro: ends)
  have parked: "ends start (ru_operation ru) (ru_ref ru) (Inr RV_Parked) l"
    by (rule ends, rule amid_exits [OF amid]) simp
  show ?thesis
    unfolding conclude_def
    by (cases "sm_state next")
      (auto simp: wp_return parked intro!: terminal resume_the_strand_ready [OF hist op amid]
        feed_back_ready [OF hist op amid] fed)
qed

lemma run_transition_ready:
  assumes ready: "ready start (ru_operation ru) (ru_ref ru) t l"
  shows "wp (run_transition ru dv t)
    (\<lambda>dv'. ready start (ru_operation ru) (ru_ref ru) (dv_transition dv'))
    (ends start (ru_operation ru) (ru_ref ru)) l"
proof -
  let ?next = "tr_next t" and ?dv = "dv\<lparr>dv_transition := t, dv_pending := None\<rparr>"
  obtain ds es where hist: "history start ds = Inr (?next, es @ tr_effects t)"
    and amid: "amid (ru_ref ru) (ordered_writes es) (unsent l) None l"
    using readyE [OF ready] .
  have op: "sm_operation ?next = ru_operation ru" and intent: "intent_ready t l"
    and pre: "pre_write (sm_state ?next) \<Longrightarrow> unsent l"
    using ready by (auto simp: ready_def)
  have out: "ends start (ru_operation ru) (ru_ref ru) r l'"
    if "exits (ru_operation ru) (ru_ref ru) (ordered_writes es) r l'" for r l'
    by (rule exits_ends [OF hist that])
  show ?thesis
  proof (cases "\<exists>a schema. sm_state ?next = S_IntentRecorded a schema")
    case True
    then obtain a schema e where state: "sm_state ?next = S_IntentRecorded a schema"
      and e: "tr_effects t = [e]" "write_attempt_of e = Some a" and l: "opened_in l a" "unused l"
      using intent by (auto simp: intent_ready_def)
    obtain w where w: "effect_write e = Some w"
      using e(2) effect_write_iff by (cases "effect_write e") auto
    have written: "ordered_writes (es @ tr_effects t) = ordered_writes es @ [w]"
      using e w by (simp add: ordered_writes_def map_filter_append List.map_filter_simps)
    have "unsent l" using pre state by simp
    then have lic: "licensed_at (ru_ref ru) (ordered_writes es) a (C_Now at # l)" for at
      using amid l by (simp add: licensed_at_def amid_now)
    have step: "wp (perform ru ?next e at dv') (\<lambda>dv''. wp (conclude ru ?next found dv'')
          (\<lambda>dv'. ready start (ru_operation ru) (ru_ref ru) (dv_transition dv'))
          (ends start (ru_operation ru) (ru_ref ru)))
        (ends start (ru_operation ru) (ru_ref ru)) (C_Now at # l)" for at dv' found
    proof (rule wp_mono [OF performs_write [OF e(2) w lic]])
      fix dv'' l'
      assume "wrote (ru_ref ru) (ordered_writes es) w dv'' l'"
      then obtain r where r: "dv_pending dv'' = Some (I_SubmitResult r)"
        and amid': "amid (ru_ref ru) (ordered_writes (es @ tr_effects t)) (not_sent r) None l'"
        unfolding written by (auto simp: wrote_def)
      then have "unsent l' = not_sent r" by (simp add: amid_def)
      with r amid' show "wp (conclude ru ?next found dv'')
          (\<lambda>dv'. ready start (ru_operation ru) (ru_ref ru) (dv_transition dv'))
          (ends start (ru_operation ru) (ru_ref ru)) l'"
        by (intro conclude_ready [OF hist op]) (auto simp: fed_def)
    qed (rule out)
    show ?thesis
      unfolding run_transition_def Let_def e perform_all.simps wp_andthen ask_now_def wp_go
      by (rule wp_call) (rule step)
  next
    case False
    then have none: "\<forall>e\<in>set (tr_effects t). write_attempt_of e = None"
      using intent by (auto simp: intent_ready_def split: SyncState.splits)
    have same: "ordered_writes (es @ tr_effects t) = ordered_writes es"
      using ordered_writes_none [OF none] by simp
    have start_amid: "amid (ru_ref ru) (ordered_writes es) (unsent l) (dv_pending ?dv) l"
      using amid by simp
    show ?thesis
      unfolding run_transition_def Let_def wp_andthen
    proof (rule wp_mono [OF performs_all [OF none start_amid]])
      fix dv' :: Drive and l' assume amid': "amid (ru_ref ru) (ordered_writes es) (unsent l) (dv_pending dv') l'"
      then have l': "unsent l' = unsent l" by (simp add: amid_def)
      show "wp (conclude ru ?next (strand_resume ?next dv) dv')
          (\<lambda>dv'. ready start (ru_operation ru) (ru_ref ru) (dv_transition dv'))
          (ends start (ru_operation ru) (ru_ref ru)) l'"
      proof (rule conclude_ready [OF hist op])
        show "amid (ru_ref ru) (ordered_writes (es @ tr_effects t)) (unsent l') None l'"
          using amid' l' same by (simp add: amid_def pending_ok_def)
        show "fed ?next i l'" if "dv_pending dv' = Some i" for i
          using that amid' l' pre by (auto simp: fed_def amid_def pending_ok_def)
      qed
    qed (rule out)
  qed
qed

lemma stop_before_effects_ready:
  assumes ready: "ready start (ru_operation ru) (ru_ref ru) (dv_transition dv) l"
    and rest: "\<And>t l'. ready start (ru_operation ru) (ru_ref ru) t l' \<Longrightarrow>
      wp (f t) Q (ends start (ru_operation ru) (ru_ref ru)) l'"
  shows "wp (andthen (stop_before_effects ru dv stopping at) f) Q
    (ends start (ru_operation ru) (ru_ref ru)) l"
proof -
  let ?t = "dv_transition dv"
  obtain ds es where hist: "history start ds = Inr (tr_next ?t, es @ tr_effects ?t)"
    and amid: "amid (ru_ref ru) (ordered_writes es) (unsent l) None l"
    using readyE [OF ready] .
  have op: "sm_operation (tr_next ?t) = ru_operation ru" and intent: "intent_ready ?t l"
    and pre: "pre_write (sm_state (tr_next ?t)) \<Longrightarrow> unsent l"
    using ready by (auto simp: ready_def)
  have out: "ends start (ru_operation ru) (ru_ref ru) r l'"
    if "exits (ru_operation ru) (ru_ref ru) (ordered_writes es) r l'" for r l'
    by (rule exits_ends [OF hist that])
  have abandoned: "ends start (ru_operation ru) (ru_ref ru) (Inr (RV_Abandoned why)) l" for why
    by (rule out, rule amid_exits [OF amid]) simp
  have released: "ends start (ru_operation ru) (ru_ref ru) r
      (C_SettleAttempt (ru_ref ru) (attempt_ref ru a) v at answer # l)"
    if "sm_state (tr_next ?t) = S_IntentRecorded a schema" "\<And>outcome. r \<noteq> Inr (RV_Settled outcome)"
    for r a schema v answer
  proof (rule out)
    have "opened_in l a" "unsent l" using intent pre that(1) by (auto simp: intent_ready_def)
    then show "exits (ru_operation ru) (ru_ref ru) (ordered_writes es) r
        (C_SettleAttempt (ru_ref ru) (attempt_ref ru a) v at answer # l)"
      using amid that(2) by (cases a; cases answer)
        (auto simp: amid_def exits_def guard_def attempt_ref_def unreleased_releases
          split: sum.split RunVerdict.split)
  qed
  have stepped: "wp (machine_try (step (tr_next ?t) I_BudgetExhausted (LogicalInstant (ts_ms at))))
      (\<lambda>t. wp (f t) Q (ends start (ru_operation ru) (ru_ref ru))) (ends start (ru_operation ru) (ru_ref ru)) l"
    if state: "\<not> pre_write (sm_state (tr_next ?t))"
  proof -
    have "\<forall>e\<in>set (tr_effects ?t). write_attempt_of e = None"
      using intent state by (auto simp: intent_ready_def split: SyncState.splits)
    then have same: "ordered_writes (es @ tr_effects ?t) = ordered_writes es"
      by (simp add: ordered_writes_none)
    have "ready start (ru_operation ru) (ru_ref ru) t l"
      if "step (tr_next ?t) I_BudgetExhausted (LogicalInstant (ts_ms at)) = Inr t" for t
      by (rule step_ready [OF hist that _ op, where p = None]) (use amid same state in auto)
    moreover have "ends start (ru_operation ru) (ru_ref ru) (Inl e) l" for e
      by (rule out, rule amid_exits [OF amid]) simp
    ultimately show ?thesis using rest by (simp add: wp_machine_try)
  qed
  show ?thesis
    by (cases "sm_state (tr_next ?t)")
      (auto simp: stop_before_effects_def Let_def wp_andthen wp_if wp_go wp_return abandoned
        rate_refused_before_the_write_def settle_open_attempt_def settle_attempt_def wp_ask wp_raise
        intro!: rest [OF ready] stepped split: sum.split dest: released)
qed

lemma pass_ready:
  assumes "ready start (ru_operation ru) (ru_ref ru) (dv_transition dv) l"
  shows "wp (pass ru dv) (\<lambda>dv'. ready start (ru_operation ru) (ru_ref ru) (dv_transition dv'))
    (ends start (ru_operation ru) (ru_ref ru)) l"
proof -
  have steady: "ready start (ru_operation ru) (ru_ref ru) (dv_transition dv) (c # l')"
    if r: "ready start (ru_operation ru) (ru_ref ru) (dv_transition dv) l'"
      and c: "quiet c" "request_kind c = None" for c l'
  proof -
    obtain ds es where "history start ds = Inr (tr_next (dv_transition dv), es @ tr_effects (dv_transition dv))"
      "amid (ru_ref ru) (ordered_writes es) (unsent l') None l'"
      using readyE [OF r] by blast
    moreover from this(2) c have "amid (ru_ref ru) (ordered_writes es) (unsent (c # l')) None (c # l')"
      by (cases c) (auto simp: amid_def guard_def pending_ok_def)
    moreover have "unsent (c # l') = unsent l'" "unused (c # l') = unused l'"
      using c(1) standing_quiet [of c l'] by (simp_all add: standing_def)
    ultimately show ?thesis using r
      by (auto simp: ready_def intent_ready_def split: SyncState.splits)
  qed
  show ?thesis
    unfolding pass_def ask_now_def ask_cancelled_def wp_andthen [of "ask answer call" for answer call]
    by (intro wp_call stop_before_effects_ready run_transition_ready steady) (simp_all add: assms steady)
qed

subsection \<open>The loop and the run\<close>

lemma pump_ends:
  assumes "ready start (ru_operation ru) (ru_ref ru) (dv_transition dv) l"
  shows "case pump ru dv l of (r, l') \<Rightarrow> ends start (ru_operation ru) (ru_ref ru) r l'"
  using assms
proof (induction ru dv l rule: pump.induct)
  case (1 ru dv l)
  have pass: "wp (pass ru dv) (\<lambda>dv'. ready start (ru_operation ru) (ru_ref ru) (dv_transition dv'))
      (ends start (ru_operation ru) (ru_ref ru)) l"
    by (rule pass_ready [OF 1(2)])
  show ?case
  proof (cases "pass ru dv l")
    case (Pair flow l')
    show ?thesis
    proof (cases flow)
      case (Go dv')
      have "ready start (ru_operation ru) (ru_ref ru) (dv_transition dv') l'"
        using pass Pair Go by (simp add: wp_def)
      then have "case pump ru dv' l' of (r, l') \<Rightarrow> ends start (ru_operation ru) (ru_ref ru) r l'"
        using 1(1) [of flow l' dv'] Pair Go by simp
      then show ?thesis using Pair Go by (subst pump.simps) simp
    next
      case (Return v)
      then show ?thesis using pass Pair by (subst pump.simps) (simp add: wp_def)
    next
      case (Raise e)
      then show ?thesis using pass Pair by (subst pump.simps) (simp add: wp_def)
    qed
  qed
qed

text \<open>The machine a run starts from, once its connection is known.\<close>

definition entry_of :: "LeasedItem \<Rightarrow> MachineSeed \<Rightarrow> ConnectionId \<Rightarrow> MachineError + Transition" where
  "entry_of lease seed connection =
     initial (le_org lease) (le_inventory lease) connection (ms_form seed) (le_item lease)
       (le_idempotency_key lease) (ms_intent_hash seed) (ms_fields seed) (ms_strategy seed)
       (le_operation lease) (ms_budget seed)"

lemma first_transition_ready:
  assumes amid: "amid (lease_ref lease) [] True None l"
    and rest: "\<And>t l'. ready (entry_of lease seed connection) (le_operation lease) (lease_ref lease) t l' \<Longrightarrow>
      wp (f t) Q (ends (entry_of lease seed connection) (le_operation lease) (lease_ref lease)) l'"
  shows "wp (andthen (first_transition ctx lease seed connection) f) Q
    (ends (entry_of lease seed connection) (le_operation lease) (lease_ref lease)) l"
proof -
  let ?start = "entry_of lease seed connection" and ?op = "le_operation lease" and ?lr = "lease_ref lease"
  have raised: "ends ?start ?op ?lr (Inl e) l" for e
    using amid by (simp add: ends_def amid_def exits_def)
  have entry: "wp (andthen (case ms_resume seed of
         None \<Rightarrow> go entry
       | Some (stranded, recorded) \<Rightarrow>
           andthen (ask_now ctx) (\<lambda>at.
             machine_try (step (tr_next entry) (I_ResumeStranded stranded recorded)
               (LogicalInstant (ts_ms at))))) f) Q (ends ?start ?op ?lr) l"
    if "?start = Inr entry" for entry
  proof -
    have hist: "history ?start [] = Inr (tr_next entry, tr_effects entry)"
      by (simp add: that history_def)
    note facts = initial_entry [OF that [unfolded entry_of_def]]
    have effects: "\<forall>e\<in>set (tr_effects entry). write_attempt_of e = None"
      and quiet_state: "\<And>a schema. sm_state (tr_next entry) \<noteq> S_IntentRecorded a schema"
      using facts(10,11) by (auto simp: entry_row_cases split: if_splits)
    have none: "ordered_writes (tr_effects entry) = []" by (rule ordered_writes_none [OF effects])
    have "unsent l" using amid by (simp add: amid_def)
    then have here: "ready ?start ?op ?lr entry l"
      using hist amid facts(10) effects quiet_state
      by (auto simp: ready_def intent_ready_def ordered_writes_def List.map_filter_simps
          intro!: exI [of _ "[]"] split: SyncState.split)
    show ?thesis
    proof (cases "ms_resume seed")
      case None
      then show ?thesis using rest [OF here] by (simp add: wp_simps)
    next
      case (Some pair)
      obtain stranded recorded where pair: "pair = (stranded, recorded)" by (cases pair)
      have "wp (andthen (ask_now ctx) (\<lambda>at.
             andthen (machine_try (step (tr_next entry) (I_ResumeStranded stranded recorded)
               (LogicalInstant (ts_ms at)))) f)) Q (ends ?start ?op ?lr) l"
        by (rule now_and_step [OF hist facts(10)])
          (use amid none \<open>unsent l\<close> rest in \<open>auto simp: fed_def\<close>)
      then show ?thesis by (simp add: Some pair wp_andthen)
    qed
  qed
  show ?thesis
    unfolding first_transition_def wp_andthen wp_machine_try entry_of_def [symmetric]
    using raised entry by (auto simp: wp_andthen)
qed

lemma drive_item_ends:
  "\<exists>connection. case drive_item ctx lease seed [] of (r, l) \<Rightarrow>
     ends (entry_of lease seed connection) (le_operation lease) (lease_ref lease) r l"
proof -
  let ?op = "le_operation lease" and ?lr = "lease_ref lease"
  let ?answer = "il_connection_for (dc_ledger ctx) [] ?lr (le_inventory lease)"
  let ?l = "[C_ConnectionFor ?lr (le_inventory lease) ?answer]"
  have amid: "amid ?lr [] True None ?l"
    by (simp add: amid_def guard_def pending_ok_def writes_of_def unsent_def unreleased_def
        settled_outcomes_def List.map_filter_simps)
  have out: "ends start ?op ?lr r ?l" if "\<And>outcome. r \<noteq> Inr (RV_Settled outcome)" for start r
    using amid amid_exits [OF amid that] by (simp add: ends_def amid_def)
  show ?thesis
  proof (cases ?answer)
    case (Inl e)
    then show ?thesis using out
      by (simp add: drive_item_def begin_run_def andthen_def ledger_try_def connection_for_def ask_def
          Let_def raise_def)
  next
    case (Inr found)
    show ?thesis
    proof (cases found)
      case None
      then show ?thesis using out Inr
        by (simp add: drive_item_def begin_run_def andthen_def ledger_try_def connection_for_def ask_def
            Let_def go_def return_with_def)
    next
      case (Some connection)
      let ?start = "entry_of lease seed connection"
      define P :: "Run \<times> Drive \<Rightarrow> Log \<Rightarrow> bool" where "P = (\<lambda>(ru, dv) l. ru_operation ru = ?op \<and> ru_ref ru = ?lr
        \<and> ready ?start ?op ?lr (dv_transition dv) l)"
      have "wp (begin_run ctx lease seed) P (ends ?start ?op ?lr) []"
        unfolding begin_run_def wp_andthen [of "ledger_try m" for m] wp_ledger_try connection_for_def
          wp_ask
        using Inr Some
      proof (clarsimp)
        assume "?answer = Inr (Some connection)"
        show "wp (andthen (ask_now ctx) (\<lambda>started.
            andthen (first_transition ctx lease seed connection) (\<lambda>transition.
            go (\<lparr>ru_ctx = ctx, ru_lease = lease, ru_connection = connection,
                 ru_deadline = ts_ms started + WALL_CLOCK_MAX_MS, ru_verify = ms_verify seed,
                 ru_attestation = ms_attestation seed\<rparr>, first_drive transition))))
          P (ends ?start ?op ?lr) [C_ConnectionFor ?lr (le_inventory lease) (Inr (Some connection))]"
          unfolding ask_now_def wp_andthen [of "ask answer call" for answer call]
          by (rule wp_call, rule first_transition_ready, rule amid_now)
            (use amid Inr Some in \<open>auto simp: wp_go P_def ru_operation_def ru_ref_def first_drive_def\<close>)
      qed
      moreover have "case pump ru dv l of (r, l') \<Rightarrow> ends ?start ?op ?lr r l'" if "P (ru, dv) l" for ru dv l
        using that pump_ends [of ?start ru dv l] by (simp add: P_def)
      ultimately have "case drive_item ctx lease seed [] of (r, l) \<Rightarrow> ends ?start ?op ?lr r l"
        by (auto simp: drive_item_def wp_def split: prod.splits Flow.splits) (metis case_prod_conv)
      then show ?thesis by (rule exI)
    qed
  qed
qed

end
