(* ===== verification/DriverSafety.thy ===== *)
theory DriverSafety
  imports DriverLoop
begin

section \<open>What a run of the driver promises\<close>

text \<open>
  Properties of \<open>run_item\<close> for every adapter, catalogue, ledger, clock, id source and cancellation:
  none of them is assumed to behave. A run starts with an empty log.
\<close>

subsection \<open>The whole run\<close>

fun requests_covered :: "LeaseRef \<Rightarrow> Log \<Rightarrow> bool" where
  "requests_covered lease [] = True"
| "requests_covered lease (c # l) =
     ((case request_kind c of None \<Rightarrow> True | Some kind \<Rightarrow> covered lease kind l)
      \<and> requests_covered lease l)"

fun writes_licensed :: "Log \<Rightarrow> bool" where
  "writes_licensed [] = True"
| "writes_licensed (c # l) =
     ((write_answer c = None \<or> unused l \<and> unsent l) \<and> writes_licensed l)"

fun opens_unsettled :: "Log \<Rightarrow> bool" where
  "opens_unsettled [] = True"
| "opens_unsettled (c # l) = ((asks_to_open c \<longrightarrow> unreleased l) \<and> opens_unsettled l)"

definition handed_back_when :: "bool \<Rightarrow> Log \<Rightarrow> bool" where
  "handed_back_when u l \<longleftrightarrow>
     (if u then (case l of [] \<Rightarrow> False | c # older \<Rightarrow> is_hand_back c \<and> list_all (\<lambda>c. \<not> is_hand_back c) older)
      else list_all (\<lambda>c. \<not> is_hand_back c) l)"

lemma guarded_says:
  "guarded lease l \<Longrightarrow> requests_covered lease l \<and> writes_licensed l \<and> opens_unsettled l
     \<and> list_all (\<lambda>c. \<not> is_hand_back c) l"
  by (induction l) (auto simp: guard_def)

text \<open>The log of a run is the driver's own, then for an undecided run the clock and the hand-back.\<close>

lemma run_item_log:
  assumes "drive_item ctx lease seed l = (r, l1)"
  shows "(\<not> undecided r \<and> run_item ctx lease seed l = (r, l1)) \<or>
    (undecided r \<and> (\<exists>at handed. run_item ctx lease seed l =
       (not_handed_back r handed, C_HandBack (lease_ref lease) at handed # C_Now at # l1)))"
  using assms
  by (auto simp: run_item_def andthen_def ask_now_def hand_back_def ask_def Let_def)

lemma undecided_not_handed_back [simp]: "undecided (not_handed_back r handed) = undecided r"
  by (cases r; cases handed; (cases "projr r")?) (auto simp: not_handed_back_def)

lemma run_item_cases:
  obtains r l1 connection where "drive_item ctx lease seed [] = (r, l1)"
    "ends (entry_of lease seed connection) (le_operation lease) (lease_ref lease) r l1"
proof (cases "drive_item ctx lease seed []")
  case (Pair r l1)
  with drive_item_ends [where ctx = ctx and lease = lease and seed = seed] that show ?thesis by auto
qed

lemma ends_says:
  assumes "ends start operation lease r l"
  shows "requests_covered lease l" "writes_licensed l" "opens_unsettled l" "list_all (\<lambda>c. \<not> is_hand_back c) l"
  using guarded_says assms by (auto simp: ends_def exits_def)

lemma not_handed_back_abandoned:
  "not_handed_back r handed = Inr (RV_Abandoned why) \<Longrightarrow> \<exists>why. r = Inr (RV_Abandoned why)"
  by (cases r; cases handed; (cases "projr r")?) (auto simp: not_handed_back_def)

subsection \<open>Every request is paid for\<close>

text \<open>
  C6. Every request a run sends to a marketplace, whether a form scrape, a write, a read-back or a
  catalogue walk, goes out on a lease renewed and with an allowance of its own kind granted since
  the request before it, whatever the ports answer.
\<close>

theorem every_request_is_paid_for:
  "requests_covered (lease_ref lease) (snd (run_item ctx lease seed []))"
proof -
  obtain r l1 connection where run: "drive_item ctx lease seed [] = (r, l1)"
    and "ends (entry_of lease seed connection) (le_operation lease) (lease_ref lease) r l1"
    by (rule run_item_cases)
  then have "requests_covered (lease_ref lease) l1" by (auto dest: ends_says)
  with run_item_log [OF run] show ?thesis by auto
qed

text \<open>
  C7. In every run each write follows an attempt the ledger opened for it and no other write used,
  and every write before it was answered as never sent: a run lets at most one write reach the
  marketplace.
\<close>

theorem one_write_reaches_the_marketplace:
  "writes_licensed (snd (run_item ctx lease seed []))"
proof -
  obtain r l1 connection where run: "drive_item ctx lease seed [] = (r, l1)"
    and "ends (entry_of lease seed connection) (le_operation lease) (lease_ref lease) r l1"
    by (rule run_item_cases)
  then have "writes_licensed l1" by (auto dest: ends_says)
  with run_item_log [OF run] show ?thesis by auto
qed

text \<open>
  C8. The writes of a run are, in order, the first of the writes the sync machine orders on some
  history of accepted inputs, with the machine's key, fields, subject and transition: the driver
  adds none, repeats none and reorders none.
\<close>

theorem the_driver_writes_what_the_machine_orders:
  "writes_of (snd (run_item ctx lease seed [])) = [] \<or>
   (\<exists>connection ds m es. history (entry_of lease seed connection) ds = Inr (m, es)
      \<and> prefix (writes_of (snd (run_item ctx lease seed []))) (ordered_writes es))"
proof -
  obtain r l1 connection where run: "drive_item ctx lease seed [] = (r, l1)"
    and ends: "ends (entry_of lease seed connection) (le_operation lease) (lease_ref lease) r l1"
    by (rule run_item_cases)
  have "writes_of (snd (run_item ctx lease seed [])) = writes_of l1"
    using run_item_log [OF run] by auto
  with ends show ?thesis by (auto simp: ends_def)
qed

text \<open>
  A settled verdict is the one outcome the ledger took for the item, exactly once; a parked or
  abandoned run settled nothing; a run that ends in an error settled the item at most once.
\<close>

theorem the_verdict_is_what_was_settled:
  "case fst (run_item ctx lease seed []) of
     Inr (RV_Settled outcome) \<Rightarrow> settled_outcomes (snd (run_item ctx lease seed [])) = [outcome]
   | Inr RV_Parked \<Rightarrow> settled_outcomes (snd (run_item ctx lease seed [])) = []
   | Inr (RV_Abandoned why) \<Rightarrow> settled_outcomes (snd (run_item ctx lease seed [])) = []
   | Inl e \<Rightarrow> length (settled_outcomes (snd (run_item ctx lease seed []))) \<le> 1"
proof -
  obtain r l1 connection where run: "drive_item ctx lease seed [] = (r, l1)"
    and "ends (entry_of lease seed connection) (le_operation lease) (lease_ref lease) r l1"
    by (rule run_item_cases)
  then have "exits (le_operation lease) (lease_ref lease) (writes_of l1) r l1" by (simp add: ends_def)
  with run_item_log [OF run] show ?thesis
    by (auto simp: exits_def not_handed_back_def split: sum.splits RunVerdict.splits if_splits)
qed

text \<open>
  C11. A run hands its lease back exactly when it decided nothing, once, and as its last call; a
  settled or parked run never does.
\<close>

theorem an_undecided_run_hands_back_once:
  "handed_back_when
     (case fst (run_item ctx lease seed []) of
        Inr (RV_Settled outcome) \<Rightarrow> False | Inr RV_Parked \<Rightarrow> False
      | Inr (RV_Abandoned why) \<Rightarrow> True | Inl e \<Rightarrow> True)
     (snd (run_item ctx lease seed []))"
proof -
  have decides: "(case r of Inr (RV_Settled outcome) \<Rightarrow> False | Inr RV_Parked \<Rightarrow> False
      | Inr (RV_Abandoned why) \<Rightarrow> True | Inl e \<Rightarrow> True) = undecided r" for r
    by (cases r rule: undecided.cases) simp_all
  obtain r l1 connection where run: "drive_item ctx lease seed [] = (r, l1)"
    and "ends (entry_of lease seed connection) (le_operation lease) (lease_ref lease) r l1"
    by (rule run_item_cases)
  then have "list_all (\<lambda>c. \<not> is_hand_back c) l1" by (auto dest: ends_says)
  with run_item_log [OF run] show ?thesis unfolding decides by (auto simp: handed_back_when_def)
qed

text \<open>
  C9. A create that a run abandons keeps its fence: the run settled an attempt only if it opened
  that attempt itself and had sent nothing under it, so a listing that may exist is never made
  twice by a later run.
\<close>

theorem an_abandoned_create_keeps_its_fence:
  assumes "le_operation lease = Create"
    and "run_item ctx lease seed [] = (Inr (RV_Abandoned why), l)"
  shows "releases_nothing_sent l"
proof -
  obtain r l1 connection where run: "drive_item ctx lease seed [] = (r, l1)"
    and "ends (entry_of lease seed connection) (le_operation lease) (lease_ref lease) r l1"
    by (rule run_item_cases)
  then have exits: "exits Create (lease_ref lease) (writes_of l1) r l1" by (simp add: ends_def assms(1))
  have "\<exists>why. r = Inr (RV_Abandoned why)" "releases_nothing_sent l \<longleftrightarrow> releases_nothing_sent l1"
    using run_item_log [OF run] assms(2) by (auto dest: not_handed_back_abandoned [OF sym])
  with exits show ?thesis by (simp add: exits_def)
qed

subsection \<open>A write that never left is not tried again\<close>

text \<open>
  No run settles an attempt and then opens another: whenever the driver asks the ledger for an
  attempt, every attempt it opened before in that run is still unsettled. After a write that
  provably never left (\<open>NotSent\<close>) the machine asks for a fresh intent, so the retry always asks for
  a second attempt over a standing first one, which the ledger's one-in-flight fence refuses.
\<close>

theorem a_retry_asks_over_a_standing_attempt:
  "opens_unsettled (snd (run_item ctx lease seed []))"
proof -
  obtain r l1 connection where run: "drive_item ctx lease seed [] = (r, l1)"
    and "ends (entry_of lease seed connection) (le_operation lease) (lease_ref lease) r l1"
    by (rule run_item_cases)
  then have "opens_unsettled l1" by (auto dest: ends_says)
  with run_item_log [OF run] show ?thesis by auto
qed

subsection \<open>The loop ends\<close>

text \<open>
  The loop of \<open>drive_item\<close> with a bound on its passes: \<open>None\<close> when the bound is spent.
\<close>

fun pump_within :: "nat \<Rightarrow> Run \<Rightarrow> Drive \<Rightarrow> Log \<Rightarrow> ((EngineError + RunVerdict) \<times> Log) option" where
  "pump_within 0 ru dv l = None"
| "pump_within (Suc n) ru dv l =
     (case pass ru dv l of
        (Go dv', l') \<Rightarrow> pump_within n ru dv' l'
      | (Return v, l') \<Rightarrow> Some (Inr v, l')
      | (Raise e, l') \<Rightarrow> Some (Inl e, l'))"

lemma pump_within_weight:
  "weight (tr_next (dv_transition dv)) < n \<Longrightarrow> pump_within n ru dv l = Some (pump ru dv l)"
proof (induction n arbitrary: dv l)
  case (Suc n)
  show ?case
  proof (cases "pass ru dv l")
    case (Pair flow l')
    show ?thesis
    proof (cases flow)
      case (Go dv')
      then have "weight (tr_next (dv_transition dv')) < weight (tr_next (dv_transition dv))"
        using pass_shrinks [of ru dv] Pair unfolding gives_def by blast
      then show ?thesis using Suc Pair Go by (simp add: pump.simps [of ru dv])
    qed (simp_all add: Pair pump.simps [of ru dv])
  qed
qed simp

text \<open>
  C10. The effect loop ends: from the entry of any machine it returns within two passes more than the
  step budget it was given, whatever the ports answer and even if they answer differently each time.
\<close>

theorem the_loop_ends_within_the_budget:
  assumes "entry_of lease seed connection = Inr t"
  shows "pump_within (unat (actions_remaining (ms_budget seed)) + 2) ru (first_drive t) l
    = Some (pump ru (first_drive t) l)"
proof (rule pump_within_weight)
  have "unat (remaining (tr_next t)) \<le> unat (actions_remaining (ms_budget seed))"
    using initial_entry(12) [OF assms [unfolded entry_of_def]] by simp
  then show "weight (tr_next (dv_transition (first_drive t))) < unat (actions_remaining (ms_budget seed)) + 2"
    by (simp add: weight_def first_drive_def)
qed

subsection \<open>Sample runs\<close>

text \<open>
  A ledger that grants everything, an adapter answering \<open>write\<close> to the write and \<open>seen\<close> to the read,
  a catalogue answering \<open>found\<close>; one create on a draft-then-publish marketplace.
\<close>

definition sample_uuid :: Uuid where
  "sample_uuid = Uuid (replicate 16 7)"

definition sample_ledger :: ItemLedger where
  "sample_ledger =
     \<lparr>il_connection_for = (\<lambda>l lr i. Inr (Some (ConnectionId sample_uuid))),
      il_preflight_succeeded = (\<lambda>l lr. Inr ()),
      il_preflight_failed = (\<lambda>l lr e. Inr \<lparr>ps_failures = 1, ps_edge_only = e\<rparr>),
      il_park = (\<lambda>l lr s. Inr ()),
      il_settle_item = (\<lambda>l lr v t. Inr ()),
      il_open_attempt = (\<lambda>l lr n t. Inr ()),
      il_settle_attempt = (\<lambda>l lr a v t. Inr BD_Bound),
      il_gate_connection = (\<lambda>l lr i t. Inr ()),
      il_halt_this_tenant = (\<lambda>l lr i s t. Inr ()),
      il_request_grant = (\<lambda>l lr c k t. Inr (Granted 1)),
      il_renew = (\<lambda>l lr. Inr \<lparr>rn_server_now_ms = 0, rn_server_deadline_ms = 1\<rparr>),
      il_record_event = (\<lambda>l lr p t. Inr ()),
      il_notify = (\<lambda>l lr e t. Inr ()),
      il_hand_back = (\<lambda>l lr t. Inr ())\<rparr>"

definition sample_ctx ::
  "AdapterError + SubmitEvidence \<Rightarrow> AdapterError + ObservedListing \<Rightarrow> AdapterError + RemoteListingId option
     \<Rightarrow> DriverContext" where
  "sample_ctx answer seen found =
     \<lparr>dc_adapter = \<lparr>ma_assert_form_schema = (\<lambda>l f. Inr (FormSchemaFingerprint (ContentHash []))),
        ma_submit = (\<lambda>l k f t. answer), ma_revise = (\<lambda>l p t. answer), ma_remove = (\<lambda>l p t. answer),
        ma_read_back = (\<lambda>l lo r t. seen)\<rparr>,
      dc_find_listing = (\<lambda>l lo a. found),
      dc_ledger = sample_ledger,
      dc_now = (\<lambda>l. Timestamp 5),
      dc_new_id = (\<lambda>l. sample_uuid),
      dc_is_cancelled = (\<lambda>l. False),
      dc_debug = \<lparr>dt_adapter_error = (\<lambda>e. ''e''), dt_engine_error = (\<lambda>e. ''e''),
        dt_remote = (\<lambda>r. ''r''), dt_attempt = (\<lambda>a. ''a'')\<rparr>\<rparr>"

definition sample_lease :: LeasedItem where
  "sample_lease =
     \<lparr>le_org = OrgId sample_uuid, le_item = JobItemId sample_uuid, le_job = JobId sample_uuid,
      le_mapping = MappingId sample_uuid, le_inventory = Tpt,
      le_idempotency_key = IdempotencyKey sample_uuid, le_operation = Create, le_lease_epoch = 3,
      le_attempt_count = 0, le_requires_bound_on = None\<rparr>"

definition sample_seed :: MachineSeed where
  "sample_seed =
     \<lparr>ms_resume = None, ms_attestation = None, ms_form = FormId sample_uuid,
      ms_fields = \<lparr>fs_entries = [(Title, ''Fractions'')], fs_files = [], fs_cover = None,
        fs_body_format = None, fs_appropriate_for_country = None\<rparr>,
      ms_intent_hash = ContentHash [], ms_strategy = DraftThenPublish K_Draft,
      ms_budget = StepBudget 20, ms_verify = \<lparr>vo_tries = 2, vo_interval_ms = 10\<rparr>\<rparr>"

definition sample_evidence :: SubmitEvidence where
  "sample_evidence = \<lparr>se_http_status = None, se_response_body_digest = None,
     se_landed_on_route = None, se_landed = Some (RTpt 9), se_observed_lag = False\<rparr>"

definition sample_listing :: ObservedListing where
  "sample_listing = \<lparr>ol_id = RTpt 9, ol_fields = [], ol_lifecycle = L_Draft\<rparr>"

definition sample_run ::
  "AdapterError + SubmitEvidence \<Rightarrow> AdapterError + ObservedListing \<Rightarrow> AdapterError + RemoteListingId option
     \<Rightarrow> (EngineError + RunVerdict) \<times> Log" where
  "sample_run answer seen found = run_item (sample_ctx answer seen found) sample_lease sample_seed []"

lemma a_create_settles:
  "case sample_run (Inr sample_evidence) (Inr sample_listing) (Inr None) of (r, l) \<Rightarrow>
     r = Inr (RV_Settled IO_Succeeded) \<and> length (writes_of l) = 1"
  by code_simp

lemma a_lost_create_is_found:
  "case sample_run (Inl (AE_Ambiguous ResponseEventLost)) (Inr sample_listing) (Inr (Some (RTpt 9))) of
     (r, l) \<Rightarrow> r = Inr (RV_Settled IO_Succeeded) \<and> length (writes_of l) = 1"
  by code_simp

lemma a_challenged_create_is_abandoned:
  "\<exists>why l. sample_run (Inl (AE_Challenge Captcha)) (Inr sample_listing) (Inr None)
     = (Inr (RV_Abandoned why), l) \<and> \<not> unsent l"
proof -
  have "case sample_run (Inl (AE_Challenge Captcha)) (Inr sample_listing) (Inr None) of (r, l) \<Rightarrow>
      (case r of Inr (RV_Abandoned why) \<Rightarrow> True | _ \<Rightarrow> False) \<and> \<not> unsent l"
    by code_simp
  then show ?thesis by (auto split: prod.splits sum.splits RunVerdict.splits)
qed

theorem an_abandoned_create_keeps_its_fence_witness:
  "\<exists>why l. sample_run (Inl (AE_Challenge Captcha)) (Inr sample_listing) (Inr None)
     = (Inr (RV_Abandoned why), l) \<and> \<not> unsent l \<and> releases_nothing_sent l"
proof -
  obtain why l where run: "sample_run (Inl (AE_Challenge Captcha)) (Inr sample_listing) (Inr None)
      = (Inr (RV_Abandoned why), l)" and sent: "\<not> unsent l"
    using a_challenged_create_is_abandoned by blast
  have "le_operation sample_lease = Create" by (simp add: sample_lease_def)
  from an_abandoned_create_keeps_its_fence [OF this run [unfolded sample_run_def]] run sent
  show ?thesis by blast
qed

theorem the_loop_ends_within_the_budget_witness:
  "\<exists>t. entry_of sample_lease sample_seed (ConnectionId sample_uuid) = Inr t \<and>
     (\<forall>ru. pump_within 22 ru (first_drive t) [] = Some (pump ru (first_drive t) []))"
proof -
  have "case entry_of sample_lease sample_seed (ConnectionId sample_uuid) of Inl e \<Rightarrow> False | Inr t \<Rightarrow> True"
    by code_simp
  then obtain t where t: "entry_of sample_lease sample_seed (ConnectionId sample_uuid) = Inr t"
    by (auto split: sum.splits)
  have budget: "unat (actions_remaining (ms_budget sample_seed)) + 2 = 22" by (simp add: sample_seed_def)
  show ?thesis
    using t the_loop_ends_within_the_budget [OF t, where l = "[]", unfolded budget] by blast
qed

end
