(* ===== verification/DriverHonest.thy ===== *)
theory DriverHonest
  imports DriverSafety
begin

section \<open>The log records what the ports answered\<close>

text \<open>
  Every call in the log of a run carries the answer its port gave for the calls before it, so what a
  log says is what happened; and every attempt is asked for under the mapping of the lease. A provider's contract over sequences of calls then speaks about runs.
\<close>

fun answered :: "DriverContext \<Rightarrow> MappingId \<Rightarrow> Call \<Rightarrow> Log \<Rightarrow> bool" where
  "answered ctx mp (C_Now at) l = (at = dc_now ctx l)"
| "answered ctx mp (C_IsCancelled c) l = (c = dc_is_cancelled ctx l)"
| "answered ctx mp (C_Pause ms) l = True"
| "answered ctx mp (C_NewId u) l = (u = dc_new_id ctx l)"
| "answered ctx mp (C_AssertFormSchema f r) l = (r = ma_assert_form_schema (dc_adapter ctx) l f)"
| "answered ctx mp (C_Submit k f t r) l = (r = ma_submit (dc_adapter ctx) l k f t)"
| "answered ctx mp (C_Revise p t r) l = (r = ma_revise (dc_adapter ctx) l p t)"
| "answered ctx mp (C_Remove p t r) l = (r = ma_remove (dc_adapter ctx) l p t)"
| "answered ctx mp (C_ReadBack lo why t r) l = (r = ma_read_back (dc_adapter ctx) l lo why t)"
| "answered ctx mp (C_FindListing lo a r) l = (r = dc_find_listing ctx l lo a)"
| "answered ctx mp (C_ConnectionFor lr i r) l = (r = il_connection_for (dc_ledger ctx) l lr i)"
| "answered ctx mp (C_PreflightSucceeded lr r) l = (r = il_preflight_succeeded (dc_ledger ctx) l lr)"
| "answered ctx mp (C_PreflightFailed lr e r) l = (r = il_preflight_failed (dc_ledger ctx) l lr e)"
| "answered ctx mp (C_Park lr s r) l = (r = il_park (dc_ledger ctx) l lr s)"
| "answered ctx mp (C_SettleItem lr v t r) l = (r = il_settle_item (dc_ledger ctx) l lr v t)"
| "answered ctx mp (C_OpenAttempt lr n t r) l =
     (r = il_open_attempt (dc_ledger ctx) l lr n t \<and> na_mapping n = mp)"
| "answered ctx mp (C_SettleAttempt lr a v t r) l = (r = il_settle_attempt (dc_ledger ctx) l lr a v t)"
| "answered ctx mp (C_GateConnection lr i t r) l = (r = il_gate_connection (dc_ledger ctx) l lr i t)"
| "answered ctx mp (C_HaltThisTenant lr i s t r) l = (r = il_halt_this_tenant (dc_ledger ctx) l lr i s t)"
| "answered ctx mp (C_RequestGrant lr c k t r) l = (r = il_request_grant (dc_ledger ctx) l lr c k t)"
| "answered ctx mp (C_Renew lr r) l = (r = il_renew (dc_ledger ctx) l lr)"
| "answered ctx mp (C_RecordEvent lr p t r) l = (r = il_record_event (dc_ledger ctx) l lr p t)"
| "answered ctx mp (C_Notify lr e t r) l = (r = il_notify (dc_ledger ctx) l lr e t)"
| "answered ctx mp (C_HandBack lr t r) l = (r = il_hand_back (dc_ledger ctx) l lr t)"

fun honest_log :: "DriverContext \<Rightarrow> MappingId \<Rightarrow> Log \<Rightarrow> bool" where
  "honest_log ctx mp [] = True"
| "honest_log ctx mp (c # l) = (answered ctx mp c l \<and> honest_log ctx mp l)"

definition honest :: "DriverContext \<Rightarrow> MappingId \<Rightarrow> 'a act \<Rightarrow> bool" where
  "honest ctx mp m \<longleftrightarrow> (\<forall>l. honest_log ctx mp l \<longrightarrow> honest_log ctx mp (snd (m l)))"

named_theorems honest_rules \<open>acts that record what the ports answered\<close>

lemma honest_andthen [honest_rules]: "honest ctx mp m \<Longrightarrow> (\<And>x. honest ctx mp (f x)) \<Longrightarrow> honest ctx mp (andthen m f)"
  unfolding honest_def andthen_def by (auto split: prod.split Flow.split)

lemma honest_leaves [honest_rules]:
  "honest ctx mp (go x)" "honest ctx mp (return_with v)" "honest ctx mp (raise e)" "honest ctx mp (machine_try r)"
  by (auto simp: honest_def go_def return_with_def raise_def machine_try_def split: sum.split)

lemma honest_if [honest_rules]: "honest ctx mp m \<Longrightarrow> honest ctx mp m' \<Longrightarrow> honest ctx mp (if b then m else m')"
  by simp

lemma honest_calls [honest_rules]:
  "honest ctx mp (ask_now ctx)" "honest ctx mp (ask_cancelled ctx)" "honest ctx mp (pause_for ctx ms)"
  "honest ctx mp (new_id ctx)" "honest ctx mp (assert_form_schema ctx form)" "honest ctx mp (submit ctx key fs t)"
  "honest ctx mp (revise ctx plan t)" "honest ctx mp (remove_listing ctx rplan t)"
  "honest ctx mp (read_back ctx lo why t)" "honest ctx mp (find_listing ctx lo a)"
  "honest ctx mp (connection_for ctx lr i)" "honest ctx mp (ledger_preflight_succeeded ctx lr)"
  "honest ctx mp (ledger_preflight_failed ctx lr e)" "honest ctx mp (park ctx lr s)"
  "honest ctx mp (settle_item ctx lr v t)"
  "honest ctx mp (settle_attempt ctx lr af av t)" "honest ctx mp (gate_connection ctx lr i t)"
  "honest ctx mp (halt_this_tenant ctx lr i s t)" "honest ctx mp (request_grant ctx lr con k t)"
  "honest ctx mp (renew ctx lr)" "honest ctx mp (ledger_record_event ctx lr p t)"
  "honest ctx mp (ledger_notify ctx lr ev t)" "honest ctx mp (hand_back ctx lr t)"
  by (simp_all add: honest_def call_defs ask_def Let_def)

lemma honest_open [honest_rules]: "na_mapping new = mp \<Longrightarrow> honest ctx mp (open_attempt ctx lr new t)"
  by (simp add: honest_def call_defs ask_def Let_def)

lemma honest_ledger_try [honest_rules]: "honest ctx mp m \<Longrightarrow> honest ctx mp (ledger_try m)"
  unfolding ledger_try_def by (auto intro!: honest_rules split: sum.split)

lemma honest_records [honest_rules]:
  "honest ctx mp (record_event ctx lz payload t)" "honest ctx mp (record_action ctx lz n label t)"
  "honest ctx mp (notify ctx lz ev t)" "honest ctx mp (consume_write_grant ctx lr con t)"
  by (simp_all add: record_event_def record_action_def notify_def consume_write_grant_def honest_rules)

lemma honest_wait_left [honest_rules]: "honest ctx mp (wait_left ctx deadline left)"
proof (induction ctx deadline left rule: wait_left.induct)
  case (1 ctx deadline left)
  have on: "honest ctx mp (may_go_on ctx deadline)"
    unfolding may_go_on_def by (auto intro!: honest_rules)
  show ?case
    apply (subst wait_left.simps)
    apply (rule honest_andthen [OF on])
    subgoal for x
      by (cases "left = 0 \<or> \<not> x") (use 1 in \<open>auto intro!: honest_rules\<close>)
    done
qed

lemma honest_waited_through [honest_rules]: "honest ctx mp (waited_through ctx ms deadline)"
  by (simp add: waited_through_def honest_rules)

lemma honest_verify_tries: "honest ctx mp (verify_tries ctx lz request left seen)"
  by (induction left arbitrary: seen)
    (auto intro!: honest_rules split: sum.split AdapterError.split)

lemma honest_reconcile_walks: "honest ctx mp (reconcile_walks ctx lz request left)"
  by (induction left) (auto intro!: honest_rules)

lemma honest_settling [honest_rules]:
  "honest ctx mp (settle_open_attempt ctx lr af v t)" "honest ctx mp (rate_refused_before_the_write ctx lr ab)"
  "honest ctx mp (settle_preflight_blocked ctx lz challenge t)" "honest ctx mp (preflight_failed ctx lz error t)"
  unfolding rate_refused_before_the_write_def settle_open_attempt_def preflight_failed_def
    settle_preflight_blocked_def Let_def
  by (auto intro!: honest_rules split: sum.split)

lemma honest_before_the_write [honest_rules]: "honest (ru_ctx ru) (le_mapping (ru_lease ru)) (before_the_write ru a label n t)"
  unfolding before_the_write_def Let_def by (auto intro!: honest_rules)

lemma honest_perform: "honest (ru_ctx ru) (le_mapping (ru_lease ru)) (perform ru next effect t dv)"
  unfolding perform_def perform_assert_form_def perform_record_intent_def perform_submit_def
    perform_revise_def perform_remove_def perform_read_back_def perform_reconcile_def perform_park_def
    perform_requeue_def perform_capture_def walk_away_unverified_def verify_with_backoff_def
    reconcile_with_backoff_def Let_def
  by (auto intro!: honest_rules honest_verify_tries honest_reconcile_walks
      split: Effect.split sum.split AdapterError.split LedgerError.split VerifyOutcome.split
        ReconcileOutcome.split option.split)

lemma honest_perform_all: "honest (ru_ctx ru) (le_mapping (ru_lease ru)) (perform_all ru next effects dv)"
  by (induction effects arbitrary: dv) (auto intro!: honest_rules honest_perform)

lemma honest_settle_terminal: "honest (ru_ctx ru) (le_mapping (ru_lease ru)) (settle_terminal ru outcome dv)"
  unfolding settle_terminal_def settle_terminal_attempt_def Let_def
  by (auto intro!: honest_rules split: Outcome.split option.split sum.split)

lemma honest_conclude: "honest (ru_ctx ru) (le_mapping (ru_lease ru)) (conclude ru next found dv)"
  unfolding conclude_def resume_the_strand_def feed_back_def
  by (auto intro!: honest_rules honest_settle_terminal split: SyncState.split option.split)

lemma honest_pass: "honest (ru_ctx ru) (le_mapping (ru_lease ru)) (pass ru dv)"
  unfolding pass_def stop_before_effects_def run_transition_def Let_def
  by (auto intro!: honest_rules honest_perform_all honest_conclude split: SyncState.split)

lemma honest_pump: "honest_log (ru_ctx ru) (le_mapping (ru_lease ru)) l \<Longrightarrow> honest_log (ru_ctx ru) (le_mapping (ru_lease ru)) (snd (pump ru dv l))"
proof (induction ru dv l rule: pump.induct)
  case (1 ru dv l)
  have "honest_log (ru_ctx ru) (le_mapping (ru_lease ru)) (snd (pass ru dv l))"
    using honest_pass 1(2) by (auto simp: honest_def)
  with 1(1) show ?case
    by (subst pump.simps) (auto split: prod.split Flow.split)
qed

lemma begin_run_ctx:
  "begin_run ctx lease seed l = (Go (ru, dv), l') \<Longrightarrow> ru_ctx ru = ctx \<and> ru_lease ru = lease"
proof -
  have "gives (begin_run ctx lease seed) (\<lambda>(ru, dv). ru_ctx ru = ctx \<and> ru_lease ru = lease)"
    unfolding begin_run_def by (auto intro!: gives_any gives_rules split: option.split)
  then show "begin_run ctx lease seed l = (Go (ru, dv), l') \<Longrightarrow> ru_ctx ru = ctx \<and> ru_lease ru = lease"
    by (auto simp: gives_def)
qed

lemma the_log_is_honest: "honest_log ctx (le_mapping lease) (snd (run_item ctx lease seed []))"
proof -
  have "honest ctx (le_mapping lease) (begin_run ctx lease seed)"
    unfolding begin_run_def first_transition_def
    by (auto intro!: honest_rules split: option.split)
  then have start: "honest_log ctx (le_mapping lease) (snd (begin_run ctx lease seed []))" by (simp add: honest_def)
  have "honest_log ctx (le_mapping lease) (snd (drive_item ctx lease seed []))"
  proof (cases "begin_run ctx lease seed []")
    case (Pair flow l)
    show ?thesis
    proof (cases flow)
      case (Go p)
      obtain ru dv where p: "p = (ru, dv)" by (cases p)
      have "ru_ctx ru = ctx \<and> ru_lease ru = lease" using begin_run_ctx Pair Go p by blast
      then show ?thesis using start honest_pump [of ru l dv] Pair Go p by (simp add: drive_item_def)
    qed (use start Pair in \<open>simp_all add: drive_item_def\<close>)
  qed
  moreover have "honest ctx (le_mapping lease) (andthen (ask_now ctx) (\<lambda>at. hand_back ctx (lease_ref lease) at))"
    by (intro honest_rules)
  ultimately show ?thesis
    by (auto simp: run_item_def honest_def split: prod.split Flow.split)
qed

end
