(* ===== verification/MemoryLedger.thy ===== *)
theory MemoryLedger
  imports DriverHonest "HOL-Library.AList"
begin

section \<open>The in-memory ledger (crate tam-engine-driver, memory.rs)\<close>

text \<open>
  \<open>InMemoryLedger\<close>, the implementation of the ledger port the driver's own suite runs against: the
  state, one function per operation, and the ledger of a \<open>DriverContext\<close> made of them by replaying
  the calls of the log. A hash map is an association list with unique keys, updated in place. The
  derived \<open>Debug\<close> text of an event is a parameter.

  \<open>attempt_fence\<close> is the contract the driver's correctness leans on: while an attempt stands for a
  mapping no other is opened, and only a settle takes it down.
\<close>

record MemItem =
  mi_state :: string
  mi_outcome :: "string option"
  mi_blocked_on :: "string option"
  mi_failure_code :: "string option"
  mi_failure_detail :: "string option"
  mi_preflight_failures :: i32
  mi_preflight_edge_only :: bool
  mi_lease_epoch :: i64

record MemAttempt =
  ma_id :: Uuid
  ma_state :: string
  ma_settled :: bool
  ma_ambiguity_cause :: "string option"
  ma_remote_id_kind :: "string option"
  ma_remote_url :: "string option"
  ma_remote_numeric_id :: "i64 option"

record MemBinding =
  mb_state :: string
  mb_remote_id_kind :: "string option"
  mb_remote_url :: "string option"
  mb_verify_state :: string
  mb_never_verified :: bool
  mb_stale_since_first_seen :: bool

text \<open>\<open>me_stop\<close> is the flag tripped when an attempt opens, if the test set one.\<close>

record MemState =
  me_items :: "(JobItemId \<times> MemItem) list"
  me_attempts :: "(MappingId \<times> MemAttempt) list"
  me_bindings :: "(MappingId \<times> MemBinding) list"
  me_connections :: "((OrgId \<times> InventoryId) \<times> (ConnectionId \<times> string)) list"
  me_halts :: "(OrgId \<times> InventoryId) list"
  me_outbox :: "(OrgId \<times> string) list"
  me_events :: "(JobItemId \<times> string) list"
  me_grants :: "(ConnectionId \<times> i32) list"
  me_stop :: "bool option"
  me_bound_mappings :: "MappingId list"
  me_ceiling :: i32

definition FIXTURE_RENEW_MS :: i64 where "FIXTURE_RENEW_MS = 120000"

record Seeded =
  se_org :: OrgId
  se_item :: JobItemId
  se_mapping :: MappingId
  se_inventory :: InventoryId
  se_connection :: ConnectionId
  se_lease_epoch :: i64
  se_rate_ceiling :: i32

subsection \<open>Seeding\<close>

definition in_flight :: "Uuid \<Rightarrow> MemAttempt" where
  "in_flight attempt =
     \<lparr>ma_id = attempt, ma_state = ''in_flight'', ma_settled = False, ma_ambiguity_cause = None,
      ma_remote_id_kind = None, ma_remote_url = None, ma_remote_numeric_id = None\<rparr>"

definition strand :: "MappingId \<Rightarrow> Uuid \<Rightarrow> MemState \<Rightarrow> MemState" where
  "strand m attempt s = s\<lparr>me_attempts := AList.update m (in_flight attempt) (me_attempts s)\<rparr>"

definition bind_elsewhere :: "MappingId \<Rightarrow> MemState \<Rightarrow> MemState" where
  "bind_elsewhere m s = s\<lparr>me_bound_mappings := me_bound_mappings s @ [m]\<rparr>"

definition seeded :: "Seeded \<Rightarrow> MemState" where
  "seeded seed =
     \<lparr>me_items = [(se_item seed,
        \<lparr>mi_state = ''leased'', mi_outcome = None, mi_blocked_on = None, mi_failure_code = None,
         mi_failure_detail = None, mi_preflight_failures = 0, mi_preflight_edge_only = True,
         mi_lease_epoch = se_lease_epoch seed\<rparr>)],
      me_attempts = [],
      me_bindings = [(se_mapping seed,
        \<lparr>mb_state = ''unbound'', mb_remote_id_kind = None, mb_remote_url = None,
         mb_verify_state = ''unverified'', mb_never_verified = True,
         mb_stale_since_first_seen = False\<rparr>)],
      me_connections = [((se_org seed, se_inventory seed), (se_connection seed, ''linked''))],
      me_halts = [], me_outbox = [], me_events = [], me_grants = [], me_stop = None,
      me_bound_mappings = [], me_ceiling = se_rate_ceiling seed\<rparr>"

definition set_preflight_failures :: "JobItemId \<Rightarrow> i32 \<Rightarrow> MemState \<Rightarrow> MemState" where
  "set_preflight_failures item failures s =
     s\<lparr>me_items := AList.map_entry item (\<lambda>row. row\<lparr>mi_preflight_failures := failures\<rparr>) (me_items s)\<rparr>"

subsection \<open>Operations\<close>

type_synonym 'a mem_op = "MemState \<Rightarrow> (LedgerError + 'a) \<times> MemState"

definition fenced :: "MemState \<Rightarrow> LeaseRef \<Rightarrow> LedgerError + unit" where
  "fenced s lease =
     (case map_of (me_items s) (lr_item lease) of
        Some item \<Rightarrow> if mi_lease_epoch item = lr_lease_epoch lease then Inr () else Inl LG_StaleLease
      | None \<Rightarrow> Inl (LG_Refused ''no such item''))"

definition missing_item :: LedgerError where
  "missing_item = LG_Refused ''no such item''"

definition on_item :: "LeaseRef \<Rightarrow> (MemItem \<Rightarrow> MemItem) \<Rightarrow> MemState \<Rightarrow> MemState" where
  "on_item lease f s = s\<lparr>me_items := AList.map_entry (lr_item lease) f (me_items s)\<rparr>"

definition when_fenced :: "LeaseRef \<Rightarrow> 'a mem_op \<Rightarrow> 'a mem_op" where
  "when_fenced lease f s = (case fenced s lease of Inl e \<Rightarrow> (Inl e, s) | Inr u \<Rightarrow> f s)"

definition mem_connection_for :: "LeaseRef \<Rightarrow> InventoryId \<Rightarrow> ConnectionId option mem_op" where
  "mem_connection_for lease inventory s =
     (Inr (map_option fst (map_of (me_connections s) (lr_org lease, inventory))), s)"

definition mem_preflight_succeeded :: "LeaseRef \<Rightarrow> unit mem_op" where
  "mem_preflight_succeeded lease = when_fenced lease (\<lambda>s. (Inr (),
     on_item lease (\<lambda>item. item\<lparr>mi_preflight_failures := 0, mi_preflight_edge_only := True\<rparr>) s))"

text \<open>\<open>u32::try_from\<close> of the count, or the largest \<open>u32\<close>.\<close>

definition u32_of_i32 :: "i32 \<Rightarrow> u32" where
  "u32_of_i32 n = (if 0 \<le> n then of_int n else 4294967295)"

definition mem_preflight_failed :: "LeaseRef \<Rightarrow> bool \<Rightarrow> PreflightStreak mem_op" where
  "mem_preflight_failed lease edge_class = when_fenced lease (\<lambda>s.
     case map_of (me_items s) (lr_item lease) of
       None \<Rightarrow> (Inl missing_item, s)
     | Some item \<Rightarrow>
         (let failures = saturating_add 32 (mi_preflight_failures item) 1;
              edge = mi_preflight_edge_only item \<and> edge_class
          in (Inr \<lparr>ps_failures = u32_of_i32 failures, ps_edge_only = edge\<rparr>,
              on_item lease (\<lambda>item. item\<lparr>mi_preflight_failures := failures,
                                        mi_preflight_edge_only := edge\<rparr>) s)))"

definition mem_park :: "LeaseRef \<Rightarrow> string \<Rightarrow> unit mem_op" where
  "mem_park lease blocked_on = when_fenced lease (\<lambda>s. (Inr (),
     on_item lease (\<lambda>item. item\<lparr>mi_state := ''parked_live'', mi_blocked_on := Some blocked_on\<rparr>) s))"

text \<open>The lowercased name of an outcome, and the derived \<open>Debug\<close> name of a failure code.\<close>

fun outcome_column :: "ItemOutcome \<Rightarrow> string" where
  "outcome_column IO_Succeeded = ''succeeded''"
| "outcome_column IO_Degraded = ''degraded''"
| "outcome_column IO_Failed = ''failed''"
| "outcome_column IO_Ambiguous = ''ambiguous''"
| "outcome_column IO_Skipped = ''skipped''"
| "outcome_column IO_Blocked = ''blocked''"

fun failure_code_name :: "FailureCode \<Rightarrow> string" where
  "failure_code_name SelectorNotFound = ''SelectorNotFound''"
| "failure_code_name SelectorAmbiguous = ''SelectorAmbiguous''"
| "failure_code_name SelectorResolvedViaFallback = ''SelectorResolvedViaFallback''"
| "failure_code_name PreconditionElementAbsent = ''PreconditionElementAbsent''"
| "failure_code_name NavigationCancelled = ''NavigationCancelled''"
| "failure_code_name UnexpectedOrigin = ''UnexpectedOrigin''"
| "failure_code_name SubmitNoConfirmation = ''SubmitNoConfirmation''"
| "failure_code_name ChallengePresented = ''ChallengePresented''"
| "failure_code_name SessionExpired = ''SessionExpired''"
| "failure_code_name UploadRejected = ''UploadRejected''"
| "failure_code_name RateLimited = ''RateLimited''"
| "failure_code_name VerificationMismatch = ''VerificationMismatch''"
| "failure_code_name FormSchemaDrift = ''FormSchemaDrift''"
| "failure_code_name AdapterVersionRejected = ''AdapterVersionRejected''"
| "failure_code_name OtherFailure = ''Other''"

fun failure_text :: "FailureDetail \<Rightarrow> string" where
  "failure_text (FailureDetail d) = d"

definition mem_settle_item :: "LeaseRef \<Rightarrow> ItemVerdict \<Rightarrow> unit mem_op" where
  "mem_settle_item lease verdict = when_fenced lease (\<lambda>s. (Inr (),
     on_item lease (\<lambda>item. item\<lparr>mi_state := ''settled'',
       mi_outcome := Some (outcome_column (iv_outcome verdict)),
       mi_failure_code := map_option failure_code_name (iv_failure_code verdict),
       mi_failure_detail := map_option failure_text (iv_failure_detail verdict)\<rparr>) s))"

definition mem_open_attempt :: "LeaseRef \<Rightarrow> NewAttempt \<Rightarrow> unit mem_op" where
  "mem_open_attempt lease new = when_fenced lease (\<lambda>s.
     if (case map_of (me_attempts s) (na_mapping new) of
           None \<Rightarrow> False | Some attempt \<Rightarrow> \<not> ma_settled attempt)
     then (Inl LG_AttemptInFlight, s)
     else (let s1 = (case me_stop s of None \<Rightarrow> s | Some flag \<Rightarrow> s\<lparr>me_stop := Some True\<rparr>)
           in if na_mapping new \<in> set (me_bound_mappings s1) then (Inl LG_MappingAlreadyBound, s1)
              else (Inr (), s1\<lparr>me_attempts :=
                      AList.update (na_mapping new) (in_flight (na_attempt new)) (me_attempts s1)\<rparr>)))"

definition remote_columns :: "RemoteListingId \<Rightarrow> string option \<times> string option \<times> i64 option" where
  "remote_columns i =
     (case i of
        RTes url \<Rightarrow> (Some ''tes'', Some url, None)
      | RTpt product_id \<Rightarrow> (Some ''tpt'', None, Some (min (uint product_id) (2 ^ 63 - 1)))
      | REtsy listing_id \<Rightarrow> (Some ''etsy'', None, Some (min (uint listing_id) (2 ^ 63 - 1))))"

definition addressed_columns :: "LandingEffect \<Rightarrow> string option \<times> string option \<times> i64 option" where
  "addressed_columns landing =
     (case landing of
        LE_None \<Rightarrow> (None, None, None)
      | LE_Addressed i \<Rightarrow> remote_columns i
      | LE_Landed i lifecycle \<Rightarrow> remote_columns i
      | LE_Severed i \<Rightarrow> remote_columns i)"

text \<open>What a settle does to the binding.\<close>

definition mem_bind :: "LandingEffect \<Rightarrow> MemBinding \<Rightarrow> BindDisposition \<times> MemBinding" where
  "mem_bind landing binding =
     (let (kind, url, numeric) = addressed_columns landing
      in case landing of
           LE_None \<Rightarrow> (BD_NotLanded, binding)
         | LE_Addressed i \<Rightarrow> (BD_Addressed, binding)
         | LE_Landed i lifecycle \<Rightarrow>
             if mb_state binding = ''bound'' then (BD_AlreadyBound, binding)
             else (BD_Bound, binding\<lparr>mb_state := ''bound'', mb_remote_id_kind := kind,
                     mb_remote_url := url, mb_verify_state := ''stale'', mb_never_verified := True,
                     mb_stale_since_first_seen := True\<rparr>)
         | LE_Severed i \<Rightarrow>
             if mb_state binding = ''bound'' then (BD_Severed, binding\<lparr>mb_state := ''unbound''\<rparr>)
             else (BD_SeverRefused (mb_state binding), binding))"

definition mem_settle_attempt :: "LeaseRef \<Rightarrow> AttemptRef \<Rightarrow> AttemptVerdict \<Rightarrow> BindDisposition mem_op" where
  "mem_settle_attempt lease attempt verdict = when_fenced lease (\<lambda>s.
     case map_of (me_attempts s) (af_mapping attempt) of
       None \<Rightarrow> (Inl (LG_Refused ''no open attempt for that mapping''), s)
     | Some row \<Rightarrow>
         if ma_id row \<noteq> af_attempt attempt then (Inl LG_StaleLease, s)
         else
           (let (kind, url, numeric) = addressed_columns (av_landing verdict);
                row' = row\<lparr>ma_state := av_state verdict, ma_settled := True,
                  ma_ambiguity_cause := map_option ambiguity_name (av_ambiguity verdict),
                  ma_remote_id_kind := kind, ma_remote_url := url, ma_remote_numeric_id := numeric\<rparr>;
                s1 = s\<lparr>me_attempts := AList.update (af_mapping attempt) row' (me_attempts s)\<rparr>
            in case map_of (me_bindings s1) (af_mapping attempt) of
                 None \<Rightarrow> (Inl (LG_Refused ''no mapping for that attempt''), s1)
               | Some binding \<Rightarrow>
                   (let (disposition, binding') = mem_bind (av_landing verdict) binding
                    in (Inr disposition,
                        s1\<lparr>me_bindings := AList.update (af_mapping attempt) binding' (me_bindings s1)\<rparr>))))"

definition mem_gate_connection :: "LeaseRef \<Rightarrow> InventoryId \<Rightarrow> unit mem_op" where
  "mem_gate_connection lease inventory s =
     (Inr (), s\<lparr>me_connections := AList.map_entry (lr_org lease, inventory)
                  (\<lambda>(i, state). (i, ''needs_reauth'')) (me_connections s)\<rparr>)"

definition mem_halt_this_tenant :: "LeaseRef \<Rightarrow> InventoryId \<Rightarrow> unit mem_op" where
  "mem_halt_this_tenant lease inventory s =
     (Inr (), if (lr_org lease, inventory) \<in> set (me_halts s) then s
              else s\<lparr>me_halts := me_halts s @ [(lr_org lease, inventory)]\<rparr>)"

definition mem_request_grant :: "ConnectionId \<Rightarrow> BudgetGrant mem_op" where
  "mem_request_grant connection s =
     (let used = (case map_of (me_grants s) connection of None \<Rightarrow> 0 | Some n \<Rightarrow> n)
      in if used \<ge> me_ceiling s
         then (Inr Exhausted, s\<lparr>me_grants := AList.update connection used (me_grants s)\<rparr>)
         else (Inr (Granted (used + 1)),
               s\<lparr>me_grants := AList.update connection (used + 1) (me_grants s)\<rparr>))"

definition mem_renew :: "LeaseRef \<Rightarrow> Renewed mem_op" where
  "mem_renew lease = when_fenced lease (\<lambda>s.
     (Inr \<lparr>rn_server_now_ms = 0, rn_server_deadline_ms = FIXTURE_RENEW_MS\<rparr>, s))"

definition mem_record_event :: "(JobEventPayload \<Rightarrow> string) \<Rightarrow> LeaseRef \<Rightarrow> JobEventPayload \<Rightarrow> unit mem_op" where
  "mem_record_event dbg lease payload s =
     (Inr (), s\<lparr>me_events := me_events s @ [(lr_item lease, dbg payload)]\<rparr>)"

fun mem_topic :: "SellerEvent \<Rightarrow> string" where
  "mem_topic SE_ReauthRequired = ''email.parked_job''"
| "mem_topic SE_ItemParked = ''email.parked_job''"
| "mem_topic SE_JobSettled = ''email.job_settled''"
| "mem_topic SE_InventoryHalted = ''email.job_settled''"

definition mem_notify :: "LeaseRef \<Rightarrow> SellerEvent \<Rightarrow> unit mem_op" where
  "mem_notify lease event s =
     (Inr (), s\<lparr>me_outbox := me_outbox s @ [(lr_org lease, mem_topic event)]\<rparr>)"

definition mem_hand_back :: "LeaseRef \<Rightarrow> unit mem_op" where
  "mem_hand_back lease = when_fenced lease (\<lambda>s.
     let stranded = list_ex (\<lambda>(m, attempt). \<not> ma_settled attempt) (me_attempts s)
     in case map_of (me_items s) (lr_item lease) of
          None \<Rightarrow> (Inl missing_item, s)
        | Some item \<Rightarrow>
            (Inr (), on_item lease (\<lambda>item.
               if stranded
               then item\<lparr>mi_state := ''parked_live'', mi_blocked_on := Some ''awaiting_marketplace_answer''\<rparr>
               else item\<lparr>mi_state := ''queued'', mi_blocked_on := None\<rparr>) s))"

subsection \<open>The ledger as a port\<close>

text \<open>The state after the calls of a log, newest first; calls to other ports leave it alone.\<close>

fun mem_step :: "(JobEventPayload \<Rightarrow> string) \<Rightarrow> Call \<Rightarrow> MemState \<Rightarrow> MemState" where
  "mem_step dbg (C_ConnectionFor lr i r) s = snd (mem_connection_for lr i s)"
| "mem_step dbg (C_PreflightSucceeded lr r) s = snd (mem_preflight_succeeded lr s)"
| "mem_step dbg (C_PreflightFailed lr e r) s = snd (mem_preflight_failed lr e s)"
| "mem_step dbg (C_Park lr b r) s = snd (mem_park lr b s)"
| "mem_step dbg (C_SettleItem lr v t r) s = snd (mem_settle_item lr v s)"
| "mem_step dbg (C_OpenAttempt lr n t r) s = snd (mem_open_attempt lr n s)"
| "mem_step dbg (C_SettleAttempt lr a v t r) s = snd (mem_settle_attempt lr a v s)"
| "mem_step dbg (C_GateConnection lr i t r) s = snd (mem_gate_connection lr i s)"
| "mem_step dbg (C_HaltThisTenant lr i why t r) s = snd (mem_halt_this_tenant lr i s)"
| "mem_step dbg (C_RequestGrant lr c k t r) s = snd (mem_request_grant c s)"
| "mem_step dbg (C_Renew lr r) s = snd (mem_renew lr s)"
| "mem_step dbg (C_RecordEvent lr p t r) s = snd (mem_record_event dbg lr p s)"
| "mem_step dbg (C_Notify lr e t r) s = snd (mem_notify lr e s)"
| "mem_step dbg (C_HandBack lr t r) s = snd (mem_hand_back lr s)"
| "mem_step dbg c s = s"

definition mem_state :: "(JobEventPayload \<Rightarrow> string) \<Rightarrow> MemState \<Rightarrow> Log \<Rightarrow> MemState" where
  "mem_state dbg s0 l = foldr (mem_step dbg) l s0"

definition memory_ledger :: "(JobEventPayload \<Rightarrow> string) \<Rightarrow> MemState \<Rightarrow> ItemLedger" where
  "memory_ledger dbg s0 =
     \<lparr>il_connection_for = (\<lambda>l lr i. fst (mem_connection_for lr i (mem_state dbg s0 l))),
      il_preflight_succeeded = (\<lambda>l lr. fst (mem_preflight_succeeded lr (mem_state dbg s0 l))),
      il_preflight_failed = (\<lambda>l lr e. fst (mem_preflight_failed lr e (mem_state dbg s0 l))),
      il_park = (\<lambda>l lr b. fst (mem_park lr b (mem_state dbg s0 l))),
      il_settle_item = (\<lambda>l lr v t. fst (mem_settle_item lr v (mem_state dbg s0 l))),
      il_open_attempt = (\<lambda>l lr n t. fst (mem_open_attempt lr n (mem_state dbg s0 l))),
      il_settle_attempt = (\<lambda>l lr a v t. fst (mem_settle_attempt lr a v (mem_state dbg s0 l))),
      il_gate_connection = (\<lambda>l lr i t. fst (mem_gate_connection lr i (mem_state dbg s0 l))),
      il_halt_this_tenant = (\<lambda>l lr i why t. fst (mem_halt_this_tenant lr i (mem_state dbg s0 l))),
      il_request_grant = (\<lambda>l lr c k t. fst (mem_request_grant c (mem_state dbg s0 l))),
      il_renew = (\<lambda>l lr. fst (mem_renew lr (mem_state dbg s0 l))),
      il_record_event = (\<lambda>l lr p t. fst (mem_record_event dbg lr p (mem_state dbg s0 l))),
      il_notify = (\<lambda>l lr e t. fst (mem_notify lr e (mem_state dbg s0 l))),
      il_hand_back = (\<lambda>l lr t. fst (mem_hand_back lr (mem_state dbg s0 l)))\<rparr>"

subsection \<open>The one-in-flight fence\<close>

fun opens_for :: "MappingId \<Rightarrow> Call \<Rightarrow> bool" where
  "opens_for m (C_OpenAttempt lr new at (Inr u)) = (na_mapping new = m)"
| "opens_for m c = False"

text \<open>How often a log opened an attempt for the mapping.\<close>

definition openings :: "MappingId \<Rightarrow> Log \<Rightarrow> nat" where
  "openings m l = length (filter (opens_for m) l)"

lemma opens_for_iff: "opens_for m c \<longleftrightarrow> (\<exists>lr new at. c = C_OpenAttempt lr new at (Inr ()) \<and> na_mapping new = m)"
  by (cases "(m, c)" rule: opens_for.cases) auto

text \<open>
  The contract between the driver and any ledger, over logs: \<open>stands l\<close> says an attempt is in flight
  for the mapping \<open>m\<close> after the calls of \<open>l\<close>. An attempt opens only where none stands, stands once
  opened, and goes on standing until a settle of that mapping succeeds.
\<close>

locale attempt_fence =
  fixes ctx :: DriverContext and m :: MappingId and stands :: "Log \<Rightarrow> bool"
  assumes refused: "stands l \<Longrightarrow> na_mapping new = m \<Longrightarrow> il_open_attempt (dc_ledger ctx) l lr new at \<noteq> Inr ()"
    and opens: "na_mapping new = m \<Longrightarrow> il_open_attempt (dc_ledger ctx) l lr new at = Inr () \<Longrightarrow>
      stands (C_OpenAttempt lr new at (Inr ()) # l)"
    and stays: "stands l \<Longrightarrow> answered ctx m c l \<Longrightarrow> released c = None \<Longrightarrow> stands (c # l)"
begin

lemma at_most_one_opening:
  assumes "honest_log ctx m l" "opens_unsettled l"
  shows "openings m l \<le> 1 \<and> (unreleased l \<and> openings m l = 1 \<longrightarrow> stands l)"
  using assms
proof (induction l)
  case (Cons c l)
  then have IH: "openings m l \<le> 1 \<and> (unreleased l \<and> openings m l = 1 \<longrightarrow> stands l)"
    and c: "answered ctx m c l" and unsettled: "asks_to_open c \<Longrightarrow> unreleased l" by auto
  show ?case
  proof (cases "opens_for m c")
    case True
    then obtain lr new at where open_c: "c = C_OpenAttempt lr new at (Inr ())" and m: "na_mapping new = m"
      by (auto simp: opens_for_iff)
    have took: "il_open_attempt (dc_ledger ctx) l lr new at = Inr ()" using c open_c by simp
    have "openings m l \<noteq> 1"
    proof
      assume "openings m l = 1"
      with IH unsettled open_c have "stands l" by simp
      with refused m took show False by blast
    qed
    with IH have "openings m l = 0" by linarith
    then have "openings m (c # l) = 1" using True by (simp add: openings_def)
    moreover have "stands (c # l)" using opens [OF m took] by (simp add: open_c)
    ultimately show ?thesis by simp
  next
    case False
    then have same: "openings m (c # l) = openings m l"
      by (simp add: openings_def)
    show ?thesis
      using IH stays [OF _ c] by (auto simp: same)
  qed
qed (simp add: openings_def)

text \<open>With such a ledger a run sends at most one write for its item, whatever the rest answers.\<close>

lemma at_most_one_write:
  assumes "honest_log ctx m l" "opens_unsettled l" "writes_licensed l"
  shows "length (writes_of l) \<le> 1"
proof -
  have "length (writes_of l) + (if unused l then 1 else 0) \<le> openings m l"
    using assms(1,3)
  proof (induction l)
    case (Cons c l)
    then have IH: "length (writes_of l) + (if unused l then 1 else 0) \<le> openings m l"
      and c: "answered ctx m c l" "write_answer c = None \<or> unused l \<and> unsent l" by auto
    show ?case
      using IH c by (cases c) (auto simp: openings_def split: sum.split if_splits)
  qed (simp add: openings_def writes_of_def)
  with at_most_one_opening [OF assms(1,2)] show ?thesis by linarith
qed

end

text \<open>The in-memory ledger keeps the contract for the mapping it is seeded with.\<close>

definition mem_stands :: "MemState \<Rightarrow> MappingId \<Rightarrow> bool" where
  "mem_stands s m \<longleftrightarrow> (\<exists>attempt. map_of (me_attempts s) m = Some attempt \<and> \<not> ma_settled attempt)"

lemmas mem_defs = mem_connection_for_def mem_preflight_succeeded_def mem_preflight_failed_def
  mem_park_def mem_settle_item_def mem_gate_connection_def mem_halt_this_tenant_def
  mem_request_grant_def mem_renew_def mem_record_event_def mem_notify_def mem_hand_back_def
  when_fenced_def on_item_def Let_def

text \<open>Only opening and settling touch the attempts, and only settling the bindings.\<close>

fun touches_attempts :: "Call \<Rightarrow> bool" where
  "touches_attempts (C_OpenAttempt lr n t r) = True"
| "touches_attempts (C_SettleAttempt lr a v t r) = True"
| "touches_attempts c = False"

lemma mem_step_leaves: "\<not> touches_attempts c \<Longrightarrow>
    me_attempts (mem_step dbg c s) = me_attempts s \<and> me_bindings (mem_step dbg c s) = me_bindings s"
  by (cases c) (auto simp: mem_defs split: sum.split option.split)

lemma mem_open_bindings: "me_bindings (snd (mem_open_attempt lr n s)) = me_bindings s"
  by (auto simp: mem_open_attempt_def when_fenced_def Let_def split: sum.split option.split)

lemma mem_settle_bindings:
  "map_of (me_bindings (snd (mem_settle_attempt lr a v s))) m = None \<longleftrightarrow> map_of (me_bindings s) m = None"
  by (auto simp: mem_settle_attempt_def when_fenced_def Let_def update_conv'
      split: sum.split option.split prod.split)

lemma binding_kept: "map_of (me_bindings (mem_step dbg c s)) m = None \<longleftrightarrow> map_of (me_bindings s) m = None"
proof (cases "touches_attempts c")
  case True
  then show ?thesis by (cases c) (simp_all add: mem_open_bindings mem_settle_bindings)
qed (simp add: mem_step_leaves)

lemma seeded_binding: "map_of (me_bindings (mem_state dbg (seeded seed) l)) (se_mapping seed) \<noteq> None"
proof (induction l)
  case (Cons c l)
  then show ?case by (simp add: mem_state_def binding_kept)
qed (simp add: mem_state_def seeded_def)

lemma mem_open_refused:
  "mem_stands s (na_mapping n) \<Longrightarrow> fst (mem_open_attempt lr n s) \<noteq> Inr ()"
  by (auto simp: mem_open_attempt_def mem_stands_def when_fenced_def split: sum.split)

lemma mem_open_stands:
  "na_mapping n = m \<Longrightarrow> fst (mem_open_attempt lr n s) = Inr () \<Longrightarrow> mem_stands (snd (mem_open_attempt lr n s)) m"
  by (auto simp: mem_open_attempt_def mem_stands_def when_fenced_def Let_def update_conv' in_flight_def
      split: sum.splits if_splits option.splits)

lemma mem_open_keeps: "mem_stands s m \<Longrightarrow> mem_stands (snd (mem_open_attempt lr n s)) m"
  by (auto simp: mem_open_attempt_def mem_stands_def when_fenced_def Let_def update_conv' in_flight_def
      split: sum.split option.split)

lemma mem_settle_keeps:
  assumes "mem_stands s m" "map_of (me_bindings s) m \<noteq> None"
    and "fst (mem_settle_attempt lr a v s) = Inl e"
  shows "mem_stands (snd (mem_settle_attempt lr a v s)) m"
  using assms
  by (auto simp: mem_settle_attempt_def mem_stands_def when_fenced_def Let_def update_conv'
      split: sum.splits option.splits prod.splits if_splits)

interpretation memory: attempt_fence "ctx\<lparr>dc_ledger := memory_ledger dbg (seeded seed)\<rparr>" "se_mapping seed"
    "\<lambda>l. mem_stands (mem_state dbg (seeded seed) l) (se_mapping seed)" for ctx dbg seed
proof unfold_locales
  fix l c
  assume stands: "mem_stands (mem_state dbg (seeded seed) l) (se_mapping seed)"
    and answered: "answered (ctx\<lparr>dc_ledger := memory_ledger dbg (seeded seed)\<rparr>) (se_mapping seed) c l"
    and kept: "released c = None"
  show "mem_stands (mem_state dbg (seeded seed) (c # l)) (se_mapping seed)"
  proof (cases "touches_attempts c")
    case True
    then show ?thesis
    proof (cases c)
      case (C_SettleAttempt lr a v t r)
      then obtain e where "r = Inl e" using kept by (cases r) auto
      then show ?thesis
        using answered mem_settle_keeps [OF stands seeded_binding, of lr a v e]
        by (simp add: C_SettleAttempt mem_state_def memory_ledger_def)
    qed (use stands in \<open>simp_all add: mem_state_def mem_open_keeps\<close>)
  next
    case False
    then show ?thesis using stands by (simp add: mem_state_def mem_stands_def mem_step_leaves)
  qed
qed (auto simp: memory_ledger_def mem_state_def mem_open_refused mem_open_stands)

subsection \<open>A run over the in-memory ledger\<close>

text \<open>
  C12. Over the in-memory ledger a run sends at most one write for its mapping, whatever the adapter,
  the catalogue, the clock and the cancellation answer: a write that provably never left (\<open>NotSent\<close>),
  which the machine sends back to be tried again, is refused by the fence its own attempt still holds.
\<close>

theorem a_run_over_the_ledger_writes_once:
  assumes "dc_ledger ctx = memory_ledger dbg (seeded seeding)" "le_mapping lease = se_mapping seeding"
  shows "length (writes_of (snd (run_item ctx lease seed []))) \<le> 1"
proof -
  have ctx: "ctx\<lparr>dc_ledger := memory_ledger dbg (seeded seeding)\<rparr> = ctx"
    using assms(1) by simp
  obtain r l1 connection where run: "drive_item ctx lease seed [] = (r, l1)"
    and "ends (entry_of lease seed connection) (le_operation lease) (lease_ref lease) r l1"
    by (rule run_item_cases)
  then have "opens_unsettled l1" "writes_licensed l1" by (auto dest: ends_says)
  then have "opens_unsettled (snd (run_item ctx lease seed []))" "writes_licensed (snd (run_item ctx lease seed []))"
    using run_item_log [OF run] by auto
  moreover have "honest_log ctx (se_mapping seeding) (snd (run_item ctx lease seed []))"
    using the_log_is_honest [of ctx lease seed] assms(2) by simp
  ultimately show ?thesis
    using memory.at_most_one_write [where ctx = ctx and dbg = dbg and seed = seeding] ctx by simp
qed

definition sample_seeding :: Seeded where
  "sample_seeding = \<lparr>se_org = OrgId sample_uuid, se_item = JobItemId sample_uuid,
     se_mapping = MappingId sample_uuid, se_inventory = Tpt, se_connection = ConnectionId sample_uuid,
     se_lease_epoch = 3, se_rate_ceiling = 100\<rparr>"

definition memory_ctx :: "AdapterError + SubmitEvidence \<Rightarrow> AdapterError + ObservedListing \<Rightarrow> DriverContext" where
  "memory_ctx answer seen = (sample_ctx answer seen (Inr None))
     \<lparr>dc_ledger := memory_ledger (\<lambda>p. ''event'') (seeded sample_seeding)\<rparr>"

theorem a_run_over_the_ledger_writes_once_witness:
  "dc_ledger (memory_ctx (Inl (AE_NotSent DnsFailure)) (Inr sample_listing))
     = memory_ledger (\<lambda>p. ''event'') (seeded sample_seeding)
   \<and> length (writes_of (snd (run_item (memory_ctx (Inl (AE_NotSent DnsFailure)) (Inr sample_listing))
        sample_lease sample_seed []))) \<le> 1"
proof -
  have "dc_ledger (memory_ctx (Inl (AE_NotSent DnsFailure)) (Inr sample_listing))
      = memory_ledger (\<lambda>p. ''event'') (seeded sample_seeding)"
    by (simp add: memory_ctx_def)
  moreover have "le_mapping sample_lease = se_mapping sample_seeding"
    by (simp add: sample_lease_def sample_seeding_def)
  ultimately show ?thesis
    using a_run_over_the_ledger_writes_once by blast
qed

text \<open>
  A create that never left, over a ledger that keeps the fence by its own log: the fresh attempt is
  refused, the run is abandoned, and the standing attempt is never settled.
\<close>

definition fencing_ctx :: "AdapterError + SubmitEvidence \<Rightarrow> DriverContext" where
  "fencing_ctx answer = (sample_ctx answer (Inr sample_listing) (Inr None))
     \<lparr>dc_ledger := sample_ledger\<lparr>il_open_attempt := (\<lambda>l lr new at.
        if list_ex (opens_for (MappingId sample_uuid)) l then Inl LG_AttemptInFlight else Inr ())\<rparr>\<rparr>"

lemma a_create_that_never_left_is_abandoned:
  "case run_item (fencing_ctx (Inl (AE_NotSent DnsFailure))) sample_lease sample_seed [] of
     (r, l) \<Rightarrow> r = Inr (RV_Abandoned ''another attempt is in flight for this mapping'')
       \<and> length (writes_of l) = 1 \<and> unreleased l"
  by code_simp

text \<open>
  And the in-memory ledger takes a lease handed back over a standing attempt for a write whose fate
  is unknown: it parks the item for the marketplace's answer instead of queueing it again.
\<close>

lemma a_hand_back_over_a_standing_attempt_parks:
  assumes "mem_stands s m" "map_of (me_items s) (lr_item lease) = Some item"
    and "mi_lease_epoch item = lr_lease_epoch lease"
  shows "mem_hand_back lease s = (Inr (), on_item lease (\<lambda>item. item\<lparr>mi_state := ''parked_live'',
    mi_blocked_on := Some ''awaiting_marketplace_answer''\<rparr>) s)"
proof -
  have "list_ex (\<lambda>(m, attempt). \<not> ma_settled attempt) (me_attempts s)"
    using assms(1) by (force simp: mem_stands_def list_ex_iff dest: map_of_SomeD)
  then show ?thesis using assms(2,3) by (simp add: mem_hand_back_def when_fenced_def fenced_def)
qed

end
