(* ===== verification/ListingAddress.thy ===== *)
theory ListingAddress
  imports Adapter SellerText
begin

section \<open>The address of a listing (crate tam-domain, registry/listing_url.rs)\<close>

text \<open>
  The page a seller opens for a listing, and the identifier read back from a page they paste. Both
  directions are here and the round trip between them is proved; a pasted address is accepted only
  on the marketplace's own host.
\<close>

subsection \<open>The text library\<close>

text \<open>\<open>strip_prefix\<close>, \<open>trim_end_matches\<close> on one byte, the last part of \<open>rsplit\<close> and the first of \<open>split\<close>.\<close>

definition strip_prefix :: "string \<Rightarrow> string \<Rightarrow> string option" where
  "strip_prefix p s = (if take (length p) s = p then Some (drop (length p) s) else None)"

definition trim_end_matches :: "char \<Rightarrow> string \<Rightarrow> string" where
  "trim_end_matches c s = rev (dropWhile (\<lambda>x. x = c) (rev s))"

definition last_part :: "string \<Rightarrow> string \<Rightarrow> string" where
  "last_part separators s = rev (takeWhile (\<lambda>x. x \<notin> set separators) (rev s))"

definition first_part :: "string \<Rightarrow> string \<Rightarrow> string" where
  "first_part separators s = takeWhile (\<lambda>x. x \<notin> set separators) s"

lemma strip_prefix_append [simp]: "strip_prefix p (p @ s) = Some s"
  by (simp add: strip_prefix_def)

lemma last_part_after: "set ys \<inter> set separators = {} \<Longrightarrow> c \<in> set separators \<Longrightarrow>
    last_part separators (xs @ c # ys) = ys"
  by (auto simp: last_part_def takeWhile_append disjoint_iff)

lemma first_part_all: "set xs \<inter> set separators = {} \<Longrightarrow> first_part separators xs = xs"
  by (auto simp: first_part_def takeWhile_eq_all_conv disjoint_iff)

lemma last_part_all: "set xs \<inter> set separators = {} \<Longrightarrow> last_part separators xs = xs"
proof -
  assume "set xs \<inter> set separators = {}"
  then have "takeWhile (\<lambda>x. x \<notin> set separators) (rev xs) = rev xs"
    by (simp add: takeWhile_eq_all_conv disjoint_iff)
  then show ?thesis unfolding last_part_def by (simp only: rev_rev_ident)
qed

lemma trim_end_kept: "xs \<noteq> [] \<Longrightarrow> last xs \<noteq> c \<Longrightarrow> trim_end_matches c xs = xs"
  by (cases xs rule: rev_cases) (simp_all add: trim_end_matches_def)

subsection \<open>Rendering\<close>

definition TPT_ORIGIN :: string where
  "TPT_ORIGIN = ''https://www.teacherspayteachers.com''"

definition TES_ORIGIN :: string where
  "TES_ORIGIN = ''https://www.tes.com''"

definition TPT_SLUG :: string where
  "TPT_SLUG = ''listing''"

definition tes_resource_id :: "string \<Rightarrow> string option" where
  "tes_resource_id url =
     (let path = trim_end_matches (CHR ''/'') (first_part ''?#'' url);
          final = last_part ''/'' path;
          candidate = last_part ''-'' final
      in if candidate = [] \<or> \<not> list_all ascii_digit candidate then None else Some candidate)"

definition listing_url :: "RemoteListingId \<Rightarrow> string option" where
  "listing_url i =
     (case i of
        RTpt product_id \<Rightarrow> Some (TPT_ORIGIN @ ''/Product/'' @ TPT_SLUG @ ''-'' @ decimal (unat product_id))
      | RTes url \<Rightarrow> map_option (\<lambda>n. TES_ORIGIN @ ''/teaching-resource/-'' @ n) (tes_resource_id url)
      | REtsy listing_id \<Rightarrow> None)"

subsection \<open>Reading a pasted address\<close>

datatype UrlRefusal = WrongMarketplace Marketplace | Unrecognised

definition split_url :: "string \<Rightarrow> (string \<times> string) option" where
  "split_url url =
     (case or_else (strip_prefix ''https://'' url) (strip_prefix ''http://'' url) of
        None \<Rightarrow> None
      | Some after_scheme \<Rightarrow>
          (let rest = first_part ''?#'' after_scheme;
               (authority, path) = (case split_once (CHR ''/'') rest of None \<Rightarrow> (rest, []) | Some p \<Rightarrow> p);
               host = map to_ascii_lowercase (first_part '':'' (last_part ''@'' authority))
           in Some (case strip_prefix ''www.'' host of None \<Rightarrow> host | Some h \<Rightarrow> h, path)))"

text \<open>The tail of a listing path, parsed as a \<open>u64\<close>.\<close>

definition trailing_id :: "string \<Rightarrow> nat option" where
  "trailing_id path = parse_unsigned (2 ^ 64) (last_part ''-/'' (trim_end_matches (CHR ''/'') path))"

definition recognise :: "string \<Rightarrow> string \<Rightarrow> RemoteListingId option" where
  "recognise host path =
     (let (head, rest) = (case split_once (CHR ''/'') path of None \<Rightarrow> (path, []) | Some p \<Rightarrow> p)
      in if host = ''teacherspayteachers.com'' \<and> eq_ignore_ascii_case head ''Product''
         then map_option (\<lambda>n. RTpt (of_nat n)) (trailing_id rest)
         else if host = ''tes.com'' \<and>
              (eq_ignore_ascii_case head ''teaching-resource''
               \<or> strip_prefix ''api/v2/resources/'' path \<noteq> None)
         then map_option (\<lambda>n. RTes (TES_ORIGIN @ ''/api/v2/resources/'' @ decimal n)) (trailing_id path)
         else None)"

definition parse_listing_url :: "Marketplace \<Rightarrow> string \<Rightarrow> UrlRefusal + RemoteListingId" where
  "parse_listing_url expected url =
     (case split_url url of
        None \<Rightarrow> Inl Unrecognised
      | Some (host, path) \<Rightarrow>
          (case recognise host path of
             None \<Rightarrow> Inl Unrecognised
           | Some found \<Rightarrow>
               if remote_marketplace found = expected then Inr found
               else Inl (WrongMarketplace (remote_marketplace found))))"

subsection \<open>The round trip\<close>

lemma decimal_chars: "c \<in> set (decimal n) \<Longrightarrow> ascii_digit c"
  using decimal_ascii [of n] by (auto simp: list_all_iff)

lemma decimal_avoids: "list_all (\<lambda>c. \<not> ascii_digit c) separators \<Longrightarrow> set (decimal n) \<inter> set separators = {}"
  by (auto simp: list_all_iff dest: decimal_chars)

lemma separators_avoided: "set (decimal n) \<inter> set ''?#'' = {}" "set (decimal n) \<inter> set ''/'' = {}"
  "set (decimal n) \<inter> set ''-'' = {}" "set (decimal n) \<inter> set ''-/'' = {}"
  by (rule decimal_avoids; simp add: ascii_digit_def)+

lemma decimal_last: "last (decimal n) \<noteq> CHR ''/''"
  using decimal_chars [of "last (decimal n)" n] by (auto simp: ascii_digit_def)

lemma trim_decimal: "trim_end_matches (CHR ''/'') (xs @ decimal n) = xs @ decimal n"
  by (rule trim_end_kept) (simp_all add: decimal_last)

lemma parse_unsigned_oversized: "bound \<le> n \<Longrightarrow> parse_unsigned bound (decimal n) = None"
  using digits_value_decimal [of n] separators_avoided decimal_chars [of "CHR ''+''" n]
  by (cases "decimal n") (auto simp: parse_unsigned_def Let_def ascii_digit_def)

lemma trailing_decimal:
  assumes "c \<in> set ''-/''"
  shows "trailing_id (xs @ c # decimal n) = (if n < 2 ^ 64 then Some n else None)"
proof -
  have "trim_end_matches (CHR ''/'') ((xs @ [c]) @ decimal n) = (xs @ [c]) @ decimal n"
    by (rule trim_decimal)
  then show ?thesis
    using last_part_after [OF separators_avoided(4) assms, of xs n]
    by (simp add: trailing_id_def parse_unsigned_decimal parse_unsigned_oversized)
qed

lemma page_url:
  assumes "set path \<inter> set ''?#'' = {}" "strip_prefix ''www.'' (map to_ascii_lowercase host) = Some h"
    and "set host \<inter> set ''?#/@:'' = {}"
  shows "split_url (''https://'' @ host @ ''/'' @ path) = Some (h, path)"
proof -
  have first: "first_part ''?#'' (host @ ''/'' @ path) = host @ ''/'' @ path"
    using assms(1,3) by (intro first_part_all) (auto simp: disjoint_iff)
  have split: "split_once (CHR ''/'') (host @ CHR ''/'' # path) = Some (host, path)"
    using assms(3) by (auto simp: split_once_Some)
  have authority: "first_part '':'' (last_part ''@'' host) = host"
    using assms(3) last_part_all [of host "''@''"] first_part_all [of host "'':''"] by simp
  show ?thesis
    using first split authority assms(2) strip_prefix_append [of "''https://''" "host @ ''/'' @ path"]
    by (simp add: split_url_def)
qed

lemma tpt_page: "n < 2 ^ 64 \<Longrightarrow>
   parse_listing_url MTpt (TPT_ORIGIN @ ''/Product/'' @ TPT_SLUG @ ''-'' @ decimal n) = Inr (RTpt (of_nat n))"
proof -
  assume n: "n < 2 ^ 64"
  have "split_url (''https://'' @ ''www.teacherspayteachers.com'' @ ''/'' @ (''Product/listing-'' @ decimal n))
      = Some (''teacherspayteachers.com'', ''Product/listing-'' @ decimal n)"
    using separators_avoided(1) [of n]
    by (intro page_url) (auto simp: strip_prefix_def to_ascii_lowercase_def)
  then have url: "split_url (TPT_ORIGIN @ ''/Product/'' @ TPT_SLUG @ ''-'' @ decimal n)
      = Some (''teacherspayteachers.com'', ''Product/listing-'' @ decimal n)"
    by (simp add: TPT_ORIGIN_def TPT_SLUG_def)
  have "trailing_id (''listing'' @ CHR ''-'' # decimal n) = Some n"
    using trailing_decimal [of "CHR ''-''" "''listing''" n] n by simp
  then have "recognise ''teacherspayteachers.com'' (''Product/listing-'' @ decimal n) = Some (RTpt (of_nat n))"
    by (simp add: recognise_def eq_ignore_ascii_case_def)
  with url show ?thesis by (simp add: parse_listing_url_def)
qed

lemma tes_page_read: "parse_listing_url MTes (TES_ORIGIN @ ''/teaching-resource/-'' @ decimal n)
     = (if n < 2 ^ 64 then Inr (RTes (TES_ORIGIN @ ''/api/v2/resources/'' @ decimal n)) else Inl Unrecognised)"
proof -
  have "split_url (''https://'' @ ''www.tes.com'' @ ''/'' @ (''teaching-resource/-'' @ decimal n))
      = Some (''tes.com'', ''teaching-resource/-'' @ decimal n)"
    using separators_avoided(1) [of n]
    by (intro page_url) (auto simp: strip_prefix_def to_ascii_lowercase_def)
  then have url: "split_url (TES_ORIGIN @ ''/teaching-resource/-'' @ decimal n)
      = Some (''tes.com'', ''teaching-resource/-'' @ decimal n)"
    by (simp add: TES_ORIGIN_def)
  have "recognise ''tes.com'' (''teaching-resource/-'' @ decimal n)
      = (if n < 2 ^ 64 then Some (RTes (TES_ORIGIN @ ''/api/v2/resources/'' @ decimal n)) else None)"
    using trailing_decimal [of "CHR ''-''" "''teaching-resource/''" n]
    by (simp add: recognise_def eq_ignore_ascii_case_def)
  with url show ?thesis by (simp add: parse_listing_url_def)
qed

lemma canonical_tes_id: "tes_resource_id (TES_ORIGIN @ ''/api/v2/resources/'' @ decimal n) = Some (decimal n)"
proof -
  let ?url = "TES_ORIGIN @ ''/api/v2/resources/'' @ decimal n"
  have first: "first_part ''?#'' ?url = ?url"
    using separators_avoided(1) [of n] by (intro first_part_all) (auto simp: TES_ORIGIN_def)
  have trim: "trim_end_matches (CHR ''/'') ?url = ?url"
    using trim_decimal [of "TES_ORIGIN @ ''/api/v2/resources/''" n] by simp
  have final: "last_part ''/'' ?url = decimal n"
    using last_part_after [OF separators_avoided(2), of "CHR ''/''" "TES_ORIGIN @ ''/api/v2/resources''" n] by simp
  have "last_part ''-'' (decimal n) = decimal n"
    by (rule last_part_all [OF separators_avoided(3)])
  with first trim final show ?thesis
    using decimal_ascii [of n] by (simp add: tes_resource_id_def)
qed

lemma listing_url_tes: "listing_url (RTes (TES_ORIGIN @ ''/api/v2/resources/'' @ decimal n))
    = Some (TES_ORIGIN @ ''/teaching-resource/-'' @ decimal n)"
  unfolding listing_url_def RemoteListingId.case canonical_tes_id option.map ..

lemma trailing_id_bound: "trailing_id path = Some n \<Longrightarrow> n < 2 ^ 64"
  by (auto simp: trailing_id_def parse_unsigned_def Let_def split: if_splits)

text \<open>What a pasted address can be read as.\<close>

lemma recognised:
  assumes "recognise host path = Some i"
  obtains n where "n < 2 ^ 64" "host = ''teacherspayteachers.com''" "i = RTpt (of_nat n)"
  | n where "n < 2 ^ 64" "host = ''tes.com''" "i = RTes (TES_ORIGIN @ ''/api/v2/resources/'' @ decimal n)"
  using assms by (auto simp: recognise_def split: prod.splits if_splits dest: trailing_id_bound)

text \<open>The listings an address can name: a product of one marketplace, a resource of the other under its canonical address.\<close>

definition addressable :: "Marketplace \<Rightarrow> RemoteListingId \<Rightarrow> bool" where
  "addressable m i \<longleftrightarrow>
     (\<exists>n < 2 ^ 64. m = MTpt \<and> i = RTpt (of_nat n) \<or> m = MTes \<and> i = RTes (TES_ORIGIN @ ''/api/v2/resources/'' @ decimal n))"

lemma accepted_addressable:
  assumes "parse_listing_url m url = Inr i"
  shows "addressable m i"
proof -
  obtain host path where found: "recognise host path = Some i" and m: "remote_marketplace i = m"
    using assms by (auto simp: parse_listing_url_def split: option.splits if_splits)
  from found show ?thesis
    by (cases rule: recognised) (use m in \<open>auto simp: addressable_def\<close>)
qed

lemma addressable_reads_back:
  assumes "addressable m i"
  shows "\<exists>page. listing_url i = Some page \<and> parse_listing_url m page = Inr i"
proof -
  from assms obtain n where n: "n < 2 ^ 64"
    and i: "m = MTpt \<and> i = RTpt (of_nat n) \<or> m = MTes \<and> i = RTes (TES_ORIGIN @ ''/api/v2/resources/'' @ decimal n)"
    by (auto simp: addressable_def)
  from i show ?thesis
  proof (elim disjE conjE)
    assume "m = MTpt" "i = RTpt (of_nat n)"
    moreover have "unat (of_nat n :: u64) = n" using n by (simp add: unat_of_nat)
    ultimately show ?thesis using tpt_page [OF n] by (simp add: listing_url_def)
  next
    assume "m = MTes" and tes: "i = RTes (TES_ORIGIN @ ''/api/v2/resources/'' @ decimal n)"
    with tes_page_read [of n] n listing_url_tes [of n] show ?thesis unfolding tes by simp
  qed
qed



text \<open>
  The host decides. An address is accepted only when the part of its authority after the last at
  sign and before a colon, in lower case and without \<open>www.\<close>, is the domain of the marketplace
  expected; credentials, ports and foreign domains cannot stand in for it.
\<close>

lemma accepted_on_its_own_host:
  assumes "parse_listing_url m url = Inr i"
  shows "\<exists>path. split_url url = Some (if m = MTpt then ''teacherspayteachers.com'' else ''tes.com'', path)"
    and "m \<noteq> MEtsy"
proof -
  obtain host path where url: "split_url url = Some (host, path)" and found: "recognise host path = Some i"
    and m: "remote_marketplace i = m"
    using assms by (auto simp: parse_listing_url_def split: option.splits if_splits)
  from found have "host = (if m = MTpt then ''teacherspayteachers.com'' else ''tes.com'') \<and> m \<noteq> MEtsy"
    by (cases rule: recognised) (use m in auto)
  with url show "\<exists>path. split_url url = Some (if m = MTpt then ''teacherspayteachers.com'' else ''tes.com'', path)"
    and "m \<noteq> MEtsy" by auto
qed

lemma dressed_up_host: "parse_listing_url MTpt ''https://www.teacherspayteachers.com@example.com/Product/x-17511712''
    = Inl Unrecognised"
  by code_simp

text \<open>A stored Tes address whose identifier exceeds 64 bits renders to a page the parser refuses.\<close>

lemma an_oversized_id_renders_only:
  assumes "2 ^ 64 \<le> n"
  shows "\<exists>page. listing_url (RTes (TES_ORIGIN @ ''/api/v2/resources/'' @ decimal n)) = Some page
    \<and> parse_listing_url MTes page = Inl Unrecognised"
  using assms listing_url_tes [of n] tes_page_read [of n] by auto

end
