(* ===== verification/ScalarText.thy ===== *)
theory ScalarText
  imports SellerText
begin

section \<open>Scalar values of a part of a text\<close>

text \<open>
  Cutting a text at its scalar values commutes with taking a contiguous part of them; so a trimmed
  or a truncated text has the scalar values it was built from. Shared by the theories whose values
  are trimmed and counted in characters.
\<close>

definition scalar_run :: "string list \<Rightarrow> bool" where
  "scalar_run xs \<longleftrightarrow> (\<forall>x\<in>set xs. x \<noteq> [] \<and> list_all continuation_byte (tl x))
     \<and> (\<forall>x\<in>set (tl xs). \<not> continuation_byte (hd x))"

lemma run_Nil [simp]: "scalar_run []"
  by (simp add: scalar_run_def)

lemma run_Cons: "scalar_run (x # xs) \<longleftrightarrow> x \<noteq> [] \<and> list_all continuation_byte (tl x)
    \<and> (\<forall>y\<in>set xs. y \<noteq> [] \<and> list_all continuation_byte (tl y) \<and> \<not> continuation_byte (hd y))"
  by (auto simp: scalar_run_def)

lemma run_tail: "scalar_run (x # xs) \<Longrightarrow> scalar_run xs"
  by (cases xs) (auto simp: run_Cons)

lemma run_part: "scalar_run (xs @ ys @ zs) \<Longrightarrow> scalar_run ys"
proof (induction xs)
  case Nil
  then show ?case by (cases ys) (auto simp: run_Cons)
next
  case (Cons x xs)
  then show ?case using run_tail by simp
qed

lemma run_scalars: "scalar_run (scalars s)"
proof (induction s rule: scalars.induct)
  case (2 c cs)
  have tails: "y \<noteq> [] \<and> list_all continuation_byte (tl y)" if "y \<in> set (scalars t)" for y t
    using that by (induction t rule: scalars.induct) (auto simp: list_all_iff dest: set_takeWhileD)
  have heads: "\<not> continuation_byte (hd y)"
    if "y \<in> set (scalars t)" "t = [] \<or> \<not> continuation_byte (hd t)" for y t
    using that
  proof (induction t rule: scalars.induct)
    case (2 c cs)
    then show ?case using hd_dropWhile [of continuation_byte cs] by auto
  qed simp
  have rest: "\<not> continuation_byte (hd y)" if "y \<in> set (scalars (dropWhile continuation_byte cs))" for y
    using that by (rule heads) (use hd_dropWhile in blast)
  show ?case
    using tails [of _ "dropWhile continuation_byte cs"] rest
    by (auto simp: run_Cons list_all_iff dest: set_takeWhileD)
qed simp

lemma scalars_concat: "scalar_run xs \<Longrightarrow> scalars (concat xs) = xs"
proof (induction xs)
  case (Cons x xs)
  then obtain c cs where x: "x = c # cs" by (auto simp: run_Cons neq_Nil_conv)
  have cont: "\<forall>b\<in>set cs. continuation_byte b" and rest: "scalars (concat xs) = xs"
    using Cons.prems Cons.IH [OF run_tail [OF Cons.prems]] by (auto simp: run_Cons list_all_iff x)
  have "takeWhile continuation_byte (concat xs) = []"
    using Cons.prems by (cases xs) (auto simp: run_Cons neq_Nil_conv)
  moreover from this have "dropWhile continuation_byte (concat xs) = concat xs"
    by (metis append_Nil takeWhile_dropWhile_id)
  ultimately show ?case
    using cont rest by (simp add: x takeWhile_append2 dropWhile_append2)
qed simp

lemma scalars_part:
  assumes "scalars s = xs @ ys @ zs"
  shows "scalars (concat ys) = ys"
  using run_scalars [of s] assms by (metis run_part scalars_concat)

lemma scalars_take: "scalars (concat (take n (scalars s))) = take n (scalars s)"
  by (rule scalars_part [where xs = "[]" and zs = "drop n (scalars s)"]) simp

text \<open>Both ends are trimmed of white space and nothing else is lost.\<close>

definition trimmed :: "'a set \<Rightarrow> 'a list \<Rightarrow> 'a list" where
  "trimmed ws xs = rev (dropWhile (\<lambda>c. c \<in> ws) (rev (dropWhile (\<lambda>c. c \<in> ws) xs)))"

lemma trimmed_Nil [simp]: "trimmed ws [] = []"
  by (simp add: trimmed_def)

lemma trimmed_part: "\<exists>as bs. xs = as @ trimmed ws xs @ bs \<and> set as \<subseteq> ws \<and> set bs \<subseteq> ws"
proof -
  let ?P = "\<lambda>c. c \<in> ws"
  let ?m = "dropWhile ?P xs"
  have "?m = trimmed ws xs @ rev (takeWhile ?P (rev ?m))"
    unfolding trimmed_def by (metis rev_append rev_rev_ident takeWhile_dropWhile_id)
  then have "xs = takeWhile ?P xs @ trimmed ws xs @ rev (takeWhile ?P (rev ?m))"
    by (metis takeWhile_dropWhile_id)
  moreover have "set (takeWhile ?P xs) \<subseteq> ws" "set (rev (takeWhile ?P (rev ?m))) \<subseteq> ws"
    by (auto dest: set_takeWhileD)
  ultimately show ?thesis by blast
qed

lemma trimmed_ends: "trimmed ws xs \<noteq> [] \<Longrightarrow> hd (trimmed ws xs) \<notin> ws \<and> last (trimmed ws xs) \<notin> ws"
proof -
  let ?P = "\<lambda>c. c \<in> ws"
  let ?m = "dropWhile ?P xs"
  assume some: "trimmed ws xs \<noteq> []"
  then have some': "dropWhile ?P (rev ?m) \<noteq> []" by (simp add: trimmed_def)
  have last: "last (trimmed ws xs) \<notin> ws"
    using hd_dropWhile [OF some'] by (simp add: trimmed_def last_rev)
  have "?m \<noteq> []" using some' by (metis dropWhile.simps(1) rev.simps(1))
  moreover have "hd (trimmed ws xs) = hd ?m"
  proof -
    have "?m = trimmed ws xs @ rev (takeWhile ?P (rev ?m))"
      unfolding trimmed_def by (metis rev_append rev_rev_ident takeWhile_dropWhile_id)
    then show ?thesis using some by (metis hd_append2)
  qed
  ultimately have "hd (trimmed ws xs) \<notin> ws" using hd_dropWhile [of ?P xs] by simp
  with last show ?thesis by simp
qed

lemma trimmed_idem: "trimmed ws (trimmed ws xs) = trimmed ws xs"
proof (cases "trimmed ws xs = []")
  case False
  let ?t = "trimmed ws xs"
  from trimmed_ends [OF False] have ends: "hd ?t \<notin> ws" "last ?t \<notin> ws" by simp_all
  have "dropWhile (\<lambda>c. c \<in> ws) ?t = ?t" using False ends(1) by (cases ?t) simp_all
  moreover have "dropWhile (\<lambda>c. c \<in> ws) (rev ?t) = rev ?t"
    using False ends(2) by (cases "rev ?t") (simp_all flip: hd_rev)
  ultimately show ?thesis by (simp add: trimmed_def [of ws ?t])
qed simp

lemma trim_trimmed: "trim s = concat (trimmed (set white_space) (scalars s))"
  by (simp add: trim_def trimmed_def)

lemma scalars_trim: "scalars (trim s) = trimmed (set white_space) (scalars s)"
proof -
  obtain as bs where "scalars s = as @ trimmed (set white_space) (scalars s) @ bs"
    using trimmed_part [of "scalars s" "set white_space"] by metis
  then show ?thesis unfolding trim_trimmed by (rule scalars_part)
qed

lemma trim_idem: "trim (trim s) = trim s"
  unfolding trim_trimmed [of "trim s"] scalars_trim trimmed_idem by (rule trim_trimmed [symmetric])

end
