(* ===== verification/ProductForm.thy ===== *)
theory ProductForm
  imports Registry Vocabulary ScalarText
begin

section \<open>The product form (crate tam-domain, product/)\<close>

text \<open>
  The product on the TPT base: the closed vocabularies of its controls with their wire ids
  (\<open>vocabularies.rs\<close>), the values a seller supplies and what one value is refused for (\<open>fields.rs\<close>),
  the check of a whole form (\<open>validation.rs\<close>) and the derivation of the canonical product
  (\<open>canonical.rs\<close>). \<open>FormGroup\<close> is in the registry theory. Every vocabulary with wire ids is an
  interpretation of \<open>closed_vocabulary\<close>.
\<close>

subsection \<open>Vocabularies\<close>

datatype ThumbnailMode = AutoGenerate | UploadNow | UploadLater

definition thumbnail_modes :: "ThumbnailMode list" where
  "thumbnail_modes = [AutoGenerate, UploadNow, UploadLater]"

fun thumbnail_wire_id :: "ThumbnailMode \<Rightarrow> u8" where
  "thumbnail_wire_id AutoGenerate = 1"
| "thumbnail_wire_id UploadNow = 2"
| "thumbnail_wire_id UploadLater = 3"

definition thumbnail_from_wire_id :: "u8 \<Rightarrow> ThumbnailMode option" where
  "thumbnail_from_wire_id n = read_spelling thumbnail_modes thumbnail_wire_id n"

fun thumbnail_label :: "ThumbnailMode \<Rightarrow> string" where
  "thumbnail_label AutoGenerate = ''Auto generate thumbnails from the product file''"
| "thumbnail_label UploadNow = ''Upload thumbnails now''"
| "thumbnail_label UploadLater = ''Upload thumbnails later''"

datatype TaxCode = DigitalAudio | DigitalBooks | DigitalImages | Videos | OtherDigitalGoods

definition tax_codes :: "TaxCode list" where
  "tax_codes = [DigitalAudio, DigitalBooks, DigitalImages, Videos, OtherDigitalGoods]"

fun tax_wire_id :: "TaxCode \<Rightarrow> u8" where
  "tax_wire_id DigitalAudio = 1"
| "tax_wire_id DigitalBooks = 2"
| "tax_wire_id DigitalImages = 3"
| "tax_wire_id Videos = 4"
| "tax_wire_id OtherDigitalGoods = 5"

definition tax_from_wire_id :: "u8 \<Rightarrow> TaxCode option" where
  "tax_from_wire_id n = read_spelling tax_codes tax_wire_id n"

fun avalara_code :: "TaxCode \<Rightarrow> string" where
  "avalara_code DigitalAudio = ''DA051011''"
| "avalara_code DigitalBooks = ''DB031013''"
| "avalara_code DigitalImages = ''DI010200''"
| "avalara_code Videos = ''DV010200''"
| "avalara_code OtherDigitalGoods = ''DO010000''"

datatype StandardsFramework =
  CommonCore | NextGenerationScience | TexasEssentialKnowledgeAndSkills | VirginiaStandardsOfLearning

definition frameworks :: "StandardsFramework list" where
  "frameworks = [CommonCore, NextGenerationScience, TexasEssentialKnowledgeAndSkills, VirginiaStandardsOfLearning]"

fun jurisdiction_id :: "StandardsFramework \<Rightarrow> u32" where
  "jurisdiction_id CommonCore = 3054"
| "jurisdiction_id NextGenerationScience = 3055"
| "jurisdiction_id TexasEssentialKnowledgeAndSkills = 3326"
| "jurisdiction_id VirginiaStandardsOfLearning = 5785"

definition from_jurisdiction_id :: "u32 \<Rightarrow> StandardsFramework option" where
  "from_jurisdiction_id n = read_spelling frameworks jurisdiction_id n"

fun framework_name :: "StandardsFramework \<Rightarrow> string" where
  "framework_name CommonCore = ''Common Core State Standards''"
| "framework_name NextGenerationScience = ''Next Generation Science Standards''"
| "framework_name TexasEssentialKnowledgeAndSkills = ''Texas Essential Knowledge and Skills''"
| "framework_name VirginiaStandardsOfLearning = ''Virginia Standards of Learning''"

fun button_label :: "StandardsFramework \<Rightarrow> string" where
  "button_label CommonCore = ''Select CCSS''"
| "button_label NextGenerationScience = ''Select NGSS''"
| "button_label TexasEssentialKnowledgeAndSkills = ''Select TEKS''"
| "button_label VirginiaStandardsOfLearning = ''Select VA SOL''"

datatype TeachingDuration = TeachingDuration (duration_wire_id: u8)

definition TEACHING_DURATION_LABELS :: "string list" where
  "TEACHING_DURATION_LABELS =
     [''N/A'', ''30 Minutes'', ''40 Minutes'', ''45 Minutes'', ''50 Minutes'', ''55 Minutes'', ''1 Hour'',
      ''90 Minutes'', ''2 Hours'', ''3 Hours'', ''2 Days'', ''3 Days'', ''4 Days'', ''1 Week'', ''2 Weeks'',
      ''3 Weeks'', ''1 Month'', ''2 Months'', ''3 Months'', ''1 Semester'', ''1 Year'', ''Lifelong Tool'',
      ''Other'']"

definition DURATION_COUNT :: u8 where "DURATION_COUNT = 23"

definition duration_from_wire_id :: "u8 \<Rightarrow> TeachingDuration option" where
  "duration_from_wire_id n = (if n < DURATION_COUNT then Some (TeachingDuration n) else None)"

definition duration_label :: "TeachingDuration \<Rightarrow> string" where
  "duration_label d = TEACHING_DURATION_LABELS ! unat (duration_wire_id d)"

definition all_durations :: "TeachingDuration list" where
  "all_durations = map (\<lambda>n. TeachingDuration (of_nat n)) [0..<unat DURATION_COUNT]"

datatype AnswerKey =
  NotApplicable | Included | NotIncluded | DoesNotApply | IncludedWithRubric | RubricOnly

definition answer_keys :: "AnswerKey list" where
  "answer_keys = [NotApplicable, Included, NotIncluded, DoesNotApply, IncludedWithRubric, RubricOnly]"

fun answer_wire_id :: "AnswerKey \<Rightarrow> u8" where
  "answer_wire_id NotApplicable = 0"
| "answer_wire_id Included = 1"
| "answer_wire_id NotIncluded = 2"
| "answer_wire_id DoesNotApply = 3"
| "answer_wire_id IncludedWithRubric = 4"
| "answer_wire_id RubricOnly = 5"

fun menu_index :: "AnswerKey \<Rightarrow> u8" where
  "menu_index NotApplicable = 0"
| "menu_index Included = 1"
| "menu_index NotIncluded = 2"
| "menu_index IncludedWithRubric = 3"
| "menu_index RubricOnly = 4"
| "menu_index DoesNotApply = 5"

fun answer_label :: "AnswerKey \<Rightarrow> string" where
  "answer_label NotApplicable = ''N/A''"
| "answer_label Included = ''Included''"
| "answer_label NotIncluded = ''Not Included''"
| "answer_label DoesNotApply = ''Does Not Apply''"
| "answer_label IncludedWithRubric = ''Included with Rubric''"
| "answer_label RubricOnly = ''Rubric Only''"

definition answer_from_wire_id :: "u8 \<Rightarrow> AnswerKey option" where
  "answer_from_wire_id n = read_spelling answer_keys answer_wire_id n"

datatype CopyrightDeclaration = OriginalWork | UsedCopyrightedMaterials

definition declarations :: "CopyrightDeclaration list" where
  "declarations = [OriginalWork, UsedCopyrightedMaterials]"

fun declaration_wire_id :: "CopyrightDeclaration \<Rightarrow> u8" where
  "declaration_wire_id OriginalWork = 1"
| "declaration_wire_id UsedCopyrightedMaterials = 2"

definition declaration_from_wire_id :: "u8 \<Rightarrow> CopyrightDeclaration option" where
  "declaration_from_wire_id n = read_spelling declarations declaration_wire_id n"

fun statement :: "CopyrightDeclaration \<Rightarrow> string" where
  "statement OriginalWork =
     ''I attest that this product I am about to post is an original work and it ''
     @ ''does not infringe upon the Intellectual Property rights of others.''"
| "statement UsedCopyrightedMaterials =
     ''I attest that I have used copyrighted and/or trademarked materials in my ''
     @ ''product and it does not infringe upon the Intellectual Property rights of ''
     @ ''others. I have either received express permission to use such materials, or ''
     @ ''I hereby certify that the use of such materials is otherwise non-infringing, ''
     @ ''for example as a fair use.''"

definition COPYRIGHT_PREAMBLE :: string where
  "COPYRIGHT_PREAMBLE =
     ''Intellectual Property Rights: By uploading the selected ''
     @ ''material I certify that I have read and agree to the Teachers Pay Teachers terms of ''
     @ ''service and that the selected material does not infringe the copyrights, trademark ''
     @ ''rights, or any other rights of any third party, and:''"

datatype ListingStatus = LS_Draft | LS_Live

definition listing_statuses :: "ListingStatus list" where
  "listing_statuses = [LS_Draft, LS_Live]"

fun status_wire_id :: "ListingStatus \<Rightarrow> u8" where
  "status_wire_id LS_Draft = 0"
| "status_wire_id LS_Live = 1"

definition status_from_wire_id :: "u8 \<Rightarrow> ListingStatus option" where
  "status_from_wire_id n = read_spelling listing_statuses status_wire_id n"

subsection \<open>Fields\<close>

definition TITLE_MAX_UTF16_UNITS :: nat where "TITLE_MAX_UTF16_UNITS = 80"
definition FREE_RESOURCE_PAGE_GUIDANCE :: u32 where "FREE_RESOURCE_PAGE_GUIDANCE = 10"
definition ADDITIONAL_LICENCE_PERCENTAGE :: i64 where "ADDITIONAL_LICENCE_PERCENTAGE = 90"

datatype Picker = P_Grades | P_SubjectAreas | P_Tags | P_Formats | P_Thumbnails

datatype AuthoringError =
    NameMissing
  | AE_NameTooLong nat nat
  | EmptySlug
  | MalformedUploadRef
  | OverCapPicker Picker nat nat
  | PickerEmpty Picker
  | ThumbnailsWithoutUploadNow ThumbnailMode
  | PriceCurrencyMismatch
  | CopyrightUnstated

datatype ProductName = ProductName (product_name_str: string)
datatype FacetSlug = FacetSlug (slug_str: string)
datatype UploadRef = UploadRef (upload_str: string)

text \<open>\<open>encode_utf16().count()\<close>: a scalar value of four bytes takes two units.\<close>

definition utf16_units :: "string \<Rightarrow> nat" where
  "utf16_units s = sum_list (map (\<lambda>c. if length c = 4 then 2 else 1) (scalars s))"

definition product_name_new :: "string \<Rightarrow> AuthoringError + ProductName" where
  "product_name_new raw =
     (let trimmed = trim raw; used = utf16_units trimmed
      in if trimmed = [] then Inl NameMissing
         else if used > TITLE_MAX_UTF16_UNITS then Inl (AE_NameTooLong used TITLE_MAX_UTF16_UNITS)
         else Inr (ProductName trimmed))"

definition facet_slug_new :: "string \<Rightarrow> AuthoringError + FacetSlug" where
  "facet_slug_new raw =
     (let trimmed = trim raw in if trimmed = [] then Inl EmptySlug else Inr (FacetSlug trimmed))"

definition upload_ref_new :: "string \<Rightarrow> AuthoringError + UploadRef" where
  "upload_ref_new raw =
     (if length raw = 64
         \<and> list_all (\<lambda>c. ascii_digit c \<or> 97 \<le> (of_char c :: nat) \<and> (of_char c :: nat) \<le> 102) raw
      then Inr (UploadRef raw) else Inl MalformedUploadRef)"

record FileGroup =
  fg_payload :: UploadRef
  fg_preview :: "UploadRef option"
  fg_video_preview :: "UploadRef option"
  fg_thumbnail_mode :: ThumbnailMode
  fg_thumbnails :: "UploadRef list"

record PaidPrice =
  pp_price :: Money
  pp_additional_licence :: Money
  pp_bundle_discount :: "Money option"
  pp_tax_code :: TaxCode

datatype PriceGroup = PG_Free | PG_Paid PaidPrice

definition paid_price_new ::
  "Money \<Rightarrow> Money \<Rightarrow> Money option \<Rightarrow> TaxCode \<Rightarrow> AuthoringError + PaidPrice" where
  "paid_price_new price additional_licence bundle_discount tax_code =
     (if money_currency price \<noteq> money_currency additional_licence then Inl PriceCurrencyMismatch
      else if (case bundle_discount of None \<Rightarrow> False | Some amount \<Rightarrow> money_currency amount \<noteq> money_currency price)
      then Inl PriceCurrencyMismatch
      else Inr \<lparr>pp_price = price, pp_additional_licence = additional_licence,
                pp_bundle_discount = bundle_discount, pp_tax_code = tax_code\<rparr>)"

definition suggested_additional_licence :: "Money \<Rightarrow> Money option" where
  "suggested_additional_licence price =
     Option.bind (checked_signed 64 (minor_units price * ADDITIONAL_LICENCE_PERCENTAGE)) (\<lambda>product.
       case money_new (product div 100) (money_currency price) of Inl e \<Rightarrow> None | Inr m \<Rightarrow> Some m)"

record CategoryGroup =
  cg_grades :: "FacetSlug list"
  cg_subject_areas :: "FacetSlug list"
  cg_tags :: "FacetSlug list"
  cg_formats :: "FacetSlug list"
  cg_custom_categories :: "string list"
  cg_appropriate_for_country :: "bool option"

record StandardAlignment =
  sal_framework :: StandardsFramework
  sal_code :: string
  sal_tpt_node_id :: "u64 option"

record DetailGroup =
  dg_teaching_duration :: "TeachingDuration option"
  dg_pages_or_slides :: "u32 option"
  dg_answer_key :: "AnswerKey option"

record TptBaseProduct =
  tb_name :: ProductName
  tb_files :: FileGroup
  tb_description :: ListingCopy
  tb_price :: PriceGroup
  tb_categories :: CategoryGroup
  tb_standards :: "StandardAlignment list"
  tb_details :: DetailGroup
  tb_copyright :: "CopyrightDeclaration option"
  tb_status :: ListingStatus

subsection \<open>Validation\<close>

record SelectionCaps =
  sc_grades :: "nat option"
  sc_subject_areas :: "nat option"
  sc_tags :: "nat option"
  sc_formats :: "nat option"
  sc_thumbnails :: "nat option"

definition pickers :: "Picker list" where
  "pickers = [P_Grades, P_SubjectAreas, P_Tags, P_Formats, P_Thumbnails]"

fun picker_label :: "Picker \<Rightarrow> string" where
  "picker_label P_Grades = ''Grade Level''"
| "picker_label P_SubjectAreas = ''Subject Area''"
| "picker_label P_Tags = ''Tag''"
| "picker_label P_Formats = ''Format''"
| "picker_label P_Thumbnails = ''Thumbnails''"

fun cap_in :: "Picker \<Rightarrow> SelectionCaps \<Rightarrow> nat option" where
  "cap_in P_Grades caps = sc_grades caps"
| "cap_in P_SubjectAreas caps = sc_subject_areas caps"
| "cap_in P_Tags caps = sc_tags caps"
| "cap_in P_Formats caps = sc_formats caps"
| "cap_in P_Thumbnails caps = sc_thumbnails caps"

fun error_group :: "AuthoringError \<Rightarrow> FormGroup" where
  "error_group NameMissing = G_Name"
| "error_group (AE_NameTooLong used limit) = G_Name"
| "error_group MalformedUploadRef = G_Files"
| "error_group (ThumbnailsWithoutUploadNow mode) = G_Files"
| "error_group PriceCurrencyMismatch = G_Price"
| "error_group EmptySlug = G_Categories"
| "error_group (PickerEmpty picker) = G_Categories"
| "error_group (OverCapPicker picker chosen cap) = (if picker = P_Thumbnails then G_Files else G_Categories)"
| "error_group CopyrightUnstated = G_Copyright"

datatype AuthoringWarning = FreeResourceOverPageGuidance u32 u32

definition form_groups :: "FormGroup list" where
  "form_groups = [G_Name, G_Files, G_Description, G_Price, G_Categories, G_EducationStandards, G_Details,
     G_Copyright, G_ProductStatus]"

fun form_token :: "FormGroup \<Rightarrow> string" where
  "form_token G_Name = ''name''"
| "form_token G_Files = ''files''"
| "form_token G_Description = ''description''"
| "form_token G_Price = ''price''"
| "form_token G_Categories = ''categories''"
| "form_token G_EducationStandards = ''education_standards''"
| "form_token G_Details = ''details''"
| "form_token G_Copyright = ''copyright''"
| "form_token G_ProductStatus = ''product_status''"

record Report =
  rp_errors :: "AuthoringError list"
  rp_warnings :: "AuthoringWarning list"

definition submittable :: "Report \<Rightarrow> bool" where
  "submittable report \<longleftrightarrow> rp_errors report = []"

definition required_pickers :: "TptBaseProduct \<Rightarrow> (Picker \<times> FacetSlug list) list" where
  "required_pickers p =
     [(P_Grades, cg_grades (tb_categories p)), (P_SubjectAreas, cg_subject_areas (tb_categories p)),
      (P_Tags, cg_tags (tb_categories p))]"

definition counted_pickers :: "TptBaseProduct \<Rightarrow> (Picker \<times> nat) list" where
  "counted_pickers p =
     [(P_Grades, length (cg_grades (tb_categories p))),
      (P_SubjectAreas, length (cg_subject_areas (tb_categories p))),
      (P_Tags, length (cg_tags (tb_categories p))),
      (P_Formats, length (cg_formats (tb_categories p))),
      (P_Thumbnails, length (fg_thumbnails (tb_files p)))]"

definition over_cap :: "SelectionCaps \<Rightarrow> Picker \<times> nat \<Rightarrow> AuthoringError option" where
  "over_cap caps = (\<lambda>(picker, chosen).
     case cap_in picker caps of
       None \<Rightarrow> None
     | Some cap \<Rightarrow> if chosen > cap then Some (OverCapPicker picker chosen cap) else None)"

definition form_errors :: "TptBaseProduct \<Rightarrow> SelectionCaps \<Rightarrow> AuthoringError list" where
  "form_errors p caps =
     List.map_filter (\<lambda>(picker, chosen). if chosen = [] then Some (PickerEmpty picker) else None) (required_pickers p)
     @ List.map_filter (over_cap caps) (counted_pickers p)
     @ (if fg_thumbnails (tb_files p) \<noteq> [] \<and> fg_thumbnail_mode (tb_files p) \<noteq> UploadNow
        then [ThumbnailsWithoutUploadNow (fg_thumbnail_mode (tb_files p))] else [])
     @ (if tb_copyright p = None then [CopyrightUnstated] else [])"

definition form_warnings :: "TptBaseProduct \<Rightarrow> AuthoringWarning list" where
  "form_warnings p =
     (case (tb_price p, dg_pages_or_slides (tb_details p)) of
        (PG_Free, Some pages) \<Rightarrow>
          if pages > FREE_RESOURCE_PAGE_GUIDANCE
          then [FreeResourceOverPageGuidance pages FREE_RESOURCE_PAGE_GUIDANCE] else []
      | _ \<Rightarrow> [])"

definition check_form :: "TptBaseProduct \<Rightarrow> SelectionCaps \<Rightarrow> Report" where
  "check_form p caps = \<lparr>rp_errors = form_errors p caps, rp_warnings = form_warnings p\<rparr>"

definition body_format :: "TptBaseProduct \<Rightarrow> CopyFormat" where
  "body_format p = lc_format (tb_description p)"

subsection \<open>The canonical product\<close>

record ProductIdentity =
  pi_id :: ProductId
  pi_org :: OrgId
  pi_payload :: "PayloadSet option"
  pi_cover :: "ProductFile option"
  pi_previews :: "ProductFile list"
  pi_subjects :: "CanonicalTermId list"
  pi_derived_grades :: "AgeInterval option"
  pi_rights :: RightsDeclaration

definition tpt_path :: "TermKind \<Rightarrow> string \<Rightarrow> VocabularyPath" where
  "tpt_path kind slug =
     \<lparr>vp_vocabulary = VocabularyId Tpt kind, vp_segments = [slug], vp_native_id = Some slug\<rparr>"

definition residue :: "CategoryGroup \<Rightarrow> ImportedTerm list" where
  "residue categories =
     map (\<lambda>v. \<lparr>it_inventory = Tpt, it_kind = None, it_segments = [v], it_native_id = Some v\<rparr>)
       (map slug_str (cg_tags categories @ cg_formats categories) @ cg_custom_categories categories)"

definition into_canonical :: "TptBaseProduct \<Rightarrow> ProductIdentity \<Rightarrow> CanonicalProduct" where
  "into_canonical p i =
     \<lparr>cp_id = pi_id i, cp_org = pi_org i, cp_title = product_name_str (tb_name p),
      cp_body = tb_description p, cp_payload = pi_payload i, cp_cover = pi_cover i,
      cp_previews = pi_previews i, cp_subjects = pi_subjects i,
      cp_grades = \<lparr>gd_source = DeclSeller,
                   gd_raw = map (\<lambda>slug. tpt_path Phase (slug_str slug)) (cg_grades (tb_categories p)),
                   gd_derived = pi_derived_grades i\<rparr>,
      cp_price = (case tb_price p of PG_Free \<Rightarrow> Free | PG_Paid paid \<Rightarrow> Paid (pp_price paid)),
      cp_rights = pi_rights i, cp_native_residue = residue (tb_categories p)\<rparr>"

subsection \<open>The wire ids\<close>

text \<open>Each vocabulary is closed: no two members share a wire id, and a wire id reads back.\<close>

interpretation thumbnail_modes: closed_vocabulary thumbnail_modes thumbnail_wire_id
proof
  fix x show "x \<in> set thumbnail_modes" by (cases x) (simp_all add: thumbnail_modes_def)
qed (simp add: thumbnail_modes_def)

interpretation tax_codes: closed_vocabulary tax_codes tax_wire_id
proof
  fix x show "x \<in> set tax_codes" by (cases x) (simp_all add: tax_codes_def)
qed (simp add: tax_codes_def)

interpretation frameworks: closed_vocabulary frameworks jurisdiction_id
proof
  fix x show "x \<in> set frameworks" by (cases x) (simp_all add: frameworks_def)
qed (simp add: frameworks_def)

interpretation answer_keys: closed_vocabulary answer_keys answer_wire_id
proof
  fix x show "x \<in> set answer_keys" by (cases x) (simp_all add: answer_keys_def)
qed (simp add: answer_keys_def)

interpretation answer_menu: closed_vocabulary answer_keys menu_index
proof
  show "distinct (map menu_index answer_keys)" by (simp add: answer_keys_def)
qed (rule answer_keys.total)

interpretation declarations: closed_vocabulary declarations declaration_wire_id
proof
  fix x show "x \<in> set declarations" by (cases x) (simp_all add: declarations_def)
qed (simp add: declarations_def)

interpretation listing_statuses: closed_vocabulary listing_statuses status_wire_id
proof
  fix x show "x \<in> set listing_statuses" by (cases x) (simp_all add: listing_statuses_def)
qed (simp add: listing_statuses_def)

interpretation form_groups: closed_vocabulary form_groups form_token
proof
  fix x show "x \<in> set form_groups" by (cases x) (simp_all add: form_groups_def)
qed (simp add: form_groups_def)

lemma durations_closed: "n < DURATION_COUNT \<Longrightarrow> TeachingDuration n \<in> set all_durations"
  by (auto simp: all_durations_def image_iff word_less_nat_alt intro!: bexI [of _ "unat n"])

lemma durations_read: "set all_durations = {d. duration_from_wire_id (duration_wire_id d) = Some d}"
proof (intro set_eqI iffI)
  fix d assume "d \<in> set all_durations"
  then show "d \<in> {d. duration_from_wire_id (duration_wire_id d) = Some d}"
    by (auto simp: all_durations_def duration_from_wire_id_def DURATION_COUNT_def word_less_nat_alt unat_of_nat)
next
  fix d assume "d \<in> {d. duration_from_wire_id (duration_wire_id d) = Some d}"
  then show "d \<in> set all_durations"
    by (cases d) (auto simp: duration_from_wire_id_def durations_closed split: if_splits)
qed

text \<open>Every duration that can be read has a label of its own.\<close>

lemma duration_labels: "length TEACHING_DURATION_LABELS = unat DURATION_COUNT" "distinct TEACHING_DURATION_LABELS"
  by (simp_all add: TEACHING_DURATION_LABELS_def DURATION_COUNT_def)

lemma the_menu_is_not_the_wire: "menu_index k \<noteq> answer_wire_id k \<longleftrightarrow> k \<in> {DoesNotApply, IncludedWithRubric, RubricOnly}"
  by (cases k) simp_all

subsection \<open>Values\<close>

lemma product_name_iff: "product_name_new raw = Inr n \<longleftrightarrow>
   n = ProductName (trim raw) \<and> trim raw \<noteq> [] \<and> utf16_units (trim raw) \<le> TITLE_MAX_UTF16_UNITS"
  by (auto simp: product_name_new_def Let_def)

text \<open>
  A name is kept as the form would keep it: a name the constructor accepts is trimmed, not
  blank and at most eighty UTF-16 units, and reading it again gives the same name.
\<close>

theorem a_product_name_is_stable:
  assumes "product_name_new raw = Inr n"
  shows "product_name_new (product_name_str n) = Inr n \<and> product_name_str n \<noteq> []
    \<and> length (scalars (product_name_str n)) \<le> TITLE_MAX_UTF16_UNITS"
proof -
  from assms have n: "product_name_str n = trim raw" "n = ProductName (trim raw)" "trim raw \<noteq> []"
    and units: "utf16_units (trim raw) \<le> TITLE_MAX_UTF16_UNITS"
    by (auto simp: product_name_iff)
  have "length xs \<le> sum_list (map (\<lambda>c. if length c = 4 then 2 else 1) xs)" for xs :: "string list"
    by (induction xs) auto
  then have "length (scalars (trim raw)) \<le> utf16_units (trim raw)" by (simp add: utf16_units_def)
  with units n show ?thesis by (auto simp: product_name_iff trim_idem)
qed

lemma facet_slug_stable: "facet_slug_new raw = Inr s \<Longrightarrow> facet_slug_new (slug_str s) = Inr s"
  by (auto simp: facet_slug_new_def Let_def trim_idem split: if_splits)

lemma upload_ref_iff: "upload_ref_new raw = Inr r \<longleftrightarrow>
   r = UploadRef raw \<and> length raw = 64
   \<and> (\<forall>c\<in>set raw. ascii_digit c \<or> 97 \<le> (of_char c :: nat) \<and> (of_char c :: nat) \<le> 102)"
  by (auto simp: upload_ref_new_def list_all_iff)

lemma one_currency_throughout:
  assumes "paid_price_new p l d t = Inr paid"
  shows "money_currency (pp_additional_licence paid) = money_currency (pp_price paid)
    \<and> (\<forall>m. pp_bundle_discount paid = Some m \<longrightarrow> money_currency m = money_currency (pp_price paid))"
  using assms by (auto simp: paid_price_new_def split: if_splits option.splits)

text \<open>
  The suggested licence never exceeds the price and is never invented: it is nine tenths of the
  price rounded down, in the price's currency, and it is absent exactly when that is nothing or the
  product leaves the 64-bit range.
\<close>

theorem the_suggested_licence_is_a_discount:
  assumes "0 < minor_units price"
  shows "(case suggested_additional_licence price of
      Some m \<Rightarrow> money_currency m = money_currency price \<and> 0 < minor_units m \<and> minor_units m < minor_units price
        \<and> 10 * minor_units m \<le> 9 * minor_units price \<and> 9 * minor_units price < 10 * minor_units m + 10
    | None \<Rightarrow> minor_units price = 1 \<or> \<not> in_signed 64 (minor_units price * 90))"
proof -
  have "minor_units price * 90 div 100 = minor_units price * 9 div 10"
    by (simp flip: div_mult_mult1 [of 10 "minor_units price * 9" 10])
  with assms show ?thesis
    by (auto simp: suggested_additional_licence_def ADDITIONAL_LICENCE_PERCENTAGE_def checked_signed_def money_new_def)
qed

subsection \<open>The check\<close>

text \<open>What is wrong with a form, stated control by control.\<close>

fun chosen_in :: "Picker \<Rightarrow> TptBaseProduct \<Rightarrow> nat" where
  "chosen_in P_Grades p = length (cg_grades (tb_categories p))"
| "chosen_in P_SubjectAreas p = length (cg_subject_areas (tb_categories p))"
| "chosen_in P_Tags p = length (cg_tags (tb_categories p))"
| "chosen_in P_Formats p = length (cg_formats (tb_categories p))"
| "chosen_in P_Thumbnails p = length (fg_thumbnails (tb_files p))"

fun fault :: "TptBaseProduct \<Rightarrow> SelectionCaps \<Rightarrow> AuthoringError \<Rightarrow> bool" where
  "fault p caps (PickerEmpty k) \<longleftrightarrow> k \<in> {P_Grades, P_SubjectAreas, P_Tags} \<and> chosen_in k p = 0"
| "fault p caps (OverCapPicker k n c) \<longleftrightarrow> cap_in k caps = Some c \<and> n = chosen_in k p \<and> c < n"
| "fault p caps (ThumbnailsWithoutUploadNow m) \<longleftrightarrow>
     m = fg_thumbnail_mode (tb_files p) \<and> m \<noteq> UploadNow \<and> chosen_in P_Thumbnails p \<noteq> 0"
| "fault p caps CopyrightUnstated \<longleftrightarrow> tb_copyright p = None"
| "fault p caps e \<longleftrightarrow> False"

lemma counted_pickers_are: "counted_pickers p = map (\<lambda>k. (k, chosen_in k p)) pickers"
  by (simp add: counted_pickers_def pickers_def)

lemma pickers_all: "k \<in> set pickers"
  by (cases k) (simp_all add: pickers_def)

lemma pickers_distinct: "distinct pickers"
  by (simp add: pickers_def)

lemma map_filter_set: "y \<in> set (List.map_filter f xs) \<longleftrightarrow> (\<exists>x\<in>set xs. f x = Some y)"
  by (force simp: map_filter_def)

lemma over_cap_errors: "e \<in> set (List.map_filter (over_cap caps) (counted_pickers p)) \<longleftrightarrow>
   (\<exists>k c. e = OverCapPicker k (chosen_in k p) c \<and> cap_in k caps = Some c \<and> c < chosen_in k p)"
  by (auto simp: map_filter_set counted_pickers_are over_cap_def pickers_all split: option.splits)

lemma empty_errors: "e \<in> set (List.map_filter (\<lambda>(picker, chosen). if chosen = [] then Some (PickerEmpty picker) else None)
     (required_pickers p)) \<longleftrightarrow>
   (\<exists>k. e = PickerEmpty k \<and> k \<in> {P_Grades, P_SubjectAreas, P_Tags} \<and> chosen_in k p = 0)"
  by (auto simp: map_filter_set required_pickers_def)

lemma fault_errors: "e \<in> set (form_errors p caps) \<longleftrightarrow> fault p caps e"
  by (cases e) (auto simp: form_errors_def over_cap_errors empty_errors)

text \<open>
  C33. The form says everything that is wrong with it at once, and nothing else: the errors of a
  check are exactly the faults of its controls. A control with a cap nobody measured contributes
  none, and no fault of one control hides another's.
\<close>

theorem the_check_reports_every_fault:
  "e \<in> set (rp_errors (check_form p caps)) \<longleftrightarrow> fault p caps e"
  by (simp add: check_form_def fault_errors)

text \<open>A form is submittable exactly when no control is at fault; a warning never withholds it.\<close>

lemma submittable_iff: "submittable (check_form p caps) \<longleftrightarrow> (\<forall>e. \<not> fault p caps e)"
  using fault_errors [of _ p caps] by (auto simp: submittable_def check_form_def)
    (metis list.set_intros(1) neq_Nil_conv)

subsection \<open>The derivation\<close>

text \<open>
  The categories no canonical field holds are all in the residue, in order and verbatim; so two
  forms with one canonical product agree on everything but the fields it has no place for.
\<close>

lemma residue_verbatim: "map it_segments (residue c) =
   map (\<lambda>s. [s]) (map slug_str (cg_tags c) @ map slug_str (cg_formats c) @ cg_custom_categories c)"
  by (simp add: residue_def)

lemma slug_str_inj: "map slug_str xs = map slug_str ys \<longleftrightarrow> xs = ys"
  by (rule inj_map_eq_map) (simp add: inj_def FacetSlug.expand)

lemma grades_kept: "map tpt_slug xs = map tpt_slug ys \<Longrightarrow> xs = ys"
  if "tpt_slug = (\<lambda>slug. tpt_path Phase (slug_str slug))"
  using that by (auto simp: inj_def FacetSlug.expand tpt_path_def dest!: map_injective)

lemma canonical_determines:
  assumes "into_canonical p i = into_canonical q j"
  shows "tb_name p = tb_name q" "tb_description p = tb_description q" "i = j"
    "cg_grades (tb_categories p) = cg_grades (tb_categories q)"
  using assms grades_kept [OF refl]
  by (auto simp: into_canonical_def ProductName.expand ProductIdentity.equality)

end
