(* ===== verification/Fingerprint.thy ===== *)
theory Fingerprint
  imports Complex_Main "HOL-Library.List_Lexorder" "HOL-Library.Char_ord" SellerText
begin

section \<open>Fingerprints of a resource (crate tam-fingerprint)\<close>

text \<open>
  The sketches a device measures of a file and of a title, and the comparisons over them. The two
  BLAKE3 hashes are parameters, as are Unicode's lower case and alphanumeric property and the
  readers of a PDF and of a picture, which belong to other crates. A quotient of two counts is
  kept exact (\<open>rat\<close>): the source takes it of 16-bit integers in single precision and only
  compares it with a threshold, from which no other such quotient is as close as that precision.
\<close>

type_synonym u16 = "16 word"
type_synonym f32 = rat

definition FINGERPRINT_VERSION :: u16 where "FINGERPRINT_VERSION = 1"
definition MINHASH_K :: nat where "MINHASH_K = 128"
definition MINHASH_BYTES :: nat where "MINHASH_BYTES = MINHASH_K * 4"
definition SHINGLE_WORDS :: nat where "SHINGLE_WORDS = 5"
definition TEXT_BYTES_MAX :: nat where "TEXT_BYTES_MAX = 32 * 1024 * 1024"
definition TITLE_NORM_MAX :: nat where "TITLE_NORM_MAX = 400"

text \<open>\<open>minhash\<close> is an array of \<open>MINHASH_K\<close> hashes.\<close>

record TextSketch =
  ts_simhash :: u64
  ts_minhash :: "u32 list"
  ts_shingle_count :: u32
  ts_extracted_chars :: u32

record Fingerprint =
  fp_version :: u16
  fp_text :: "TextSketch option"
  fp_page_count :: "u32 option"
  fp_cover_phash :: "u64 option"
  fp_title_norm :: string

text \<open>
  The parameters: \<open>char::is_alphanumeric\<close> and \<open>char::to_lowercase\<close> on an encoded scalar value,
  \<open>str::to_lowercase\<close>, and the first bytes of BLAKE3 as the source reads them, little-endian.
\<close>

record Measures =
  tx_alphanumeric :: "string \<Rightarrow> bool"
  tx_lower_char :: "string \<Rightarrow> string"
  tx_lowercase :: "string \<Rightarrow> string"
  tx_hash :: "string \<Rightarrow> u64"
  tx_keyed_hash :: "u8 list \<Rightarrow> string \<Rightarrow> u32"

subsection \<open>Words\<close>

text \<open>\<open>split_whitespace\<close> on scalar values: the maximal runs without white space.\<close>

fun words_from :: "string list \<Rightarrow> string list \<Rightarrow> string list" where
  "words_from run [] = (if run = [] then [] else [concat (rev run)])"
| "words_from run (c # cs) =
     (if c \<in> set white_space then (if run = [] then [] else [concat (rev run)]) @ words_from [] cs
      else words_from (c # run) cs)"

definition split_whitespace :: "string \<Rightarrow> string list" where
  "split_whitespace s = words_from [] (scalars s)"

text \<open>\<open>slice::windows\<close>, and the sort and removal of duplicates of a list of texts.\<close>

fun windows :: "nat \<Rightarrow> 'a list \<Rightarrow> 'a list list" where
  "windows n [] = []"
| "windows n (x # xs) = (if n \<le> Suc (length xs) then take n (x # xs) # windows n xs else [])"

definition sorted_set :: "string list \<Rightarrow> string list" where
  "sorted_set xs = remdups_adj (sort xs)"

definition shingle_word :: "Measures \<Rightarrow> string \<Rightarrow> string" where
  "shingle_word ms word = concat (map (tx_lower_char ms) (filter (tx_alphanumeric ms) (scalars word)))"

definition shingle_texts :: "Measures \<Rightarrow> string \<Rightarrow> string list" where
  "shingle_texts ms text =
     (let ws = filter (\<lambda>w. w \<noteq> []) (map (shingle_word ms) (split_whitespace text))
      in map (join_with '' '') (windows SHINGLE_WORDS ws))"

definition shingles :: "Measures \<Rightarrow> string \<Rightarrow> string list" where
  "shingles ms text = sorted_set (shingle_texts ms text)"

subsection \<open>Sketches\<close>

definition permutation_key :: "nat \<Rightarrow> u8 list" where
  "permutation_key index =
     (let i = min index 65535 in of_nat (i mod 256) # of_nat (i div 256) # replicate 30 0)"

definition minhash_slot :: "Measures \<Rightarrow> string list \<Rightarrow> nat \<Rightarrow> u32" where
  "minhash_slot ms shs index =
     foldl (\<lambda>slot sh. min slot (tx_keyed_hash ms (permutation_key index) sh)) 4294967295 shs"

definition minhash :: "Measures \<Rightarrow> string list \<Rightarrow> u32 list" where
  "minhash ms shs = map (minhash_slot ms shs) [0..<MINHASH_K]"

definition vote :: "Measures \<Rightarrow> nat \<Rightarrow> string \<Rightarrow> i32" where
  "vote ms k sh = (if bit (tx_hash ms sh) k then 1 else - 1)"

definition votes :: "Measures \<Rightarrow> string list \<Rightarrow> nat \<Rightarrow> i32" where
  "votes ms shs k = foldl (\<lambda>v sh. v + vote ms k sh) 0 shs"

definition simhash :: "Measures \<Rightarrow> string list \<Rightarrow> u64" where
  "simhash ms shs = foldl (\<lambda>h k. if votes ms shs k > 0 then h OR push_bit k 1 else h) 0 [0..<64]"

definition sketch_of :: "Measures \<Rightarrow> string \<Rightarrow> TextSketch" where
  "sketch_of ms text =
     (let shs = shingles ms text
      in \<lparr>ts_simhash = simhash ms shs, ts_minhash = minhash ms shs,
          ts_shingle_count = u32_of_len (length shs),
          ts_extracted_chars = u32_of_len (length (scalars text))\<rparr>)"

subsection \<open>Titles\<close>

text \<open>\<open>str::replace\<close> of a non-empty needle, leftmost first, without overlaps.\<close>

function replace_all :: "string \<Rightarrow> string \<Rightarrow> string \<Rightarrow> string" where
  "replace_all needle by [] = []"
| "replace_all needle by (c # cs) =
     (if needle \<noteq> [] \<and> take (length needle) (c # cs) = needle
      then by @ replace_all needle by (drop (length needle) (c # cs))
      else c # replace_all needle by cs)"
  by pat_completeness auto
termination
  by (relation "measure (\<lambda>(needle, by, s). length s)") (auto simp: neq_Nil_conv)

definition title_markers :: "string list" where
  "title_markers = [''| tpt'', ''- tpt'', ''| tes'', ''(tes)'', ''(tpt)'']"

definition normalise_title :: "Measures \<Rightarrow> string \<Rightarrow> string" where
  "normalise_title ms title =
     (let text = foldl (\<lambda>text marker. replace_all marker '' '' text) (tx_lowercase ms title) title_markers;
          stripped = concat (map (\<lambda>c. if tx_alphanumeric ms c then c else '' '') (scalars text));
          collapsed = join_with '' '' (split_whitespace stripped)
      in concat (take TITLE_NORM_MAX (scalars collapsed)))"

definition of_title :: "Measures \<Rightarrow> string \<Rightarrow> Fingerprint" where
  "of_title ms title =
     \<lparr>fp_version = FINGERPRINT_VERSION, fp_text = None, fp_page_count = None, fp_cover_phash = None,
      fp_title_norm = normalise_title ms title\<rparr>"

text \<open>
  \<open>fingerprint\<close>, where \<open>read_pdf\<close> answers what the worker thread does of a PDF within its size
  cap, and \<open>phash\<close> hashes a decoded picture.
\<close>

definition read_pdf :: "(u8 list \<Rightarrow> TextSketch option \<times> u32 option) \<Rightarrow> u8 list \<Rightarrow> TextSketch option \<times> u32 option" where
  "read_pdf worker bytes = (if length bytes > TEXT_BYTES_MAX then (None, None) else worker bytes)"

definition fingerprint ::
  "Measures \<Rightarrow> (u8 list \<Rightarrow> TextSketch option \<times> u32 option) \<Rightarrow> (u8 list \<Rightarrow> u64 option)
     \<Rightarrow> FileKind \<Rightarrow> u8 list \<Rightarrow> string \<Rightarrow> u8 list option \<Rightarrow> Fingerprint" where
  "fingerprint ms worker phash kind bytes title cover_png =
     (let (text, page_count) = (if kind = Pdf then read_pdf worker bytes else (None, None));
          cover = (if kind = Image then Option.bind cover_png phash else None)
      in \<lparr>fp_version = FINGERPRINT_VERSION, fp_text = text, fp_page_count = page_count,
          fp_cover_phash = cover, fp_title_norm = normalise_title ms title\<rparr>)"

subsection \<open>Comparisons\<close>

definition simhash_bands :: "u64 \<Rightarrow> u16 list" where
  "simhash_bands hash = [ucast hash, ucast (drop_bit 16 hash), ucast (drop_bit 32 hash), ucast (drop_bit 48 hash)]"

definition hamming :: "u64 \<Rightarrow> u64 \<Rightarrow> u32" where
  "hamming left right = of_nat (length (filter (bit (left XOR right)) [0..<64]))"

text \<open>\<open>u16::try_from(n).unwrap_or(u16::MAX)\<close>.\<close>

definition u16_of_len :: "nat \<Rightarrow> nat" where
  "u16_of_len n = min n 65535"

definition ratio :: "nat \<Rightarrow> nat \<Rightarrow> f32" where
  "ratio part whole =
     (if whole = 0 then 0 else of_nat (u16_of_len part) / of_nat (u16_of_len whole))"

definition minhash_jaccard :: "u32 list \<Rightarrow> u32 list \<Rightarrow> f32" where
  "minhash_jaccard left right =
     ratio (length (filter (\<lambda>(one, other). one = other) (zip left right))) MINHASH_K"

definition token_set :: "Measures \<Rightarrow> string \<Rightarrow> string list" where
  "token_set ms title = sorted_set (split_whitespace (normalise_title ms title))"

definition token_jaccard :: "Measures \<Rightarrow> string \<Rightarrow> string \<Rightarrow> f32" where
  "token_jaccard ms left right =
     (let one = token_set ms left; other = token_set ms right;
          shared = length (filter (\<lambda>t. t \<in> set other) one)
      in ratio shared (length one + length other - shared))"

subsection \<open>The bytes of a sketch\<close>

definition le_bytes :: "u32 \<Rightarrow> u8 list" where
  "le_bytes h = [ucast h, ucast (drop_bit 8 h), ucast (drop_bit 16 h), ucast (drop_bit 24 h)]"

definition from_le_bytes :: "u8 list \<Rightarrow> u32" where
  "from_le_bytes bs =
     ucast (bs ! 0) OR push_bit 8 (ucast (bs ! 1)) OR push_bit 16 (ucast (bs ! 2)) OR push_bit 24 (ucast (bs ! 3))"

definition minhash_bytes :: "u32 list \<Rightarrow> u8 list" where
  "minhash_bytes sketch = concat (map le_bytes sketch)"

fun le_words :: "u8 list \<Rightarrow> u32 list" where
  "le_words (a # b # c # d # rest) = from_le_bytes [a, b, c, d] # le_words rest"
| "le_words bs = []"

definition minhash_from_bytes :: "u8 list \<Rightarrow> u32 list option" where
  "minhash_from_bytes bytes = (if length bytes \<noteq> MINHASH_BYTES then None else Some (le_words bytes))"

lemma octets:
  fixes n :: nat
  assumes "n < 32"
  obtains "n < 8" | "8 \<le> n" "n < 16" | "16 \<le> n" "n < 24" | "24 \<le> n"
  using assms by linarith

lemma from_to_le: "from_le_bytes (le_bytes h) = h"
proof (rule bit_word_eqI)
  fix n assume "n < LENGTH(32)"
  then have n: "n < 32" by simp
  from n show "bit (from_le_bytes (le_bytes h)) n = bit h n"
    using n by (cases n rule: octets) (auto simp: from_le_bytes_def le_bytes_def bit_simps)
qed

lemma byte_at:
  fixes a b c d :: u8
  defines "h \<equiv> from_le_bytes [a, b, c, d]"
  shows "ucast h = a" "ucast (drop_bit 8 h) = b" "ucast (drop_bit 16 h) = c" "ucast (drop_bit 24 h) = d"
  by (rule bit_word_eqI; auto simp: h_def from_le_bytes_def bit_simps dest: bit_imp_le_length)+

lemma to_from_le: "le_bytes (from_le_bytes [a, b, c, d]) = [a, b, c, d]"
  by (simp add: le_bytes_def byte_at)

lemma le_words_Cons: "le_words (le_bytes h @ bs) = h # le_words bs"
  using from_to_le [of h] by (simp add: le_bytes_def)

lemma le_words_bytes: "le_words (minhash_bytes sketch) = sketch"
  by (induction sketch) (simp_all add: minhash_bytes_def le_words_Cons)

lemma bytes_le_words: "length bs mod 4 = 0 \<Longrightarrow> minhash_bytes (le_words bs) = bs"
  by (induction bs rule: le_words.induct) (simp_all add: minhash_bytes_def to_from_le)

lemma length_minhash_bytes: "length (minhash_bytes sketch) = 4 * length sketch"
  by (induction sketch) (simp_all add: minhash_bytes_def le_bytes_def)

text \<open>
  A sketch has one spelling: its 512 bytes read back as the sketch, anything else of another
  length is refused, and no two sketches have the same bytes.
\<close>

theorem a_minhash_has_one_spelling:
  "minhash_from_bytes bytes = Some sketch
     \<longleftrightarrow> length sketch = MINHASH_K \<and> minhash_bytes sketch = bytes"
proof (intro iffI conjI)
  assume "length sketch = MINHASH_K \<and> minhash_bytes sketch = bytes"
  then show "minhash_from_bytes bytes = Some sketch"
    by (auto simp: minhash_from_bytes_def MINHASH_BYTES_def length_minhash_bytes le_words_bytes)
next
  assume found: "minhash_from_bytes bytes = Some sketch"
  then have "length bytes = MINHASH_BYTES" "sketch = le_words bytes"
    by (auto simp: minhash_from_bytes_def split: if_splits)
  then show "minhash_bytes sketch = bytes"
    by (simp add: bytes_le_words MINHASH_BYTES_def)
  with \<open>length bytes = MINHASH_BYTES\<close> length_minhash_bytes [of sketch]
  show "length sketch = MINHASH_K" by (simp add: MINHASH_BYTES_def)
qed

subsection \<open>What the sketches mean\<close>

lemma sorted_remdups_adj_distinct: "sorted xs \<Longrightarrow> distinct (remdups_adj xs)" for xs :: "'a::linorder list"
  by (induction xs rule: remdups_adj.induct) auto

lemma sorted_set_unique: "set xs = set ys \<Longrightarrow> sorted_set xs = sorted_set ys"
  unfolding sorted_set_def
  by (rule sorted_distinct_set_unique) (simp_all add: sorted_remdups_adj_distinct)

text \<open>
  A sketch is of a set of shingles. Two texts with the same five-word shingles, in whatever
  order and however often, have the same hashes and the same count; so a document that repeats a
  phrase weighs it once.
\<close>

theorem a_sketch_is_of_a_set:
  assumes "set (shingle_texts ms a) = set (shingle_texts ms b)"
  shows "ts_simhash (sketch_of ms a) = ts_simhash (sketch_of ms b)
    \<and> ts_minhash (sketch_of ms a) = ts_minhash (sketch_of ms b)
    \<and> ts_shingle_count (sketch_of ms a) = ts_shingle_count (sketch_of ms b)"
proof -
  have "shingles ms a = shingles ms b"
    unfolding shingles_def by (rule sorted_set_unique [OF assms])
  then show ?thesis by (simp add: sketch_of_def Let_def)
qed

text \<open>The bits in which two hashes differ.\<close>

lemma hamming_card: "unat (hamming a b) = card {k. k < 64 \<and> bit a k \<noteq> bit b k}"
proof -
  let ?xs = "filter (bit (a XOR b)) [0..<64]"
  have "length ?xs = card (set ?xs)" by (simp only: distinct_card distinct_filter distinct_upt)
  also have "set ?xs = {k. k < 64 \<and> bit a k \<noteq> bit b k}" by (auto simp: bit_simps)
  finally have len: "length ?xs = card {k. k < 64 \<and> bit a k \<noteq> bit b k}" .
  have "length ?xs \<le> 64" using length_filter_le [of _ "[0..<64]"] by simp
  then show ?thesis using len by (simp add: hamming_def unat_of_nat)
qed

lemma band_differs:
  fixes a b :: u64
  assumes "simhash_bands a ! i \<noteq> simhash_bands b ! i" "i < 4"
  obtains k where "16 * i \<le> k" "k < 16 * i + 16" "bit a k \<noteq> bit b k"
proof -
  have band: "simhash_bands h ! i = ucast (drop_bit (16 * i) h)" for h
    using assms(2) by (auto simp: simhash_bands_def less_Suc_eq numeral_eq_Suc)
  then obtain n where "n < 16" "bit (drop_bit (16 * i) a) n \<noteq> bit (drop_bit (16 * i) b) n"
    using assms(1) by (auto simp: bit_eq_iff bit_simps)
  then show ?thesis using that [of "16 * i + n"] by (simp add: bit_simps)
qed

text \<open>
  The banded index misses nothing. Two hashes at most three bits apart agree on one of their
  four bands, so four equality look-ups find every candidate a scan would.
\<close>

theorem near_hashes_share_a_band:
  assumes "hamming a b \<le> 3"
  shows "\<exists>i<4. simhash_bands a ! i = simhash_bands b ! i"
proof (rule ccontr)
  assume "\<not> ?thesis"
  then have "\<forall>i\<in>{..<4}. \<exists>k. 16 * i \<le> k \<and> k < 16 * i + 16 \<and> bit a k \<noteq> bit b k"
    using band_differs by (metis lessThan_iff)
  then obtain f where f: "\<And>i. i < 4 \<Longrightarrow> 16 * i \<le> f i \<and> f i < 16 * i + 16 \<and> bit a (f i) \<noteq> bit b (f i)"
    by (metis lessThan_iff)
  have "inj_on f {..<4}"
  proof (rule inj_onI)
    fix i j assume "i \<in> {..<4}" "j \<in> {..<4}" "f i = f j"
    with f [of i] f [of j] show "i = j" by simp
  qed
  then have "card (f ` {..<4}) = 4" by (simp add: card_image)
  moreover have "f ` {..<4} \<subseteq> {k. k < 64 \<and> bit a k \<noteq> bit b k}" using f by fastforce
  then have "card (f ` {..<4}) \<le> unat (hamming a b)"
    unfolding hamming_card by (intro card_mono) auto
  moreover have "unat (hamming a b) \<le> 3" using assms by (simp add: word_le_nat_alt)
  ultimately show False by simp
qed

theorem near_hashes_share_a_band_witness:
  "hamming 0x0001000100010000 0 \<le> 3 \<and> (\<exists>i<4. simhash_bands 0x0001000100010000 ! i = simhash_bands 0 ! i)"
proof -
  have "hamming 0x0001000100010000 0 \<le> 3" by code_simp
  with near_hashes_share_a_band [OF this] show ?thesis by blast
qed

text \<open>Four bits apart, one in each band, are missed: three is the most the index can promise.\<close>

lemma four_bits_can_be_missed:
  "hamming 0x0001000100010001 0 = 4 \<and> list_all2 (\<noteq>) (simhash_bands 0x0001000100010001) (simhash_bands 0)"
  by code_simp

lemma ratio_unit: "part \<le> whole \<Longrightarrow> 0 \<le> ratio part whole \<and> ratio part whole \<le> 1"
  by (auto simp: ratio_def u16_of_len_def divide_le_eq_1 zero_le_divide_iff)

lemma minhash_jaccard_self: "length s = MINHASH_K \<Longrightarrow> minhash_jaccard s s = 1"
  by (simp add: minhash_jaccard_def zip_same_conv_map filter_map o_def ratio_def u16_of_len_def MINHASH_K_def)

lemma minhash_jaccard_commute: "minhash_jaccard a b = minhash_jaccard b a"
proof -
  have "length (filter (\<lambda>(x, y). x = y) (zip a b)) = length (filter (\<lambda>(x, y). x = y) (zip b a))"
    by (induction a b rule: list_induct2') auto
  then show ?thesis by (simp add: minhash_jaccard_def)
qed

end
