(* ===== verification/Matcher.thy ===== *)
theory Matcher
  imports Fingerprint Domain Vocabulary
begin

section \<open>Whether two resources are the same (crate tam-api, matcher.rs)\<close>

text \<open>
  The scorer of the duplicate matcher, layer by layer, the outcome a score earns, and the loop that
  decides one resource against the candidates the storage answers. Every log-odds weight is a
  multiple of a half, so the sum of the source's single-precision floats is exact, and so is the
  \<open>rat\<close> here. The storage reads of \<open>tam-storage\<close>, the rounding of a byte length to single precision
  and the formatted size are parameters; the plain records of \<open>tam-storage\<close> they carry are here.
\<close>

subsection \<open>What the layers record (tam-storage)\<close>

datatype MatchVerdict = V_Same | V_Different | V_Parked
datatype DecidedBy = By_Seller | By_System
datatype MatchLayer = L1 | L1b | L2 | L3 | L4 | L5
datatype Polarity = Positive | Negative
datatype EvidenceUnit = U_Jaccard | U_Hamming | U_Bytes | U_Ratio | U_Count

definition match_layers :: "MatchLayer list" where
  "match_layers = [L1, L1b, L2, L3, L4, L5]"

fun verdict_str :: "MatchVerdict \<Rightarrow> string" where
  "verdict_str V_Same = ''same''"
| "verdict_str V_Different = ''different''"
| "verdict_str V_Parked = ''parked''"

definition verdict_from_db :: "string \<Rightarrow> MatchVerdict option" where
  "verdict_from_db raw = read_spelling [V_Same, V_Different, V_Parked] verdict_str raw"

fun decided_by_str :: "DecidedBy \<Rightarrow> string" where
  "decided_by_str By_Seller = ''seller''"
| "decided_by_str By_System = ''system''"

definition decided_by_from_db :: "string \<Rightarrow> DecidedBy option" where
  "decided_by_from_db raw = read_spelling [By_Seller, By_System] decided_by_str raw"

fun layer_str :: "MatchLayer \<Rightarrow> string" where
  "layer_str L1 = ''l1''"
| "layer_str L1b = ''l1b''"
| "layer_str L2 = ''l2''"
| "layer_str L3 = ''l3''"
| "layer_str L4 = ''l4''"
| "layer_str L5 = ''l5''"

definition layer_from_db :: "string \<Rightarrow> MatchLayer option" where
  "layer_from_db raw = read_spelling match_layers layer_str raw"

fun polarity_str :: "Polarity \<Rightarrow> string" where
  "polarity_str Positive = ''positive''"
| "polarity_str Negative = ''negative''"

definition polarity_from_db :: "string \<Rightarrow> Polarity option" where
  "polarity_from_db raw = read_spelling [Positive, Negative] polarity_str raw"

fun unit_str :: "EvidenceUnit \<Rightarrow> string" where
  "unit_str U_Jaccard = ''jaccard''"
| "unit_str U_Hamming = ''hamming''"
| "unit_str U_Bytes = ''bytes''"
| "unit_str U_Ratio = ''ratio''"
| "unit_str U_Count = ''count''"

definition unit_from_db :: "string \<Rightarrow> EvidenceUnit option" where
  "unit_from_db raw = read_spelling [U_Jaccard, U_Hamming, U_Bytes, U_Ratio, U_Count] unit_str raw"

text \<open>The stored spellings are closed vocabularies; a spelling outside one is a corrupt row.\<close>

interpretation verdict_strs: closed_vocabulary "[V_Same, V_Different, V_Parked]" verdict_str
proof
  fix x show "x \<in> set [V_Same, V_Different, V_Parked]" by (cases x) simp_all
qed simp

interpretation decided_by_strs: closed_vocabulary "[By_Seller, By_System]" decided_by_str
proof
  fix x show "x \<in> set [By_Seller, By_System]" by (cases x) simp_all
qed simp

interpretation layer_strs: closed_vocabulary match_layers layer_str
proof
  fix x show "x \<in> set match_layers" by (cases x) (simp_all add: match_layers_def)
qed (simp add: match_layers_def)

interpretation polarity_strs: closed_vocabulary "[Positive, Negative]" polarity_str
proof
  fix x show "x \<in> set [Positive, Negative]" by (cases x) simp_all
qed simp

interpretation unit_strs: closed_vocabulary "[U_Jaccard, U_Hamming, U_Bytes, U_Ratio, U_Count]" unit_str
proof
  fix x show "x \<in> set [U_Jaccard, U_Hamming, U_Bytes, U_Ratio, U_Count]" by (cases x) simp_all
qed simp

record Evidence =
  evi_layer :: MatchLayer
  evi_polarity :: Polarity
  evi_measure :: f32
  evi_unit :: EvidenceUnit
  evi_observed_in :: "string option"

record TextSketchColumns =
  tsc_simhash :: i64
  tsc_minhash :: "u8 list"
  tsc_shingle_count :: i32
  tsc_extracted_chars :: i32
  tsc_bands :: "int list"

record CandidateSketch =
  cs_product :: ProductId
  cs_title :: string
  cs_price :: PriceIntent
  cs_text :: "TextSketchColumns option"
  cs_page_count :: "i32 option"
  cs_cover_phash :: "i64 option"
  cs_title_norm :: string
  cs_title_similarity :: f32

record PayloadDigest =
  pd_product :: ProductId
  pd_digest :: ContentHash
  pd_byte_len :: u64
  pd_name :: "string option"

record ProductMeta =
  pm_product :: ProductId
  pm_subjects :: "Uuid list"
  pm_grade_low :: "int option"
  pm_grade_high :: "int option"
  pm_marketplaces :: "Marketplace list"

subsection \<open>The two sides of a pair\<close>

definition REVIEW_FLOOR :: f32 where "REVIEW_FLOOR = 3"
definition L1_MIN_BYTES :: u64 where "L1_MIN_BYTES = 50 * 1024"
definition COMMON_VALUE_MAX :: u32 where "COMMON_VALUE_MAX = 2"
definition L1_LOG_ODDS :: f32 where "L1_LOG_ODDS = 6"

record TextFacts =
  tf_simhash :: u64
  tf_minhash :: "u32 list"
  tf_extracted_chars :: u32

record SideFile =
  sf_digest :: ContentHash
  sf_byte_len :: u64
  sf_name :: "string option"

record Side =
  si_title :: string
  si_title_norm :: string
  si_price :: "Money option"
  si_text :: "TextFacts option"
  si_page_count :: "u32 option"
  si_cover_phash :: "u64 option"
  si_subjects :: "Uuid list"
  si_grade_low :: "int option"
  si_grade_high :: "int option"
  si_files :: "SideFile list"

record Frequencies =
  fq_digests :: "ContentHash \<rightharpoonup> u32"
  fq_title :: u32

record Score =
  sc_log_odds :: f32
  sc_evidence :: "Evidence list"
  sc_winning_layer :: "MatchLayer option"
  sc_negative :: bool
  sc_decisive :: bool

datatype MatchOutcome = MO_Same | MO_Ask | MO_Different

text \<open>The parameters of the matcher: those of the fingerprints, and two renderings of a byte length.\<close>

record Rendering =
  rn_measures :: Measures
  rn_byte_measure :: "u64 \<Rightarrow> f32"
  rn_megabytes :: "f32 \<Rightarrow> string"

subsection \<open>The layers\<close>

definition comparable :: "SideFile list \<Rightarrow> Frequencies \<Rightarrow> SideFile list" where
  "comparable files frequency =
     filter (\<lambda>file. (case fq_digests frequency (sf_digest file) of None \<Rightarrow> 1 | Some n \<Rightarrow> n)
       \<le> COMMON_VALUE_MAX) files"

fun exact_entry :: "SideFile list \<Rightarrow> SideFile list \<Rightarrow> (SideFile \<times> SideFile) option" where
  "exact_entry [] rhs = None"
| "exact_entry (left # lhs) rhs =
     (case List.find (\<lambda>right. sf_digest left = sf_digest right \<and> sf_byte_len left = sf_byte_len right
              \<and> \<not> sf_byte_len left < L1_MIN_BYTES) rhs of
        Some right \<Rightarrow> Some (left, right)
      | None \<Rightarrow> exact_entry lhs rhs)"

definition push_digest :: "ContentHash list \<Rightarrow> ContentHash \<Rightarrow> ContentHash list" where
  "push_digest seen d = (if d \<in> set seen then seen else seen @ [d])"

definition count_digest :: "nat \<times> ContentHash list \<Rightarrow> ContentHash \<Rightarrow> nat \<times> ContentHash list" where
  "count_digest found d = (case found of (shared, seen) \<Rightarrow>
     if d \<in> set seen then (min (shared + 1) (2 ^ 32 - 1), seen) else (shared, seen @ [d]))"

definition digest_overlap :: "SideFile list \<Rightarrow> SideFile list \<Rightarrow> f32 option" where
  "digest_overlap lhs rhs =
     (if lhs = [] \<or> rhs = [] then None
      else (let seen = foldl push_digest [] (map sf_digest lhs);
                (shared, seen) = foldl count_digest (0, seen) (map sf_digest rhs)
            in Some (of_nat shared / of_nat (length seen))))"

definition exact_file_evidence :: "Rendering \<Rightarrow> u64 \<Rightarrow> string option \<Rightarrow> Evidence" where
  "exact_file_evidence rn byte_len name =
     \<lparr>evi_layer = L1, evi_polarity = Positive, evi_measure = rn_byte_measure rn byte_len,
      evi_unit = U_Bytes, evi_observed_in = name\<rparr>"

text \<open>One layer's finding: what it adds to the log-odds, and its evidence.\<close>

type_synonym finding = "f32 \<times> Evidence list"

definition found_by :: "MatchLayer \<Rightarrow> f32 \<Rightarrow> EvidenceUnit \<Rightarrow> Evidence" where
  "found_by layer m u =
     \<lparr>evi_layer = layer, evi_polarity = Positive, evi_measure = m, evi_unit = u,
      evi_observed_in = None\<rparr>"

definition file_layer :: "Rendering \<Rightarrow> Side \<Rightarrow> Side \<Rightarrow> Frequencies \<Rightarrow> bool \<times> finding" where
  "file_layer rn lhs rhs frequency =
     (let left_files = comparable (si_files lhs) frequency;
          right_files = comparable (si_files rhs) frequency
      in case exact_entry left_files right_files of
           Some (file, other) \<Rightarrow>
             (True, L1_LOG_ODDS,
              [exact_file_evidence rn (sf_byte_len file) (or_else (sf_name file) (sf_name other))])
         | None \<Rightarrow>
             (case digest_overlap left_files right_files of
                Some overlap \<Rightarrow>
                  if overlap \<ge> 6 / 10 then (False, 4, [found_by L1b overlap U_Jaccard]) else (False, 0, [])
              | None \<Rightarrow> (False, 0, [])))"

definition text_overlap :: "Side \<Rightarrow> Side \<Rightarrow> f32 option" where
  "text_overlap lhs rhs =
     (case (si_text lhs, si_text rhs) of
        (Some left, Some right) \<Rightarrow>
          if tf_extracted_chars left > 0 \<and> tf_extracted_chars right > 0
          then Some (minhash_jaccard (tf_minhash left) (tf_minhash right)) else None
      | _ \<Rightarrow> None)"

definition text_layer :: "Side \<Rightarrow> Side \<Rightarrow> bool \<times> finding" where
  "text_layer lhs rhs =
     (case text_overlap lhs rhs of
        None \<Rightarrow> (False, 0, [])
      | Some jaccard \<Rightarrow>
          (jaccard \<ge> 9 / 10,
           if jaccard \<ge> 9 / 10 then 4 else if jaccard \<ge> 6 / 10 then 2 else 0,
           if jaccard \<ge> 6 / 10 then [found_by L2 jaccard U_Jaccard] else []))"

definition cover_layer :: "Side \<Rightarrow> Side \<Rightarrow> finding" where
  "cover_layer lhs rhs =
     (case (si_cover_phash lhs, si_cover_phash rhs) of
        (Some left, Some right) \<Rightarrow>
          if hamming left right \<le> 6
          then (3 / 2, [found_by L3 (of_nat (unat (hamming left right))) U_Hamming]) else (0, [])
      | _ \<Rightarrow> (0, []))"

definition title_layer :: "Rendering \<Rightarrow> Side \<Rightarrow> Side \<Rightarrow> Frequencies \<Rightarrow> f32 \<Rightarrow> finding" where
  "title_layer rn lhs rhs frequency trigram =
     (if fq_title frequency \<le> COMMON_VALUE_MAX then
        (let tokens = token_jaccard (rn_measures rn) (si_title_norm lhs) (si_title_norm rhs) in
         if tokens \<ge> 8 / 10 then (2, [found_by L4 tokens U_Jaccard])
         else if tokens \<ge> 6 / 10 then (1, [found_by L4 tokens U_Jaccard])
         else if trigram \<ge> 5 / 10 then (1, [found_by L4 trigram U_Ratio])
         else (0, []))
      else (0, []))"

definition grades_overlap :: "Side \<Rightarrow> Side \<Rightarrow> bool" where
  "grades_overlap lhs rhs =
     (case (si_grade_low lhs, si_grade_high lhs, si_grade_low rhs, si_grade_high rhs) of
        (Some low, Some high, Some other_low, Some other_high) \<Rightarrow> low \<le> other_high \<and> other_low \<le> high
      | _ \<Rightarrow> False)"

definition shares_subject :: "Side \<Rightarrow> Side \<Rightarrow> bool" where
  "shares_subject lhs rhs \<longleftrightarrow> list_ex (\<lambda>s. s \<in> set (si_subjects rhs)) (si_subjects lhs)"

definition price_within :: "Side \<Rightarrow> Side \<Rightarrow> bool" where
  "price_within lhs rhs =
     (case (si_price lhs, si_price rhs) of
        (Some left, Some right) \<Rightarrow>
          money_currency left = money_currency right \<and>
          (let small = max (min (minor_units left) (minor_units right)) 1;
               large = max (minor_units left) (minor_units right)
           in saturating_mul 64 large 2 \<le> saturating_mul 64 small 3)
      | _ \<Rightarrow> False)"

text \<open>\<open>u16::try_from(large).unwrap_or(u16::MAX)\<close> over \<open>u16::try_from(small.max(1)).unwrap_or(1)\<close>.\<close>

definition page_ratio :: "u32 \<Rightarrow> u32 \<Rightarrow> f32" where
  "page_ratio left right =
     (let small = max (min (unat left) (unat right)) 1; large = max (unat left) (unat right)
      in of_nat (min large 65535) / of_nat (if small \<le> 65535 then small else 1))"

definition pages_equal :: "Side \<Rightarrow> Side \<Rightarrow> bool" where
  "pages_equal lhs rhs \<longleftrightarrow> si_page_count lhs \<noteq> None \<and> si_page_count lhs = si_page_count rhs"

text \<open>The one strong negative: two page counts that differ by more than a fifth.\<close>

definition pages_apart :: "Side \<Rightarrow> Side \<Rightarrow> f32 option" where
  "pages_apart lhs rhs =
     (case (si_page_count lhs, si_page_count rhs) of
        (Some left, Some right) \<Rightarrow>
          if left = right then None
          else if page_ratio left right > 12 / 10 then Some (page_ratio left right) else None
      | _ \<Rightarrow> None)"

definition half_if :: "bool \<Rightarrow> f32" where
  "half_if b = (if b then 1 / 2 else 0)"

definition corroboration :: "Side \<Rightarrow> Side \<Rightarrow> f32" where
  "corroboration lhs rhs =
     half_if (grades_overlap lhs rhs) + half_if (shares_subject lhs rhs) + half_if (price_within lhs rhs)
       + (if pages_equal lhs rhs then 1 else 0)"

definition corroborated :: "Side \<Rightarrow> Side \<Rightarrow> bool" where
  "corroborated lhs rhs \<longleftrightarrow>
     grades_overlap lhs rhs \<or> shares_subject lhs rhs \<or> price_within lhs rhs \<or> pages_equal lhs rhs"

definition metadata_layer :: "Side \<Rightarrow> Side \<Rightarrow> finding" where
  "metadata_layer lhs rhs =
     (let (against, found) = (case pages_apart lhs rhs of
            None \<Rightarrow> (0, [])
          | Some r \<Rightarrow> (- 4, [\<lparr>evi_layer = L5, evi_polarity = Negative, evi_measure = r, evi_unit = U_Ratio,
                              evi_observed_in = None\<rparr>]))
      in if corroborated lhs rhs
         then (against + corroboration lhs rhs, found @ [found_by L5 (corroboration lhs rhs) U_Count])
         else (against, found))"

subsection \<open>The score\<close>

definition winner :: "Evidence list \<Rightarrow> MatchLayer option" where
  "winner evidence =
     List.find (\<lambda>layer. list_ex (\<lambda>e. evi_layer e = layer \<and> evi_polarity e = Positive) evidence) match_layers"

definition score :: "Rendering \<Rightarrow> Side \<Rightarrow> Side \<Rightarrow> Frequencies \<Rightarrow> f32 \<Rightarrow> Score" where
  "score rn lhs rhs frequency trigram =
     (let (decisive, o1, e1) = file_layer rn lhs rhs frequency;
          (l2_strong, o2, e2) = text_layer lhs rhs;
          (o3, e3) = cover_layer lhs rhs;
          (o4, e4) = title_layer rn lhs rhs frequency trigram;
          (o5, e5) = metadata_layer lhs rhs;
          evidence = e1 @ e2 @ e3 @ e4 @ e5
      in \<lparr>sc_log_odds = o1 + o2 + o3 + o4 + o5, sc_evidence = evidence,
          sc_winning_layer = winner evidence, sc_negative = (pages_apart lhs rhs \<noteq> None),
          sc_decisive = (decisive \<or> l2_strong \<and> pages_equal lhs rhs)\<rparr>)"

definition outcome_of :: "Score \<Rightarrow> MatchOutcome" where
  "outcome_of s =
     (if sc_decisive s \<and> \<not> sc_negative s then MO_Same
      else if sc_log_odds s \<ge> REVIEW_FLOOR then MO_Ask
      else MO_Different)"

definition percent_of :: "f32 \<Rightarrow> nat" where
  "percent_of jaccard = nat (min 100 (max 0 \<lfloor>jaccard * 100 + 1 / 2\<rfloor>))"

definition sentence_for :: "Rendering \<Rightarrow> MatchLayer \<Rightarrow> Evidence list \<Rightarrow> string" where
  "sentence_for rn layer evidence =
     (let found = List.find (\<lambda>e. evi_layer e = layer \<and> evi_polarity e = Positive) evidence in
      case layer of
        L1 \<Rightarrow>
          (let name = (case Option.bind found evi_observed_in of None \<Rightarrow> ''the same file'' | Some n \<Rightarrow> n);
               size = (case found of None \<Rightarrow> [] | Some e \<Rightarrow> '', '' @ rn_megabytes rn (evi_measure e))
           in ''The same file, byte for byte: '' @ name @ size @ ''.'')
      | L1b \<Rightarrow> ''Most of the files match.''
      | L2 \<Rightarrow>
          ''The text of both PDFs is ''
            @ decimal (case found of None \<Rightarrow> 0 | Some e \<Rightarrow> percent_of (evi_measure e)) @ ''% the same.''
      | L3 \<Rightarrow> ''The cover pictures look the same.''
      | L4 \<Rightarrow> ''Nearly the same title.''
      | L5 \<Rightarrow> ''Same grades and subject, similar price.'')"

definition sentence :: "Rendering \<Rightarrow> Score \<Rightarrow> string" where
  "sentence rn s =
     (case sc_winning_layer s of
        None \<Rightarrow> ''These two look related.''
      | Some layer \<Rightarrow> sentence_for rn layer (sc_evidence s))"

subsection \<open>One resource against the candidates\<close>

record Raised =
  ra_other :: ProductId
  ra_verdict :: MatchVerdict
  ra_decided_by :: DecidedBy
  ra_layer :: MatchLayer
  ra_log_odds :: f32
  ra_evidence :: "Evidence list"
  ra_sentence :: string

record MatchResult =
  mr_merged :: "Raised list"
  mr_asked :: "Raised list"

definition needs_review :: "MatchResult \<Rightarrow> bool" where
  "needs_review found \<longleftrightarrow> mr_asked found \<noteq> []"

text \<open>\<open>u32::try_from(n).unwrap_or(0)\<close>, and the bits of a stored \<open>i64\<close> read as a \<open>u64\<close>.\<close>

definition u32_or_zero :: "i32 \<Rightarrow> u32" where
  "u32_or_zero n = (if 0 \<le> n then of_int n else 0)"

definition text_facts :: "TextSketchColumns \<Rightarrow> TextFacts option" where
  "text_facts text =
     map_option (\<lambda>sketch. \<lparr>tf_simhash = of_int (tsc_simhash text), tf_minhash = sketch,
                           tf_extracted_chars = u32_or_zero (tsc_extracted_chars text)\<rparr>)
       (minhash_from_bytes (tsc_minhash text))"

definition side_of :: "CandidateSketch \<Rightarrow> ProductMeta option \<Rightarrow> PayloadDigest list \<Rightarrow> Side" where
  "side_of candidate meta files =
     \<lparr>si_title = cs_title candidate, si_title_norm = cs_title_norm candidate,
      si_price = (case cs_price candidate of Paid money \<Rightarrow> Some money | Free \<Rightarrow> None),
      si_text = Option.bind (cs_text candidate) text_facts,
      si_page_count = map_option u32_or_zero (cs_page_count candidate),
      si_cover_phash = map_option of_int (cs_cover_phash candidate),
      si_subjects = (case meta of None \<Rightarrow> [] | Some m \<Rightarrow> pm_subjects m),
      si_grade_low = Option.bind meta pm_grade_low,
      si_grade_high = Option.bind meta pm_grade_high,
      si_files = map (\<lambda>file. \<lparr>sf_digest = pd_digest file, sf_byte_len = pd_byte_len file, sf_name = pd_name file\<rparr>)
        (filter (\<lambda>file. pd_product file = cs_product candidate) files)\<rparr>"

definition same_shop :: "Marketplace option \<Rightarrow> ProductMeta option \<Rightarrow> bool" where
  "same_shop marketplace meta =
     (case (marketplace, meta) of (Some m, Some pm) \<Rightarrow> m \<in> set (pm_marketplaces pm) | _ \<Rightarrow> False)"

text \<open>The identifiers of a product compare as their bytes do.\<close>

fun bytes_le :: "u8 list \<Rightarrow> u8 list \<Rightarrow> bool" where
  "bytes_le [] bs = True"
| "bytes_le (a # as) [] = False"
| "bytes_le (a # as) (b # bs) = (a < b \<or> a = b \<and> bytes_le as bs)"

definition ordered_pair :: "ProductId \<Rightarrow> ProductId \<Rightarrow> ProductId \<times> ProductId" where
  "ordered_pair a b = (if bytes_le (product_bytes a) (product_bytes b) then (a, b) else (b, a))"

text \<open>The version and the bands of the question only reach the candidate read, which is a parameter.\<close>

record Asking =
  as_subject :: Side
  as_subject_product :: ProductId
  as_marketplace :: "Marketplace option"
  as_reviews :: bool

definition consider_candidate ::
  "Rendering \<Rightarrow> Asking \<Rightarrow> ProductMeta list \<Rightarrow> PayloadDigest list \<Rightarrow> Frequencies
     \<Rightarrow> (ProductId \<times> ProductId) list \<Rightarrow> MatchResult \<Rightarrow> CandidateSketch \<Rightarrow> MatchResult" where
  "consider_candidate rn asking metadata files frequency answered found candidate =
     (let meta = List.find (\<lambda>m. pm_product m = cs_product candidate) metadata in
      if cs_product candidate = as_subject_product asking then found
      else if same_shop (as_marketplace asking) meta then found
      else if ordered_pair (as_subject_product asking) (cs_product candidate) \<in> set answered then found
      else
        (let scored = score rn (as_subject asking) (side_of candidate meta files) frequency
                        (cs_title_similarity candidate)
         in case sc_winning_layer scored of
              None \<Rightarrow> found
            | Some layer \<Rightarrow>
                (let raised = \<lparr>ra_other = cs_product candidate, ra_verdict = V_Same, ra_decided_by = By_System,
                               ra_layer = layer, ra_log_odds = sc_log_odds scored,
                               ra_evidence = sc_evidence scored, ra_sentence = sentence rn scored\<rparr>
                 in case outcome_of scored of
                      MO_Same \<Rightarrow> found\<lparr>mr_merged := mr_merged found @ [raised]\<rparr>
                    | MO_Ask \<Rightarrow>
                        if as_reviews asking
                        then found\<lparr>mr_asked := mr_asked found
                               @ [raised\<lparr>ra_verdict := V_Parked, ra_decided_by := By_Seller\<rparr>]\<rparr>
                        else found
                    | MO_Different \<Rightarrow> found)))"

text \<open>
  The storage reads of \<open>match_one_in\<close>, each of which may fail: the products carrying a digest, the
  candidates of the blocking, their metadata and files, the two frequencies, and the pairs already
  answered. \<open>title_frequency_in\<close> counts the subject's own row, which is taken off again.
\<close>

record 'e Reads =
  re_by_digest :: "ContentHash list \<Rightarrow> 'e + PayloadDigest list"
  re_candidates :: "ProductId list \<Rightarrow> 'e + CandidateSketch list"
  re_metadata :: "ProductId list \<Rightarrow> 'e + ProductMeta list"
  re_files :: "ProductId list \<Rightarrow> 'e + PayloadDigest list"
  re_digest_frequency :: "ContentHash list \<Rightarrow> 'e + (ContentHash \<times> u32) list"
  re_title_frequency :: "'e + u32"
  re_answered :: "(ProductId \<times> ProductId) list \<Rightarrow> 'e + (ProductId \<times> ProductId) list"

definition no_match :: MatchResult where
  "no_match = \<lparr>mr_merged = [], mr_asked = []\<rparr>"

definition match_one_in :: "Rendering \<Rightarrow> 'e Reads \<Rightarrow> Asking \<Rightarrow> 'e + MatchResult" where
  "match_one_in rn reads asking =
     (let digests = map sf_digest (si_files (as_subject asking)) in
      try_bind (re_by_digest reads digests) (\<lambda>by_digest.
      try_bind (re_candidates reads (foldl (\<lambda>also p. if p \<in> set also then also else also @ [p]) [] (map pd_product by_digest)))
        (\<lambda>candidates.
      (let others = filter (\<lambda>p. p \<noteq> as_subject_product asking) (map cs_product candidates) in
       if others = [] then Inr no_match
       else
         try_bind (re_metadata reads others) (\<lambda>metadata.
         try_bind (re_files reads others) (\<lambda>files.
         try_bind (re_digest_frequency reads digests) (\<lambda>held.
         try_bind (re_title_frequency reads) (\<lambda>titles.
         (let frequency = \<lparr>fq_digests = map_of (rev held), fq_title = u32_saturating_sub titles 1\<rparr> in
          try_bind (re_answered reads (map (\<lambda>other. (as_subject_product asking, other)) others)) (\<lambda>answered.
          Inr (foldl (consider_candidate rn asking metadata files frequency answered) no_match candidates)))))))))))"

subsection \<open>When two resources are merged without asking\<close>

lemma outcome_same: "outcome_of s = MO_Same \<longleftrightarrow> sc_decisive s \<and> \<not> sc_negative s"
  by (simp add: outcome_of_def)

lemma exact_entry_iff:
  "exact_entry lhs rhs \<noteq> None \<longleftrightarrow>
     (\<exists>left\<in>set lhs. \<exists>right\<in>set rhs. sf_digest left = sf_digest right \<and> sf_byte_len left = sf_byte_len right
        \<and> L1_MIN_BYTES \<le> sf_byte_len left)"
proof (induction lhs)
  case (Cons left lhs)
  let ?P = "\<lambda>right. sf_digest left = sf_digest right \<and> sf_byte_len left = sf_byte_len right
      \<and> \<not> sf_byte_len left < L1_MIN_BYTES"
  show ?case
  proof (cases "List.find ?P rhs")
    case None
    then have same: "exact_entry (left # lhs) rhs = exact_entry lhs rhs" by simp
    have none: "\<not> (\<exists>right\<in>set rhs. sf_digest left = sf_digest right \<and> sf_byte_len left = sf_byte_len right
        \<and> L1_MIN_BYTES \<le> sf_byte_len left)"
      using None by (simp only: find_None_iff not_less) blast
    show ?thesis
      unfolding same Cons.IH list.set(2) bex_simps(5) by (simp only: none simp_thms)
  next
    case (Some right)
    then have "exact_entry (left # lhs) rhs = Some (left, right)" by simp
    moreover have "right \<in> set rhs \<and> ?P right" using Some by (rule find_SomeD)
    ultimately show ?thesis by (auto simp: not_less)
  qed
qed simp

lemma file_layer_decisive:
  "fst (file_layer rn lhs rhs f) \<longleftrightarrow> exact_entry (comparable (si_files lhs) f) (comparable (si_files rhs) f) \<noteq> None"
  by (auto simp: file_layer_def Let_def split: option.splits)

lemma text_layer_strong: "fst (text_layer lhs rhs) \<longleftrightarrow> (\<exists>j. text_overlap lhs rhs = Some j \<and> 9 / 10 \<le> j)"
  by (auto simp: text_layer_def split: option.splits)

lemma score_decisive: "sc_decisive (score rn lhs rhs f t) \<longleftrightarrow>
    fst (file_layer rn lhs rhs f) \<or> fst (text_layer lhs rhs) \<and> pages_equal lhs rhs"
  by (simp add: score_def Let_def split: prod.splits)

lemma score_negative: "sc_negative (score rn lhs rhs f t) \<longleftrightarrow> pages_apart lhs rhs \<noteq> None"
  by (simp add: score_def Let_def split: prod.splits)

text \<open>
  C26. The system merges two resources on its own exactly on a decisive finding that nothing
  contradicts: a file of fifty kilobytes or more, byte for byte the same and no commonplace of the
  seller's catalogue, or nine tenths of the text together with an equal page count; and the page
  counts, where both are known, are not a fifth apart. No sum of weaker signals ever merges.
\<close>

theorem a_merge_needs_a_decisive_layer:
  "outcome_of (score rn lhs rhs f t) = MO_Same \<longleftrightarrow>
     ((\<exists>left\<in>set (comparable (si_files lhs) f). \<exists>right\<in>set (comparable (si_files rhs) f).
         sf_digest left = sf_digest right \<and> sf_byte_len left = sf_byte_len right
         \<and> L1_MIN_BYTES \<le> sf_byte_len left)
      \<or> (\<exists>j pages. text_overlap lhs rhs = Some j \<and> 9 / 10 \<le> j
         \<and> si_page_count lhs = Some pages \<and> si_page_count rhs = Some pages))
     \<and> pages_apart lhs rhs = None"
proof -
  have "pages_equal lhs rhs \<longleftrightarrow> (\<exists>pages. si_page_count lhs = Some pages \<and> si_page_count rhs = Some pages)"
    by (auto simp: pages_equal_def)
  then show ?thesis
    unfolding outcome_same score_decisive score_negative file_layer_decisive text_layer_strong exact_entry_iff
    by auto
qed

subsection \<open>The order of the two sides\<close>

lemma comparable_distinct: "distinct (map sf_digest files) \<Longrightarrow> distinct (map sf_digest (comparable files f))"
  unfolding comparable_def by (rule distinct_map_filter)

lemma foldl_push_digest:
  "distinct (seen @ ds) \<Longrightarrow> foldl push_digest seen ds = seen @ ds"
  by (induction ds arbitrary: seen) (simp_all add: push_digest_def)

lemma foldl_count_digest:
  "distinct ds \<Longrightarrow> n + length (filter (\<lambda>d. d \<in> set seen) ds) < 2 ^ 32 \<Longrightarrow>
   foldl count_digest (n, seen) ds
     = (n + length (filter (\<lambda>d. d \<in> set seen) ds), seen @ filter (\<lambda>d. d \<notin> set seen) ds)"
proof (induction ds arbitrary: n seen)
  case (Cons d ds)
  have rest: "filter (\<lambda>x. x \<in> set (seen @ [d])) ds = filter (\<lambda>x. x \<in> set seen) ds"
      "filter (\<lambda>x. x \<notin> set (seen @ [d])) ds = filter (\<lambda>x. x \<notin> set seen) ds"
    using Cons.prems(1) by (auto intro!: filter_cong)
  show ?case
    using Cons.prems Cons.IH [of "Suc n" seen] Cons.IH [of n "seen @ [d]"] rest
    by (auto simp: count_digest_def min_def)
qed simp

text \<open>
  Over files with digests of their own the overlap is the Jaccard index of the two sets of
  digests, so the order of the sides is no matter.
\<close>

theorem the_overlap_is_the_jaccard_index:
  assumes "distinct (map sf_digest lhs)" "distinct (map sf_digest rhs)" "lhs \<noteq> []" "rhs \<noteq> []"
    and "length rhs < 2 ^ 32"
  shows "digest_overlap lhs rhs =
    Some (of_nat (card (sf_digest ` set lhs \<inter> sf_digest ` set rhs))
          / of_nat (card (sf_digest ` set lhs \<union> sf_digest ` set rhs)))"
proof -
  let ?l = "map sf_digest lhs" and ?r = "map sf_digest rhs"
  have "length (filter (\<lambda>d. d \<in> set ?l) ?r) < 2 ^ 32"
    by (rule le_less_trans [OF length_filter_le]) (use assms(5) in simp)
  then have counted: "foldl count_digest (0, ?l) ?r
      = (length (filter (\<lambda>d. d \<in> set ?l) ?r), ?l @ filter (\<lambda>d. d \<notin> set ?l) ?r)"
    using foldl_count_digest [of ?r 0 ?l] assms(2) by simp
  have "length (filter (\<lambda>d. d \<in> set ?l) ?r) = card (set (filter (\<lambda>d. d \<in> set ?l) ?r))"
    using assms(2) by (intro distinct_card [symmetric] distinct_filter)
  also have "set (filter (\<lambda>d. d \<in> set ?l) ?r) = sf_digest ` set lhs \<inter> sf_digest ` set rhs" by auto
  finally have shared: "length (filter (\<lambda>d. d \<in> set ?l) ?r) = card (sf_digest ` set lhs \<inter> sf_digest ` set rhs)" .
  have "length (?l @ filter (\<lambda>d. d \<notin> set ?l) ?r) = card (set (?l @ filter (\<lambda>d. d \<notin> set ?l) ?r))"
    using assms(1,2) by (intro distinct_card [symmetric]) auto
  also have "set (?l @ filter (\<lambda>d. d \<notin> set ?l) ?r) = sf_digest ` set lhs \<union> sf_digest ` set rhs" by auto
  finally have total: "length (?l @ filter (\<lambda>d. d \<notin> set ?l) ?r)
      = card (sf_digest ` set lhs \<union> sf_digest ` set rhs)" .
  have "foldl push_digest [] ?l = ?l" using foldl_push_digest [of "[]" ?l] assms(1) by simp
  with counted shared total assms(3,4) show ?thesis
    by (simp add: digest_overlap_def)
qed

text \<open>
  A digest repeated on the right side counts as shared from its second file on, so a resource with
  three copies of one file overlaps a resource it has nothing in common with, and the seller is
  asked about them. The other way round the same pair is no overlap at all.
\<close>

lemma repeated_files_overlap_nothing:
  fixes a b :: SideFile
  assumes "sf_digest a \<noteq> sf_digest b"
  shows "digest_overlap [a] [b, b, b] = Some 1" "digest_overlap [b, b, b] [a] = Some 0"
  using assms by (simp_all add: digest_overlap_def push_digest_def count_digest_def)

text \<open>
  Page counts above sixteen bits are read as one on the smaller side and as 65535 on the larger, so
  70000 pages and 70001 are as far apart as two counts can be.
\<close>

lemma long_documents_are_apart: "page_ratio 70000 70001 = 65535"
  by (simp add: page_ratio_def)

subsection \<open>What the matcher may propose\<close>

text \<open>
  A candidate it may raise: another product, on no shop the subject was read from, about which the
  pair has not been answered.
\<close>

definition eligible :: "Asking \<Rightarrow> ProductMeta list \<Rightarrow> (ProductId \<times> ProductId) list \<Rightarrow> ProductId \<Rightarrow> bool" where
  "eligible asking metadata answered p \<longleftrightarrow>
     p \<noteq> as_subject_product asking
     \<and> \<not> same_shop (as_marketplace asking) (List.find (\<lambda>m. pm_product m = p) metadata)
     \<and> ordered_pair (as_subject_product asking) p \<notin> set answered"

definition proper :: "Asking \<Rightarrow> ProductMeta list \<Rightarrow> (ProductId \<times> ProductId) list \<Rightarrow> MatchResult \<Rightarrow> bool" where
  "proper asking metadata answered found \<longleftrightarrow>
     (\<forall>r\<in>set (mr_merged found). eligible asking metadata answered (ra_other r)
        \<and> ra_verdict r = V_Same \<and> ra_decided_by r = By_System)
     \<and> (\<forall>r\<in>set (mr_asked found). eligible asking metadata answered (ra_other r)
        \<and> ra_verdict r = V_Parked \<and> ra_decided_by r = By_Seller \<and> as_reviews asking)"

lemma consider_proper: "proper asking metadata answered found \<Longrightarrow>
   proper asking metadata answered (consider_candidate rn asking metadata files f answered found c)"
  by (auto simp: consider_candidate_def Let_def proper_def eligible_def split: option.splits MatchOutcome.splits)

lemma fold_proper: "proper asking metadata answered found \<Longrightarrow>
   proper asking metadata answered (foldl (consider_candidate rn asking metadata files f answered) found cs)"
  by (induction cs arbitrary: found) (simp_all add: consider_proper)

text \<open>
  Nothing is proposed that must not be. Whatever the storage answers, every pair the matcher
  raises is of two products, across shops, and not one the seller has answered before; a merge is
  the system's own verdict, a question is parked for the seller, and a plan without duplicate review
  is asked nothing.
\<close>

theorem the_matcher_proposes_only_open_pairs:
  assumes "match_one_in rn reads asking = Inr found" "found \<noteq> no_match"
  shows "\<exists>others metadata answered.
    re_metadata reads others = Inr metadata
    \<and> re_answered reads (map (\<lambda>p. (as_subject_product asking, p)) others) = Inr answered
    \<and> proper asking metadata answered found"
proof -
  let ?others = "\<lambda>cs. filter (\<lambda>p. p \<noteq> as_subject_product asking) (map cs_product cs)"
  obtain candidates metadata files f answered
    where "re_metadata reads (?others candidates) = Inr metadata"
      and "re_answered reads (map (\<lambda>p. (as_subject_product asking, p)) (?others candidates)) = Inr answered"
      and found: "found = foldl (consider_candidate rn asking metadata files f answered) no_match candidates"
    using assms unfolding match_one_in_def Let_def
    by (auto split: if_splits simp: try_bind_Inr)
  moreover have "proper asking metadata answered found"
    unfolding found by (rule fold_proper) (simp add: proper_def no_match_def)
  ultimately show ?thesis by blast
qed

definition one_file :: SideFile where
  "one_file = \<lparr>sf_digest = ContentHash [7], sf_byte_len = 60000, sf_name = None\<rparr>"

definition one_side :: Side where
  "one_side = \<lparr>si_title = [], si_title_norm = [], si_price = None, si_text = None, si_page_count = None,
     si_cover_phash = None, si_subjects = [], si_grade_low = None, si_grade_high = None, si_files = [one_file]\<rparr>"

definition one_asking :: Asking where
  "one_asking = \<lparr>as_subject = one_side, as_subject_product = ProductId (Uuid [1]), as_marketplace = Some MTes,
     as_reviews = True\<rparr>"

definition plain_rendering :: Rendering where
  "plain_rendering = \<lparr>rn_measures = \<lparr>tx_alphanumeric = (\<lambda>_. True), tx_lower_char = (\<lambda>c. c), tx_lowercase = (\<lambda>s. s),
       tx_hash = (\<lambda>_. 0), tx_keyed_hash = (\<lambda>_ _. 0)\<rparr>,
     rn_byte_measure = (\<lambda>n. of_nat (unat n)), rn_megabytes = (\<lambda>_. [])\<rparr>"

definition one_store :: "unit Reads" where
  "one_store = \<lparr>re_by_digest = (\<lambda>_. Inr []),
     re_candidates = (\<lambda>_. Inr [\<lparr>cs_product = ProductId (Uuid [2]), cs_title = [], cs_price = Free, cs_text = None,
        cs_page_count = None, cs_cover_phash = None, cs_title_norm = [], cs_title_similarity = 0\<rparr>]),
     re_metadata = (\<lambda>_. Inr []),
     re_files = (\<lambda>_. Inr [\<lparr>pd_product = ProductId (Uuid [2]), pd_digest = ContentHash [7], pd_byte_len = 60000,
        pd_name = None\<rparr>]),
     re_digest_frequency = (\<lambda>_. Inr []), re_title_frequency = Inr 9, re_answered = (\<lambda>_. Inr [])\<rparr>"

lemma one_match:
  "map_sum id (\<lambda>f. map ra_other (mr_merged f)) (match_one_in plain_rendering one_store one_asking) = Inr [ProductId (Uuid [2])]"
  by (simp add: match_one_in_def one_store_def one_asking_def one_side_def one_file_def plain_rendering_def
      consider_candidate_def ordered_pair_def no_match_def same_shop_def side_of_def score_def file_layer_def
      comparable_def L1_MIN_BYTES_def COMMON_VALUE_MAX_def exact_file_evidence_def text_layer_def text_overlap_def
      cover_layer_def title_layer_def u32_saturating_sub_def metadata_layer_def pages_apart_def pages_equal_def
      winner_def match_layers_def outcome_of_def Let_def)

theorem the_matcher_proposes_only_open_pairs_witness:
  "\<exists>found metadata answered. match_one_in plain_rendering one_store one_asking = Inr found
     \<and> mr_merged found \<noteq> [] \<and> proper one_asking metadata answered found"
proof -
  obtain found where f: "match_one_in plain_rendering one_store one_asking = Inr found"
    and m: "map ra_other (mr_merged found) = [ProductId (Uuid [2])]"
    using one_match by (cases "match_one_in plain_rendering one_store one_asking") auto
  from m have "found \<noteq> no_match" by (auto simp: no_match_def)
  from the_matcher_proposes_only_open_pairs [OF f this] f m show ?thesis by fastforce
qed

end
