(* ===== verification/Base64.thy ===== *)
theory Base64
  imports Adapter
begin

section \<open>Base64 (crate tam-engine-driver, import.rs)\<close>

text \<open>
  The codec a page's covers and pictures cross the wire in: standard base64 with padding, written
  out in the source. A text is accepted exactly when it is what the encoder writes, so a value that
  was decoded and is encoded again is the text it came from.
\<close>

subsection \<open>The codec\<close>

definition ALPHABET :: string where
  "ALPHABET = ''ABCDEFGHIJKLMNOPQRSTUVWXYZabcdefghijklmnopqrstuvwxyz0123456789+/''"

text \<open>\<open>slice::chunks\<close>.\<close>

function chunks :: "nat \<Rightarrow> 'a list \<Rightarrow> 'a list list" where
  "chunks n [] = []"
| "chunks n (x # xs) = (if n = 0 then [] else take n (x # xs) # chunks n (drop n (x # xs)))"
  by pat_completeness auto
termination
  by (relation "measure (\<lambda>(n, xs). length xs)") auto

definition chunk_byte :: "u8 list \<Rightarrow> nat \<Rightarrow> u32" where
  "chunk_byte chunk i = (case get_at chunk i of None \<Rightarrow> 0 | Some b \<Rightarrow> ucast b)"

definition chunk_bits :: "u8 list \<Rightarrow> u32" where
  "chunk_bits chunk = push_bit 16 (chunk_byte chunk 0) OR push_bit 8 (chunk_byte chunk 1) OR chunk_byte chunk 2"

definition sextet :: "u32 \<Rightarrow> nat \<Rightarrow> u32" where
  "sextet bits slot = drop_bit (18 - 6 * slot) bits AND 0x3F"

definition base64_chunk :: "u8 list \<Rightarrow> string" where
  "base64_chunk chunk =
     map (\<lambda>slot. if slot \<le> length chunk then ALPHABET ! unat (sextet (chunk_bits chunk) slot) else CHR ''='')
       [0, 1, 2, 3]"

definition base64 :: "u8 list \<Rightarrow> string" where
  "base64 bytes = concat (map base64_chunk (chunks 3 bytes))"

text \<open>The bits of the value characters of a chunk, from the slot of the first.\<close>

fun value_bits :: "nat \<Rightarrow> string \<Rightarrow> u32 option" where
  "value_bits slot [] = Some 0"
| "value_bits slot (c # cs) =
     (case position (\<lambda>candidate. candidate = c) ALPHABET of
        None \<Rightarrow> None
      | Some v \<Rightarrow> map_option (\<lambda>bits. push_bit (18 - 6 * slot) (of_nat v) OR bits) (value_bits (Suc slot) cs))"

definition unbase64_chunk :: "bool \<Rightarrow> string \<Rightarrow> u8 list option" where
  "unbase64_chunk final chunk =
     (let first_pad = (case position (\<lambda>b. b = CHR ''='') chunk of None \<Rightarrow> 4 | Some i \<Rightarrow> i);
          pads = 4 - first_pad
      in if pads > 0 \<and> (\<not> final \<or> pads > 2 \<or> \<not> list_all (\<lambda>b. b = CHR ''='') (drop first_pad chunk))
         then None
         else (let kept = 3 - pads in
               case value_bits 0 (take first_pad chunk) of
                 None \<Rightarrow> None
               | Some bits \<Rightarrow>
                   if bits AND (push_bit (8 * (3 - kept)) 1 - 1) \<noteq> 0 then None
                   else Some (take kept (drop 1 (to_be_bytes bits)))))"

fun unbase64_chunks :: "string list \<Rightarrow> u8 list option" where
  "unbase64_chunks [] = Some []"
| "unbase64_chunks (chunk # rest) =
     (case unbase64_chunk (rest = []) chunk of
        None \<Rightarrow> None
      | Some out \<Rightarrow> map_option (\<lambda>more. out @ more) (unbase64_chunks rest))"

definition unbase64 :: "string \<Rightarrow> u8 list option" where
  "unbase64 text =
     (if text = [] then Some []
      else if length text mod 4 \<noteq> 0 then None
      else unbase64_chunks (chunks 4 text))"

subsection \<open>The alphabet\<close>

lemma ALPHABET_facts: "distinct ALPHABET" "length ALPHABET = 64" "CHR ''='' \<notin> set ALPHABET"
  by (simp_all add: ALPHABET_def)

lemma position_nth: "distinct xs \<Longrightarrow> i < length xs \<Longrightarrow> position (\<lambda>x. x = xs ! i) xs = Some i"
proof (induction xs arbitrary: i)
  case (Cons x xs)
  then show ?case by (cases i) auto
qed simp

lemma position_ALPHABET: "i < 64 \<Longrightarrow> position (\<lambda>c. c = ALPHABET ! i) ALPHABET = Some i"
  using position_nth ALPHABET_facts by metis

lemma value_of_char: "position (\<lambda>x. x = c) ALPHABET = Some v \<Longrightarrow> v < 64 \<and> ALPHABET ! v = c"
  by (drule position_SomeD) (simp add: ALPHABET_facts)

lemma ALPHABET_no_pad: "i < 64 \<Longrightarrow> ALPHABET ! i \<noteq> CHR ''=''"
  using ALPHABET_facts(2,3) nth_mem by metis

subsection \<open>Sextets and octets\<close>

text \<open>Four sextets side by side, as the decoder reads them and the encoder writes them.\<close>

definition joined :: "u32 \<Rightarrow> u32 \<Rightarrow> u32 \<Rightarrow> u32 \<Rightarrow> u32" where
  "joined a b c d = push_bit 18 a OR push_bit 12 b OR push_bit 6 c OR d"

lemma mask_6: "(0x3F :: u32) = mask 6"
  by (simp add: mask_eq_exp_minus_1)

lemma bit_sextet: "slot < 4 \<Longrightarrow> bit (sextet w slot) n \<longleftrightarrow> n < 6 \<and> bit w (18 - 6 * slot + n)"
  by (auto simp: sextet_def mask_6 bit_simps dest: bit_imp_le_length)

lemma sextet_less: "unat (sextet w slot) < 64"
proof -
  have "sextet w slot \<le> 0x3F" by (simp add: sextet_def word_and_le1)
  then show ?thesis by (simp add: word_le_nat_alt)
qed

lemma small_bits: "v < 64 \<Longrightarrow> bit (of_nat v :: u32) n \<Longrightarrow> n < 6"
proof -
  assume "v < 64" "bit (of_nat v :: u32) n"
  then have "take_bit 6 v = v" by (simp add: take_bit_nat_eq_self_iff)
  moreover have "bit v n" using \<open>bit (of_nat v :: u32) n\<close> by (simp add: bit_simps)
  ultimately show "n < 6" by (metis bit_take_bit_iff)
qed

text \<open>A word with nothing above its sixth bit.\<close>

definition six :: "u32 \<Rightarrow> bool" where
  "six w \<longleftrightarrow> (\<forall>n\<ge>6. \<not> bit w n)"

lemma six_value: "v < 64 \<Longrightarrow> six (of_nat v)"
  using small_bits [of v] by (force simp: six_def)

lemma six_sextet: "slot < 4 \<Longrightarrow> six (sextet w slot)"
  by (simp add: six_def bit_sextet)

lemma sextants:
  fixes n :: nat
  obtains "n < 6" | "6 \<le> n" "n < 12" | "12 \<le> n" "n < 18" | "18 \<le> n" "n < 24" | "24 \<le> n"
  by linarith

lemma bit_joined:
  assumes "six a" "six b" "six c" "six d"
  shows "bit (joined a b c d) n \<longleftrightarrow>
    (if n < 6 then bit d n else if n < 12 then bit c (n - 6) else if n < 18 then bit b (n - 12)
     else n < 24 \<and> bit a (n - 18))"
  using assms unfolding joined_def six_def
  by (cases n rule: sextants) (simp_all add: bit_or_iff bit_push_bit_iff)

lemma sextet_joined:
  assumes "six a" "six b" "six c" "six d"
  shows "sextet (joined a b c d) 0 = a" "sextet (joined a b c d) 1 = b"
    "sextet (joined a b c d) 2 = c" "sextet (joined a b c d) 3 = d"
  by (rule bit_word_eqI; use assms in \<open>auto simp: bit_sextet bit_joined six_def not_le\<close>)+

lemma joined_sextets:
  assumes "\<And>n. 24 \<le> n \<Longrightarrow> \<not> bit w n"
  shows "joined (sextet w 0) (sextet w 1) (sextet w 2) (sextet w 3) = w"
proof (rule bit_word_eqI)
  fix n
  show "bit (joined (sextet w 0) (sextet w 1) (sextet w 2) (sextet w 3)) n = bit w n"
    using assms by (cases n rule: sextants) (auto simp: bit_joined six_sextet bit_sextet)
qed

lemma bit_chunk_byte: "bit (chunk_byte chunk i) k \<longleftrightarrow> i < length chunk \<and> bit (chunk ! i) k"
  by (auto simp: chunk_byte_def get_at_def bit_simps dest: bit_imp_le_length)

lemma octants:
  fixes n :: nat
  obtains "n < 8" | "8 \<le> n" "n < 16" | "16 \<le> n" "n < 24" | "24 \<le> n"
  by linarith

lemma chunk_byte_high: "8 \<le> k \<Longrightarrow> \<not> bit (chunk_byte chunk i) k"
  by (auto simp: bit_chunk_byte dest: bit_imp_le_length)

lemma bit_chunk_bits: "bit (chunk_bits chunk) n \<longleftrightarrow>
    (if n < 8 then bit (chunk_byte chunk 2) n else if n < 16 then bit (chunk_byte chunk 1) (n - 8)
     else n < 24 \<and> bit (chunk_byte chunk 0) (n - 16))"
  by (cases n rule: octants)
    (simp_all add: chunk_bits_def bit_or_iff bit_push_bit_iff chunk_byte_high)

text \<open>The bytes kept of a word, and the word of those bytes where it has no other bits.\<close>

definition kept_bytes :: "nat \<Rightarrow> u32 \<Rightarrow> u8 list" where
  "kept_bytes kept w = take kept [ucast (drop_bit 16 w), ucast (drop_bit 8 w), ucast w]"

lemma kept_to_be: "take kept (drop 1 (to_be_bytes w)) = kept_bytes kept w"
  by (simp add: kept_bytes_def to_be_bytes_def)

lemma bit_kept:
  assumes "kept \<le> 3"
  shows "bit (chunk_byte (kept_bytes kept w) i) k \<longleftrightarrow> i < kept \<and> k < 8 \<and> bit w (16 - 8 * i + k)"
proof -
  have len: "length (kept_bytes kept w) = kept" using assms by (simp add: kept_bytes_def)
  have "kept_bytes kept w ! i = ucast (drop_bit (16 - 8 * i) w)" if less: "i < kept"
  proof -
    consider "i = 0" | "i = 1" | "i = 2" using less assms by linarith
    then show ?thesis using less by cases (simp_all add: kept_bytes_def)
  qed
  then show ?thesis by (auto simp: bit_chunk_byte len bit_ucast_iff bit_drop_bit_eq)
qed

lemma kept_chunk_bits:
  assumes "kept \<le> 3" "\<And>n. 24 \<le> n \<Longrightarrow> \<not> bit w n" "\<And>n. n < 8 * (3 - kept) \<Longrightarrow> \<not> bit w n"
  shows "chunk_bits (kept_bytes kept w) = w"
proof (rule bit_word_eqI)
  fix n
  note low = assms(3) [of n] and high = assms(2) [of n]
  show "bit (chunk_bits (kept_bytes kept w)) n = bit w n"
  proof (cases n rule: octants)
    case 1
    with low show ?thesis by (cases "2 < kept") (auto simp: bit_chunk_bits bit_kept assms(1))
  next
    case 2
    with low show ?thesis by (cases "1 < kept") (auto simp: bit_chunk_bits bit_kept assms(1))
  next
    case 3
    with low show ?thesis by (cases "0 < kept") (auto simp: bit_chunk_bits bit_kept assms(1))
  next
    case 4
    with high show ?thesis by (simp add: bit_chunk_bits)
  qed
qed

lemma at_most_three:
  assumes "length xs \<le> 3"
  obtains "xs = []" | a where "xs = [a]" | a b where "xs = [a, b]" | a b c where "xs = [a, b, c]"
  using assms by (cases xs; cases "tl xs"; cases "tl (tl xs)") auto

lemma chunk_bits_kept:
  assumes "length chunk \<le> 3"
  shows "kept_bytes (length chunk) (chunk_bits chunk) = chunk"
    and "n < 8 * (3 - length chunk) \<Longrightarrow> \<not> bit (chunk_bits chunk) n"
proof -
  have u: "ucast (drop_bit 16 (chunk_bits chunk)) = (if 0 < length chunk then chunk ! 0 else 0)"
    "ucast (drop_bit 8 (chunk_bits chunk)) = (if 1 < length chunk then chunk ! 1 else 0)"
    "ucast (chunk_bits chunk) = (if 2 < length chunk then chunk ! 2 else 0)"
    by (rule bit_word_eqI; simp add: bit_chunk_bits bit_chunk_byte bit_ucast_iff bit_drop_bit_eq)+
  show "kept_bytes (length chunk) (chunk_bits chunk) = chunk"
    using u by (cases rule: at_most_three [OF assms]) (simp_all add: kept_bytes_def)
  show "n < 8 * (3 - length chunk) \<Longrightarrow> \<not> bit (chunk_bits chunk) n"
    by (cases rule: at_most_three [OF assms]) (auto simp: bit_chunk_bits bit_chunk_byte)
qed

subsection \<open>One chunk\<close>

lemma bit_chunk_high: "24 \<le> n \<Longrightarrow> \<not> bit (chunk_bits chunk) n"
  by (simp add: bit_chunk_bits)

text \<open>What the encoder writes, by the number of bytes, and what the decoder makes of the values.\<close>

lemma base64_chunk_cases:
  "length chunk = 1 \<Longrightarrow> base64_chunk chunk =
     [ALPHABET ! unat (sextet (chunk_bits chunk) 0), ALPHABET ! unat (sextet (chunk_bits chunk) 1), CHR ''='', CHR ''='']"
  "length chunk = 2 \<Longrightarrow> base64_chunk chunk =
     [ALPHABET ! unat (sextet (chunk_bits chunk) 0), ALPHABET ! unat (sextet (chunk_bits chunk) 1),
      ALPHABET ! unat (sextet (chunk_bits chunk) 2), CHR ''='']"
  "length chunk = 3 \<Longrightarrow> base64_chunk chunk =
     [ALPHABET ! unat (sextet (chunk_bits chunk) 0), ALPHABET ! unat (sextet (chunk_bits chunk) 1),
      ALPHABET ! unat (sextet (chunk_bits chunk) 2), ALPHABET ! unat (sextet (chunk_bits chunk) 3)]"
  by (simp_all add: base64_chunk_def)

lemma value_bits_some:
  "a < 64 \<Longrightarrow> b < 64 \<Longrightarrow> value_bits 0 [ALPHABET ! a, ALPHABET ! b] = Some (joined (of_nat a) (of_nat b) 0 0)"
  "a < 64 \<Longrightarrow> b < 64 \<Longrightarrow> c < 64 \<Longrightarrow> value_bits 0 [ALPHABET ! a, ALPHABET ! b, ALPHABET ! c]
     = Some (joined (of_nat a) (of_nat b) (of_nat c) 0)"
  "a < 64 \<Longrightarrow> b < 64 \<Longrightarrow> c < 64 \<Longrightarrow> d < 64 \<Longrightarrow>
     value_bits 0 [ALPHABET ! a, ALPHABET ! b, ALPHABET ! c, ALPHABET ! d]
       = Some (joined (of_nat a) (of_nat b) (of_nat c) (of_nat d))"
  by (simp_all add: position_ALPHABET joined_def eval_nat_numeral)

lemma value_bits_values:
  "value_bits slot cs = Some w \<Longrightarrow> \<forall>c\<in>set cs. \<exists>v<64. ALPHABET ! v = c"
proof (induction slot cs arbitrary: w rule: value_bits.induct)
  case (2 slot c cs)
  then show ?case by (auto split: option.splits dest: value_of_char)
qed simp

lemma unused_zero: "kept \<le> 3 \<Longrightarrow>
   (w AND (push_bit (8 * (3 - kept)) 1 - 1) = 0) \<longleftrightarrow> (\<forall>n. n < 8 * (3 - kept) \<longrightarrow> \<not> bit (w :: u32) n)"
proof -
  assume kept: "kept \<le> 3"
  have "(push_bit (8 * (3 - kept)) 1 - 1 :: u32) = mask (8 * (3 - kept))"
    by (simp add: mask_eq_exp_minus_1 push_bit_eq_mult)
  then have "w AND (push_bit (8 * (3 - kept)) 1 - 1) = w AND mask (8 * (3 - kept))" by simp
  moreover have "w AND mask (8 * (3 - kept)) = 0 \<longleftrightarrow> (\<forall>n. n < 8 * (3 - kept) \<longrightarrow> \<not> bit w n)"
  proof -
    have "bit w n \<Longrightarrow> n < 32" for n by (drule bit_imp_le_length) simp
    then show ?thesis by (auto simp: bit_eq_iff bit_and_iff bit_mask_iff)
  qed
  ultimately show ?thesis by simp
qed

lemma pads_of: "position (\<lambda>b. b = CHR ''='') chunk = None \<longleftrightarrow> CHR ''='' \<notin> set chunk"
  by (induction chunk) auto

text \<open>A chunk decodes exactly to the bytes the encoder writes as it.\<close>

lemma decode_encoded:
  assumes "out \<noteq> []" "length out \<le> 3" "length out < 3 \<Longrightarrow> final"
  shows "unbase64_chunk final (base64_chunk out) = Some out"
proof -
  let ?w = "chunk_bits out" and ?s = "\<lambda>i. unat (sextet (chunk_bits out) i)"
  have zero: "sextet ?w i = 0" if "length out < i" "i < 4" for i
    using that chunk_bits_kept(2) [OF assms(2)]
    by (intro bit_word_eqI) (auto simp: bit_sextet)
  have joined: "joined (sextet ?w 0) (sextet ?w 1) (sextet ?w 2) (sextet ?w 3) = ?w"
    by (rule joined_sextets) (rule bit_chunk_high)
  have unused: "?w AND (push_bit (8 * (3 - length out)) 1 - 1) = 0"
    using unused_zero [OF assms(2)] chunk_bits_kept(2) [OF assms(2)] by blast
  note facts = base64_chunk_cases ALPHABET_no_pad sextet_less value_bits_some kept_to_be
    chunk_bits_kept(1) [OF assms(2)]
  consider "length out = 1" | "length out = 2" | "length out = 3"
    using assms(1,2) by (cases rule: at_most_three [OF assms(2)]) auto
  then show ?thesis
  proof cases
    case 1
    then have "joined (sextet ?w 0) (sextet ?w 1) 0 0 = ?w" using zero [of 2] zero [of 3] joined by simp
    with 1 assms(3) unused show ?thesis
      using facts by (simp add: unbase64_chunk_def Let_def)
  next
    case 2
    then have "joined (sextet ?w 0) (sextet ?w 1) (sextet ?w 2) 0 = ?w" using zero [of 3] joined by simp
    with 2 assms(3) unused show ?thesis
      using facts by (simp add: unbase64_chunk_def Let_def)
  next
    case 3
    with joined unused show ?thesis
      using facts by (simp add: unbase64_chunk_def Let_def)
  qed
qed

lemma four: "length xs = 4 \<Longrightarrow> \<exists>a b c d. xs = [a, b, c, d]"
  by (cases xs; cases "tl xs"; cases "tl (tl xs)"; cases "tl (tl (tl xs))") auto

lemma encode_kept:
  assumes "a < 64" "b < 64" "c < 64" "d < 64" and "1 \<le> kept" "kept \<le> 3"
  defines "w \<equiv> joined (of_nat a) (of_nat b) (of_nat c) (of_nat d)"
  assumes low: "w AND (push_bit (8 * (3 - kept)) 1 - 1) = 0"
  shows "base64_chunk (kept_bytes kept w) =
      [ALPHABET ! a, ALPHABET ! b, if 2 \<le> kept then ALPHABET ! c else CHR ''='',
       if 3 \<le> kept then ALPHABET ! d else CHR ''='']"
proof -
  note six = six_value [OF assms(1)] six_value [OF assms(2)] six_value [OF assms(3)] six_value [OF assms(4)]
  have "\<not> bit w n" if "24 \<le> n" for n using that by (simp add: w_def bit_joined six)
  then have bits: "chunk_bits (kept_bytes kept w) = w"
    using low unused_zero [OF assms(6)] by (intro kept_chunk_bits assms(6)) blast+
  have vals: "unat (sextet w 0) = a" "unat (sextet w 1) = b" "unat (sextet w 2) = c" "unat (sextet w 3) = d"
    using assms(1-4) unfolding w_def sextet_joined [OF six] by (simp_all add: unat_of_nat)
  have "length (kept_bytes kept w) = kept" using assms(6) by (simp add: kept_bytes_def)
  then have "base64_chunk (kept_bytes kept w) = map (\<lambda>slot. if slot \<le> kept then ALPHABET ! unat (sextet w slot)
      else CHR ''='') [0, 1, 2, 3]"
    unfolding base64_chunk_def bits by simp
  with vals assms(5,6) show ?thesis by simp
qed

lemma encode_decoded:
  assumes "unbase64_chunk final chunk = Some out" "length chunk = 4"
  shows "base64_chunk out = chunk \<and> out \<noteq> [] \<and> length out \<le> 3 \<and> (length out < 3 \<longrightarrow> final)"
proof -
  define fp where "fp = (case position (\<lambda>b. b = CHR ''='') chunk of None \<Rightarrow> 4 | Some i \<Rightarrow> i)"
  obtain w where guard: "\<not> (4 - fp > 0 \<and> (\<not> final \<or> 4 - fp > 2 \<or> \<not> list_all (\<lambda>b. b = CHR ''='') (drop fp chunk)))"
    and w: "value_bits 0 (take fp chunk) = Some w"
    and low: "w AND (push_bit (8 * (3 - (3 - (4 - fp)))) 1 - 1) = 0"
    and out: "out = kept_bytes (3 - (4 - fp)) w"
    using assms(1) unfolding unbase64_chunk_def fp_def [symmetric] Let_def kept_to_be
    by (auto split: if_splits option.splits)
  have "fp \<le> 4"
    using assms(2) by (auto simp: fp_def split: option.splits dest: position_SomeD)
  then consider "fp = 2" | "fp = 3" | "fp = 4" using guard by linarith
  then show ?thesis
  proof cases
    case 1
    obtain c d where chunk: "chunk = [c, d, CHR ''='', CHR ''='']"
      using guard 1 four [OF assms(2)] by auto
    then obtain a b where "a < 64" "b < 64" "c = ALPHABET ! a" "d = ALPHABET ! b"
      using value_bits_values [OF w] 1 by auto
    moreover from this have "w = joined (of_nat a) (of_nat b) (of_nat 0) (of_nat 0)"
      using w 1 chunk value_bits_some(1) by simp
    ultimately show ?thesis
      using encode_kept [of a b 0 0 1] low out guard 1 chunk by (simp add: kept_bytes_def)
  next
    case 2
    obtain c d e where chunk: "chunk = [c, d, e, CHR ''='']"
      using guard 2 four [OF assms(2)] by auto
    then obtain v x y where "v < 64" "x < 64" "y < 64" "c = ALPHABET ! v" "d = ALPHABET ! x" "e = ALPHABET ! y"
      using value_bits_values [OF w] 2 by (auto simp: eval_nat_numeral)
    moreover from this have "w = joined (of_nat v) (of_nat x) (of_nat y) (of_nat 0)"
      using w 2 chunk value_bits_some(2) by (simp add: eval_nat_numeral)
    ultimately show ?thesis
      using encode_kept [of v x y 0 2] low out guard 2 chunk by (simp add: kept_bytes_def)
  next
    case 3
    obtain c d e f where chunk: "chunk = [c, d, e, f]"
      using four [OF assms(2)] by auto
    then obtain v x y z where "v < 64" "x < 64" "y < 64" "z < 64"
      "c = ALPHABET ! v" "d = ALPHABET ! x" "e = ALPHABET ! y" "f = ALPHABET ! z"
      using value_bits_values [OF w] 3 by (auto simp: eval_nat_numeral)
    moreover from this have "w = joined (of_nat v) (of_nat x) (of_nat y) (of_nat z)"
      using w 3 chunk value_bits_some(3) by (simp add: eval_nat_numeral)
    ultimately show ?thesis
      using encode_kept [of v x y z 3] low out guard 3 chunk by (simp add: kept_bytes_def)
  qed
qed

subsection \<open>The whole text\<close>

lemma chunks_take: "0 < n \<Longrightarrow> xs \<noteq> [] \<Longrightarrow> chunks n xs = take n xs # chunks n (drop n xs)"
  by (cases xs) simp_all

lemma chunks_one: "0 < n \<Longrightarrow> xs \<noteq> [] \<Longrightarrow> length xs \<le> n \<Longrightarrow> chunks n xs = [xs]"
  by (simp add: chunks_take)

lemma chunks_append: "0 < n \<Longrightarrow> length xs = n \<Longrightarrow> chunks n (xs @ ys) = xs # chunks n ys"
  by (cases "xs @ ys = []") (simp_all add: chunks_take)

lemma length_base64_chunk: "length (base64_chunk chunk) = 4"
  by (simp add: base64_chunk_def)

lemma length_base64: "length (base64 bs) mod 4 = 0"
  by (induction "chunks 3 bs" arbitrary: bs)
    (auto simp: base64_def length_concat o_def length_base64_chunk sum_list_triv)

lemma decode_chunks_complete: "unbase64_chunks (chunks 4 (base64 bs)) = Some bs"
proof (induction "length bs" arbitrary: bs rule: less_induct)
  case less
  show ?case
  proof (cases "length bs \<le> 3")
    case True
    show ?thesis
    proof (cases "bs = []")
      case False
      then have "base64 bs = base64_chunk bs" using True by (simp add: base64_def chunks_one)
      moreover have "base64_chunk bs \<noteq> []" by (simp add: base64_chunk_def)
      ultimately have "chunks 4 (base64 bs) = [base64_chunk bs]"
        by (simp add: chunks_one length_base64_chunk)
      then show ?thesis using False True by (simp add: decode_encoded)
    qed (simp add: base64_def)
  next
    case False
    let ?c = "take 3 bs" and ?r = "drop 3 bs"
    have r: "?r \<noteq> []" "bs \<noteq> []" using False by auto
    have joined_text: "base64 bs = base64_chunk ?c @ base64 ?r"
      using r by (simp add: base64_def chunks_take [of 3 bs])
    have "base64 ?r \<noteq> []"
      using r(1) by (simp add: base64_def chunks_take [of 3 ?r] base64_chunk_def)
    then have rest: "chunks 4 (base64 ?r) \<noteq> []" by (simp add: chunks_take)
    have "unbase64_chunk False (base64_chunk ?c) = Some ?c"
      using False by (intro decode_encoded) auto
    moreover have "unbase64_chunks (chunks 4 (base64 ?r)) = Some ?r" using less False by simp
    ultimately show ?thesis
      using rest by (simp add: joined_text chunks_append length_base64_chunk)
  qed
qed

lemma decode_chunks_sound:
  assumes "unbase64_chunks (chunks 4 t) = Some bs" "length t mod 4 = 0"
  shows "base64 bs = t"
  using assms
proof (induction "length t" arbitrary: t bs rule: less_induct)
  case less
  show ?case
  proof (cases "t = []")
    case True
    with less.prems show ?thesis by (simp add: base64_def)
  next
    case False
    let ?c = "take 4 t" and ?r = "drop 4 t"
    have len: "4 \<le> length t" using False less.prems(2) by (cases "length t < 4") auto
    obtain out more where out: "unbase64_chunk (chunks 4 ?r = []) ?c = Some out"
      and more: "unbase64_chunks (chunks 4 ?r) = Some more" and bs: "bs = out @ more"
      using less.prems(1) False by (auto simp: chunks_take split: option.splits)
    have c: "base64_chunk out = ?c" "out \<noteq> []" "length out \<le> 3" "length out < 3 \<longrightarrow> chunks 4 ?r = []"
      using encode_decoded [OF out] len by auto
    have "length ?r mod 4 = 0" using less.prems(2) len by (simp add: mod_if [of "length t"])
    then have r: "base64 more = ?r" using less.hyps [OF _ more] len by simp
    have "base64 bs = base64_chunk out @ base64 more"
    proof (cases "length out = 3")
      case True
      then show ?thesis by (simp add: bs base64_def chunks_append)
    next
      case False
      then have "more = []" using c(3,4) more by auto
      with c(2,3) show ?thesis by (simp add: bs base64_def chunks_one)
    qed
    with c(1) r show ?thesis by simp
  qed
qed

lemma unbase64_iff: "unbase64 t = Some bs \<longleftrightarrow> base64 bs = t"
proof
  assume "unbase64 t = Some bs"
  then show "base64 bs = t"
    by (auto simp: unbase64_def decode_chunks_sound base64_def [of "[]"] split: if_splits)
next
  assume t: "base64 bs = t"
  show "unbase64 t = Some bs"
  proof (cases "t = []")
    case True
    with t have "bs = []" using decode_chunks_complete [of bs] by simp
    with True show ?thesis by (simp add: unbase64_def)
  next
    case False
    with t show ?thesis
      using decode_chunks_complete [of bs] length_base64 [of bs] by (simp add: unbase64_def)
  qed
qed

text \<open>
  C32. One text for every sequence of bytes. The decoder accepts a text exactly when it is what the
  encoder writes, and gives back the bytes it was written for; so no malformed or non-canonical
  text, with padding inside, a value after a pad or unused bits set, is ever read as anything.
\<close>

theorem a_text_decodes_only_as_it_was_encoded:
  "unbase64 t = Some bs \<longleftrightarrow> base64 bs = t"
  by (rule unbase64_iff)

end
