(* ===== verification/ImportPage.thy ===== *)
theory ImportPage
  imports Base64 Fingerprint ScalarText
begin

section \<open>The catalogue import's wire vocabulary (crate tam-engine-driver, import.rs)\<close>

text \<open>
  What a device posts of a seller's shop: bounded names, media types, locators and reasons, covers
  and pictures in canonical base64, and the page that carries them. The length of a \<open>Vec\<close> or a
  \<open>String\<close> is a \<open>nat\<close>. The field attributes of serde are not modelled: a value is decoded by its
  type's \<open>try_from\<close> and encoded by its \<open>into\<close>, which every type with them interprets in the
  locale \<open>wire_value\<close>.
\<close>

definition NAME_MAX :: nat where "NAME_MAX = 200"
definition CONTENT_TYPE_MAX :: nat where "CONTENT_TYPE_MAX = 127"
definition LOCATOR_MAX :: nat where "LOCATOR_MAX = 400"
definition REASON_MAX :: nat where "REASON_MAX = 500"
definition COVER_BYTES_MAX :: nat where "COVER_BYTES_MAX = 2 * 1024 * 1024"
definition PNG_MAGIC :: "u8 list" where "PNG_MAGIC = [0x89, 0x50, 0x4E, 0x47, 0x0D, 0x0A, 0x1A, 0x0A]"
definition THUMBNAIL_BYTES_MAX :: nat where "THUMBNAIL_BYTES_MAX = COVER_BYTES_MAX"
definition THUMBNAILS_MAX :: nat where "THUMBNAILS_MAX = 4"

datatype NotReportable =
    NameTooLong nat | NameNotAName | CoverNotPng | CoverTooLarge nat | CoverNotBase64
  | ContentTypeTooLong nat | ContentTypeNotAMediaType | LocatorTooLong nat | LocatorNotALocator
  | ReasonTooLong nat | ThumbnailNotAnImage | ThumbnailTooLarge nat | ThumbnailNotBase64

fun not_reportable_str :: "NotReportable \<Rightarrow> string" where
  "not_reportable_str (NameTooLong len) =
     ''a file name is at most '' @ decimal NAME_MAX @ '' bytes and this is '' @ decimal len"
| "not_reportable_str NameNotAName =
     ''a file name is not empty, is not '' @ [CHR 0x22] @ ''.'' @ [CHR 0x22] @ '' or '' @ [CHR 0x22] @ ''..''
       @ [CHR 0x22] @ '', carries no path separator, no control character, no direction override ''
       @ ''and no byte-order mark, and does not begin or end in whitespace''"
| "not_reportable_str CoverNotPng = ''a cover is a PNG and this is not one''"
| "not_reportable_str (CoverTooLarge len) =
     ''a cover is at most '' @ decimal COVER_BYTES_MAX @ '' bytes and this is '' @ decimal len"
| "not_reportable_str CoverNotBase64 = ''a cover is canonical base64 and this is not well-formed''"
| "not_reportable_str (ContentTypeTooLong len) =
     ''a media type is at most '' @ decimal CONTENT_TYPE_MAX @ '' bytes and this is '' @ decimal len"
| "not_reportable_str ContentTypeNotAMediaType =
     ''a media type is a type and a subtype separated by one solidus''"
| "not_reportable_str (LocatorTooLong len) =
     ''a resource locator is at most '' @ decimal LOCATOR_MAX @ '' bytes and this is '' @ decimal len"
| "not_reportable_str LocatorNotALocator =
     ''a resource locator is not empty and carries no control character''"
| "not_reportable_str (ReasonTooLong len) =
     ''a reason is at most '' @ decimal REASON_MAX @ '' bytes and this is '' @ decimal len"
| "not_reportable_str ThumbnailNotAnImage =
     ''a listing picture is a PNG, JPEG, GIF or WebP and this is not one''"
| "not_reportable_str (ThumbnailTooLarge len) =
     ''a listing picture is at most '' @ decimal THUMBNAIL_BYTES_MAX @ '' bytes and this is '' @ decimal len"
| "not_reportable_str ThumbnailNotBase64 =
     ''a listing picture is canonical base64 and this is not well-formed''"

subsection \<open>The contract of a value on the wire\<close>

text \<open>
  A value crosses as text. Decoding checks; encoding writes the text the value was decoded from, so
  a consumer that re-encodes what it accepted hands on what it was sent, and two different texts
  are never the same value.
\<close>

locale wire_value =
  fixes decode :: "string \<Rightarrow> NotReportable + 'a" and encode :: "'a \<Rightarrow> string"
  assumes encode_decoded: "decode t = Inr v \<Longrightarrow> encode v = t"
begin

lemma decode_inj: "decode s = Inr v \<Longrightarrow> decode t = Inr v \<Longrightarrow> s = t"
  using encode_decoded by metis

lemma again: "decode t = Inr v \<Longrightarrow> decode (encode v) = Inr v"
  using encode_decoded by metis

end

subsection \<open>Characters\<close>

text \<open>\<open>char::is_control\<close>: the scalar values U+0000 to U+001F and U+007F to U+009F, encoded.\<close>

definition is_control :: "string \<Rightarrow> bool" where
  "is_control c =
     (case map (of_char :: char \<Rightarrow> nat) c of
        [b] \<Rightarrow> b < 32 \<or> b = 127
      | [b, d] \<Rightarrow> b = 194 \<and> 128 \<le> d \<and> d < 160
      | _ \<Rightarrow> False)"

text \<open>U+202A to U+202E, U+2066 to U+2069 and U+FEFF, encoded.\<close>

definition is_spoofing :: "string \<Rightarrow> bool" where
  "is_spoofing c \<longleftrightarrow>
     c \<in> set (map utf8 ([0x202A ..< 0x202F] @ [0x2066 ..< 0x206A] @ [0xFEFF]))"

subsection \<open>Bounded text\<close>

datatype FileName = FileName (file_name_str: string)
datatype ContentType = ContentType (content_type_str: string)
datatype Locator = Locator (locator_str: string)
datatype Reason = Reason (reason_str: string)

definition file_name_new :: "string \<Rightarrow> NotReportable + FileName" where
  "file_name_new name =
     (if length name > NAME_MAX then Inl (NameTooLong (length name))
      else if \<not> (name \<noteq> [] \<and> name \<noteq> ''.'' \<and> name \<noteq> ''..''
              \<and> CHR ''/'' \<notin> set name \<and> CHR 0x5C \<notin> set name
              \<and> \<not> list_ex is_control (scalars name) \<and> \<not> list_ex is_spoofing (scalars name)
              \<and> trim name = name)
      then Inl NameNotAName
      else Inr (FileName name))"

text \<open>\<open>u8::is_ascii_alphanumeric\<close>, and the characters of a token of a media type.\<close>

definition ascii_alphanumeric :: "char \<Rightarrow> bool" where
  "ascii_alphanumeric c =
     (let n = of_char c :: nat in 48 \<le> n \<and> n \<le> 57 \<or> 65 \<le> n \<and> n \<le> 90 \<or> 97 \<le> n \<and> n \<le> 122)"

definition media_token :: "string \<Rightarrow> bool" where
  "media_token part \<longleftrightarrow>
     part \<noteq> [] \<and> list_all (\<lambda>c. ascii_alphanumeric c \<or> c \<in> set ''!#$&^_.+-'') part"

definition content_type_new :: "string \<Rightarrow> NotReportable + ContentType" where
  "content_type_new v =
     (if length v > CONTENT_TYPE_MAX then Inl (ContentTypeTooLong (length v))
      else case split_char (CHR ''/'') v of
             [kind, subtype] \<Rightarrow>
               if \<not> media_token kind \<or> \<not> media_token subtype then Inl ContentTypeNotAMediaType
               else Inr (ContentType v)
           | _ \<Rightarrow> Inl ContentTypeNotAMediaType)"

definition locator_new :: "string \<Rightarrow> NotReportable + Locator" where
  "locator_new v =
     (if length v > LOCATOR_MAX then Inl (LocatorTooLong (length v))
      else if v = [] \<or> list_ex is_control (scalars v) then Inl LocatorNotALocator
      else Inr (Locator v))"

definition from_resource_id :: "i64 \<Rightarrow> Locator" where
  "from_resource_id i = Locator (signed_decimal i)"

definition reason_new :: "string \<Rightarrow> NotReportable + Reason" where
  "reason_new v =
     (if length v > REASON_MAX then Inl (ReasonTooLong (length v)) else Inr (Reason v))"

text \<open>The characters taken while their bytes, counted so far, stay within the bound.\<close>

fun take_within :: "nat \<Rightarrow> string list \<Rightarrow> string list" where
  "take_within used [] = []"
| "take_within used (c # cs) =
     (if used + length c \<le> REASON_MAX then c # take_within (used + length c) cs else [])"

definition truncating :: "string \<Rightarrow> Reason" where
  "truncating v = Reason (concat (take_within 0 (scalars v)))"

subsection \<open>Covers and pictures\<close>

datatype Cover = Cover (cover_bytes: "u8 list")
datatype Thumbnail = Thumbnail (thumbnail_bytes: "u8 list")

definition starts_with :: "u8 list \<Rightarrow> u8 list \<Rightarrow> bool" where
  "starts_with prefix bytes \<longleftrightarrow> take (length prefix) bytes = prefix"

definition cover_encode :: "u8 list \<Rightarrow> NotReportable + Cover" where
  "cover_encode png =
     (if \<not> starts_with PNG_MAGIC png then Inl CoverNotPng
      else if length png > COVER_BYTES_MAX then Inl (CoverTooLarge (length png))
      else Inr (Cover png))"

definition cover_try_from :: "string \<Rightarrow> NotReportable + Cover" where
  "cover_try_from encoded =
     (case unbase64 encoded of None \<Rightarrow> Inl CoverNotBase64 | Some decoded \<Rightarrow> cover_encode decoded)"

definition cover_into :: "Cover \<Rightarrow> string" where
  "cover_into cover = base64 (cover_bytes cover)"

text \<open>The openings of a JPEG, the two GIFs and a WebP.\<close>

definition is_picture :: "u8 list \<Rightarrow> bool" where
  "is_picture bytes \<longleftrightarrow>
     starts_with PNG_MAGIC bytes
     \<or> starts_with [0xFF, 0xD8, 0xFF] bytes
     \<or> starts_with [0x47, 0x49, 0x46, 0x38, 0x37, 0x61] bytes
     \<or> starts_with [0x47, 0x49, 0x46, 0x38, 0x39, 0x61] bytes
     \<or> starts_with [0x52, 0x49, 0x46, 0x46] bytes \<and> 12 \<le> length bytes
        \<and> take 4 (drop 8 bytes) = [0x57, 0x45, 0x42, 0x50]"

definition thumbnail_encode :: "u8 list \<Rightarrow> NotReportable + Thumbnail" where
  "thumbnail_encode bytes =
     (if \<not> is_picture bytes then Inl ThumbnailNotAnImage
      else if length bytes > THUMBNAIL_BYTES_MAX then Inl (ThumbnailTooLarge (length bytes))
      else Inr (Thumbnail bytes))"

definition thumbnail_try_from :: "string \<Rightarrow> NotReportable + Thumbnail" where
  "thumbnail_try_from encoded =
     (case unbase64 encoded of None \<Rightarrow> Inl ThumbnailNotBase64 | Some decoded \<Rightarrow> thumbnail_encode decoded)"

definition thumbnail_into :: "Thumbnail \<Rightarrow> string" where
  "thumbnail_into thumbnail = base64 (thumbnail_bytes thumbnail)"

subsection \<open>The page\<close>

record ObservedFile =
  of_payload_file_name :: FileName
  of_payload_content_type :: ContentType
  of_kind :: FileKind
  of_hash :: ContentHash
  of_byte_len :: u64
  of_scan :: ScanOutcome
  of_entry :: "FileName option"

record ListingExtras =
  lx_tax_code :: "string option"
  lx_copyright :: "string option"
  lx_appropriate_for_country :: "bool option"
  lx_thumbnails :: "string list"

definition extras_is_empty :: "ListingExtras \<Rightarrow> bool" where
  "extras_is_empty x \<longleftrightarrow>
     lx_tax_code x = None \<and> lx_copyright x = None \<and> lx_appropriate_for_country x = None
     \<and> lx_thumbnails x = []"

record ImportedListing =
  il_remote :: RemoteListingId
  il_title :: string
  il_body :: string
  il_body_format :: CopyFormat
  il_native :: "ImportedTerm list"
  il_rights :: "ImportedTerm option"
  il_price :: ImportedPrice
  il_state :: "ListingState option"
  il_extras :: ListingExtras

definition axis :: "ImportedListing \<Rightarrow> TermKind \<Rightarrow> ImportedTerm list" where
  "axis listing kind = filter (\<lambda>t. it_kind t = Some kind) (il_native listing)"

record ObservedResource =
  or_locator :: Locator
  or_listing :: ImportedListing
  or_file :: "ObservedFile option"
  or_cover_png :: "Cover option"
  or_fingerprint :: "Fingerprint option"
  or_thumbnails :: "Thumbnail list"

record ListedResource =
  lr_locator :: Locator
  lr_title :: string
  lr_price_minor :: "i64 option"
  lr_currency :: "string option"
  lr_state :: "ListingState option"

record SkippedResource =
  sk_locator :: Locator
  sk_why :: Reason

record ImportPage =
  ip_run :: Uuid
  ip_request :: "Uuid option"
  ip_attempt :: "u64 option"
  ip_receipt :: "Uuid option"
  ip_enumeration_complete :: bool
  ip_listed :: "ListedResource list option"
  ip_resources :: "ObservedResource list"
  ip_skipped :: "SkippedResource list"
  ip_complete :: bool
  ip_failed :: "Reason option"

record ImportLease =
  ils_attempt :: u64
  ils_lease_expires_at :: i64

record ImportClaim =
  ic_takeover :: bool

record ImportRenewal =
  irn_attempt :: u64

record ImportStop =
  ist_attempt :: u64

record ImportStopAck =
  isa_abandoned :: bool

datatype ImportStage = Discovering | Selecting | Reading | Interrupted | StageFailed

datatype ImportReasonCode =
    MissingSession | NotPermittedReason | UnsupportedSource | EnumerationFailed | DescriptionFailed
  | SubmissionFailed | ActivationExpired | LeaseExpired | Stopped | ClientUpdateRequired

record ImportProgressReport =
  ipr_attempt :: u64
  ipr_stage :: ImportStage
  ipr_discovered :: u32
  ipr_processed :: u32
  ipr_reason_code :: "ImportReasonCode option"
  ipr_reason :: "Reason option"

subsection \<open>Every value keeps the contract\<close>

interpretation file_names: wire_value file_name_new file_name_str
  by unfold_locales (auto simp: file_name_new_def split: if_splits)

interpretation content_types: wire_value content_type_new content_type_str
  by unfold_locales (auto simp: content_type_new_def split: if_splits list.splits)

interpretation locators: wire_value locator_new locator_str
  by unfold_locales (auto simp: locator_new_def split: if_splits)

interpretation reasons: wire_value reason_new reason_str
  by unfold_locales (auto simp: reason_new_def split: if_splits)

interpretation covers: wire_value cover_try_from cover_into
  by unfold_locales
    (auto simp: cover_try_from_def cover_encode_def cover_into_def split: option.splits if_splits
      simp: unbase64_iff)

interpretation thumbnails: wire_value thumbnail_try_from thumbnail_into
  by unfold_locales
    (auto simp: thumbnail_try_from_def thumbnail_encode_def thumbnail_into_def split: option.splits if_splits
      simp: unbase64_iff)

subsection \<open>Names\<close>

lemma file_name_iff: "file_name_new raw = Inr n \<longleftrightarrow>
   n = FileName raw \<and> length raw \<le> NAME_MAX \<and> raw \<notin> {[], ''.'', ''..''}
   \<and> CHR ''/'' \<notin> set raw \<and> CHR 0x5C \<notin> set raw
   \<and> (\<forall>c\<in>set (scalars raw). \<not> is_control c \<and> \<not> is_spoofing c) \<and> trim raw = raw"
  by (auto simp: file_name_new_def list_ex_iff)

lemma split_at_separator: "c \<notin> set s \<Longrightarrow> split_char c (d @ c # s) = split_char c d @ [s]"
proof (induction d)
  case (Cons x d)
  then show ?case by (cases "split_char c d") (auto simp: split_char_none)
qed (simp add: split_char_none)

text \<open>
  C31. A file's name is not a path. A name the type accepts is one component wherever it is joined,
  by either separator, and is neither empty nor a step to the directory itself or to its parent; it
  holds at most two hundred bytes and no control, override or byte-order mark, and is not padded.
\<close>

theorem a_file_name_is_one_component:
  assumes "file_name_new raw = Inr n"
  shows "split_char (CHR ''/'') (dir @ CHR ''/'' # file_name_str n) = split_char (CHR ''/'') dir @ [file_name_str n]
    \<and> split_char (CHR 0x5C) (dir @ CHR 0x5C # file_name_str n) = split_char (CHR 0x5C) dir @ [file_name_str n]
    \<and> file_name_str n \<notin> {[], ''.'', ''..''} \<and> length (file_name_str n) \<le> NAME_MAX
    \<and> (\<forall>c\<in>set (scalars (file_name_str n)). \<not> is_control c \<and> \<not> is_spoofing c)
    \<and> trim (file_name_str n) = file_name_str n"
  using assms by (auto simp: file_name_iff split_at_separator)

text \<open>No field of an observed file can carry a file: its texts are bounded together.\<close>

lemma an_observed_file_is_bounded:
  assumes "file_name_new a = Inr (of_payload_file_name f)" "content_type_new b = Inr (of_payload_content_type f)"
    and "\<And>e. of_entry f = Some e \<Longrightarrow> \<exists>t. file_name_new t = Inr e"
  shows "length (file_name_str (of_payload_file_name f)) + length (content_type_str (of_payload_content_type f))
    + (case of_entry f of None \<Rightarrow> 0 | Some e \<Rightarrow> length (file_name_str e)) \<le> 2 * NAME_MAX + CONTENT_TYPE_MAX"
proof -
  have "length (content_type_str (of_payload_content_type f)) \<le> CONTENT_TYPE_MAX"
    using assms(2) content_types.encode_decoded [OF assms(2)]
    by (auto simp: content_type_new_def split: if_splits)
  moreover have "length (file_name_str (of_payload_file_name f)) \<le> NAME_MAX"
    using assms(1) by (auto simp: file_name_iff)
  ultimately show ?thesis
    using assms(3) by (cases "of_entry f") (auto simp: file_name_iff)
qed

subsection \<open>Locators and reasons\<close>

lemma decimal_length: "n < 10 ^ k \<Longrightarrow> 0 < k \<Longrightarrow> length (decimal n) \<le> k"
proof (induction n arbitrary: k rule: decimal.induct)
  case (1 n)
  show ?case
  proof (cases "n < 10")
    case False
    with 1 obtain j where k: "k = Suc j" "0 < j"
      by (cases k; cases "k - 1") auto
    with 1 False have "n div 10 < 10 ^ j" by (simp add: div_less_iff_less_mult mult.commute)
    with 1 False k show ?thesis by (simp add: decimal.simps [of n])
  qed (use 1 in \<open>simp add: decimal.simps [of n]\<close>)
qed

lemma ascii_no_control: "list_all (\<lambda>c. 32 \<le> (of_char c :: nat) \<and> (of_char c :: nat) < 127) s \<Longrightarrow>
    \<not> list_ex is_control (scalars s)"
proof -
  assume plain: "list_all (\<lambda>c. 32 \<le> (of_char c :: nat) \<and> (of_char c :: nat) < 127) s"
  then have "scalars s = map (\<lambda>c. [c]) s"
    by (intro scalars_ascii) (auto simp: list_all_iff)
  with plain show ?thesis by (auto simp: list_ex_iff list_all_iff is_control_def)
qed

lemma locator_digits_plain: "list_all (\<lambda>c. 32 \<le> (of_char c :: nat) \<and> (of_char c :: nat) < 127) (signed_decimal i)"
proof -
  have "list_all (\<lambda>c. 32 \<le> (of_char c :: nat) \<and> (of_char c :: nat) < 127) (decimal n)" for n
    using decimal_ascii [of n] by (auto simp: list_all_iff ascii_digit_def)
  then show ?thesis by (simp add: signed_decimal_def)
qed

text \<open>
  A numeric catalogue has no error arm: the locator of any 64-bit resource id is one the wire
  accepts, of at most twenty bytes.
\<close>

theorem every_resource_id_is_a_locator:
  assumes "in_signed 64 i"
  shows "locator_new (locator_str (from_resource_id i)) = Inr (from_resource_id i)
    \<and> length (locator_str (from_resource_id i)) \<le> 20"
proof -
  have "nat \<bar>i\<bar> < 10 ^ 19" using assms by (auto simp: in_signed_def)
  then have "length (decimal (nat \<bar>i\<bar>)) \<le> 19" by (rule decimal_length) simp
  then have len: "length (signed_decimal i) \<le> 20"
    by (auto simp: signed_decimal_def split: if_splits)
  moreover have "signed_decimal i \<noteq> []"
    by (simp add: signed_decimal_def decimal_nonempty)
  ultimately show ?thesis
    using ascii_no_control [OF locator_digits_plain] by (simp add: locator_new_def from_resource_id_def LOCATOR_MAX_def)
qed

lemma take_within_spec:
  "\<exists>n. take_within used cs = take n cs
     \<and> (used \<le> REASON_MAX \<longrightarrow> used + length (concat (take n cs)) \<le> REASON_MAX)
     \<and> (n < length cs \<longrightarrow> REASON_MAX < used + length (concat (take n cs)) + length (cs ! n))"
proof (induction used cs rule: take_within.induct)
  case (2 used c cs)
  show ?case
  proof (cases "used + length c \<le> REASON_MAX")
    case True
    with 2 obtain n where "take_within (used + length c) cs = take n cs"
      "used + length c + length (concat (take n cs)) \<le> REASON_MAX"
      "n < length cs \<longrightarrow> REASON_MAX < used + length c + length (concat (take n cs)) + length (cs ! n)"
      by auto
    with True show ?thesis by (intro exI [of _ "Suc n"]) (auto simp: add.assoc)
  next
    case False
    then show ?thesis by (intro exI [of _ 0]) auto
  qed
qed simp

text \<open>
  A reason cut to fit is the most of it that fits. Whatever an adapter says, the reason made of
  it is one the wire accepts, it is a run of whole characters from the start, and one character more
  would have gone over the bound; a sentence that fits is kept whole.
\<close>

theorem a_truncated_reason_is_the_longest_that_fits:
  "\<exists>n. scalars (reason_str (truncating v)) = take n (scalars v)
     \<and> reason_new (reason_str (truncating v)) = Inr (truncating v)
     \<and> (n < length (scalars v) \<longrightarrow> REASON_MAX < length (reason_str (truncating v)) + length (scalars v ! n))"
proof -
  obtain n where n: "take_within 0 (scalars v) = take n (scalars v)"
    "length (concat (take n (scalars v))) \<le> REASON_MAX"
    "n < length (scalars v) \<longrightarrow> REASON_MAX < length (concat (take n (scalars v))) + length (scalars v ! n)"
    using take_within_spec [of 0 "scalars v"] by auto
  have str: "reason_str (truncating v) = concat (take n (scalars v))" by (simp add: truncating_def n(1))
  have "scalars (reason_str (truncating v)) = take n (scalars v)" by (simp only: str scalars_take)
  moreover have "reason_new (reason_str (truncating v)) = Inr (truncating v)"
    using n(2) unfolding str by (simp add: reason_new_def truncating_def n(1))
  ultimately show ?thesis using n(3) unfolding str by blast
qed

lemma a_short_reason_is_kept: "length v \<le> REASON_MAX \<Longrightarrow> truncating v = Reason v"
proof -
  assume short: "length v \<le> REASON_MAX"
  have "used + length (concat cs) \<le> REASON_MAX \<Longrightarrow> take_within used cs = cs" for used cs
    by (induction used cs rule: take_within.induct) auto
  from this [of 0 "scalars v"] short show ?thesis by (simp add: truncating_def)
qed

text \<open>
  A picture is the bytes it was sent as: a cover or a listing picture decodes from one text
  only, opens as a picture, fits its bound, and is encoded again as that text.
\<close>

theorem a_cover_is_what_was_sent:
  "cover_try_from t = Inr c \<longleftrightarrow>
     t = cover_into c \<and> starts_with PNG_MAGIC (cover_bytes c) \<and> length (cover_bytes c) \<le> COVER_BYTES_MAX"
proof -
  have "unbase64 (cover_into c) = Some (cover_bytes c)" by (simp add: cover_into_def unbase64_iff)
  then show ?thesis
    using covers.encode_decoded [of t c]
    by (cases c) (auto simp: cover_try_from_def cover_encode_def split: option.splits if_splits)
qed

theorem a_file_name_is_one_component_witness:
  "split_char (CHR ''/'') (''/srv'' @ CHR ''/'' # ''a b.pdf'') = split_char (CHR ''/'') ''/srv'' @ [''a b.pdf'']"
proof -
  have "trim ''a b.pdf'' = ''a b.pdf''"
    and chars: "scalars ''a b.pdf'' = [''a'', '' '', ''b'', ''.'', ''p'', ''d'', ''f'']" by code_simp+
  moreover have "\<forall>c\<in>set (scalars ''a b.pdf''). \<not> is_control c \<and> \<not> is_spoofing c"
    unfolding chars by (simp add: is_control_def is_spoofing_def utf8_def)
  ultimately have "file_name_new ''a b.pdf'' = Inr (FileName ''a b.pdf'')"
    by (auto simp: file_name_new_def NAME_MAX_def list_ex_iff)
  from a_file_name_is_one_component [OF this, of "''/srv''"] show ?thesis by simp
qed

theorem a_truncated_reason_is_the_longest_that_fits_witness:
  "\<exists>n. scalars (reason_str (truncating ''no'')) = take n (scalars ''no'')
     \<and> (n < length (scalars ''no'') \<longrightarrow> REASON_MAX < length (reason_str (truncating ''no'')) + length (scalars ''no'' ! n))"
  using a_truncated_reason_is_the_longest_that_fits [of "''no''"] by blast

end
