(* ===== verification/Csv.thy ===== *)
theory Csv
  imports ListingAddress ScalarText
begin

section \<open>Comma-separated files (crate tam-api, export.rs and import_batch/parse.rs)\<close>

text \<open>
  The writer of the exported catalogue and the reader of an uploaded sheet. Every character either
  of them tests is ASCII, so both work on the UTF-8 bytes; only trimming looks at scalar values.
\<close>

subsection \<open>The writer\<close>

text \<open>A cell that opens with a character a spreadsheet would take for a formula is defused.\<close>

definition opens_formula :: "string \<Rightarrow> bool" where
  "opens_formula raw \<longleftrightarrow>
     (case raw of [] \<Rightarrow> False | c # _ \<Rightarrow> c \<in> {CHR ''='', CHR ''+'', CHR ''-'', CHR ''@'', CHR 0x09, CHR 0x0D})"

definition defused :: "string \<Rightarrow> string" where
  "defused raw = (if opens_formula raw then CHR 0x27 # raw else raw)"

definition special :: "char \<Rightarrow> bool" where
  "special c \<longleftrightarrow> c \<in> {CHR 0x22, CHR '','', CHR 0x0D, CHR 0x0A}"

definition double_quotes :: "string \<Rightarrow> string" where
  "double_quotes s = concat (map (\<lambda>c. if c = CHR 0x22 then [c, c] else [c]) s)"

definition field :: "string \<Rightarrow> string" where
  "field raw =
     (if \<not> list_ex special (defused raw) then defused raw
      else CHR 0x22 # double_quotes (defused raw) @ [CHR 0x22])"

definition write_row :: "string list \<Rightarrow> string" where
  "write_row cells = join_with '','' (map field cells) @ [CHR 0x0D, CHR 0x0A]"

text \<open>\<open>str::replace\<close> of one byte by a text, and the cell of a label set.\<close>

definition double_semicolons :: "string \<Rightarrow> string" where
  "double_semicolons s = concat (map (\<lambda>c. if c = CHR '';'' then [c, c] else [c]) s)"

definition labels :: "string list \<Rightarrow> string" where
  "labels names = join_with ''; '' (map double_semicolons names)"

subsection \<open>The reader\<close>

text \<open>
  \<open>records\<close>, over the state of its loop: whether the text is inside quotes, the field and the
  record so far, and the records read.
\<close>

fun records_from :: "bool \<Rightarrow> string \<Rightarrow> string list \<Rightarrow> string list list \<Rightarrow> string \<Rightarrow> string list list" where
  "records_from quoted fld rec recs [] =
     (if fld \<noteq> [] \<or> rec \<noteq> [] then recs @ [rec @ [trim fld]] else recs)"
| "records_from quoted fld rec recs (c # cs) =
     (if quoted then
        if c = CHR 0x22 then
          (case cs of
             d # rest \<Rightarrow>
               if d = CHR 0x22 then records_from True (fld @ [CHR 0x22]) rec recs rest
               else records_from False fld rec recs (d # rest)
           | [] \<Rightarrow> records_from False fld rec recs [])
        else records_from True (fld @ [c]) rec recs cs
      else if c = CHR 0x22 \<and> fld = [] then records_from True fld rec recs cs
      else if c = CHR '','' then records_from False [] (rec @ [trim fld]) recs cs
      else if c = CHR 0x0D then
        (case cs of
           d # rest \<Rightarrow>
             if d = CHR 0x0A then records_from False [] [] (recs @ [rec @ [trim fld]]) rest
             else records_from False [] [] (recs @ [rec @ [trim fld]]) (d # rest)
         | [] \<Rightarrow> records_from False [] [] (recs @ [rec @ [trim fld]]) [])
      else if c = CHR 0x0A then records_from False [] [] (recs @ [rec @ [trim fld]]) cs
      else records_from False (fld @ [c]) rec recs cs)"

definition records :: "string \<Rightarrow> string list list" where
  "records t = records_from False [] [] [] t"

subsection \<open>The round trip\<close>

text \<open>The cell a written cell comes back as.\<close>

definition read_back :: "string \<Rightarrow> string" where
  "read_back raw = trim (defused raw)"

text \<open>The steps of the loop a written file takes.\<close>

lemma reader_steps:
  "c \<noteq> CHR 0x22 \<Longrightarrow> records_from True f r ds (c # cs) = records_from True (f @ [c]) r ds cs"
  "records_from True f r ds (CHR 0x22 # CHR 0x22 # cs) = records_from True (f @ [CHR 0x22]) r ds cs"
  "d \<noteq> CHR 0x22 \<Longrightarrow> records_from True f r ds (CHR 0x22 # d # cs) = records_from False f r ds (d # cs)"
  "records_from False [] r ds (CHR 0x22 # cs) = records_from True [] r ds cs"
  "\<not> special c \<Longrightarrow> records_from False f r ds (c # cs) = records_from False (f @ [c]) r ds cs"
  "records_from False f r ds (CHR '','' # cs) = records_from False [] (r @ [trim f]) ds cs"
  "records_from False f r ds (CHR 0x0D # CHR 0x0A # cs) = records_from False [] [] (ds @ [r @ [trim f]]) cs"
  "records_from False [] [] ds [] = ds"
  by (auto simp: special_def)

declare records_from.simps [simp del]

text \<open>What a written field reads back as, up to the character after it.\<close>

lemma read_quoted: "d \<noteq> CHR 0x22 \<Longrightarrow>
    records_from True fld rec recs (double_quotes s @ CHR 0x22 # d # cs)
      = records_from False (fld @ s) rec recs (d # cs)"
proof (induction s arbitrary: fld)
  case (Cons c s)
  then show ?case by (cases "c = CHR 0x22") (simp_all add: double_quotes_def reader_steps)
qed (simp add: double_quotes_def reader_steps)

lemma read_plain: "list_all (\<lambda>c. \<not> special c) s \<Longrightarrow>
    records_from False fld rec recs (s @ cs) = records_from False (fld @ s) rec recs cs"
proof (induction s arbitrary: fld)
  case (Cons c s)
  then show ?case by (simp add: reader_steps)
qed simp

lemma read_field: "d \<in> {CHR '','', CHR 0x0D} \<Longrightarrow>
    records_from False [] rec recs (field raw @ d # cs) = records_from False (defused raw) rec recs (d # cs)"
proof (cases "list_ex special (defused raw)")
  case True
  assume "d \<in> {CHR '','', CHR 0x0D}"
  then show ?thesis using True read_quoted [of d "[]" rec recs "defused raw" cs] by (auto simp: field_def reader_steps)
next
  case False
  then have "list_all (\<lambda>c. \<not> special c) (defused raw)"
    by (auto simp: list_all_iff list_ex_iff)
  then show ?thesis using False by (simp add: field_def read_plain)
qed

lemma read_row: "cells \<noteq> [] \<Longrightarrow>
    records_from False [] rec recs (write_row cells @ cs)
      = records_from False [] [] (recs @ [rec @ map (read_back) cells]) cs"
proof (induction cells arbitrary: rec)
  case (Cons c cells)
  show ?case
  proof (cases "cells = []")
    case True
    then show ?thesis by (simp add: write_row_def read_field reader_steps read_back_def)
  next
    case False
    have "write_row (c # cells) = field c @ CHR '','' # write_row cells"
      using False by (cases cells) (simp_all add: write_row_def)
    then have "records_from False [] rec recs (write_row (c # cells) @ cs)
        = records_from False [] (rec @ [read_back c]) recs (write_row cells @ cs)"
      by (simp add: read_field reader_steps read_back_def)
    also have "\<dots> = records_from False [] [] (recs @ [(rec @ [read_back c]) @ map (read_back) cells]) cs"
      by (rule Cons.IH [OF False])
    finally show ?thesis by simp
  qed
qed simp

lemma read_document: "[] \<notin> set rows \<Longrightarrow>
    records_from False [] [] recs (concat (map write_row rows))
      = recs @ map (map (read_back)) rows"
proof (induction rows arbitrary: recs)
  case (Cons cells rows)
  then have "cells \<noteq> []" by auto
  with Cons show ?case by (simp add: read_row)
qed (simp add: reader_steps)

text \<open>A cell that comes back as it was: one with no space around it that opens no formula.\<close>

definition plain_cell :: "string \<Rightarrow> bool" where
  "plain_cell raw \<longleftrightarrow> \<not> opens_formula raw \<and> trim raw = raw"


text \<open>No cell of an export is a formula, whatever a seller called their resource.\<close>

lemma no_cell_is_a_formula: "\<not> opens_formula (defused raw)"
  by (auto simp: defused_def opens_formula_def split: list.splits)

lemma a_written_field_is_no_formula: "\<not> opens_formula (field raw)"
  using no_cell_is_a_formula [of raw] by (auto simp: field_def opens_formula_def)

subsection \<open>A label set in one cell\<close>

text \<open>The reading the doubled semicolon is for: a lone one ends a name, and takes the space with it.\<close>

fun split_labels :: "string \<Rightarrow> string \<Rightarrow> string list" where
  "split_labels name [] = [name]"
| "split_labels name (c # cs) =
     (if c = CHR '';'' then
        (case cs of
           d # rest \<Rightarrow> if d = CHR '';'' then split_labels (name @ [c]) rest else name # split_labels [] rest
         | [] \<Rightarrow> [name, []])
      else split_labels (name @ [c]) cs)"

lemma split_one: "split_labels acc (double_semicolons s @ cs) =
    split_labels (acc @ s) cs"
proof (induction s arbitrary: acc)
  case (Cons c s)
  then show ?case by (cases "c = CHR '';''") (simp_all add: double_semicolons_def)
qed (simp add: double_semicolons_def)

lemma split_joined: "names \<noteq> [] \<Longrightarrow> split_labels [] (labels names) = names"
proof (induction names)
  case (Cons n names)
  show ?case
  proof (cases "names = []")
    case True
    then show ?thesis using split_one [of "[]" n "[]"] by (simp add: labels_def)
  next
    case False
    then have "labels (n # names) = double_semicolons n @ CHR '';'' # CHR '' '' # labels names"
      by (cases names) (simp_all add: labels_def)
    then show ?thesis using Cons.IH [OF False] split_one by simp
  qed
qed simp

text \<open>
  A cell of labels names one set of labels: two lists with the same cell are the same list, even
  where a label contains the separator itself, unless one of them is empty.
\<close>

theorem a_label_cell_names_one_list:
  assumes "labels xs = labels ys" "xs \<noteq> []" "ys \<noteq> []"
  shows "xs = ys"
  using split_joined [OF assms(2)] split_joined [OF assms(3)] assms(1) by metis

definition sample_rows :: "string list list" where
  "sample_rows = [[''title'', ''a,b'' @ [CHR 0x22, CHR 0x0D, CHR 0x0A] @ ''c'', []], [''x'']]"


end
