(* ===== verification/Sheets.thy ===== *)
theory Sheets
  imports Csv Fingerprint
begin

section \<open>Reading a seller's spreadsheet (crate tam-api, import_batch/parse.rs)\<close>

text \<open>
  An uploaded file as tabs of rows of cells, or the reason it is not one. A workbook is opened by
  \<open>calamine\<close> and \<open>zip\<close>: what they answer is a parameter, the text of their errors included. A
  row and a column are the 32-bit numbers the file states, kept as naturals below \<open>2 ^ 32\<close>; the
  lengths and sizes are naturals, saturated where the source saturates.
\<close>

definition CELL_BYTES_MAX :: nat where "CELL_BYTES_MAX = 64 * 1024"
definition CELLS_MAX :: nat where "CELLS_MAX = 200000"
definition COLUMNS_MAX :: nat where "COLUMNS_MAX = 128"
definition ROWS_PER_UPLOAD_MAX :: nat where "ROWS_PER_UPLOAD_MAX = 500"
definition ROW_INDEX_MAX :: nat where "ROW_INDEX_MAX = 2 + ROWS_PER_UPLOAD_MAX"
definition ENTRY_UNCOMPRESSED_BYTES_MAX :: nat where "ENTRY_UNCOMPRESSED_BYTES_MAX = 64 * 1024 * 1024"
definition UPLOAD_ARCHIVE_UNCOMPRESSED_BYTES_MAX :: nat where "UPLOAD_ARCHIVE_UNCOMPRESSED_BYTES_MAX = 128 * 1024 * 1024"
definition FIRST_DATA_ROW :: nat where "FIRST_DATA_ROW = 4"

text \<open>The tabs (\<open>import_batch/sheet.rs\<close>).\<close>

record Tab =
  tab_title :: string
  tab_inventory :: "InventoryId option"

definition admits_live :: "Tab \<Rightarrow> bool" where
  "admits_live tab \<longleftrightarrow> tab_inventory tab \<noteq> None"

definition TABS :: "Tab list" where
  "TABS = [\<lparr>tab_title = ''Teachouse'', tab_inventory = None\<rparr>,
           \<lparr>tab_title = ''TES'', tab_inventory = Some Tes\<rparr>,
           \<lparr>tab_title = ''TPT'', tab_inventory = Some Tpt\<rparr>]"

definition tab_of :: "string \<Rightarrow> Tab option" where
  "tab_of title = List.find (\<lambda>tab. tab_title tab = title) TABS"

record GridRow =
  gr_number :: nat
  gr_cells :: "string list"

record Grid =
  gd_tab :: Tab
  gd_header :: "string list"
  gd_rows :: "GridRow list"

datatype Malformed =
    UnknownFormat
  | Unreadable string
  | DeclaresTooLarge nat nat
  | ExpandsTooFar nat
  | NoKnownTab "string list"
  | UnnamedCsv string
  | HeaderMissing string
  | ColumnMissing string string
  | ColumnUnknown string string
  | TooManyRows nat nat
  | TooManyCells nat
  | TooManyColumns string nat
  | RowOutOfRange string nat nat
  | CellTooLong string nat nat nat nat
  | NoRows

fun malformed_str :: "Malformed \<Rightarrow> string" where
  "malformed_str UnknownFormat = ''Upload an .xlsx or .csv file.''"
| "malformed_str (Unreadable detail) =
     ''We can'' @ [CHR 0x27] @ ''t open this file. If it opens in your spreadsheet program, save it again ''
     @ ''as .xlsx and upload that.''"
| "malformed_str (DeclaresTooLarge declared limit) =
     ''This file is too big: it opens to '' @ decimal declared @ '' bytes, and an import takes at most ''
     @ decimal limit @ ''.''"
| "malformed_str (ExpandsTooFar limit) =
     ''This file is too big: it opens to more than '' @ decimal limit @ '' bytes.''"
| "malformed_str (NoKnownTab held) =
     ''None of this file'' @ [CHR 0x27] @ ''s tabs match the template. It has '' @ join_with '', '' held @ ''.''"
| "malformed_str (UnnamedCsv stem) =
     ''Name your .csv after a template tab. '' @ [CHR 0x22] @ stem @ [CHR 0x22] @ '' is not one.''"
| "malformed_str (HeaderMissing sheet) =
     ''The '' @ sheet @ '' tab needs column names in its first row.''"
| "malformed_str (ColumnMissing sheet column) =
     ''The '' @ sheet @ '' tab has no '' @ [CHR 0x22] @ column @ [CHR 0x22]
     @ '' column. Download the template again and copy your rows into it.''"
| "malformed_str (ColumnUnknown sheet column) =
     ''The '' @ sheet @ '' tab has a '' @ [CHR 0x22] @ column @ [CHR 0x22]
     @ '' column that the import doesn'' @ [CHR 0x27] @ ''t use. Remove it and upload again.''"
| "malformed_str (TooManyRows rows limit) =
     ''This file has '' @ decimal rows @ '' rows. You can import up to '' @ decimal limit @ '' at once.''"
| "malformed_str (TooManyCells limit) =
     ''This file has more than '' @ decimal limit @ '' filled cells, which is too many for one import.''"
| "malformed_str (TooManyColumns sheet limit) =
     ''The '' @ sheet @ '' tab goes past column '' @ decimal limit @ ''. Delete anything beyond it.''"
| "malformed_str (RowOutOfRange sheet row limit) =
     ''The '' @ sheet @ '' tab has something in row '' @ decimal row @ '', but the import stops at row ''
     @ decimal limit @ ''. Delete everything below that row and upload again.''"
| "malformed_str (CellTooLong sheet row column bytes limit) =
     ''In the '' @ sheet @ '' tab, row '' @ decimal row @ '', column '' @ decimal column @ '' is too long: ''
     @ decimal bytes @ '' bytes, and a cell holds at most '' @ decimal limit @ ''.''"
| "malformed_str NoRows = ''Every tab in this file is empty.''"

fun upstream :: "Malformed \<Rightarrow> string option" where
  "upstream (Unreadable detail) = Some detail"
| "upstream m = None"

subsection \<open>Names\<close>

text \<open>\<open>str::rsplit_once\<close>: the last occurrence of a non-empty pattern.\<close>

fun rsplit_once :: "string \<Rightarrow> string \<Rightarrow> (string \<times> string) option" where
  "rsplit_once p [] = None"
| "rsplit_once p (c # cs) =
     (case rsplit_once p cs of
        Some (before, after) \<Rightarrow> Some (c # before, after)
      | None \<Rightarrow> if take (length p) (c # cs) = p then Some ([], drop (length p) (c # cs)) else None)"

definition csv_stem :: "string \<Rightarrow> string" where
  "csv_stem source_name =
     (let name = last_part [CHR ''/'', CHR 0x5C] source_name;
          stem = (case rsplit_once ''.'' name of None \<Rightarrow> name | Some (stem, _) \<Rightarrow> stem);
          trimmed = (case rsplit_once '' ('' stem of
                       Some (head, suffix) \<Rightarrow>
                         if suffix \<noteq> [] \<and> last suffix = CHR '')''
                            \<and> list_all ascii_digit (trim_end_matches (CHR '')'') suffix)
                         then head else stem
                     | None \<Rightarrow> stem)
      in trim trimmed)"

subsection \<open>UTF-8\<close>

text \<open>\<open>core::str::from_utf8\<close>: every scalar value is one of the well-formed byte sequences.\<close>

definition continues :: "nat list \<Rightarrow> bool" where
  "continues bs \<longleftrightarrow> list_all (\<lambda>b. 128 \<le> b \<and> b < 192) bs"

definition valid_scalar :: "string \<Rightarrow> bool" where
  "valid_scalar c =
     (case map (of_char :: char \<Rightarrow> nat) c of
        [b] \<Rightarrow> b < 128
      | [b, x] \<Rightarrow> 194 \<le> b \<and> b < 224 \<and> continues [x]
      | [b, x, y] \<Rightarrow> 224 \<le> b \<and> b < 240 \<and> continues [x, y] \<and> (b = 224 \<longrightarrow> 160 \<le> x) \<and> (b = 237 \<longrightarrow> x < 160)
      | [b, x, y, z] \<Rightarrow>
          240 \<le> b \<and> b < 245 \<and> continues [x, y, z] \<and> (b = 240 \<longrightarrow> 144 \<le> x) \<and> (b = 244 \<longrightarrow> x < 144)
      | _ \<Rightarrow> False)"

definition from_utf8 :: "string \<Rightarrow> string option" where
  "from_utf8 bytes = (if list_all valid_scalar (scalars bytes) then Some bytes else None)"

subsection \<open>A comma-separated file\<close>

text \<open>The checks of the cells, with the number kept so far; a row and a column are told from one.\<close>

definition u32_succ :: "nat \<Rightarrow> nat" where
  "u32_succ n = min (min n (2 ^ 32 - 1) + 1) (2 ^ 32 - 1)"

fun check_cells :: "string \<Rightarrow> nat \<Rightarrow> nat \<Rightarrow> nat \<Rightarrow> string list \<Rightarrow> Malformed + nat" where
  "check_cells sheet index column kept [] = Inr kept"
| "check_cells sheet index column kept (cell # cells) =
     (if cell = [] then check_cells sheet index (Suc column) kept cells
      else if length cell > CELL_BYTES_MAX
      then Inl (CellTooLong sheet (u32_succ index) (u32_succ column) (length cell) CELL_BYTES_MAX)
      else if kept + 1 > CELLS_MAX then Inl (TooManyCells CELLS_MAX)
      else check_cells sheet index (Suc column) (kept + 1) cells)"

fun check_records :: "string \<Rightarrow> nat \<Rightarrow> nat \<Rightarrow> string list list \<Rightarrow> Malformed + nat" where
  "check_records sheet index kept [] = Inr kept"
| "check_records sheet index kept (rec # recs) =
     try_bind (check_cells sheet index 0 kept rec) (\<lambda>kept. check_records sheet (Suc index) kept recs)"

text \<open>\<open>Vec::resize\<close> with blanks.\<close>

definition widened :: "nat \<Rightarrow> string list \<Rightarrow> string list" where
  "widened width cells = take width cells @ replicate (width - length cells) []"

definition blank :: "string list \<Rightarrow> bool" where
  "blank cells \<longleftrightarrow> list_all (\<lambda>c. c = []) cells"

text \<open>The rows below the header, the marker and the example, numbered as the seller sees them.\<close>

definition numbered_rows :: "nat \<Rightarrow> (nat \<times> string list) list \<Rightarrow> GridRow list" where
  "numbered_rows width entries =
     List.map_filter (\<lambda>(index, rec).
         let cells = widened width rec in
         if blank cells then None else Some \<lparr>gr_number = u32_succ index, gr_cells = cells\<rparr>)
       (filter (\<lambda>(index, rec). FIRST_DATA_ROW - 1 \<le> index) entries)"

definition csv_grid :: "string \<Rightarrow> string \<Rightarrow> Malformed + Grid" where
  "csv_grid source_name bytes =
     (case from_utf8 bytes of
        None \<Rightarrow> Inl UnknownFormat
      | Some t \<Rightarrow>
          (let stem = csv_stem source_name in
           case List.find (\<lambda>tab. eq_ignore_ascii_case (tab_title tab) stem) TABS of
             None \<Rightarrow> Inl (UnnamedCsv stem)
           | Some tab \<Rightarrow>
               (let recs = records t; width = fold max (map length recs) 0 in
                if width > COLUMNS_MAX then Inl (TooManyColumns (tab_title tab) COLUMNS_MAX)
                else try_bind (check_records (tab_title tab) 0 0 recs) (\<lambda>_.
                  let header = widened width (case recs of [] \<Rightarrow> [] | r # _ \<Rightarrow> r) in
                  if blank header then
                    (if list_all blank recs then Inr \<lparr>gd_tab = tab, gd_header = header, gd_rows = []\<rparr>
                     else Inl (HeaderMissing (tab_title tab)))
                  else Inr \<lparr>gd_tab = tab, gd_header = header,
                            gd_rows = numbered_rows width (enumerate 0 recs)\<rparr>))))"

subsection \<open>A workbook\<close>

text \<open>
  The end record and the entries of a zip's central directory. \<open>bytes.get(a..b)\<close> is a slice of the
  length asked for or nothing.
\<close>

definition get_range :: "'a list \<Rightarrow> nat \<Rightarrow> nat \<Rightarrow> 'a list option" where
  "get_range xs a n = (if a + n \<le> length xs then Some (take n (drop a xs)) else None)"

definition le_u32 :: "u8 list \<Rightarrow> nat \<Rightarrow> nat option" where
  "le_u32 bytes pos = map_option (\<lambda>s. unat (from_le_bytes s)) (get_range bytes pos 4)"

definition le_u16 :: "u8 list \<Rightarrow> nat \<Rightarrow> nat option" where
  "le_u16 bytes pos = map_option (\<lambda>s. unat (s ! 0) + 256 * unat (s ! 1)) (get_range bytes pos 2)"

definition END_SIGNATURE :: "u8 list" where "END_SIGNATURE = [0x50, 0x4b, 0x05, 0x06]"
definition ENTRY_SIGNATURE :: "u8 list" where "ENTRY_SIGNATURE = [0x50, 0x4b, 0x01, 0x02]"
definition END_RECORD_LEN :: nat where "END_RECORD_LEN = 22"
definition ENTRY_FIXED_LEN :: nat where "ENTRY_FIXED_LEN = 46"

text \<open>\<open>windows(4).rposition\<close>.\<close>

definition last_window :: "u8 list \<Rightarrow> u8 list \<Rightarrow> nat option" where
  "last_window signature bytes =
     map_option (\<lambda>i. length (windows (length signature) bytes) - Suc i)
       (position (\<lambda>w. w = signature) (rev (windows (length signature) bytes)))"

text \<open>The walk over the entries: each is at least \<open>ENTRY_FIXED_LEN\<close> bytes further on.\<close>

function entries_at :: "u8 list \<Rightarrow> nat \<Rightarrow> nat list" where
  "entries_at bytes pos =
     (case get_range bytes pos ENTRY_FIXED_LEN of
        None \<Rightarrow> []
      | Some entry \<Rightarrow>
          if take 4 entry \<noteq> ENTRY_SIGNATURE then []
          else (case (le_u32 entry 24, le_u16 entry 28, le_u16 entry 30, le_u16 entry 32) of
                  (Some unpacked, Some name_len, Some extra_len, Some comment_len) \<Rightarrow>
                    (if unpacked = 2 ^ 32 - 1 then ENTRY_UNCOMPRESSED_BYTES_MAX + 1 else unpacked)
                      # entries_at bytes (pos + ENTRY_FIXED_LEN + name_len + extra_len + comment_len)
                | _ \<Rightarrow> []))"
  by pat_completeness auto
termination
  by (relation "measure (\<lambda>(bytes, pos). length bytes - pos)")
    (auto simp: get_range_def ENTRY_FIXED_LEN_def split: if_splits)

declare entries_at.simps [simp del]

definition central_directory :: "u8 list \<Rightarrow> nat list" where
  "central_directory bytes =
     (case last_window END_SIGNATURE bytes of
        None \<Rightarrow> []
      | Some at_end \<Rightarrow>
          (case get_range bytes at_end END_RECORD_LEN of
             None \<Rightarrow> []
           | Some rec \<Rightarrow> (case le_u32 rec 16 of None \<Rightarrow> [] | Some pos \<Rightarrow> entries_at bytes pos)))"

fun declared_within :: "nat \<Rightarrow> nat list \<Rightarrow> Malformed + unit" where
  "declared_within declared [] =
     (if declared > UPLOAD_ARCHIVE_UNCOMPRESSED_BYTES_MAX
      then Inl (DeclaresTooLarge declared UPLOAD_ARCHIVE_UNCOMPRESSED_BYTES_MAX) else Inr ())"
| "declared_within declared (entry # entries) =
     (if entry > ENTRY_UNCOMPRESSED_BYTES_MAX
      then Inl (DeclaresTooLarge entry ENTRY_UNCOMPRESSED_BYTES_MAX)
      else declared_within (min (declared + entry) (2 ^ 64 - 1)) entries)"

definition refuse_a_bomb :: "u8 list \<Rightarrow> Malformed + unit" where
  "refuse_a_bomb bytes = declared_within 0 (central_directory bytes)"

text \<open>
  What the two libraries answer of a file: the entries of the archive, each an error or the bytes it
  unpacks to, and the sheets of the workbook with the cells as they are read.
\<close>

type_synonym CellEvent = "string + nat \<times> nat \<times> string option"

record Libraries =
  lib_archive :: "u8 list \<Rightarrow> string + (string + nat) list"
  lib_workbook :: "u8 list \<Rightarrow> string + (string \<times> (string + CellEvent list)) list"

text \<open>
  What a run asks of the libraries, in its order: so many bytes taken out of an entry of the archive, and the
  workbook opened. A run is its outcome with the calls it made.
\<close>

datatype Call = Unpacked nat | Opened

type_synonym 'a run = "(Malformed + 'a) \<times> Call list"

definition run_bind :: "'a run \<Rightarrow> ('a \<Rightarrow> 'b run) \<Rightarrow> 'b run" where
  "run_bind m k =
     (case fst m of Inl e \<Rightarrow> (Inl e, snd m) | Inr x \<Rightarrow> (fst (k x), snd m @ snd (k x)))"

definition quiet :: "Malformed + 'a \<Rightarrow> 'a run" where "quiet r = (r, [])"

text \<open>\<open>take(entry_max + 1)\<close>: an entry is unpacked to one byte past the bound and no further.\<close>

fun expand_within :: "nat \<Rightarrow> nat \<Rightarrow> nat \<Rightarrow> (string + nat) list \<Rightarrow> unit run" where
  "expand_within entry_max archive_max so_far [] = (Inr (), [])"
| "expand_within entry_max archive_max so_far (Inl detail # entries) = (Inl (Unreadable detail), [])"
| "expand_within entry_max archive_max so_far (Inr actual # entries) =
     (let amount = min actual (min (entry_max + 1) (2 ^ 64 - 1)) in
      run_bind (Inr (), [Unpacked amount]) (\<lambda>_.
        if amount > entry_max then quiet (Inl (ExpandsTooFar entry_max))
        else (let so_far = min (so_far + amount) (2 ^ 64 - 1) in
              if so_far > archive_max then quiet (Inl (ExpandsTooFar archive_max))
              else expand_within entry_max archive_max so_far entries)))"

definition refuse_an_expansion :: "Libraries \<Rightarrow> u8 list \<Rightarrow> nat \<Rightarrow> nat \<Rightarrow> unit run" where
  "refuse_an_expansion lib bytes entry_max archive_max =
     (case lib_archive lib bytes of
        Inl detail \<Rightarrow> quiet (Inl (Unreadable detail))
      | Inr entries \<Rightarrow> expand_within entry_max archive_max 0 entries)"

text \<open>\<open>Xlsx::new\<close>, which unpacks the shared strings as it opens.\<close>

definition open_workbook :: "Libraries \<Rightarrow> u8 list \<Rightarrow> (string \<times> (string + CellEvent list)) list run" where
  "open_workbook lib bytes =
     (case lib_workbook lib bytes of Inl detail \<Rightarrow> Inl (Unreadable detail) | Inr sheets \<Rightarrow> Inr sheets, [Opened])"

text \<open>The cells kept of a tab, in a map from their position, and the cells kept in all.\<close>

type_synonym Cells = "((nat \<times> nat) \<times> string) list"

fun keep_cells :: "string \<Rightarrow> nat \<Rightarrow> Cells \<Rightarrow> CellEvent list \<Rightarrow> Malformed + nat \<times> Cells" where
  "keep_cells sheet kept cells [] = Inr (kept, cells)"
| "keep_cells sheet kept cells (Inl detail # events) = Inl (Unreadable detail)"
| "keep_cells sheet kept cells (Inr (row, column, text) # events) =
     (if column \<ge> COLUMNS_MAX then Inl (TooManyColumns sheet COLUMNS_MAX)
      else if row > ROW_INDEX_MAX then Inl (RowOutOfRange sheet (u32_succ row) (ROW_INDEX_MAX + 1))
      else case text of
             None \<Rightarrow> keep_cells sheet kept cells events
           | Some t \<Rightarrow>
               (let trimmed_text = trim t in
                if trimmed_text = [] then keep_cells sheet kept cells events
                else if length trimmed_text > CELL_BYTES_MAX
                then Inl (CellTooLong sheet (u32_succ row) (u32_succ column) (length trimmed_text) CELL_BYTES_MAX)
                else if kept + 1 > CELLS_MAX then Inl (TooManyCells CELLS_MAX)
                else keep_cells sheet (kept + 1)
                       (((row, column), trimmed_text) # filter (\<lambda>(pos, _). pos \<noteq> (row, column)) cells) events))"

definition cell_at :: "Cells \<Rightarrow> nat \<Rightarrow> nat \<Rightarrow> string" where
  "cell_at cells row column = (case map_of cells (row, column) of None \<Rightarrow> [] | Some t \<Rightarrow> t)"

definition grid_of :: "Tab \<Rightarrow> string \<Rightarrow> Cells \<Rightarrow> Malformed + Grid" where
  "grid_of tab name cells =
     (let width = fold max (map (\<lambda>((_, column), _). column + 1) cells) 0;
          header = map (cell_at cells 0) [0..<width];
          last_row = fold max (map (\<lambda>((row, _), _). row) cells) 0
      in if blank header then
           (if cells = [] then Inr \<lparr>gd_tab = tab, gd_header = header, gd_rows = []\<rparr>
            else Inl (HeaderMissing name))
         else Inr \<lparr>gd_tab = tab, gd_header = header,
                   gd_rows = List.map_filter (\<lambda>row.
                       let vals = map (cell_at cells row) [0..<width] in
                       if blank vals then None else Some \<lparr>gr_number = u32_succ row, gr_cells = vals\<rparr>)
                     [FIRST_DATA_ROW - 1 ..< Suc last_row]\<rparr>)"

fun tab_grids :: "nat \<Rightarrow> (string \<times> Tab \<times> (string + CellEvent list)) list \<Rightarrow> Malformed + Grid list" where
  "tab_grids kept [] = Inr []"
| "tab_grids kept ((name, tab, Inl detail) # sheets) = Inl (Unreadable detail)"
| "tab_grids kept ((name, tab, Inr events) # sheets) =
     try_bind (keep_cells name kept [] events) (\<lambda>(kept, cells).
     try_bind (grid_of tab name cells) (\<lambda>grid.
     try_bind (tab_grids kept sheets) (\<lambda>rest. Inr (grid # rest))))"

definition workbook_run :: "Libraries \<Rightarrow> u8 list \<Rightarrow> Grid list run" where
  "workbook_run lib bytes =
     run_bind (quiet (refuse_a_bomb bytes)) (\<lambda>_.
     run_bind (refuse_an_expansion lib bytes ENTRY_UNCOMPRESSED_BYTES_MAX UPLOAD_ARCHIVE_UNCOMPRESSED_BYTES_MAX) (\<lambda>_.
     run_bind (open_workbook lib bytes) (\<lambda>sheets.
       let known = List.map_filter (\<lambda>(name, sheet). map_option (\<lambda>tab. (name, tab, sheet)) (tab_of name)) sheets
       in quiet (if known = [] then Inl (NoKnownTab (map fst sheets)) else tab_grids 0 known))))"

definition workbook_grids :: "Libraries \<Rightarrow> u8 list \<Rightarrow> Malformed + Grid list" where
  "workbook_grids lib bytes = fst (workbook_run lib bytes)"

definition is_zip :: "u8 list \<Rightarrow> bool" where
  "is_zip bytes \<longleftrightarrow> take 4 bytes = [0x50, 0x4b, 0x03, 0x04]"

definition byte_chars :: "u8 list \<Rightarrow> string" where
  "byte_chars bytes = map (\<lambda>b. char_of (unat b)) bytes"

definition grids :: "Libraries \<Rightarrow> string \<Rightarrow> u8 list \<Rightarrow> Malformed + Grid list" where
  "grids lib source_name bytes =
     try_bind (if is_zip bytes then workbook_grids lib bytes
               else try_bind (csv_grid source_name (byte_chars bytes)) (\<lambda>grid. Inr [grid])) (\<lambda>gs.
     let rows = sum_list (map (\<lambda>g. length (gd_rows g)) gs); limit = ROWS_PER_UPLOAD_MAX in
     if rows > limit then Inl (TooManyRows rows limit) else Inr gs)"

subsection \<open>What an accepted file is\<close>

text \<open>A grid within every bound: rows as wide as the header, below the example, none blank, in order.\<close>

definition within_bounds :: "Grid \<Rightarrow> bool" where
  "within_bounds g \<longleftrightarrow>
     length (gd_header g) \<le> COLUMNS_MAX
     \<and> (\<forall>r\<in>set (gd_rows g). length (gr_cells r) = length (gd_header g) \<and> \<not> blank (gr_cells r)
          \<and> (\<forall>c\<in>set (gr_cells r). length c \<le> CELL_BYTES_MAX) \<and> FIRST_DATA_ROW \<le> gr_number r)
     \<and> sorted (map gr_number (gd_rows g))"

lemma length_widened: "length (widened width cells) = width"
  by (simp add: widened_def)

lemma fold_max: "(\<forall>x\<in>set xs. x \<le> fold max xs a) \<and> a \<le> fold max xs (a :: nat)"
  by (induction xs arbitrary: a) (auto, meson max.bounded_iff, meson max.bounded_iff)

lemma fold_max_le: "a \<le> b \<Longrightarrow> \<forall>x\<in>set xs. x \<le> b \<Longrightarrow> fold max xs a \<le> (b :: nat)"
  by (induction xs arbitrary: a) auto

lemma check_cells_short: "check_cells sheet index column kept cells = Inr k \<Longrightarrow> \<forall>c\<in>set cells. length c \<le> CELL_BYTES_MAX"
  by (induction sheet index column kept cells rule: check_cells.induct) (auto split: if_splits)

lemma check_records_short: "check_records sheet index kept recs = Inr k \<Longrightarrow>
    \<forall>r\<in>set recs. \<forall>c\<in>set r. length c \<le> CELL_BYTES_MAX"
  by (induction sheet index kept recs rule: check_records.induct)
    (auto simp: try_bind_Inr dest: check_cells_short)

lemma u32_succ_mono: "a \<le> b \<Longrightarrow> u32_succ a \<le> u32_succ b"
  by (auto simp: u32_succ_def)

lemma u32_succ_first: "FIRST_DATA_ROW - 1 \<le> a \<Longrightarrow> FIRST_DATA_ROW \<le> u32_succ a"
  by (auto simp: u32_succ_def FIRST_DATA_ROW_def)

text \<open>Rows made of an ascending list of entries, some of them left out.\<close>

lemma sorted_map_filter:
  assumes "sorted (map key xs)" "\<And>x y. f x = Some y \<Longrightarrow> num y = u32_succ (key x)"
  shows "sorted (map num (List.map_filter f xs))"
  using assms(1)
proof (induction xs)
  case (Cons x xs)
  have le: "num y \<le> num z" if "f x = Some y" "z \<in> set (List.map_filter f xs)" for y z
  proof -
    obtain w where "w \<in> set xs" "f w = Some z" using \<open>z \<in> _\<close> by (auto simp: set_map_filter_iff)
    then show ?thesis
      using Cons.prems that(1) by (auto simp: assms(2) intro: u32_succ_mono)
  qed
  show ?case
  proof (cases "f x")
    case None
    with Cons show ?thesis by (simp add: map_filter_def)
  next
    case (Some y)
    then have "List.map_filter f (x # xs) = y # List.map_filter f xs" by (simp add: map_filter_def)
    then show ?thesis using Cons le [OF Some] by auto
  qed
qed (simp add: map_filter_def)

lemma numbered_rows_within:
  assumes "\<forall>(i, r)\<in>set entries. \<forall>c\<in>set r. length c \<le> CELL_BYTES_MAX" "sorted (map fst entries)"
    and "r \<in> set (numbered_rows width entries)"
  shows "length (gr_cells r) = width \<and> \<not> blank (gr_cells r)
    \<and> (\<forall>c\<in>set (gr_cells r). length c \<le> CELL_BYTES_MAX) \<and> FIRST_DATA_ROW \<le> gr_number r"
proof -
  obtain i rec where ir: "(i, rec) \<in> set entries" "FIRST_DATA_ROW - 1 \<le> i"
    and r: "\<not> blank (widened width rec)" "r = \<lparr>gr_number = u32_succ i, gr_cells = widened width rec\<rparr>"
    using assms(3) by (auto simp: numbered_rows_def set_map_filter_iff Let_def split: if_splits)
  have "\<forall>c\<in>set (widened width rec). length c \<le> CELL_BYTES_MAX"
    using assms(1) ir(1) by (auto simp: widened_def dest!: in_set_takeD)
  with ir(2) r show ?thesis by (simp add: length_widened u32_succ_first)
qed

lemma numbered_rows_sorted: "sorted (map fst entries) \<Longrightarrow> sorted (map gr_number (numbered_rows width entries))"
  unfolding numbered_rows_def
  by (rule sorted_map_filter [where key = fst])
    (auto simp: Let_def sorted_filter split: if_splits)

lemma csv_within:
  assumes "csv_grid source_name bytes = Inr g"
  shows "within_bounds g"
proof -
  obtain t where t: "from_utf8 bytes = Some t"
    using assms by (cases "from_utf8 bytes") (auto simp: csv_grid_def)
  let ?f = "\<lambda>tab. eq_ignore_ascii_case (tab_title tab) (csv_stem source_name)"
  obtain tab where tab: "List.find ?f TABS = Some tab"
    using assms t by (cases "List.find ?f TABS") (auto simp: csv_grid_def Let_def)
  let ?w = "fold max (map length (records t)) 0" and ?e = "enumerate 0 (records t)"
  have width: "?w \<le> COLUMNS_MAX"
    using assms t tab by (auto simp: csv_grid_def Let_def split: if_splits)
  then obtain k where short: "check_records (tab_title tab) 0 0 (records t) = Inr k"
    using assms t tab by (auto simp: csv_grid_def Let_def try_bind_Inr)
  have header: "length (gd_header g) = ?w"
    and rows: "gd_rows g = [] \<or> gd_rows g = numbered_rows ?w ?e"
    using assms t tab short width
    by (auto simp: csv_grid_def Let_def length_widened split: if_splits)
  have small: "\<forall>(i, r)\<in>set ?e. \<forall>c\<in>set r. length c \<le> CELL_BYTES_MAX"
    using check_records_short [OF short] by (auto simp: in_set_enumerate_eq)
  have sorted: "sorted (map fst ?e)" by simp
  show ?thesis
    using rows
  proof
    assume "gd_rows g = numbered_rows ?w ?e"
    then show ?thesis
      using width header numbered_rows_within [OF small sorted] numbered_rows_sorted [OF sorted]
      by (auto simp: within_bounds_def)
  qed (use width header in \<open>simp add: within_bounds_def\<close>)
qed

text \<open>The cells kept of a tab.\<close>

definition small_cells :: "Cells \<Rightarrow> bool" where
  "small_cells cells \<longleftrightarrow>
     (\<forall>((row, column), t)\<in>set cells. column < COLUMNS_MAX \<and> row \<le> ROW_INDEX_MAX \<and> length t \<le> CELL_BYTES_MAX)"

lemma small_none: "small_cells []"
  by (simp add: small_cells_def)

lemma small_insert: "small_cells cells \<Longrightarrow> column < COLUMNS_MAX \<Longrightarrow> row \<le> ROW_INDEX_MAX \<Longrightarrow>
    length t \<le> CELL_BYTES_MAX \<Longrightarrow> small_cells (((row, column), t) # filter P cells)"
  by (auto simp: small_cells_def)

lemma keep_cells_small: "keep_cells sheet kept cells events = Inr (k, cells') \<Longrightarrow> small_cells cells \<Longrightarrow> small_cells cells'"
proof (induction events arbitrary: kept cells)
  case (Cons e events)
  show ?case
  proof (cases e)
    case (Inr event)
    obtain row column content where event: "event = (row, column, content)" by (cases event)
    show ?thesis
    proof (cases content)
      case None
      then show ?thesis using Cons Inr event by (auto split: if_splits)
    next
      case (Some t)
      show ?thesis
      proof (cases "trim t = []")
        case True
        then show ?thesis using Cons Inr event Some by (auto split: if_splits)
      next
        case False
        let ?more = "((row, column), trim t) # filter (\<lambda>(pos, _). pos \<noteq> (row, column)) cells"
        have "keep_cells sheet (kept + 1) ?more events = Inr (k, cells')"
          and bounds: "column < COLUMNS_MAX" "row \<le> ROW_INDEX_MAX" "length (trim t) \<le> CELL_BYTES_MAX"
          using Cons.prems(1) Inr event Some False by (simp_all add: Let_def split: if_splits)
        then show ?thesis
          using Cons.IH small_insert [OF Cons.prems(2) bounds] by blast
      qed
    qed
  qed (use Cons in simp)
qed simp

lemma cell_at_small: "small_cells cells \<Longrightarrow> length (cell_at cells row column) \<le> CELL_BYTES_MAX"
  by (auto simp: cell_at_def small_cells_def split: option.splits dest!: map_of_SomeD)

lemma grid_within:
  assumes "grid_of tab name cells = Inr g" "small_cells cells"
  shows "within_bounds g"
proof -
  let ?w = "fold max (map (\<lambda>((_, column), _). column + 1) cells) 0"
  let ?f = "\<lambda>row. let vals = map (cell_at cells row) [0..<?w] in
      if blank vals then None else Some \<lparr>gr_number = u32_succ row, gr_cells = vals\<rparr>"
  let ?rows = "List.map_filter ?f [FIRST_DATA_ROW - 1 ..< Suc (fold max (map (\<lambda>((row, _), _). row) cells) 0)]"
  have header: "length (gd_header g) = ?w" and rows: "gd_rows g = [] \<or> gd_rows g = ?rows"
    using assms(1) unfolding grid_of_def Let_def by (auto split: if_splits)
  have width: "?w \<le> COLUMNS_MAX"
    using assms(2) by (intro fold_max_le) (auto simp: small_cells_def)
  have sorted: "sorted (map gr_number ?rows)"
    by (rule sorted_map_filter [where key = id]) (auto simp: Let_def simp del: upt_Suc split: if_splits)
  have "length (gr_cells r) = ?w \<and> \<not> blank (gr_cells r)
      \<and> (\<forall>c\<in>set (gr_cells r). length c \<le> CELL_BYTES_MAX) \<and> FIRST_DATA_ROW \<le> gr_number r"
    if mem: "r \<in> set ?rows" for r
  proof -
    obtain row where row: "row \<in> set [FIRST_DATA_ROW - 1 ..< Suc (fold max (map (\<lambda>((row, _), _). row) cells) 0)]"
      and r: "?f row = Some r"
      using mem unfolding set_map_filter_iff by blast
    from row have "FIRST_DATA_ROW - 1 \<le> row" by (simp del: upt_Suc)
    with r show ?thesis
      using cell_at_small [OF assms(2)] by (auto simp: Let_def u32_succ_first split: if_splits)
  qed
  then show ?thesis
    using rows header width sorted by (auto simp: within_bounds_def)
qed

lemma tabs_within: "tab_grids kept sheets = Inr gs \<Longrightarrow> \<forall>g\<in>set gs. within_bounds g"
proof (induction kept sheets arbitrary: gs rule: tab_grids.induct)
  case (3 kept name tab events sheets)
  then obtain k cells g rest where "keep_cells name kept [] events = Inr (k, cells)"
    and "grid_of tab name cells = Inr g" and rest: "tab_grids k sheets = Inr rest" and gs: "gs = g # rest"
    by (auto simp: try_bind_Inr)
  then have "within_bounds g" using keep_cells_small [OF _ small_none] grid_within by blast
  with 3(1) [OF rest] gs show ?case by simp
qed simp_all

text \<open>
  C29. What is read is bounded, whatever was uploaded. An accepted file gives at most five hundred
  rows in all; every tab is at most 128 columns wide, every row as wide as its header, not blank, of
  cells of at most 64 KiB, numbered as the seller sees it and below the example, in order.
\<close>

theorem an_accepted_upload_is_bounded:
  assumes "grids lib source_name bytes = Inr gs"
  shows "(\<forall>g\<in>set gs. within_bounds g) \<and> sum_list (map (\<lambda>g. length (gd_rows g)) gs) \<le> ROWS_PER_UPLOAD_MAX"
  using assms
  by (auto simp: grids_def workbook_grids_def workbook_run_def run_bind_def quiet_def try_bind_Inr Let_def csv_within
      split: if_splits sum.splits dest: tabs_within)

text \<open>The archive of an accepted workbook, as it declares itself and as it unpacks.\<close>

lemma declared_bound: "declared_within d entries = Inr u \<Longrightarrow>
    d + sum_list entries \<le> UPLOAD_ARCHIVE_UNCOMPRESSED_BYTES_MAX \<and> (\<forall>e\<in>set entries. e \<le> ENTRY_UNCOMPRESSED_BYTES_MAX)"
proof (induction d entries rule: declared_within.induct)
  case (2 d e entries)
  then have "min (d + e) (2 ^ 64 - 1) + sum_list entries \<le> UPLOAD_ARCHIVE_UNCOMPRESSED_BYTES_MAX"
    "\<forall>e\<in>set entries. e \<le> ENTRY_UNCOMPRESSED_BYTES_MAX" "e \<le> ENTRY_UNCOMPRESSED_BYTES_MAX"
    by (auto split: if_splits)
  then show ?case by (auto simp: UPLOAD_ARCHIVE_UNCOMPRESSED_BYTES_MAX_def min_def split: if_splits)
qed (auto split: if_splits)

fun taken :: "Call \<Rightarrow> nat" where
  "taken (Unpacked n) = n"
| "taken Opened = 0"

lemma expand_bound:
  assumes "fst (expand_within entry_max archive_max so_far entries) = Inr u" "so_far \<le> archive_max"
    and "entry_max < 2 ^ 64 - 1" "archive_max < 2 ^ 64 - 1"
  shows "\<exists>ns. entries = map Inr ns \<and> snd (expand_within entry_max archive_max so_far entries) = map Unpacked ns
    \<and> (\<forall>n\<in>set ns. n \<le> entry_max) \<and> so_far + sum_list ns \<le> archive_max"
  using assms
proof (induction entries arbitrary: so_far)
  case Nil
  then show ?case by simp
next
  case (Cons e entries)
  then obtain actual where e: "e = Inr actual" by (cases e) auto
  with Cons.prems have actual: "actual \<le> entry_max" and so_far: "so_far + actual \<le> archive_max"
    and rest: "fst (expand_within entry_max archive_max (so_far + actual) entries) = Inr u"
    by (auto simp: Let_def min_def run_bind_def quiet_def split: if_splits)
  from Cons.IH [OF rest so_far Cons.prems(3,4)] obtain ns where ns: "entries = map Inr ns"
    "snd (expand_within entry_max archive_max (so_far + actual) entries) = map Unpacked ns"
    "\<forall>n\<in>set ns. n \<le> entry_max" "so_far + actual + sum_list ns \<le> archive_max" by blast
  have "min actual (min (entry_max + 1) (2 ^ 64 - 1)) = actual" "min (so_far + actual) (2 ^ 64 - 1) = so_far + actual"
    using actual so_far Cons.prems(3,4) by (simp_all add: min_def)
  then have "snd (expand_within entry_max archive_max so_far (e # entries)) = map Unpacked (actual # ns)"
    using actual so_far ns(2) by (simp add: e Let_def run_bind_def)
  with ns actual e show ?case by (intro exI [of _ "actual # ns"]) auto
qed

text \<open>However it ends, unpacking takes one byte more than a bound at most.\<close>

lemma expand_taken:
  assumes "so_far \<le> archive_max" "entry_max < 2 ^ 64 - 1" "archive_max < 2 ^ 64 - 1"
  shows "Opened \<notin> set (snd (expand_within entry_max archive_max so_far entries))
    \<and> so_far + sum_list (map taken (snd (expand_within entry_max archive_max so_far entries))) \<le> archive_max + entry_max + 1"
  using assms
proof (induction entries arbitrary: so_far)
  case (Cons e entries)
  show ?case
  proof (cases e)
    case (Inr actual)
    show ?thesis
    proof (cases "actual \<le> entry_max \<and> so_far + actual \<le> archive_max")
      case True
      then have "min actual (min (entry_max + 1) (2 ^ 64 - 1)) = actual" "min (so_far + actual) (2 ^ 64 - 1) = so_far + actual"
        using Cons.prems by (simp_all add: min_def)
      with Cons.IH [of "so_far + actual"] True Cons.prems show ?thesis by (simp add: Inr Let_def run_bind_def)
    next
      case False
      define amount where "amount = min actual (min (entry_max + 1) (2 ^ 64 - 1))"
      have log: "snd (expand_within entry_max archive_max so_far (e # entries)) = [Unpacked amount]"
      proof -
        have "amount > entry_max \<or> min (so_far + amount) (2 ^ 64 - 1) > archive_max"
          using False Cons.prems by (auto simp: amount_def min_def)
        then show ?thesis
          unfolding Inr expand_within.simps amount_def [symmetric] Let_def run_bind_def quiet_def by auto
      qed
      have "amount \<le> entry_max + 1" by (simp add: amount_def)
      with Cons.prems show ?thesis unfolding log by simp
    qed
  qed (use Cons.prems in simp)
qed simp

lemma opened_last:
  "Opened \<notin> set xs \<Longrightarrow> xs @ ys = before @ Opened # after \<Longrightarrow> length ys \<le> 1 \<Longrightarrow> before = xs \<and> after = [] \<and> ys = [Opened]"
proof (induction xs arbitrary: before)
  case (Cons x xs)
  then show ?case by (cases before) auto
qed (cases before; auto simp: Cons_eq_append_conv le_Suc_eq length_Suc_conv)

text \<open>
  C30. No workbook is opened that unpacks too far, and none is opened unmeasured. In every run on every file, opened
  or refused: before \<open>calamine\<close> opens the workbook every entry of the archive has been unpacked and counted, in order,
  to its end, each to at most 64 MiB and all of them together to at most 128 MiB, and the archive's own account of
  itself was within the same bounds; it is opened once; nothing is accepted unopened; and what is unpacked to measure
  it is one byte past these bounds at most.
\<close>

theorem an_opened_workbook_is_no_bomb:
  "(\<forall>before after. snd (workbook_run lib bytes) = before @ Opened # after \<longrightarrow>
      (\<exists>ns. before = map Unpacked ns \<and> lib_archive lib bytes = Inr (map Inr ns)
        \<and> (\<forall>n\<in>set ns. n \<le> ENTRY_UNCOMPRESSED_BYTES_MAX) \<and> sum_list ns \<le> UPLOAD_ARCHIVE_UNCOMPRESSED_BYTES_MAX)
      \<and> (\<forall>e\<in>set (central_directory bytes). e \<le> ENTRY_UNCOMPRESSED_BYTES_MAX)
      \<and> sum_list (central_directory bytes) \<le> UPLOAD_ARCHIVE_UNCOMPRESSED_BYTES_MAX \<and> after = [])
   \<and> (\<not> isl (fst (workbook_run lib bytes)) \<longrightarrow> Opened \<in> set (snd (workbook_run lib bytes)))
   \<and> sum_list (map taken (snd (workbook_run lib bytes)))
       \<le> UPLOAD_ARCHIVE_UNCOMPRESSED_BYTES_MAX + ENTRY_UNCOMPRESSED_BYTES_MAX + 1"
proof (cases "refuse_a_bomb bytes")
  case (Inl err)
  then show ?thesis by (simp add: workbook_run_def run_bind_def quiet_def)
next
  case (Inr u)
  have declared: "(\<forall>e\<in>set (central_directory bytes). e \<le> ENTRY_UNCOMPRESSED_BYTES_MAX)
      \<and> sum_list (central_directory bytes) \<le> UPLOAD_ARCHIVE_UNCOMPRESSED_BYTES_MAX"
    using declared_bound [OF Inr [unfolded refuse_a_bomb_def]] by simp
  have small: "ENTRY_UNCOMPRESSED_BYTES_MAX < 2 ^ 64 - 1" "UPLOAD_ARCHIVE_UNCOMPRESSED_BYTES_MAX < 2 ^ 64 - 1"
    by (simp_all add: ENTRY_UNCOMPRESSED_BYTES_MAX_def UPLOAD_ARCHIVE_UNCOMPRESSED_BYTES_MAX_def)
  let ?m = "refuse_an_expansion lib bytes ENTRY_UNCOMPRESSED_BYTES_MAX UPLOAD_ARCHIVE_UNCOMPRESSED_BYTES_MAX"
  have log: "snd (workbook_run lib bytes) = snd ?m @ (if isl (fst ?m) then [] else [Opened])"
    by (auto simp: workbook_run_def run_bind_def quiet_def Inr open_workbook_def Let_def split: sum.split)
  have unopened: "Opened \<notin> set (snd ?m)" and taken: "sum_list (map taken (snd ?m))
      \<le> UPLOAD_ARCHIVE_UNCOMPRESSED_BYTES_MAX + ENTRY_UNCOMPRESSED_BYTES_MAX + 1"
    using expand_taken [of 0, OF _ small] by (auto simp: refuse_an_expansion_def quiet_def split: sum.split)
  have measured: "\<exists>ns. snd ?m = map Unpacked ns \<and> lib_archive lib bytes = Inr (map Inr ns)
      \<and> (\<forall>n\<in>set ns. n \<le> ENTRY_UNCOMPRESSED_BYTES_MAX) \<and> sum_list ns \<le> UPLOAD_ARCHIVE_UNCOMPRESSED_BYTES_MAX"
    if unpacked: "\<not> isl (fst ?m)"
  proof -
    obtain v where v: "fst ?m = Inr v" using unpacked by (cases "fst ?m") auto
    then obtain entries where entries: "lib_archive lib bytes = Inr entries"
      by (auto simp: refuse_an_expansion_def quiet_def split: sum.splits)
    from expand_bound [of ENTRY_UNCOMPRESSED_BYTES_MAX UPLOAD_ARCHIVE_UNCOMPRESSED_BYTES_MAX 0 entries v] v small entries
    show ?thesis by (auto simp: refuse_an_expansion_def)
  qed
  have split: "before = snd ?m \<and> after = [] \<and> \<not> isl (fst ?m)"
    if "snd (workbook_run lib bytes) = before @ Opened # after" for before after
  proof -
    have "snd ?m @ (if isl (fst ?m) then [] else [Opened]) = before @ Opened # after" using that log by simp
    from opened_last [OF unopened this] show ?thesis by (cases "isl (fst ?m)") simp_all
  qed
  have done_opened: "\<not> isl (fst ?m)" if "\<not> isl (fst (workbook_run lib bytes))"
    using that by (auto simp: workbook_run_def run_bind_def quiet_def Inr split: sum.splits)
  show ?thesis
  proof (intro conjI allI impI)
    fix before after assume "snd (workbook_run lib bytes) = before @ Opened # after"
    note parts = split [OF this]
    with measured show "\<exists>ns. before = map Unpacked ns \<and> lib_archive lib bytes = Inr (map Inr ns)
      \<and> (\<forall>n\<in>set ns. n \<le> ENTRY_UNCOMPRESSED_BYTES_MAX) \<and> sum_list ns \<le> UPLOAD_ARCHIVE_UNCOMPRESSED_BYTES_MAX" by blast
    from parts show "after = []" by blast
  qed (use log declared taken done_opened in auto)
qed

text \<open>A file saved twice names its tab; one named after an inventory does not, whatever its case.\<close>

lemma stems:
  "csv_stem ''TES (1).csv'' = ''TES''" "csv_stem ''C:/shop/tpt.csv'' = ''tpt''" "csv_stem ''tes gb.csv'' = ''tes gb''"
  by code_simp+

lemma tes_gb_is_no_tab: "csv_grid ''tes gb.csv'' [] = Inl (UnnamedCsv ''tes gb'')"
  by code_simp

definition no_libraries :: Libraries where
  "no_libraries = \<lparr>lib_archive = (\<lambda>_. Inr []), lib_workbook = (\<lambda>_. Inr [(''TES'', Inr [])])\<rparr>"

theorem an_accepted_upload_is_bounded_witness:
  "\<exists>gs. grids no_libraries ''TES.csv'' (map (\<lambda>c. of_char c) ''title'') = Inr gs \<and> gs \<noteq> []
     \<and> (\<forall>g\<in>set gs. within_bounds g)"
proof -
  have "from_utf8 ''title'' = Some ''title''" "csv_stem ''TES.csv'' = ''TES''" "records ''title'' = [[''title'']]"
    "byte_chars (map (\<lambda>c. of_char c) ''title'') = ''title''" "\<not> is_zip (map (\<lambda>c. of_char c) ''title'')"
    "List.find (\<lambda>tab. eq_ignore_ascii_case (tab_title tab) ''TES'') TABS \<noteq> None"
    by code_simp+
  then have "map_sum (\<lambda>_. ()) length (grids no_libraries ''TES.csv'' (map (\<lambda>c. of_char c) ''title'')) = Inr 1"
    by (auto simp: grids_def csv_grid_def COLUMNS_MAX_def CELL_BYTES_MAX_def CELLS_MAX_def widened_def blank_def
        numbered_rows_def FIRST_DATA_ROW_def ROWS_PER_UPLOAD_MAX_def map_filter_simps Let_def)
  then obtain gs where g: "grids no_libraries ''TES.csv'' (map (\<lambda>c. of_char c) ''title'') = Inr gs" "length gs = 1"
    by (cases "grids no_libraries ''TES.csv'' (map (\<lambda>c. of_char c) ''title'')") auto
  then have "gs \<noteq> []" by auto
  with an_accepted_upload_is_bounded [OF g(1)] g(1) show ?thesis by blast
qed

definition one_entry :: Libraries where
  "one_entry = \<lparr>lib_archive = (\<lambda>_. Inr [Inr 12]), lib_workbook = (\<lambda>_. Inr [(''TES'', Inr [])])\<rparr>"

theorem an_opened_workbook_is_no_bomb_witness:
  "snd (workbook_run one_entry [80, 75, 3, 4]) = [Unpacked 12, Opened]
   \<and> sum_list (map taken [Unpacked 12, Opened]) \<le> UPLOAD_ARCHIVE_UNCOMPRESSED_BYTES_MAX + ENTRY_UNCOMPRESSED_BYTES_MAX + 1"
proof -
  have "central_directory [80, 75, 3, 4] = []" "tab_of ''TES'' \<noteq> None" by code_simp+
  then have "snd (workbook_run one_entry [80, 75, 3, 4]) = [Unpacked 12, Opened]"
    by (auto simp: workbook_run_def run_bind_def quiet_def open_workbook_def refuse_a_bomb_def refuse_an_expansion_def
        one_entry_def Let_def UPLOAD_ARCHIVE_UNCOMPRESSED_BYTES_MAX_def ENTRY_UNCOMPRESSED_BYTES_MAX_def)
  with an_opened_workbook_is_no_bomb [of one_entry "[80, 75, 3, 4]"] show ?thesis by simp
qed

end
