(* ===== verification/Codec.thy ===== *)
theory Codec
  imports SyncMachine Vocabulary
begin

section \<open>Columns (crate tam-storage, codec.rs)\<close>

text \<open>
  The conversions between values and the columns that store them. An encoder may refuse a value the
  columns cannot hold; a decoder refuses a row that breaks an invariant of the value. An instant of
  the database is the nanoseconds since the epoch, and \<open>chrono\<close> represents some range of them, which
  is a parameter, as are the \<open>Debug\<close> renderings that go into a refusal's reason.
\<close>

lemma try_bind_InrE: "try_bind r k = Inr y \<Longrightarrow> (\<And>x. r = Inr x \<Longrightarrow> k x = Inr y \<Longrightarrow> P) \<Longrightarrow> P"
  by (auto simp: try_bind_Inr)

subsection \<open>The contract\<close>

text \<open>
  What is written is read back: a value the encoder accepts decodes, from its own columns, to itself.
  The law is asked only of the values satisfying \<open>ok\<close>, an invariant their type keeps.
\<close>

locale column_codec =
  fixes encode :: "'a \<Rightarrow> 'e + 'c" and decode :: "'c \<Rightarrow> 'e + 'a" and ok :: "'a \<Rightarrow> bool"
  assumes decode_encoded: "ok x \<Longrightarrow> encode x = Inr c \<Longrightarrow> decode c = Inr x"
begin

lemma encode_inj: "ok x \<Longrightarrow> ok y \<Longrightarrow> encode x = Inr c \<Longrightarrow> encode y = Inr c \<Longrightarrow> x = y"
  using decode_encoded by (metis sum.inject(2))

end

text \<open>\<open>collect::<Result<Vec<_>, _>>\<close>, in order, stopping at the first refusal.\<close>

fun collect :: "('a \<Rightarrow> 'e + 'b) \<Rightarrow> 'a list \<Rightarrow> 'e + 'b list" where
  "collect f [] = Inr []"
| "collect f (x # xs) = try_bind (f x) (\<lambda>y. try_bind (collect f xs) (\<lambda>ys. Inr (y # ys)))"

context column_codec
begin

lemma collect_encoded: "list_all ok xs \<Longrightarrow> collect encode xs = Inr cs \<Longrightarrow> collect decode cs = Inr xs"
proof (induction xs arbitrary: cs)
  case (Cons x xs)
  then obtain c cs' where "encode x = Inr c" "collect encode xs = Inr cs'" "cs = c # cs'"
    by (auto simp: try_bind_Inr)
  with Cons.IH Cons.prems decode_encoded [of x c] show ?case by simp
qed simp

end

text \<open>Of the database's own errors the code reads the name of the constraint violated.\<close>

datatype SqlxError = Violates string | OtherDb string

datatype StorageError =
    Db SqlxError
  | TimestampOutOfRange i64
  | CorruptRow string
  | OrgMismatch
  | Inconsistent string
  | SellerRuleBlocked ProductId "string list"
  | StaleLease
  | DuplicateIdempotencyKey "u8 list"
  | AttemptInFlight
  | MappingAlreadyBound
  | ListingAlreadyBound
  | InventoryMappingAlreadyExists
  | StorefrontBoundElsewhere Marketplace
  | StorefrontSuspended Marketplace

datatype DateTime = DateTime (dt_nanos: int)

record Std =
  std_representable :: "int \<Rightarrow> bool"
  std_dbg :: "string \<Rightarrow> string"
  std_dbg_text :: "string option \<Rightarrow> string"
  std_dbg_int :: "int option \<Rightarrow> string"
  std_dbg_time :: "DateTime option \<Rightarrow> string"
  std_dbg_instant :: "Timestamp option \<Rightarrow> string"

text \<open>The rendering of a tuple.\<close>

definition dbg_tuple :: "string list \<Rightarrow> string" where
  "dbg_tuple parts = ''('' @ join_with '', '' parts @ '')''"

subsection \<open>Identifiers, instants and digests\<close>

fun uuid_to_db :: "Uuid \<Rightarrow> u8 list" where
  "uuid_to_db (Uuid bytes) = bytes"

definition uuid_from_db :: "u8 list \<Rightarrow> Uuid" where
  "uuid_from_db bytes = Uuid bytes"

definition timestamp_to_db :: "Std \<Rightarrow> Timestamp \<Rightarrow> StorageError + DateTime" where
  "timestamp_to_db std t =
     (if std_representable std (ts_ms t * 1000000) then Inr (DateTime (ts_ms t * 1000000))
      else Inl (TimestampOutOfRange (ts_ms t)))"

definition timestamp_from_db :: "DateTime \<Rightarrow> Timestamp" where
  "timestamp_from_db d = Timestamp (dt_nanos d div 1000000)"

definition hash_to_db :: "ContentHash \<Rightarrow> u8 list" where
  "hash_to_db h = hash_bytes h"

definition hash_from_db :: "u8 list \<Rightarrow> StorageError + ContentHash" where
  "hash_from_db bytes =
     (if length bytes = 32 then Inr (ContentHash bytes)
      else Inl (CorruptRow (''content hash of '' @ decimal (length bytes) @ '' bytes, expected 32'')))"

definition hash_hex :: "ContentHash \<Rightarrow> string" where
  "hash_hex h = concat (map hex_byte (hash_bytes h))"

lemma timestamp_from_to [simp]: "timestamp_to_db std t = Inr d \<Longrightarrow> timestamp_from_db d = t"
  by (cases t) (auto simp: timestamp_to_db_def timestamp_from_db_def split: if_splits)

lemma uuid_from_to [simp]: "uuid_from_db (uuid_to_db u) = u"
  by (cases u) (simp add: uuid_from_db_def)

lemma hash_from_to: "hash_from_db bytes = Inr h \<longleftrightarrow> hash_to_db h = bytes \<and> length bytes = 32"
  by (cases h) (auto simp: hash_from_db_def hash_to_db_def)

subsection \<open>Spellings\<close>

text \<open>A spelling outside the vocabulary is refused, by what it was to name.\<close>

definition spelled :: "Std \<Rightarrow> string \<Rightarrow> 'a list \<Rightarrow> ('a \<Rightarrow> string) \<Rightarrow> string \<Rightarrow> StorageError + 'a" where
  "spelled std what vals spell raw =
     ok_or (CorruptRow (''unknown '' @ what @ '' '' @ std_dbg std raw)) (read_spelling vals spell raw)"

definition PRICE_KIND_FREE :: string where "PRICE_KIND_FREE = ''free''"
definition PRICE_KIND_PAID :: string where "PRICE_KIND_PAID = ''paid''"
definition CURRENCY_GBP :: string where "CURRENCY_GBP = ''gbp''"
definition CURRENCY_USD :: string where "CURRENCY_USD = ''usd''"

fun currency_to_db :: "Currency \<Rightarrow> string" where
  "currency_to_db Gbp = CURRENCY_GBP"
| "currency_to_db Usd = CURRENCY_USD"

definition currency_from_db :: "Std \<Rightarrow> string \<Rightarrow> StorageError + Currency" where
  "currency_from_db std = spelled std ''currency'' [Gbp, Usd] currency_to_db"

fun file_role_to_db :: "FileRole \<Rightarrow> string" where
  "file_role_to_db PayloadRole = ''payload''"
| "file_role_to_db PreviewRole = ''preview''"
| "file_role_to_db CoverRole = ''cover''"

definition file_role_from_db :: "Std \<Rightarrow> string \<Rightarrow> StorageError + FileRole" where
  "file_role_from_db std = spelled std ''file role'' [PayloadRole, PreviewRole, CoverRole] file_role_to_db"

fun file_kind_to_db :: "FileKind \<Rightarrow> string" where
  "file_kind_to_db Pdf = ''pdf''"
| "file_kind_to_db Pptx = ''pptx''"
| "file_kind_to_db Docx = ''docx''"
| "file_kind_to_db Zip = ''zip''"
| "file_kind_to_db Image = ''image''"

definition file_kind_from_db :: "Std \<Rightarrow> string \<Rightarrow> StorageError + FileKind" where
  "file_kind_from_db std = spelled std ''file kind'' [Pdf, Pptx, Docx, Zip, Image] file_kind_to_db"

fun failure_code_to_db :: "FailureCode \<Rightarrow> string" where
  "failure_code_to_db SelectorNotFound = ''SelectorNotFound''"
| "failure_code_to_db SelectorAmbiguous = ''SelectorAmbiguous''"
| "failure_code_to_db SelectorResolvedViaFallback = ''SelectorResolvedViaFallback''"
| "failure_code_to_db PreconditionElementAbsent = ''PreconditionElementAbsent''"
| "failure_code_to_db NavigationCancelled = ''NavigationCancelled''"
| "failure_code_to_db UnexpectedOrigin = ''UnexpectedOrigin''"
| "failure_code_to_db SubmitNoConfirmation = ''SubmitNoConfirmation''"
| "failure_code_to_db ChallengePresented = ''ChallengePresented''"
| "failure_code_to_db SessionExpired = ''SessionExpired''"
| "failure_code_to_db UploadRejected = ''UploadRejected''"
| "failure_code_to_db RateLimited = ''RateLimited''"
| "failure_code_to_db VerificationMismatch = ''VerificationMismatch''"
| "failure_code_to_db FormSchemaDrift = ''FormSchemaDrift''"
| "failure_code_to_db AdapterVersionRejected = ''AdapterVersionRejected''"
| "failure_code_to_db OtherFailure = ''Other''"

definition failure_codes :: "FailureCode list" where
  "failure_codes =
     [SelectorNotFound, SelectorAmbiguous, SelectorResolvedViaFallback, PreconditionElementAbsent,
      NavigationCancelled, UnexpectedOrigin, SubmitNoConfirmation, ChallengePresented, SessionExpired,
      UploadRejected, RateLimited, VerificationMismatch, FormSchemaDrift, AdapterVersionRejected, OtherFailure]"

definition failure_code_from_db :: "Std \<Rightarrow> string \<Rightarrow> StorageError + FailureCode" where
  "failure_code_from_db std = spelled std ''failure code'' failure_codes failure_code_to_db"

fun listing_state_to_db :: "ListingState \<Rightarrow> string" where
  "listing_state_to_db Draft = ''draft''"
| "listing_state_to_db Live = ''live''"

definition listing_state_from_db :: "Std \<Rightarrow> string \<Rightarrow> StorageError + ListingState" where
  "listing_state_from_db std = spelled std ''listing state'' [Draft, Live] listing_state_to_db"

fun marketplace_to_db :: "Marketplace \<Rightarrow> string" where
  "marketplace_to_db MTes = ''tes''"
| "marketplace_to_db MEtsy = ''etsy''"
| "marketplace_to_db MTpt = ''tpt''"

fun inventory_to_db :: "InventoryId \<Rightarrow> string" where
  "inventory_to_db Tes = ''tes''"
| "inventory_to_db Etsy = ''etsy''"
| "inventory_to_db Tpt = ''tpt''"

definition inventory_from_db :: "Std \<Rightarrow> string \<Rightarrow> StorageError + InventoryId" where
  "inventory_from_db std = spelled std ''inventory'' [Tes, Etsy, Tpt] inventory_to_db"

fun copy_format_to_db :: "CopyFormat \<Rightarrow> string" where
  "copy_format_to_db Markdown = ''markdown''"
| "copy_format_to_db Html = ''html''"

text \<open>The one reader that names an unknown spelling as an inconsistency, and not quoted.\<close>

definition copy_format_from_db :: "string \<Rightarrow> StorageError + CopyFormat" where
  "copy_format_from_db raw =
     ok_or (Inconsistent (''unknown body format '' @ raw)) (read_spelling [Markdown, Html] copy_format_to_db raw)"

fun term_kind_to_db :: "TermKind \<Rightarrow> string" where
  "term_kind_to_db Subject = ''subject''"
| "term_kind_to_db Topic = ''topic''"
| "term_kind_to_db ResourceType = ''resource_type''"
| "term_kind_to_db Phase = ''phase''"
| "term_kind_to_db Licence = ''licence''"

definition term_kind_from_db :: "Std \<Rightarrow> string \<Rightarrow> StorageError + TermKind" where
  "term_kind_from_db std = spelled std ''term kind'' [Subject, Topic, ResourceType, Phase, Licence] term_kind_to_db"

fun edge_kind_to_db :: "EdgeKind \<Rightarrow> string" where
  "edge_kind_to_db Exact = ''exact''"
| "edge_kind_to_db Broader = ''broader''"
| "edge_kind_to_db Narrower = ''narrower''"

definition edge_kind_from_db :: "Std \<Rightarrow> string \<Rightarrow> StorageError + EdgeKind" where
  "edge_kind_from_db std = spelled std ''edge kind'' [Exact, Broader, Narrower] edge_kind_to_db"

interpretation currencies: closed_vocabulary "[Gbp, Usd]" currency_to_db
proof
  fix x show "x \<in> set [Gbp, Usd]" by (cases x) simp_all
qed (simp add: CURRENCY_GBP_def CURRENCY_USD_def)

interpretation file_roles: closed_vocabulary "[PayloadRole, PreviewRole, CoverRole]" file_role_to_db
proof
  fix x show "x \<in> set [PayloadRole, PreviewRole, CoverRole]" by (cases x) simp_all
qed simp

interpretation file_kinds: closed_vocabulary "[Pdf, Pptx, Docx, Zip, Image]" file_kind_to_db
proof
  fix x show "x \<in> set [Pdf, Pptx, Docx, Zip, Image]" by (cases x) simp_all
qed simp

interpretation failure_codes: closed_vocabulary failure_codes failure_code_to_db
proof
  fix x show "x \<in> set failure_codes" by (cases x) (simp_all add: failure_codes_def)
qed (simp add: failure_codes_def)

interpretation stored_states: closed_vocabulary "[Draft, Live]" listing_state_to_db
proof
  fix x show "x \<in> set [Draft, Live]" by (cases x) simp_all
qed simp

interpretation inventories: closed_vocabulary "[Tes, Etsy, Tpt]" inventory_to_db
proof
  fix x show "x \<in> set [Tes, Etsy, Tpt]" by (cases x) simp_all
qed simp

interpretation copy_formats: closed_vocabulary "[Markdown, Html]" copy_format_to_db
proof
  fix x show "x \<in> set [Markdown, Html]" by (cases x) simp_all
qed simp

interpretation term_kinds: closed_vocabulary "[Subject, Topic, ResourceType, Phase, Licence]" term_kind_to_db
proof
  fix x show "x \<in> set [Subject, Topic, ResourceType, Phase, Licence]" by (cases x) simp_all
qed simp

interpretation edge_kinds: closed_vocabulary "[Exact, Broader, Narrower]" edge_kind_to_db
proof
  fix x show "x \<in> set [Exact, Broader, Narrower]" by (cases x) simp_all
qed simp

lemma spelled_back:
  assumes "closed_vocabulary vals spell"
  shows "spelled std what vals spell (spell x) = Inr x"
  using closed_vocabulary.read_spell [OF assms] by (simp add: spelled_def)

lemmas reads_back [simp] =
  spelled_back [OF currencies.closed_vocabulary_axioms] spelled_back [OF file_roles.closed_vocabulary_axioms]
  spelled_back [OF file_kinds.closed_vocabulary_axioms] spelled_back [OF failure_codes.closed_vocabulary_axioms]
  spelled_back [OF stored_states.closed_vocabulary_axioms] spelled_back [OF inventories.closed_vocabulary_axioms]
  spelled_back [OF term_kinds.closed_vocabulary_axioms] spelled_back [OF edge_kinds.closed_vocabulary_axioms]

subsection \<open>Prices\<close>

record PriceColumns =
  pc_kind :: string
  pc_minor_units :: "i64 option"
  pc_currency :: "string option"

fun price_from_intent :: "PriceIntent \<Rightarrow> PriceColumns" where
  "price_from_intent Free = \<lparr>pc_kind = PRICE_KIND_FREE, pc_minor_units = None, pc_currency = None\<rparr>"
| "price_from_intent (Paid money) =
     \<lparr>pc_kind = PRICE_KIND_PAID, pc_minor_units = Some (minor_units money),
      pc_currency = Some (currency_to_db (money_currency money))\<rparr>"

definition price_from_db ::
  "Std \<Rightarrow> string \<Rightarrow> i64 option \<Rightarrow> string option \<Rightarrow> StorageError + PriceIntent" where
  "price_from_db std kind units currency =
     (if kind = PRICE_KIND_FREE \<and> units = None \<and> currency = None then Inr Free
      else case (units, currency) of
        (Some n, Some c) \<Rightarrow>
          if kind = PRICE_KIND_PAID then
            try_bind (currency_from_db std c) (\<lambda>cur.
              case money_new n cur of
                Inr money \<Rightarrow> Inr (Paid money)
              | Inl _ \<Rightarrow> Inl (CorruptRow (''non-positive paid amount '' @ signed_decimal n)))
          else Inl (CorruptRow (''inconsistent price columns ''
            @ dbg_tuple [std_dbg std kind, std_dbg_int std units, std_dbg_text std currency]))
      | _ \<Rightarrow> Inl (CorruptRow (''inconsistent price columns ''
            @ dbg_tuple [std_dbg std kind, std_dbg_int std units, std_dbg_text std currency])))"

text \<open>A price holds a positive amount, by the constructor of \<open>Money\<close>.\<close>

fun price_ok :: "PriceIntent \<Rightarrow> bool" where
  "price_ok Free \<longleftrightarrow> True"
| "price_ok (Paid money) \<longleftrightarrow> 0 < minor_units money"

text \<open>
  The price columns and the prices are one set of values: a row decodes to a price exactly when
  it is that price's own row, so no inconsistent combination of a kind, an amount and a currency is
  ever read as anything.
\<close>

lemma price_read_iff:
  "price_from_db std kind units currency = Inr p \<longleftrightarrow>
     price_from_intent p = \<lparr>pc_kind = kind, pc_minor_units = units, pc_currency = currency\<rparr> \<and> price_ok p"
proof (cases p)
  case Free
  then show ?thesis
    by (auto simp: price_from_db_def PRICE_KIND_FREE_def PRICE_KIND_PAID_def try_bind_Inr
        split: option.splits sum.splits if_splits)
next
  case (Paid m)
  have cur: "currency_from_db std c = Inr k \<longleftrightarrow> currency_to_db k = c" for c k
    by (simp add: currency_from_db_def spelled_def currencies.read_iff)
  show ?thesis
    unfolding Paid price_from_db_def
    by (cases m) (auto simp: PRICE_KIND_FREE_def PRICE_KIND_PAID_def try_bind_Inr cur money_new_def
        split: option.splits sum.splits if_splits)
qed

interpretation prices: column_codec "\<lambda>p. Inr (price_from_intent p)"
  "\<lambda>c. price_from_db std (pc_kind c) (pc_minor_units c) (pc_currency c)" price_ok
  by unfold_locales (auto simp: price_read_iff)

subsection \<open>Scans\<close>

record ScanColumns =
  sn_state :: string
  sn_signature :: "string option"
  sn_scanned_at :: "DateTime option"
  sn_failure_code :: "string option"

fun scan_from_outcome :: "Std \<Rightarrow> ScanOutcome \<Rightarrow> StorageError + ScanColumns" where
  "scan_from_outcome std ScanPending =
     Inr \<lparr>sn_state = ''pending'', sn_signature = None, sn_scanned_at = None, sn_failure_code = None\<rparr>"
| "scan_from_outcome std (ScanClean t) =
     try_bind (timestamp_to_db std t) (\<lambda>d.
       Inr \<lparr>sn_state = ''clean'', sn_signature = None, sn_scanned_at = Some d, sn_failure_code = None\<rparr>)"
| "scan_from_outcome std (ScanInfected signature) =
     Inr \<lparr>sn_state = ''infected'', sn_signature = Some signature, sn_scanned_at = None, sn_failure_code = None\<rparr>"
| "scan_from_outcome std (ScanFailed code) =
     Inr \<lparr>sn_state = ''failed'', sn_signature = None, sn_scanned_at = None,
          sn_failure_code = Some (failure_code_to_db code)\<rparr>"

definition scan_from_db :: "Std \<Rightarrow> ScanColumns \<Rightarrow> StorageError + ScanOutcome" where
  "scan_from_db std c =
     (if sn_state c = ''pending'' \<and> sn_signature c = None \<and> sn_scanned_at c = None \<and> sn_failure_code c = None
      then Inr ScanPending
      else if sn_state c = ''clean'' \<and> sn_signature c = None \<and> sn_scanned_at c \<noteq> None \<and> sn_failure_code c = None
      then Inr (ScanClean (timestamp_from_db (the (sn_scanned_at c))))
      else if sn_state c = ''infected'' \<and> sn_signature c \<noteq> None \<and> sn_failure_code c = None
      then Inr (ScanInfected (the (sn_signature c)))
      else if sn_state c = ''failed'' \<and> sn_signature c = None \<and> sn_failure_code c \<noteq> None
      then try_bind (failure_code_from_db std (the (sn_failure_code c))) (\<lambda>code. Inr (ScanFailed code))
      else Inl (CorruptRow (''inconsistent scan columns ''
        @ dbg_tuple [std_dbg std (sn_state c), std_dbg_text std (sn_signature c),
                     std_dbg_time std (sn_scanned_at c), std_dbg_text std (sn_failure_code c)])))"

lemma failure_codes_back: "failure_code_from_db std (failure_code_to_db code) = Inr code"
  by (simp only: failure_code_from_db_def reads_back)

interpretation scans: column_codec "scan_from_outcome std" "scan_from_db std" "\<lambda>_. True"
proof
  fix s c assume "scan_from_outcome std s = Inr c"
  then show "scan_from_db std c = Inr s"
    by (cases s) (auto simp: scan_from_db_def failure_codes_back try_bind_Inr)
qed

subsection \<open>Remote identifiers\<close>

record RemoteIdColumns =
  rc_kind :: string
  rc_url :: "string option"
  rc_numeric_id :: "i64 option"

text \<open>\<open>i64::try_from\<close> of an unsigned identifier.\<close>

definition numeric_to_db :: "string \<Rightarrow> u64 \<Rightarrow> StorageError + i64" where
  "numeric_to_db what n =
     ok_or (Inconsistent (what @ '' '' @ decimal (unat n) @ '' exceeds the column range''))
       (checked_signed 64 (int (unat n)))"

fun remote_encode :: "RemoteListingId \<Rightarrow> StorageError + RemoteIdColumns" where
  "remote_encode (RTes url) = Inr \<lparr>rc_kind = ''tes'', rc_url = Some url, rc_numeric_id = None\<rparr>"
| "remote_encode (RTpt product_id) =
     try_bind (numeric_to_db ''tpt product id'' product_id) (\<lambda>n.
       Inr \<lparr>rc_kind = ''tpt'', rc_url = None, rc_numeric_id = Some n\<rparr>)"
| "remote_encode (REtsy listing_id) =
     try_bind (numeric_to_db ''etsy listing id'' listing_id) (\<lambda>n.
       Inr \<lparr>rc_kind = ''etsy'', rc_url = None, rc_numeric_id = Some n\<rparr>)"

definition remote_id_from_db ::
  "Std \<Rightarrow> string \<Rightarrow> string option \<Rightarrow> i64 option \<Rightarrow> StorageError + RemoteListingId" where
  "remote_id_from_db std kind url numeric_id =
     (case (url, numeric_id) of
        (Some u, None) \<Rightarrow>
          if kind = ''tes'' then Inr (RTes u)
          else Inl (CorruptRow (''inconsistent remote id columns ''
            @ dbg_tuple [std_dbg std kind, std_dbg_text std url, std_dbg_int std numeric_id]))
      | (None, Some n) \<Rightarrow>
          if kind = ''tpt'' then
            (if 0 \<le> n then Inr (RTpt (of_int n)) else Inl (CorruptRow (''negative tpt product id '' @ signed_decimal n)))
          else if kind = ''etsy'' then
            (if 0 \<le> n then Inr (REtsy (of_int n))
             else Inl (CorruptRow (''negative etsy listing id '' @ signed_decimal n)))
          else Inl (CorruptRow (''inconsistent remote id columns ''
            @ dbg_tuple [std_dbg std kind, std_dbg_text std url, std_dbg_int std numeric_id]))
      | _ \<Rightarrow> Inl (CorruptRow (''inconsistent remote id columns ''
            @ dbg_tuple [std_dbg std kind, std_dbg_text std url, std_dbg_int std numeric_id])))"

lemma numeric_back: "numeric_to_db what n = Inr i \<Longrightarrow> 0 \<le> i \<and> of_int i = n"
  by (auto simp: numeric_to_db_def)

interpretation remote_ids: column_codec remote_encode
  "\<lambda>c. remote_id_from_db std (rc_kind c) (rc_url c) (rc_numeric_id c)" "\<lambda>_. True"
proof
  fix r c assume "remote_encode r = Inr c"
  then show "remote_id_from_db std (rc_kind c) (rc_url c) (rc_numeric_id c) = Inr r"
    by (cases r) (auto simp: remote_id_from_db_def try_bind_Inr dest!: numeric_back)
qed

subsection \<open>Operations\<close>

record OperationColumns =
  oc_operation :: string
  oc_subject_kind :: "string option"
  oc_subject_url :: "string option"
  oc_subject_numeric_id :: "i64 option"
  oc_state_from :: "string option"
  oc_state_to :: "string option"

fun operation_encode :: "ItemOperation \<Rightarrow> StorageError + OperationColumns" where
  "operation_encode Create =
     Inr \<lparr>oc_operation = ''create'', oc_subject_kind = None, oc_subject_url = None,
          oc_subject_numeric_id = None, oc_state_from = None, oc_state_to = None\<rparr>"
| "operation_encode (Revise subj transition) =
     try_bind (remote_encode subj) (\<lambda>remote.
       Inr \<lparr>oc_operation = ''revise'', oc_subject_kind = Some (rc_kind remote), oc_subject_url = rc_url remote,
            oc_subject_numeric_id = rc_numeric_id remote,
            oc_state_from = Some (listing_state_to_db (lt_from transition)),
            oc_state_to = Some (listing_state_to_db (lt_to transition))\<rparr>)"
| "operation_encode (PublishTo to) =
     Inr \<lparr>oc_operation = ''publish'', oc_subject_kind = None, oc_subject_url = None,
          oc_subject_numeric_id = None, oc_state_from = None, oc_state_to = Some (listing_state_to_db to)\<rparr>"
| "operation_encode (Remove subj st) =
     try_bind (remote_encode subj) (\<lambda>remote.
       Inr \<lparr>oc_operation = ''remove'', oc_subject_kind = Some (rc_kind remote), oc_subject_url = rc_url remote,
            oc_subject_numeric_id = rc_numeric_id remote,
            oc_state_from = Some (listing_state_to_db st), oc_state_to = None\<rparr>)"

text \<open>\<open>Option::map(..).transpose()\<close>.\<close>

definition transposed :: "('a \<Rightarrow> 'e + 'b) \<Rightarrow> 'a option \<Rightarrow> 'e + 'b option" where
  "transposed f x = (case x of None \<Rightarrow> Inr None | Some y \<Rightarrow> try_bind (f y) (\<lambda>z. Inr (Some z)))"

lemma transposed_simps [simp]:
  "transposed f None = Inr None" "transposed f (Some y) = try_bind (f y) (\<lambda>z. Inr (Some z))"
  by (simp_all add: transposed_def)

definition operation_decode :: "Std \<Rightarrow> OperationColumns \<Rightarrow> StorageError + ItemOperation" where
  "operation_decode std c =
     try_bind (transposed (\<lambda>kind. remote_id_from_db std kind (oc_subject_url c) (oc_subject_numeric_id c))
                 (oc_subject_kind c)) (\<lambda>subj.
     try_bind (transposed (listing_state_from_db std) (oc_state_from c)) (\<lambda>st_from.
     try_bind (transposed (listing_state_from_db std) (oc_state_to c)) (\<lambda>st_to.
       if oc_operation c = ''create'' \<and> subj = None \<and> st_from = None \<and> st_to = None then Inr Create
       else if oc_operation c = ''publish'' \<and> subj = None \<and> st_from = None \<and> st_to \<noteq> None
       then Inr (PublishTo (the st_to))
       else if oc_operation c = ''revise'' \<and> subj \<noteq> None \<and> st_from \<noteq> None \<and> st_to \<noteq> None
       then Inr (Revise (the subj) \<lparr>lt_from = the st_from, lt_to = the st_to\<rparr>)
       else if oc_operation c = ''remove'' \<and> subj \<noteq> None \<and> st_from \<noteq> None \<and> st_to = None
       then Inr (Remove (the subj) (the st_from))
       else Inl (CorruptRow (''inconsistent operation columns for '' @ std_dbg std (oc_operation c))))))"

lemma remote_decoded [simp]: "remote_encode r = Inr c \<Longrightarrow>
    remote_id_from_db std (rc_kind c) (rc_url c) (rc_numeric_id c) = Inr r"
  by (rule remote_ids.decode_encoded) simp_all

interpretation operations: column_codec operation_encode "operation_decode std" "\<lambda>_. True"
proof
  fix op c assume "operation_encode op = Inr c"
  then show "operation_decode std c = Inr op"
    by (cases op) (auto simp: operation_decode_def listing_state_from_db_def elim!: try_bind_InrE)
qed

subsection \<open>Deciders\<close>

fun decider_to_db :: "Decider \<Rightarrow> string \<times> string option \<times> u8 list option \<times> u8 list option" where
  "decider_to_db (Imported source) = (''imported'', Some source, None, None)"
| "decider_to_db (Human (UserId user) (OrgId org)) =
     (''human'', None, Some (uuid_to_db user), Some (uuid_to_db org))"

definition decider_from_db ::
  "Std \<Rightarrow> string \<Rightarrow> string option \<Rightarrow> u8 list option \<Rightarrow> u8 list option \<Rightarrow> StorageError + Decider" where
  "decider_from_db std decided_by source user org =
     (case (source, user, org) of
        (Some s, None, None) \<Rightarrow>
          if decided_by = ''imported'' then Inr (Imported s)
          else Inl (CorruptRow (''decider columns violate totality for '' @ std_dbg std decided_by))
      | (None, Some u, Some og) \<Rightarrow>
          if decided_by = ''human'' then Inr (Human (UserId (uuid_from_db u)) (OrgId (uuid_from_db og)))
          else Inl (CorruptRow (''decider columns violate totality for '' @ std_dbg std decided_by))
      | _ \<Rightarrow> Inl (CorruptRow (''decider columns violate totality for '' @ std_dbg std decided_by)))"

lemma decider_back: "decider_to_db d = (k, s, u, og) \<Longrightarrow> decider_from_db std k s u og = Inr d"
  by (cases d rule: decider_to_db.cases) (auto simp: decider_from_db_def)

end
