(* ===== verification/MappingRows.thy ===== *)
theory MappingRows
  imports Codec
begin

section \<open>The mapping aggregate as columns (crate tam-storage, mapping.rs)\<close>

text \<open>
  A mapping is one row of the table \<open>mapping\<close>, with the verification's mismatches and an ambiguous
  create's candidates as the rows of two child tables, each at its position. This theory holds the
  encoders, the decoders, and the checks the table declares on its rows; \<open>MappingStore\<close> holds the
  operations on the tables.
\<close>

subsection \<open>Spellings\<close>

fun field_key_to_db :: "FieldKey \<Rightarrow> string" where
  "field_key_to_db Title = ''title''"
| "field_key_to_db Description = ''description''"
| "field_key_to_db Price = ''price''"
| "field_key_to_db Taxonomy = ''taxonomy''"
| "field_key_to_db Grades = ''grades''"
| "field_key_to_db Files = ''files''"

definition field_key_from_db :: "Std \<Rightarrow> string \<Rightarrow> StorageError + FieldKey" where
  "field_key_from_db std =
     spelled std ''field key'' [Title, Description, Price, Taxonomy, Grades, Files] field_key_to_db"

fun policy_to_db :: "FieldPolicy \<Rightarrow> string" where
  "policy_to_db Managed = ''managed''"
| "policy_to_db Frozen = ''frozen''"
| "policy_to_db ProposeField = ''propose''"

definition policy_from_db :: "Std \<Rightarrow> string \<Rightarrow> StorageError + FieldPolicy" where
  "policy_from_db std = spelled std ''field policy'' [Managed, Frozen, ProposeField] policy_to_db"

fun publish_to_db :: "PublishMode \<Rightarrow> string" where
  "publish_to_db DryRun = ''dry_run''"
| "publish_to_db ProposePublish = ''propose''"
| "publish_to_db Publish = ''publish''"

definition publish_from_db :: "Std \<Rightarrow> string \<Rightarrow> StorageError + PublishMode" where
  "publish_from_db std = spelled std ''publish mode'' [DryRun, ProposePublish, Publish] publish_to_db"

fun sever_to_db :: "SeverCause \<Rightarrow> string" where
  "sever_to_db RemovedByMarketplace = ''removed_by_marketplace''"
| "sever_to_db RemovedBySeller = ''removed_by_seller''"
| "sever_to_db NotFoundOnVerify = ''not_found_on_verify''"

definition sever_from_db :: "Std \<Rightarrow> string \<Rightarrow> StorageError + SeverCause" where
  "sever_from_db std =
     spelled std ''sever cause'' [RemovedByMarketplace, RemovedBySeller, NotFoundOnVerify] sever_to_db"

interpretation field_keys: closed_vocabulary "[Title, Description, Price, Taxonomy, Grades, Files]" field_key_to_db
proof
  fix x show "x \<in> set [Title, Description, Price, Taxonomy, Grades, Files]" by (cases x) simp_all
qed simp

interpretation policies: closed_vocabulary "[Managed, Frozen, ProposeField]" policy_to_db
proof
  fix x show "x \<in> set [Managed, Frozen, ProposeField]" by (cases x) simp_all
qed simp

interpretation publish_modes: closed_vocabulary "[DryRun, ProposePublish, Publish]" publish_to_db
proof
  fix x show "x \<in> set [DryRun, ProposePublish, Publish]" by (cases x) simp_all
qed simp

interpretation sever_causes: closed_vocabulary "[RemovedByMarketplace, RemovedBySeller, NotFoundOnVerify]" sever_to_db
proof
  fix x show "x \<in> set [RemovedByMarketplace, RemovedBySeller, NotFoundOnVerify]" by (cases x) simp_all
qed simp

lemma mapping_spellings_back [simp]:
  "field_key_from_db std (field_key_to_db k) = Inr k"
  "policy_from_db std (policy_to_db p) = Inr p"
  "publish_from_db std (publish_to_db m) = Inr m"
  "sever_from_db std (sever_to_db c) = Inr c"
  "inventory_from_db std (inventory_to_db i) = Inr i"
  "listing_state_from_db std (listing_state_to_db s) = Inr s"
  "term_kind_from_db std (term_kind_to_db t) = Inr t"
  by (simp_all add: field_key_from_db_def policy_from_db_def publish_from_db_def sever_from_db_def
      inventory_from_db_def listing_state_from_db_def term_kind_from_db_def
      spelled_back [OF field_keys.closed_vocabulary_axioms] spelled_back [OF policies.closed_vocabulary_axioms]
      spelled_back [OF publish_modes.closed_vocabulary_axioms] spelled_back [OF sever_causes.closed_vocabulary_axioms])

subsection \<open>Encoders\<close>

record BindingColumns =
  bc_state :: string
  bc_remote_id_kind :: "string option"
  bc_remote_url :: "string option"
  bc_remote_numeric_id :: "i64 option"
  bc_attempt :: "u8 list option"
  bc_marker :: "string option"
  bc_first_seen_at :: "DateTime option"
  bc_ambiguous_since :: "DateTime option"
  bc_severed_at :: "DateTime option"
  bc_sever_cause :: "string option"
  bc_candidates :: "RemoteListingId list"

definition binding_empty :: BindingColumns where
  "binding_empty = \<lparr>bc_state = ''unbound'', bc_remote_id_kind = None, bc_remote_url = None,
     bc_remote_numeric_id = None, bc_attempt = None, bc_marker = None, bc_first_seen_at = None,
     bc_ambiguous_since = None, bc_severed_at = None, bc_sever_cause = None, bc_candidates = []\<rparr>"

fun org_to_db :: "OrgId \<Rightarrow> u8 list" where
  "org_to_db (OrgId u) = uuid_to_db u"

fun mapping_to_db :: "MappingId \<Rightarrow> u8 list" where
  "mapping_to_db (MappingId u) = uuid_to_db u"

fun product_to_db :: "ProductId \<Rightarrow> u8 list" where
  "product_to_db (ProductId u) = uuid_to_db u"

fun attempt_to_db :: "AttemptId \<Rightarrow> u8 list" where
  "attempt_to_db (AttemptId u) = uuid_to_db u"

fun marker_text :: "CorrelationMarker \<Rightarrow> string" where
  "marker_text (CorrelationMarker m) = m"

fun binding_encode :: "Std \<Rightarrow> Binding \<Rightarrow> StorageError + BindingColumns" where
  "binding_encode std Unbound = Inr binding_empty"
| "binding_encode std (Creating attempt marker) =
     Inr (binding_empty \<lparr>bc_state := ''creating'', bc_attempt := Some (attempt_to_db attempt),
       bc_marker := map_option marker_text marker\<rparr>)"
| "binding_encode std (Bound remote_id first_seen verified) =
     try_bind (remote_encode remote_id) (\<lambda>remote.
     try_bind (timestamp_to_db std first_seen) (\<lambda>seen.
       Inr (binding_empty \<lparr>bc_state := ''bound'', bc_remote_id_kind := Some (rc_kind remote),
         bc_remote_url := rc_url remote, bc_remote_numeric_id := rc_numeric_id remote,
         bc_first_seen_at := Some seen\<rparr>)))"
| "binding_encode std (AmbiguousCreate attempt candidates since) =
     try_bind (timestamp_to_db std since) (\<lambda>from_when.
       Inr (binding_empty \<lparr>bc_state := ''ambiguous_create'', bc_attempt := Some (attempt_to_db attempt),
         bc_ambiguous_since := Some from_when, bc_candidates := candidates\<rparr>))"
| "binding_encode std (Severed was noticed cause) =
     try_bind (remote_encode was) (\<lambda>remote.
     try_bind (timestamp_to_db std noticed) (\<lambda>when.
       Inr (binding_empty \<lparr>bc_state := ''severed'', bc_remote_id_kind := Some (rc_kind remote),
         bc_remote_url := rc_url remote, bc_remote_numeric_id := rc_numeric_id remote,
         bc_severed_at := Some when, bc_sever_cause := Some (sever_to_db cause)\<rparr>)))"

record VerifyColumns =
  vc_state :: string
  vc_verified_at :: "DateTime option"
  vc_stale_since :: "DateTime option"
  vc_mismatches :: "FieldMismatch list"

definition verify_neutral :: VerifyColumns where
  "verify_neutral = \<lparr>vc_state = ''stale'', vc_verified_at = None, vc_stale_since = None, vc_mismatches = []\<rparr>"

fun verify_encode :: "Std \<Rightarrow> Binding \<Rightarrow> StorageError + VerifyColumns" where
  "verify_encode std (Bound remote_id first_seen (V_Stale since)) =
     try_bind (timestamp_to_db std since) (\<lambda>d. Inr (verify_neutral \<lparr>vc_stale_since := Some d\<rparr>))"
| "verify_encode std (Bound remote_id first_seen (V_Clean t)) =
     try_bind (timestamp_to_db std t) (\<lambda>d.
       Inr (verify_neutral \<lparr>vc_state := ''clean'', vc_verified_at := Some d\<rparr>))"
| "verify_encode std (Bound remote_id first_seen (V_Mismatched t first rest)) =
     try_bind (timestamp_to_db std t) (\<lambda>d.
       Inr \<lparr>vc_state = ''mismatched'', vc_verified_at = Some d, vc_stale_since = None,
            vc_mismatches = first # rest\<rparr>)"
| "verify_encode std _ = Inr verify_neutral"

record PriceRuleColumns =
  pr_kind :: string
  pr_rate_micros :: "i64 option"
  pr_rounding :: "string option"
  pr_explicit_kind :: "string option"
  pr_explicit_minor_units :: "i64 option"
  pr_explicit_currency :: "string option"

fun rounding_to_db :: "Rounding \<Rightarrow> string" where
  "rounding_to_db Nearest = ''nearest''"
| "rounding_to_db UpToCharm = ''up_to_charm''"

fun price_rule_encode :: "PriceRule \<Rightarrow> PriceRuleColumns" where
  "price_rule_encode (Converted rate_micros rounding) =
     \<lparr>pr_kind = ''converted'', pr_rate_micros = Some rate_micros, pr_rounding = Some (rounding_to_db rounding),
      pr_explicit_kind = None, pr_explicit_minor_units = None, pr_explicit_currency = None\<rparr>"
| "price_rule_encode (Explicit intent) =
     (let price = price_from_intent intent in
      \<lparr>pr_kind = ''explicit'', pr_rate_micros = None, pr_rounding = None,
       pr_explicit_kind = Some (pc_kind price), pr_explicit_minor_units = pc_minor_units price,
       pr_explicit_currency = pc_currency price\<rparr>)"

record LifecycleColumns =
  lc_state :: string
  lc_since :: "DateTime option"
  lc_reason :: "string option"

fun lifecycle_parts :: "RemoteLifecycle \<Rightarrow> string \<times> Timestamp option \<times> string option" where
  "lifecycle_parts L_Absent = (''absent'', None, None)"
| "lifecycle_parts L_Draft = (''draft'', None, None)"
| "lifecycle_parts (L_Submitted t) = (''submitted'', Some t, None)"
| "lifecycle_parts (L_InReview since) = (''in_review'', Some since, None)"
| "lifecycle_parts (L_Live since) = (''live'', Some since, None)"
| "lifecycle_parts (L_Rejected t reason) = (''rejected'', Some t, reason)"
| "lifecycle_parts (L_Withdrawn t) = (''withdrawn'', Some t, None)"

definition lifecycle_encode :: "Std \<Rightarrow> RemoteLifecycle \<Rightarrow> StorageError + LifecycleColumns" where
  "lifecycle_encode std lifecycle =
     (case lifecycle_parts lifecycle of (state, since, reason) \<Rightarrow>
        try_bind (transposed (timestamp_to_db std) since) (\<lambda>d.
          Inr \<lparr>lc_state = state, lc_since = d, lc_reason = reason\<rparr>))"

record MismatchRow =
  mm_field :: string
  mm_class :: string
  mm_observed_in :: "string option"
  mm_limit_observed :: "int option"

fun mismatch_parts :: "MismatchClass \<Rightarrow> StorageError + string \<times> string option \<times> int option" where
  "mismatch_parts Normalised = Inr (''normalised'', None, None)"
| "mismatch_parts (Truncated limit_observed) =
     try_bind (ok_or (Inconsistent (''observed limit '' @ decimal limit_observed @ '' exceeds the column range''))
                 (checked_signed 32 (int limit_observed)))
       (\<lambda>n. Inr (''truncated'', None, Some n))"
| "mismatch_parts Missing = Inr (''missing'', None, None)"
| "mismatch_parts (WrongField observed_in) = Inr (''wrong_field'', Some (field_key_to_db observed_in), None)"
| "mismatch_parts Unexpected = Inr (''unexpected'', None, None)"

definition mismatch_encode :: "FieldMismatch \<Rightarrow> StorageError + MismatchRow" where
  "mismatch_encode m =
     try_bind (mismatch_parts (fm_class m)) (\<lambda>(class, observed_in, limit_observed).
       Inr \<lparr>mm_field = field_key_to_db (fm_field m), mm_class = class, mm_observed_in = observed_in,
            mm_limit_observed = limit_observed\<rparr>)"

subsection \<open>Decoders\<close>

text \<open>The row as read. The table has one more column, the marketplace, which no reader selects.\<close>

record MappingRow =
  mr_org_id :: "u8 list"
  mr_id :: "u8 list"
  mr_product_id :: "u8 list"
  mr_inventory :: string
  mr_binding_state :: string
  mr_remote_id_kind :: "string option"
  mr_remote_url :: "string option"
  mr_remote_numeric_id :: "i64 option"
  mr_binding_attempt :: "u8 list option"
  mr_binding_marker :: "string option"
  mr_first_seen_at :: "DateTime option"
  mr_ambiguous_since :: "DateTime option"
  mr_severed_at :: "DateTime option"
  mr_sever_cause :: "string option"
  mr_verify_state :: string
  mr_verified_at :: "DateTime option"
  mr_verify_stale_since :: "DateTime option"
  mr_normaliser_version :: int
  mr_policy_title :: string
  mr_policy_description :: string
  mr_policy_price :: string
  mr_policy_taxonomy :: string
  mr_policy_grades :: string
  mr_policy_files :: string
  mr_price_rule_kind :: string
  mr_price_rate_micros :: "i64 option"
  mr_price_rounding :: "string option"
  mr_price_explicit_kind :: "string option"
  mr_price_explicit_minor_units :: "i64 option"
  mr_price_explicit_currency :: "string option"
  mr_publish_mode :: string
  mr_lifecycle_state :: string
  mr_lifecycle_since :: "DateTime option"
  mr_lifecycle_reason :: "string option"
  mr_created_at :: DateTime
  mr_updated_at :: DateTime

record StoredMapping = MappingRow +
  mr_marketplace :: string

record MappingRecord =
  mrec_mapping :: Mapping
  mrec_normaliser_version :: u32
  mrec_created_at :: Timestamp
  mrec_updated_at :: Timestamp

text \<open>\<open>ok_or_else\<close> with a row's corruption.\<close>

definition needed :: "string \<Rightarrow> 'a option \<Rightarrow> StorageError + 'a" where
  "needed reason = ok_or (CorruptRow reason)"

lemma needed_Some [simp]: "needed reason (Some x) = Inr x"
  by (simp add: needed_def ok_or_def)

definition lifecycle_from_db ::
  "Std \<Rightarrow> string \<Rightarrow> DateTime option \<Rightarrow> string option \<Rightarrow> StorageError + RemoteLifecycle" where
  "lifecycle_from_db std state since reason =
     (let since_ts = map_option timestamp_from_db since in
      case (since_ts, reason) of
        (None, None) \<Rightarrow>
          if state = ''absent'' then Inr L_Absent else if state = ''draft'' then Inr L_Draft
          else Inl (CorruptRow (''inconsistent lifecycle columns ''
            @ dbg_tuple [std_dbg std state, std_dbg_instant std since_ts, std_dbg_text std reason]))
      | (Some t, r) \<Rightarrow>
          if state = ''submitted'' \<and> r = None then Inr (L_Submitted t)
          else if state = ''in_review'' \<and> r = None then Inr (L_InReview t)
          else if state = ''live'' \<and> r = None then Inr (L_Live t)
          else if state = ''rejected'' then Inr (L_Rejected t r)
          else if state = ''withdrawn'' \<and> r = None then Inr (L_Withdrawn t)
          else Inl (CorruptRow (''inconsistent lifecycle columns ''
            @ dbg_tuple [std_dbg std state, std_dbg_instant std since_ts, std_dbg_text std reason]))
      | _ \<Rightarrow> Inl (CorruptRow (''inconsistent lifecycle columns ''
            @ dbg_tuple [std_dbg std state, std_dbg_instant std since_ts, std_dbg_text std reason])))"

definition mismatch_class_from_db :: "Std \<Rightarrow> MismatchRow \<Rightarrow> StorageError + MismatchClass" where
  "mismatch_class_from_db std row =
     (case (mm_observed_in row, mm_limit_observed row) of
        (None, None) \<Rightarrow>
          if mm_class row = ''normalised'' then Inr Normalised
          else if mm_class row = ''missing'' then Inr Missing
          else if mm_class row = ''unexpected'' then Inr Unexpected
          else Inl (CorruptRow (''inconsistent mismatch columns ''
            @ dbg_tuple [std_dbg std (mm_class row), std_dbg_text std (mm_observed_in row),
                         std_dbg_int std (mm_limit_observed row)]))
      | (None, Some lim) \<Rightarrow>
          if mm_class row = ''truncated''
          then if 0 \<le> lim then Inr (Truncated (nat lim))
               else Inl (CorruptRow (''negative observed limit '' @ signed_decimal lim))
          else Inl (CorruptRow (''inconsistent mismatch columns ''
            @ dbg_tuple [std_dbg std (mm_class row), std_dbg_text std (mm_observed_in row),
                         std_dbg_int std (mm_limit_observed row)]))
      | (Some observed, None) \<Rightarrow>
          if mm_class row = ''wrong_field''
          then try_bind (field_key_from_db std observed) (\<lambda>k. Inr (WrongField k))
          else Inl (CorruptRow (''inconsistent mismatch columns ''
            @ dbg_tuple [std_dbg std (mm_class row), std_dbg_text std (mm_observed_in row),
                         std_dbg_int std (mm_limit_observed row)]))
      | _ \<Rightarrow> Inl (CorruptRow (''inconsistent mismatch columns ''
            @ dbg_tuple [std_dbg std (mm_class row), std_dbg_text std (mm_observed_in row),
                         std_dbg_int std (mm_limit_observed row)])))"

definition mismatch_from_db :: "Std \<Rightarrow> MismatchRow \<Rightarrow> StorageError + FieldMismatch" where
  "mismatch_from_db std row =
     try_bind (mismatch_class_from_db std row) (\<lambda>class.
     try_bind (field_key_from_db std (mm_field row)) (\<lambda>field.
       Inr \<lparr>fm_field = field, fm_class = class\<rparr>))"

definition decode_verification ::
  "Std \<Rightarrow> 'r MappingRow_scheme \<Rightarrow> MismatchRow list \<Rightarrow> StorageError + Verification" where
  "decode_verification std row mismatches =
     (case (mr_verified_at row, mr_verify_stale_since row) of
        (None, Some since) \<Rightarrow>
          if mr_verify_state row = ''stale'' then Inr (V_Stale (timestamp_from_db since))
          else Inl (CorruptRow (''inconsistent verify columns ''
            @ dbg_tuple [std_dbg std (mr_verify_state row), std_dbg_time std (mr_verified_at row),
                         std_dbg_time std (mr_verify_stale_since row)]))
      | (Some t, None) \<Rightarrow>
          if mr_verify_state row = ''clean'' then Inr (V_Clean (timestamp_from_db t))
          else if mr_verify_state row = ''mismatched'' then
            (case mismatches of
               [] \<Rightarrow> Inl (CorruptRow ''mismatched verification without a field_mismatch row'')
             | m # ms \<Rightarrow>
                 try_bind (mismatch_from_db std m) (\<lambda>first.
                 try_bind (collect (mismatch_from_db std) ms) (\<lambda>rest.
                   Inr (V_Mismatched (timestamp_from_db t) first rest))))
          else Inl (CorruptRow (''inconsistent verify columns ''
            @ dbg_tuple [std_dbg std (mr_verify_state row), std_dbg_time std (mr_verified_at row),
                         std_dbg_time std (mr_verify_stale_since row)]))
      | _ \<Rightarrow> Inl (CorruptRow (''inconsistent verify columns ''
            @ dbg_tuple [std_dbg std (mr_verify_state row), std_dbg_time std (mr_verified_at row),
                         std_dbg_time std (mr_verify_stale_since row)])))"

definition decode_binding ::
  "Std \<Rightarrow> 'r MappingRow_scheme \<Rightarrow> MismatchRow list \<Rightarrow> RemoteIdColumns list \<Rightarrow> StorageError + Binding" where
  "decode_binding std row mismatches candidates =
     (if mr_binding_state row = ''unbound'' then Inr Unbound
      else if mr_binding_state row = ''creating'' then
        try_bind (needed ''creating binding without an attempt'' (mr_binding_attempt row)) (\<lambda>attempt.
          Inr (Creating (AttemptId (uuid_from_db attempt)) (map_option CorrelationMarker (mr_binding_marker row))))
      else if mr_binding_state row = ''bound'' then
        try_bind (needed ''bound binding without a remote id kind'' (mr_remote_id_kind row)) (\<lambda>kind.
        try_bind (remote_id_from_db std kind (mr_remote_url row) (mr_remote_numeric_id row)) (\<lambda>remote_id.
        try_bind (needed ''bound binding without first_seen_at'' (mr_first_seen_at row)) (\<lambda>seen.
        try_bind (decode_verification std row mismatches) (\<lambda>verified.
          Inr (Bound remote_id (timestamp_from_db seen) verified)))))
      else if mr_binding_state row = ''ambiguous_create'' then
        try_bind (needed ''ambiguous create without an attempt'' (mr_binding_attempt row)) (\<lambda>attempt.
        try_bind (collect (\<lambda>c. remote_id_from_db std (rc_kind c) (rc_url c) (rc_numeric_id c)) candidates)
          (\<lambda>decoded.
        try_bind (needed ''ambiguous create without a since instant'' (mr_ambiguous_since row)) (\<lambda>since.
          Inr (AmbiguousCreate (AttemptId (uuid_from_db attempt)) decoded (timestamp_from_db since)))))
      else if mr_binding_state row = ''severed'' then
        try_bind (needed ''severed binding without a remote id kind'' (mr_remote_id_kind row)) (\<lambda>kind.
        try_bind (remote_id_from_db std kind (mr_remote_url row) (mr_remote_numeric_id row)) (\<lambda>was.
        try_bind (needed ''severed binding without severed_at'' (mr_severed_at row)) (\<lambda>noticed.
        try_bind (needed ''severed binding without a cause'' (mr_sever_cause row)) (\<lambda>raw.
        try_bind (sever_from_db std raw) (\<lambda>cause.
          Inr (Severed was (timestamp_from_db noticed) cause))))))
      else Inl (CorruptRow (''unknown binding state '' @ std_dbg std (mr_binding_state row))))"

definition decode_price_rule :: "Std \<Rightarrow> 'r MappingRow_scheme \<Rightarrow> StorageError + PriceRule" where
  "decode_price_rule std row =
     (if mr_price_rule_kind row = ''converted'' then
        try_bind (needed ''converted price rule without a rate'' (mr_price_rate_micros row)) (\<lambda>rate_micros.
          if mr_price_rounding row = Some ''nearest'' then Inr (Converted rate_micros Nearest)
          else if mr_price_rounding row = Some ''up_to_charm'' then Inr (Converted rate_micros UpToCharm)
          else Inl (CorruptRow (''unknown rounding '' @ std_dbg_text std (mr_price_rounding row))))
      else if mr_price_rule_kind row = ''explicit'' then
        try_bind (needed ''explicit price rule without a price kind'' (mr_price_explicit_kind row)) (\<lambda>kind.
          if kind = PRICE_KIND_FREE \<or> kind = PRICE_KIND_PAID then
            try_bind (price_from_db std kind (mr_price_explicit_minor_units row) (mr_price_explicit_currency row))
              (\<lambda>intent. Inr (Explicit intent))
          else Inl (CorruptRow (''unknown explicit price kind '' @ std_dbg std kind)))
      else Inl (CorruptRow (''unknown price rule kind '' @ std_dbg std (mr_price_rule_kind row))))"

definition decode_policies :: "Std \<Rightarrow> 'r MappingRow_scheme \<Rightarrow> StorageError + FieldPolicies" where
  "decode_policies std row =
     try_bind (policy_from_db std (mr_policy_title row)) (\<lambda>title.
     try_bind (policy_from_db std (mr_policy_description row)) (\<lambda>description.
     try_bind (policy_from_db std (mr_policy_price row)) (\<lambda>price.
     try_bind (policy_from_db std (mr_policy_taxonomy row)) (\<lambda>taxonomy.
     try_bind (policy_from_db std (mr_policy_grades row)) (\<lambda>grades.
     try_bind (policy_from_db std (mr_policy_files row)) (\<lambda>files.
       Inr \<lparr>fp_title = title, fp_description = description, fp_price = price, fp_taxonomy = taxonomy,
            fp_grades = grades, fp_files = files\<rparr>))))))"

definition decode_mapping ::
  "Std \<Rightarrow> 'r MappingRow_scheme \<Rightarrow> MismatchRow list \<Rightarrow> RemoteIdColumns list \<Rightarrow> StorageError + MappingRecord" where
  "decode_mapping std row mismatches candidates =
     try_bind (decode_binding std row mismatches candidates) (\<lambda>binding.
     try_bind (inventory_from_db std (mr_inventory row)) (\<lambda>inventory.
     try_bind (decode_policies std row) (\<lambda>policies.
     try_bind (decode_price_rule std row) (\<lambda>price_rule.
     try_bind (publish_from_db std (mr_publish_mode row)) (\<lambda>publish.
     try_bind (lifecycle_from_db std (mr_lifecycle_state row) (mr_lifecycle_since row) (mr_lifecycle_reason row))
       (\<lambda>lifecycle.
     try_bind
       (if 0 \<le> mr_normaliser_version row then Inr (of_int (mr_normaliser_version row))
        else Inl (CorruptRow (''negative normaliser version '' @ signed_decimal (mr_normaliser_version row))))
       (\<lambda>normaliser_version.
       Inr \<lparr>mrec_mapping = \<lparr>mp_id = MappingId (uuid_from_db (mr_id row)), mp_org = OrgId (uuid_from_db (mr_org_id row)),
              mp_product = ProductId (uuid_from_db (mr_product_id row)), mp_inventory = inventory, mp_binding = binding,
              mp_policies = policies, mp_price_rule = price_rule, mp_publish = publish, mp_lifecycle = lifecycle\<rparr>,
            mrec_normaliser_version = normaliser_version,
            mrec_created_at = timestamp_from_db (mr_created_at row),
            mrec_updated_at = timestamp_from_db (mr_updated_at row)\<rparr>)))))))"

subsection \<open>The row of a mapping\<close>

text \<open>The values of the one \<open>INSERT INTO mapping\<close>, in the order of its parameters.\<close>

definition mapping_row ::
  "OrgId \<Rightarrow> Mapping \<Rightarrow> BindingColumns \<Rightarrow> VerifyColumns \<Rightarrow> PriceRuleColumns \<Rightarrow> LifecycleColumns \<Rightarrow> int \<Rightarrow>
     DateTime \<Rightarrow> StoredMapping" where
  "mapping_row org mapping binding verify price lifecycle normaliser at_db =
     \<lparr>mr_org_id = org_to_db org, mr_id = mapping_to_db (mp_id mapping),
      mr_product_id = product_to_db (mp_product mapping), mr_inventory = inventory_to_db (mp_inventory mapping),
      mr_binding_state = bc_state binding, mr_remote_id_kind = bc_remote_id_kind binding,
      mr_remote_url = bc_remote_url binding, mr_remote_numeric_id = bc_remote_numeric_id binding,
      mr_binding_attempt = bc_attempt binding, mr_binding_marker = bc_marker binding,
      mr_first_seen_at = bc_first_seen_at binding, mr_ambiguous_since = bc_ambiguous_since binding,
      mr_severed_at = bc_severed_at binding, mr_sever_cause = bc_sever_cause binding,
      mr_verify_state = vc_state verify, mr_verified_at = vc_verified_at verify,
      mr_verify_stale_since = vc_stale_since verify, mr_normaliser_version = normaliser,
      mr_policy_title = policy_to_db (fp_title (mp_policies mapping)),
      mr_policy_description = policy_to_db (fp_description (mp_policies mapping)),
      mr_policy_price = policy_to_db (fp_price (mp_policies mapping)),
      mr_policy_taxonomy = policy_to_db (fp_taxonomy (mp_policies mapping)),
      mr_policy_grades = policy_to_db (fp_grades (mp_policies mapping)),
      mr_policy_files = policy_to_db (fp_files (mp_policies mapping)),
      mr_price_rule_kind = pr_kind price, mr_price_rate_micros = pr_rate_micros price,
      mr_price_rounding = pr_rounding price, mr_price_explicit_kind = pr_explicit_kind price,
      mr_price_explicit_minor_units = pr_explicit_minor_units price,
      mr_price_explicit_currency = pr_explicit_currency price,
      mr_publish_mode = publish_to_db (mp_publish mapping), mr_lifecycle_state = lc_state lifecycle,
      mr_lifecycle_since = lc_since lifecycle, mr_lifecycle_reason = lc_reason lifecycle,
      mr_created_at = at_db, mr_updated_at = at_db,
      mr_marketplace = marketplace_to_db (marketplace_of (mp_inventory mapping))\<rparr>"

definition normaliser_to_db :: "u32 \<Rightarrow> StorageError + int" where
  "normaliser_to_db v =
     ok_or (Inconsistent (''normaliser version '' @ decimal (unat v) @ '' exceeds the column range''))
       (checked_signed 32 (int (unat v)))"

text \<open>
  What \<open>insert_mapping\<close> computes before it reaches the tables: the row, and the two lists of children it then
  writes one at a time.
\<close>

definition mapping_columns ::
  "Std \<Rightarrow> OrgId \<Rightarrow> Mapping \<Rightarrow> u32 \<Rightarrow> Timestamp \<Rightarrow>
     StorageError + StoredMapping \<times> FieldMismatch list \<times> RemoteListingId list" where
  "mapping_columns std org mapping normaliser_version t =
     (if mp_org mapping \<noteq> org then Inl OrgMismatch
      else
        try_bind (timestamp_to_db std t) (\<lambda>at_db.
        try_bind (binding_encode std (mp_binding mapping)) (\<lambda>binding.
        try_bind (verify_encode std (mp_binding mapping)) (\<lambda>verify.
        try_bind (lifecycle_encode std (mp_lifecycle mapping)) (\<lambda>lifecycle.
        try_bind (normaliser_to_db normaliser_version) (\<lambda>normaliser.
          Inr (mapping_row org mapping binding verify (price_rule_encode (mp_price_rule mapping)) lifecycle
                 normaliser at_db,
               vc_mismatches verify, bc_candidates binding)))))))"

subsection \<open>What is written is read back\<close>

lemma every_value [simp]: "list_all (\<lambda>_. True) xs"
  by (simp add: list_all_iff)

lemma ids_back [simp]:
  "OrgId (uuid_from_db (org_to_db o1)) = o1" "MappingId (uuid_from_db (mapping_to_db m)) = m"
  "ProductId (uuid_from_db (product_to_db p)) = p" "AttemptId (uuid_from_db (attempt_to_db a)) = a"
  by (cases o1, simp) (cases m, simp, cases p, simp, cases a, simp)

lemma marker_back [simp]: "map_option CorrelationMarker (map_option marker_text m) = m"
proof (cases m)
  case (Some c) then show ?thesis by (cases c) simp
qed simp

interpretation lifecycles: column_codec "lifecycle_encode std"
  "\<lambda>c. lifecycle_from_db std (lc_state c) (lc_since c) (lc_reason c)" "\<lambda>_. True"
proof
  fix l c assume "lifecycle_encode std l = Inr c"
  then show "lifecycle_from_db std (lc_state c) (lc_since c) (lc_reason c) = Inr l"
    by (cases l) (auto simp: lifecycle_encode_def lifecycle_from_db_def elim!: try_bind_InrE split: option.splits)
qed

interpretation mismatches: column_codec mismatch_encode "mismatch_from_db std" "\<lambda>_. True"
proof
  fix m c assume "mismatch_encode m = Inr c"
  then show "mismatch_from_db std c = Inr m"
    by (cases m; cases "fm_class m")
      (auto simp: mismatch_encode_def mismatch_from_db_def mismatch_class_from_db_def elim!: try_bind_InrE)
qed

lemma normaliser_back: "normaliser_to_db v = Inr n \<Longrightarrow> 0 \<le> n \<and> of_int n = v"
  by (auto simp: normaliser_to_db_def)

fun rule_ok :: "PriceRule \<Rightarrow> bool" where
  "rule_ok (Converted rate_micros rounding) \<longleftrightarrow> True"
| "rule_ok (Explicit intent) \<longleftrightarrow> price_ok intent"

lemma price_rule_back:
  assumes "rule_ok rule"
    and "mr_price_rule_kind row = pr_kind (price_rule_encode rule)"
    and "mr_price_rate_micros row = pr_rate_micros (price_rule_encode rule)"
    and "mr_price_rounding row = pr_rounding (price_rule_encode rule)"
    and "mr_price_explicit_kind row = pr_explicit_kind (price_rule_encode rule)"
    and "mr_price_explicit_minor_units row = pr_explicit_minor_units (price_rule_encode rule)"
    and "mr_price_explicit_currency row = pr_explicit_currency (price_rule_encode rule)"
  shows "decode_price_rule std row = Inr rule"
proof (cases rule)
  case (Converted r rounding)
  then show ?thesis using assms by (cases rounding) (simp_all add: decode_price_rule_def)
next
  case (Explicit intent)
  have kind: "pc_kind (price_from_intent intent) = PRICE_KIND_FREE \<or> pc_kind (price_from_intent intent) = PRICE_KIND_PAID"
    by (cases intent) simp_all
  from Explicit assms have "price_from_db std (pc_kind (price_from_intent intent))
      (pc_minor_units (price_from_intent intent)) (pc_currency (price_from_intent intent)) = Inr intent"
    by (simp add: price_read_iff)
  with Explicit assms kind show ?thesis by (simp add: decode_price_rule_def Let_def)
qed

lemma verification_back:
  assumes "verify_encode std (Bound remote_id seen verified) = Inr v"
    and "mr_verify_state row = vc_state v" and "mr_verified_at row = vc_verified_at v"
    and "mr_verify_stale_since row = vc_stale_since v"
    and "collect mismatch_encode (vc_mismatches v) = Inr rows"
  shows "decode_verification std row rows = Inr verified"
proof (cases verified)
  case (V_Mismatched t first rest)
  with assms obtain d c cs where rows: "rows = c # cs" "mismatch_encode first = Inr c"
    "collect mismatch_encode rest = Inr cs"
    by (auto elim!: try_bind_InrE)
  then have "mismatch_from_db std c = Inr first" "collect (mismatch_from_db std) cs = Inr rest"
    using mismatches.decode_encoded mismatches.collect_encoded [of rest cs] by simp_all
  with V_Mismatched assms rows show ?thesis
    by (auto simp: decode_verification_def elim!: try_bind_InrE)
qed (use assms in \<open>auto simp: decode_verification_def verify_neutral_def elim!: try_bind_InrE\<close>)

lemma binding_back:
  assumes "binding_encode std binding = Inr b" "verify_encode std binding = Inr v"
    and row: "mr_binding_state row = bc_state b" "mr_remote_id_kind row = bc_remote_id_kind b"
      "mr_remote_url row = bc_remote_url b" "mr_remote_numeric_id row = bc_remote_numeric_id b"
      "mr_binding_attempt row = bc_attempt b" "mr_binding_marker row = bc_marker b"
      "mr_first_seen_at row = bc_first_seen_at b" "mr_ambiguous_since row = bc_ambiguous_since b"
      "mr_severed_at row = bc_severed_at b" "mr_sever_cause row = bc_sever_cause b"
      "mr_verify_state row = vc_state v" "mr_verified_at row = vc_verified_at v"
      "mr_verify_stale_since row = vc_stale_since v"
    and children: "collect mismatch_encode (vc_mismatches v) = Inr ms" "collect remote_encode (bc_candidates b) = Inr cs"
  shows "decode_binding std row ms cs = Inr binding"
proof (cases binding)
  case (Bound remote_id seen verified)
  then have "decode_verification std row ms = Inr verified"
    using verification_back assms by blast
  with Bound assms show ?thesis
    by (auto simp: decode_binding_def binding_empty_def elim!: try_bind_InrE)
next
  case (AmbiguousCreate attempt candidates since)
  then have "bc_candidates b = candidates" using assms(1) by (auto elim!: try_bind_InrE)
  then have "collect (\<lambda>c. remote_id_from_db std (rc_kind c) (rc_url c) (rc_numeric_id c)) cs = Inr candidates"
    using remote_ids.collect_encoded [of candidates cs] children by simp
  with AmbiguousCreate assms show ?thesis
    by (auto simp: decode_binding_def binding_empty_def elim!: try_bind_InrE)
qed (use assms in \<open>auto simp: decode_binding_def binding_empty_def elim!: try_bind_InrE\<close>)

lemma mapping_back:
  assumes "mapping_columns std org mapping version t = Inr (row, mismatches, candidates)"
    and "collect mismatch_encode mismatches = Inr ms" and "collect remote_encode candidates = Inr cs"
    and "rule_ok (mp_price_rule mapping)"
  shows "decode_mapping std row ms cs =
    Inr \<lparr>mrec_mapping = mapping, mrec_normaliser_version = version, mrec_created_at = t, mrec_updated_at = t\<rparr>"
proof -
  from assms(1) obtain d b v l n where org: "mp_org mapping = org" and d: "timestamp_to_db std t = Inr d"
    and b: "binding_encode std (mp_binding mapping) = Inr b" and v: "verify_encode std (mp_binding mapping) = Inr v"
    and l: "lifecycle_encode std (mp_lifecycle mapping) = Inr l" and n: "normaliser_to_db version = Inr n"
    and row: "row = mapping_row org mapping b v (price_rule_encode (mp_price_rule mapping)) l n d"
    and ch: "mismatches = vc_mismatches v" "candidates = bc_candidates b"
    by (auto simp: mapping_columns_def elim!: try_bind_InrE split: if_splits)
  have binding: "decode_binding std row ms cs = Inr (mp_binding mapping)"
    by (rule binding_back [OF b v])
      (use assms ch in \<open>auto simp: row mapping_row_def\<close>)
  have rule: "decode_price_rule std row = Inr (mp_price_rule mapping)"
    by (rule price_rule_back) (use assms in \<open>simp_all add: row mapping_row_def\<close>)
  have pol: "decode_policies std row = Inr (mp_policies mapping)"
    by (simp add: decode_policies_def row mapping_row_def)
  have life: "lifecycle_from_db std (mr_lifecycle_state row) (mr_lifecycle_since row) (mr_lifecycle_reason row)
      = Inr (mp_lifecycle mapping)"
    using lifecycles.decode_encoded [OF _ l] by (simp add: row mapping_row_def)
  have ids: "mr_inventory row = inventory_to_db (mp_inventory mapping)" "mr_publish_mode row = publish_to_db (mp_publish mapping)"
    "mr_normaliser_version row = n" "mr_id row = mapping_to_db (mp_id mapping)" "mr_org_id row = org_to_db org"
    "mr_product_id row = product_to_db (mp_product mapping)" "mr_created_at row = d" "mr_updated_at row = d"
    by (simp_all add: row mapping_row_def)
  show ?thesis
    using normaliser_back [OF n] d org
    by (simp add: decode_mapping_def binding rule pol life ids)
qed

subsection \<open>The table's own checks (migrations/0004_mapping.sql)\<close>

text \<open>
  The value of an expression of SQL is a truth value or NULL, and a \<open>CHECK\<close> refuses a row only where its
  value is false. The checks but one ask of a nullable column only whether it is null, or what it is behind
  such a question, so their value is a truth value; the price rule's compares nullable columns directly.
\<close>

type_synonym sql_bool = "bool option"

fun sql_and :: "sql_bool \<Rightarrow> sql_bool \<Rightarrow> sql_bool" where
  "sql_and (Some False) _ = Some False"
| "sql_and _ (Some False) = Some False"
| "sql_and (Some True) (Some True) = Some True"
| "sql_and _ _ = None"

fun sql_or :: "sql_bool \<Rightarrow> sql_bool \<Rightarrow> sql_bool" where
  "sql_or (Some True) _ = Some True"
| "sql_or _ (Some True) = Some True"
| "sql_or (Some False) (Some False) = Some False"
| "sql_or _ _ = None"

definition sql_eq :: "'a option \<Rightarrow> 'a \<Rightarrow> sql_bool" where
  "sql_eq col x = map_option (\<lambda>y. y = x) col"

definition sql_holds :: "sql_bool \<Rightarrow> bool" where
  "sql_holds v \<longleftrightarrow> v \<noteq> Some False"

definition check_binding_total :: "StoredMapping \<Rightarrow> bool" where
  "check_binding_total row \<longleftrightarrow>
     (if mr_binding_state row = ''unbound'' then mr_remote_id_kind row = None \<and> mr_binding_attempt row = None
      else if mr_binding_state row = ''creating'' then mr_remote_id_kind row = None \<and> mr_binding_attempt row \<noteq> None
      else if mr_binding_state row = ''bound'' then mr_remote_id_kind row \<noteq> None \<and> mr_first_seen_at row \<noteq> None
      else if mr_binding_state row = ''ambiguous_create'' then
        mr_remote_id_kind row = None \<and> mr_binding_attempt row \<noteq> None \<and> mr_ambiguous_since row \<noteq> None
      else if mr_binding_state row = ''severed'' then
        mr_remote_id_kind row \<noteq> None \<and> mr_severed_at row \<noteq> None \<and> mr_sever_cause row \<noteq> None
      else False)"

definition check_remote_id_shape :: "StoredMapping \<Rightarrow> bool" where
  "check_remote_id_shape row \<longleftrightarrow>
     mr_remote_id_kind row = None
   \<or> mr_remote_id_kind row = Some ''tes'' \<and> mr_remote_url row \<noteq> None \<and> mr_remote_numeric_id row = None
   \<or> mr_remote_id_kind row \<in> {Some ''tpt'', Some ''etsy''} \<and> mr_remote_numeric_id row \<noteq> None \<and> mr_remote_url row = None"

definition check_verify_total :: "StoredMapping \<Rightarrow> bool" where
  "check_verify_total row \<longleftrightarrow>
     mr_verify_state row = ''stale'' \<and> mr_verified_at row = None
   \<or> mr_verify_state row \<in> {''clean'', ''mismatched''} \<and> mr_verified_at row \<noteq> None"

definition check_verify_bound :: "StoredMapping \<Rightarrow> bool" where
  "check_verify_bound row \<longleftrightarrow>
     mr_binding_state row = ''bound'' \<and> (mr_verify_state row \<noteq> ''stale'' \<or> mr_verify_stale_since row \<noteq> None)
   \<or> mr_binding_state row \<noteq> ''bound'' \<and> mr_verify_state row = ''stale'' \<and> mr_verify_stale_since row = None"

definition policy_words :: "string list" where
  "policy_words = [''managed'', ''frozen'', ''propose'']"

definition check_policies :: "StoredMapping \<Rightarrow> bool" where
  "check_policies row \<longleftrightarrow>
     list_all (\<lambda>p. p \<in> set policy_words)
       [mr_policy_title row, mr_policy_description row, mr_policy_price row, mr_policy_taxonomy row,
        mr_policy_grades row, mr_policy_files row]"

definition check_price_rule_total :: "StoredMapping \<Rightarrow> sql_bool" where
  "check_price_rule_total row =
     sql_or
       (sql_and (Some (mr_price_rule_kind row = ''converted'' \<and> mr_price_rate_micros row \<noteq> None))
         (sql_and (sql_or (sql_eq (mr_price_rounding row) ''nearest'') (sql_eq (mr_price_rounding row) ''up_to_charm''))
           (Some (mr_price_explicit_kind row = None \<and> mr_price_explicit_minor_units row = None
             \<and> mr_price_explicit_currency row = None))))
       (sql_and
         (Some (mr_price_rule_kind row = ''explicit'' \<and> mr_price_rate_micros row = None \<and> mr_price_rounding row = None))
         (sql_or
           (sql_and (sql_eq (mr_price_explicit_kind row) ''free'')
             (Some (mr_price_explicit_minor_units row = None \<and> mr_price_explicit_currency row = None)))
           (sql_and (sql_eq (mr_price_explicit_kind row) ''paid'')
             (sql_and (map_option (\<lambda>n. n > 0) (mr_price_explicit_minor_units row))
               (Some (mr_price_explicit_currency row \<noteq> None))))))"

definition check_lifecycle_total :: "StoredMapping \<Rightarrow> bool" where
  "check_lifecycle_total row \<longleftrightarrow>
     mr_lifecycle_state row \<in> {''absent'', ''draft'', ''submitted'', ''in_review'', ''live'', ''rejected'', ''withdrawn''}
   \<and> (mr_lifecycle_state row \<in> {''absent'', ''draft''}) = (mr_lifecycle_since row = None)
   \<and> (mr_lifecycle_reason row = None \<or> mr_lifecycle_state row = ''rejected'')"

text \<open>The table's checks, each with the name an error reports.\<close>

definition mapping_checks :: "StoredMapping \<Rightarrow> (string \<times> bool) list" where
  "mapping_checks row =
     [(''mapping_binding_total'', check_binding_total row),
      (''mapping_binding_marker'', mr_binding_marker row = None \<or> mr_binding_state row = ''creating''),
      (''mapping_remote_id_shape'', check_remote_id_shape row),
      (''mapping_remote_id_marketplace'',
         mr_remote_id_kind row = None \<or> mr_remote_id_kind row = Some (mr_marketplace row)),
      (''mapping_verify_total'', check_verify_total row),
      (''mapping_verify_bound'', check_verify_bound row),
      (''mapping_policies'', check_policies row),
      (''mapping_price_rule_total'', sql_holds (check_price_rule_total row)),
      (''mapping_publish_mode'', mr_publish_mode row \<in> {''dry_run'', ''propose'', ''publish''}),
      (''mapping_lifecycle_total'', check_lifecycle_total row),
      (''mapping_sever_cause'',
         mr_sever_cause row = None
       \<or> mr_sever_cause row \<in> {Some ''removed_by_marketplace'', Some ''removed_by_seller'', Some ''not_found_on_verify''})]"

definition broken_checks :: "StoredMapping \<Rightarrow> string list" where
  "broken_checks row = map fst (filter (\<lambda>(name, holds). \<not> holds) (mapping_checks row))"

definition mismatch_checks :: "MismatchRow \<Rightarrow> (string \<times> bool) list" where
  "mismatch_checks row =
     [(''field_mismatch_field'',
         mm_field row \<in> {''title'', ''description'', ''price'', ''taxonomy'', ''grades'', ''files''}),
      (''field_mismatch_class_total'',
         mm_class row \<in> {''normalised'', ''missing'', ''unexpected''} \<and> mm_observed_in row = None \<and> mm_limit_observed row = None
       \<or> mm_class row = ''truncated'' \<and> mm_observed_in row = None \<and> mm_limit_observed row \<noteq> None
       \<or> mm_class row = ''wrong_field'' \<and> mm_observed_in row \<noteq> None \<and> mm_limit_observed row = None)]"

definition candidate_checks :: "RemoteIdColumns \<Rightarrow> (string \<times> bool) list" where
  "candidate_checks row =
     [(''binding_candidate_shape'',
         rc_kind row = ''tes'' \<and> rc_url row \<noteq> None \<and> rc_numeric_id row = None
       \<or> rc_kind row \<in> {''tpt'', ''etsy''} \<and> rc_numeric_id row \<noteq> None \<and> rc_url row = None)]"

lemma mapping_columnsE:
  assumes "mapping_columns std org mapping version t = Inr (row, mismatches, candidates)"
  obtains d b v l n where "mp_org mapping = org" "timestamp_to_db std t = Inr d"
    "binding_encode std (mp_binding mapping) = Inr b" "verify_encode std (mp_binding mapping) = Inr v"
    "lifecycle_encode std (mp_lifecycle mapping) = Inr l" "normaliser_to_db version = Inr n"
    "row = mapping_row org mapping b v (price_rule_encode (mp_price_rule mapping)) l n d"
    "mismatches = vc_mismatches v" "candidates = bc_candidates b"
  using assms by (auto simp: mapping_columns_def elim!: try_bind_InrE split: if_splits)

lemma remote_kind: "remote_encode r = Inr c \<Longrightarrow> rc_kind c = marketplace_to_db (remote_marketplace r)"
  by (cases r) (auto elim!: try_bind_InrE)

lemma marketplace_to_db_inj [simp]: "marketplace_to_db a = marketplace_to_db b \<longleftrightarrow> a = b"
  by (cases a; cases b) simp_all

lemma remote_shape: "remote_encode r = Inr c \<Longrightarrow>
    rc_kind c = ''tes'' \<and> rc_url c \<noteq> None \<and> rc_numeric_id c = None
  \<or> rc_kind c \<in> {''tpt'', ''etsy''} \<and> rc_numeric_id c \<noteq> None \<and> rc_url c = None"
  by (cases r) (auto elim!: try_bind_InrE)

lemma sever_word: "sever_to_db c \<in> {''removed_by_marketplace'', ''removed_by_seller'', ''not_found_on_verify''}"
  by (cases c) simp_all

lemma policy_word [simp]: "policy_to_db p \<in> set policy_words"
  by (cases p) (simp_all add: policy_words_def)

lemma sql_known [simp]:
  "sql_and (Some a) (Some b) = Some (a \<and> b)" "sql_or (Some a) (Some b) = Some (a \<or> b)"
  "sql_and (Some False) v = Some False" "sql_or (Some True) v = Some True"
  "sql_or (Some False) None = None" "sql_and (Some True) None = None"
  by (cases a; cases b; simp)+

lemma price_rule_checked:
  assumes "rule_ok (mp_price_rule m)"
  shows "check_price_rule_total (mapping_row org m b v (price_rule_encode (mp_price_rule m)) l n d) = Some True"
proof (cases "mp_price_rule m")
  case (Converted rate rounding)
  then show ?thesis
    by (cases rounding) (simp_all add: check_price_rule_total_def mapping_row_def sql_eq_def)
next
  case (Explicit intent)
  with assms show ?thesis
    by (cases intent) (auto simp: check_price_rule_total_def mapping_row_def sql_eq_def PRICE_KIND_FREE_def
        PRICE_KIND_PAID_def Let_def)
qed

lemma lifecycle_checked: "lifecycle_encode std (mp_lifecycle m) = Inr l \<Longrightarrow>
    check_lifecycle_total (mapping_row org m b v p l n d)"
  by (cases "mp_lifecycle m")
    (auto simp: check_lifecycle_total_def mapping_row_def lifecycle_encode_def elim!: try_bind_InrE)

lemma verify_checked:
  assumes "binding_encode std (mp_binding m) = Inr b" "verify_encode std (mp_binding m) = Inr v"
  shows "check_verify_total (mapping_row org m b v p l n d) \<and> check_verify_bound (mapping_row org m b v p l n d)"
proof (cases "mp_binding m")
  case (Bound r seen verified)
  with assms show ?thesis
    by (cases verified) (auto simp: check_verify_total_def check_verify_bound_def mapping_row_def verify_neutral_def
        binding_empty_def elim!: try_bind_InrE)
qed (use assms in \<open>auto simp: check_verify_total_def check_verify_bound_def mapping_row_def verify_neutral_def
        binding_empty_def elim!: try_bind_InrE\<close>)

lemma binding_checked:
  assumes b: "binding_encode std (mp_binding m) = Inr b" and ok: "mapping_check m = Inr ()"
  shows "check_binding_total (mapping_row org m b v p l n d)" "check_remote_id_shape (mapping_row org m b v p l n d)"
    "bc_marker b = None \<or> bc_state b = ''creating''"
    "bc_remote_id_kind b = None \<or> bc_remote_id_kind b = Some (marketplace_to_db (marketplace_of (mp_inventory m)))"
    "bc_sever_cause b = None
     \<or> bc_sever_cause b \<in> {Some ''removed_by_marketplace'', Some ''removed_by_seller'', Some ''not_found_on_verify''}"
proof -
  show "check_binding_total (mapping_row org m b v p l n d)"
    using b by (cases "mp_binding m") (auto simp: check_binding_total_def mapping_row_def binding_empty_def elim!: try_bind_InrE)
  show "check_remote_id_shape (mapping_row org m b v p l n d)"
    using b by (cases "mp_binding m")
      (auto simp: check_remote_id_shape_def mapping_row_def binding_empty_def elim!: try_bind_InrE dest: remote_shape)
  show "bc_marker b = None \<or> bc_state b = ''creating''"
    using b by (cases "mp_binding m") (auto simp: binding_empty_def elim!: try_bind_InrE)
  show "bc_remote_id_kind b = None \<or> bc_remote_id_kind b = Some (marketplace_to_db (marketplace_of (mp_inventory m)))"
    using b ok by (cases "mp_binding m")
      (auto simp: binding_empty_def mapping_check_def held_marketplace_def remote_kind elim!: try_bind_InrE split: if_splits)
  show "bc_sever_cause b = None
     \<or> bc_sever_cause b \<in> {Some ''removed_by_marketplace'', Some ''removed_by_seller'', Some ''not_found_on_verify''}"
    using b sever_word [of "case mp_binding m of Severed _ _ c \<Rightarrow> c"]
    by (cases "mp_binding m") (auto simp: binding_empty_def elim!: try_bind_InrE)
qed

text \<open>A mapping the columns can hold writes a row every check of the table accepts.\<close>

lemma a_written_mapping_passes_the_checks:
  assumes cols: "mapping_columns std org mapping version t = Inr (row, mismatches, candidates)"
    and "mapping_check mapping = Inr ()" and "rule_ok (mp_price_rule mapping)"
  shows "broken_checks row = []"
proof -
  from cols obtain d b v l n where
    b: "binding_encode std (mp_binding mapping) = Inr b" and v: "verify_encode std (mp_binding mapping) = Inr v"
    and l: "lifecycle_encode std (mp_lifecycle mapping) = Inr l"
    and row: "row = mapping_row org mapping b v (price_rule_encode (mp_price_rule mapping)) l n d"
    by (rule mapping_columnsE)
  have pub: "publish_to_db (mp_publish mapping) \<in> {''dry_run'', ''propose'', ''publish''}"
    by (cases "mp_publish mapping") simp_all
  have cols: "mr_binding_marker row = bc_marker b" "mr_binding_state row = bc_state b"
    "mr_remote_id_kind row = bc_remote_id_kind b" "mr_sever_cause row = bc_sever_cause b"
    "mr_marketplace row = marketplace_to_db (marketplace_of (mp_inventory mapping))"
    "mr_publish_mode row = publish_to_db (mp_publish mapping)"
    by (simp_all add: row mapping_row_def)
  have whole: "check_binding_total row" "check_remote_id_shape row" "check_verify_total row" "check_verify_bound row"
    "check_lifecycle_total row" "check_price_rule_total row = Some True" "check_policies row"
    unfolding row
    by (rule binding_checked(1) [OF b assms(2)], rule binding_checked(2) [OF b assms(2)],
        rule verify_checked [OF b v, THEN conjunct1], rule verify_checked [OF b v, THEN conjunct2],
        rule lifecycle_checked [OF l], rule price_rule_checked [OF assms(3)])
      (simp add: check_policies_def mapping_row_def)
  show ?thesis
    using binding_checked(3-5) [OF b] pub assms
    by (simp add: broken_checks_def mapping_checks_def whole cols sql_holds_def)
qed

text \<open>
  The check on the price columns is not total: with no price kind at all its value is NULL, so a rule called
  explicit that names no price is stored, and refused as corrupt whenever it is read.
\<close>

lemma an_unpriced_rule_is_stored:
  assumes "mr_price_rule_kind row = ''explicit''" "mr_price_rate_micros row = None" "mr_price_rounding row = None"
    and "mr_price_explicit_kind row = None" "mr_price_explicit_minor_units row = None"
    and "mr_price_explicit_currency row = None"
  shows "sql_holds (check_price_rule_total row)"
    and "decode_price_rule std row = Inl (CorruptRow ''explicit price rule without a price kind'')"
  using assms by (simp_all add: sql_holds_def check_price_rule_total_def sql_eq_def decode_price_rule_def
      needed_def ok_or_def)

text \<open>A well-typed identifier does not always encode: the column is signed.\<close>

lemma a_large_id_has_no_column: "2 ^ 63 \<le> uint n \<Longrightarrow> \<exists>e. remote_encode (RTpt n) = Inl e"
  by (auto simp: numeric_to_db_def ok_or_def checked_signed_def in_signed_def)

end
