(* ===== verification/MappingStore.thy ===== *)
theory MappingStore
  imports MappingRows
begin

section \<open>The mapping tables (crate tam-storage, mapping.rs)\<close>

text \<open>
  The tables \<open>mapping\<close>, \<open>field_mismatch\<close> and \<open>binding_candidate\<close> as lists of rows, with the columns of
  \<open>product\<close> the statements join on, and the repository's operations on them. The constraints are those the
  migrations 0004, 0018 and 0044 declare. A statement that breaks several reports one of them, and which is the
  database's choice, a parameter. A transaction that fails leaves the tables as they were.
\<close>

subsection \<open>Tables\<close>

record ProductRow =
  pd_org_id :: "u8 list"
  pd_id :: "u8 list"
  pd_deleted_at :: "DateTime option"

record 'r ChildRow =
  ch_org_id :: "u8 list"
  ch_mapping_id :: "u8 list"
  ch_position :: int
  ch_row :: 'r

record MappingDb =
  md_products :: "ProductRow list"
  md_mappings :: "StoredMapping list"
  md_mismatches :: "MismatchRow ChildRow list"
  md_candidates :: "RemoteIdColumns ChildRow list"

type_synonym reporter = "string list \<Rightarrow> string"

subsection \<open>Constraints\<close>

text \<open>The two partial unique indexes: the claim of a bound row on a listing, by address or by number.\<close>

definition url_claim :: "StoredMapping \<Rightarrow> (u8 list \<times> string \<times> string) option" where
  "url_claim row =
     (if mr_binding_state row = ''bound''
      then map_option (\<lambda>url. (mr_org_id row, mr_inventory row, url)) (mr_remote_url row) else None)"

definition numeric_claim :: "StoredMapping \<Rightarrow> (u8 list \<times> string \<times> string \<times> i64) option" where
  "numeric_claim row =
     (case (mr_remote_id_kind row, mr_remote_numeric_id row) of
        (Some kind, Some n) \<Rightarrow>
          if mr_binding_state row = ''bound'' then Some (mr_org_id row, mr_inventory row, kind, n) else None
      | _ \<Rightarrow> None)"

text \<open>Two rows share a key of a unique index when neither is null in it and they are equal there.\<close>

definition shares :: "('a \<Rightarrow> 'k option) \<Rightarrow> 'a \<Rightarrow> 'a \<Rightarrow> bool" where
  "shares key x y \<longleftrightarrow> key x \<noteq> None \<and> key x = key y"

definition ONE_PER_INVENTORY :: string where "ONE_PER_INVENTORY = ''mapping_one_per_inventory''"

definition mapping_indexes :: "(string \<times> (StoredMapping \<Rightarrow> StoredMapping \<Rightarrow> bool)) list" where
  "mapping_indexes =
     [(''mapping_pkey'', shares (\<lambda>r. Some (mr_org_id r, mr_id r))),
      (ONE_PER_INVENTORY, shares (\<lambda>r. Some (mr_org_id r, mr_product_id r, mr_inventory r))),
      (''mapping_one_bound_url'', shares url_claim),
      (''mapping_one_bound_numeric_id'', shares numeric_claim),
      (''mapping_identity_with_marketplace'', shares (\<lambda>r. Some (mr_org_id r, mr_id r, mr_marketplace r)))]"

definition conflicts :: "StoredMapping \<Rightarrow> StoredMapping \<Rightarrow> string list" where
  "conflicts row other = map fst (filter (\<lambda>(name, same). same row other) mapping_indexes)"

definition product_of :: "MappingDb \<Rightarrow> u8 list \<Rightarrow> u8 list \<Rightarrow> ProductRow option" where
  "product_of db org product = List.find (\<lambda>p. pd_org_id p = org \<and> pd_id p = product) (md_products db)"

text \<open>The constraints a row breaks among the rows \<open>others\<close>.\<close>

definition refusals :: "MappingDb \<Rightarrow> StoredMapping list \<Rightarrow> StoredMapping \<Rightarrow> string list" where
  "refusals db others row =
     broken_checks row
   @ (if product_of db (mr_org_id row) (mr_product_id row) = None then [''mapping_org_id_product_id_fkey''] else [])
   @ concat (map (conflicts row) others)"

definition insert_row :: "reporter \<Rightarrow> MappingDb \<Rightarrow> StoredMapping \<Rightarrow> SqlxError + MappingDb" where
  "insert_row reported db row =
     (case refusals db (md_mappings db) row of
        [] \<Rightarrow> Inr (db \<lparr>md_mappings := md_mappings db @ [row]\<rparr>)
      | names \<Rightarrow> Inl (Violates (reported names)))"

definition map_bound_claim :: "SqlxError + 'a \<Rightarrow> StorageError + 'a" where
  "map_bound_claim outcome =
     (case outcome of
        Inr v \<Rightarrow> Inr v
      | Inl (Violates name) \<Rightarrow>
          if name \<in> {''mapping_one_bound_url'', ''mapping_one_bound_numeric_id''} then Inl ListingAlreadyBound
          else if name = ONE_PER_INVENTORY then Inl InventoryMappingAlreadyExists
          else Inl (Db (Violates name))
      | Inl e \<Rightarrow> Inl (Db e))"

subsection \<open>Child rows\<close>

definition of_mapping :: "u8 list \<Rightarrow> u8 list \<Rightarrow> 'r ChildRow \<Rightarrow> bool" where
  "of_mapping org mapping c \<longleftrightarrow> ch_org_id c = org \<and> ch_mapping_id c = mapping"

definition mismatch_refusals :: "MismatchRow ChildRow list \<Rightarrow> MismatchRow ChildRow \<Rightarrow> string list" where
  "mismatch_refusals rows c =
     map fst (filter (\<lambda>(name, holds). \<not> holds) (mismatch_checks (ch_row c)))
   @ concat (map (\<lambda>d.
       if of_mapping (ch_org_id c) (ch_mapping_id c) d then
         (if mm_field (ch_row d) = mm_field (ch_row c) then [''field_mismatch_pkey''] else [])
       @ (if ch_position d = ch_position c then [''field_mismatch_position''] else [])
       else []) rows)"

definition candidate_refusals :: "RemoteIdColumns ChildRow list \<Rightarrow> RemoteIdColumns ChildRow \<Rightarrow> string list" where
  "candidate_refusals rows c =
     map fst (filter (\<lambda>(name, holds). \<not> holds) (candidate_checks (ch_row c)))
   @ concat (map (\<lambda>d.
       if of_mapping (ch_org_id c) (ch_mapping_id c) d \<and> ch_position d = ch_position c
       then [''binding_candidate_pkey''] else []) rows)"

text \<open>
  A child is encoded, positioned and inserted before the next one is looked at; the first refusal ends the
  transaction.
\<close>

fun write_children ::
  "(nat \<Rightarrow> 'a \<Rightarrow> StorageError + 'r ChildRow) \<Rightarrow> ('r ChildRow list \<Rightarrow> 'r ChildRow \<Rightarrow> string list) \<Rightarrow> reporter \<Rightarrow>
     nat \<Rightarrow> 'a list \<Rightarrow> 'r ChildRow list \<Rightarrow> StorageError + 'r ChildRow list" where
  "write_children encode refused reported n [] rows = Inr rows"
| "write_children encode refused reported n (x # xs) rows =
     try_bind (encode n x) (\<lambda>c.
       case refused rows c of
         [] \<Rightarrow> write_children encode refused reported (Suc n) xs (rows @ [c])
       | names \<Rightarrow> Inl (Db (Violates (reported names))))"

definition child_row ::
  "string \<Rightarrow> ('a \<Rightarrow> StorageError + 'r) \<Rightarrow> OrgId \<Rightarrow> MappingId \<Rightarrow> nat \<Rightarrow> 'a \<Rightarrow> StorageError + 'r ChildRow" where
  "child_row what encode org mapping n x =
     try_bind (encode x) (\<lambda>row.
     try_bind (ok_or (Inconsistent (what @ '' position '' @ decimal n @ '' exceeds the column range''))
                 (checked_signed 32 (int n))) (\<lambda>position.
       Inr \<lparr>ch_org_id = org_to_db org, ch_mapping_id = mapping_to_db mapping, ch_position = position, ch_row = row\<rparr>))"

subsection \<open>Writing a mapping\<close>

definition insert_mapping ::
  "Std \<Rightarrow> reporter \<Rightarrow> OrgId \<Rightarrow> Mapping \<Rightarrow> u32 \<Rightarrow> Timestamp \<Rightarrow> MappingDb \<Rightarrow> StorageError + MappingDb" where
  "insert_mapping std reported org mapping normaliser_version t db =
     try_bind (mapping_columns std org mapping normaliser_version t) (\<lambda>(row, mismatches, candidates).
     try_bind (map_bound_claim (insert_row reported db row)) (\<lambda>db.
     try_bind (write_children (child_row ''mismatch'' mismatch_encode org (mp_id mapping)) mismatch_refusals
                 reported 0 mismatches (md_mismatches db)) (\<lambda>ms.
     try_bind (write_children (child_row ''candidate'' remote_encode org (mp_id mapping)) candidate_refusals
                 reported 0 candidates (md_candidates db)) (\<lambda>cs.
       Inr (db \<lparr>md_mismatches := ms, md_candidates := cs\<rparr>)))))"

text \<open>
  The deferred trigger \<open>mapping_mismatch_nonempty\<close> runs at the commit, over the row the transaction wrote.
\<close>

definition mismatch_nonempty :: "MappingDb \<Rightarrow> StoredMapping \<Rightarrow> bool" where
  "mismatch_nonempty db row \<longleftrightarrow>
     mr_verify_state row = ''mismatched'' \<longrightarrow>
       list_ex (of_mapping (mr_org_id row) (mr_id row)) (md_mismatches db)"

definition row_of :: "u8 list \<Rightarrow> u8 list \<Rightarrow> MappingDb \<Rightarrow> StoredMapping option" where
  "row_of org mapping db = List.find (\<lambda>r. mr_org_id r = org \<and> mr_id r = mapping) (md_mappings db)"

definition commit :: "u8 list \<Rightarrow> u8 list \<Rightarrow> MappingDb \<Rightarrow> StorageError + MappingDb" where
  "commit org mapping db =
     (if list_all (\<lambda>r. mr_org_id r = org \<and> mr_id r = mapping \<longrightarrow> mismatch_nonempty db r) (md_mappings db)
      then Inr db else Inl (Db (OtherDb ''mapping claims a mismatch it cannot name'')))"

definition repo_insert ::
  "Std \<Rightarrow> reporter \<Rightarrow> OrgId \<Rightarrow> Mapping \<Rightarrow> u32 \<Rightarrow> Timestamp \<Rightarrow> MappingDb \<Rightarrow> StorageError + MappingDb" where
  "repo_insert std reported org mapping normaliser_version t db =
     try_bind (insert_mapping std reported org mapping normaliser_version t db)
       (commit (org_to_db org) (mapping_to_db (mp_id mapping)))"

datatype MappingAdd = Added | AlreadyMapped

definition repo_add ::
  "Std \<Rightarrow> reporter \<Rightarrow> OrgId \<Rightarrow> Mapping \<Rightarrow> u32 \<Rightarrow> Timestamp \<Rightarrow> MappingDb \<Rightarrow> (StorageError + MappingAdd) \<times> MappingDb" where
  "repo_add std reported org mapping normaliser_version t db =
     (case repo_insert std reported org mapping normaliser_version t db of
        Inr db' \<Rightarrow> (Inr Added, db')
      | Inl e \<Rightarrow> (if e = InventoryMappingAlreadyExists then Inr AlreadyMapped else Inl e, db))"

subsection \<open>Binding a pasted listing\<close>

datatype PastedBind = Bound_Pasted | NotUnbound string | ListingClaimed

definition pasted_row :: "RemoteIdColumns \<Rightarrow> DateTime \<Rightarrow> StoredMapping \<Rightarrow> StoredMapping" where
  "pasted_row remote at_db row =
     row \<lparr>mr_binding_state := ''bound'', mr_remote_id_kind := Some (rc_kind remote), mr_remote_url := rc_url remote,
          mr_remote_numeric_id := rc_numeric_id remote, mr_first_seen_at := Some at_db,
          mr_verify_state := ''stale'', mr_verified_at := None, mr_verify_stale_since := Some at_db,
          mr_updated_at := at_db\<rparr>"

definition unbound_at :: "u8 list \<Rightarrow> u8 list \<Rightarrow> StoredMapping \<Rightarrow> bool" where
  "unbound_at org mapping row \<longleftrightarrow> mr_org_id row = org \<and> mr_id row = mapping \<and> mr_binding_state row = ''unbound''"

text \<open>
  The guarded update: the rows it selects, each checked against the rows it leaves. The primary key makes them
  at most one.
\<close>

definition update_pasted ::
  "reporter \<Rightarrow> u8 list \<Rightarrow> u8 list \<Rightarrow> RemoteIdColumns \<Rightarrow> DateTime \<Rightarrow> MappingDb \<Rightarrow> SqlxError + nat \<times> MappingDb" where
  "update_pasted reported org mapping remote at_db db =
     (let hit = filter (unbound_at org mapping) (md_mappings db);
          rest = filter (Not \<circ> unbound_at org mapping) (md_mappings db)
      in case concat (map (\<lambda>r. refusals db rest (pasted_row remote at_db r)) hit) of
           [] \<Rightarrow> Inr (length hit, db \<lparr>md_mappings :=
                   map (\<lambda>r. if unbound_at org mapping r then pasted_row remote at_db r else r) (md_mappings db)\<rparr>)
         | names \<Rightarrow> Inl (Violates (reported names)))"

definition bind_pasted ::
  "Std \<Rightarrow> reporter \<Rightarrow> OrgId \<Rightarrow> MappingId \<Rightarrow> RemoteListingId \<Rightarrow> Timestamp \<Rightarrow> MappingDb \<Rightarrow>
     (StorageError + PastedBind) \<times> MappingDb" where
  "bind_pasted std reported org mapping listing t db =
     (case remote_encode listing of
        Inl e \<Rightarrow> (Inl e, db)
      | Inr remote \<Rightarrow>
     (case timestamp_to_db std t of
        Inl e \<Rightarrow> (Inl e, db)
      | Inr at_db \<Rightarrow>
     (case update_pasted reported (org_to_db org) (mapping_to_db mapping) remote at_db db of
        Inl (Violates name) \<Rightarrow>
          if name \<in> {''mapping_one_bound_url'', ''mapping_one_bound_numeric_id''} then (Inr ListingClaimed, db)
          else (Inl (Db (Violates name)), db)
      | Inl e \<Rightarrow> (Inl (Db e), db)
      | Inr (rows_affected, db') \<Rightarrow>
          if 0 < rows_affected then
            (case commit (org_to_db org) (mapping_to_db mapping) db' of
               Inl e \<Rightarrow> (Inl e, db) | Inr db' \<Rightarrow> (Inr Bound_Pasted, db'))
          else
            (case row_of (org_to_db org) (mapping_to_db mapping) db of
               Some row \<Rightarrow> (Inr (NotUnbound (mr_binding_state row)), db)
             | None \<Rightarrow> (Inl (Inconsistent ''the mapping to bind does not exist''), db)))))"

subsection \<open>Reading\<close>

definition children :: "u8 list \<Rightarrow> u8 list \<Rightarrow> 'r ChildRow list \<Rightarrow> 'r list" where
  "children org mapping rows = map ch_row (sort_key ch_position (filter (of_mapping org mapping) rows))"

definition hydrate :: "Std \<Rightarrow> MappingDb \<Rightarrow> u8 list \<Rightarrow> StoredMapping \<Rightarrow> StorageError + MappingRecord" where
  "hydrate std db org row =
     decode_mapping std row (children org (mr_id row) (md_mismatches db)) (children org (mr_id row) (md_candidates db))"

definition repo_get :: "Std \<Rightarrow> OrgId \<Rightarrow> MappingId \<Rightarrow> MappingDb \<Rightarrow> StorageError + MappingRecord option" where
  "repo_get std org mapping db =
     (case row_of (org_to_db org) (mapping_to_db mapping) db of
        None \<Rightarrow> Inr None
      | Some row \<Rightarrow> try_bind (hydrate std db (org_to_db org) row) (\<lambda>r. Inr (Some r)))"

text \<open>\<open>ORDER BY\<close> a text column, the spellings compared as the database's collation does.\<close>

definition list_for_product ::
  "Std \<Rightarrow> (string \<Rightarrow> nat) \<Rightarrow> OrgId \<Rightarrow> ProductId \<Rightarrow> MappingDb \<Rightarrow> StorageError + MappingRecord list" where
  "list_for_product std rank org product db =
     collect (hydrate std db (org_to_db org))
       (sort_key (\<lambda>r. rank (mr_inventory r))
         (filter (\<lambda>r. mr_org_id r = org_to_db org \<and> mr_product_id r = product_to_db product) (md_mappings db)))"

record MappingHead =
  mh_id :: MappingId
  mh_product :: ProductId
  mh_inventory :: InventoryId
  mh_binding_state :: string
  mh_lifecycle_state :: string
  mh_updated_at :: Timestamp
  mh_remote :: "RemoteListingId option"

text \<open>The rendering of an identifier in a refusal is a parameter.\<close>

definition decode_head :: "Std \<Rightarrow> (u8 list \<Rightarrow> string) \<Rightarrow> StoredMapping \<Rightarrow> StorageError + MappingHead" where
  "decode_head std shown row =
     try_bind
       (if mr_binding_state row = ''bound'' then
          try_bind (needed (''bound mapping '' @ shown (mr_id row) @ '' carries no remote id kind'') (mr_remote_id_kind row))
            (\<lambda>kind. try_bind (remote_id_from_db std kind (mr_remote_url row) (mr_remote_numeric_id row))
               (\<lambda>r. Inr (Some r)))
        else Inr None)
       (\<lambda>remote.
     try_bind (inventory_from_db std (mr_inventory row)) (\<lambda>inventory.
       Inr \<lparr>mh_id = MappingId (uuid_from_db (mr_id row)), mh_product = ProductId (uuid_from_db (mr_product_id row)),
            mh_inventory = inventory, mh_binding_state = mr_binding_state row,
            mh_lifecycle_state = mr_lifecycle_state row,
            mh_updated_at = timestamp_from_db (mr_updated_at row), mh_remote = remote\<rparr>))"

definition repo_head :: "Std \<Rightarrow> (u8 list \<Rightarrow> string) \<Rightarrow> OrgId \<Rightarrow> MappingId \<Rightarrow> MappingDb \<Rightarrow> StorageError + MappingHead option" where
  "repo_head std shown org mapping db =
     transposed (decode_head std shown) (row_of (org_to_db org) (mapping_to_db mapping) db)"

text \<open>The orders of the identifiers and of the spellings are the database's, parameters here.\<close>

definition list_heads ::
  "Std \<Rightarrow> (u8 list \<Rightarrow> string) \<Rightarrow> (u8 list \<times> string \<Rightarrow> nat) \<Rightarrow> OrgId \<Rightarrow> MappingDb \<Rightarrow> StorageError + MappingHead list" where
  "list_heads std shown rank org db =
     collect (decode_head std shown)
       (sort_key (\<lambda>r. rank (mr_product_id r, mr_inventory r))
         (filter (\<lambda>r. mr_org_id r = org_to_db org) (md_mappings db)))"

definition heads_for_products ::
  "Std \<Rightarrow> (u8 list \<Rightarrow> string) \<Rightarrow> (u8 list \<Rightarrow> nat) \<Rightarrow> OrgId \<Rightarrow> InventoryId \<Rightarrow> ProductId list \<Rightarrow> MappingDb \<Rightarrow>
     StorageError + MappingHead list" where
  "heads_for_products std shown rank org inventory products db =
     collect (decode_head std shown)
       (sort_key (\<lambda>r. rank (mr_product_id r))
         (filter (\<lambda>r. mr_org_id r = org_to_db org \<and> mr_inventory r = inventory_to_db inventory
                    \<and> mr_product_id r \<in> set (map product_to_db products)) (md_mappings db)))"

record BoundListing =
  bl_mapping :: MappingId
  bl_remote :: RemoteListingId

definition bound_listings ::
  "Std \<Rightarrow> (u8 list \<Rightarrow> string) \<Rightarrow> (u8 list \<Rightarrow> nat) \<Rightarrow> OrgId \<Rightarrow> InventoryId \<Rightarrow> MappingDb \<Rightarrow> StorageError + BoundListing list"
  where
  "bound_listings std shown rank org inventory db =
     collect (\<lambda>row.
         try_bind (needed (''bound mapping '' @ shown (mr_id row) @ '' carries no remote id kind'') (mr_remote_id_kind row))
           (\<lambda>kind. try_bind (remote_id_from_db std kind (mr_remote_url row) (mr_remote_numeric_id row)) (\<lambda>r.
              Inr \<lparr>bl_mapping = MappingId (uuid_from_db (mr_id row)), bl_remote = r\<rparr>)))
       (sort_key (\<lambda>r. rank (mr_id r))
         (filter (\<lambda>r. mr_org_id r = org_to_db org \<and> mr_inventory r = inventory_to_db inventory
                    \<and> mr_binding_state r = ''bound'') (md_mappings db)))"

subsection \<open>Claims\<close>

record BoundClaim =
  bcl_product :: ProductId
  bcl_live :: bool

definition names_listing :: "u8 list \<Rightarrow> string \<Rightarrow> RemoteIdColumns \<Rightarrow> StoredMapping \<Rightarrow> bool" where
  "names_listing org inventory columns row \<longleftrightarrow>
     mr_org_id row = org \<and> mr_inventory row = inventory \<and> mr_binding_state row = ''bound''
   \<and> mr_remote_id_kind row = Some (rc_kind columns)
   \<and> (mr_remote_url row = rc_url columns \<and> rc_url columns \<noteq> None
      \<or> mr_remote_numeric_id row = rc_numeric_id columns \<and> rc_numeric_id columns \<noteq> None)"

text \<open>\<open>ORDER BY p.deleted_at NULLS FIRST\<close>: the live first, then the tombstoned by the instant.\<close>

definition nulls_first :: "(u8 list \<times> DateTime option) list \<Rightarrow> (u8 list \<times> DateTime option) list" where
  "nulls_first rows =
     filter (\<lambda>r. snd r = None) rows @ sort_key (\<lambda>r. dt_nanos (the (snd r))) (filter (\<lambda>r. snd r \<noteq> None) rows)"

definition claim_rows :: "OrgId \<Rightarrow> InventoryId \<Rightarrow> RemoteIdColumns \<Rightarrow> MappingDb \<Rightarrow> (u8 list \<times> DateTime option) list" where
  "claim_rows org inventory columns db =
     List.map_filter (\<lambda>row.
         map_option (\<lambda>p. (mr_product_id row, pd_deleted_at p)) (product_of db (mr_org_id row) (mr_product_id row)))
       (filter (names_listing (org_to_db org) (inventory_to_db inventory) columns) (md_mappings db))"

definition claimed_product_for ::
  "OrgId \<Rightarrow> InventoryId \<Rightarrow> RemoteListingId \<Rightarrow> MappingDb \<Rightarrow> StorageError + BoundClaim option" where
  "claimed_product_for org inventory remote db =
     try_bind (remote_encode remote) (\<lambda>columns.
       Inr (case nulls_first (claim_rows org inventory columns db) of
              [] \<Rightarrow> None
            | (product, deleted_at) # _ \<Rightarrow>
                Some \<lparr>bcl_product = ProductId (uuid_from_db product), bcl_live = (deleted_at = None)\<rparr>))"

definition bound_product_for ::
  "OrgId \<Rightarrow> InventoryId \<Rightarrow> RemoteListingId \<Rightarrow> MappingDb \<Rightarrow> StorageError + ProductId option" where
  "bound_product_for org inventory remote db =
     try_bind (claimed_product_for org inventory remote db) (\<lambda>claim.
       Inr (case claim of None \<Rightarrow> None | Some c \<Rightarrow> if bcl_live c then Some (bcl_product c) else None))"

fun bound_remote :: "Binding \<Rightarrow> RemoteListingId option" where
  "bound_remote (Bound remote_id _ _) = Some remote_id"
| "bound_remote _ = None"

definition bind_listing ::
  "Std \<Rightarrow> reporter \<Rightarrow> OrgId \<Rightarrow> Mapping \<Rightarrow> u32 \<Rightarrow> Timestamp \<Rightarrow> MappingDb \<Rightarrow> StorageError + ProductId \<times> MappingDb" where
  "bind_listing std reported org mapping normaliser_version t db =
     try_bind
       (case bound_remote (mp_binding mapping) of
          None \<Rightarrow> Inr None
        | Some remote \<Rightarrow> bound_product_for org (mp_inventory mapping) remote db) (\<lambda>held.
     case held of
       Some product \<Rightarrow> Inr (product, db)
     | None \<Rightarrow>
         try_bind (insert_mapping std reported org mapping normaliser_version t db) (\<lambda>db'.
           Inr (mp_product mapping, db')))"

end
