(* ===== verification/MappingSafety.thy ===== *)
theory MappingSafety
  imports MappingStore
begin

section \<open>What the mapping tables keep (crate tam-storage, mapping.rs)\<close>

text \<open>
  The invariant of the tables, kept by every operation, and what follows of the claims on listings, the pasted
  binding and the round trip of a whole mapping.
\<close>

subsection \<open>The tables' invariant\<close>

definition row_ok :: "MappingDb \<Rightarrow> StoredMapping \<Rightarrow> bool" where
  "row_ok db r \<longleftrightarrow> broken_checks r = [] \<and> product_of db (mr_org_id r) (mr_product_id r) \<noteq> None"

definition mapping_key :: "StoredMapping \<Rightarrow> u8 list \<times> u8 list" where
  "mapping_key r = (mr_org_id r, mr_id r)"

definition has_parent :: "MappingDb \<Rightarrow> 'r ChildRow \<Rightarrow> bool" where
  "has_parent db c \<longleftrightarrow> (ch_org_id c, ch_mapping_id c) \<in> set (map mapping_key (md_mappings db))"

definition db_ok :: "MappingDb \<Rightarrow> bool" where
  "db_ok db \<longleftrightarrow>
     sorted_wrt (\<lambda>r s. conflicts r s = []) (md_mappings db)
   \<and> (\<forall>r \<in> set (md_mappings db). row_ok db r)
   \<and> (\<forall>c \<in> set (md_mismatches db). has_parent db c) \<and> (\<forall>c \<in> set (md_candidates db). has_parent db c)"

lemma shares_sym: "shares key x y = shares key y x"
  unfolding shares_def by metis

lemma shares_total [simp]: "shares (\<lambda>r. Some (f r)) x y \<longleftrightarrow> f x = f y"
  by (simp add: shares_def)

lemma conflicts_Nil: "conflicts r s = [] \<longleftrightarrow>
    \<not> (mr_org_id r = mr_org_id s \<and> mr_id r = mr_id s)
  \<and> \<not> (mr_org_id r = mr_org_id s \<and> mr_product_id r = mr_product_id s \<and> mr_inventory r = mr_inventory s)
  \<and> \<not> shares url_claim r s \<and> \<not> shares numeric_claim r s"
  by (simp add: conflicts_def mapping_indexes_def)

lemma conflicts_sym: "conflicts r s = [] \<longleftrightarrow> conflicts s r = []"
  unfolding conflicts_Nil by (metis shares_sym)

lemma refusals_Nil: "refusals db others row = [] \<longleftrightarrow>
    row_ok db row \<and> (\<forall>s \<in> set others. conflicts row s = [])"
  by (auto simp: refusals_def row_ok_def)

lemma sorted_wrt_conflict:
  "sorted_wrt (\<lambda>r s. conflicts r s = []) rs \<Longrightarrow> r \<in> set rs \<Longrightarrow> s \<in> set rs \<Longrightarrow> r = s \<or> conflicts r s = []"
  by (induction rs) (auto simp: conflicts_sym)

lemma db_ok_conflict: "db_ok db \<Longrightarrow> r \<in> set (md_mappings db) \<Longrightarrow> s \<in> set (md_mappings db) \<Longrightarrow> r = s \<or> conflicts r s = []"
  by (rule sorted_wrt_conflict) (simp_all add: db_ok_def)

lemma insert_row_Inr: "insert_row reported db row = Inr db' \<longleftrightarrow>
    db' = db \<lparr>md_mappings := md_mappings db @ [row]\<rparr> \<and> refusals db (md_mappings db) row = []"
  by (auto simp: insert_row_def split: list.splits)

lemma map_bound_claim_Inr [simp]: "map_bound_claim r = Inr v \<longleftrightarrow> r = Inr v"
  by (auto simp: map_bound_claim_def split: sum.splits SqlxError.splits)

lemma written_children:
  assumes "write_children (child_row what encode org mapping) refused reported n xs rows = Inr rows'"
  shows "\<exists>new. rows' = rows @ new \<and> list_all (of_mapping (org_to_db org) (mapping_to_db mapping)) new
           \<and> collect encode xs = Inr (map ch_row new) \<and> map ch_position new = map int [n..<n + length xs]"
  using assms
proof (induction xs arbitrary: n rows)
  case (Cons x xs)
  from Cons.prems obtain c where c: "child_row what encode org mapping n x = Inr c"
    and rest: "write_children (child_row what encode org mapping) refused reported (Suc n) xs (rows @ [c]) = Inr rows'"
    by (auto elim!: try_bind_InrE split: list.splits)
  from Cons.IH [OF rest] obtain new where new: "rows' = rows @ c # new"
    "list_all (of_mapping (org_to_db org) (mapping_to_db mapping)) new" "collect encode xs = Inr (map ch_row new)"
    "map ch_position new = map int [Suc n..<Suc n + length xs]"
    by auto
  from c have "encode x = Inr (ch_row c)" "of_mapping (org_to_db org) (mapping_to_db mapping) c" "ch_position c = int n"
    by (auto simp: child_row_def of_mapping_def elim!: try_bind_InrE)
  with new show ?case
    by (intro exI [of _ "c # new"]) (simp add: upt_conv_Cons del: upt_Suc)
qed simp

lemma insert_mappingE:
  assumes "insert_mapping std reported org mapping version t db = Inr db'"
  obtains row ms cs new_ms new_cs where
    "mapping_columns std org mapping version t = Inr (row, ms, cs)" "refusals db (md_mappings db) row = []"
    "db' = db \<lparr>md_mappings := md_mappings db @ [row], md_mismatches := md_mismatches db @ new_ms,
               md_candidates := md_candidates db @ new_cs\<rparr>"
    "list_all (of_mapping (org_to_db org) (mapping_to_db (mp_id mapping))) new_ms"
    "list_all (of_mapping (org_to_db org) (mapping_to_db (mp_id mapping))) new_cs"
    "collect mismatch_encode ms = Inr (map ch_row new_ms)" "collect remote_encode cs = Inr (map ch_row new_cs)"
    "map ch_position new_ms = map int [0..<length ms]" "map ch_position new_cs = map int [0..<length cs]"
  using assms
  by (auto simp: insert_mapping_def insert_row_Inr elim!: try_bind_InrE dest!: written_children)

lemma row_keys:
  assumes "mapping_columns std org mapping version t = Inr (row, ms, cs)"
  shows "mr_org_id row = org_to_db org" "mr_id row = mapping_to_db (mp_id mapping)"
    "mr_product_id row = product_to_db (mp_product mapping)"
    "mr_inventory row = inventory_to_db (mp_inventory mapping)"
  using assms by (auto simp: mapping_row_def elim!: mapping_columnsE)

lemma product_of_mappings [simp]: "product_of (db \<lparr>md_mappings := m\<rparr>) = product_of db"
  "product_of (db \<lparr>md_mismatches := ms\<rparr>) = product_of db" "product_of (db \<lparr>md_candidates := cs\<rparr>) = product_of db"
  by (simp_all add: product_of_def fun_eq_iff)

lemma inserted_ok:
  assumes "db_ok db" and "insert_mapping std reported org mapping version t db = Inr db'"
  shows "db_ok db'"
  using assms(2)
proof (rule insert_mappingE)
  fix row ms cs new_ms new_cs
  assume cols: "mapping_columns std org mapping version t = Inr (row, ms, cs)"
    and ok: "refusals db (md_mappings db) row = []"
    and db': "db' = db \<lparr>md_mappings := md_mappings db @ [row], md_mismatches := md_mismatches db @ new_ms,
               md_candidates := md_candidates db @ new_cs\<rparr>"
    and new: "list_all (of_mapping (org_to_db org) (mapping_to_db (mp_id mapping))) new_ms"
      "list_all (of_mapping (org_to_db org) (mapping_to_db (mp_id mapping))) new_cs"
  show ?thesis
    using assms(1) ok new row_keys [OF cols] conflicts_sym
    by (auto simp: db_ok_def db' refusals_Nil row_ok_def sorted_wrt_append has_parent_def mapping_key_def list_all_iff of_mapping_def)
qed

lemma committed [simp]: "commit org mapping db = Inr db' \<Longrightarrow> db' = db"
  by (auto simp: commit_def split: if_splits)

lemma update_pastedE:
  assumes "update_pasted reported org mapping remote d db = Inr (n, db')"
  shows "n = length (filter (unbound_at org mapping) (md_mappings db))"
    "db' = db \<lparr>md_mappings := map (\<lambda>r. if unbound_at org mapping r then pasted_row remote d r else r) (md_mappings db)\<rparr>"
    "\<And>r s. r \<in> set (md_mappings db) \<Longrightarrow> unbound_at org mapping r \<Longrightarrow> row_ok db (pasted_row remote d r)"
    "\<And>r s. r \<in> set (md_mappings db) \<Longrightarrow> unbound_at org mapping r \<Longrightarrow> s \<in> set (md_mappings db) \<Longrightarrow>
        \<not> unbound_at org mapping s \<Longrightarrow> conflicts (pasted_row remote d r) s = []"
  using assms by (auto simp: update_pasted_def Let_def refusals_Nil split: list.splits)

lemma sorted_wrt_map_pasted:
  assumes "sorted_wrt (\<lambda>r s. conflicts r s = []) rs"
    and "\<And>r s. r \<in> set rs \<Longrightarrow> P r \<Longrightarrow> s \<in> set rs \<Longrightarrow> \<not> P s \<Longrightarrow> conflicts (f r) s = []"
    and "\<And>r s. r \<in> set rs \<Longrightarrow> s \<in> set rs \<Longrightarrow> P r \<Longrightarrow> P s \<Longrightarrow> conflicts r s \<noteq> []"
  shows "sorted_wrt (\<lambda>r s. conflicts r s = []) (map (\<lambda>r. if P r then f r else r) rs)"
  using assms by (induction rs) (auto simp: conflicts_sym)

lemma pasted_keys [simp]: "mr_org_id (pasted_row remote d r) = mr_org_id r" "mr_id (pasted_row remote d r) = mr_id r"
  "mapping_key (pasted_row remote d r) = mapping_key r"
  by (simp_all add: pasted_row_def mapping_key_def)

lemma has_parent_pasted:
  "update_pasted reported org mapping remote d db = Inr (n, db') \<Longrightarrow> has_parent db' c = has_parent db c"
  by (drule update_pastedE(2)) (simp add: has_parent_def o_def if_distrib cong: if_cong)

lemma pasted_ok:
  assumes ok: "db_ok db" and up: "update_pasted reported org mapping remote d db = Inr (n, db')"
  shows "db_ok db'"
proof -
  have rows: "md_mappings db' =
      map (\<lambda>r. if unbound_at org mapping r then pasted_row remote d r else r) (md_mappings db)"
    and rest: "md_mismatches db' = md_mismatches db" "md_candidates db' = md_candidates db"
    by (simp_all add: update_pastedE(2) [OF up])
  have "sorted_wrt (\<lambda>r s. conflicts r s = []) (md_mappings db')"
    unfolding rows
    by (rule sorted_wrt_map_pasted)
      (use ok update_pastedE(4) [OF up] in \<open>auto simp: db_ok_def conflicts_Nil unbound_at_def\<close>)
  moreover have "\<forall>r \<in> set (md_mappings db'). row_ok db' r"
    using ok update_pastedE(3) [OF up] by (auto simp: update_pastedE(2) [OF up] db_ok_def row_ok_def)
  ultimately show ?thesis using ok by (simp add: db_ok_def rest has_parent_pasted [OF up])
qed

lemma bind_pasted_ok: "db_ok db \<Longrightarrow> db_ok (snd (bind_pasted std reported org mapping listing t db))"
  by (auto simp: bind_pasted_def pasted_ok split: sum.splits SqlxError.splits option.splits dest: committed)


lemma repo_insertE:
  "repo_insert std reported org mapping version t db = Inr db' \<Longrightarrow>
     insert_mapping std reported org mapping version t db = Inr db'"
  by (auto simp: repo_insert_def elim!: try_bind_InrE dest: committed)

lemma bound_listing_ok: "db_ok db \<Longrightarrow> bind_listing std reported org mapping version t db = Inr (p, db') \<Longrightarrow> db_ok db'"
  by (auto simp: bind_listing_def inserted_ok elim!: try_bind_InrE split: option.splits)

subsection \<open>Histories of the tables\<close>

text \<open>
  The tables change by the repository's operations, and the products by what the catalogue does with them: a
  product enters under a fresh key, and a deletion leaves its row with a tombstone.
\<close>

definition no_rows :: MappingDb where
  "no_rows = \<lparr>md_products = [], md_mappings = [], md_mismatches = [], md_candidates = []\<rparr>"

definition tombstoned :: "u8 list \<Rightarrow> u8 list \<Rightarrow> DateTime \<Rightarrow> MappingDb \<Rightarrow> MappingDb" where
  "tombstoned org product d db =
     db \<lparr>md_products := map (\<lambda>p. if pd_org_id p = org \<and> pd_id p = product then p \<lparr>pd_deleted_at := Some d\<rparr> else p)
           (md_products db)\<rparr>"

inductive mapping_history :: "Std \<Rightarrow> reporter \<Rightarrow> MappingDb \<Rightarrow> bool" for std reported where
  H_empty: "mapping_history std reported no_rows"
| H_insert: "mapping_history std reported db \<Longrightarrow> repo_insert std reported org mapping version t db = Inr db' \<Longrightarrow>
    mapping_history std reported db'"
| H_add: "mapping_history std reported db \<Longrightarrow>
    mapping_history std reported (snd (repo_add std reported org mapping version t db))"
| H_paste: "mapping_history std reported db \<Longrightarrow>
    mapping_history std reported (snd (bind_pasted std reported org mapping_id listing t db))"
| H_bind: "mapping_history std reported db \<Longrightarrow> bind_listing std reported org mapping version t db = Inr (p, db') \<Longrightarrow>
    mapping_history std reported db'"
| H_product: "mapping_history std reported db \<Longrightarrow> product_of db (pd_org_id row) (pd_id row) = None \<Longrightarrow>
    mapping_history std reported (db \<lparr>md_products := md_products db @ [row]\<rparr>)"
| H_tombstone: "mapping_history std reported db \<Longrightarrow> mapping_history std reported (tombstoned org product d db)"

lemma find_append_Some: "List.find P xs = Some x \<Longrightarrow> List.find P (xs @ ys) = Some x"
  by (induction xs) auto

lemma find_map_same: "(\<And>x. P (f x) = P x) \<Longrightarrow> List.find P (map f xs) = map_option f (List.find P xs)"
  by (induction xs) auto

lemma more_products_ok:
  assumes "db_ok db" and "\<And>og p. product_of db og p \<noteq> None \<Longrightarrow> product_of (db \<lparr>md_products := ps\<rparr>) og p \<noteq> None"
  shows "db_ok (db \<lparr>md_products := ps\<rparr>)"
  using assms by (auto simp: db_ok_def row_ok_def has_parent_def)

lemma history_ok: "mapping_history std reported db \<Longrightarrow> db_ok db"
proof (induction rule: mapping_history.induct)
  case H_empty
  show ?case by (simp add: db_ok_def no_rows_def)
next
  case (H_insert db org mapping version t db')
  then show ?case by (simp add: inserted_ok [OF _ repo_insertE])
next
  case (H_add db org mapping version t)
  then show ?case
    by (cases "repo_insert std reported org mapping version t db")
      (simp_all add: repo_add_def inserted_ok [OF _ repo_insertE])
next
  case (H_bind db org mapping version t p db')
  from bound_listing_ok [OF H_bind.IH H_bind.hyps(2)] show ?case .
next
  case (H_product db row)
  then show ?case by (intro more_products_ok) (auto simp: product_of_def dest: find_append_Some)
next
  case (H_tombstone db org product d)
  then show ?case
    unfolding tombstoned_def
    by (intro more_products_ok) (auto simp: product_of_def find_map_same)
qed (simp_all add: bind_pasted_ok)

lemma checked: "broken_checks r = [] \<Longrightarrow> check_binding_total r \<and> check_remote_id_shape r"
  by (auto simp: broken_checks_def mapping_checks_def split: if_splits)

lemma bound_named:
  assumes "broken_checks r = []" "mr_binding_state r = ''bound''"
  shows "url_claim r \<noteq> None \<or> numeric_claim r \<noteq> None"
  using checked [OF assms(1)] assms(2)
  by (auto simp: check_binding_total_def check_remote_id_shape_def url_claim_def numeric_claim_def)



lemma find_snoc: "(\<forall>x \<in> set xs. \<not> P x) \<Longrightarrow> P y \<Longrightarrow> List.find P (xs @ [y]) = Some y"
  by (induction xs) auto

lemma children_app:
  assumes "\<forall>c \<in> set old. \<not> of_mapping org mapping c" and "list_all (of_mapping org mapping) new"
    and "map ch_position new = map int [0..<k]"
  shows "children org mapping (old @ new) = map ch_row new"
proof -
  have "filter (of_mapping org mapping) (old @ new) = new"
    using assms(1,2) by (simp add: list_all_iff)
  moreover have "sorted (map ch_position new)"
    unfolding assms(3) by (simp add: sorted_iff_nth_mono)
  ultimately show ?thesis by (simp add: children_def sorted_sort_id sort_key_id_if_sorted)
qed

lemma fresh_children:
  assumes "\<forall>c \<in> set cs. has_parent db c" and "\<forall>s \<in> set (md_mappings db). conflicts row s = []"
  shows "\<forall>c \<in> set cs. \<not> of_mapping (mr_org_id row) (mr_id row) c"
proof
  fix c assume "c \<in> set cs"
  with assms(1) obtain s where "s \<in> set (md_mappings db)" "ch_org_id c = mr_org_id s" "ch_mapping_id c = mr_id s"
    by (auto simp: has_parent_def mapping_key_def)
  with assms(2) show "\<not> of_mapping (mr_org_id row) (mr_id row) c"
    by (auto simp: of_mapping_def conflicts_Nil)
qed

text \<open>
  C25. A mapping that went in is read back whole: the binding with its verification, the mismatches in their
  order, the candidates of an ambiguous create, the price rule, the policies and the lifecycle.
\<close>

theorem an_inserted_mapping_is_read_back:
  assumes "mapping_history std reported db" and "rule_ok (mp_price_rule mapping)"
    and "repo_insert std reported org mapping version t db = Inr db'"
  shows "repo_get std org (mp_id mapping) db' =
    Inr (Some \<lparr>mrec_mapping = mapping, mrec_normaliser_version = version, mrec_created_at = t, mrec_updated_at = t\<rparr>)"
  using repo_insertE [OF assms(3)]
proof (rule insert_mappingE)
  fix row ms cs new_ms new_cs
  assume cols: "mapping_columns std org mapping version t = Inr (row, ms, cs)"
    and fit: "refusals db (md_mappings db) row = []"
    and db': "db' = db \<lparr>md_mappings := md_mappings db @ [row], md_mismatches := md_mismatches db @ new_ms,
               md_candidates := md_candidates db @ new_cs\<rparr>"
    and new: "list_all (of_mapping (org_to_db org) (mapping_to_db (mp_id mapping))) new_ms"
      "list_all (of_mapping (org_to_db org) (mapping_to_db (mp_id mapping))) new_cs"
    and rows: "collect mismatch_encode ms = Inr (map ch_row new_ms)" "collect remote_encode cs = Inr (map ch_row new_cs)"
    and at_pos: "map ch_position new_ms = map int [0..<length ms]" "map ch_position new_cs = map int [0..<length cs]"
  note keys = row_keys [OF cols]
  have ok: "db_ok db" using assms(1) by (rule history_ok)
  have free: "\<forall>s \<in> set (md_mappings db). conflicts row s = []" using fit by (simp add: refusals_Nil)
  then have "row_of (org_to_db org) (mapping_to_db (mp_id mapping)) db' = Some row"
    unfolding row_of_def db' using keys by (auto simp: conflicts_Nil intro!: find_snoc)
  moreover have "\<forall>c \<in> set (md_mismatches db). \<not> of_mapping (mr_org_id row) (mr_id row) c"
    by (rule fresh_children [OF _ free]) (use ok in \<open>simp add: db_ok_def\<close>)
  moreover have "\<forall>c \<in> set (md_candidates db). \<not> of_mapping (mr_org_id row) (mr_id row) c"
    by (rule fresh_children [OF _ free]) (use ok in \<open>simp add: db_ok_def\<close>)
  ultimately show ?thesis
    using mapping_back [OF cols rows assms(2)] new at_pos
    by (simp add: repo_get_def hydrate_def keys db' children_app [where k = "length ms"] children_app [where k = "length cs"])
qed


subsection \<open>Who holds a listing\<close>

lemma remote_columns_inj: "remote_encode r = Inr c \<Longrightarrow> remote_encode s = Inr c \<Longrightarrow> r = s"
  by (rule remote_ids.encode_inj) simp_all

lemma named_conflict:
  assumes "remote_encode remote = Inr columns"
    and "names_listing org inventory columns r" "names_listing org inventory columns s"
  shows "conflicts r s \<noteq> []"
  using assms remote_shape [OF assms(1)]
  by (auto simp: names_listing_def conflicts_Nil shares_def url_claim_def numeric_claim_def)

text \<open>
  Binding a listing answers who holds it: the product named, asked for afterwards, is the live product bound
  to that listing, whether this call bound it or found it bound.
\<close>

theorem a_bound_listing_names_its_holder:
  assumes "mp_binding mapping = Bound remote seen verified"
    and "bind_listing std reported org mapping version t db = Inr (holder, db')"
    and "\<And>p. product_of db (org_to_db org) (product_to_db (mp_product mapping)) = Some p \<Longrightarrow> pd_deleted_at p = None"
  shows "bound_product_for org (mp_inventory mapping) remote db' = Inr (Some holder)"
proof -
  from assms(1,2) obtain held where held: "bound_product_for org (mp_inventory mapping) remote db = Inr held"
    and rest: "case held of Some product \<Rightarrow> holder = product \<and> db' = db
      | None \<Rightarrow> holder = mp_product mapping \<and> insert_mapping std reported org mapping version t db = Inr db'"
    by (auto simp: bind_listing_def elim!: try_bind_InrE split: option.splits)
  show ?thesis
  proof (cases held)
    case None
    with rest have holder: "holder = mp_product mapping" and
      ins: "insert_mapping std reported org mapping version t db = Inr db'" by simp_all
    from ins show ?thesis
    proof (rule insert_mappingE)
      fix row ms cs new_ms new_cs
      assume cols: "mapping_columns std org mapping version t = Inr (row, ms, cs)"
        and fit: "refusals db (md_mappings db) row = []"
        and db': "db' = db \<lparr>md_mappings := md_mappings db @ [row], md_mismatches := md_mismatches db @ new_ms,
               md_candidates := md_candidates db @ new_cs\<rparr>"
      note keys = row_keys [OF cols]
      from cols assms(1) obtain columns where c: "remote_encode remote = Inr columns"
        and row: "mr_binding_state row = ''bound''" "mr_remote_id_kind row = Some (rc_kind columns)"
          "mr_remote_url row = rc_url columns" "mr_remote_numeric_id row = rc_numeric_id columns"
        by (auto simp: mapping_row_def binding_empty_def elim!: mapping_columnsE try_bind_InrE)
      let ?named = "names_listing (org_to_db org) (inventory_to_db (mp_inventory mapping)) columns"
      have named: "?named row"
        using row remote_shape [OF c] by (auto simp: names_listing_def keys)
      moreover have "\<not> ?named s" if "s \<in> set (md_mappings db)" for s
        using fit that named_conflict [OF c named] by (auto simp: refusals_Nil)
      ultimately have one: "filter ?named (md_mappings db') = [row]"
        by (simp add: db')
      from fit obtain p where p: "product_of db (org_to_db org) (product_to_db (mp_product mapping)) = Some p"
        by (auto simp: refusals_Nil row_ok_def keys)
      with assms(3) have "pd_deleted_at p = None" by blast
      with p one show ?thesis
        by (simp add: bound_product_for_def claimed_product_for_def c claim_rows_def keys holder db' nulls_first_def
            map_filter_simps)
    qed
  qed (use rest held in simp)
qed

lemma pasted_columns [simp]:
  "mr_binding_state (pasted_row columns d r) = ''bound''" "mr_inventory (pasted_row columns d r) = mr_inventory r"
  "mr_product_id (pasted_row columns d r) = mr_product_id r"
  "mr_remote_id_kind (pasted_row columns d r) = Some (rc_kind columns)"
  "mr_remote_url (pasted_row columns d r) = rc_url columns"
  "mr_remote_numeric_id (pasted_row columns d r) = rc_numeric_id columns"
  by (simp_all add: pasted_row_def)

lemma broken_names: "set (broken_checks r) \<inter> {''mapping_one_bound_url'', ''mapping_one_bound_numeric_id''} = {}"
proof -
  have "set (broken_checks r) \<subseteq> set (map fst (mapping_checks r))"
    unfolding broken_checks_def by auto
  moreover have "set (map fst (mapping_checks r)) \<inter> {''mapping_one_bound_url'', ''mapping_one_bound_numeric_id''} = {}"
    by (simp add: mapping_checks_def)
  ultimately show ?thesis by blast
qed

lemma in_conflicts: "name \<in> set (conflicts r s) \<longleftrightarrow> (\<exists>same. (name, same) \<in> set mapping_indexes \<and> same r s)"
  by (force simp: conflicts_def)

lemma url_is_tes: "broken_checks r = [] \<Longrightarrow> mr_binding_state r = ''bound'' \<Longrightarrow> mr_remote_url r \<noteq> None \<Longrightarrow>
    mr_remote_id_kind r = Some ''tes''"
  by (drule checked) (auto simp: check_binding_total_def check_remote_id_shape_def)

lemma shared_claim_names:
  assumes c: "remote_encode listing = Inr columns" and s: "broken_checks s = []"
    and claim: "shares url_claim (pasted_row columns d r) s \<or> shares numeric_claim (pasted_row columns d r) s"
  shows "names_listing (mr_org_id r) (mr_inventory r) columns s"
  using claim
proof
  assume "shares url_claim (pasted_row columns d r) s"
  then have "mr_binding_state s = ''bound''" "mr_org_id s = mr_org_id r" "mr_inventory s = mr_inventory r"
    "mr_remote_url s = rc_url columns" "rc_url columns \<noteq> None"
    by (cases "rc_url columns"; cases "mr_remote_url s"; auto simp: shares_def url_claim_def split: if_splits)+
  with url_is_tes [OF s] remote_shape [OF c] show ?thesis by (auto simp: names_listing_def)
next
  assume "shares numeric_claim (pasted_row columns d r) s"
  then show ?thesis
    by (cases "rc_numeric_id columns"; cases "mr_remote_numeric_id s"; cases "mr_remote_id_kind s")
      (auto simp: shares_def numeric_claim_def names_listing_def split: if_splits)
qed

lemma claimed_by:
  assumes "name \<in> set (refusals db rest (pasted_row columns d r))"
    and "name \<in> {''mapping_one_bound_url'', ''mapping_one_bound_numeric_id''}"
    and c: "remote_encode listing = Inr columns" and sound: "\<forall>s \<in> set rest. broken_checks s = []"
  shows "\<exists>s \<in> set rest. names_listing (mr_org_id r) (mr_inventory r) columns s"
proof -
  from assms(1,2) broken_names have "\<exists>s \<in> set rest. name \<in> set (conflicts (pasted_row columns d r) s)"
    by (auto simp: refusals_def split: if_splits)
  then obtain s where s: "s \<in> set rest" "name \<in> set (conflicts (pasted_row columns d r) s)" by blast
  with assms(2) have "shares url_claim (pasted_row columns d r) s \<or> shares numeric_claim (pasted_row columns d r) s"
    unfolding in_conflicts by (auto simp: mapping_indexes_def ONE_PER_INVENTORY_def)
  with s shared_claim_names [OF c] sound show ?thesis by blast
qed

lemma pasted_decodes:
  assumes "remote_encode listing = Inr columns" "timestamp_to_db std t = Inr d"
  shows "decode_binding std (pasted_row columns d r) ms cs = Inr (Bound listing t (V_Stale t))"
  using assms by (simp add: decode_binding_def decode_verification_def pasted_row_def)

lemma unbound_once:
  assumes "db_ok db" "md_mappings db = before @ r # after" "unbound_at org mapping r" "s \<in> set before \<union> set after"
  shows "\<not> unbound_at org mapping s"
  using assms by (auto simp: db_ok_def sorted_wrt_append unbound_at_def conflicts_Nil)

lemma map_if_not: "(\<And>x. x \<in> set xs \<Longrightarrow> \<not> P x) \<Longrightarrow> map (\<lambda>x. if P x then f x else x) xs = xs"
  by (induction xs) auto

lemma pasted_bound:
  assumes ok: "db_ok db" and up: "update_pasted reported org mapping columns d db = Inr (n, db')" and n: "0 < n"
  shows "\<exists>before row after. md_mappings db = before @ row # after \<and> unbound_at org mapping row
    \<and> db' = db \<lparr>md_mappings := before @ pasted_row columns d row # after\<rparr>"
proof -
  from n update_pastedE(1) [OF up] obtain row where row: "row \<in> set (md_mappings db)" "unbound_at org mapping row"
    by (auto simp: filter_empty_conv)
  then obtain before after where split: "md_mappings db = before @ row # after" by (auto dest: split_list)
  have "\<not> unbound_at org mapping s" if "s \<in> set before \<union> set after" for s
    by (rule unbound_once [OF ok split row(2) that])
  then have "map (\<lambda>r. if unbound_at org mapping r then pasted_row columns d r else r) (md_mappings db) =
      before @ pasted_row columns d row # after"
    by (simp add: split row map_if_not)
  with split row update_pastedE(2) [OF up] show ?thesis by metis
qed

lemma pasted_claimed:
  assumes ok: "db_ok db" and up: "update_pasted reported org mapping columns d db = Inl (Violates name)"
    and reported: "\<And>names. names \<noteq> [] \<Longrightarrow> reported names \<in> set names"
    and name: "name \<in> {''mapping_one_bound_url'', ''mapping_one_bound_numeric_id''}"
    and c: "remote_encode listing = Inr columns"
  shows "\<exists>row \<in> set (md_mappings db). mapping_key row \<noteq> (org, mapping) \<and> names_listing org (mr_inventory row) columns row"
proof -
  let ?rest = "filter (Not \<circ> unbound_at org mapping) (md_mappings db)"
  let ?names = "concat (map (\<lambda>r. refusals db ?rest (pasted_row columns d r)) (filter (unbound_at org mapping) (md_mappings db)))"
  from up have "?names \<noteq> [] \<and> name = reported ?names"
    unfolding update_pasted_def Let_def by (cases ?names) auto
  with reported have "name \<in> set ?names" by blast
  then obtain r where r: "r \<in> set (md_mappings db)" "unbound_at org mapping r"
    "name \<in> set (refusals db ?rest (pasted_row columns d r))" by auto
  have "\<forall>s \<in> set ?rest. broken_checks s = []" using ok by (auto simp: db_ok_def row_ok_def)
  from claimed_by [OF r(3) name c this] obtain s where s: "s \<in> set (md_mappings db)" "\<not> unbound_at org mapping s"
    "names_listing (mr_org_id r) (mr_inventory r) columns s" by auto
  from r(2) s(2) have "r \<noteq> s" by auto
  with db_ok_conflict [OF ok r(1) s(1)] r(2) have "mapping_key s \<noteq> (org, mapping)"
    by (auto simp: conflicts_Nil unbound_at_def mapping_key_def)
  moreover have "names_listing org (mr_inventory s) columns s"
    using s(3) r(2) by (auto simp: names_listing_def unbound_at_def)
  ultimately show ?thesis using s(1) by blast
qed

text \<open>
  A paste binds only a mapping nothing has bound: its one row turns to a binding that awaits a read-back, and
  no other row moves. Any other answer leaves the tables as they were and is true: the state named is the
  mapping's, and a listing called claimed is bound by another mapping.
\<close>

theorem a_paste_binds_only_what_is_unbound:
  assumes "mapping_history std reported db" and "\<And>names. names \<noteq> [] \<Longrightarrow> reported names \<in> set names"
    and "bind_pasted std reported org mapping listing t db = (Inr answer, db')"
  shows "case answer of
      Bound_Pasted \<Rightarrow> \<exists>before row columns at_db after.
        md_mappings db = before @ row # after \<and> mapping_key row = (org_to_db org, mapping_to_db mapping)
      \<and> mr_binding_state row = ''unbound''
      \<and> db' = db \<lparr>md_mappings := before @ pasted_row columns at_db row # after\<rparr>
      \<and> decode_binding std (pasted_row columns at_db row) [] [] = Inr (Bound listing t (V_Stale t))
    | NotUnbound state \<Rightarrow> db' = db \<and> state \<noteq> ''unbound''
      \<and> (\<exists>row \<in> set (md_mappings db). mapping_key row = (org_to_db org, mapping_to_db mapping)
           \<and> mr_binding_state row = state)
    | ListingClaimed \<Rightarrow> db' = db
      \<and> (\<exists>columns. remote_encode listing = Inr columns
         \<and> (\<exists>row \<in> set (md_mappings db). mapping_key row \<noteq> (org_to_db org, mapping_to_db mapping)
              \<and> names_listing (org_to_db org) (mr_inventory row) columns row))"
proof -
  let ?org = "org_to_db org" and ?mapping = "mapping_to_db mapping"
  have ok: "db_ok db" using assms(1) by (rule history_ok)
  from assms(3) obtain columns d where c: "remote_encode listing = Inr columns" and d: "timestamp_to_db std t = Inr d"
    by (auto simp: bind_pasted_def split: sum.splits)
  show ?thesis
  proof (cases "update_pasted reported ?org ?mapping columns d db")
    case (Inl e)
    with assms(3) c d obtain name where e: "e = Violates name" "answer = ListingClaimed" "db' = db"
      "name \<in> {''mapping_one_bound_url'', ''mapping_one_bound_numeric_id''}"
      by (auto simp: bind_pasted_def split: SqlxError.splits if_splits)
    from pasted_claimed [OF ok Inl [unfolded e(1)] assms(2) e(4) c] c e show ?thesis by auto
  next
    case (Inr a)
    then obtain n db1 where up: "update_pasted reported ?org ?mapping columns d db = Inr (n, db1)" by (cases a) auto
    show ?thesis
    proof (cases "0 < n")
      case True
      with assms(3) c d up have "answer = Bound_Pasted" "db' = db1"
        by (auto simp: bind_pasted_def split: sum.splits dest: committed)
      with pasted_bound [OF ok up True] pasted_decodes [OF c d] show ?thesis
        by (simp add: unbound_at_def mapping_key_def) metis
    next
      case False
      with assms(3) c d up obtain row where row: "row_of ?org ?mapping db = Some row"
        "answer = NotUnbound (mr_binding_state row)" "db' = db"
        by (auto simp: bind_pasted_def split: option.splits)
      then have mem: "row \<in> set (md_mappings db)" "mapping_key row = (?org, ?mapping)"
        by (auto simp: row_of_def mapping_key_def dest!: find_SomeD)
      moreover have "\<not> unbound_at ?org ?mapping row"
        using False update_pastedE(1) [OF up] mem(1) by (auto simp: filter_empty_conv)
      ultimately show ?thesis using row by (auto simp: unbound_at_def mapping_key_def)
    qed
  qed
qed

subsection \<open>A store\<close>

definition example_std :: Std where
  "example_std = \<lparr>std_representable = (\<lambda>_. True), std_dbg = (\<lambda>s. s), std_dbg_text = (\<lambda>_. []), std_dbg_int = (\<lambda>_. []),
     std_dbg_time = (\<lambda>_. []), std_dbg_instant = (\<lambda>_. [])\<rparr>"

definition example_db :: MappingDb where
  "example_db = no_rows \<lparr>md_products := [\<lparr>pd_org_id = replicate 16 1, pd_id = replicate 16 2, pd_deleted_at = None\<rparr>]\<rparr>"

definition example_mapping :: "Binding \<Rightarrow> Mapping" where
  "example_mapping binding =
     \<lparr>mp_id = MappingId (Uuid (replicate 16 3)), mp_org = OrgId (Uuid (replicate 16 1)),
      mp_product = ProductId (Uuid (replicate 16 2)), mp_inventory = Tpt, mp_binding = binding,
      mp_policies = \<lparr>fp_title = Managed, fp_description = Frozen, fp_price = ProposeField, fp_taxonomy = Managed,
        fp_grades = Managed, fp_files = Managed\<rparr>,
      mp_price_rule = Explicit (Paid (MkMoney 350 Usd)), mp_publish = Publish,
      mp_lifecycle = L_Live (Timestamp 1700000000000)\<rparr>"

definition example_bound :: Mapping where
  "example_bound = example_mapping (Bound (RTpt 70) (Timestamp 5)
     (V_Mismatched (Timestamp 6) \<lparr>fm_field = Title, fm_class = Truncated 80\<rparr>
        [\<lparr>fm_field = Price, fm_class = WrongField Grades\<rparr>]))"

abbreviation example_org :: OrgId where "example_org \<equiv> OrgId (Uuid (replicate 16 1))"

definition example_bound_db :: MappingDb where
  "example_bound_db = projr (repo_insert example_std hd example_org example_bound 4 (Timestamp 9) example_db)"

definition example_unbound_db :: MappingDb where
  "example_unbound_db =
     projr (repo_insert example_std hd example_org (example_mapping Unbound) 4 (Timestamp 9) example_db)"

lemma example_history: "mapping_history example_std hd example_db"
  using H_product [OF H_empty, of "\<lparr>pd_org_id = replicate 16 1, pd_id = replicate 16 2, pd_deleted_at = None\<rparr>"]
  by (simp add: example_db_def no_rows_def product_of_def)

lemma example_evaluated:
  "isl (repo_insert example_std hd example_org example_bound 4 (Timestamp 9) example_db) = False
   \<and> isl (repo_insert example_std hd example_org (example_mapping Unbound) 4 (Timestamp 9) example_db) = False
   \<and> md_mappings example_bound_db \<noteq> []
   \<and> map_sum (\<lambda>_. ()) fst (bind_listing example_std hd example_org example_bound 4 (Timestamp 9) example_db)
       = Inr (mp_product example_bound)
   \<and> fst (bind_pasted example_std hd example_org (mp_id example_bound) (RTpt 70) (Timestamp 11) example_unbound_db)
       = Inr Bound_Pasted"
  by code_simp

lemma example_bound_inserted:
  "repo_insert example_std hd example_org example_bound 4 (Timestamp 9) example_db = Inr example_bound_db"
proof -
  have "isl (repo_insert example_std hd example_org example_bound 4 (Timestamp 9) example_db) = False"
    using example_evaluated by blast
  then show ?thesis by (simp add: example_bound_db_def)
qed

lemma example_unbound_inserted:
  "repo_insert example_std hd example_org (example_mapping Unbound) 4 (Timestamp 9) example_db = Inr example_unbound_db"
proof -
  have "isl (repo_insert example_std hd example_org (example_mapping Unbound) 4 (Timestamp 9) example_db) = False"
    using example_evaluated by blast
  then show ?thesis by (simp add: example_unbound_db_def)
qed


theorem an_inserted_mapping_is_read_back_witness:
  "repo_get example_std example_org (mp_id example_bound) example_bound_db =
    Inr (Some \<lparr>mrec_mapping = example_bound, mrec_normaliser_version = 4, mrec_created_at = Timestamp 9,
               mrec_updated_at = Timestamp 9\<rparr>)"
  by (rule an_inserted_mapping_is_read_back [OF example_history _ example_bound_inserted])
    (simp add: example_bound_def example_mapping_def)

theorem a_bound_listing_names_its_holder_witness:
  "\<exists>db'. bind_listing example_std hd example_org example_bound 4 (Timestamp 9) example_db = Inr (mp_product example_bound, db')
     \<and> bound_product_for example_org Tpt (RTpt 70) db' = Inr (Some (mp_product example_bound))"
proof -
  have "map_sum (\<lambda>_. ()) fst (bind_listing example_std hd example_org example_bound 4 (Timestamp 9) example_db)
      = Inr (mp_product example_bound)"
    using example_evaluated by blast
  then obtain db' where b: "bind_listing example_std hd example_org example_bound 4 (Timestamp 9) example_db =
      Inr (mp_product example_bound, db')"
    by (cases "bind_listing example_std hd example_org example_bound 4 (Timestamp 9) example_db") auto
  have "bound_product_for example_org (mp_inventory example_bound) (RTpt 70) db' = Inr (Some (mp_product example_bound))"
    by (rule a_bound_listing_names_its_holder [OF _ b])
      (auto simp: example_bound_def example_mapping_def example_db_def no_rows_def product_of_def split: if_splits)
  with b show ?thesis by (auto simp: example_bound_def example_mapping_def)
qed

theorem a_paste_binds_only_what_is_unbound_witness:
  "\<exists>before row columns at_db after. md_mappings example_unbound_db = before @ row # after
     \<and> snd (bind_pasted example_std hd example_org (mp_id example_bound) (RTpt 70) (Timestamp 11) example_unbound_db)
       = example_unbound_db \<lparr>md_mappings := before @ pasted_row columns at_db row # after\<rparr>"
proof -
  have "fst (bind_pasted example_std hd example_org (mp_id example_bound) (RTpt 70) (Timestamp 11) example_unbound_db)
      = Inr Bound_Pasted"
    using example_evaluated by blast
  then obtain db' where b: "bind_pasted example_std hd example_org (mp_id example_bound) (RTpt 70) (Timestamp 11)
      example_unbound_db = (Inr Bound_Pasted, db')"
    by (cases "bind_pasted example_std hd example_org (mp_id example_bound) (RTpt 70) (Timestamp 11) example_unbound_db") auto
  show ?thesis
    using a_paste_binds_only_what_is_unbound
      [OF H_insert [OF example_history example_unbound_inserted] _ b]
    by (simp add: b) metis
qed

end
