(* ===== verification/LedgerRows.thy ===== *)
theory LedgerRows
  imports MappingSafety DriverTypes
begin

section \<open>The job ledger's tables (crate tam-storage, jobs.rs)\<close>

text \<open>
  The tables of the job ledger as lists of rows: \<open>job\<close>, \<open>job_item\<close>, \<open>write_attempt\<close>, \<open>job_event\<close> and the
  organisation's event counter, beside the tables a claim only reads. The constraints are those of the migrations
  0005, 0014, 0019, 0026, 0027, 0029, 0044 and 0079. A repository method is one transaction: it either answers and
  leaves the rows it wrote, or refuses and leaves none. What two transactions do to each other between their
  statements is not modelled; the row locks the code takes are there to make that the same.

  The structs \<open>LeaseRef\<close>, \<open>AttemptRef\<close>, \<open>AttemptIntent\<close>, \<open>LandingEffect\<close>, \<open>AttemptVerdict\<close>, \<open>BindDisposition\<close>,
  \<open>ItemVerdict\<close>, \<open>PreflightStreak\<close> and the first ten fields of \<open>LeasedItem\<close> are, field for field, the driver's own,
  and are reused from there. A column of JSON holds the value it encodes.
\<close>

subsection \<open>Rows\<close>

record JobRow =
  jb_org_id :: "u8 list"
  jb_id :: "u8 list"
  jb_inventory :: string
  jb_marketplace :: string
  jb_created_at :: DateTime
  jb_request_key :: "u8 list option"
  jb_actor_kind :: string
  jb_actor_id :: string
  jb_sync_request_id :: "u8 list option"
  jb_import_run_id :: "u8 list option"
  jb_deletion_requested_at :: "DateTime option"
  jb_deletion_actor_kind :: "string option"
  jb_deletion_actor_id :: "string option"
  jb_deletion_state :: "string option"

record ItemRow =
  ji_org_id :: "u8 list"
  ji_id :: "u8 list"
  ji_job_id :: "u8 list"
  ji_mapping_id :: "u8 list"
  ji_marketplace :: string
  ji_idempotency_key :: "u8 list"
  ji_state :: string
  ji_outcome :: "string option"
  ji_failure_code :: "string option"
  ji_failure_detail :: "string option"
  ji_blocked_on :: "string option"
  ji_attempt_count :: i32
  ji_lease_owner :: "string option"
  ji_lease_epoch :: i64
  ji_lease_expires_at :: "DateTime option"
  ji_park_expires_at :: "DateTime option"
  ji_created_at :: DateTime
  ji_settled_at :: "DateTime option"
  ji_operation :: OperationColumns
  ji_requires_bound_on :: "string option"
  ji_preflight_failures :: i32
  ji_preflight_challenge_only :: bool

record AttemptRow =
  wa_org_id :: "u8 list"
  wa_id :: "u8 list"
  wa_job_item_id :: "u8 list"
  wa_mapping_id :: "u8 list"
  wa_lease_epoch :: i64
  wa_intent :: Json
  wa_intent_hash :: "u8 list"
  wa_state :: string
  wa_opened_at :: DateTime
  wa_settled_at :: "DateTime option"
  wa_remote_id_kind :: "string option"
  wa_remote_url :: "string option"
  wa_remote_numeric_id :: "i64 option"
  wa_failure_code :: "string option"
  wa_ambiguity_cause :: "string option"
  wa_actor_kind :: string
  wa_actor_id :: string
  wa_asserted_at :: "DateTime option"

record EventRow =
  ev_org_id :: "u8 list"
  ev_org_seq :: i64
  ev_job_id :: "u8 list"
  ev_job_item_id :: "u8 list option"
  ev_payload :: JobEventPayload
  ev_created_at :: DateTime
  ev_actor_kind :: string
  ev_actor_id :: string
  ev_asserted_at :: "DateTime option"

text \<open>The tables other parts of the system write and a claim reads.\<close>

record InventoryRow =
  inv_code :: string
  inv_marketplace :: string
  inv_transport_class :: string

record ConnectionRow =
  cn_org_id :: "u8 list"
  cn_id :: "u8 list"
  cn_marketplace :: string
  cn_state :: string

record DeviceRow =
  dv_org_id :: "u8 list"
  dv_id :: string
  dv_app_version :: string
  dv_revoked_at :: "DateTime option"

record SessionRow =
  dms_org_id :: "u8 list"
  dms_device_id :: string
  dms_marketplace :: string
  dms_status :: string

record SubscriptionRow =
  bs_org_id :: "u8 list"
  bs_status :: string
  bs_current_period_end :: "DateTime option"

record FileRow =
  pf_org_id :: "u8 list"
  pf_id :: "u8 list"
  pf_product_id :: "u8 list"
  pf_role :: string
  pf_deleted_at :: "DateTime option"
  pf_hash :: "u8 list option"

text \<open>A \<open>sync_request\<close> or an \<open>import_run\<close>, as far as a mint reads it.\<close>

record WorkflowRow =
  wf_org_id :: "u8 list"
  wf_id :: "u8 list"
  wf_deletion_requested_at :: "DateTime option"

record World =
  wd_inventories :: "InventoryRow list"
  wd_inventory_halts :: "(string \<times> string) list"
  wd_org_halts :: "u8 list list"
  wd_org_inventory_halts :: "(u8 list \<times> string \<times> string) list"
  wd_connections :: "ConnectionRow list"
  wd_devices :: "DeviceRow list"
  wd_sessions :: "SessionRow list"
  wd_subscriptions :: "SubscriptionRow list"
  wd_files :: "FileRow list"
  wd_requests :: "WorkflowRow list"
  wd_import_runs :: "WorkflowRow list"

text \<open>\<open>ld_generations\<close> is the column \<open>sever_generation\<close> of the mapping's own row, which a sever alone writes.\<close>

record LedgerDb =
  ld_mapping :: MappingDb
  ld_generations :: "u8 list \<times> u8 list \<Rightarrow> i32"
  ld_jobs :: "JobRow list"
  ld_items :: "ItemRow list"
  ld_attempts :: "AttemptRow list"
  ld_counters :: "u8 list \<rightharpoonup> i64"
  ld_events :: "EventRow list"
  ld_world :: World

fun job_to_db :: "JobId \<Rightarrow> u8 list" where "job_to_db (JobId u) = uuid_to_db u"
fun item_to_db :: "JobItemId \<Rightarrow> u8 list" where "item_to_db (JobItemId u) = uuid_to_db u"
fun key_to_db :: "IdempotencyKey \<Rightarrow> u8 list" where "key_to_db (IdempotencyKey u) = uuid_to_db u"
fun detail_text :: "FailureDetail \<Rightarrow> string" where "detail_text (FailureDetail text) = text"

fun item_outcome_to_db :: "ItemOutcome \<Rightarrow> string" where
  "item_outcome_to_db IO_Succeeded = ''succeeded''"
| "item_outcome_to_db IO_Degraded = ''degraded''"
| "item_outcome_to_db IO_Failed = ''failed''"
| "item_outcome_to_db IO_Ambiguous = ''ambiguous''"
| "item_outcome_to_db IO_Skipped = ''skipped''"
| "item_outcome_to_db IO_Blocked = ''blocked''"

interpretation outcomes: closed_vocabulary
  "[IO_Succeeded, IO_Degraded, IO_Failed, IO_Ambiguous, IO_Skipped, IO_Blocked]" item_outcome_to_db
proof
  fix x show "x \<in> set [IO_Succeeded, IO_Degraded, IO_Failed, IO_Ambiguous, IO_Skipped, IO_Blocked]"
    by (cases x) simp_all
qed simp

subsection \<open>Transactions\<close>

text \<open>
  A transaction reads and writes the tables and may refuse; its clock is the database's \<open>now()\<close>, one instant for
  the whole of it. The digest of a derived identifier is the \<open>uuid\<close> crate's. The price and terms an item is frozen
  with are read from tables outside the ledger (\<open>rule_capture.rs\<close>); the ledger sees of them the key they derive, or
  a refusal.
\<close>

type_synonym 'a tx = "LedgerDb \<Rightarrow> StorageError + 'a \<times> LedgerDb"

record TxEnv =
  te_std :: Std
  te_reported :: reporter
  te_now :: DateTime
  te_new_v5 :: "u8 list \<Rightarrow> u8 list \<Rightarrow> u8 list"
  te_freeze :: "MappingId \<Rightarrow> ItemOperation \<Rightarrow> IdempotencyKey \<Rightarrow> LedgerDb \<Rightarrow> StorageError + IdempotencyKey option"

definition tx_return :: "'a \<Rightarrow> 'a tx" where "tx_return x = (\<lambda>db. Inr (x, db))"

definition tx_fail :: "StorageError \<Rightarrow> 'a tx" where "tx_fail e = (\<lambda>db. Inl e)"

definition tx_lift :: "StorageError + 'a \<Rightarrow> 'a tx" where "tx_lift r = (\<lambda>db. try_bind r (\<lambda>x. Inr (x, db)))"

definition tx_read :: "(LedgerDb \<Rightarrow> 'a) \<Rightarrow> 'a tx" where "tx_read f = (\<lambda>db. Inr (f db, db))"

definition tx_bind :: "'a tx \<Rightarrow> ('a \<Rightarrow> 'b tx) \<Rightarrow> 'b tx" where
  "tx_bind m k = (\<lambda>db. try_bind (m db) (\<lambda>(x, db'). k x db'))"

fun tx_each :: "('a \<Rightarrow> 'b tx) \<Rightarrow> 'a list \<Rightarrow> unit tx" where
  "tx_each f [] = tx_return ()"
| "tx_each f (x # xs) = tx_bind (f x) (\<lambda>_. tx_each f xs)"

text \<open>A transaction that commits leaves its rows; one that does not leaves the tables as they were.\<close>

definition committed_by :: "'a tx \<Rightarrow> LedgerDb \<Rightarrow> (StorageError + 'a) \<times> LedgerDb" where
  "committed_by m db = (case m db of Inl e \<Rightarrow> (Inl e, db) | Inr (x, db') \<Rightarrow> (Inr x, db'))"

lemma tx_bind_InrE:
  assumes "tx_bind m k db = Inr (y, db2)"
  obtains x db1 where "m db = Inr (x, db1)" "k x db1 = Inr (y, db2)"
  using assms by (auto simp: tx_bind_def elim!: try_bind_InrE)

lemma tx_simps [simp]:
  "tx_return x db = Inr (y, db') \<longleftrightarrow> y = x \<and> db' = db"
  "tx_fail e db = Inr (y, db') \<longleftrightarrow> False"
  "tx_lift r db = Inr (y, db') \<longleftrightarrow> r = Inr y \<and> db' = db"
  "tx_read f db = Inr (z, db') \<longleftrightarrow> z = f db \<and> db' = db"
  by (auto simp: tx_return_def tx_fail_def tx_lift_def tx_read_def try_bind_Inr)

text \<open>
  What a transaction may do to the tables is a relation between the rows before and after; a transaction composed
  of steps that keep to a preorder keeps to it.
\<close>

locale tx_order =
  fixes R :: "LedgerDb \<Rightarrow> LedgerDb \<Rightarrow> bool"
  assumes stays: "R db db" and trans: "R db db1 \<Longrightarrow> R db1 db2 \<Longrightarrow> R db db2"
begin

definition within :: "'a tx \<Rightarrow> bool" where
  "within m \<longleftrightarrow> (\<forall>db x db'. m db = Inr (x, db') \<longrightarrow> R db db')"

lemma withinD: "within m \<Longrightarrow> m db = Inr (x, db') \<Longrightarrow> R db db'"
  by (auto simp: within_def)

lemma withinI: "(\<And>db x db'. m db = Inr (x, db') \<Longrightarrow> R db db') \<Longrightarrow> within m"
  by (auto simp: within_def)

lemma within_bind [intro]: "within m \<Longrightarrow> (\<And>x. within (k x)) \<Longrightarrow> within (tx_bind m k)"
  unfolding within_def by (blast elim: tx_bind_InrE intro: trans)

lemma within_plain [simp, intro]: "within (tx_return x)" "within (tx_fail e)" "within (tx_lift r)" "within (tx_read f)"
  by (auto simp: within_def stays)

lemma within_each [intro]: "(\<And>x. within (f x)) \<Longrightarrow> within (tx_each f xs)"
  by (induction xs) auto

lemma within_if [intro]: "within m \<Longrightarrow> within n \<Longrightarrow> within (if b then m else n)"
  by simp

lemma within_committed: "within m \<Longrightarrow> R db (snd (committed_by m db))"
  by (auto simp: committed_by_def stays within_def split: sum.splits)

end

subsection \<open>Constraints\<close>

text \<open>The names of the unique indexes two rows share a key of, over a table.\<close>

type_synonym 'r index = "string \<times> ('r \<Rightarrow> 'r \<Rightarrow> bool)"

definition clashes :: "'r index list \<Rightarrow> 'r \<Rightarrow> 'r \<Rightarrow> string list" where
  "clashes indexes r s = map fst (filter (\<lambda>(name, same). same r s) indexes)"

fun clashing :: "'r index list \<Rightarrow> 'r list \<Rightarrow> string list" where
  "clashing indexes [] = []"
| "clashing indexes (r # rs) = concat (map (clashes indexes r) rs) @ clashing indexes rs"

lemma clashing_Nil: "clashing indexes rs = [] \<longleftrightarrow> sorted_wrt (\<lambda>r s. clashes indexes r s = []) rs"
  by (induction rs) auto

definition LIVE_STATES :: "string list" where
  "LIVE_STATES = [''leased'', ''running'', ''verifying'']"

definition is_live_lease :: "ItemRow \<Rightarrow> bool" where
  "is_live_lease r \<longleftrightarrow> ji_state r \<in> set LIVE_STATES"

definition live_lease :: "ItemRow \<Rightarrow> (u8 list \<times> string) option" where
  "live_lease r = (if is_live_lease r then Some (ji_org_id r, ji_marketplace r) else None)"

definition ONE_LIVE_LEASE :: string where "ONE_LIVE_LEASE = ''job_item_one_live_lease_per_connection''"

definition item_indexes :: "ItemRow index list" where
  "item_indexes =
     [(''job_item_pkey'', shares (\<lambda>r. Some (ji_org_id r, ji_id r))),
      (''job_item_idempotent'', shares (\<lambda>r. Some (ji_org_id r, ji_idempotency_key r))),
      (ONE_LIVE_LEASE, shares live_lease)]"

definition check_subject_shape :: "ItemRow \<Rightarrow> bool" where
  "check_subject_shape r \<longleftrightarrow>
     (case ji_operation r of c \<Rightarrow>
        oc_subject_kind c = None
      \<or> oc_subject_kind c = Some ''tes'' \<and> oc_subject_url c \<noteq> None \<and> oc_subject_numeric_id c = None
      \<or> oc_subject_kind c \<in> {Some ''tpt'', Some ''etsy''} \<and> oc_subject_numeric_id c \<noteq> None \<and> oc_subject_url c = None)"

definition check_operation_total :: "ItemRow \<Rightarrow> bool" where
  "check_operation_total r \<longleftrightarrow>
     (case ji_operation r of c \<Rightarrow>
        if oc_operation c = ''create'' then oc_subject_kind c = None \<and> oc_state_from c = None \<and> oc_state_to c = None
        else if oc_operation c = ''publish''
             then oc_subject_kind c = None \<and> oc_state_from c = None \<and> oc_state_to c \<noteq> None
        else if oc_operation c = ''revise''
             then oc_subject_kind c \<noteq> None \<and> oc_state_from c \<noteq> None \<and> oc_state_to c \<noteq> None
        else if oc_operation c = ''remove''
             then oc_subject_kind c \<noteq> None \<and> oc_state_from c \<noteq> None \<and> oc_state_to c = None
        else False)"

definition item_checks :: "ItemRow \<Rightarrow> (string \<times> bool) list" where
  "item_checks r =
     [(''job_item_lease_total'', is_live_lease r = (ji_lease_owner r \<noteq> None \<and> ji_lease_expires_at r \<noteq> None)),
      (''job_item_settled_total'', (ji_state r = ''settled'') = (ji_outcome r \<noteq> None \<and> ji_settled_at r \<noteq> None)),
      (''job_item_operation'', oc_operation (ji_operation r) \<in> {''create'', ''publish'', ''revise'', ''remove''}),
      (''job_item_subject_shape'', check_subject_shape r),
      (''job_item_lifecycle_states'',
         oc_state_from (ji_operation r) \<in> {None, Some ''draft'', Some ''live''}
       \<and> oc_state_to (ji_operation r) \<in> {None, Some ''draft'', Some ''live''}),
      (''job_item_operation_total'', check_operation_total r)]"

definition item_faults :: "ItemRow list \<Rightarrow> string list" where
  "item_faults rows =
     concat (map (\<lambda>r. map fst (filter (\<lambda>(name, holds). \<not> holds) (item_checks r))) rows) @ clashing item_indexes rows"

definition in_flight_claim :: "AttemptRow \<Rightarrow> (u8 list \<times> u8 list) option" where
  "in_flight_claim r = (if wa_state r = ''in_flight'' then Some (wa_org_id r, wa_mapping_id r) else None)"

definition ONE_IN_FLIGHT :: string where "ONE_IN_FLIGHT = ''write_attempt_one_in_flight''"

definition attempt_indexes :: "AttemptRow index list" where
  "attempt_indexes =
     [(''write_attempt_pkey'', shares (\<lambda>r. Some (wa_org_id r, wa_id r))), (ONE_IN_FLIGHT, shares in_flight_claim)]"

definition job_indexes :: "JobRow index list" where
  "job_indexes =
     [(''job_pkey'', shares (\<lambda>r. Some (jb_org_id r, jb_id r))),
      (''job_request_idempotent'', shares (\<lambda>r. map_option (Pair (jb_org_id r)) (jb_request_key r)))]"

definition job_checks :: "JobRow \<Rightarrow> (string \<times> bool) list" where
  "job_checks r =
     [(''job_deletion_state'',
         jb_deletion_state r \<in> {None, Some ''stopping'', Some ''needs_review'', Some ''deleted''}),
      (''job_deletion_total'', (jb_deletion_requested_at r = None) = (jb_deletion_state r = None)),
      (''job_deletion_actor_total'', (jb_deletion_requested_at r = None)
         = (jb_deletion_actor_kind r = None \<and> jb_deletion_actor_id r = None))]"

definition job_faults :: "JobRow list \<Rightarrow> string list" where
  "job_faults rows =
     concat (map (\<lambda>r. map fst (filter (\<lambda>(name, holds). \<not> holds) (job_checks r))) rows) @ clashing job_indexes rows"

definition settled_event :: "EventRow \<Rightarrow> (u8 list \<times> u8 list) option" where
  "settled_event e = (if job_event_kind (ev_payload e) = ''JobSettled'' then Some (ev_org_id e, ev_job_id e) else None)"

definition event_indexes :: "EventRow index list" where
  "event_indexes =
     [(''job_event_org_seq'', shares (\<lambda>e. Some (ev_org_id e, ev_org_seq e))),
      (''job_event_one_settled_per_job'', shares settled_event)]"

subsection \<open>Statements\<close>

text \<open>
  A statement's constraints are checked of the table as it leaves it; of several broken, which the database reports
  is its own choice. A number that leaves its column's range is refused.
\<close>

definition broke :: "TxEnv \<Rightarrow> string list \<Rightarrow> SqlxError" where
  "broke env names = Violates (te_reported env names)"

definition OUT_OF_RANGE :: SqlxError where "OUT_OF_RANGE = OtherDb ''integer out of range''"

definition update_items ::
  "TxEnv \<Rightarrow> (LedgerDb \<Rightarrow> ItemRow \<Rightarrow> bool) \<Rightarrow> (ItemRow \<Rightarrow> ItemRow option) \<Rightarrow> LedgerDb \<Rightarrow>
     SqlxError + ItemRow list \<times> LedgerDb" where
  "update_items env sel f db =
     (case those (map f (filter (sel db) (ld_items db))) of
        None \<Rightarrow> Inl OUT_OF_RANGE
      | Some hit \<Rightarrow>
          let rows = map (\<lambda>r. if sel db r then the (f r) else r) (ld_items db)
          in (case item_faults rows of
                [] \<Rightarrow> Inr (hit, db \<lparr>ld_items := rows\<rparr>)
              | names \<Rightarrow> Inl (broke env names)))"

definition update_attempts ::
  "TxEnv \<Rightarrow> (LedgerDb \<Rightarrow> AttemptRow \<Rightarrow> bool) \<Rightarrow> (LedgerDb \<Rightarrow> AttemptRow \<Rightarrow> AttemptRow) \<Rightarrow> LedgerDb \<Rightarrow>
     SqlxError + nat \<times> LedgerDb" where
  "update_attempts env sel f db =
     (let rows = map (\<lambda>r. if sel db r then f db r else r) (ld_attempts db)
      in case clashing attempt_indexes rows of
           [] \<Rightarrow> Inr (length (filter (sel db) (ld_attempts db)), db \<lparr>ld_attempts := rows\<rparr>)
         | names \<Rightarrow> Inl (broke env names))"

definition update_jobs ::
  "TxEnv \<Rightarrow> (JobRow \<Rightarrow> bool) \<Rightarrow> (JobRow \<Rightarrow> JobRow) \<Rightarrow> LedgerDb \<Rightarrow> SqlxError + nat \<times> LedgerDb" where
  "update_jobs env sel f db =
     (let rows = map (\<lambda>r. if sel r then f r else r) (ld_jobs db)
      in case job_faults rows of
           [] \<Rightarrow> Inr (length (filter sel (ld_jobs db)), db \<lparr>ld_jobs := rows\<rparr>)
         | names \<Rightarrow> Inl (broke env names))"

text \<open>\<open>?\<close> on a statement's error, and \<open>map_unique\<close>, which names one constraint's violation.\<close>

definition run_stmt :: "(LedgerDb \<Rightarrow> SqlxError + 'a \<times> LedgerDb) \<Rightarrow> 'a tx" where
  "run_stmt stmt = (\<lambda>db. case stmt db of Inl e \<Rightarrow> Inl (Db e) | Inr r \<Rightarrow> Inr r)"

definition map_unique :: "string \<Rightarrow> StorageError \<Rightarrow> (LedgerDb \<Rightarrow> SqlxError + 'a \<times> LedgerDb) \<Rightarrow> 'a tx" where
  "map_unique name err stmt =
     (\<lambda>db. case stmt db of
        Inr r \<Rightarrow> Inr r
      | Inl (Violates n) \<Rightarrow> if n = name then Inl err else Inl (Db (Violates n))
      | Inl e \<Rightarrow> Inl (Db e))"

lemma run_Inr [simp]: "run_stmt stmt db = Inr r \<longleftrightarrow> stmt db = Inr r"
  by (auto simp: run_stmt_def split: sum.splits)

lemma map_unique_Inr [simp]: "map_unique name err stmt db = Inr r \<longleftrightarrow> stmt db = Inr r"
  by (auto simp: map_unique_def split: sum.splits SqlxError.splits)

lemma those_Some: "those (map f xs) = Some ys \<longleftrightarrow> (\<forall>x \<in> set xs. f x \<noteq> None) \<and> ys = map (the \<circ> f) xs"
  by (induction xs arbitrary: ys) (auto split: option.splits)

lemma update_items_Inr: "update_items env sel f db = Inr (hit, db') \<longleftrightarrow>
    (\<forall>r \<in> set (ld_items db). sel db r \<longrightarrow> f r \<noteq> None)
  \<and> hit = map (the \<circ> f) (filter (sel db) (ld_items db))
  \<and> db' = db \<lparr>ld_items := map (\<lambda>r. if sel db r then the (f r) else r) (ld_items db)\<rparr>
  \<and> item_faults (ld_items db') = []"
proof (cases "those (map f (filter (sel db) (ld_items db)))")
  case None
  then have "\<not> (\<forall>r \<in> set (ld_items db). sel db r \<longrightarrow> f r \<noteq> None)"
    using those_Some [of f "filter (sel db) (ld_items db)" "map (the \<circ> f) (filter (sel db) (ld_items db))"] by auto
  with None show ?thesis by (simp add: update_items_def)
next
  case (Some ys)
  then have "\<forall>r \<in> set (ld_items db). sel db r \<longrightarrow> f r \<noteq> None"
    and "ys = map (the \<circ> f) (filter (sel db) (ld_items db))" by (auto simp: those_Some)
  with Some show ?thesis
    by (auto simp: update_items_def Let_def split: list.splits)
qed

lemma update_attempts_Inr: "update_attempts env sel f db = Inr (n, db') \<longleftrightarrow>
    n = length (filter (sel db) (ld_attempts db))
  \<and> db' = db \<lparr>ld_attempts := map (\<lambda>r. if sel db r then f db r else r) (ld_attempts db)\<rparr>
  \<and> clashing attempt_indexes (ld_attempts db') = []"
  by (auto simp: update_attempts_def Let_def split: list.splits)

lemma update_jobs_Inr: "update_jobs env sel f db = Inr (n, db') \<longleftrightarrow>
    n = length (filter sel (ld_jobs db))
  \<and> db' = db \<lparr>ld_jobs := map (\<lambda>r. if sel r then f r else r) (ld_jobs db)\<rparr>
  \<and> job_faults (ld_jobs db') = []"
  by (auto simp: update_jobs_def Let_def split: list.splits)

end
