(* ===== verification/LedgerEvents.thy ===== *)
theory LedgerEvents
  imports LedgerRows
begin

section \<open>The ledger's events and deletions (crate tam-storage, jobs.rs)\<close>

text \<open>
  The event stream with its per-organisation sequence, the event a job's last settlement appends, and the fence a
  seller's deletion raises. The notification that follows a job's settlement writes two tables of the mail, which
  are not part of the ledger's model.
\<close>

subsection \<open>Reading the tables\<close>

definition job_of :: "LedgerDb \<Rightarrow> u8 list \<Rightarrow> u8 list \<Rightarrow> JobRow option" where
  "job_of db org job = List.find (\<lambda>j. jb_org_id j = org \<and> jb_id j = job) (ld_jobs db)"

definition item_of :: "LedgerDb \<Rightarrow> u8 list \<Rightarrow> u8 list \<Rightarrow> ItemRow option" where
  "item_of db org item = List.find (\<lambda>r. ji_org_id r = org \<and> ji_id r = item) (ld_items db)"

definition mapping_of :: "LedgerDb \<Rightarrow> u8 list \<Rightarrow> u8 list \<Rightarrow> StoredMapping option" where
  "mapping_of db org mapping = row_of org mapping (ld_mapping db)"

definition attempts_of :: "LedgerDb \<Rightarrow> ItemRow \<Rightarrow> AttemptRow list" where
  "attempts_of db r = filter (\<lambda>w. wa_org_id w = ji_org_id r \<and> wa_job_item_id w = ji_id r) (ld_attempts db)"

text \<open>A comparison with a null instant does not hold.\<close>

definition passed :: "DateTime \<Rightarrow> DateTime option \<Rightarrow> bool" where
  "passed now t = (case t of None \<Rightarrow> False | Some d \<Rightarrow> dt_nanos d \<le> dt_nanos now)"

text \<open>\<open>deletion_requested_at IS NOT NULL\<close> of the job an item belongs to.\<close>

definition stopped :: "LedgerDb \<Rightarrow> u8 list \<Rightarrow> u8 list \<Rightarrow> bool" where
  "stopped db org job = (case job_of db org job of None \<Rightarrow> False | Some j \<Rightarrow> jb_deletion_requested_at j \<noteq> None)"

definition job_deletion_requested :: "OrgId \<Rightarrow> JobId \<Rightarrow> bool tx" where
  "job_deletion_requested org job = tx_read (\<lambda>db. stopped db (org_to_db org) (job_to_db job))"

text \<open>The row of the job that owns an item, which the writers lock ahead of the item's.\<close>

definition lock_owning_job :: "OrgId \<Rightarrow> JobItemId \<Rightarrow> JobId option tx" where
  "lock_owning_job org item = tx_read (\<lambda>db.
     case item_of db (org_to_db org) (item_to_db item) of
       None \<Rightarrow> None
     | Some r \<Rightarrow> map_option (\<lambda>j. JobId (uuid_from_db (jb_id j))) (job_of db (org_to_db org) (ji_job_id r)))"

subsection \<open>Events\<close>

record EventScope =
  es_org :: OrgId
  es_job :: JobId
  es_item :: "JobItemId option"

definition next_seq :: "LedgerDb \<Rightarrow> u8 list \<Rightarrow> i64" where
  "next_seq db org = (case ld_counters db org of None \<Rightarrow> 1 | Some n \<Rightarrow> n)"

definition lock_org_counter :: "OrgId \<Rightarrow> unit tx" where
  "lock_org_counter org = (\<lambda>db. Inr ((), db \<lparr>ld_counters := (ld_counters db)(org_to_db org \<mapsto> next_seq db (org_to_db org))\<rparr>))"

definition allocate_org_seq :: "OrgId \<Rightarrow> i64 tx" where
  "allocate_org_seq org = (\<lambda>db.
     case checked_signed 64 (next_seq db (org_to_db org) + 1) of
       None \<Rightarrow> Inl (Db OUT_OF_RANGE)
     | Some n \<Rightarrow> Inr (n - 1, db \<lparr>ld_counters := (ld_counters db)(org_to_db org \<mapsto> n)\<rparr>))"

definition event_refusals :: "LedgerDb \<Rightarrow> EventRow \<Rightarrow> string list" where
  "event_refusals db e = concat (map (clashes event_indexes e) (ld_events db))"

definition unknown_job :: "LedgerDb \<Rightarrow> EventRow \<Rightarrow> string list" where
  "unknown_job db e = (if job_of db (ev_org_id e) (ev_job_id e) = None then [''job_event_org_id_job_id_fkey''] else [])"

definition insert_event :: "TxEnv \<Rightarrow> EventRow \<Rightarrow> LedgerDb \<Rightarrow> SqlxError + unit \<times> LedgerDb" where
  "insert_event env e db =
     (case unknown_job db e @ event_refusals db e of
        [] \<Rightarrow> Inr ((), db \<lparr>ld_events := ld_events db @ [e]\<rparr>)
      | names \<Rightarrow> Inl (broke env names))"

text \<open>\<open>WHERE NOT EXISTS\<close> a settled event of the job, and \<open>ON CONFLICT DO NOTHING\<close> behind it.\<close>

definition insert_once :: "TxEnv \<Rightarrow> EventRow \<Rightarrow> LedgerDb \<Rightarrow> SqlxError + bool \<times> LedgerDb" where
  "insert_once env e db =
     (if list_ex (\<lambda>o'. ev_org_id o' = ev_org_id e \<and> ev_job_id o' = ev_job_id e
                      \<and> job_event_kind (ev_payload o') = job_event_kind (ev_payload e)) (ld_events db)
         \<or> event_refusals db e \<noteq> []
      then Inr (False, db)
      else case unknown_job db e of
        [] \<Rightarrow> Inr (True, db \<lparr>ld_events := ld_events db @ [e]\<rparr>)
      | names \<Rightarrow> Inl (broke env names))"

definition append_event_asserted ::
  "TxEnv \<Rightarrow> EventScope \<Rightarrow> JobEventPayload \<Rightarrow> Stamp \<Rightarrow> Timestamp option \<Rightarrow> unit tx" where
  "append_event_asserted env scope payload stamp asserted =
     tx_bind (allocate_org_seq (es_org scope)) (\<lambda>seq.
     tx_bind (tx_lift (timestamp_to_db (te_std env) (st_at stamp))) (\<lambda>d.
     tx_bind (tx_lift (transposed (timestamp_to_db (te_std env)) asserted)) (\<lambda>asserted_at.
       run_stmt (insert_event env
         \<lparr>ev_org_id = org_to_db (es_org scope), ev_org_seq = seq, ev_job_id = job_to_db (es_job scope),
          ev_job_item_id = map_option item_to_db (es_item scope), ev_payload = payload, ev_created_at = d,
          ev_actor_kind = actor_kind (st_actor stamp), ev_actor_id = actor_id (st_actor stamp),
          ev_asserted_at = asserted_at\<rparr>))))"

definition append_event :: "TxEnv \<Rightarrow> EventScope \<Rightarrow> JobEventPayload \<Rightarrow> Stamp \<Rightarrow> unit tx" where
  "append_event env scope payload stamp = append_event_asserted env scope payload stamp None"

definition job_record_event :: "TxEnv \<Rightarrow> EventScope \<Rightarrow> JobEventPayload \<Rightarrow> Stamp \<Rightarrow> unit tx" where
  "job_record_event env scope payload stamp = append_event env scope payload stamp"

text \<open>An item a statement answered, by the keys it returns.\<close>

definition item_scope :: "ItemRow \<Rightarrow> EventScope" where
  "item_scope r = \<lparr>es_org = OrgId (uuid_from_db (ji_org_id r)), es_job = JobId (uuid_from_db (ji_job_id r)),
     es_item = Some (JobItemId (uuid_from_db (ji_id r)))\<rparr>"

definition record_resumptions :: "TxEnv \<Rightarrow> ItemRow list \<Rightarrow> Timestamp \<Rightarrow> unit tx" where
  "record_resumptions env revived at =
     tx_each (\<lambda>r. append_event env (item_scope r) JE_ItemResumed (stamp_system CEngine at)) revived"

subsection \<open>A job's settlement\<close>

definition count_u32 :: "nat \<Rightarrow> StorageError + u32" where
  "count_u32 n =
     (if n < 2 ^ 32 then Inr (of_nat n)
      else Inl (Inconsistent (''a job item count does not fit the event vocabulary: '' @ decimal n)))"

definition items_of :: "LedgerDb \<Rightarrow> u8 list \<Rightarrow> u8 list \<Rightarrow> ItemRow list" where
  "items_of db org job = filter (\<lambda>r. ji_org_id r = org \<and> ji_job_id r = job) (ld_items db)"

definition with_outcome :: "ItemOutcome \<Rightarrow> ItemRow list \<Rightarrow> nat" where
  "with_outcome outcome rows = length (filter (\<lambda>r. ji_outcome r = Some (item_outcome_to_db outcome)) rows)"

definition settled_payload :: "ItemRow list \<Rightarrow> StorageError + JobEventPayload" where
  "settled_payload rows =
     try_bind (count_u32 (with_outcome IO_Succeeded rows)) (\<lambda>succeeded.
     try_bind (count_u32 (with_outcome IO_Degraded rows)) (\<lambda>degraded.
     try_bind (count_u32 (with_outcome IO_Failed rows)) (\<lambda>failed.
     try_bind (count_u32 (with_outcome IO_Ambiguous rows)) (\<lambda>ambiguous.
     try_bind (count_u32 (with_outcome IO_Skipped rows)) (\<lambda>skipped.
     try_bind (count_u32 (with_outcome IO_Blocked rows)) (\<lambda>blocked.
       Inr (JE_JobSettled succeeded degraded failed ambiguous skipped blocked)))))))"

definition settle_if_complete :: "TxEnv \<Rightarrow> OrgId \<Rightarrow> JobId \<Rightarrow> Timestamp \<Rightarrow> bool tx" where
  "settle_if_complete env org job at =
     tx_bind (lock_org_counter org) (\<lambda>_.
     tx_bind (tx_read (\<lambda>db. items_of db (org_to_db org) (job_to_db job))) (\<lambda>rows.
       if rows = [] \<or> list_ex (\<lambda>r. ji_state r \<noteq> ''settled'') rows then tx_return False
       else
         tx_bind (tx_lift (settled_payload rows)) (\<lambda>payload.
         tx_bind (allocate_org_seq org) (\<lambda>seq.
         tx_bind (tx_lift (timestamp_to_db (te_std env) at)) (\<lambda>d.
           run_stmt (insert_once env
             \<lparr>ev_org_id = org_to_db org, ev_org_seq = seq, ev_job_id = job_to_db job, ev_job_item_id = None,
              ev_payload = payload, ev_created_at = d, ev_actor_kind = actor_kind (System CEngine),
              ev_actor_id = actor_id (System CEngine), ev_asserted_at = None\<rparr>))))))"

subsection \<open>Gates\<close>

definition AWAITING_SELLER_SIGNIN :: string where "AWAITING_SELLER_SIGNIN = ''awaiting_seller_signin''"
definition AWAITING_MARKETPLACE_ANSWER :: string where
  "AWAITING_MARKETPLACE_ANSWER = ''awaiting_marketplace_answer''"
definition AWAITING_COUNTERPART :: string where "AWAITING_COUNTERPART = ''awaiting_counterpart''"
definition ELECTION :: string where "ELECTION = ''election''"
definition REAUTH_REQUIRED :: string where "REAUTH_REQUIRED = ''ReauthRequired''"

definition REVIVABLE_GATES :: "string list" where
  "REVIVABLE_GATES =
     [''reconciliation'', ELECTION, ''currency_unknown'', ''currency_mismatch'', ''cover_missing'',
      ''scan_incomplete'', AWAITING_COUNTERPART, ''binding'', ''unbound'', ''subject_diverged'',
      ''lifecycle_diverged'']"

definition ALL_GATES :: "string list" where
  "ALL_GATES =
     [''reconciliation'', ELECTION, ''currency_unknown'', ''currency_mismatch'', ''cover_missing'',
      ''scan_incomplete'', AWAITING_COUNTERPART, ''binding'', ''unbound'', ''subject_diverged'',
      ''lifecycle_diverged'', REAUTH_REQUIRED, AWAITING_SELLER_SIGNIN, AWAITING_MARKETPLACE_ANSWER]"

text \<open>What every way out of a lease clears, and a park.\<close>

definition unleased :: "ItemRow \<Rightarrow> ItemRow" where
  "unleased r = r \<lparr>ji_lease_owner := None, ji_lease_expires_at := None\<rparr>"

definition parked_on :: "string \<Rightarrow> DateTime option \<Rightarrow> ItemRow \<Rightarrow> ItemRow" where
  "parked_on gate expires r =
     unleased r \<lparr>ji_state := ''parked_live'', ji_blocked_on := Some gate, ji_park_expires_at := expires\<rparr>"

definition next_epoch :: "(i64 \<Rightarrow> ItemRow) \<Rightarrow> ItemRow \<Rightarrow> ItemRow option" where
  "next_epoch f r = map_option f (checked_signed 64 (ji_lease_epoch r + 1))"

subsection \<open>Deletions\<close>

datatype DeletionStatus = Stopping | NeedsReview | Deleted

fun deletion_str :: "DeletionStatus \<Rightarrow> string" where
  "deletion_str Stopping = ''stopping''"
| "deletion_str NeedsReview = ''needs_review''"
| "deletion_str Deleted = ''deleted''"

definition ALL_DELETION_STATUSES :: "DeletionStatus list" where
  "ALL_DELETION_STATUSES = [Stopping, NeedsReview, Deleted]"

interpretation deletions: closed_vocabulary ALL_DELETION_STATUSES deletion_str
proof
  fix x show "x \<in> set ALL_DELETION_STATUSES" by (cases x) (simp_all add: ALL_DELETION_STATUSES_def)
qed (simp add: ALL_DELETION_STATUSES_def)

definition deletion_from_db :: "Std \<Rightarrow> string \<Rightarrow> StorageError + DeletionStatus" where
  "deletion_from_db std = spelled std ''deletion state'' ALL_DELETION_STATUSES deletion_str"

definition deletion_parse :: "Std \<Rightarrow> string option \<Rightarrow> StorageError + DeletionStatus option" where
  "deletion_parse std = transposed (deletion_from_db std)"

definition DELETED_BEFORE_IT_RAN :: string where
  "DELETED_BEFORE_IT_RAN =
     ''the seller deleted this work before this item ran, so nothing was sent to the marketplace''"

text \<open>An attempt in one of these states is a write that may have reached the marketplace.\<close>

definition SENT_STATES :: "string list" where
  "SENT_STATES = [''in_flight'', ''ambiguous'', ''committed'']"

definition stranded_write :: "TxEnv \<Rightarrow> LedgerDb \<Rightarrow> ItemRow \<Rightarrow> bool" where
  "stranded_write env db r \<longleftrightarrow>
     is_live_lease r \<and> (ji_lease_expires_at r = None \<or> passed (te_now env) (ji_lease_expires_at r))
   \<and> list_ex (\<lambda>w. wa_state w \<in> set SENT_STATES \<and> wa_lease_epoch w = ji_lease_epoch r) (attempts_of db r)"

definition park_stopped_writes :: "TxEnv \<Rightarrow> OrgId \<Rightarrow> JobId \<Rightarrow> unit tx" where
  "park_stopped_writes env org job =
     tx_bind (run_stmt (update_items env
         (\<lambda>db r. ji_org_id r = org_to_db org \<and> ji_job_id r = job_to_db job \<and> stranded_write env db r)
         (\<lambda>r. Some (parked_on AWAITING_MARKETPLACE_ANSWER None r))))
       (\<lambda>_. tx_return ())"

definition unstarted :: "TxEnv \<Rightarrow> LedgerDb \<Rightarrow> ItemRow \<Rightarrow> bool" where
  "unstarted env db r \<longleftrightarrow>
     ji_state r \<noteq> ''settled''
   \<and> (\<not> is_live_lease r \<or> ji_lease_expires_at r = None \<or> passed (te_now env) (ji_lease_expires_at r))
   \<and> \<not> list_ex (\<lambda>w. wa_state w \<in> set SENT_STATES) (attempts_of db r)"

definition cancelled :: "DateTime \<Rightarrow> ItemRow \<Rightarrow> ItemRow option" where
  "cancelled d r = next_epoch (\<lambda>n. unleased r
     \<lparr>ji_state := ''settled'', ji_outcome := Some ''skipped'',
      ji_failure_code := Some (failure_code_to_db OtherFailure), ji_failure_detail := Some DELETED_BEFORE_IT_RAN,
      ji_settled_at := Some d, ji_blocked_on := None, ji_park_expires_at := None, ji_lease_epoch := n\<rparr>) r"

definition cancel_unstarted_items :: "TxEnv \<Rightarrow> OrgId \<Rightarrow> JobId \<Rightarrow> Timestamp \<Rightarrow> ItemRow list tx" where
  "cancel_unstarted_items env org job at =
     tx_bind (tx_lift (timestamp_to_db (te_std env) at)) (\<lambda>d.
       run_stmt (update_items env
         (\<lambda>db r. ji_org_id r = org_to_db org \<and> ji_job_id r = job_to_db job \<and> unstarted env db r) (cancelled d)))"

definition classify_deletion :: "TxEnv \<Rightarrow> OrgId \<Rightarrow> JobId \<Rightarrow> LedgerDb \<Rightarrow> DeletionStatus" where
  "classify_deletion env org job db =
     (let rows = items_of db (org_to_db org) (job_to_db job);
          executing = list_ex (\<lambda>r. is_live_lease r \<and> ji_lease_expires_at r \<noteq> None
                                 \<and> \<not> passed (te_now env) (ji_lease_expires_at r)) rows;
          undecided = list_ex (\<lambda>r. list_ex (\<lambda>w. wa_state w \<in> {''in_flight'', ''ambiguous''}) (attempts_of db r)) rows;
          unsettled = list_ex (\<lambda>r. ji_state r \<noteq> ''settled'') rows;
          ambiguous = list_ex (\<lambda>r. ji_state r = ''settled'' \<and> ji_outcome r = Some ''ambiguous'') rows
      in if executing then Stopping
         else if undecided \<or> unsettled \<or> ambiguous then NeedsReview
         else Deleted)"

definition is_job :: "OrgId \<Rightarrow> JobId \<Rightarrow> JobRow \<Rightarrow> bool" where
  "is_job org job j \<longleftrightarrow> jb_org_id j = org_to_db org \<and> jb_id j = job_to_db job"

definition fence_and_classify :: "TxEnv \<Rightarrow> OrgId \<Rightarrow> JobId \<Rightarrow> Stamp \<Rightarrow> DeletionStatus tx" where
  "fence_and_classify env org job stamp =
     tx_bind (park_stopped_writes env org job) (\<lambda>_.
     tx_bind (cancel_unstarted_items env org job (st_at stamp)) (\<lambda>cancelled_items.
     tx_bind (tx_each (\<lambda>r. append_event env
                  \<lparr>es_org = org, es_job = job, es_item = Some (JobItemId (uuid_from_db (ji_id r)))\<rparr>
                  (JE_ItemSettled ''Skipped'') stamp) cancelled_items) (\<lambda>_.
     tx_bind (tx_read (classify_deletion env org job)) (\<lambda>status.
     tx_bind (run_stmt (update_jobs env (is_job org job) (\<lambda>j. j \<lparr>jb_deletion_state := Some (deletion_str status)\<rparr>))) (\<lambda>_.
       tx_return status)))))"

text \<open>\<open>COALESCE\<close>: the first of a deletion's stamps stands.\<close>

definition coalesce :: "'a option \<Rightarrow> 'a \<Rightarrow> 'a option" where
  "coalesce old new = (case old of None \<Rightarrow> Some new | Some x \<Rightarrow> Some x)"

definition stamped_for_deletion :: "Stamp \<Rightarrow> DateTime \<Rightarrow> JobRow \<Rightarrow> JobRow" where
  "stamped_for_deletion stamp d j =
     j \<lparr>jb_deletion_requested_at := coalesce (jb_deletion_requested_at j) d,
        jb_deletion_actor_kind := coalesce (jb_deletion_actor_kind j) (actor_kind (st_actor stamp)),
        jb_deletion_actor_id := coalesce (jb_deletion_actor_id j) (actor_id (st_actor stamp)),
        jb_deletion_state := coalesce (jb_deletion_state j) ''stopping''\<rparr>"

definition delete_job_in_tx :: "TxEnv \<Rightarrow> OrgId \<Rightarrow> JobId \<Rightarrow> Stamp \<Rightarrow> DeletionStatus option tx" where
  "delete_job_in_tx env org job stamp =
     tx_bind (tx_lift (timestamp_to_db (te_std env) (st_at stamp))) (\<lambda>d.
     tx_bind (run_stmt (update_jobs env (is_job org job) (stamped_for_deletion stamp d))) (\<lambda>stamped.
       if stamped = 0 then tx_return None
       else tx_bind (fence_and_classify env org job stamp) (\<lambda>status. tx_return (Some status))))"

definition reconcile_job_deletion :: "TxEnv \<Rightarrow> OrgId \<Rightarrow> JobId \<Rightarrow> Stamp \<Rightarrow> DeletionStatus option tx" where
  "reconcile_job_deletion env org job stamp =
     tx_bind (job_deletion_requested org job) (\<lambda>open_deletion.
       if \<not> open_deletion then tx_return None
       else tx_bind (fence_and_classify env org job stamp) (\<lambda>status. tx_return (Some status)))"

datatype JobFence = DeleteFence Stamp | ReconcileFence Stamp

fun fence_apply :: "TxEnv \<Rightarrow> JobFence \<Rightarrow> OrgId \<Rightarrow> JobId \<Rightarrow> DeletionStatus option tx" where
  "fence_apply env (DeleteFence stamp) org job = delete_job_in_tx env org job stamp"
| "fence_apply env (ReconcileFence stamp) org job = reconcile_job_deletion env org job stamp"

definition repo_delete :: "TxEnv \<Rightarrow> OrgId \<Rightarrow> JobId \<Rightarrow> Stamp \<Rightarrow> DeletionStatus option tx" where
  "repo_delete env org job stamp = delete_job_in_tx env org job stamp"

definition finalise_deletion :: "TxEnv \<Rightarrow> OrgId \<Rightarrow> JobId \<Rightarrow> Stamp \<Rightarrow> DeletionStatus option tx" where
  "finalise_deletion env org job stamp = reconcile_job_deletion env org job stamp"

text \<open>The sweep: one transaction a job, each at its own instant; a refusal ends it, and what it committed stays.\<close>

fun finalise_each ::
  "(nat \<Rightarrow> TxEnv) \<Rightarrow> OrgId \<Rightarrow> Stamp \<Rightarrow> u8 list list \<Rightarrow> nat \<Rightarrow> LedgerDb \<Rightarrow> (StorageError + nat) \<times> LedgerDb" where
  "finalise_each envs org stamp [] finalised db = (Inr finalised, db)"
| "finalise_each envs org stamp (job # jobs) finalised db =
     (case finalise_deletion (envs (length jobs)) org (JobId (uuid_from_db job)) stamp db of
        Inl e \<Rightarrow> (Inl e, db)
      | Inr (status, db') \<Rightarrow>
          finalise_each envs org stamp jobs (if status = Some Deleted then min (finalised + 1) (2 ^ 64 - 1) else finalised) db')"

text \<open>\<open>uuid\<close> columns are ordered by their bytes.\<close>

definition uuid_rank :: "u8 list \<Rightarrow> nat" where
  "uuid_rank bytes = foldl (\<lambda>n b. n * 256 + unat b) 0 bytes"

definition by_age :: "('r \<Rightarrow> DateTime) \<Rightarrow> ('r \<Rightarrow> u8 list) \<Rightarrow> 'r list \<Rightarrow> 'r list" where
  "by_age created ident rows = sort_key (\<lambda>r. dt_nanos (created r)) (sort_key (\<lambda>r. uuid_rank (ident r)) rows)"

definition finalise_deletions ::
  "(nat \<Rightarrow> TxEnv) \<Rightarrow> OrgId \<Rightarrow> Stamp \<Rightarrow> LedgerDb \<Rightarrow> (StorageError + nat) \<times> LedgerDb" where
  "finalise_deletions envs org stamp db =
     finalise_each envs org stamp
       (map jb_id (by_age jb_created_at jb_id
          (filter (\<lambda>j. jb_org_id j = org_to_db org
                     \<and> jb_deletion_state j \<in> {Some ''stopping'', Some ''needs_review''}) (ld_jobs db)))) 0 db"

definition deletion_status :: "Std \<Rightarrow> OrgId \<Rightarrow> JobId \<Rightarrow> LedgerDb \<Rightarrow> StorageError + DeletionStatus option" where
  "deletion_status std org job db =
     deletion_parse std (case job_of db (org_to_db org) (job_to_db job) of None \<Rightarrow> None | Some j \<Rightarrow> jb_deletion_state j)"

end
