(* ===== verification/LeaseStore.thy ===== *)
theory LeaseStore
  imports LedgerEvents
begin

section \<open>Leases (crate tam-storage, jobs.rs, LeaseRepo)\<close>

text \<open>
  The writes a lease fences, the claims that grant one, and the two passes of the maintenance loop. A fenced write
  names the organisation, the item and the epoch it was granted; where the item has moved on, no row matches and the
  answer is \<open>StaleLease\<close>.
\<close>

datatype Charged = Requeued_Item | Settled_Item

datatype HandedBack = HB_Parked | HB_Requeued | HB_Settled

record Revived =
  rv_requeued :: nat
  rv_re_gated :: nat

record RenewedLease =
  rl_server_now :: Timestamp
  rl_expires_at :: Timestamp

subsection \<open>The fence\<close>

definition held_under :: "LeaseRef \<Rightarrow> ItemRow \<Rightarrow> bool" where
  "held_under lease r \<longleftrightarrow>
     ji_org_id r = org_to_db (lr_org lease) \<and> ji_id r = item_to_db (lr_item lease)
   \<and> ji_lease_epoch r = lr_lease_epoch lease \<and> is_live_lease r"

definition fenced_row :: "TxEnv \<Rightarrow> LeaseRef \<Rightarrow> (ItemRow \<Rightarrow> ItemRow option) \<Rightarrow> ItemRow tx" where
  "fenced_row env lease f =
     tx_bind (run_stmt (update_items env (\<lambda>_. held_under lease) f)) (\<lambda>rows.
       case rows of [] \<Rightarrow> tx_fail StaleLease | r # _ \<Rightarrow> tx_return r)"

text \<open>\<open>make_interval(secs => ..)\<close>, and \<open>extract(epoch ..) * 1000\<close> rounded to the nearest whole number.\<close>

definition plus_secs :: "DateTime \<Rightarrow> int \<Rightarrow> DateTime" where
  "plus_secs d n = DateTime (dt_nanos d + n * 1000000000)"

definition epoch_ms :: "DateTime \<Rightarrow> Timestamp" where
  "epoch_ms d = (let n = dt_nanos d in
     Timestamp (if 0 \<le> n then (n + 500000) div 1000000 else - ((- n + 500000) div 1000000)))"

definition i32_or_max :: "i64 \<Rightarrow> int" where
  "i32_or_max n = (case checked_signed 32 n of None \<Rightarrow> 2 ^ 31 - 1 | Some m \<Rightarrow> m)"

definition repo_renew :: "TxEnv \<Rightarrow> LeaseRef \<Rightarrow> RenewedLease tx" where
  "repo_renew env lease =
     (let expires = plus_secs (te_now env) LEASE_TTL_SECS in
      tx_bind (fenced_row env lease (\<lambda>r. Some (r \<lparr>ji_lease_expires_at := Some expires\<rparr>))) (\<lambda>_.
        tx_return \<lparr>rl_server_now = epoch_ms (te_now env), rl_expires_at = epoch_ms expires\<rparr>))"

definition holder :: "OrgId \<Rightarrow> JobItemId \<Rightarrow> LedgerDb \<Rightarrow> string option" where
  "holder org item db =
     (case item_of db (org_to_db org) (item_to_db item) of
        None \<Rightarrow> None | Some r \<Rightarrow> if is_live_lease r then ji_lease_owner r else None)"

definition release :: "TxEnv \<Rightarrow> LeaseRef \<Rightarrow> unit tx" where
  "release env lease =
     tx_bind (fenced_row env lease (\<lambda>r. Some (unleased r \<lparr>ji_state := ''queued''\<rparr>))) (\<lambda>_. tx_return ())"

definition repo_park :: "TxEnv \<Rightarrow> LeaseRef \<Rightarrow> string \<Rightarrow> i64 \<Rightarrow> unit tx" where
  "repo_park env lease blocked_on park_for_seconds =
     tx_bind (fenced_row env lease (\<lambda>r. Some (parked_on blocked_on
         (Some (plus_secs (te_now env) (i32_or_max park_for_seconds))) r))) (\<lambda>_. tx_return ())"

definition repo_preflight_failed :: "TxEnv \<Rightarrow> LeaseRef \<Rightarrow> bool \<Rightarrow> PreflightStreak tx" where
  "repo_preflight_failed env lease edge_class =
     tx_bind (fenced_row env lease (\<lambda>r. map_option (\<lambda>n.
         r \<lparr>ji_preflight_failures := n, ji_preflight_challenge_only := ji_preflight_challenge_only r \<and> edge_class\<rparr>)
         (checked_signed 32 (ji_preflight_failures r + 1)))) (\<lambda>r.
       tx_bind (tx_lift (if 0 \<le> ji_preflight_failures r then Inr (of_int (ji_preflight_failures r))
                         else Inl (Inconsistent (''a job item count does not fit the event vocabulary: ''
                                @ signed_decimal (ji_preflight_failures r))))) (\<lambda>n.
         tx_return \<lparr>ps_failures = n, ps_edge_only = ji_preflight_challenge_only r\<rparr>))"

text \<open>No row is the answer of a streak already at zero as well, so nothing is refused.\<close>

definition preflight_succeeded :: "TxEnv \<Rightarrow> LeaseRef \<Rightarrow> unit tx" where
  "preflight_succeeded env lease =
     tx_bind (run_stmt (update_items env
         (\<lambda>_ r. held_under lease r \<and> (ji_preflight_failures r \<noteq> 0 \<or> \<not> ji_preflight_challenge_only r))
         (\<lambda>r. Some (r \<lparr>ji_preflight_failures := 0, ji_preflight_challenge_only := True\<rparr>))))
       (\<lambda>_. tx_return ())"

subsection \<open>Settling an item\<close>

definition item_settled_as :: "ItemVerdict \<Rightarrow> DateTime \<Rightarrow> ItemRow \<Rightarrow> ItemRow" where
  "item_settled_as verdict d r = unleased r
     \<lparr>ji_state := ''settled'', ji_outcome := Some (item_outcome_to_db (iv_outcome verdict)),
      ji_failure_code := map_option failure_code_to_db (iv_failure_code verdict),
      ji_failure_detail := map_option detail_text (iv_failure_detail verdict), ji_settled_at := Some d\<rparr>"

text \<open>The \<open>Debug\<close> form of an outcome.\<close>

fun outcome_dbg :: "ItemOutcome \<Rightarrow> string" where
  "outcome_dbg IO_Succeeded = ''Succeeded''"
| "outcome_dbg IO_Degraded = ''Degraded''"
| "outcome_dbg IO_Failed = ''Failed''"
| "outcome_dbg IO_Ambiguous = ''Ambiguous''"
| "outcome_dbg IO_Skipped = ''Skipped''"
| "outcome_dbg IO_Blocked = ''Blocked''"

definition settle_inner ::
  "TxEnv \<Rightarrow> LeaseRef \<Rightarrow> ItemVerdict \<Rightarrow> Timestamp \<Rightarrow> (Stamp \<times> Timestamp option) option \<Rightarrow> unit tx" where
  "settle_inner env lease verdict at event =
     tx_bind (lock_owning_job (lr_org lease) (lr_item lease)) (\<lambda>owner.
       if owner = None then tx_fail StaleLease
       else
         tx_bind (tx_lift (timestamp_to_db (te_std env) at)) (\<lambda>d.
         tx_bind (fenced_row env lease (\<lambda>r. Some (item_settled_as verdict d r))) (\<lambda>row.
         let job = JobId (uuid_from_db (ji_job_id row)) in
         tx_bind (case event of
                    None \<Rightarrow> tx_return ()
                  | Some (stamp, asserted) \<Rightarrow> append_event_asserted env
                      \<lparr>es_org = lr_org lease, es_job = job, es_item = Some (lr_item lease)\<rparr>
                      (JE_ItemSettled (outcome_dbg (iv_outcome verdict))) stamp asserted) (\<lambda>_.
         tx_bind (settle_if_complete env (lr_org lease) job at) (\<lambda>_.
         tx_bind (reconcile_job_deletion env (lr_org lease) job
                    (case event of None \<Rightarrow> stamp_system CEngine at | Some (stamp, _) \<Rightarrow> stamp)) (\<lambda>_.
           tx_return ()))))))"

definition repo_settle :: "TxEnv \<Rightarrow> LeaseRef \<Rightarrow> ItemVerdict \<Rightarrow> Timestamp \<Rightarrow> unit tx" where
  "repo_settle env lease verdict at = settle_inner env lease verdict at None"

definition settle_recorded ::
  "TxEnv \<Rightarrow> LeaseRef \<Rightarrow> ItemVerdict \<Rightarrow> Timestamp \<Rightarrow> Stamp \<times> Timestamp option \<Rightarrow> unit tx" where
  "settle_recorded env lease verdict at event = settle_inner env lease verdict at (Some event)"

subsection \<open>Handing an item back\<close>

definition spent_failed :: "FailureDetail option \<Rightarrow> DateTime \<Rightarrow> ItemRow \<Rightarrow> ItemRow option" where
  "spent_failed detail d r = next_epoch (\<lambda>n. unleased r
     \<lparr>ji_state := ''settled'', ji_outcome := Some ''failed'',
      ji_failure_code := Some (failure_code_to_db OtherFailure), ji_failure_detail := map_option detail_text detail,
      ji_settled_at := Some d, ji_lease_epoch := n\<rparr>) r"

definition requeued :: "ItemRow \<Rightarrow> ItemRow option" where
  "requeued r =
     (if in_signed 32 (ji_attempt_count r + 1) then
        next_epoch (\<lambda>n. unleased r
          \<lparr>ji_state := ''queued'', ji_attempt_count := ji_attempt_count r + 1, ji_lease_epoch := n\<rparr>) r
      else None)"

definition charge_and_requeue ::
  "TxEnv \<Rightarrow> LeaseRef \<Rightarrow> i32 \<Rightarrow> FailureDetail option \<Rightarrow> Timestamp \<Rightarrow> Charged tx" where
  "charge_and_requeue env lease attempts_max detail now =
     tx_bind (lock_owning_job (lr_org lease) (lr_item lease)) (\<lambda>owner.
       if owner = None then tx_fail StaleLease
       else
         tx_bind (tx_read (\<lambda>db. List.find (held_under lease) (ld_items db))) (\<lambda>held.
           case held of
             None \<Rightarrow> tx_fail StaleLease
           | Some row \<Rightarrow>
               let spent = attempt_budget_spent (ji_attempt_count row) attempts_max;
                   job = JobId (uuid_from_db (ji_job_id row))
               in
               tx_bind (tx_lift (timestamp_to_db (te_std env) now)) (\<lambda>d.
               tx_bind (if spent
                        then tx_bind (fenced_row env lease (spent_failed detail d)) (\<lambda>_.
                               tx_bind (settle_if_complete env (lr_org lease) job now) (\<lambda>_. tx_return ()))
                        else tx_bind (fenced_row env lease requeued) (\<lambda>_. tx_return ())) (\<lambda>_.
               tx_bind (reconcile_job_deletion env (lr_org lease) job (stamp_system CEngine now)) (\<lambda>_.
                 tx_return (if spent then Settled_Item else Requeued_Item))))))"

text \<open>
  A create whose write may have landed: an attempt in flight under the item's own epoch, and a mapping not yet
  bound.
\<close>

definition undecided_create :: "LedgerDb \<Rightarrow> ItemRow \<Rightarrow> bool" where
  "undecided_create db r \<longleftrightarrow>
     oc_operation (ji_operation r) = ''create''
   \<and> list_ex (\<lambda>w. wa_state w = ''in_flight'' \<and> wa_lease_epoch w = ji_lease_epoch r) (attempts_of db r)
   \<and> (case mapping_of db (ji_org_id r) (ji_mapping_id r) of None \<Rightarrow> True | Some m \<Rightarrow> mr_binding_state m \<noteq> ''bound'')"

definition park_undecided :: "TxEnv \<Rightarrow> LeaseRef \<Rightarrow> LedgerDb \<Rightarrow> SqlxError + ItemRow list \<times> LedgerDb" where
  "park_undecided env lease =
     update_items env (\<lambda>db r. held_under lease r \<and> undecided_create db r)
       (\<lambda>r. Some (parked_on AWAITING_MARKETPLACE_ANSWER None r))"

definition STOPPED_WITHOUT_DECIDING :: string where
  "STOPPED_WITHOUT_DECIDING = ''the device that claimed this item stopped without deciding it''"

text \<open>Two transactions: the second begins only where the first parked nothing.\<close>

definition repo_hand_back ::
  "TxEnv \<Rightarrow> TxEnv \<Rightarrow> LeaseRef \<Rightarrow> i32 \<Rightarrow> Timestamp \<Rightarrow> LedgerDb \<Rightarrow> (StorageError + HandedBack) \<times> LedgerDb" where
  "repo_hand_back env env' lease attempts_max now db =
     (case park_undecided env lease db of
        Inl e \<Rightarrow> (Inl (Db e), db)
      | Inr (parked, db') \<Rightarrow>
          if parked \<noteq> [] then (Inr HB_Parked, db')
          else
            (case charge_and_requeue env' lease attempts_max (Some (FailureDetail STOPPED_WITHOUT_DECIDING)) now db of
               Inl e \<Rightarrow> (Inl e, db)
             | Inr (Requeued_Item, db') \<Rightarrow> (Inr HB_Requeued, db')
             | Inr (Settled_Item, db') \<Rightarrow> (Inr HB_Settled, db')))"

subsection \<open>The maintenance loop\<close>

definition lapsed :: "TxEnv \<Rightarrow> ItemRow \<Rightarrow> bool" where
  "lapsed env r \<longleftrightarrow> is_live_lease r \<and> passed (te_now env) (ji_lease_expires_at r)"

definition budget_over :: "i32 \<Rightarrow> ItemRow \<Rightarrow> bool" where
  "budget_over attempts_max r \<longleftrightarrow> ji_attempt_count r + 1 \<ge> attempts_max"

text \<open>The pairs of organisation and job, each at its first occurrence.\<close>

definition jobs_seen :: "ItemRow list \<Rightarrow> (u8 list \<times> u8 list) list" where
  "jobs_seen rows = rev (remdups (rev (map (\<lambda>r. (ji_org_id r, ji_job_id r)) rows)))"

definition settle_seen :: "TxEnv \<Rightarrow> Timestamp \<Rightarrow> ItemRow list \<Rightarrow> unit tx" where
  "settle_seen env now rows =
     tx_each (\<lambda>(org, job). settle_if_complete env (OrgId (uuid_from_db org)) (JobId (uuid_from_db job)) now)
       (jobs_seen rows)"

definition u64_count :: "nat \<Rightarrow> nat" where "u64_count n = min n (2 ^ 64 - 1)"

definition exhausted_row :: "DateTime \<Rightarrow> ItemRow \<Rightarrow> ItemRow option" where
  "exhausted_row d r =
     (if in_signed 32 (ji_attempt_count r + 1) then
        next_epoch (\<lambda>n. unleased r
          \<lparr>ji_state := ''settled'', ji_outcome := Some ''failed'', ji_failure_code := Some ''Other'',
           ji_settled_at := Some d, ji_lease_epoch := n\<rparr>) r
      else None)"

definition expire_and_steal :: "TxEnv \<Rightarrow> Timestamp \<Rightarrow> i32 \<Rightarrow> nat tx" where
  "expire_and_steal env now attempts_max =
     tx_bind (tx_lift (timestamp_to_db (te_std env) now)) (\<lambda>d.
     tx_bind (run_stmt (update_items env (\<lambda>db r. lapsed env r \<and> undecided_create db r)
                (\<lambda>r. Some (parked_on AWAITING_MARKETPLACE_ANSWER None r)))) (\<lambda>stranded.
     tx_bind (run_stmt (update_items env
                (\<lambda>db r. lapsed env r \<and> budget_over attempts_max r \<and> \<not> stopped db (ji_org_id r) (ji_job_id r))
                (exhausted_row d))) (\<lambda>failed.
     tx_bind (run_stmt (update_items env (\<lambda>db r. lapsed env r \<and> \<not> stopped db (ji_org_id r) (ji_job_id r)) requeued)) (\<lambda>stolen.
     tx_bind (settle_seen env now failed) (\<lambda>_.
       tx_return (u64_count (length failed + length stolen + length stranded)))))))"

definition gate_open :: "TxEnv \<Rightarrow> ItemRow \<Rightarrow> bool" where
  "gate_open env r \<longleftrightarrow>
     ji_state r = ''parked_live'' \<and> passed (te_now env) (ji_park_expires_at r)
   \<and> (case ji_blocked_on r of None \<Rightarrow> False | Some gate \<Rightarrow> gate \<in> set REVIVABLE_GATES)"

definition unparked :: "ItemRow \<Rightarrow> ItemRow" where
  "unparked r = r \<lparr>ji_blocked_on := None, ji_park_expires_at := None\<rparr>"

definition given_up :: "DateTime \<Rightarrow> ItemRow \<Rightarrow> ItemRow option" where
  "given_up d r =
     (if in_signed 32 (ji_attempt_count r + 1) then
        Some (unparked r
          \<lparr>ji_state := ''settled'', ji_outcome := Some ''skipped'',
           ji_failure_code := Some (failure_code_to_db OtherFailure),
           ji_failure_detail := Some (''the gate '' @ (case ji_blocked_on r of None \<Rightarrow> ''unknown'' | Some gate \<Rightarrow> gate)
             @ '' did not clear within the attempt budget''),
           ji_settled_at := Some d\<rparr>)
      else None)"

definition charged_one :: "ItemRow \<Rightarrow> ItemRow option" where
  "charged_one r = map_option (\<lambda>n. r \<lparr>ji_attempt_count := n\<rparr>) (checked_signed 32 (ji_attempt_count r + 1))"

definition revived_row :: "ItemRow \<Rightarrow> ItemRow option" where
  "revived_row r = map_option (\<lambda>r'. unparked r' \<lparr>ji_state := ''queued''\<rparr>) (charged_one r)"

definition linked :: "LedgerDb \<Rightarrow> u8 list \<Rightarrow> string \<Rightarrow> bool" where
  "linked db org marketplace \<longleftrightarrow>
     list_ex (\<lambda>c. cn_org_id c = org \<and> cn_marketplace c = marketplace \<and> cn_state c = ''linked'')
       (wd_connections (ld_world db))"

definition relinkable :: "LedgerDb \<Rightarrow> ItemRow \<Rightarrow> bool" where
  "relinkable db r \<longleftrightarrow>
     ji_state r = ''parked_live'' \<and> ji_blocked_on r = Some REAUTH_REQUIRED \<and> oc_operation (ji_operation r) \<noteq> ''create''
   \<and> (case job_of db (ji_org_id r) (ji_job_id r) of
        None \<Rightarrow> False
      | Some j \<Rightarrow> jb_deletion_requested_at j = None \<and> linked db (ji_org_id r) (jb_marketplace j))"

text \<open>The attempt of an item the re-link frees: it names the listing the item was about, and no write.\<close>

definition freed_attempt :: "DateTime \<Rightarrow> LedgerDb \<Rightarrow> AttemptRow \<Rightarrow> AttemptRow" where
  "freed_attempt d db w =
     (case List.find (\<lambda>r. relinkable db r \<and> ji_org_id r = wa_org_id w \<and> ji_id r = wa_job_item_id w) (ld_items db) of
        None \<Rightarrow> w
      | Some r \<Rightarrow> w \<lparr>wa_state := ''abandoned'', wa_settled_at := Some d,
                    wa_remote_id_kind := oc_subject_kind (ji_operation r),
                    wa_remote_url := oc_subject_url (ji_operation r),
                    wa_remote_numeric_id := oc_subject_numeric_id (ji_operation r)\<rparr>)"

text \<open>
  One statement: the rows eligible are read once, their attempts are released and they are queued again.
\<close>

definition release_relinked :: "TxEnv \<Rightarrow> DateTime \<Rightarrow> ItemRow list tx" where
  "release_relinked env d =
     tx_bind (run_stmt (update_attempts env
         (\<lambda>db w. wa_state w = ''in_flight''
            \<and> list_ex (\<lambda>r. relinkable db r \<and> ji_org_id r = wa_org_id w \<and> ji_id r = wa_job_item_id w) (ld_items db))
         (freed_attempt d))) (\<lambda>_.
       run_stmt (update_items env relinkable revived_row))"

definition revive_expired :: "TxEnv \<Rightarrow> Timestamp \<Rightarrow> i32 \<Rightarrow> Revived tx" where
  "revive_expired env now attempts_max =
     tx_bind (tx_lift (timestamp_to_db (te_std env) now)) (\<lambda>d.
     tx_bind (run_stmt (update_items env (\<lambda>_ r. gate_open env r \<and> budget_over attempts_max r) (given_up d))) (\<lambda>exhausted.
     tx_bind (run_stmt (update_items env (\<lambda>db r. gate_open env r \<and> \<not> stopped db (ji_org_id r) (ji_job_id r)) revived_row)) (\<lambda>revived.
     tx_bind (record_resumptions env revived now) (\<lambda>_.
     tx_bind (run_stmt (update_items env
                (\<lambda>_ r. ji_state r = ''parked_live'' \<and> passed (te_now env) (ji_park_expires_at r)
                     \<and> ji_blocked_on r = Some REAUTH_REQUIRED \<and> oc_operation (ji_operation r) = ''create'')
                (\<lambda>r. Some (r \<lparr>ji_blocked_on := Some AWAITING_SELLER_SIGNIN, ji_park_expires_at := None\<rparr>)))) (\<lambda>re_gated.
     tx_bind (tx_each (\<lambda>r. append_event env (item_scope r) (JE_ItemGateChanged AWAITING_SELLER_SIGNIN)
                             (stamp_system CEngine now)) re_gated) (\<lambda>_.
     tx_bind (release_relinked env d) (\<lambda>relinked.
     tx_bind (record_resumptions env relinked now) (\<lambda>_.
     tx_bind (settle_seen env now exhausted) (\<lambda>_.
       tx_return \<lparr>rv_requeued = u64_count (length revived + length relinked),
                  rv_re_gated = u64_count (length re_gated)\<rparr>)))))))))"

subsection \<open>Revivals by what they waited for\<close>

definition requeue_parked ::
  "TxEnv \<Rightarrow> OrgId \<Rightarrow> (LedgerDb \<Rightarrow> ItemRow \<Rightarrow> bool) \<Rightarrow> string \<Rightarrow> Timestamp \<Rightarrow> nat tx" where
  "requeue_parked env org sel gate at =
     tx_bind (run_stmt (update_items env
         (\<lambda>db r. ji_org_id r = org_to_db org \<and> ji_state r = ''parked_live'' \<and> ji_blocked_on r = Some gate
               \<and> sel db r \<and> \<not> stopped db (ji_org_id r) (ji_job_id r))
         (\<lambda>r. Some (unparked r \<lparr>ji_state := ''queued''\<rparr>)))) (\<lambda>revived.
     tx_bind (record_resumptions env revived at) (\<lambda>_. tx_return (u64_count (length revived))))"

definition revive_by_gap :: "TxEnv \<Rightarrow> OrgId \<Rightarrow> string \<Rightarrow> Timestamp \<Rightarrow> nat tx" where
  "revive_by_gap env org gate at = requeue_parked env org (\<lambda>_ _. True) gate at"

definition revive_on :: "TxEnv \<Rightarrow> OrgId \<Rightarrow> MappingId \<Rightarrow> string \<Rightarrow> Timestamp \<Rightarrow> nat tx" where
  "revive_on env org mapping gate at =
     requeue_parked env org (\<lambda>_ r. ji_mapping_id r = mapping_to_db mapping) gate at"

definition revive_counterparts :: "TxEnv \<Rightarrow> OrgId \<Rightarrow> MappingId \<Rightarrow> Timestamp \<Rightarrow> nat tx" where
  "revive_counterparts env org bound at =
     requeue_parked env org (\<lambda>db r.
         case (mapping_of db (org_to_db org) (ji_mapping_id r), mapping_of db (org_to_db org) (mapping_to_db bound)) of
           (Some waiting, Some landed) \<Rightarrow>
             mr_product_id waiting = mr_product_id landed \<and> ji_requires_bound_on r = Some (mr_inventory landed)
         | _ \<Rightarrow> False) AWAITING_COUNTERPART at"

end
