(* ===== verification/ClaimStore.thy ===== *)
theory ClaimStore
  imports LeaseStore
begin

section \<open>Claims (crate tam-storage, jobs.rs, LeaseRepo)\<close>

text \<open>
  The two scans that grant a lease, the server's over the marketplaces with an official interface and the device's
  over those the seller's own device works, and the reads of what is leased.
\<close>

record ClaimedItem = LeasedItem +
  ci_stranded_attempt :: "Uuid option"
  ci_stranded_title :: "string option"

record DeviceRef =
  df_org :: OrgId
  df_device :: string

record ClaimPolicy =
  cp_ttl_seconds :: i64
  cp_grace_hours :: i64
  cp_marketplace :: "Marketplace option"
  cp_reconcile :: bool

datatype DeviceClaim = Leased ClaimedItem | Empty | HeldByAnotherDevice

subsection \<open>What a claim asks of the tables\<close>

definition inventory_of :: "LedgerDb \<Rightarrow> JobRow \<Rightarrow> InventoryRow option" where
  "inventory_of db j =
     List.find (\<lambda>mi. inv_code mi = jb_inventory j \<and> inv_marketplace mi = jb_marketplace j) (wd_inventories (ld_world db))"

definition halted :: "LedgerDb \<Rightarrow> JobRow \<Rightarrow> ItemRow \<Rightarrow> bool" where
  "halted db j r \<longleftrightarrow>
     (jb_inventory j, jb_marketplace j) \<in> set (wd_inventory_halts (ld_world db))
   \<or> ji_org_id r \<in> set (wd_org_halts (ld_world db))
   \<or> (ji_org_id r, jb_inventory j, jb_marketplace j) \<in> set (wd_org_inventory_halts (ld_world db))"

definition account_busy :: "LedgerDb \<Rightarrow> ItemRow \<Rightarrow> bool" where
  "account_busy db r \<longleftrightarrow> list_ex (\<lambda>l. live_lease l = Some (ji_org_id r, ji_marketplace r)) (ld_items db)"

definition runs_over :: "LedgerDb \<Rightarrow> string \<Rightarrow> JobRow \<Rightarrow> bool" where
  "runs_over db transport j =
     (case inventory_of db j of None \<Rightarrow> False | Some mi \<Rightarrow> inv_transport_class mi = transport)"

text \<open>The conditions both scans share.\<close>

definition open_to_work :: "LedgerDb \<Rightarrow> string \<Rightarrow> JobRow \<Rightarrow> ItemRow \<Rightarrow> bool" where
  "open_to_work db transport j r \<longleftrightarrow>
     runs_over db transport j \<and> \<not> halted db j r \<and> linked db (ji_org_id r) (jb_marketplace j) \<and> \<not> account_busy db r"

definition server_candidate :: "LedgerDb \<Rightarrow> ItemRow \<Rightarrow> bool" where
  "server_candidate db r \<longleftrightarrow>
     (case job_of db (ji_org_id r) (ji_job_id r) of
        None \<Rightarrow> False
      | Some j \<Rightarrow> ji_state r = ''queued'' \<and> jb_deletion_requested_at j = None \<and> open_to_work db ''official_api'' j r)"

definition item_key :: "ItemRow \<Rightarrow> u8 list \<times> u8 list" where
  "item_key r = (ji_org_id r, ji_id r)"

definition lease_to :: "TxEnv \<Rightarrow> string \<Rightarrow> i64 \<Rightarrow> ItemRow \<Rightarrow> ItemRow" where
  "lease_to env owner ttl_seconds r =
     r \<lparr>ji_state := ''leased'', ji_lease_owner := Some owner,
        ji_lease_expires_at := Some (plus_secs (te_now env) (i32_or_max ttl_seconds))\<rparr>"

text \<open>The row as the answer, decoded; the code the item names and the operation it stores may be refused.\<close>

definition decode_leased :: "Std \<Rightarrow> string \<Rightarrow> ItemRow \<Rightarrow> Uuid option \<Rightarrow> string option \<Rightarrow> StorageError + ClaimedItem" where
  "decode_leased std inventory r attempt title =
     try_bind (inventory_from_db std inventory) (\<lambda>inv.
     try_bind (operation_decode std (ji_operation r)) (\<lambda>operation.
     try_bind (transposed (inventory_from_db std) (ji_requires_bound_on r)) (\<lambda>requires.
       Inr \<lparr>le_org = OrgId (uuid_from_db (ji_org_id r)), le_item = JobItemId (uuid_from_db (ji_id r)),
            le_job = JobId (uuid_from_db (ji_job_id r)), le_mapping = MappingId (uuid_from_db (ji_mapping_id r)),
            le_inventory = inv, le_idempotency_key = IdempotencyKey (uuid_from_db (ji_idempotency_key r)),
            le_operation = operation, le_lease_epoch = ji_lease_epoch r, le_attempt_count = ji_attempt_count r,
            le_requires_bound_on = requires, ci_stranded_attempt = attempt, ci_stranded_title = title\<rparr>)))"

definition job_inventory :: "LedgerDb \<Rightarrow> ItemRow \<Rightarrow> string" where
  "job_inventory db r = (case job_of db (ji_org_id r) (ji_job_id r) of None \<Rightarrow> [] | Some j \<Rightarrow> jb_inventory j)"

subsection \<open>The server's scan\<close>

definition next_for_server :: "LedgerDb \<Rightarrow> ItemRow option" where
  "next_for_server db =
     (case by_age ji_created_at ji_id (filter (server_candidate db) (ld_items db)) of [] \<Rightarrow> None | r # _ \<Rightarrow> Some r)"

definition grant :: "TxEnv \<Rightarrow> ItemRow \<Rightarrow> (ItemRow \<Rightarrow> ItemRow) \<Rightarrow> LedgerDb \<Rightarrow> SqlxError + ItemRow list \<times> LedgerDb" where
  "grant env r f = update_items env (\<lambda>_ x. item_key x = item_key r) (\<lambda>x. Some (f x))"

text \<open>The answer is decoded after the transaction has committed.\<close>

definition acquire ::
  "TxEnv \<Rightarrow> string \<Rightarrow> i64 \<Rightarrow> LedgerDb \<Rightarrow> (StorageError + ClaimedItem option) \<times> LedgerDb" where
  "acquire env worker ttl_seconds db =
     (case next_for_server db of
        None \<Rightarrow> (Inr None, db)
      | Some r \<Rightarrow>
          (case map_unique ONE_LIVE_LEASE StaleLease (grant env r (lease_to env worker ttl_seconds)) db of
             Inl e \<Rightarrow> (if e = StaleLease then Inr None else Inl e, db)
           | Inr (rows, db') \<Rightarrow>
               (case rows of
                  [] \<Rightarrow> (Inr None, db')
                | row # _ \<Rightarrow>
                    (try_bind (decode_leased (te_std env) (job_inventory db row) row None None) (\<lambda>i. Inr (Some i)), db'))))"

subsection \<open>The device's scan\<close>

definition payload_sourced :: "LedgerDb \<Rightarrow> ItemRow \<Rightarrow> bool" where
  "payload_sourced db r =
     (case mapping_of db (ji_org_id r) (ji_mapping_id r) of
        None \<Rightarrow> False
      | Some m \<Rightarrow> list_ex (\<lambda>f. pf_org_id f = mr_org_id m \<and> pf_product_id f = mr_product_id m \<and> pf_role f = ''payload''
                              \<and> pf_deleted_at f = None \<and> pf_hash f = None) (wd_files (ld_world db)))"

definition reconcilable :: "LedgerDb \<Rightarrow> ItemRow \<Rightarrow> bool" where
  "reconcilable db r \<longleftrightarrow>
     oc_operation (ji_operation r) = ''create'' \<and> ji_state r = ''parked_live''
   \<and> ji_blocked_on r \<in> {Some AWAITING_SELLER_SIGNIN, Some AWAITING_MARKETPLACE_ANSWER}
   \<and> list_ex (\<lambda>w. wa_state w = ''in_flight'') (attempts_of db r)"

definition device_ready :: "LedgerDb \<Rightarrow> DeviceRef \<Rightarrow> JobRow \<Rightarrow> ItemRow \<Rightarrow> bool" where
  "device_ready db claimant j r \<longleftrightarrow>
     ji_org_id r = org_to_db (df_org claimant)
   \<and> list_ex (\<lambda>d. dv_org_id d = ji_org_id r \<and> dv_id d = df_device claimant \<and> dv_revoked_at d = None)
       (wd_devices (ld_world db))
   \<and> list_ex (\<lambda>s. dms_org_id s = ji_org_id r \<and> dms_device_id s = df_device claimant
                 \<and> dms_marketplace s = jb_marketplace j \<and> dms_status s = ''connected'') (wd_sessions (ld_world db))"

definition lapsed_plan :: "TxEnv \<Rightarrow> ClaimPolicy \<Rightarrow> LedgerDb \<Rightarrow> ItemRow \<Rightarrow> bool" where
  "lapsed_plan env policy db r \<longleftrightarrow>
     list_ex (\<lambda>b. bs_org_id b = ji_org_id r \<and> bs_status b \<notin> {''active'', ''trialing''}
                 \<and> (case bs_current_period_end b of
                      None \<Rightarrow> False
                    | Some d \<Rightarrow> dt_nanos d < dt_nanos (plus_secs (te_now env) (- 3600 * i32_or_max (cp_grace_hours policy)))))
       (wd_subscriptions (ld_world db))"

definition device_candidate :: "TxEnv \<Rightarrow> DeviceRef \<Rightarrow> ClaimPolicy \<Rightarrow> bool \<Rightarrow> LedgerDb \<Rightarrow> ItemRow \<Rightarrow> bool" where
  "device_candidate env claimant policy runs_sourced db r \<longleftrightarrow>
     (case job_of db (ji_org_id r) (ji_job_id r) of
        None \<Rightarrow> False
      | Some j \<Rightarrow>
          (ji_state r = ''queued'' \<and> jb_deletion_requested_at j = None \<or> cp_reconcile policy \<and> reconcilable db r)
        \<and> (case cp_marketplace policy of None \<Rightarrow> True | Some m \<Rightarrow> ji_marketplace r = marketplace_to_db m)
        \<and> device_ready db claimant j r \<and> \<not> lapsed_plan env policy db r
        \<and> open_to_work db ''seller_device'' j r \<and> (runs_sourced \<or> \<not> payload_sourced db r))"

text \<open>The reconciles first, then the oldest.\<close>

definition next_for_device :: "TxEnv \<Rightarrow> DeviceRef \<Rightarrow> ClaimPolicy \<Rightarrow> bool \<Rightarrow> LedgerDb \<Rightarrow> ItemRow option" where
  "next_for_device env claimant policy runs_sourced db =
     (case sort_key (\<lambda>r. if ji_state r = ''parked_live'' then 0 else (1 :: nat))
             (by_age ji_created_at ji_id (filter (device_candidate env claimant policy runs_sourced db) (ld_items db))) of
        [] \<Rightarrow> None | r # _ \<Rightarrow> Some r)"

text \<open>
  An intent's \<open>entries\<close> are pairs of a field's name and its value; the title is the second of the pair whose first is
  \<open>Title\<close>. Elements that are no such pair have no first or second to compare.
\<close>

definition json_entries :: "Json \<Rightarrow> Json list" where
  "json_entries body =
     (case body of J_Object f \<Rightarrow> (case f ''entries'' of Some (J_Array es) \<Rightarrow> es | _ \<Rightarrow> []) | _ \<Rightarrow> [])"

fun entry_title :: "Json \<Rightarrow> string option option" where
  "entry_title (J_Array (J_String name # rest)) =
     (if name = ''Title'' then Some (case rest of J_String text # _ \<Rightarrow> Some text | _ \<Rightarrow> None) else None)"
| "entry_title _ = None"

definition stranded_of :: "LedgerDb \<Rightarrow> ItemRow \<Rightarrow> AttemptRow option" where
  "stranded_of db r = List.find (\<lambda>w. wa_state w = ''in_flight'' \<and> wa_lease_epoch w = ji_lease_epoch r
     \<and> list_ex (\<lambda>e. entry_title e \<noteq> None) (json_entries (wa_intent w))) (attempts_of db r)"

definition title_of :: "AttemptRow \<Rightarrow> string option" where
  "title_of w = (case List.map_filter entry_title (json_entries (wa_intent w)) of [] \<Rightarrow> None | t # _ \<Rightarrow> t)"

definition device_runs_sourced :: "DeviceRef \<Rightarrow> LedgerDb \<Rightarrow> bool" where
  "device_runs_sourced claimant db =
     (case List.find (\<lambda>d. dv_org_id d = org_to_db (df_org claimant) \<and> dv_id d = df_device claimant)
             (wd_devices (ld_world db)) of
        None \<Rightarrow> False | Some d \<Rightarrow> runs_sourced_payloads (dv_app_version d))"

definition held_by_another :: "DeviceRef \<Rightarrow> ClaimPolicy \<Rightarrow> LedgerDb \<Rightarrow> bool" where
  "held_by_another claimant policy db \<longleftrightarrow>
     (case List.find (\<lambda>r. ji_org_id r = org_to_db (df_org claimant) \<and> is_live_lease r
                        \<and> ji_lease_owner r \<noteq> Some (df_device claimant)
                        \<and> (case cp_marketplace policy of None \<Rightarrow> True | Some m \<Rightarrow> ji_marketplace r = marketplace_to_db m))
             (ld_items db) of
        None \<Rightarrow> False | Some r \<Rightarrow> ji_lease_owner r \<noteq> None)"

definition lease_to_device :: "TxEnv \<Rightarrow> DeviceRef \<Rightarrow> ClaimPolicy \<Rightarrow> ItemRow \<Rightarrow> ItemRow" where
  "lease_to_device env claimant policy r = unparked (lease_to env (df_device claimant) (cp_ttl_seconds policy) r)"

definition claim_event :: "TxEnv \<Rightarrow> DeviceRef \<Rightarrow> ItemRow \<Rightarrow> Timestamp \<Rightarrow> unit tx" where
  "claim_event env claimant row at =
     append_event env
       \<lparr>es_org = df_org claimant, es_job = JobId (uuid_from_db (ji_job_id row)),
        es_item = Some (JobItemId (uuid_from_db (ji_id row)))\<rparr>
       (JE_ItemLeased (df_device claimant) (ji_lease_epoch row)) (stamp_system CDevice at)"

definition claim_for_device ::
  "TxEnv \<Rightarrow> DeviceRef \<Rightarrow> ClaimPolicy \<Rightarrow> Timestamp \<Rightarrow> LedgerDb \<Rightarrow> (StorageError + DeviceClaim) \<times> LedgerDb" where
  "claim_for_device env claimant policy at db =
     (case next_for_device env claimant policy (device_runs_sourced claimant db) db of
        None \<Rightarrow> (Inr (if held_by_another claimant policy db then HeldByAnotherDevice else Empty), db)
      | Some r \<Rightarrow>
          (case map_unique ONE_LIVE_LEASE StaleLease (grant env r (lease_to_device env claimant policy)) db of
             Inl e \<Rightarrow> (if e = StaleLease then Inr HeldByAnotherDevice else Inl e, db)
           | Inr (rows, db') \<Rightarrow>
               (case rows of
                  [] \<Rightarrow> (Inr Empty, db)
                | row # _ \<Rightarrow>
                    (case claim_event env claimant row at db' of
                       Inl e \<Rightarrow> (Inl e, db)
                     | Inr (_, db'') \<Rightarrow>
                         let stranded = (if ji_state r = ''parked_live'' then stranded_of db r else None) in
                         (try_bind (decode_leased (te_std env) (job_inventory db row) row
                              (map_option (\<lambda>w. uuid_from_db (wa_id w)) stranded)
                              (Option.bind stranded title_of)) (\<lambda>i. Inr (Leased i)), db'')))))"

subsection \<open>Reading what is leased\<close>

definition leased_item :: "Std \<Rightarrow> OrgId \<Rightarrow> JobItemId \<Rightarrow> LedgerDb \<Rightarrow> StorageError + ClaimedItem option" where
  "leased_item std org item db =
     (case item_of db (org_to_db org) (item_to_db item) of
        None \<Rightarrow> Inr None
      | Some r \<Rightarrow>
          if is_live_lease r \<and> job_of db (ji_org_id r) (ji_job_id r) \<noteq> None
          then try_bind (decode_leased std (job_inventory db r) r None None) (\<lambda>i. Inr (Some i))
          else Inr None)"

definition payload_is_marketplace_sourced :: "OrgId \<Rightarrow> JobItemId \<Rightarrow> LedgerDb \<Rightarrow> bool" where
  "payload_is_marketplace_sourced org item db =
     (case item_of db (org_to_db org) (item_to_db item) of None \<Rightarrow> False | Some r \<Rightarrow> payload_sourced db r)"

definition fetchable_files :: "OrgId \<Rightarrow> string \<Rightarrow> LedgerDb \<Rightarrow> Uuid list" where
  "fetchable_files org device db =
     concat (map (\<lambda>r.
         case mapping_of db (ji_org_id r) (ji_mapping_id r) of
           None \<Rightarrow> []
         | Some m \<Rightarrow> map (\<lambda>f. uuid_from_db (pf_id f))
             (filter (\<lambda>f. pf_org_id f = mr_org_id m \<and> pf_product_id f = mr_product_id m
                        \<and> pf_role f \<in> {''payload'', ''cover''} \<and> pf_deleted_at f = None) (wd_files (ld_world db))))
       (filter (\<lambda>r. ji_org_id r = org_to_db org \<and> ji_lease_owner r = Some device \<and> is_live_lease r) (ld_items db)))"

definition repo_connection_for :: "OrgId \<Rightarrow> InventoryId \<Rightarrow> LedgerDb \<Rightarrow> Uuid option" where
  "repo_connection_for org inventory db =
     map_option (\<lambda>c. uuid_from_db (cn_id c))
       (List.find (\<lambda>c. cn_org_id c = org_to_db org \<and> cn_marketplace c = marketplace_to_db (marketplace_of inventory)
                     \<and> cn_state c = ''linked'') (wd_connections (ld_world db)))"

end
