(* ===== verification/AttemptStore.thy ===== *)
theory AttemptStore
  imports ClaimStore
begin

section \<open>Write attempts (crate tam-storage, jobs.rs, WriteAttemptRepo)\<close>

text \<open>
  The row written before a request is sent, and its settlement with what the write did to the mapping. An attempt in
  flight is the fence: its partial unique index refuses a second for the mapping.
\<close>

subsection \<open>Admission\<close>

text \<open>A fresh attempt needs a job nobody has stopped and an item its lease still holds.\<close>

definition assert_admissible_lease :: "LeaseRef \<Rightarrow> unit tx" where
  "assert_admissible_lease lease = (\<lambda>db.
     case item_of db (org_to_db (lr_org lease)) (item_to_db (lr_item lease)) of
       None \<Rightarrow> Inl StaleLease
     | Some r \<Rightarrow>
         (case job_of db (org_to_db (lr_org lease)) (ji_job_id r) of
            None \<Rightarrow> Inl StaleLease
          | Some j \<Rightarrow>
              if jb_deletion_requested_at j \<noteq> None then Inl StaleLease
              else if ji_lease_epoch r = lr_lease_epoch lease \<and> is_live_lease r then Inr ((), db)
              else Inl StaleLease))"

definition assert_current_epoch :: "LeaseRef \<Rightarrow> unit tx" where
  "assert_current_epoch lease = (\<lambda>db.
     case item_of db (org_to_db (lr_org lease)) (item_to_db (lr_item lease)) of
       None \<Rightarrow> Inl StaleLease
     | Some r \<Rightarrow> if ji_lease_epoch r = lr_lease_epoch lease then Inr ((), db) else Inl StaleLease)"

text \<open>Re-checked once the fencing row stands; a refusal rolls it back.\<close>

definition admit :: "LeaseRef \<Rightarrow> MappingId \<Rightarrow> unit tx" where
  "admit lease mapping = (\<lambda>db.
     case item_of db (org_to_db (lr_org lease)) (item_to_db (lr_item lease)) of
       None \<Rightarrow> Inr ((), db)
     | Some r \<Rightarrow>
         (case mapping_of db (ji_org_id r) (ji_mapping_id r) of
            None \<Rightarrow> Inr ((), db)
          | Some m \<Rightarrow>
              if ji_mapping_id r \<noteq> mapping_to_db mapping
              then Inl (Inconsistent ''the attempt names a mapping the item does not'')
              else if oc_operation (ji_operation r) = ''create'' \<and> mr_binding_state m = ''bound''
              then Inl MappingAlreadyBound
              else Inr ((), db)))"

subsection \<open>Opening\<close>

definition attempt_refusals :: "LedgerDb \<Rightarrow> AttemptRow \<Rightarrow> string list" where
  "attempt_refusals db w =
     (if item_of db (wa_org_id w) (wa_job_item_id w) = None then [''write_attempt_org_id_job_item_id_fkey''] else [])
   @ (if mapping_of db (wa_org_id w) (wa_mapping_id w) = None then [''write_attempt_org_id_mapping_id_fkey''] else [])
   @ concat (map (clashes attempt_indexes w) (ld_attempts db))"

text \<open>\<open>ON CONFLICT (org_id, id) DO NOTHING\<close>: whether the row was written.\<close>

definition insert_attempt :: "TxEnv \<Rightarrow> AttemptRow \<Rightarrow> LedgerDb \<Rightarrow> SqlxError + bool \<times> LedgerDb" where
  "insert_attempt env w db =
     (if list_ex (\<lambda>x. wa_org_id x = wa_org_id w \<and> wa_id x = wa_id w) (ld_attempts db) then Inr (False, db)
      else case attempt_refusals db w of
        [] \<Rightarrow> Inr (True, db \<lparr>ld_attempts := ld_attempts db @ [w]\<rparr>)
      | names \<Rightarrow> Inl (broke env names))"

definition new_attempt ::
  "LeaseRef \<Rightarrow> Uuid \<Rightarrow> MappingId \<Rightarrow> AttemptIntent \<Rightarrow> Stamp \<Rightarrow> DateTime \<Rightarrow> DateTime option \<Rightarrow> AttemptRow" where
  "new_attempt lease attempt mapping intent stamp d asserted_at =
     \<lparr>wa_org_id = org_to_db (lr_org lease), wa_id = uuid_to_db attempt, wa_job_item_id = item_to_db (lr_item lease),
      wa_mapping_id = mapping_to_db mapping, wa_lease_epoch = lr_lease_epoch lease, wa_intent = ai_body intent,
      wa_intent_hash = ai_hash intent, wa_state = ''in_flight'', wa_opened_at = d, wa_settled_at = None,
      wa_remote_id_kind = None, wa_remote_url = None, wa_remote_numeric_id = None, wa_failure_code = None,
      wa_ambiguity_cause = None, wa_actor_kind = actor_kind (st_actor stamp), wa_actor_id = actor_id (st_actor stamp),
      wa_asserted_at = asserted_at\<rparr>"

definition open_asserted ::
  "TxEnv \<Rightarrow> LeaseRef \<Rightarrow> Uuid \<Rightarrow> MappingId \<Rightarrow> AttemptIntent \<Rightarrow> Stamp \<Rightarrow> Timestamp option \<Rightarrow> unit tx" where
  "open_asserted env lease attempt mapping intent stamp asserted =
     tx_bind (assert_admissible_lease lease) (\<lambda>_.
     tx_bind (tx_lift (timestamp_to_db (te_std env) (st_at stamp))) (\<lambda>d.
     tx_bind (tx_lift (transposed (timestamp_to_db (te_std env)) asserted)) (\<lambda>asserted_at.
     tx_bind (map_unique ONE_IN_FLIGHT AttemptInFlight
                (insert_attempt env (new_attempt lease attempt mapping intent stamp d asserted_at))) (\<lambda>inserted.
       if inserted then admit lease mapping else tx_return ()))))"

definition repo_open_attempt :: "TxEnv \<Rightarrow> LeaseRef \<Rightarrow> Uuid \<Rightarrow> MappingId \<Rightarrow> AttemptIntent \<Rightarrow> Stamp \<Rightarrow> unit tx" where
  "repo_open_attempt env lease attempt mapping intent stamp = open_asserted env lease attempt mapping intent stamp None"

subsection \<open>What a landing did\<close>

fun addressed :: "LandingEffect \<Rightarrow> RemoteListingId option" where
  "addressed LE_None = None"
| "addressed (LE_Addressed listing) = Some listing"
| "addressed (LE_Landed listing lifecycle) = Some listing"
| "addressed (LE_Severed listing) = Some listing"

text \<open>A guarded update of the mappings: each row it writes is checked against those it leaves.\<close>

definition update_mappings ::
  "TxEnv \<Rightarrow> (StoredMapping \<Rightarrow> bool) \<Rightarrow> (StoredMapping \<Rightarrow> StoredMapping) \<Rightarrow> LedgerDb \<Rightarrow> SqlxError + nat \<times> LedgerDb" where
  "update_mappings env sel f db =
     (let md = ld_mapping db;
          hit = filter sel (md_mappings md);
          others = filter (Not \<circ> sel) (md_mappings md)
      in case concat (map (\<lambda>r. refusals md others (f r)) hit) of
           [] \<Rightarrow> Inr (length hit, db \<lparr>ld_mapping :=
                   md \<lparr>md_mappings := map (\<lambda>r. if sel r then f r else r) (md_mappings md)\<rparr>\<rparr>)
         | names \<Rightarrow> Inl (broke env names))"

definition with_lifecycle :: "LifecycleColumns \<Rightarrow> StoredMapping \<Rightarrow> StoredMapping" where
  "with_lifecycle lifecycle row =
     row \<lparr>mr_lifecycle_state := lc_state lifecycle, mr_lifecycle_since := lc_since lifecycle,
          mr_lifecycle_reason := lc_reason lifecycle\<rparr>"

definition landed_row :: "RemoteIdColumns \<Rightarrow> LifecycleColumns \<Rightarrow> DateTime \<Rightarrow> StoredMapping \<Rightarrow> StoredMapping" where
  "landed_row remote lifecycle d row =
     with_lifecycle lifecycle (pasted_row remote d row
       \<lparr>mr_binding_attempt := None, mr_binding_marker := None, mr_ambiguous_since := None, mr_severed_at := None,
        mr_sever_cause := None\<rparr>)"

definition bindable :: "u8 list \<Rightarrow> u8 list \<Rightarrow> StoredMapping \<Rightarrow> bool" where
  "bindable org mapping row \<longleftrightarrow>
     mr_org_id row = org \<and> mr_id row = mapping \<and> mr_binding_state row \<in> {''unbound'', ''creating'', ''severed''}"

definition bound_to :: "u8 list \<Rightarrow> u8 list \<Rightarrow> RemoteIdColumns \<Rightarrow> StoredMapping \<Rightarrow> bool" where
  "bound_to org mapping remote row \<longleftrightarrow>
     mr_org_id row = org \<and> mr_id row = mapping \<and> mr_binding_state row = ''bound''
   \<and> mr_remote_id_kind row = Some (rc_kind remote) \<and> mr_remote_url row = rc_url remote
   \<and> mr_remote_numeric_id row = rc_numeric_id remote"

definition severed_row :: "LifecycleColumns \<Rightarrow> DateTime \<Rightarrow> StoredMapping \<Rightarrow> StoredMapping" where
  "severed_row lifecycle d row =
     with_lifecycle lifecycle (row
       \<lparr>mr_binding_state := ''severed'', mr_severed_at := Some d, mr_sever_cause := Some ''removed_by_seller'',
        mr_verify_state := ''stale'', mr_verified_at := None, mr_verify_stale_since := None, mr_updated_at := d\<rparr>)"

definition relanded :: "TxEnv \<Rightarrow> u8 list \<Rightarrow> u8 list \<Rightarrow> DateTime \<Rightarrow> RemoteIdColumns \<Rightarrow> LifecycleColumns \<Rightarrow> unit tx" where
  "relanded env org mapping d remote lifecycle =
     tx_bind (run_stmt (update_mappings env (bound_to org mapping remote)
         (\<lambda>row. with_lifecycle lifecycle row \<lparr>mr_updated_at := d\<rparr>))) (\<lambda>_. tx_return ())"

definition BOUND_IDENTITY_INDEXES :: "string list" where
  "BOUND_IDENTITY_INDEXES = [''mapping_one_bound_url'', ''mapping_one_bound_numeric_id'']"

definition is_bound_identity_clash :: "SqlxError \<Rightarrow> bool" where
  "is_bound_identity_clash e = (case e of Violates name \<Rightarrow> name \<in> set BOUND_IDENTITY_INDEXES | OtherDb _ \<Rightarrow> False)"

definition claimed_elsewhere :: "u8 list \<Rightarrow> u8 list \<Rightarrow> RemoteIdColumns \<Rightarrow> LedgerDb \<Rightarrow> StorageError + BindDisposition" where
  "claimed_elsewhere org mapping remote db =
     (case mapping_of db org mapping of
        None \<Rightarrow> Inl (Inconsistent ''the bound remote identity was refused by an index that names no claimant'')
      | Some target \<Rightarrow>
          (case List.find (\<lambda>c. mr_inventory c = mr_inventory target \<and> bound_to org (mr_id c) remote c)
                  (md_mappings (ld_mapping db)) of
             None \<Rightarrow> Inl (Inconsistent ''the bound remote identity was refused by an index that names no claimant'')
           | Some c \<Rightarrow> Inr (BD_ClaimedElsewhere (MappingId (uuid_from_db (mr_id c))))))"

text \<open>Why a guarded write of the mapping matched no row.\<close>

definition standing_binding ::
  "Std \<Rightarrow> u8 list \<Rightarrow> u8 list \<Rightarrow> LedgerDb \<Rightarrow> StorageError + string + RemoteListingId" where
  "standing_binding std org mapping db =
     (case mapping_of db org mapping of
        None \<Rightarrow> Inl (CorruptRow ''the settled attempt names a mapping that does not exist'')
      | Some row \<Rightarrow>
          if mr_binding_state row \<noteq> ''bound'' then Inr (Inl (mr_binding_state row))
          else
            try_bind (needed ''bound binding without a remote id kind'' (mr_remote_id_kind row)) (\<lambda>kind.
            try_bind (remote_id_from_db std kind (mr_remote_url row) (mr_remote_numeric_id row)) (\<lambda>listing.
              Inr (Inr listing))))"

definition classify_bind ::
  "Std \<Rightarrow> u8 list \<Rightarrow> u8 list \<Rightarrow> RemoteListingId \<Rightarrow> LedgerDb \<Rightarrow> StorageError + BindDisposition" where
  "classify_bind std org mapping landed db =
     try_bind (standing_binding std org mapping db) (\<lambda>standing.
       Inr (case standing of
              Inl state \<Rightarrow> BD_Refused state
            | Inr listing \<Rightarrow> if listing = landed then BD_AlreadyBound else BD_DivergentLanding listing))"

definition classify_sever ::
  "Std \<Rightarrow> u8 list \<Rightarrow> u8 list \<Rightarrow> RemoteListingId \<Rightarrow> LedgerDb \<Rightarrow> StorageError + BindDisposition" where
  "classify_sever std org mapping severed db =
     try_bind (standing_binding std org mapping db) (\<lambda>standing.
       case standing of
         Inl state \<Rightarrow> Inr (BD_SeverRefused state)
       | Inr listing \<Rightarrow>
           if listing = severed
           then Inl (Inconsistent ''the sever matched no row against the identity the mapping holds'')
           else Inr (BD_SeverDiverged listing))"

text \<open>
  The bind under its savepoint: an identity another mapping holds is answered, every other error ends the
  transaction.
\<close>

definition land ::
  "TxEnv \<Rightarrow> u8 list \<Rightarrow> u8 list \<Rightarrow> DateTime \<Rightarrow> RemoteListingId \<Rightarrow> RemoteLifecycle \<Rightarrow> BindDisposition tx" where
  "land env org mapping d listing lifecycle = (\<lambda>db.
     try_bind (remote_encode listing) (\<lambda>remote.
     try_bind (lifecycle_encode (te_std env) lifecycle) (\<lambda>columns.
       case update_mappings env (bindable org mapping) (landed_row remote columns d) db of
         Inr (n, db') \<Rightarrow>
           if 0 < n then Inr (BD_Bound, db')
           else
             try_bind (classify_bind (te_std env) org mapping listing db) (\<lambda>classified.
               if classified = BD_AlreadyBound
               then tx_bind (relanded env org mapping d remote columns) (\<lambda>_. tx_return classified) db
               else Inr (classified, db))
       | Inl e \<Rightarrow>
           if is_bound_identity_clash e
           then try_bind (claimed_elsewhere org mapping remote db) (\<lambda>disposition. Inr (disposition, db))
           else Inl (Db e))))"

definition sever :: "TxEnv \<Rightarrow> u8 list \<Rightarrow> u8 list \<Rightarrow> DateTime \<Rightarrow> RemoteListingId \<Rightarrow> BindDisposition tx" where
  "sever env org mapping d listing = (\<lambda>db.
     try_bind (remote_encode listing) (\<lambda>remote.
     try_bind (lifecycle_encode (te_std env) L_Absent) (\<lambda>columns.
     try_bind (run_stmt (update_mappings env (bound_to org mapping remote) (severed_row columns d)) db) (\<lambda>(n, db').
       if 0 < n then (case checked_signed 32 (ld_generations db' (org, mapping) + 1) of None \<Rightarrow> Inl (Db OUT_OF_RANGE) | Some g \<Rightarrow>
         Inr (BD_Severed, db' \<lparr>ld_generations := (ld_generations db')((org, mapping) := g)\<rparr>))
       else try_bind (classify_sever (te_std env) org mapping listing db') (\<lambda>disposition. Inr (disposition, db'))))))"

subsection \<open>Settling\<close>

definition settled_attempt :: "AttemptVerdict \<Rightarrow> RemoteIdColumns option \<Rightarrow> DateTime \<Rightarrow> AttemptRow \<Rightarrow> AttemptRow" where
  "settled_attempt verdict remote d w =
     w \<lparr>wa_state := av_state verdict, wa_settled_at := Some d,
        wa_failure_code := map_option failure_code_to_db (av_failure_code verdict),
        wa_ambiguity_cause := map_option ambiguity_name (av_ambiguity verdict),
        wa_remote_id_kind := map_option rc_kind remote, wa_remote_url := Option.bind remote rc_url,
        wa_remote_numeric_id := Option.bind remote rc_numeric_id\<rparr>"

definition is_attempt :: "LeaseRef \<Rightarrow> Uuid \<Rightarrow> AttemptRow \<Rightarrow> bool" where
  "is_attempt lease attempt w \<longleftrightarrow>
     wa_org_id w = org_to_db (lr_org lease) \<and> wa_id w = uuid_to_db attempt
   \<and> wa_lease_epoch w = lr_lease_epoch lease \<and> wa_state w = ''in_flight''"

definition landing_effect ::
  "TxEnv \<Rightarrow> u8 list \<Rightarrow> u8 list \<Rightarrow> DateTime \<Rightarrow> LandingEffect \<Rightarrow> BindDisposition tx" where
  "landing_effect env org mapping d landing =
     (case landing of
        LE_None \<Rightarrow> tx_return BD_NotLanded
      | LE_Addressed _ \<Rightarrow> tx_return BD_Addressed
      | LE_Landed listing lifecycle \<Rightarrow> land env org mapping d listing lifecycle
      | LE_Severed listing \<Rightarrow> sever env org mapping d listing)"

text \<open>The deferred trigger of the mapping tables, over the mapping the transaction wrote.\<close>

definition commit_mapping :: "u8 list \<Rightarrow> u8 list \<Rightarrow> unit tx" where
  "commit_mapping org mapping = (\<lambda>db. try_bind (commit org mapping (ld_mapping db)) (\<lambda>_. Inr ((), db)))"

definition repo_settle_attempt ::
  "TxEnv \<Rightarrow> LeaseRef \<Rightarrow> AttemptRef \<Rightarrow> AttemptVerdict \<Rightarrow> Timestamp \<Rightarrow> BindDisposition tx" where
  "repo_settle_attempt env lease settling verdict at =
     (let org = org_to_db (lr_org lease); mapping = mapping_to_db (af_mapping settling) in
      tx_bind (tx_lift (transposed remote_encode (addressed (av_landing verdict)))) (\<lambda>remote.
      tx_bind (tx_lift (timestamp_to_db (te_std env) at)) (\<lambda>d.
      tx_bind (lock_owning_job (lr_org lease) (lr_item lease)) (\<lambda>owner.
        if owner = None then tx_fail StaleLease
        else
          tx_bind (assert_current_epoch lease) (\<lambda>_.
          tx_bind (run_stmt (update_attempts env (\<lambda>_. is_attempt lease (af_attempt settling))
                     (\<lambda>_. settled_attempt verdict remote d))) (\<lambda>n.
            if n = 0 then tx_fail StaleLease
            else
              tx_bind (landing_effect env org mapping d (av_landing verdict)) (\<lambda>disposition.
              tx_bind (if disposition \<in> {BD_Bound, BD_AlreadyBound}
                       then tx_bind (revive_counterparts env (lr_org lease) (af_mapping settling) at) (\<lambda>_. tx_return ())
                       else tx_return ()) (\<lambda>_.
              tx_bind (commit_mapping org mapping) (\<lambda>_. tx_return disposition)))))))))"

end
