(* ===== verification/EnqueueStore.thy ===== *)
theory EnqueueStore
  imports AttemptStore
begin

section \<open>Minting jobs (crate tam-storage, jobs.rs, JobRepo)\<close>

text \<open>
  A job and its items in one transaction, under the fence of the workflow it belongs to, and the request key that
  makes a retry a replay.
\<close>

record NewJob =
  nw_job :: JobId
  nw_inventory :: InventoryId
  nw_stamp :: Stamp

record NewJobItem =
  nj_item :: JobItemId
  nj_mapping :: MappingId
  nj_idempotency_key :: IdempotencyKey
  nj_operation :: ItemOperation
  nj_requires_bound_on :: "InventoryId option"

record JobOrigin =
  jo_request_key :: Uuid
  jo_run :: "Uuid option"
  jo_import_run :: "Uuid option"

record CreatedJob =
  cj_job :: JobId
  cj_replay :: bool

datatype WorkflowKind = SyncRequest | ImportRun

datatype Minted = MintedJob CreatedJob | WorkflowDeleted WorkflowKind

datatype JobWrite = JW_Created | JW_KeyAlreadyUsed | JW_RunDeleted | JW_ImportDeleted

subsection \<open>Items\<close>

text \<open>An item that settled adversely gives its key up, and keeps one derived from it.\<close>

definition retired :: "ItemRow \<Rightarrow> bool" where
  "retired r \<longleftrightarrow> ji_state r = ''settled'' \<and> ji_outcome r \<in> {Some ''blocked'', Some ''failed''}"

definition free_retired_key :: "TxEnv \<Rightarrow> OrgId \<Rightarrow> IdempotencyKey \<Rightarrow> unit tx" where
  "free_retired_key env org key =
     tx_bind (run_stmt (update_items env
         (\<lambda>_ r. ji_org_id r = org_to_db org \<and> ji_idempotency_key r = key_to_db key \<and> retired r)
         (\<lambda>r. Some (r \<lparr>ji_idempotency_key := te_new_v5 env (key_to_db key) (ji_id r)\<rparr>)))) (\<lambda>_. tx_return ())"

definition item_row ::
  "OrgId \<Rightarrow> JobId \<Rightarrow> NewJobItem \<Rightarrow> IdempotencyKey \<Rightarrow> OperationColumns \<Rightarrow> DateTime \<Rightarrow> string \<Rightarrow> ItemRow" where
  "item_row org job item key operation d marketplace =
     \<lparr>ji_org_id = org_to_db org, ji_id = item_to_db (nj_item item), ji_job_id = job_to_db job,
      ji_mapping_id = mapping_to_db (nj_mapping item), ji_marketplace = marketplace,
      ji_idempotency_key = key_to_db key, ji_state = ''queued'', ji_outcome = None, ji_failure_code = None,
      ji_failure_detail = None, ji_blocked_on = None, ji_attempt_count = 0, ji_lease_owner = None,
      ji_lease_epoch = 0, ji_lease_expires_at = None, ji_park_expires_at = None, ji_created_at = d,
      ji_settled_at = None, ji_operation = operation,
      ji_requires_bound_on = map_option inventory_to_db (nj_requires_bound_on item), ji_preflight_failures = 0,
      ji_preflight_challenge_only = True\<rparr>"

definition item_references :: "LedgerDb \<Rightarrow> ItemRow \<Rightarrow> string list" where
  "item_references db r =
     (if job_of db (ji_org_id r) (ji_job_id r) = None then [''job_item_org_id_job_id_fkey''] else [])
   @ (case ji_requires_bound_on r of
        None \<Rightarrow> []
      | Some code \<Rightarrow> if code \<in> inv_code ` set (wd_inventories (ld_world db)) then []
                     else [''job_item_counterpart_inventory''])"

text \<open>\<open>INSERT .. SELECT .. FROM mapping\<close>: no row where there is no mapping, whose marketplace the item's is.\<close>

definition insert_item ::
  "TxEnv \<Rightarrow> OrgId \<Rightarrow> JobId \<Rightarrow> NewJobItem \<Rightarrow> IdempotencyKey \<Rightarrow> OperationColumns \<Rightarrow> DateTime \<Rightarrow> LedgerDb \<Rightarrow>
     SqlxError + unit \<times> LedgerDb" where
  "insert_item env org job item key operation d db =
     (case mapping_of db (org_to_db org) (mapping_to_db (nj_mapping item)) of
        None \<Rightarrow> Inr ((), db)
      | Some m \<Rightarrow>
          let row = item_row org job item key operation d (mr_marketplace m) in
          (case item_references db row @ item_faults (ld_items db @ [row]) of
             [] \<Rightarrow> Inr ((), db \<lparr>ld_items := ld_items db @ [row]\<rparr>)
           | names \<Rightarrow> Inl (broke env names)))"

definition insert_job_item :: "TxEnv \<Rightarrow> OrgId \<Rightarrow> JobId \<Rightarrow> DateTime \<Rightarrow> NewJobItem \<Rightarrow> unit tx" where
  "insert_job_item env org job d item =
     tx_bind (tx_lift (operation_encode (nj_operation item))) (\<lambda>operation.
     tx_bind (\<lambda>db. try_bind (te_freeze env (nj_mapping item) (nj_operation item) (nj_idempotency_key item) db)
                     (\<lambda>frozen. Inr (frozen, db))) (\<lambda>frozen.
     let key = (case frozen of None \<Rightarrow> nj_idempotency_key item | Some k \<Rightarrow> k) in
     tx_bind (free_retired_key env org key) (\<lambda>_.
       map_unique ''job_item_idempotent'' (DuplicateIdempotencyKey (key_to_db key))
         (insert_item env org job item key operation d))))"

subsection \<open>Jobs\<close>

definition job_row ::
  "OrgId \<Rightarrow> NewJob \<Rightarrow> DateTime \<Rightarrow> Uuid option \<Rightarrow> Uuid option \<Rightarrow> Uuid option \<Rightarrow> JobRow" where
  "job_row org new d request_key sync_request import =
     \<lparr>jb_org_id = org_to_db org, jb_id = job_to_db (nw_job new), jb_inventory = inventory_to_db (nw_inventory new),
      jb_marketplace = marketplace_to_db (marketplace_of (nw_inventory new)), jb_created_at = d,
      jb_request_key = map_option uuid_to_db request_key, jb_actor_kind = actor_kind (st_actor (nw_stamp new)),
      jb_actor_id = actor_id (st_actor (nw_stamp new)), jb_sync_request_id = map_option uuid_to_db sync_request,
      jb_import_run_id = map_option uuid_to_db import, jb_deletion_requested_at = None, jb_deletion_actor_kind = None,
      jb_deletion_actor_id = None, jb_deletion_state = None\<rparr>"

definition insert_job :: "TxEnv \<Rightarrow> JobRow \<Rightarrow> LedgerDb \<Rightarrow> SqlxError + unit \<times> LedgerDb" where
  "insert_job env row db =
     (case (if inventory_of db row = None then [''job_inventory_marketplace_fkey''] else [])
           @ job_faults (ld_jobs db @ [row]) of
        [] \<Rightarrow> Inr ((), db \<lparr>ld_jobs := ld_jobs db @ [row]\<rparr>)
      | names \<Rightarrow> Inl (broke env names))"

definition item_count :: "NewJobItem list \<Rightarrow> StorageError + u32" where
  "item_count items =
     (if length items < 2 ^ 32 then Inr (of_nat (length items))
      else Inl (Inconsistent (decimal (length items) @ '' items exceed the event range'')))"

definition queue_items :: "TxEnv \<Rightarrow> OrgId \<Rightarrow> NewJob \<Rightarrow> NewJobItem list \<Rightarrow> DateTime \<Rightarrow> unit tx" where
  "queue_items env org new items d =
     tx_bind (tx_each (insert_job_item env org (nw_job new) d) items) (\<lambda>_.
     tx_bind (tx_lift (item_count items)) (\<lambda>n.
       append_event env \<lparr>es_org = org, es_job = nw_job new, es_item = None\<rparr> (JE_JobQueued n) (nw_stamp new)))"

definition enqueue :: "TxEnv \<Rightarrow> OrgId \<Rightarrow> NewJob \<Rightarrow> NewJobItem list \<Rightarrow> unit tx" where
  "enqueue env org new items =
     tx_bind (tx_lift (timestamp_to_db (te_std env) (st_at (nw_stamp new)))) (\<lambda>d.
     tx_bind (run_stmt (insert_job env (job_row org new d None None None))) (\<lambda>_.
       queue_items env org new items d))"

text \<open>\<open>Some True\<close> is a workflow whose deletion was asked for, \<open>None\<close> one there is not.\<close>

definition workflow_deleted :: "WorkflowRow list \<Rightarrow> OrgId \<Rightarrow> Uuid \<Rightarrow> bool option" where
  "workflow_deleted rows org workflow =
     map_option (\<lambda>w. wf_deletion_requested_at w \<noteq> None)
       (List.find (\<lambda>w. wf_org_id w = org_to_db org \<and> wf_id w = uuid_to_db workflow) rows)"

definition create_job_in_tx :: "TxEnv \<Rightarrow> OrgId \<Rightarrow> JobOrigin \<Rightarrow> NewJob \<Rightarrow> NewJobItem list \<Rightarrow> JobWrite tx" where
  "create_job_in_tx env org origin new items =
     tx_bind (tx_lift (timestamp_to_db (te_std env) (st_at (nw_stamp new)))) (\<lambda>d.
     tx_bind (tx_read (\<lambda>db. Option.bind (jo_run origin) (workflow_deleted (wd_requests (ld_world db)) org))) (\<lambda>run_deleted.
       if run_deleted = Some True then tx_return JW_RunDeleted
       else
         tx_bind (tx_read (\<lambda>db. map_option (workflow_deleted (wd_import_runs (ld_world db)) org) (jo_import_run origin)))
           (\<lambda>import_deleted.
           if import_deleted = Some None
           then tx_fail (Inconsistent ''the import run this job would publish for does not exist'')
           else if import_deleted = Some (Some True) then tx_return JW_ImportDeleted
           else (\<lambda>db.
             case insert_job env (job_row org new d (Some (jo_request_key origin)) (jo_run origin) (jo_import_run origin)) db of
               Inl (Violates name) \<Rightarrow>
                 if name = ''job_request_idempotent'' then Inr (JW_KeyAlreadyUsed, db) else Inl (Db (Violates name))
             | Inl e \<Rightarrow> Inl (Db e)
             | Inr (_, db') \<Rightarrow> tx_bind (queue_items env org new items d) (\<lambda>_. tx_return JW_Created) db'))))"

definition job_for_request_key :: "OrgId \<Rightarrow> Uuid \<Rightarrow> LedgerDb \<Rightarrow> JobId option" where
  "job_for_request_key org key db =
     map_option (\<lambda>j. JobId (uuid_from_db (jb_id j)))
       (List.find (\<lambda>j. jb_org_id j = org_to_db org \<and> jb_request_key j = Some (uuid_to_db key)) (ld_jobs db))"

text \<open>Only a created job is committed; every other answer leaves the tables as they were.\<close>

definition create_with_request_key ::
  "TxEnv \<Rightarrow> OrgId \<Rightarrow> JobOrigin \<Rightarrow> NewJob \<Rightarrow> NewJobItem list \<Rightarrow> LedgerDb \<Rightarrow> (StorageError + Minted) \<times> LedgerDb" where
  "create_with_request_key env org origin new items db =
     (case job_for_request_key org (jo_request_key origin) db of
        Some existing \<Rightarrow> (Inr (MintedJob \<lparr>cj_job = existing, cj_replay = True\<rparr>), db)
      | None \<Rightarrow>
          (case create_job_in_tx env org origin new items db of
             Inl e \<Rightarrow> (Inl e, db)
           | Inr (JW_Created, db') \<Rightarrow> (Inr (MintedJob \<lparr>cj_job = nw_job new, cj_replay = False\<rparr>), db')
           | Inr (JW_KeyAlreadyUsed, _) \<Rightarrow>
               (case job_for_request_key org (jo_request_key origin) db of
                  Some existing \<Rightarrow> (Inr (MintedJob \<lparr>cj_job = existing, cj_replay = True\<rparr>), db)
                | None \<Rightarrow> (Inl (Inconsistent ''the winning request's job must exist''), db))
           | Inr (JW_RunDeleted, _) \<Rightarrow> (Inr (WorkflowDeleted SyncRequest), db)
           | Inr (JW_ImportDeleted, _) \<Rightarrow> (Inr (WorkflowDeleted ImportRun), db)))"

subsection \<open>The settled outcomes of a job\<close>

definition outcome_from_db :: "Std \<Rightarrow> string \<Rightarrow> StorageError + ItemOutcome" where
  "outcome_from_db std = spelled std ''item outcome''
     [IO_Succeeded, IO_Degraded, IO_Failed, IO_Ambiguous, IO_Skipped, IO_Blocked] item_outcome_to_db"

text \<open>\<open>GROUP BY outcome\<close>: the groups in the order the database gives them, a parameter.\<close>

definition repo_settled_outcomes ::
  "Std \<Rightarrow> (string list \<Rightarrow> string list) \<Rightarrow> OrgId \<Rightarrow> JobId \<Rightarrow> LedgerDb \<Rightarrow> StorageError + (ItemOutcome \<times> nat) list" where
  "repo_settled_outcomes std arranged org job db =
     (let named = map (\<lambda>r. case ji_outcome r of None \<Rightarrow> [] | Some name \<Rightarrow> name)
                    (filter (\<lambda>r. ji_state r = ''settled'') (items_of db (org_to_db org) (job_to_db job)))
      in collect (\<lambda>name. try_bind (outcome_from_db std name) (\<lambda>outcome. Inr (outcome, count_list named name)))
           (arranged (remdups named)))"

end
