(* ===== verification/LedgerMoves.thy ===== *)
theory LedgerMoves
  imports EnqueueStore
begin

section \<open>The ledger's life cycle (crate tam-storage, jobs.rs)\<close>

text \<open>
  The abstract ledger: the moves an item's row may make and the moves the tables may make, as step relations. Every
  operation of the repositories is a sequence of them, so what the moves keep, every operation keeps.
\<close>

subsection \<open>Items\<close>

text \<open>
  \<open>Lease\<close> to \<open>Rekey\<close> name the row's life: queued work or a stranded create is leased; a lease is renewed, released,
  parked, settled, or charged by a pass that takes it away; a park is given up, revived or moved to another gate; and
  a settled row changes only the key it gives up.
\<close>

definition claimable :: "LedgerDb \<Rightarrow> ItemRow \<Rightarrow> bool" where
  "claimable db r \<longleftrightarrow>
     ji_state r = ''queued'' \<and> \<not> stopped db (ji_org_id r) (ji_job_id r) \<or> reconcilable db r"

definition parked :: "ItemRow \<Rightarrow> bool" where "parked r \<longleftrightarrow> ji_state r = ''parked_live''"

inductive item_move :: "LedgerDb \<Rightarrow> ItemRow \<Rightarrow> ItemRow \<Rightarrow> bool" for db where
  Lease: "claimable db r \<Longrightarrow> \<not> account_busy db r \<Longrightarrow> item_move db r
    (r \<lparr>ji_state := ''leased'', ji_lease_owner := Some owner, ji_lease_expires_at := Some d, ji_blocked_on := gate,
        ji_park_expires_at := t\<rparr>)"
| Renew: "is_live_lease r \<Longrightarrow> item_move db r (r \<lparr>ji_lease_expires_at := Some d\<rparr>)"
| Streak: "is_live_lease r \<Longrightarrow>
    item_move db r (r \<lparr>ji_preflight_failures := n, ji_preflight_challenge_only := edge_only\<rparr>)"
| Release: "is_live_lease r \<Longrightarrow> item_move db r (unleased r \<lparr>ji_state := ''queued''\<rparr>)"
| Park: "is_live_lease r \<Longrightarrow> item_move db r (parked_on gate t r)"
| Settle: "is_live_lease r \<Longrightarrow> item_move db r (item_settled_as verdict d r)"
| Spend: "is_live_lease r \<Longrightarrow> spent_failed detail d r = Some r' \<Longrightarrow> item_move db r r'"
| Exhaust: "is_live_lease r \<Longrightarrow> \<not> stopped db (ji_org_id r) (ji_job_id r) \<Longrightarrow> exhausted_row d r = Some r' \<Longrightarrow>
    item_move db r r'"
| Requeue: "is_live_lease r \<Longrightarrow> requeued r = Some r' \<Longrightarrow> item_move db r r'"
| Cancel: "stopped db (ji_org_id r) (ji_job_id r) \<Longrightarrow> unstarted env db r \<Longrightarrow> cancelled d r = Some r' \<Longrightarrow> item_move db r r'"
| Give_Up: "parked r \<Longrightarrow> given_up d r = Some r' \<Longrightarrow> item_move db r r'"
| Revive: "parked r \<Longrightarrow> \<not> stopped db (ji_org_id r) (ji_job_id r) \<Longrightarrow> revived_row r = Some r' \<Longrightarrow> item_move db r r'"
| Answer: "parked r \<Longrightarrow> \<not> stopped db (ji_org_id r) (ji_job_id r) \<Longrightarrow>
    item_move db r (unparked r \<lparr>ji_state := ''queued''\<rparr>)"
| Regate: "parked r \<Longrightarrow> item_move db r (r \<lparr>ji_blocked_on := Some gate, ji_park_expires_at := None\<rparr>)"
| Rekey: "retired r \<Longrightarrow> item_move db r (r \<lparr>ji_idempotency_key := k\<rparr>)"

text \<open>What no move touches.\<close>

definition item_identity :: "ItemRow \<Rightarrow> ItemRow \<Rightarrow> bool" where
  "item_identity r r' \<longleftrightarrow>
     ji_org_id r' = ji_org_id r \<and> ji_id r' = ji_id r \<and> ji_job_id r' = ji_job_id r \<and> ji_mapping_id r' = ji_mapping_id r
   \<and> ji_marketplace r' = ji_marketplace r \<and> ji_operation r' = ji_operation r \<and> ji_created_at r' = ji_created_at r
   \<and> ji_requires_bound_on r' = ji_requires_bound_on r"

lemma same_item_refl [simp]: "item_identity r r"
  by (simp add: item_identity_def)

lemma live_states: "is_live_lease r \<longleftrightarrow> ji_state r = ''leased'' \<or> ji_state r = ''running'' \<or> ji_state r = ''verifying''"
  by (auto simp: is_live_lease_def LIVE_STATES_def)

lemmas row_changes =
  unleased_def parked_on_def unparked_def item_settled_as_def spent_failed_def exhausted_row_def cancelled_def given_up_def
  charged_one_def requeued_def revived_row_def next_epoch_def

lemma moved_item: "item_move db r r' \<Longrightarrow> item_identity r r'"
  by (erule item_move.cases) (auto simp: item_identity_def row_changes split: if_splits)

lemma epoch_never_falls: "item_move db r r' \<Longrightarrow> ji_lease_epoch r \<le> ji_lease_epoch r'"
  by (erule item_move.cases) (auto simp: row_changes split: if_splits)

lemma settled_moves: "item_move db r r' \<Longrightarrow> ji_state r = ''settled'' \<Longrightarrow> \<exists>k. retired r \<and> r' = r \<lparr>ji_idempotency_key := k\<rparr>"
  by (erule item_move.cases)
    (auto simp: live_states claimable_def reconcilable_def parked_def unstarted_def)

subsection \<open>Tables\<close>

definition job_move :: "JobRow \<Rightarrow> JobRow \<Rightarrow> bool" where
  "job_move j j' \<longleftrightarrow>
     jb_org_id j' = jb_org_id j \<and> jb_id j' = jb_id j \<and> jb_inventory j' = jb_inventory j
   \<and> jb_marketplace j' = jb_marketplace j \<and> jb_request_key j' = jb_request_key j
   \<and> (jb_deletion_requested_at j \<noteq> None \<longrightarrow> jb_deletion_requested_at j' = jb_deletion_requested_at j)"

definition attempt_move :: "AttemptRow \<Rightarrow> AttemptRow \<Rightarrow> bool" where
  "attempt_move w w' \<longleftrightarrow>
     wa_state w = ''in_flight'' \<and> wa_org_id w' = wa_org_id w \<and> wa_id w' = wa_id w
   \<and> wa_job_item_id w' = wa_job_item_id w \<and> wa_mapping_id w' = wa_mapping_id w
   \<and> wa_lease_epoch w' = wa_lease_epoch w \<and> wa_intent w' = wa_intent w \<and> wa_intent_hash w' = wa_intent_hash w"

text \<open>What an attempt's row needs of the item it is opened for.\<close>

definition admitted :: "LedgerDb \<Rightarrow> AttemptRow \<Rightarrow> bool" where
  "admitted db w \<longleftrightarrow>
     (\<exists>r. item_of db (wa_org_id w) (wa_job_item_id w) = Some r \<and> is_live_lease r
        \<and> ji_lease_epoch r = wa_lease_epoch w \<and> job_of db (ji_org_id r) (ji_job_id r) \<noteq> None
        \<and> \<not> stopped db (ji_org_id r) (ji_job_id r)
        \<and> (case mapping_of db (ji_org_id r) (ji_mapping_id r) of
             None \<Rightarrow> True
           | Some m \<Rightarrow> wa_mapping_id w = ji_mapping_id r
                     \<and> \<not> (oc_operation (ji_operation r) = ''create'' \<and> mr_binding_state m = ''bound'')))"

definition keeps_mappings :: "MappingDb \<Rightarrow> MappingDb \<Rightarrow> bool" where
  "keeps_mappings md md' \<longleftrightarrow>
     (db_ok md \<longrightarrow> db_ok md') \<and> (\<forall>og m. row_of og m md \<noteq> None \<longrightarrow> row_of og m md' \<noteq> None)"

text \<open>No event says that the job settled; and what one that says so says of the job's items: that all have, and how.\<close>

definition untold :: "LedgerDb \<Rightarrow> u8 list \<Rightarrow> u8 list \<Rightarrow> bool" where
  "untold db org job \<longleftrightarrow> (\<forall>e \<in> set (ld_events db). settled_event e \<noteq> Some (org, job))"

definition all_settled :: "LedgerDb \<Rightarrow> u8 list \<Rightarrow> u8 list \<Rightarrow> bool" where
  "all_settled db org job \<longleftrightarrow> items_of db org job \<noteq> [] \<and> (\<forall>r \<in> set (items_of db org job). ji_state r = ''settled'')"

definition truthful :: "LedgerDb \<Rightarrow> EventRow \<Rightarrow> bool" where
  "truthful db e \<longleftrightarrow> (settled_event e \<noteq> None \<longrightarrow> all_settled db (ev_org_id e) (ev_job_id e)
     \<and> settled_payload (items_of db (ev_org_id e) (ev_job_id e)) = Inr (ev_payload e))"

inductive ledger_move :: "LedgerDb \<Rightarrow> LedgerDb \<Rightarrow> bool" for db where
  M_items: "(\<And>r. r \<in> set (ld_items db) \<Longrightarrow> sel r \<Longrightarrow> item_move db r (f r)) \<Longrightarrow>
    item_faults (map (\<lambda>r. if sel r then f r else r) (ld_items db)) = [] \<Longrightarrow>
    ledger_move db (db \<lparr>ld_items := map (\<lambda>r. if sel r then f r else r) (ld_items db)\<rparr>)"
| M_mint: "ji_state r = ''queued'' \<Longrightarrow> job_of db (ji_org_id r) (ji_job_id r) \<noteq> None \<Longrightarrow>
    \<not> stopped db (ji_org_id r) (ji_job_id r) \<Longrightarrow> untold db (ji_org_id r) (ji_job_id r) \<Longrightarrow> mapping_of db (ji_org_id r) (ji_mapping_id r) \<noteq> None \<Longrightarrow>
    item_faults (ld_items db @ [r]) = [] \<Longrightarrow> ledger_move db (db \<lparr>ld_items := ld_items db @ [r]\<rparr>)"
| M_job: "jb_deletion_requested_at j = None \<Longrightarrow> job_faults (ld_jobs db @ [j]) = [] \<Longrightarrow>
    ledger_move db (db \<lparr>ld_jobs := ld_jobs db @ [j]\<rparr>)"
| M_jobs: "(\<And>j. j \<in> set (ld_jobs db) \<Longrightarrow> sel j \<Longrightarrow> job_move j (f j)) \<Longrightarrow>
    job_faults (map (\<lambda>j. if sel j then f j else j) (ld_jobs db)) = [] \<Longrightarrow>
    ledger_move db (db \<lparr>ld_jobs := map (\<lambda>j. if sel j then f j else j) (ld_jobs db)\<rparr>)"
| M_open: "wa_state w = ''in_flight'' \<Longrightarrow> admitted db w \<Longrightarrow> attempt_refusals db w = [] \<Longrightarrow>
    ledger_move db (db \<lparr>ld_attempts := ld_attempts db @ [w]\<rparr>)"
| M_attempts: "(\<And>w. w \<in> set (ld_attempts db) \<Longrightarrow> sel w \<Longrightarrow> attempt_move w (f w)) \<Longrightarrow>
    clashing attempt_indexes (map (\<lambda>w. if sel w then f w else w) (ld_attempts db)) = [] \<Longrightarrow>
    ledger_move db (db \<lparr>ld_attempts := map (\<lambda>w. if sel w then f w else w) (ld_attempts db)\<rparr>)"
| M_counter: "next_seq db og \<le> n \<Longrightarrow> ledger_move db (db \<lparr>ld_counters := (ld_counters db)(og \<mapsto> n)\<rparr>)"
| M_event: "ev_org_seq e = next_seq db (ev_org_id e) \<Longrightarrow> unknown_job db e = [] \<Longrightarrow> event_refusals db e = [] \<Longrightarrow>
    truthful db e \<Longrightarrow>
    ledger_move db (db \<lparr>ld_counters := (ld_counters db)(ev_org_id e \<mapsto> next_seq db (ev_org_id e) + 1),
                        ld_events := ld_events db @ [e]\<rparr>)"
| M_mapping: "keeps_mappings (ld_mapping db) md \<Longrightarrow> ledger_move db (db \<lparr>ld_mapping := md\<rparr>)"
| M_generation: "ld_generations db k \<le> g \<Longrightarrow> ledger_move db (db \<lparr>ld_generations := (ld_generations db)(k := g)\<rparr>)"
| M_world: "ledger_move db (db \<lparr>ld_world := w\<rparr>)"

interpretation mv: tx_order "ledger_move\<^sup>*\<^sup>*"
  by unfold_locales (auto intro: rtranclp_trans)

lemma one_move: "ledger_move db db' \<Longrightarrow> ledger_move\<^sup>*\<^sup>* db db'"
  by (rule r_into_rtranclp)

subsection \<open>Statements are moves\<close>

lemma updated_items_move:
  assumes "update_items env sel f db = Inr (hit, db')"
    and "\<And>r r'. r \<in> set (ld_items db) \<Longrightarrow> sel db r \<Longrightarrow> f r = Some r' \<Longrightarrow> item_move db r r'"
  shows "ledger_move\<^sup>*\<^sup>* db db'"
proof -
  from assms(1) have upd: "\<forall>r \<in> set (ld_items db). sel db r \<longrightarrow> f r \<noteq> None"
    "db' = db \<lparr>ld_items := map (\<lambda>r. if sel db r then the (f r) else r) (ld_items db)\<rparr>" "item_faults (ld_items db') = []"
    by (auto simp: update_items_Inr)
  then show ?thesis
    using assms(2) M_items [of db "sel db" "\<lambda>r. the (f r)"] by (auto intro!: one_move)
qed

lemma items_within:
  assumes "\<And>db r r'. r \<in> set (ld_items db) \<Longrightarrow> sel db r \<Longrightarrow> f r = Some r' \<Longrightarrow> item_move db r r'"
  shows "mv.within (run_stmt (update_items env sel f))"
  using assms by (auto intro!: mv.withinI updated_items_move)

lemma fenced_within:
  assumes "\<And>db r r'. is_live_lease r \<Longrightarrow> f r = Some r' \<Longrightarrow> item_move db r r'"
  shows "mv.within (fenced_row env lease f)"
  unfolding fenced_row_def
  by (intro mv.within_bind items_within) (auto simp: held_under_def assms split: list.split)

lemma allocated:
  assumes "allocate_org_seq org db = Inr (seq, db')"
  shows "seq = next_seq db (org_to_db org)"
    "db' = db \<lparr>ld_counters := (ld_counters db)(org_to_db org \<mapsto> next_seq db (org_to_db org) + 1)\<rparr>"
  using assms by (auto simp: allocate_org_seq_def split: option.splits)

lemma counted_event:
  assumes "ev_org_seq e = next_seq db (ev_org_id e)" and "truthful db e"
    and "db1 = db \<lparr>ld_counters := (ld_counters db)(ev_org_id e \<mapsto> next_seq db (ev_org_id e) + 1)\<rparr>"
    and "unknown_job db1 e = []" "event_refusals db1 e = []"
  shows "ledger_move db (db1 \<lparr>ld_events := ld_events db1 @ [e]\<rparr>)"
  using M_event [of e db] assms by (simp add: unknown_job_def event_refusals_def job_of_def)

lemma event_appended:
  assumes "append_event_asserted env scope payload stamp asserted db = Inr (u, db')"
    and "job_event_kind payload \<noteq> ''JobSettled''"
  shows "ledger_move\<^sup>*\<^sup>* db db'"
proof -
  from assms(1) obtain seq db1 e where a: "allocate_org_seq (es_org scope) db = Inr (seq, db1)"
    and ins: "insert_event env e db1 = Inr (u, db')"
    and e: "ev_org_id e = org_to_db (es_org scope)" "ev_org_seq e = seq" "ev_payload e = payload"
    unfolding append_event_asserted_def by (elim tx_bind_InrE) auto
  have "truthful db e" using assms(2) e by (simp add: truthful_def settled_event_def)
  moreover from ins have "db' = db1 \<lparr>ld_events := ld_events db1 @ [e]\<rparr>" "unknown_job db1 e = []" "event_refusals db1 e = []"
    by (auto simp: insert_event_def split: list.splits)
  ultimately show ?thesis
    using counted_event [of e db db1] allocated [OF a] e by (simp add: one_move)
qed

lemma events_within [simp, intro]:
  "job_event_kind payload \<noteq> ''JobSettled'' \<Longrightarrow> mv.within (append_event_asserted env scope payload stamp asserted)"
  "job_event_kind payload \<noteq> ''JobSettled'' \<Longrightarrow> mv.within (append_event env scope payload stamp)"
  "job_event_kind payload \<noteq> ''JobSettled'' \<Longrightarrow> mv.within (job_record_event env scope payload stamp)"
  by (auto intro!: mv.withinI dest: event_appended simp: append_event_def job_record_event_def)

lemma resumptions_within [simp, intro]: "mv.within (record_resumptions env rows at)"
  unfolding record_resumptions_def by (intro mv.within_each events_within) simp

lemma settled_once:
  assumes "settle_if_complete env org job at db = Inr (told, db')"
  shows "ledger_move\<^sup>*\<^sup>* db db'"
proof -
  define db1 where "db1 = db \<lparr>ld_counters := (ld_counters db)(org_to_db org \<mapsto> next_seq db (org_to_db org))\<rparr>"
  have first: "ledger_move db db1" unfolding db1_def by (rule M_counter) simp
  let ?rows = "items_of db1 (org_to_db org) (job_to_db job)"
  show ?thesis
  proof (cases "?rows = [] \<or> list_ex (\<lambda>r. ji_state r \<noteq> ''settled'') ?rows")
    case True
    with assms have "db' = db1"
      by (auto simp: settle_if_complete_def lock_org_counter_def tx_bind_def tx_read_def tx_return_def db1_def)
    with first show ?thesis by (simp add: one_move)
  next
    case False
    have "lock_org_counter org db = Inr ((), db1)" by (simp add: lock_org_counter_def db1_def)
    with assms False obtain seq db2 e where a: "allocate_org_seq org db1 = Inr (seq, db2)"
      and ins: "insert_once env e db2 = Inr (told, db')"
      and e: "ev_org_id e = org_to_db org" "ev_org_seq e = seq" "ev_job_id e = job_to_db job"
        "settled_payload ?rows = Inr (ev_payload e)"
      unfolding settle_if_complete_def by (elim tx_bind_InrE) (auto elim!: tx_bind_InrE split: if_splits)
    have counted: "ledger_move db1 db2" unfolding allocated(2) [OF a] by (rule M_counter) simp
    have "truthful db1 e" using False by (simp add: truthful_def all_settled_def e list_ex_iff)
    moreover from ins have "db' = db2 \<or> db' = db2 \<lparr>ld_events := ld_events db2 @ [e]\<rparr>
        \<and> unknown_job db2 e = [] \<and> event_refusals db2 e = []"
      by (auto simp: insert_once_def split: list.splits if_splits)
    ultimately have "db' = db2 \<or> ledger_move db1 db'"
      using counted_event [of e db1 db2] allocated [OF a] e by auto
    with first counted show ?thesis by (metis converse_rtranclp_into_rtranclp rtranclp.rtrancl_refl)
  qed
qed

lemma settle_if_complete_within [simp, intro]: "mv.within (settle_if_complete env org job at)"
  by (auto intro!: mv.withinI settled_once)

lemma settle_seen_within [simp, intro]: "mv.within (settle_seen env now rows)"
  by (auto simp: settle_seen_def)

subsection \<open>Leases are moves\<close>

lemma unit_within: "mv.within m \<Longrightarrow> mv.within (tx_bind m (\<lambda>_. tx_return x))"
  by auto

lemma fenced_ops_within [simp, intro]:
  "mv.within (repo_renew env lease)" "mv.within (release env lease)" "mv.within (repo_park env lease gate secs)"
  "mv.within (repo_preflight_failed env lease edge)" "mv.within (preflight_succeeded env lease)"
  unfolding repo_renew_def release_def repo_park_def repo_preflight_failed_def preflight_succeeded_def Let_def
  by (intro mv.within_bind fenced_within items_within mv.within_plain;
      auto simp: held_under_def intro: item_move.intros)+

lemma stopped_items [simp]:
  "job_of (db \<lparr>ld_items := rs\<rparr>) = job_of db" "stopped (db \<lparr>ld_items := rs\<rparr>) = stopped db"
  "job_of (db \<lparr>ld_counters := cs\<rparr>) = job_of db" "stopped (db \<lparr>ld_counters := cs\<rparr>) = stopped db"
  "job_of (db \<lparr>ld_events := es\<rparr>) = job_of db" "stopped (db \<lparr>ld_events := es\<rparr>) = stopped db"
  by (simp_all add: job_of_def stopped_def fun_eq_iff)

lemma updated_items_jobs:
  "update_items env sel f db = Inr (hit, db') \<Longrightarrow> job_of db' = job_of db \<and> stopped db' = stopped db"
  by (auto simp: update_items_Inr)

lemma jobs_updated_within:
  assumes "\<And>j. job_move j (f j)"
  shows "mv.within (run_stmt (update_jobs env sel f))"
proof (rule mv.withinI)
  fix db x db' assume "run_stmt (update_jobs env sel f) db = Inr (x, db')"
  then show "ledger_move\<^sup>*\<^sup>* db db'"
    using assms M_jobs [of db sel f] by (cases x) (auto simp: update_jobs_Inr intro!: one_move)
qed

lemma tx_bind_Inr:
  "tx_bind m k db = Inr (y, db2) \<longleftrightarrow> (\<exists>x db1. m db = Inr (x, db1) \<and> k x db1 = Inr (y, db2))"
  by (auto simp: tx_bind_def elim!: try_bind_InrE)

lemma fence_moves:
  assumes "fence_and_classify env org job stamp db = Inr (status, db')"
    and "stopped db (org_to_db org) (job_to_db job)"
  shows "ledger_move\<^sup>*\<^sup>* db db'"
proof -
  let ?rest = "\<lambda>rows. tx_bind (tx_each (\<lambda>r. append_event env
      \<lparr>es_org = org, es_job = job, es_item = Some (JobItemId (uuid_from_db (ji_id r)))\<rparr> (JE_ItemSettled ''Skipped'') stamp) rows)
    (\<lambda>_. tx_bind (tx_read (classify_deletion env org job)) (\<lambda>status.
      tx_bind (run_stmt (update_jobs env (is_job org job) (\<lambda>j. j \<lparr>jb_deletion_state := Some (deletion_str status)\<rparr>)))
        (\<lambda>_. tx_return status)))"
  from assms(1) obtain u db1 where repo_park: "park_stopped_writes env org job db = Inr (u, db1)"
    and then_on: "tx_bind (cancel_unstarted_items env org job (st_at stamp)) ?rest db1 = Inr (status, db')"
    unfolding fence_and_classify_def tx_bind_Inr [of "park_stopped_writes env org job"] by blast
  from then_on obtain rows db2 where cancel: "cancel_unstarted_items env org job (st_at stamp) db1 = Inr (rows, db2)"
    and rest: "?rest rows db2 = Inr (status, db')"
    unfolding tx_bind_Inr [of "cancel_unstarted_items env org job (st_at stamp)"] by blast
  from repo_park have "ledger_move\<^sup>*\<^sup>* db db1" "stopped db1 = stopped db"
    unfolding park_stopped_writes_def
    by (auto elim!: tx_bind_InrE intro!: updated_items_move Park simp: stranded_write_def dest!: updated_items_jobs)
  moreover have "ledger_move\<^sup>*\<^sup>* db1 db2"
    using cancel assms(2) \<open>stopped db1 = stopped db\<close>
    unfolding cancel_unstarted_items_def
    by (auto elim!: tx_bind_InrE intro!: updated_items_move Cancel)
  moreover have "mv.within (?rest rows)"
    by (intro mv.within_bind mv.within_each mv.within_plain events_within jobs_updated_within) (simp_all add: job_move_def)
  with rest have "ledger_move\<^sup>*\<^sup>* db2 db'" by (rule mv.withinD [rotated])
  ultimately show ?thesis by (meson rtranclp_trans)
qed

lemma reconcile_within [simp, intro]: "mv.within (reconcile_job_deletion env org job stamp)"
proof (rule mv.withinI)
  fix db x db' assume "reconcile_job_deletion env org job stamp db = Inr (x, db')"
  then have "db' = db \<or> stopped db (org_to_db org) (job_to_db job)
      \<and> (\<exists>s. fence_and_classify env org job stamp db = Inr (s, db'))"
    unfolding reconcile_job_deletion_def job_deletion_requested_def
    by (auto elim!: tx_bind_InrE split: if_splits)
  then show "ledger_move\<^sup>*\<^sup>* db db'" using fence_moves by blast
qed

lemma find_mapped:
  assumes "filter P xs \<noteq> []" and "\<And>x. P x \<Longrightarrow> P (f x) \<and> Q (f x)"
  shows "\<exists>y. List.find P (map (\<lambda>x. if P x then f x else x) xs) = Some y \<and> Q y"
  using assms by (induction xs) auto

lemma stamped_stopped:
  assumes "update_jobs env (is_job org job) (stamped_for_deletion stamp d) db = Inr (n, db')" "n \<noteq> 0"
  shows "stopped db' (org_to_db org) (job_to_db job)"
proof -
  from assms have "filter (is_job org job) (ld_jobs db) \<noteq> []"
    and jobs: "ld_jobs db' = map (\<lambda>j. if is_job org job j then stamped_for_deletion stamp d j else j) (ld_jobs db)"
    by (auto simp: update_jobs_Inr)
  have "\<exists>j. List.find (is_job org job) (ld_jobs db') = Some j \<and> jb_deletion_requested_at j \<noteq> None"
    unfolding jobs
    by (rule find_mapped) (use \<open>filter (is_job org job) (ld_jobs db) \<noteq> []\<close> in
      \<open>auto simp: is_job_def stamped_for_deletion_def coalesce_def split: option.splits\<close>)
  then show ?thesis by (auto simp: stopped_def job_of_def is_job_def [abs_def])
qed

lemma delete_within [simp, intro]: "mv.within (delete_job_in_tx env org job stamp)"
proof (rule mv.withinI)
  fix db x db' assume "delete_job_in_tx env org job stamp db = Inr (x, db')"
  then obtain d n db1 where upd: "update_jobs env (is_job org job) (stamped_for_deletion stamp d) db = Inr (n, db1)"
    and rest: "db' = db1 \<or> n \<noteq> 0 \<and> (\<exists>s. fence_and_classify env org job stamp db1 = Inr (s, db'))"
    unfolding delete_job_in_tx_def by (auto elim!: tx_bind_InrE split: if_splits)
  have "mv.within (run_stmt (update_jobs env (is_job org job) (stamped_for_deletion stamp d)))"
    by (rule jobs_updated_within) (auto simp: job_move_def stamped_for_deletion_def coalesce_def split: option.splits)
  with upd have "ledger_move\<^sup>*\<^sup>* db db1" by (auto simp: mv.within_def)
  with rest stamped_stopped [OF upd] show "ledger_move\<^sup>*\<^sup>* db db'"
    by (auto dest: fence_moves intro: rtranclp_trans)
qed

lemma fences_within [simp, intro]: "mv.within (fence_apply env fence org job)"
  "mv.within (repo_delete env org job stamp)" "mv.within (finalise_deletion env org job stamp)"
  by (cases fence) (auto simp: repo_delete_def finalise_deletion_def)

lemma swept_moves: "ledger_move\<^sup>*\<^sup>* db (snd (finalise_each envs org stamp jobs n db))"
proof (induction jobs arbitrary: n db)
  case (Cons job jobs)
  then show ?case
    by (auto split: sum.split dest!: mv.withinD [OF fences_within(3)] intro: rtranclp_trans)
qed simp

lemma settle_within [simp, intro]: "mv.within (settle_inner env lease verdict at event)"
  unfolding settle_inner_def Let_def lock_owning_job_def
  by (intro mv.within_bind mv.within_if mv.within_plain fenced_within settle_if_complete_within reconcile_within)
    (auto split: option.split intro: Settle)

lemma charge_within [simp, intro]: "mv.within (charge_and_requeue env lease attempts_max detail now)"
  unfolding charge_and_requeue_def Let_def lock_owning_job_def
  by (intro mv.within_bind mv.within_if mv.within_plain)
    (auto split: option.split intro!: mv.within_bind mv.within_if fenced_within intro: Spend Requeue)

lemma hand_back_moves: "ledger_move\<^sup>*\<^sup>* db (snd (repo_hand_back env env' lease attempts_max now db))"
proof -
  have "park_undecided env lease db = Inr (rows, db') \<Longrightarrow> ledger_move\<^sup>*\<^sup>* db db'" for rows db'
    unfolding park_undecided_def by (erule updated_items_move) (auto simp: held_under_def intro: Park)
  then show ?thesis
    by (auto simp: repo_hand_back_def split: sum.split Charged.split dest: mv.withinD [OF charge_within])
qed

lemma expire_within [simp, intro]: "mv.within (expire_and_steal env now attempts_max)"
  unfolding expire_and_steal_def
  by (intro mv.within_bind items_within mv.within_plain settle_seen_within) (auto simp: lapsed_def intro: Park Exhaust Requeue)

lemma attempts_within:
  assumes "\<And>db w. w \<in> set (ld_attempts db) \<Longrightarrow> sel db w \<Longrightarrow> attempt_move w (f db w)"
  shows "mv.within (run_stmt (update_attempts env sel f))"
proof (rule mv.withinI)
  fix db x db' assume "run_stmt (update_attempts env sel f) db = Inr (x, db')"
  then show "ledger_move\<^sup>*\<^sup>* db db'"
    using assms M_attempts [of db "sel db" "f db"] by (cases x) (auto simp: update_attempts_Inr intro!: one_move)
qed

lemma relink_within [simp, intro]: "mv.within (release_relinked env d)"
  unfolding release_relinked_def
  by (intro mv.within_bind attempts_within items_within)
    (auto simp: attempt_move_def freed_attempt_def relinkable_def stopped_def parked_def split: option.splits intro!: Revive)

lemma revive_within [simp, intro]: "mv.within (revive_expired env now attempts_max)"
  unfolding revive_expired_def
  by (intro mv.within_bind items_within mv.within_plain mv.within_each resumptions_within events_within relink_within
      settle_seen_within)
    (auto simp: gate_open_def parked_def intro: Give_Up Revive Regate)

lemma requeue_parked_within [simp, intro]: "mv.within (requeue_parked env org sel gate at)"
  unfolding requeue_parked_def
  by (intro mv.within_bind items_within mv.within_plain resumptions_within) (auto simp: parked_def intro: Answer)

lemma revivals_within [simp, intro]: "mv.within (revive_by_gap env org gate at)"
  "mv.within (revive_on env org mapping gate at)" "mv.within (revive_counterparts env org mapping at)"
  by (auto simp: revive_by_gap_def revive_on_def revive_counterparts_def)

end
