(* ===== verification/LedgerSteps.thy ===== *)
theory LedgerSteps
  imports LedgerMoves
begin

section \<open>Operations as moves, and the ledger's invariant (crate tam-storage, jobs.rs)\<close>

text \<open>
  The rest of the operations as moves: attempts and what a landing did, the minting of jobs and items, and the claims;
  and the invariant of the tables, which every move keeps.
\<close>

subsection \<open>Attempts are moves\<close>

lemma update_mappingsE:
  assumes "update_mappings env sel f db = Inr (n, db')"
  shows "n = length (filter sel (md_mappings (ld_mapping db)))"
    "db' = db \<lparr>ld_mapping := ld_mapping db
       \<lparr>md_mappings := map (\<lambda>r. if sel r then f r else r) (md_mappings (ld_mapping db))\<rparr>\<rparr>"
    "\<And>r. r \<in> set (md_mappings (ld_mapping db)) \<Longrightarrow> sel r \<Longrightarrow> row_ok (ld_mapping db) (f r)"
    "\<And>r s. r \<in> set (md_mappings (ld_mapping db)) \<Longrightarrow> sel r \<Longrightarrow> s \<in> set (md_mappings (ld_mapping db)) \<Longrightarrow> \<not> sel s \<Longrightarrow>
        conflicts (f r) s = []"
  using assms by (auto simp: update_mappings_def Let_def refusals_Nil split: list.splits)

text \<open>A guarded update of one mapping keeps the mapping tables' invariant.\<close>

lemma mappings_kept:
  assumes upd: "update_mappings env sel f db = Inr (n, db')"
    and one: "\<And>r. sel r \<Longrightarrow> mr_org_id r = og \<and> mr_id r = m"
    and same: "\<And>r. mr_org_id (f r) = mr_org_id r \<and> mr_id (f r) = mr_id r"
  shows "ledger_move db db'"
proof -
  let ?md = "ld_mapping db"
  let ?g = "\<lambda>r. if sel r then f r else r"
  let ?md' = "?md \<lparr>md_mappings := map ?g (md_mappings ?md)\<rparr>"
  have keys: "mapping_key (?g r) = mapping_key r" for r using same by (simp add: mapping_key_def)
  have "db_ok ?md'" if ok: "db_ok ?md"
  proof -
    have "sorted_wrt (\<lambda>r s. conflicts r s = []) (map ?g (md_mappings ?md))"
      by (rule sorted_wrt_map_pasted)
        (use ok one update_mappingsE(4) [OF upd] in \<open>auto simp: db_ok_def conflicts_Nil\<close>)
    moreover have "\<forall>r \<in> set (md_mappings ?md'). row_ok ?md' r"
      using ok update_mappingsE(3) [OF upd] by (auto simp: db_ok_def row_ok_def)
    moreover have "set (map mapping_key (md_mappings ?md')) = set (map mapping_key (md_mappings ?md))"
      using keys by (auto simp: image_iff)
    ultimately show ?thesis using ok by (simp add: db_ok_def has_parent_def)
  qed
  moreover have "row_of og' m' ?md' = map_option ?g (row_of og' m' ?md)" for og' m'
    unfolding row_of_def using same by (simp add: find_map_same)
  ultimately have "keeps_mappings ?md ?md'" by (auto simp: keeps_mappings_def)
  then show ?thesis unfolding update_mappingsE(2) [OF upd] by (rule M_mapping)
qed

lemma landed_keys [simp]:
  "mr_org_id (landed_row remote columns d r) = mr_org_id r" "mr_id (landed_row remote columns d r) = mr_id r"
  "mr_org_id (severed_row columns d r) = mr_org_id r" "mr_id (severed_row columns d r) = mr_id r"
  "mr_org_id (with_lifecycle columns r) = mr_org_id r" "mr_id (with_lifecycle columns r) = mr_id r"
  by (simp_all add: landed_row_def severed_row_def with_lifecycle_def)

lemma relanded_within [simp, intro]: "mv.within (relanded env org mapping d remote columns)"
  unfolding relanded_def
  by (auto intro!: mv.withinI one_move elim!: tx_bind_InrE mappings_kept [where og = org and m = mapping]
      simp: bound_to_def)

lemma bound_moves:
  assumes "update_mappings env (bindable org mapping) (landed_row remote columns d) db = Inr (n, db')"
  shows "ledger_move\<^sup>*\<^sup>* db db'"
  by (rule one_move, rule mappings_kept [OF assms, where og = org and m = mapping]) (auto simp: bindable_def)

lemma relanding_moves:
  "tx_bind (relanded env org mapping d remote columns) (\<lambda>_. tx_return y) db = Inr (x, db') \<Longrightarrow> ledger_move\<^sup>*\<^sup>* db db'"
  by (auto elim!: tx_bind_InrE dest: mv.withinD [OF relanded_within])

lemma land_within [simp, intro]: "mv.within (land env org mapping d listing lifecycle)"
  unfolding land_def
  by (auto intro!: mv.withinI elim!: try_bind_InrE split: sum.splits if_splits dest!: bound_moves relanding_moves)

lemma sever_within [simp, intro]: "mv.within (sever env org mapping d listing)"
proof (rule mv.withinI)
  fix db x db' assume "sever env org mapping d listing db = Inr (x, db')"
  then obtain remote columns n db1 where
    upd: "update_mappings env (bound_to org mapping remote) (severed_row columns d) db = Inr (n, db1)"
    and rest: "db' = db1 \<or> (\<exists>g. checked_signed 32 (ld_generations db1 (org, mapping) + 1) = Some g
      \<and> db' = db1 \<lparr>ld_generations := (ld_generations db1)((org, mapping) := g)\<rparr>)"
    unfolding sever_def by (auto elim!: try_bind_InrE split: if_splits option.splits)
  have "ledger_move db db1"
    by (rule mappings_kept [OF upd, where og = org and m = mapping]) (auto simp: bound_to_def)
  moreover have "db' = db1 \<or> ledger_move db1 db'"
    using rest by (auto simp: checked_signed_def split: if_splits intro!: M_generation)
  ultimately show "ledger_move\<^sup>*\<^sup>* db db'" by (auto intro: converse_rtranclp_into_rtranclp)
qed

lemma landing_within [simp, intro]: "mv.within (landing_effect env org mapping d landing)"
  by (cases landing) (auto simp: landing_effect_def)

lemma commit_within [simp, intro]: "mv.within (commit_mapping org mapping)"
  by (auto simp: commit_mapping_def intro!: mv.withinI elim!: try_bind_InrE)

lemma assert_within [simp, intro]: "mv.within (assert_current_epoch lease)"
  by (auto simp: assert_current_epoch_def intro!: mv.withinI split: option.splits if_splits)

lemma settle_attempt_within [simp, intro]: "mv.within (repo_settle_attempt env lease settling verdict at)"
  unfolding repo_settle_attempt_def Let_def lock_owning_job_def
  by (intro mv.within_bind mv.within_if mv.within_plain assert_within attempts_within landing_within revivals_within
      commit_within)
    (auto simp: attempt_move_def is_attempt_def settled_attempt_def)

text \<open>An opening writes no row, or one row that passed every check of its admission.\<close>

lemma opened:
  assumes "open_asserted env lease attempt mapping intent stamp asserted db = Inr (u, db')"
  shows "db' = db \<or>
    (\<exists>d asserted_at. let w = new_attempt lease attempt mapping intent stamp d asserted_at in
       db' = db \<lparr>ld_attempts := ld_attempts db @ [w]\<rparr> \<and> admitted db w \<and> attempt_refusals db w = [])"
proof -
  from assms obtain db0 d asserted_at inserted db1
    where lease: "assert_admissible_lease lease db = Inr ((), db0)"
      and ins: "insert_attempt env (new_attempt lease attempt mapping intent stamp d asserted_at) db0 = Inr (inserted, db1)"
      and adm: "if inserted then admit lease mapping db1 = Inr (u, db') else db' = db1"
    unfolding open_asserted_def by (auto elim!: tx_bind_InrE split: if_splits)
  from lease have [simp]: "db0 = db"
    and held: "\<exists>r j. item_of db (org_to_db (lr_org lease)) (item_to_db (lr_item lease)) = Some r
      \<and> job_of db (org_to_db (lr_org lease)) (ji_job_id r) = Some j \<and> jb_deletion_requested_at j = None
      \<and> ji_lease_epoch r = lr_lease_epoch lease \<and> is_live_lease r"
    by (auto simp: assert_admissible_lease_def split: option.splits if_splits)
  have org: "item_of db og i = Some r \<Longrightarrow> ji_org_id r = og" for og i r
    by (auto simp: item_of_def find_Some_iff)
  show ?thesis
  proof (cases inserted)
    case False
    with ins adm show ?thesis by (auto simp: insert_attempt_def split: if_splits list.splits)
  next
    case True
    let ?w = "new_attempt lease attempt mapping intent stamp d asserted_at"
    from ins True have w: "attempt_refusals db ?w = []" "db1 = db \<lparr>ld_attempts := ld_attempts db @ [?w]\<rparr>"
      by (auto simp: insert_attempt_def split: if_splits list.splits)
    from adm True have "db' = db1" by (auto simp: admit_def split: option.splits if_splits)
    have same: "item_of db1 = item_of db" "mapping_of db1 = mapping_of db"
      by (simp_all add: w item_of_def mapping_of_def fun_eq_iff)
    from held obtain r j where r: "item_of db (org_to_db (lr_org lease)) (item_to_db (lr_item lease)) = Some r"
      and j: "job_of db (org_to_db (lr_org lease)) (ji_job_id r) = Some j" "jb_deletion_requested_at j = None"
      and live: "ji_lease_epoch r = lr_lease_epoch lease" "is_live_lease r" by blast
    have "admitted db ?w"
      unfolding admitted_def
      by (rule exI [of _ r])
        (use r j live adm True org [OF r] in
          \<open>auto simp: new_attempt_def admit_def same stopped_def split: option.splits if_splits\<close>)
    with w \<open>db' = db1\<close> show ?thesis by (auto simp: Let_def)
  qed
qed

lemma open_within [simp, intro]: "mv.within (open_asserted env lease attempt mapping intent stamp asserted)"
proof (rule mv.withinI)
  fix db x db' assume "open_asserted env lease attempt mapping intent stamp asserted db = Inr (x, db')"
  from opened [OF this] show "ledger_move\<^sup>*\<^sup>* db db'"
  proof (elim disjE exE)
    fix d asserted_at
    assume "let w = new_attempt lease attempt mapping intent stamp d asserted_at in
      db' = db \<lparr>ld_attempts := ld_attempts db @ [w]\<rparr> \<and> admitted db w \<and> attempt_refusals db w = []"
    then show ?thesis by (auto simp: Let_def intro!: one_move M_open) (simp add: new_attempt_def)
  qed simp
qed

subsection \<open>Minting is moves\<close>

lemma free_key_within [simp, intro]: "mv.within (free_retired_key env org key)"
  unfolding free_retired_key_def by (intro mv.within_bind items_within mv.within_plain) (auto intro: Rekey)

lemma updated_items_events: "update_items env sel f db = Inr (hit, db') \<Longrightarrow> ld_events db' = ld_events db"
  by (auto simp: update_items_Inr)

text \<open>A job that may take items: it stands, nobody stopped it, and no event says it settled.\<close>

definition fresh_job :: "LedgerDb \<Rightarrow> OrgId \<Rightarrow> JobId \<Rightarrow> bool" where
  "fresh_job db org job \<longleftrightarrow>
     job_of db (org_to_db org) (job_to_db job) \<noteq> None \<and> \<not> stopped db (org_to_db org) (job_to_db job)
   \<and> untold db (org_to_db org) (job_to_db job)"

lemma minted_item:
  assumes "insert_job_item env org job d item db = Inr (u, db')" and "fresh_job db org job"
  shows "ledger_move\<^sup>*\<^sup>* db db' \<and> fresh_job db' org job"
proof -
  from assms(1) obtain key operation db1 where free: "free_retired_key env org key db = Inr ((), db1)"
    and ins: "insert_item env org job item key operation d db1 = Inr (u, db')"
    unfolding insert_job_item_def Let_def by (auto elim!: tx_bind_InrE try_bind_InrE)
  have "job_of db1 = job_of db" "stopped db1 = stopped db" "ld_events db1 = ld_events db"
    using free by (auto simp: free_retired_key_def elim!: tx_bind_InrE dest: updated_items_jobs updated_items_events)
  then have fresh: "fresh_job db1 org job" using assms(2) by (simp add: fresh_job_def untold_def)
  from ins fresh have "db' = db1 \<or> ledger_move db1 db'"
    by (auto simp: insert_item_def Let_def fresh_job_def item_row_def mapping_of_def row_of_def find_Some_iff
        intro!: M_mint split: option.splits list.splits)
  moreover have "fresh_job db' org job"
    using ins fresh by (auto simp: insert_item_def Let_def fresh_job_def untold_def split: option.splits list.splits)
  ultimately show ?thesis
    using mv.withinD [OF free_key_within free] by (auto intro: rtranclp.rtrancl_into_rtrancl)
qed

lemma minted_items:
  assumes "tx_each (insert_job_item env org job d) items db = Inr (u, db')" and "fresh_job db org job"
  shows "ledger_move\<^sup>*\<^sup>* db db'"
  using assms
proof (induction items arbitrary: db)
  case (Cons item items)
  from Cons.prems(1) obtain x db1 where item: "insert_job_item env org job d item db = Inr (x, db1)"
    and items: "tx_each (insert_job_item env org job d) items db1 = Inr (u, db')" by (auto elim!: tx_bind_InrE)
  from minted_item [OF item Cons.prems(2)] Cons.IH [OF items] show ?case by (metis rtranclp_trans)
qed simp

lemma queued_moves:
  assumes "queue_items env org new items d db = Inr (u, db')" and "fresh_job db org (nw_job new)"
  shows "ledger_move\<^sup>*\<^sup>* db db'"
proof -
  let ?rest = "\<lambda>_. tx_bind (tx_lift (item_count items)) (\<lambda>n.
      append_event env \<lparr>es_org = org, es_job = nw_job new, es_item = None\<rparr> (JE_JobQueued n) (nw_stamp new))"
  from assms(1) obtain x db1 where items: "tx_each (insert_job_item env org (nw_job new) d) items db = Inr (x, db1)"
    and rest: "?rest () db1 = Inr (u, db')"
    unfolding queue_items_def tx_bind_Inr [of "tx_each (insert_job_item env org (nw_job new) d) items"] by blast
  have "mv.within (?rest ())" by (intro mv.within_bind mv.within_plain events_within) simp
  with minted_items [OF items assms(2)] rest show ?thesis by (meson mv.withinD rtranclp_trans)
qed

lemma clashing_unique:
  assumes "clashing indexes rs = []" and "(name, shares key) \<in> set indexes"
    and "r \<in> set rs" "s \<in> set rs" "key r = key s" "key r \<noteq> None"
  shows "r = s"
proof (rule ccontr)
  assume "r \<noteq> s"
  have none: "clashes indexes x y = [] \<Longrightarrow> \<not> shares key x y" for x y
    using assms(2) by (force simp: clashes_def filter_empty_conv)
  have "sorted_wrt (\<lambda>x y. \<not> shares key x y) rs"
    using assms(1) by (induction rs) (auto dest!: none)
  then have "r = s \<or> \<not> shares key r s \<or> \<not> shares key s r"
    using assms(3,4) by (induction rs) auto
  with \<open>r \<noteq> s\<close> assms(5,6) show False by (simp add: shares_def)
qed

subsection \<open>The tables' invariant\<close>

text \<open>
  The constraints hold, every reference resolves, an attempt is its item's, for its mapping and under an epoch the
  item has reached, an organisation's events are in the order of their sequence and below its counter, and an event
  that says a job settled says so of one whose every item has.
\<close>

definition attempt_of_item :: "AttemptRow \<Rightarrow> ItemRow \<Rightarrow> bool" where
  "attempt_of_item w r \<longleftrightarrow>
     ji_org_id r = wa_org_id w \<and> ji_id r = wa_job_item_id w \<and> ji_mapping_id r = wa_mapping_id w
   \<and> wa_lease_epoch w \<le> ji_lease_epoch r"

definition ledger_ok :: "LedgerDb \<Rightarrow> bool" where
  "ledger_ok db \<longleftrightarrow>
     item_faults (ld_items db) = [] \<and> clashing attempt_indexes (ld_attempts db) = [] \<and> job_faults (ld_jobs db) = []
   \<and> clashing event_indexes (ld_events db) = [] \<and> db_ok (ld_mapping db)
   \<and> (\<forall>r \<in> set (ld_items db). job_of db (ji_org_id r) (ji_job_id r) \<noteq> None
                              \<and> mapping_of db (ji_org_id r) (ji_mapping_id r) \<noteq> None)
   \<and> (\<forall>w \<in> set (ld_attempts db). \<exists>r \<in> set (ld_items db). attempt_of_item w r)
   \<and> sorted_wrt (\<lambda>e e'. ev_org_id e = ev_org_id e' \<longrightarrow> ev_org_seq e < ev_org_seq e') (ld_events db)
   \<and> (\<forall>e \<in> set (ld_events db). ev_org_seq e < next_seq db (ev_org_id e)
        \<and> job_of db (ev_org_id e) (ev_job_id e) \<noteq> None \<and> truthful db e)"

lemma clashing_snoc: "clashing indexes (rs @ [x]) = [] \<longleftrightarrow>
    clashing indexes rs = [] \<and> (\<forall>r \<in> set rs. clashes indexes r x = [])"
  by (auto simp: clashing_Nil sorted_wrt_append)

lemma clashes_sym:
  "clashes attempt_indexes w x = [] \<longleftrightarrow> clashes attempt_indexes x w = []"
  "clashes event_indexes e e' = [] \<longleftrightarrow> clashes event_indexes e' e = []"
  by (auto simp: clashes_def attempt_indexes_def event_indexes_def shares_sym)

lemma item_of_in: "item_of db og i = Some r \<Longrightarrow> r \<in> set (ld_items db) \<and> ji_org_id r = og \<and> ji_id r = i"
  by (auto simp: item_of_def find_Some_iff)

lemma ledger_ok_items:
  assumes ok: "ledger_ok db" and rows: "db' = db \<lparr>ld_items := rs\<rparr>" "item_faults rs = []"
    and refs: "\<forall>r \<in> set rs. job_of db (ji_org_id r) (ji_job_id r) \<noteq> None
                \<and> mapping_of db (ji_org_id r) (ji_mapping_id r) \<noteq> None"
    and items: "\<And>r. r \<in> set (ld_items db) \<Longrightarrow> \<exists>r' \<in> set rs. item_identity r r' \<and> ji_lease_epoch r \<le> ji_lease_epoch r'"
    and told: "\<And>e. e \<in> set (ld_events db) \<Longrightarrow> truthful db e \<Longrightarrow> truthful db' e"
  shows "ledger_ok db'"
proof -
  have "\<exists>r' \<in> set rs. attempt_of_item w r'" if "w \<in> set (ld_attempts db)" for w
  proof -
    from ok that obtain r where "r \<in> set (ld_items db)" "attempt_of_item w r" by (auto simp: ledger_ok_def)
    with items [of r] show ?thesis by (fastforce simp: attempt_of_item_def item_identity_def)
  qed
  moreover have "\<forall>e \<in> set (ld_events db). truthful db' e" using ok told by (auto simp: ledger_ok_def)
  ultimately show ?thesis
    using ok rows refs by (simp add: ledger_ok_def mapping_of_def next_seq_def)
qed

lemma items_of_moved:
  assumes "\<And>r. r \<in> set rows \<Longrightarrow> item_identity r (g r)" and "rows = ld_items db"
  shows "items_of (db \<lparr>ld_items := map g rows\<rparr>) og job = map g (items_of db og job)"
  unfolding items_of_def using assms by (auto simp: filter_map item_identity_def intro!: map_cong filter_cong)

lemma truthful_moved:
  assumes "\<And>r. r \<in> set (ld_items db) \<Longrightarrow> item_identity r (g r)"
    and settled: "\<And>r. r \<in> set (ld_items db) \<Longrightarrow> ji_state r = ''settled'' \<Longrightarrow>
      ji_state (g r) = ''settled'' \<and> ji_outcome (g r) = ji_outcome r"
    and "truthful db e"
  shows "truthful (db \<lparr>ld_items := map g (ld_items db)\<rparr>) e"
proof -
  have items: "items_of (db \<lparr>ld_items := map g (ld_items db)\<rparr>) og job = map g (items_of db og job)" for og job
    using assms(1) by (rule items_of_moved) simp_all
  have sub: "r \<in> set (items_of db og job) \<Longrightarrow> r \<in> set (ld_items db)" for r og job by (simp add: items_of_def)
  have "with_outcome out (map g rows) = with_outcome out rows"
    if "\<forall>r \<in> set rows. r \<in> set (ld_items db) \<and> ji_state r = ''settled''" for out rows
    using that settled by (auto simp: with_outcome_def filter_map o_def cong: filter_cong)
  then have "settled_payload (map g (items_of db og job)) = settled_payload (items_of db og job)"
    if "all_settled db og job" for og job
    using that sub by (simp add: settled_payload_def all_settled_def)
  with assms(3) items settled sub show ?thesis by (auto simp: truthful_def all_settled_def)
qed

lemma truthful_elsewhere [simp]:
  "truthful (db \<lparr>ld_jobs := js\<rparr>) = truthful db" "truthful (db \<lparr>ld_attempts := ws\<rparr>) = truthful db"
  "truthful (db \<lparr>ld_counters := cs\<rparr>) = truthful db" "truthful (db \<lparr>ld_mapping := md\<rparr>) = truthful db"
  "truthful (db \<lparr>ld_world := wd\<rparr>) = truthful db"
  "truthful (db \<lparr>ld_generations := gs\<rparr>) = truthful db" "truthful (db \<lparr>ld_events := es\<rparr>) = truthful db"
  by (simp_all add: truthful_def all_settled_def items_of_def fun_eq_iff)

lemma moved_rows:
  assumes "\<And>r. r \<in> set rs \<Longrightarrow> sel r \<Longrightarrow> item_move db r (f r)" and "r \<in> set rs"
  shows "item_identity r (if sel r then f r else r) \<and> ji_lease_epoch r \<le> ji_lease_epoch (if sel r then f r else r)"
  using assms(2) moved_item [OF assms(1)] epoch_never_falls [OF assms(1)] by auto

lemma moved_settled:
  assumes "\<And>r. r \<in> set rs \<Longrightarrow> sel r \<Longrightarrow> item_move db r (f r)" and "r \<in> set rs" "ji_state r = ''settled''"
  shows "ji_state (if sel r then f r else r) = ''settled'' \<and> ji_outcome (if sel r then f r else r) = ji_outcome r"
  using assms settled_moves [OF assms(1) [OF assms(2)]] by auto

lemma find_moved: "(\<And>x. x \<in> set xs \<Longrightarrow> P (f x) = P x) \<Longrightarrow> List.find P (map f xs) = map_option f (List.find P xs)"
  by (induction xs) auto

lemma ok_kept: "ledger_move db db' \<Longrightarrow> ledger_ok db \<Longrightarrow> ledger_ok db'"
proof (induction rule: ledger_move.induct)
  case (M_items sel f)
  show ?case
  proof (rule ledger_ok_items [OF M_items.prems refl M_items.hyps(2)])
    show "truthful (db \<lparr>ld_items := map (\<lambda>r. if sel r then f r else r) (ld_items db)\<rparr>) e" if "truthful db e" for e
      using moved_rows [of "ld_items db" sel db f, OF M_items.hyps(1)]
        moved_settled [of "ld_items db" sel db f, OF M_items.hyps(1)] that
      by (intro truthful_moved) blast+
    show "\<exists>r' \<in> set (map (\<lambda>r. if sel r then f r else r) (ld_items db)). item_identity r r' \<and> ji_lease_epoch r \<le> ji_lease_epoch r'"
      if "r \<in> set (ld_items db)" for r
      using moved_rows [of "ld_items db" sel db f r, OF M_items.hyps(1) that] that
      by (intro bexI [of _ "if sel r then f r else r"]) (simp_all del: set_map add: image_set [symmetric] imageI)
    show "\<forall>r \<in> set (map (\<lambda>r. if sel r then f r else r) (ld_items db)). job_of db (ji_org_id r) (ji_job_id r) \<noteq> None
        \<and> mapping_of db (ji_org_id r) (ji_mapping_id r) \<noteq> None"
      using M_items.prems moved_item [OF M_items.hyps(1)] by (auto simp: ledger_ok_def item_identity_def)
  qed
next
  case (M_mint r)
  have "truthful (db \<lparr>ld_items := ld_items db @ [r]\<rparr>) e" if "e \<in> set (ld_events db)" "truthful db e" for e
    using that M_mint.hyps(4) by (auto simp: truthful_def all_settled_def items_of_def untold_def settled_event_def)
  then show ?case
    by (intro ledger_ok_items [OF M_mint.prems refl]) (use M_mint in \<open>auto simp: ledger_ok_def intro!: bexI\<close>)
next
  case (M_job j)
  then have "job_of db og i \<noteq> None \<Longrightarrow> job_of (db \<lparr>ld_jobs := ld_jobs db @ [j]\<rparr>) og i \<noteq> None" for og i
    by (auto simp: job_of_def find_append_Some)
  with M_job show ?case by (simp add: ledger_ok_def mapping_of_def next_seq_def)
next
  case (M_jobs sel f)
  have "job_of (db \<lparr>ld_jobs := map (\<lambda>j. if sel j then f j else j) (ld_jobs db)\<rparr>) og i
      = map_option (\<lambda>j. if sel j then f j else j) (job_of db og i)" for og i
    unfolding job_of_def using M_jobs.hyps(1) by (simp add: job_move_def) (rule find_moved, auto)
  with M_jobs show ?case by (simp add: ledger_ok_def mapping_of_def next_seq_def)
next
  case (M_open w)
  from M_open.hyps have "\<exists>r \<in> set (ld_items db). attempt_of_item w r"
    using M_open.prems by (fastforce simp: admitted_def attempt_of_item_def ledger_ok_def dest: item_of_in)
  moreover from M_open.hyps have "clashing attempt_indexes (ld_attempts db @ [w]) = []"
    using M_open.prems clashes_sym(1) by (auto simp: clashing_snoc ledger_ok_def attempt_refusals_def)
  ultimately show ?case
    using M_open.prems by (auto simp: ledger_ok_def mapping_of_def next_seq_def job_of_def)
next
  case (M_attempts sel f)
  define g where "g = (\<lambda>w. if sel w then f w else w)"
  have "\<exists>r \<in> set (ld_items db). attempt_of_item (g w) r" if w: "w \<in> set (ld_attempts db)" for w
  proof -
    from M_attempts.prems w obtain r where "r \<in> set (ld_items db)" "attempt_of_item w r" by (auto simp: ledger_ok_def)
    moreover have "attempt_of_item (g w) r \<longleftrightarrow> attempt_of_item w r"
      using M_attempts.hyps(1) [OF w] by (auto simp: g_def attempt_of_item_def attempt_move_def)
    ultimately show ?thesis by blast
  qed
  moreover have "clashing attempt_indexes (map g (ld_attempts db)) = []" using M_attempts.hyps(2) by (simp add: g_def)
  ultimately show ?case
    using M_attempts.prems unfolding g_def [symmetric]
    by (simp add: ledger_ok_def mapping_of_def next_seq_def job_of_def)
next
  case (M_counter og n)
  then show ?case
    by (auto simp: ledger_ok_def mapping_of_def next_seq_def job_of_def split: option.splits if_splits)
next
  case (M_event e)
  have below: "\<forall>o' \<in> set (ld_events db). ev_org_seq o' < next_seq db (ev_org_id o')"
    and ordered: "sorted_wrt (\<lambda>e e'. ev_org_id e = ev_org_id e' \<longrightarrow> ev_org_seq e < ev_org_seq e') (ld_events db)"
    using M_event.prems by (auto simp: ledger_ok_def)
  have "clashing event_indexes (ld_events db @ [e]) = []"
    using M_event clashes_sym(2) by (auto simp: clashing_snoc ledger_ok_def event_refusals_def)
  moreover have "sorted_wrt (\<lambda>e e'. ev_org_id e = ev_org_id e' \<longrightarrow> ev_org_seq e < ev_org_seq e') (ld_events db @ [e])"
    using below ordered M_event.hyps(1) by (auto simp: sorted_wrt_append)
  moreover have "job_of db (ev_org_id e) (ev_job_id e) \<noteq> None"
    using M_event.hyps(2) by (auto simp: unknown_job_def split: if_splits)
  ultimately show ?case
    using M_event by (auto simp: ledger_ok_def mapping_of_def next_seq_def job_of_def)
next
  case (M_mapping md)
  then show ?case by (auto simp: ledger_ok_def keeps_mappings_def mapping_of_def next_seq_def job_of_def)
next
  case (M_generation k g)
  then show ?case by (simp add: ledger_ok_def mapping_of_def next_seq_def job_of_def)
next
  case (M_world w)
  then show ?case by (simp add: ledger_ok_def mapping_of_def next_seq_def job_of_def)
qed

lemma oks_kept: "ledger_move\<^sup>*\<^sup>* db db' \<Longrightarrow> ledger_ok db \<Longrightarrow> ledger_ok db'"
  by (induction rule: rtranclp_induct) (auto intro: ok_kept)

lemma same_key:
  assumes "ledger_ok db" "r \<in> set (ld_items db)" "s \<in> set (ld_items db)" "item_key r = item_key s"
  shows "r = s"
proof (rule clashing_unique)
  show "clashing item_indexes (ld_items db) = []" using assms(1) by (simp add: ledger_ok_def item_faults_def)
  show "(''job_item_pkey'', shares (\<lambda>r. Some (ji_org_id r, ji_id r))) \<in> set item_indexes" by (simp add: item_indexes_def)
qed (use assms in \<open>auto simp: item_key_def\<close>)

subsection \<open>Minting and claims are moves\<close>

lemma inserted_job:
  assumes "insert_job env row db = Inr (u, db')" and "jb_deletion_requested_at row = None" and "ledger_ok db"
  shows "ledger_move db db'" "job_of db' (jb_org_id row) (jb_id row) \<noteq> None" "\<not> stopped db' (jb_org_id row) (jb_id row)"
    "untold db' (jb_org_id row) (jb_id row)"
proof -
  from assms(1) have rows: "db' = db \<lparr>ld_jobs := ld_jobs db @ [row]\<rparr>" "job_faults (ld_jobs db @ [row]) = []"
    by (auto simp: insert_job_def split: list.splits)
  with assms(2) show "ledger_move db db'" by (auto intro: M_job)
  have "row \<in> set (ld_jobs db')" by (simp add: rows)
  then show found: "job_of db' (jb_org_id row) (jb_id row) \<noteq> None"
    by (auto simp: job_of_def find_None_iff)
  have only: "j = row" if "j \<in> set (ld_jobs db')" "jb_org_id j = jb_org_id row" "jb_id j = jb_id row" for j
  proof (rule clashing_unique)
    show "clashing job_indexes (ld_jobs db') = []" using rows by (simp add: job_faults_def)
    show "(''job_pkey'', shares (\<lambda>r. Some (jb_org_id r, jb_id r))) \<in> set job_indexes" by (simp add: job_indexes_def)
  qed (use that \<open>row \<in> set (ld_jobs db')\<close> in auto)
  with assms(2) show "\<not> stopped db' (jb_org_id row) (jb_id row)"
    by (auto simp: stopped_def job_of_def split: option.splits dest!: find_SomeD)
  have "clashing job_indexes (ld_jobs db @ [row]) = []" using rows by (simp add: job_faults_def)
  then have "\<forall>j \<in> set (ld_jobs db). clashes job_indexes j row = []" by (simp add: clashing_snoc)
  then have "job_of db (jb_org_id row) (jb_id row) = None"
    by (auto simp: job_of_def find_None_iff clashes_def job_indexes_def)
  with assms(3) show "untold db' (jb_org_id row) (jb_id row)"
    by (auto simp: untold_def rows settled_event_def ledger_ok_def split: if_splits)
qed

lemma job_row_keys [simp]: "jb_org_id (job_row org new d key req imp) = org_to_db org"
  "jb_id (job_row org new d key req imp) = job_to_db (nw_job new)"
  "jb_deletion_requested_at (job_row org new d key req imp) = None"
  by (simp_all add: job_row_def)

lemma job_then_items:
  assumes "insert_job env (job_row org new d key req imp) db = Inr (x, db1)" "queue_items env org new items d db1 = Inr (u, db')"
    and "ledger_ok db"
  shows "ledger_move\<^sup>*\<^sup>* db db'"
  using inserted_job [OF assms(1) _ assms(3)] queued_moves [OF assms(2)]
  by (auto simp: fresh_job_def intro: converse_rtranclp_into_rtranclp)

lemma enqueue_moves: "enqueue env org new items db = Inr (u, db') \<Longrightarrow> ledger_ok db \<Longrightarrow> ledger_move\<^sup>*\<^sup>* db db'"
  unfolding enqueue_def by (auto elim!: tx_bind_InrE dest!: job_then_items)

lemma create_moves: "ledger_ok db \<Longrightarrow> ledger_move\<^sup>*\<^sup>* db (snd (create_with_request_key env org origin new items db))"
proof -
  assume ok: "ledger_ok db"
  have "ledger_move\<^sup>*\<^sup>* db db'" if "create_job_in_tx env org origin new items db = Inr (JW_Created, db')" for db'
    using that ok unfolding create_job_in_tx_def
    by (auto elim!: tx_bind_InrE split: if_splits sum.splits SqlxError.splits dest!: job_then_items)
  then show ?thesis
    by (auto simp: create_with_request_key_def split: option.split sum.split JobWrite.split)
qed


lemma set_by_age [simp]: "set (by_age created ident rows) = set rows"
  by (simp add: by_age_def)

lemma next_served: "next_for_server db = Some r \<Longrightarrow> r \<in> set (ld_items db) \<and> server_candidate db r"
proof -
  assume "next_for_server db = Some r"
  then have "r \<in> set (by_age ji_created_at ji_id (filter (server_candidate db) (ld_items db)))"
    by (auto simp: next_for_server_def simp del: set_by_age split: list.splits)
  then show ?thesis by simp
qed

lemma next_claimed:
  "next_for_device env claimant policy sourced db = Some r \<Longrightarrow>
     r \<in> set (ld_items db) \<and> device_candidate env claimant policy sourced db r"
proof -
  assume a: "next_for_device env claimant policy sourced db = Some r"
  let ?rows = "by_age ji_created_at ji_id (filter (device_candidate env claimant policy sourced db) (ld_items db))"
  from a have "r \<in> set (sort_key (\<lambda>r. if ji_state r = ''parked_live'' then 0 else (1 :: nat)) ?rows)"
    unfolding next_for_device_def by (auto split: list.splits simp del: set_sort)
  then show ?thesis by simp
qed

lemma candidates_claimable:
  "server_candidate db r \<Longrightarrow> claimable db r \<and> \<not> account_busy db r"
  "device_candidate env claimant policy sourced db r \<Longrightarrow> claimable db r \<and> \<not> account_busy db r"
  by (auto simp: server_candidate_def device_candidate_def claimable_def open_to_work_def stopped_def split: option.splits)

lemma distinct_items: "clashing item_indexes rs = [] \<Longrightarrow> distinct rs"
proof (induction rs)
  case (Cons r rs)
  moreover have "clashes item_indexes r r \<noteq> []" by (simp add: clashes_def item_indexes_def)
  ultimately show ?case by auto
qed simp

lemma filter_only: "distinct xs \<Longrightarrow> x \<in> set xs \<Longrightarrow> filter ((=) x) xs = [x]"
  by (induction xs) (auto simp: filter_empty_conv)

lemma granted:
  assumes "ledger_ok db" "r \<in> set (ld_items db)" "grant env r f db = Inr (rows, db')"
  shows "rows = [f r]" "db' = db \<lparr>ld_items := map (\<lambda>x. if x = r then f x else x) (ld_items db)\<rparr>"
proof -
  have only: "x \<in> set (ld_items db) \<Longrightarrow> item_key x = item_key r \<longleftrightarrow> x = r" for x
    using same_key [OF assms(1) _ assms(2)] by auto
  from assms(3) show "db' = db \<lparr>ld_items := map (\<lambda>x. if x = r then f x else x) (ld_items db)\<rparr>"
    using only by (auto simp: grant_def update_items_Inr)
  have "distinct (ld_items db)"
    using assms(1) distinct_items by (simp add: ledger_ok_def item_faults_def)
  moreover have "filter (\<lambda>x. item_key x = item_key r) (ld_items db) = filter ((=) r) (ld_items db)"
    using only by (auto intro!: filter_cong)
  ultimately have "filter (\<lambda>x. item_key x = item_key r) (ld_items db) = [r]"
    using assms(2) by (simp add: filter_only)
  with assms(3) show "rows = [f r]" by (simp add: grant_def update_items_Inr)
qed

end
