(* ===== verification/LedgerHistory.thy ===== *)
theory LedgerHistory
  imports LedgerSteps
begin

section \<open>The ledger in operation (crate tam-storage, jobs.rs)\<close>

text \<open>
  The histories of the ledger: the tables of an empty ledger changed by any sequence of the repositories' operations,
  with whatever else the other parts of the system write between them. Every operation is a sequence of moves of the
  life cycle, so the tables' invariant holds in every history.
\<close>

subsection \<open>Histories\<close>

text \<open>
  A step is any operation of the repositories, at its own instant and with any arguments, or a write of another part
  of the system: to the tables a claim only reads, or to the mapping tables within their own invariant. An event
  recorded from outside the ledger is not the ledger's own word that a job settled.
\<close>

inductive ledger_step :: "LedgerDb \<Rightarrow> LedgerDb \<Rightarrow> bool" for db where
  S_enqueue: "enqueue env org new items db = Inr (u, db') \<Longrightarrow> ledger_step db db'"
| S_create: "ledger_step db (snd (create_with_request_key env org origin new items db))"
| S_acquire: "ledger_step db (snd (acquire env worker ttl db))"
| S_claim: "ledger_step db (snd (claim_for_device env claimant policy at db))"
| S_renew: "repo_renew env lease db = Inr (answer, db') \<Longrightarrow> ledger_step db db'"
| S_release: "release env lease db = Inr (u, db') \<Longrightarrow> ledger_step db db'"
| S_park: "repo_park env lease gate secs db = Inr (u, db') \<Longrightarrow> ledger_step db db'"
| S_preflight_failed: "repo_preflight_failed env lease edge db = Inr (answer, db') \<Longrightarrow> ledger_step db db'"
| S_preflight_ok: "preflight_succeeded env lease db = Inr (u, db') \<Longrightarrow> ledger_step db db'"
| S_hand_back: "ledger_step db (snd (repo_hand_back env env' lease attempts_max at db))"
| S_settle: "repo_settle env lease verdict at db = Inr (u, db') \<Longrightarrow> ledger_step db db'"
| S_settle_recorded: "settle_recorded env lease verdict at event db = Inr (u, db') \<Longrightarrow> ledger_step db db'"
| S_charge: "charge_and_requeue env lease attempts_max detail at db = Inr (answer, db') \<Longrightarrow> ledger_step db db'"
| S_expire: "expire_and_steal env at attempts_max db = Inr (n, db') \<Longrightarrow> ledger_step db db'"
| S_revive: "revive_expired env at attempts_max db = Inr (answer, db') \<Longrightarrow> ledger_step db db'"
| S_gap: "revive_by_gap env org gate at db = Inr (n, db') \<Longrightarrow> ledger_step db db'"
| S_on: "revive_on env org mapping gate at db = Inr (n, db') \<Longrightarrow> ledger_step db db'"
| S_counterparts: "revive_counterparts env org mapping at db = Inr (n, db') \<Longrightarrow> ledger_step db db'"
| S_open: "open_asserted env lease attempt mapping intent stamp asserted db = Inr (u, db') \<Longrightarrow> ledger_step db db'"
| S_settle_attempt: "repo_settle_attempt env lease settling averdict at db = Inr (answer, db') \<Longrightarrow> ledger_step db db'"
| S_fence: "fence_apply env fence org job db = Inr (answer, db') \<Longrightarrow> ledger_step db db'"
| S_sweep: "ledger_step db (snd (finalise_deletions envs org stamp db))"
| S_record: "job_event_kind payload \<noteq> ''JobSettled'' \<Longrightarrow> job_record_event env scope payload stamp db = Inr (u, db') \<Longrightarrow>
    ledger_step db db'"
| S_mapping: "keeps_mappings (ld_mapping db) md \<Longrightarrow> ledger_step db (db \<lparr>ld_mapping := md\<rparr>)"
| S_world: "ledger_step db (db \<lparr>ld_world := w\<rparr>)"

definition empty_ledger :: "MappingDb \<Rightarrow> World \<Rightarrow> LedgerDb" where
  "empty_ledger md w = \<lparr>ld_mapping = md, ld_generations = (\<lambda>_. 0), ld_jobs = [], ld_items = [], ld_attempts = [], ld_counters = Map.empty,
     ld_events = [], ld_world = w\<rparr>"

inductive ledger_history :: "LedgerDb \<Rightarrow> bool" where
  LH_empty: "db_ok md \<Longrightarrow> ledger_history (empty_ledger md w)"
| LH_step: "ledger_history db \<Longrightarrow> ledger_step db db' \<Longrightarrow> ledger_history db'"

lemma acquire_moves:
  assumes "ledger_ok db"
  shows "ledger_move\<^sup>*\<^sup>* db (snd (acquire env worker ttl db))"
proof (cases "next_for_server db")
  case (Some r)
  note r = next_served [OF Some]
  have "ledger_move\<^sup>*\<^sup>* db db'" if "grant env r (lease_to env worker ttl) db = Inr (rows, db')" for rows db'
    using that unfolding grant_def
  proof (rule updated_items_move)
    fix x x' assume x: "x \<in> set (ld_items db)" "item_key x = item_key r" "Some (lease_to env worker ttl x) = Some x'"
    with assms r have "x = r" by (intro same_key) auto
    with x Lease [where db = db and r = r and owner = worker and gate = "ji_blocked_on r" and t = "ji_park_expires_at r"] r candidates_claimable(1)
    show "item_move db x x'" by (auto simp: lease_to_def)
  qed
  then show ?thesis
    by (auto simp: acquire_def Some split: sum.split list.split dest!: map_unique_Inr [THEN iffD1])
qed (simp add: acquire_def)

lemma claim_moves:
  assumes "ledger_ok db"
  shows "ledger_move\<^sup>*\<^sup>* db (snd (claim_for_device env claimant policy at db))"
proof (cases "next_for_device env claimant policy (device_runs_sourced claimant db) db")
  case (Some r)
  note r = next_claimed [OF Some]
  have leased: "ledger_move\<^sup>*\<^sup>* db db'" if "grant env r (lease_to_device env claimant policy) db = Inr (rows, db')" for rows db'
    using that unfolding grant_def
  proof (rule updated_items_move)
    fix x x' assume x: "x \<in> set (ld_items db)" "item_key x = item_key r"
      "Some (lease_to_device env claimant policy x) = Some x'"
    with assms r have "x = r" by (intro same_key) auto
    with x Lease [where db = db and r = r and owner = "df_device claimant" and gate = None and t = None] r candidates_claimable(2)
    show "item_move db x x'" by (auto simp: lease_to_device_def lease_to_def unparked_def)
  qed
  have told: "ledger_move\<^sup>*\<^sup>* db db'" if "claim_event env claimant row at db = Inr (u, db')" for row u db db'
    using that unfolding claim_event_def by (rule mv.withinD [OF events_within(2), rotated]) simp
  have "ledger_move\<^sup>*\<^sup>* db db2"
    if "grant env r (lease_to_device env claimant policy) db = Inr (row # rows, db1)" "claim_event env claimant row at db1 = Inr (u, db2)"
    for row rows db1 u db2
    using leased [OF that(1)] told [OF that(2)] by (rule rtranclp_trans)
  then show ?thesis
    by (auto simp: claim_for_device_def Some Let_def split: sum.split list.split dest!: map_unique_Inr [THEN iffD1])
qed (simp add: claim_for_device_def)

lemma step_moves:
  assumes "ledger_step db db'" and "ledger_ok db"
  shows "ledger_move\<^sup>*\<^sup>* db db'"
  using assms
proof (induction rule: ledger_step.induct)
  case (S_mapping md)
  then show ?case by (intro one_move M_mapping)
next
  case (S_world w)
  show ?case by (intro one_move M_world)
qed (auto simp: repo_settle_def settle_recorded_def finalise_deletions_def acquire_moves claim_moves create_moves enqueue_moves
      hand_back_moves swept_moves
      dest: mv.withinD [OF fenced_ops_within(1)] mv.withinD [OF fenced_ops_within(2)] mv.withinD [OF fenced_ops_within(3)]
        mv.withinD [OF fenced_ops_within(4)] mv.withinD [OF fenced_ops_within(5)] mv.withinD [OF settle_within]
        mv.withinD [OF charge_within] mv.withinD [OF expire_within] mv.withinD [OF revive_within]
        mv.withinD [OF revivals_within(1)] mv.withinD [OF revivals_within(2)] mv.withinD [OF revivals_within(3)]
        mv.withinD [OF open_within] mv.withinD [OF settle_attempt_within] mv.withinD [OF fences_within(1)]
        mv.withinD [OF events_within(3)])

lemma empty_ok: "db_ok md \<Longrightarrow> ledger_ok (empty_ledger md w)"
  by (simp add: ledger_ok_def empty_ledger_def item_faults_def job_faults_def)

lemma history_ledger_ok: "ledger_history db \<Longrightarrow> ledger_ok db"
  by (induction rule: ledger_history.induct) (auto intro: empty_ok oks_kept step_moves)

text \<open>What holds of a history and of every ledger it grows into.\<close>

lemma steps_kept:
  assumes "ledger_step\<^sup>*\<^sup>* db db'" and "ledger_ok db"
  shows "ledger_ok db' \<and> ledger_move\<^sup>*\<^sup>* db db'"
  using assms(1)
proof (induction rule: rtranclp_induct)
  case (step db1 db2)
  then show ?case using step_moves oks_kept by (metis rtranclp_trans)
qed (use assms(2) in simp)

text \<open>A property of a ledger that every move keeps, while the invariant holds, is kept by every continuation.\<close>

lemma kept_by_steps:
  assumes "ledger_step\<^sup>*\<^sup>* db db'" "ledger_ok db" "P db"
    and "\<And>db db'. ledger_move db db' \<Longrightarrow> ledger_ok db \<Longrightarrow> P db \<Longrightarrow> P db'"
  shows "P db'"
proof -
  have "ledger_move\<^sup>*\<^sup>* db db'" using steps_kept [OF assms(1,2)] by simp
  then show ?thesis
    using assms(2,3)
  proof (induction rule: rtranclp_induct)
    case (step db1 db2)
    then show ?case using assms(4) oks_kept by blast
  qed simp
qed

end
