(* ===== verification/LedgerFence.thy ===== *)
theory LedgerFence
  imports LedgerHistory
begin

section \<open>The standing of an undecided create (crate tam-storage, jobs.rs)\<close>

text \<open>
  A create whose write may have landed is neither sent again nor settled until somebody has asked the marketplace: its
  attempt is the fence. The passes that run with nobody deciding, the maintenance loop's two, a deletion with its
  sweep and a device's farewell, leave its row and its attempts standing. The one exit that moves its epoch is a
  claimant's own \<open>charge_and_requeue\<close>, which its budget bounds.
\<close>

subsection \<open>Waiting\<close>

definition ANSWER_GATES :: "string list" where
  "ANSWER_GATES = [AWAITING_MARKETPLACE_ANSWER, AWAITING_SELLER_SIGNIN, REAUTH_REQUIRED]"

definition awaiting_answer :: "ItemRow \<Rightarrow> bool" where
  "awaiting_answer r \<longleftrightarrow> parked r \<and> (case ji_blocked_on r of None \<Rightarrow> False | Some gate \<Rightarrow> gate \<in> set ANSWER_GATES)"

definition waiting :: "LedgerDb \<Rightarrow> ItemRow \<Rightarrow> bool" where
  "waiting db r \<longleftrightarrow> undecided_create db r \<and> (is_live_lease r \<or> awaiting_answer r)"

text \<open>The same item under the same key and epoch.\<close>

definition same_standing :: "ItemRow \<Rightarrow> ItemRow \<Rightarrow> bool" where
  "same_standing r r' \<longleftrightarrow> item_identity r r' \<and> ji_idempotency_key r' = ji_idempotency_key r \<and> ji_lease_epoch r' = ji_lease_epoch r"

definition keeps_waiting :: "LedgerDb \<Rightarrow> LedgerDb \<Rightarrow> bool" where
  "keeps_waiting db db' \<longleftrightarrow> (item_faults (ld_items db) = [] \<longrightarrow> item_faults (ld_items db') = []
     \<and> (\<forall>r \<in> set (ld_items db). waiting db r \<longrightarrow>
          (\<exists>r' \<in> set (ld_items db'). waiting db' r' \<and> same_standing r r' \<and> attempts_of db' r' = attempts_of db r)))"

lemma same_standing_trans: "same_standing r s \<Longrightarrow> same_standing s u \<Longrightarrow> same_standing r u"
  by (simp add: same_standing_def item_identity_def)

lemma same_standing_refl [simp]: "same_standing r r"
  by (simp add: same_standing_def)

interpretation kw: tx_order keeps_waiting
proof
  fix db db1 db2 assume "keeps_waiting db db1" "keeps_waiting db1 db2"
  then show "keeps_waiting db db2"
    unfolding keeps_waiting_def by (metis same_standing_trans)
qed (auto simp: keeps_waiting_def)

subsection \<open>What touches no item\<close>

definition other_tables :: "LedgerDb \<Rightarrow> LedgerDb \<Rightarrow> bool" where
  "other_tables db db' \<longleftrightarrow>
     ld_items db' = ld_items db \<and> ld_attempts db' = ld_attempts db \<and> ld_mapping db' = ld_mapping db"

interpretation ot: tx_order other_tables
  by unfold_locales (auto simp: other_tables_def)

lemma waiting_elsewhere: "other_tables db db' \<Longrightarrow> waiting db' = waiting db \<and> attempts_of db' = attempts_of db"
  by (simp add: other_tables_def waiting_def undecided_create_def attempts_of_def mapping_of_def fun_eq_iff)

lemma elsewhere_waits: "ot.within m \<Longrightarrow> kw.within m"
proof (rule kw.withinI)
  fix db x db' assume "ot.within m" "m db = Inr (x, db')"
  then have "other_tables db db'" by (rule ot.withinD)
  then show "keeps_waiting db db'"
    using waiting_elsewhere unfolding keeps_waiting_def other_tables_def by (metis same_standing_refl)
qed

lemma events_elsewhere [simp, intro]: "ot.within (append_event_asserted env scope payload stamp asserted)"
  "ot.within (append_event env scope payload stamp)"
proof -
  show "ot.within (append_event_asserted env scope payload stamp asserted)" for asserted
    unfolding append_event_asserted_def
    by (rule ot.withinI) (auto elim!: tx_bind_InrE simp: allocate_org_seq_def insert_event_def other_tables_def
        split: option.splits list.splits)
  then show "ot.within (append_event env scope payload stamp)" by (simp add: append_event_def)
qed

lemma settlement_elsewhere [simp, intro]: "ot.within (settle_if_complete env org job at)" "ot.within (settle_seen env at rows)"
proof -
  show "ot.within (settle_if_complete env org job at)" for org job
    unfolding settle_if_complete_def
    by (rule ot.withinI) (auto elim!: tx_bind_InrE simp: lock_org_counter_def allocate_org_seq_def insert_once_def
        other_tables_def split: option.splits list.splits if_splits)
  then show "ot.within (settle_seen env at rows)"
    unfolding settle_seen_def by (intro ot.within_each) (simp split: prod.split)
qed

lemma jobs_elsewhere [simp, intro]: "ot.within (run_stmt (update_jobs env sel f))"
  by (rule ot.withinI) (auto simp: update_jobs_Inr other_tables_def)

lemma resumptions_elsewhere [simp, intro]: "ot.within (record_resumptions env rows at)"
  unfolding record_resumptions_def by (intro ot.within_each events_elsewhere)

subsection \<open>Statements\<close>

lemma waiting_update:
  assumes "update_items env sel f db = Inr (hit, db')"
    and "\<And>r r'. r \<in> set (ld_items db) \<Longrightarrow> sel db r \<Longrightarrow> f r = Some r' \<Longrightarrow> waiting db r \<Longrightarrow>
      same_standing r r' \<and> (is_live_lease r' \<or> awaiting_answer r')"
  shows "keeps_waiting db db'"
proof -
  from assms(1) have upd: "\<forall>r \<in> set (ld_items db). sel db r \<longrightarrow> f r \<noteq> None" "item_faults (ld_items db') = []"
    and rows: "db' = db \<lparr>ld_items := map (\<lambda>r. if sel db r then the (f r) else r) (ld_items db)\<rparr>"
    by (auto simp: update_items_Inr)
  have "\<exists>r' \<in> set (ld_items db'). waiting db' r' \<and> same_standing r r' \<and> attempts_of db' r' = attempts_of db r"
    if r: "r \<in> set (ld_items db)" "waiting db r" for r
  proof -
    define r' where "r' = (if sel db r then the (f r) else r)"
    have stands: "same_standing r r' \<and> (is_live_lease r' \<or> awaiting_answer r')"
    proof (cases "sel db r")
      case True
      with upd(1) r(1) have "f r = Some r'" by (auto simp: r'_def)
      with assms(2) r True show ?thesis by blast
    next
      case False
      with r(2) show ?thesis by (simp add: r'_def waiting_def)
    qed
    moreover have attempts: "attempts_of db' r' = attempts_of db r"
      using stands by (simp add: attempts_of_def rows same_standing_def item_identity_def)
    moreover have "undecided_create db' r'"
      using r(2) stands attempts
      by (simp add: waiting_def undecided_create_def mapping_of_def rows same_standing_def item_identity_def)
    moreover have "r' \<in> set (ld_items db')" using r(1) by (auto simp: rows r'_def)
    ultimately show ?thesis unfolding waiting_def by blast
  qed
  with upd show ?thesis by (simp add: keeps_waiting_def)
qed

lemma untouched_within:
  assumes "\<And>db r. sel db r \<Longrightarrow> \<not> waiting db r"
  shows "kw.within (run_stmt (update_items env sel f))"
  using assms by (auto intro!: kw.withinI dest!: waiting_update)

lemma parked_waits: "gate \<in> set ANSWER_GATES \<Longrightarrow> awaiting_answer (parked_on gate t r) \<and> same_standing r (parked_on gate t r)"
  by (simp add: awaiting_answer_def parked_def parked_on_def unleased_def same_standing_def item_identity_def)

lemma marketplace_gate [simp]: "AWAITING_MARKETPLACE_ANSWER \<in> set ANSWER_GATES" "AWAITING_SELLER_SIGNIN \<in> set ANSWER_GATES"
  by (simp_all add: ANSWER_GATES_def)

subsection \<open>The passes\<close>

lemma parking_within:
  assumes "gate \<in> set ANSWER_GATES"
  shows "kw.within (run_stmt (update_items env sel (\<lambda>r. Some (parked_on gate t r))))"
  using assms parked_waits by (auto intro!: kw.withinI waiting_update)

lemma undecided_states: "waiting db r \<Longrightarrow> is_live_lease r \<or> parked r"
  by (auto simp: waiting_def awaiting_answer_def)

lemma fence_waits [simp, intro]: "kw.within (fence_and_classify env org job stamp)"
proof -
  have "kw.within (cancel_unstarted_items env org job at)" for at
    unfolding cancel_unstarted_items_def
    by (intro kw.within_bind kw.within_plain untouched_within)
      (auto simp: waiting_def undecided_create_def unstarted_def list_ex_iff SENT_STATES_def)
  moreover have "kw.within (park_stopped_writes env org job)"
    unfolding park_stopped_writes_def by (intro kw.within_bind kw.within_plain parking_within) simp
  ultimately show ?thesis
    unfolding fence_and_classify_def
    by (intro kw.within_bind kw.within_each kw.within_plain) (auto intro: elsewhere_waits)
qed

lemma deletions_wait [simp, intro]: "kw.within (delete_job_in_tx env org job stamp)"
  "kw.within (reconcile_job_deletion env org job stamp)" "kw.within (fence_apply env fence org job)"
  "kw.within (finalise_deletion env org job stamp)"
proof -
  show delete: "kw.within (delete_job_in_tx env org job stamp)" for stamp
    unfolding delete_job_in_tx_def
    by (intro kw.within_bind kw.within_plain kw.within_if fence_waits) (auto intro: elsewhere_waits)
  show reconcile: "kw.within (reconcile_job_deletion env org job stamp)" for stamp
    unfolding reconcile_job_deletion_def job_deletion_requested_def
    by (intro kw.within_bind kw.within_plain kw.within_if fence_waits)
  show "kw.within (fence_apply env fence org job)" by (cases fence) (simp_all add: delete reconcile)
  show "kw.within (finalise_deletion env org job stamp)" by (simp add: finalise_deletion_def reconcile)
qed

lemma sweep_waits: "keeps_waiting db (snd (finalise_each envs org stamp jobs n db))"
proof (induction jobs arbitrary: n db)
  case (Cons job jobs)
  then show ?case
    by (auto simp: kw.stays split: sum.split dest!: kw.withinD [OF deletions_wait(4)] intro: kw.trans)
qed (simp add: kw.stays)

text \<open>Once the lapsed ones are parked, a pass over lapsed leases that ends them touches none that waits.\<close>

definition none_lapsed :: "TxEnv \<Rightarrow> LedgerDb \<Rightarrow> bool" where
  "none_lapsed env db \<longleftrightarrow> (\<forall>r \<in> set (ld_items db). waiting db r \<longrightarrow> \<not> lapsed env r)"

lemma waiting_same_tables:
  "other_tables (db \<lparr>ld_items := rs\<rparr>) (db' \<lparr>ld_items := rs\<rparr>) \<Longrightarrow> waiting db' = waiting db"
  by (simp add: other_tables_def waiting_def undecided_create_def attempts_of_def mapping_of_def fun_eq_iff)

lemma updated_tables: "update_items env sel f db = Inr (hit, db') \<Longrightarrow> waiting db' = waiting db"
  by (rule waiting_same_tables [where rs = "[]"]) (auto simp: update_items_Inr other_tables_def)

lemma lapsed_parked:
  assumes "update_items env (\<lambda>db r. lapsed env r \<and> undecided_create db r)
      (\<lambda>r. Some (parked_on AWAITING_MARKETPLACE_ANSWER None r)) db = Inr (hit, db')"
  shows "none_lapsed env db'"
proof -
  have "\<not> lapsed env (parked_on AWAITING_MARKETPLACE_ANSWER None r)" for r
    by (simp add: lapsed_def live_states parked_on_def)
  then show ?thesis
    using assms updated_tables [OF assms] by (auto simp: none_lapsed_def update_items_Inr waiting_def)
qed

lemma lapsed_ended:
  assumes "update_items env sel f db = Inr (hit, db')" "none_lapsed env db"
    and "\<And>db r. sel db r \<Longrightarrow> lapsed env r" "\<And>r r'. f r = Some r' \<Longrightarrow> \<not> is_live_lease r'"
  shows "keeps_waiting db db' \<and> none_lapsed env db'"
proof
  show "keeps_waiting db db'"
    by (rule waiting_update [OF assms(1)]) (use assms(2,3) in \<open>auto simp: none_lapsed_def\<close>)
  have "\<not> lapsed env r'" if "f r = Some r'" for r r' using assms(4) [OF that] by (simp add: lapsed_def)
  then show "none_lapsed env db'"
    using assms(1,2) updated_tables [OF assms(1)] by (fastforce simp: none_lapsed_def update_items_Inr)
qed

lemma ended_rows: "exhausted_row d r = Some r' \<Longrightarrow> \<not> is_live_lease r'" "requeued r = Some r' \<Longrightarrow> \<not> is_live_lease r'"
  by (auto simp: exhausted_row_def requeued_def next_epoch_def live_states split: if_splits)

lemma expire_waits [simp, intro]: "kw.within (expire_and_steal env now attempts_max)"
proof (rule kw.withinI)
  fix db n db' assume "expire_and_steal env now attempts_max db = Inr (n, db')"
  then obtain d stranded failed stolen db1 db2 db3 x where
    repo_park: "update_items env (\<lambda>db r. lapsed env r \<and> undecided_create db r)
      (\<lambda>r. Some (parked_on AWAITING_MARKETPLACE_ANSWER None r)) db = Inr (stranded, db1)"
    and spent: "update_items env (\<lambda>db r. lapsed env r \<and> budget_over attempts_max r
      \<and> \<not> stopped db (ji_org_id r) (ji_job_id r)) (exhausted_row d) db1 = Inr (failed, db2)"
    and steal: "update_items env (\<lambda>db r. lapsed env r \<and> \<not> stopped db (ji_org_id r) (ji_job_id r)) requeued db2 = Inr (stolen, db3)"
    and told: "settle_seen env now failed db3 = Inr (x, db')"
    unfolding expire_and_steal_def by (auto elim!: tx_bind_InrE)
  have first: "keeps_waiting db db1" by (rule waiting_update [OF repo_park]) (auto simp: parked_waits)
  have second: "keeps_waiting db1 db2 \<and> none_lapsed env db2"
    by (rule lapsed_ended [OF spent lapsed_parked [OF repo_park]]) (auto dest: ended_rows)
  have third: "keeps_waiting db2 db3"
    using lapsed_ended [OF steal] second ended_rows(2) by blast
  have "keeps_waiting db3 db'"
    using told elsewhere_waits [OF settlement_elsewhere(2)] by (rule kw.withinD [rotated])
  with first second third show "keeps_waiting db db'" by (meson kw.trans)
qed

text \<open>A park that may clear by itself, or by a link of the account, is none of those that wait for an answer.\<close>

lemma clearing_waits_not: "gate_open env r \<Longrightarrow> \<not> waiting db r" "relinkable db r \<Longrightarrow> \<not> waiting db' r"
proof -
  show "gate_open env r \<Longrightarrow> \<not> waiting db r"
    by (auto simp: gate_open_def waiting_def live_states awaiting_answer_def ANSWER_GATES_def REVIVABLE_GATES_def
        AWAITING_MARKETPLACE_ANSWER_def AWAITING_SELLER_SIGNIN_def REAUTH_REQUIRED_def ELECTION_def AWAITING_COUNTERPART_def
        split: option.splits)
  show "relinkable db r \<Longrightarrow> \<not> waiting db' r"
    by (auto simp: relinkable_def waiting_def undecided_create_def)
qed

lemma filter_unmoved: "(\<And>x. P (g x) = P x) \<Longrightarrow> (\<And>x. P x \<Longrightarrow> g x = x) \<Longrightarrow> filter P (map g xs) = filter P xs"
  by (induction xs) auto

lemma freed_attempts_wait:
  assumes "update_attempts env (\<lambda>db w. wa_state w = ''in_flight''
      \<and> list_ex (\<lambda>r. relinkable db r \<and> ji_org_id r = wa_org_id w \<and> ji_id r = wa_job_item_id w) (ld_items db))
    (freed_attempt d) db = Inr (n, db')"
  shows "keeps_waiting db db'"
proof -
  define sel where "sel = (\<lambda>w :: AttemptRow. wa_state w = ''in_flight''
      \<and> list_ex (\<lambda>r. relinkable db r \<and> ji_org_id r = wa_org_id w \<and> ji_id r = wa_job_item_id w) (ld_items db))"
  have rows: "db' = db \<lparr>ld_attempts := map (\<lambda>w. if sel w then freed_attempt d db w else w) (ld_attempts db)\<rparr>"
    using assms by (simp add: update_attempts_Inr sel_def)
  have keys: "wa_org_id (freed_attempt d db w) = wa_org_id w \<and> wa_job_item_id (freed_attempt d db w) = wa_job_item_id w"
    for w :: AttemptRow
    by (simp add: freed_attempt_def split: option.split)
  have "attempts_of db' r = attempts_of db r"
    if clean: "clashing item_indexes (ld_items db) = []" and r: "r \<in> set (ld_items db)" "waiting db r" for r
  proof -
    have "\<not> sel w" if w: "wa_org_id w = ji_org_id r" "wa_job_item_id w = ji_id r" for w
    proof
      assume "sel w"
      then obtain s where s: "s \<in> set (ld_items db)" "relinkable db s" "ji_org_id s = ji_org_id r" "ji_id s = ji_id r"
        using w by (auto simp: sel_def list_ex_iff)
      have "s = r"
        by (rule clashing_unique [OF clean, where name = "''job_item_pkey''" and key = "\<lambda>r. Some (ji_org_id r, ji_id r)"])
          (use s r in \<open>auto simp: item_indexes_def\<close>)
      with s(2) r(2) clearing_waits_not(2) show False by blast
    qed
    then show ?thesis
      unfolding attempts_of_def rows using keys by (simp add: filter_unmoved)
  qed
  moreover have "waiting db' r" if "waiting db r" "attempts_of db' r = attempts_of db r" for r
    using that by (simp add: waiting_def undecided_create_def mapping_of_def rows)
  ultimately show ?thesis
    unfolding keeps_waiting_def by (auto simp: rows item_faults_def intro!: bexI [where P = "\<lambda>r'. _ r' \<and> _ r' \<and> _ r'"])
qed

lemma revive_waits [simp, intro]: "kw.within (revive_expired env now attempts_max)"
proof -
  have regate: "kw.within (run_stmt (update_items env
      (\<lambda>_ r. ji_state r = ''parked_live'' \<and> passed (te_now env) (ji_park_expires_at r)
           \<and> ji_blocked_on r = Some REAUTH_REQUIRED \<and> oc_operation (ji_operation r) = ''create'')
      (\<lambda>r. Some (r \<lparr>ji_blocked_on := Some AWAITING_SELLER_SIGNIN, ji_park_expires_at := None\<rparr>))))"
    by (auto intro!: kw.withinI waiting_update simp: same_standing_def item_identity_def awaiting_answer_def parked_def)
  have relink: "kw.within (release_relinked env d)" for d
    unfolding release_relinked_def
    by (intro kw.within_bind untouched_within) (auto intro!: kw.withinI freed_attempts_wait simp: clearing_waits_not)
  show ?thesis
    unfolding revive_expired_def
    by (intro kw.within_bind kw.within_plain kw.within_each relink regate untouched_within elsewhere_waits
        resumptions_elsewhere settlement_elsewhere events_elsewhere) (auto simp: clearing_waits_not)
qed

text \<open>The row a farewell charges is not one that waits: those it parked, in the transaction before.\<close>

lemma charge_spares:
  assumes "charge_and_requeue env lease attempts_max detail at db = Inr (answer, db')"
    and "\<forall>r \<in> set (ld_items db). \<not> (held_under lease r \<and> undecided_create db r)"
  shows "keeps_waiting db db'"
proof -
  have ended: "keeps_waiting db db1" if "fenced_row env lease f db = Inr (row, db1)" for f row db1
    using that assms(2) unfolding fenced_row_def
    by (auto elim!: tx_bind_InrE split: list.splits dest!: waiting_update simp: waiting_def)
  obtain owner held where owner: "lock_owning_job (lr_org lease) (lr_item lease) db = Inr (Some owner, db)"
    and held: "List.find (held_under lease) (ld_items db) = Some held"
    using assms(1) unfolding charge_and_requeue_def lock_owning_job_def
    by (auto elim!: tx_bind_InrE split: option.splits if_splits)
  let ?job = "JobId (uuid_from_db (ji_job_id held))"
  from assms(1) owner held obtain f row db1 db2 w where row: "fenced_row env lease f db = Inr (row, db1)"
    and told: "db2 = db1 \<or> (\<exists>b. settle_if_complete env (lr_org lease) ?job at db1 = Inr (b, db2))"
    and fence: "reconcile_job_deletion env (lr_org lease) ?job (stamp_system CEngine at) db2 = Inr (w, db')"
    unfolding charge_and_requeue_def Let_def
    by (auto elim!: tx_bind_InrE split: if_splits) blast+
  have "keeps_waiting db1 db2"
    using told kw.withinD [OF elsewhere_waits [OF settlement_elsewhere(1)]] kw.stays by blast
  with ended [OF row] kw.withinD [OF deletions_wait(2) fence] show ?thesis by (meson kw.trans)
qed

lemma hand_back_waits: "keeps_waiting db (snd (repo_hand_back env env' lease attempts_max at db))"
proof (cases "park_undecided env lease db")
  case (Inr answer)
  obtain rows db1 where answer: "park_undecided env lease db = Inr (rows, db1)" using Inr by (cases answer) simp
  have parked: "keeps_waiting db db1"
    by (rule waiting_update [OF answer [unfolded park_undecided_def]]) (auto simp: parked_waits)
  have spared: "rows = [] \<Longrightarrow> \<forall>r \<in> set (ld_items db). \<not> (held_under lease r \<and> undecided_create db r)"
    using answer by (auto simp: park_undecided_def update_items_Inr filter_empty_conv)
  show ?thesis
    using parked spared charge_spares
    by (auto simp: repo_hand_back_def answer kw.stays split: sum.split Charged.split)
qed (simp add: repo_hand_back_def kw.stays)

text \<open>The passes that run with nobody deciding.\<close>

inductive unattended :: "LedgerDb \<Rightarrow> LedgerDb \<Rightarrow> bool" for db where
  U_expire: "expire_and_steal env at attempts_max db = Inr (n, db') \<Longrightarrow> unattended db db'"
| U_revive: "revive_expired env at attempts_max db = Inr (answer, db') \<Longrightarrow> unattended db db'"
| U_fence: "fence_apply env fence org job db = Inr (answer, db') \<Longrightarrow> unattended db db'"
| U_sweep: "unattended db (snd (finalise_deletions envs org stamp db))"
| U_hand_back: "unattended db (snd (repo_hand_back env env' lease attempts_max at db))"

lemma unattended_waits: "unattended db db' \<Longrightarrow> keeps_waiting db db'"
  by (induction rule: unattended.induct)
    (auto simp: finalise_deletions_def sweep_waits hand_back_waits dest: kw.withinD [OF expire_waits]
      kw.withinD [OF revive_waits] kw.withinD [OF deletions_wait(3)])

lemma unattended_waits_on: "unattended\<^sup>*\<^sup>* db db' \<Longrightarrow> keeps_waiting db db'"
  by (induction rule: rtranclp_induct) (auto simp: kw.stays dest: unattended_waits intro: kw.trans)

end
