(* ===== verification/LedgerExample.thy ===== *)
theory LedgerExample
  imports LedgerFence
begin

section \<open>A ledger at work (crate tam-storage, jobs.rs)\<close>

text \<open>
  One history, evaluated: a job with one create is queued for a mapping, the seller's device claims it and opens its
  attempt; from there the device lands the listing and settles the item, or falls silent until its lease lapses; and
  in another the seller deletes the job before any device came.
\<close>

definition tables_of :: "(StorageError + 'a \<times> LedgerDb) \<Rightarrow> LedgerDb" where
  "tables_of answer = snd (projr answer)"

lemma committed_tables: "\<not> isl answer \<Longrightarrow> answer = Inr (fst (projr answer), tables_of answer)"
  by (cases answer) (simp_all add: tables_of_def)

definition clock :: "int \<Rightarrow> TxEnv" where
  "clock s = \<lparr>te_std = example_std, te_reported = hd, te_now = DateTime (s * 1000000000), te_new_v5 = (\<lambda>_ b. b),
     te_freeze = (\<lambda>_ _ _ _. Inr None)\<rparr>"

definition the_device :: DeviceRef where
  "the_device = \<lparr>df_org = example_org, df_device = ''device''\<rparr>"

definition the_world :: World where
  "the_world =
     \<lparr>wd_inventories = [\<lparr>inv_code = ''tpt'', inv_marketplace = ''tpt'', inv_transport_class = ''seller_device''\<rparr>],
      wd_inventory_halts = [], wd_org_halts = [], wd_org_inventory_halts = [],
      wd_connections = [\<lparr>cn_org_id = replicate 16 1, cn_id = replicate 16 9, cn_marketplace = ''tpt'', cn_state = ''linked''\<rparr>],
      wd_devices = [\<lparr>dv_org_id = replicate 16 1, dv_id = ''device'', dv_app_version = ''1.0.0'', dv_revoked_at = None\<rparr>],
      wd_sessions = [\<lparr>dms_org_id = replicate 16 1, dms_device_id = ''device'', dms_marketplace = ''tpt'',
                      dms_status = ''connected''\<rparr>],
      wd_subscriptions = [], wd_files = [], wd_requests = [], wd_import_runs = []\<rparr>"

definition the_job :: NewJob where
  "the_job = \<lparr>nw_job = JobId (Uuid (replicate 16 4)), nw_inventory = Tpt, nw_stamp = stamp_system CEngine (Timestamp 1000)\<rparr>"

definition the_item :: NewJobItem where
  "the_item = \<lparr>nj_item = JobItemId (Uuid (replicate 16 5)), nj_mapping = MappingId (Uuid (replicate 16 3)),
     nj_idempotency_key = IdempotencyKey (Uuid (replicate 16 6)), nj_operation = Create, nj_requires_bound_on = None\<rparr>"

definition the_policy :: ClaimPolicy where
  "the_policy = \<lparr>cp_ttl_seconds = 600, cp_grace_hours = 72, cp_marketplace = Some MTpt, cp_reconcile = True\<rparr>"

definition the_lease :: LeaseRef where
  "the_lease = \<lparr>lr_org = example_org, lr_item = nj_item the_item, lr_lease_epoch = 0\<rparr>"

definition the_attempt :: AttemptRef where
  "the_attempt = \<lparr>af_attempt = Uuid (replicate 16 7), af_mapping = nj_mapping the_item\<rparr>"

definition the_landing :: AttemptVerdict where
  "the_landing = \<lparr>av_state = ''committed'', av_failure_code = None, av_ambiguity = None,
     av_landing = LE_Landed (RTpt 70) (L_Live (Timestamp 4000))\<rparr>"

definition the_verdict :: ItemVerdict where
  "the_verdict = \<lparr>iv_outcome = IO_Succeeded, iv_failure_code = None, iv_failure_detail = None\<rparr>"

definition db_empty :: LedgerDb where "db_empty = empty_ledger example_unbound_db the_world"

definition db_queued :: LedgerDb where
  "db_queued = tables_of (enqueue (clock 1) example_org the_job [the_item] db_empty)"

definition db_claimed :: LedgerDb where
  "db_claimed = snd (claim_for_device (clock 2) the_device the_policy (Timestamp 2000) db_queued)"

definition db_opened :: LedgerDb where
  "db_opened = tables_of (open_asserted (clock 3) the_lease (af_attempt the_attempt) (nj_mapping the_item)
     \<lparr>ai_body = J_Null, ai_hash = []\<rparr> (stamp_system CDevice (Timestamp 3000)) None db_claimed)"

definition db_landed :: LedgerDb where
  "db_landed = tables_of (repo_settle_attempt (clock 4) the_lease the_attempt the_landing (Timestamp 4000) db_opened)"

definition db_settled :: LedgerDb where
  "db_settled = tables_of (repo_settle (clock 5) the_lease the_verdict (Timestamp 5000) db_landed)"

definition db_lapsed :: LedgerDb where
  "db_lapsed = tables_of (expire_and_steal (clock 10000) (Timestamp 10000000) 5 db_opened)"

definition db_deleted :: LedgerDb where
  "db_deleted = tables_of (repo_delete (clock 2) example_org (nw_job the_job) (stamp_system CEngine (Timestamp 2000)) db_queued)"

text \<open>The counts, computed on integers.\<close>

lemma item_count_int [code]: "item_count items =
    (if int (length items) < 4294967296 then Inr (of_nat (length items))
     else Inl (Inconsistent (decimal (length items) @ '' items exceed the event range'')))"
  by (simp add: item_count_def)

lemma count_u32_int [code]: "count_u32 n =
    (if int n < 4294967296 then Inr (of_nat n)
     else Inl (Inconsistent (''a job item count does not fit the event vocabulary: '' @ decimal n)))"
  by (simp add: count_u32_def)

lemma u64_count_int [code]: "u64_count n = (if int n < 18446744073709551615 then n else 2 ^ 64 - 1)"
  by (simp add: u64_count_def)

lemma segment_int [code]: "segment raw =
    (if length raw > 1 \<and> hd raw = CHR ''0'' then None
     else let ds = (case raw of [] \<Rightarrow> [] | c # cs \<Rightarrow> if c = CHR ''+'' then cs else raw) in
       if ds \<noteq> [] \<and> list_all ascii_digit ds \<and> int (digits_value ds) < 4294967296 then Some (digits_value ds) else None)"
  by (simp add: segment_def parse_unsigned_def Let_def)

text \<open>The whole history, evaluated at once; the facts the proofs below cite are its conjuncts.\<close>

lemma evaluated:
  "\<not> isl (enqueue (clock 1) example_org the_job [the_item] db_empty)
   \<and> list_all (\<lambda>r. ji_state r = ''queued'') (ld_items db_queued)
   \<and> map_sum (\<lambda>_. ()) (\<lambda>c. case c of Leased item \<Rightarrow> Some (le_item item) | _ \<Rightarrow> None)
       (fst (claim_for_device (clock 2) the_device the_policy (Timestamp 2000) db_queued)) = Inr (Some (nj_item the_item))
   \<and> \<not> isl (open_asserted (clock 3) the_lease (af_attempt the_attempt) (nj_mapping the_item)
         \<lparr>ai_body = J_Null, ai_hash = []\<rparr> (stamp_system CDevice (Timestamp 3000)) None db_claimed)
   \<and> ld_items db_opened \<noteq> [] \<and> undecided_create db_opened (hd (ld_items db_opened))
   \<and> is_live_lease (hd (ld_items db_opened)) \<and> ji_lease_epoch (hd (ld_items db_opened)) = 0
   \<and> filter (\<lambda>r. live_lease r = Some (replicate 16 1, ''tpt'')) (ld_items db_opened) \<noteq> []
   \<and> filter (\<lambda>w. in_flight_claim w = Some (replicate 16 1, replicate 16 3)) (ld_attempts db_opened) \<noteq> []
   \<and> map_sum (\<lambda>_. ()) fst (repo_settle_attempt (clock 4) the_lease the_attempt the_landing (Timestamp 4000) db_opened)
       = Inr BD_Bound
   \<and> \<not> isl (repo_settle (clock 5) the_lease the_verdict (Timestamp 5000) db_landed)
   \<and> ld_items db_settled \<noteq> [] \<and> ji_state (hd (ld_items db_settled)) = ''settled''
   \<and> list_ex (\<lambda>e. settled_event e \<noteq> None) (ld_events db_settled)
   \<and> map_sum (\<lambda>_. ()) fst (expire_and_steal (clock 10000) (Timestamp 10000000) 5 db_opened) = Inr 1
   \<and> \<not> list_ex (held_under the_lease) (ld_items db_lapsed)
   \<and> map_sum (\<lambda>_. ()) fst (repo_delete (clock 2) example_org (nw_job the_job) (stamp_system CEngine (Timestamp 2000))
         db_queued) = Inr (Some Deleted)"
  by code_simp

lemma queued: "enqueue (clock 1) example_org the_job [the_item] db_empty = Inr ((), db_queued)"
proof -
  have "\<not> isl (enqueue (clock 1) example_org the_job [the_item] db_empty)" using evaluated by blast
  then show ?thesis unfolding db_queued_def by (metis committed_tables unit.exhaust)
qed

lemma claimed_once: "map_sum (\<lambda>_. ()) (\<lambda>c. case c of Leased item \<Rightarrow> Some (le_item item) | _ \<Rightarrow> None)
    (fst (claim_for_device (clock 2) the_device the_policy (Timestamp 2000) db_queued)) = Inr (Some (nj_item the_item))"
  using evaluated by blast

lemma opened_once: "open_asserted (clock 3) the_lease (af_attempt the_attempt) (nj_mapping the_item)
    \<lparr>ai_body = J_Null, ai_hash = []\<rparr> (stamp_system CDevice (Timestamp 3000)) None db_claimed = Inr ((), db_opened)"
proof -
  have "\<not> isl (open_asserted (clock 3) the_lease (af_attempt the_attempt) (nj_mapping the_item)
    \<lparr>ai_body = J_Null, ai_hash = []\<rparr> (stamp_system CDevice (Timestamp 3000)) None db_claimed)" using evaluated by blast
  then show ?thesis unfolding db_opened_def by (metis committed_tables unit.exhaust)
qed

lemma landed_once: "repo_settle_attempt (clock 4) the_lease the_attempt the_landing (Timestamp 4000) db_opened = Inr (BD_Bound, db_landed)"
proof -
  let ?answer = "repo_settle_attempt (clock 4) the_lease the_attempt the_landing (Timestamp 4000) db_opened"
  have "map_sum (\<lambda>_. ()) fst ?answer = Inr BD_Bound" using evaluated by blast
  then show ?thesis unfolding db_landed_def tables_of_def by (cases ?answer) auto
qed

lemma settled_at_last: "repo_settle (clock 5) the_lease the_verdict (Timestamp 5000) db_landed = Inr ((), db_settled)"
proof -
  have "\<not> isl (repo_settle (clock 5) the_lease the_verdict (Timestamp 5000) db_landed)" using evaluated by blast
  then show ?thesis unfolding db_settled_def by (metis committed_tables unit.exhaust)
qed

lemma lapsed_at_last: "expire_and_steal (clock 10000) (Timestamp 10000000) 5 db_opened = Inr (1, db_lapsed)"
proof -
  let ?answer = "expire_and_steal (clock 10000) (Timestamp 10000000) 5 db_opened"
  have "map_sum (\<lambda>_. ()) fst ?answer = Inr 1" using evaluated by blast
  then show ?thesis unfolding db_lapsed_def tables_of_def by (cases ?answer) auto
qed

lemma deleted_first: "repo_delete (clock 2) example_org (nw_job the_job) (stamp_system CEngine (Timestamp 2000)) db_queued
    = Inr (Some Deleted, db_deleted)"
proof -
  let ?answer = "repo_delete (clock 2) example_org (nw_job the_job) (stamp_system CEngine (Timestamp 2000)) db_queued"
  have "map_sum (\<lambda>_. ()) fst ?answer = Inr (Some Deleted)" using evaluated by blast
  then show ?thesis unfolding db_deleted_def tables_of_def by (cases ?answer) auto
qed

subsection \<open>Its history\<close>

lemma empty_history: "ledger_history db_empty"
  unfolding db_empty_def by (rule LH_empty) (rule history_ok [OF H_insert [OF example_history example_unbound_inserted]])

lemma queued_history: "ledger_history db_queued"
  using empty_history S_enqueue [OF queued] by (rule LH_step)

lemma claimed_history: "ledger_history db_claimed"
  unfolding db_claimed_def using queued_history S_claim by (rule LH_step)

lemma opened_history: "ledger_history db_opened"
  using claimed_history S_open [OF opened_once] by (rule LH_step)

lemma landed_history: "ledger_history db_landed"
  using opened_history S_settle_attempt [OF landed_once] by (rule LH_step)

lemma settled_history: "ledger_history db_settled"
  using landed_history S_settle [OF settled_at_last] by (rule LH_step)

lemma lapsed_history: "ledger_history db_lapsed"
  using opened_history S_expire [OF lapsed_at_last] by (rule LH_step)

lemma deleted_history: "ledger_history db_deleted"
  using queued_history S_fence [where fence = "DeleteFence (stamp_system CEngine (Timestamp 2000))"] deleted_first
  by (auto simp: repo_delete_def intro: LH_step)

end
