(* ===== verification/LedgerSafety.thy ===== *)
theory LedgerSafety
  imports LedgerExample
begin

section \<open>What the job ledger promises (crate tam-storage, jobs.rs)\<close>

text \<open>
  What holds of every history of the ledger: the fences of an account and of a mapping, the refusal of a stale lease,
  the end of a settled item, the quiet of deleted work, the standing of a create nobody decided, what a claim was
  granted on, what a landing answers, and the events.
\<close>

subsection \<open>The life cycle\<close>


subsection \<open>The fences\<close>

lemma at_most_one:
  assumes "clashing indexes rs = []" and "(name, shares key) \<in> set indexes"
  shows "length (filter (\<lambda>r. key r = Some k) rs) \<le> 1"
  using assms(1)
proof (induction rs)
  case (Cons r rs)
  have "\<not> shares key x y" if "clashes indexes x y = []" for x y
    using assms(2) that by (force simp: clashes_def filter_empty_conv)
  with Cons.prems have "\<not> shares key r y" if "y \<in> set rs" for y
    using that by auto
  then have "key r = Some k \<Longrightarrow> filter (\<lambda>r. key r = Some k) rs = []"
    by (simp add: shares_def filter_empty_conv) metis
  with Cons show ?case by simp
qed simp

text \<open>
  C14. In every history one lease at most is live on an organisation's account with a marketplace, one write attempt
  at most is in flight for a mapping, and every attempt is an item's of that very mapping, under an epoch the item
  has reached.
\<close>

theorem one_lease_an_account_and_one_write_a_mapping:
  assumes "ledger_history db"
  shows "length (filter (\<lambda>r. live_lease r = Some account) (ld_items db)) \<le> 1
    \<and> length (filter (\<lambda>w. in_flight_claim w = Some claim) (ld_attempts db)) \<le> 1
    \<and> (\<forall>w \<in> set (ld_attempts db). \<exists>r \<in> set (ld_items db). attempt_of_item w r)"
proof -
  have ok: "ledger_ok db" using assms by (rule history_ledger_ok)
  have "length (filter (\<lambda>r. live_lease r = Some account) (ld_items db)) \<le> 1"
    by (rule at_most_one [where indexes = item_indexes and name = ONE_LIVE_LEASE])
      (use ok in \<open>auto simp: ledger_ok_def item_faults_def item_indexes_def\<close>)
  moreover have "length (filter (\<lambda>w. in_flight_claim w = Some claim) (ld_attempts db)) \<le> 1"
    by (rule at_most_one [where indexes = attempt_indexes and name = ONE_IN_FLIGHT])
      (use ok in \<open>auto simp: ledger_ok_def attempt_indexes_def\<close>)
  ultimately show ?thesis using ok by (simp add: ledger_ok_def)
qed

subsection \<open>A stale lease\<close>

lemma nothing_to_update:
  assumes "ledger_ok db" "\<forall>r \<in> set (ld_items db). \<not> sel db r"
  shows "update_items env sel f db = Inr ([], db)"
proof -
  have "filter (sel db) (ld_items db) = []" using assms(2) by (simp add: filter_empty_conv)
  moreover have "map (\<lambda>r. if sel db r then the (f r) else r) (ld_items db) = ld_items db"
    using assms(2) by (intro map_idI) auto
  ultimately show ?thesis using assms(1) by (simp add: update_items_def ledger_ok_def)
qed

lemma no_fence:
  assumes "ledger_ok db" "\<not> list_ex (held_under lease) (ld_items db)"
  shows "fenced_row env lease f db = Inl StaleLease"
    "update_items env (\<lambda>_ r. held_under lease r \<and> Q r) g db = Inr ([], db)"
  using nothing_to_update [OF assms(1)] assms(2)
  by (auto simp: fenced_row_def tx_bind_def run_stmt_def list_ex_iff try_bind_def tx_fail_def)

text \<open>
  C17. A stale lease changes nothing: where no row is held under it, every write it fences refuses with
  \<open>StaleLease\<close> and leaves the tables as they were, whatever verdict, park or intent it carries; and the one write
  that refuses nothing, the reset of a preflight streak, writes nothing.
\<close>

theorem a_stale_lease_changes_nothing:
  assumes "ledger_history db" and "\<not> list_ex (held_under lease) (ld_items db)"
    and "timestamp_to_db (te_std env) at = Inr d"
  shows "committed_by (repo_renew env lease) db = (Inl StaleLease, db)
    \<and> committed_by (release env lease) db = (Inl StaleLease, db)
    \<and> committed_by (repo_park env lease gate secs) db = (Inl StaleLease, db)
    \<and> committed_by (repo_preflight_failed env lease edge) db = (Inl StaleLease, db)
    \<and> committed_by (preflight_succeeded env lease) db = (Inr (), db)
    \<and> committed_by (repo_settle env lease verdict at) db = (Inl StaleLease, db)
    \<and> committed_by (settle_recorded env lease verdict at event) db = (Inl StaleLease, db)
    \<and> committed_by (charge_and_requeue env lease attempts_max detail at) db = (Inl StaleLease, db)
    \<and> committed_by (open_asserted env lease attempt mapping intent stamp asserted) db = (Inl StaleLease, db)"
proof -
  have ok: "ledger_ok db" using assms(1) by (rule history_ledger_ok)
  note fence = no_fence [OF ok assms(2)]
  have none: "List.find (held_under lease) (ld_items db) = None"
    using assms(2) by (simp add: find_None_iff list_ex_iff)
  have "assert_admissible_lease lease db = Inl StaleLease"
    using assms(2) by (auto simp: assert_admissible_lease_def list_ex_iff held_under_def dest!: item_of_in
        split: option.split)
  then show ?thesis
    using assms(3) none
    by (simp add: committed_by_def repo_renew_def release_def repo_park_def repo_preflight_failed_def preflight_succeeded_def repo_settle_def
        settle_recorded_def settle_inner_def charge_and_requeue_def open_asserted_def lock_owning_job_def tx_bind_def
        tx_read_def tx_lift_def tx_fail_def tx_return_def run_stmt_def try_bind_def Let_def fence split: option.split)
qed

subsection \<open>A settled item\<close>

definition row_stands :: "ItemRow \<Rightarrow> LedgerDb \<Rightarrow> bool" where
  "row_stands r db \<longleftrightarrow> (\<exists>k. r \<lparr>ji_idempotency_key := k\<rparr> \<in> set (ld_items db)
     \<and> (k = ji_idempotency_key r \<or> retired r))"

lemma retired_rekeyed [simp]: "retired (r \<lparr>ji_idempotency_key := k\<rparr>) = retired r"
  by (simp add: retired_def)

lemma row_stands_kept:
  assumes "ledger_move db db'" "ji_state r = ''settled''" "row_stands r db"
  shows "row_stands r db'"
  using assms(1)
proof cases
  case (M_items sel f)
  from assms(3) obtain k where k: "r \<lparr>ji_idempotency_key := k\<rparr> \<in> set (ld_items db)"
    "k = ji_idempotency_key r \<or> retired r" by (auto simp: row_stands_def)
  let ?r = "r \<lparr>ji_idempotency_key := k\<rparr>"
  have "(if sel ?r then f ?r else ?r) \<in> set (ld_items db')" using M_items(1) k(1) by (auto intro!: image_eqI)
  moreover have "\<exists>k'. (if sel ?r then f ?r else ?r) = r \<lparr>ji_idempotency_key := k'\<rparr>
      \<and> (k' = ji_idempotency_key r \<or> retired r)"
    using settled_moves [OF M_items(2) [OF k(1)]] assms(2) k(2) by auto
  ultimately show ?thesis unfolding row_stands_def by metis
qed (use assms(3) in \<open>auto simp: row_stands_def\<close>)

text \<open>
  C21. A settled item is final: its row stands in every continuation of the history with its outcome, its instant and
  all else unchanged, but for the key, which it gives up only where the outcome leaves the work to be done again.
\<close>

theorem a_settled_item_is_final:
  assumes "ledger_history db" "ledger_step\<^sup>*\<^sup>* db db'" "r \<in> set (ld_items db)" "ji_state r = ''settled''"
  shows "\<exists>k. r \<lparr>ji_idempotency_key := k\<rparr> \<in> set (ld_items db')
    \<and> (k = ji_idempotency_key r \<or> ji_outcome r \<in> {Some ''failed'', Some ''blocked''})"
proof -
  have "row_stands r db'"
  proof (rule kept_by_steps [OF assms(2) history_ledger_ok [OF assms(1)]])
    show "row_stands r db" unfolding row_stands_def using assms(3) by (intro exI [of _ "ji_idempotency_key r"]) simp
  qed (use assms(4) row_stands_kept in blast)
  then show ?thesis by (auto simp: row_stands_def retired_def)
qed

subsection \<open>Deleted work\<close>

text \<open>What \<open>Deleted\<close> says of a job, and that no move undoes.\<close>

definition undecided_attempt :: "AttemptRow \<Rightarrow> bool" where
  "undecided_attempt w \<longleftrightarrow> wa_state w \<in> {''in_flight'', ''ambiguous''}"

definition at_rest :: "u8 list \<Rightarrow> u8 list \<Rightarrow> LedgerDb \<Rightarrow> bool" where
  "at_rest org job db \<longleftrightarrow> stopped db org job
   \<and> (\<forall>r \<in> set (items_of db org job). ji_state r = ''settled'' \<and> ji_outcome r \<noteq> Some ''ambiguous''
        \<and> (\<forall>w \<in> set (attempts_of db r). \<not> undecided_attempt w))"

lemma stopped_kept: "ledger_move db db' \<Longrightarrow> stopped db org job \<Longrightarrow> stopped db' org job"
proof (induction rule: ledger_move.induct)
  case (M_job j)
  then show ?case by (auto simp: stopped_def job_of_def find_append_Some split: option.splits)
next
  case (M_jobs sel f)
  have "job_of (db \<lparr>ld_jobs := map (\<lambda>j. if sel j then f j else j) (ld_jobs db)\<rparr>) org job
      = map_option (\<lambda>j. if sel j then f j else j) (job_of db org job)"
    unfolding job_of_def using M_jobs(1) by (simp add: job_move_def) (rule find_moved, auto)
  moreover have "\<And>j. job_of db org job = Some j \<Longrightarrow> j \<in> set (ld_jobs db)" by (auto simp: job_of_def find_Some_iff)
  ultimately show ?case using M_jobs by (auto simp: stopped_def job_move_def split: option.splits)
qed (simp_all add: stopped_def job_of_def)

lemma at_rest_kept:
  assumes "ledger_move db db'" "ledger_ok db" "at_rest org job db"
  shows "at_rest org job db' \<and> map ji_id (items_of db' org job) = map ji_id (items_of db org job)"
proof -
  have "stopped db' org job" using stopped_kept [OF assms(1)] assms(3) by (simp add: at_rest_def)
  from assms(1) show ?thesis
proof cases
  case (M_items sel f)
  define g where "g = (\<lambda>r. if sel r then f r else r)"
  have same: "item_identity r (g r)" if "r \<in> set (ld_items db)" for r
    using moved_item [OF M_items(2) [OF that]] by (simp add: g_def)
  then have items: "items_of db' org job = map g (items_of db org job)"
    unfolding M_items(1) g_def [symmetric] by (rule items_of_moved) simp_all
  have settled: "\<exists>k. g r = r \<lparr>ji_idempotency_key := k\<rparr>" if "r \<in> set (items_of db org job)" for r
    using that assms(3) settled_moves [OF M_items(2) [of r]]
    by (cases "sel r") (auto simp: g_def at_rest_def items_of_def intro: exI [of _ "ji_idempotency_key r"])
  have rest: "ji_state (g r) = ''settled'' \<and> ji_outcome (g r) \<noteq> Some ''ambiguous''
      \<and> ji_id (g r) = ji_id r \<and> attempts_of db' (g r) = attempts_of db r" if "r \<in> set (items_of db org job)" for r
  proof -
    from settled [OF that] obtain k where k: "g r = r \<lparr>ji_idempotency_key := k\<rparr>" by blast
    show ?thesis unfolding k using that assms(3) by (auto simp: at_rest_def attempts_of_def M_items(1))
  qed
  then show ?thesis using \<open>stopped db' org job\<close> rest assms(3) by (auto simp: at_rest_def items)
next
  case (M_mint r)
  have "\<not> (ji_org_id r = org \<and> ji_job_id r = job)" using M_mint(4) assms(3) by (auto simp: at_rest_def)
  then show ?thesis using assms(3) by (auto simp: M_mint(1) at_rest_def items_of_def attempts_of_def)
next
  case (M_open w)
  have other: "\<not> (ji_org_id r = wa_org_id w \<and> ji_id r = wa_job_item_id w)" if r: "r \<in> set (items_of db org job)" for r
  proof
    assume key: "ji_org_id r = wa_org_id w \<and> ji_id r = wa_job_item_id w"
    from M_open(3) obtain s where s: "item_of db (wa_org_id w) (wa_job_item_id w) = Some s" "is_live_lease s"
      by (auto simp: admitted_def)
    from item_of_in [OF s(1)] r key have "s = r" by (intro same_key [OF assms(2)]) (auto simp: item_key_def items_of_def)
    with s r assms(3) show False by (auto simp: at_rest_def live_states)
  qed
  have "attempts_of db' r = attempts_of db r" if "r \<in> set (items_of db org job)" for r
    using other [OF that] by (auto simp: attempts_of_def M_open(1))
  then show ?thesis using assms(3) by (auto simp: M_open(1) at_rest_def items_of_def stopped_def job_of_def)
next
  case (M_attempts sel f)
  have "\<not> undecided_attempt w'" if r: "r \<in> set (items_of db org job)" and w': "w' \<in> set (attempts_of db' r)" for r w'
  proof -
    from w' obtain w where w: "w \<in> set (ld_attempts db)" "w' = (if sel w then f w else w)"
      by (auto simp: attempts_of_def M_attempts(1))
    with w' M_attempts(2) [of w] have "w \<in> set (attempts_of db r)"
      by (auto simp: attempts_of_def attempt_move_def split: if_splits)
    with r assms(3) have "\<not> undecided_attempt w" by (auto simp: at_rest_def)
    with w M_attempts(2) [of w] show ?thesis by (auto simp: attempt_move_def undecided_attempt_def)
  qed
  then show ?thesis using assms(3) by (auto simp: at_rest_def M_attempts(1) items_of_def stopped_def job_of_def)
qed (use assms(3) \<open>stopped db' org job\<close> in \<open>auto simp: at_rest_def items_of_def attempts_of_def\<close>)
qed

lemma at_rest_deleted: "at_rest (org_to_db org) (job_to_db job) db \<Longrightarrow> classify_deletion env org job db = Deleted"
  by (auto simp: classify_deletion_def at_rest_def list_ex_iff live_states undecided_attempt_def Let_def)

lemma fenced_at_rest:
  assumes "fence_and_classify env org job stamp db = Inr (Deleted, db')" "stopped db (org_to_db org) (job_to_db job)"
  shows "at_rest (org_to_db org) (job_to_db job) db'"
proof -
  from assms(1) obtain db1 n where "Deleted = classify_deletion env org job db1"
    and upd: "update_jobs env (is_job org job) (\<lambda>j. j \<lparr>jb_deletion_state := Some (deletion_str Deleted)\<rparr>) db1 = Inr (n, db')"
    unfolding fence_and_classify_def by (auto elim!: tx_bind_InrE)
  moreover have "items_of db' = items_of db1" "attempts_of db' = attempts_of db1"
    using upd by (auto simp: update_jobs_Inr items_of_def attempts_of_def fun_eq_iff)
  moreover have "stopped db' (org_to_db org) (job_to_db job)"
    using fence_moves [OF assms] assms(2) by (induction rule: rtranclp_induct) (auto intro: stopped_kept)
  ultimately show ?thesis
    by (auto simp: at_rest_def classify_deletion_def Let_def list_ex_iff undecided_attempt_def split: if_splits)
qed

lemma deleted_at_rest:
  assumes "repo_delete env org job stamp db = Inr (Some Deleted, db')"
  shows "at_rest (org_to_db org) (job_to_db job) db'"
proof -
  from assms obtain d n db1 where "update_jobs env (is_job org job) (stamped_for_deletion stamp d) db = Inr (n, db1)" "n \<noteq> 0"
    and "fence_and_classify env org job stamp db1 = Inr (Deleted, db')"
    unfolding repo_delete_def delete_job_in_tx_def by (auto elim!: tx_bind_InrE split: if_splits)
  then show ?thesis by (blast intro: fenced_at_rest stamped_stopped)
qed

text \<open>
  C18. Deleted work stays deleted: once a deletion is answered with \<open>Deleted\<close>, whatever the repositories are then
  asked, the job gains no item, every item it has stays settled, no attempt of theirs is in flight or undecided, its
  fence stands, and every later classification, at any instant, is \<open>Deleted\<close> again.
\<close>

theorem deleted_work_stays_deleted:
  assumes "ledger_history db" "repo_delete env org job stamp db = Inr (Some Deleted, db1)" "ledger_step\<^sup>*\<^sup>* db1 db2"
  shows "map ji_id (items_of db2 (org_to_db org) (job_to_db job)) = map ji_id (items_of db1 (org_to_db org) (job_to_db job))
    \<and> (\<forall>r \<in> set (items_of db2 (org_to_db org) (job_to_db job)).
          ji_state r = ''settled'' \<and> (\<forall>w \<in> set (attempts_of db2 r). wa_state w \<notin> {''in_flight'', ''ambiguous''}))
    \<and> stopped db2 (org_to_db org) (job_to_db job) \<and> classify_deletion env' org job db2 = Deleted"
proof -
  let ?o = "org_to_db org" and ?j = "job_to_db job"
  have "ledger_step db db1" using assms(2) S_fence [where fence = "DeleteFence stamp"] by (simp add: repo_delete_def)
  then have "ledger_ok db1" using assms(1) history_ledger_ok LH_step by blast
  have "at_rest ?o ?j db2 \<and> map ji_id (items_of db2 ?o ?j) = map ji_id (items_of db1 ?o ?j)"
    by (rule kept_by_steps [OF assms(3) \<open>ledger_ok db1\<close>])
      (use deleted_at_rest [OF assms(2)] at_rest_kept in \<open>simp, metis\<close>)
  then show ?thesis using at_rest_deleted by (auto simp: at_rest_def undecided_attempt_def)
qed

subsection \<open>A create nobody decided\<close>

text \<open>
  C15. A create whose write may have landed keeps its fence: a leased one, or one parked until the marketplace or the
  seller answers, is neither queued, settled nor moved to another epoch by any number of maintenance passes,
  deletions, sweeps and farewells in any order; it stands under its key with its attempts untouched, still undecided
  and still where only a claim that reconciles it, or its own claimant, takes it up.
\<close>

theorem an_undecided_create_keeps_its_fence:
  assumes "ledger_history db" "r \<in> set (ld_items db)" "undecided_create db r" "is_live_lease r \<or> awaiting_answer r"
    and "unattended\<^sup>*\<^sup>* db db'"
  shows "\<exists>r' \<in> set (ld_items db'). undecided_create db' r' \<and> (is_live_lease r' \<or> awaiting_answer r')
    \<and> same_standing r r' \<and> attempts_of db' r' = attempts_of db r"
proof -
  have "item_faults (ld_items db) = []" using history_ledger_ok [OF assms(1)] by (simp add: ledger_ok_def)
  moreover have "waiting db r" using assms(3,4) by (simp add: waiting_def)
  ultimately show ?thesis
    using unattended_waits_on [OF assms(5)] assms(2) by (auto simp: keeps_waiting_def waiting_def)
qed

subsection \<open>Claims\<close>

definition serves_before :: "ItemRow \<Rightarrow> ItemRow \<Rightarrow> bool" where
  "serves_before r s \<longleftrightarrow>
     (ji_state r = ''parked_live'' \<and> ji_state s \<noteq> ''parked_live'')
   \<or> ((ji_state r = ''parked_live'') = (ji_state s = ''parked_live'')
      \<and> dt_nanos (ji_created_at r) \<le> dt_nanos (ji_created_at s))"

lemma sort_key_head:
  assumes "sort_key f xs = x # ys" "y \<in> set xs" shows "f x \<le> f y"
proof -
  have "sorted (map f (x # ys))" by (metis assms(1) sorted_sort_key)
  moreover have "y \<in> set (x # ys)" by (metis assms set_sort)
  ultimately show ?thesis by auto
qed

lemma two_keys_head:
  assumes "sort_key f (sort_key g xs) = x # ys" "y \<in> set xs" "f x = f y"
  shows "g x \<le> g y"
proof -
  have "filter (\<lambda>z. f z = f x) (sort_key f (sort_key g xs)) = filter (\<lambda>z. f z = f x) (sort_key g xs)"
    by (rule sort_key_stable)
  then have "sort_key g (filter (\<lambda>z. f z = f x) xs) = x # filter (\<lambda>z. f z = f x) ys"
    using assms(1) by (simp add: filter_sort)
  then show ?thesis by (rule sort_key_head) (use assms(2,3) in simp)
qed

lemma served_first:
  assumes "next_for_device env claimant policy sourced db = Some r"
    and "s \<in> set (ld_items db)" "device_candidate env claimant policy sourced db s"
  shows "serves_before r s"
proof -
  let ?rows = "filter (device_candidate env claimant policy sourced db) (ld_items db)"
  let ?rank = "\<lambda>r. if ji_state r = ''parked_live'' then 0 else (1 :: nat)"
  from assms(1) obtain rest where rows: "sort_key ?rank (sort_key (\<lambda>r. dt_nanos (ji_created_at r))
      (sort_key (\<lambda>r. uuid_rank (ji_id r)) ?rows)) = r # rest"
    by (auto simp: next_for_device_def by_age_def split: list.splits)
  have s: "s \<in> set (sort_key (\<lambda>r. uuid_rank (ji_id r)) ?rows)" using assms(2,3) by simp
  have "?rank r \<le> ?rank s" using sort_key_head [OF rows, of s] s by simp
  moreover have "?rank r = ?rank s \<Longrightarrow> dt_nanos (ji_created_at r) \<le> dt_nanos (ji_created_at s)"
    by (rule two_keys_head [OF rows s])
  ultimately show ?thesis by (auto simp: serves_before_def split: if_splits)
qed

lemma claimed:
  assumes ok: "ledger_ok db" and claim: "claim_for_device env claimant policy at db = (Inr (Leased item), db')"
  obtains r db1 where "next_for_device env claimant policy (device_runs_sourced claimant db) db = Some r"
    "grant env r (lease_to_device env claimant policy) db = Inr ([lease_to_device env claimant policy r], db1)"
    "claim_event env claimant (lease_to_device env claimant policy r) at db1 = Inr ((), db')"
    "le_item item = JobItemId (uuid_from_db (ji_id r))" "le_lease_epoch item = ji_lease_epoch r"
proof -
  from claim obtain r where r: "next_for_device env claimant policy (device_runs_sourced claimant db) db = Some r"
    by (auto simp: claim_for_device_def split: option.splits if_splits)
  obtain rows db1 where g: "map_unique ONE_LIVE_LEASE StaleLease (grant env r (lease_to_device env claimant policy)) db = Inr (rows, db1)"
    using claim r by (auto simp: claim_for_device_def split: sum.splits if_splits)
  then have grant: "grant env r (lease_to_device env claimant policy) db = Inr (rows, db1)" by simp
  have rows: "rows = [lease_to_device env claimant policy r]"
    using granted(1) [OF ok _ grant] next_claimed [OF r] by simp
  let ?row = "lease_to_device env claimant policy r"
  have same: "ji_id ?row = ji_id r" "ji_lease_epoch ?row = ji_lease_epoch r"
    by (simp_all add: lease_to_device_def lease_to_def unparked_def)
  have "claim_event env claimant ?row at db1 = Inr ((), db') \<and> le_item item = JobItemId (uuid_from_db (ji_id r))
      \<and> le_lease_epoch item = ji_lease_epoch r"
    using claim r g rows same
    by (auto simp: claim_for_device_def Let_def decode_leased_def split: sum.splits elim!: try_bind_InrE)
  with r grant rows that show ?thesis by blast
qed

lemma event_told:
  assumes "append_event_asserted env scope payload stamp asserted db = Inr (u, db')"
  shows "\<exists>e. ld_events db' = ld_events db @ [e] \<and> ev_payload e = payload \<and> ev_org_seq e = next_seq db (ev_org_id e)
    \<and> ev_org_id e = org_to_db (es_org scope) \<and> ev_job_id e = job_to_db (es_job scope) \<and> ld_items db' = ld_items db"
  using assms unfolding append_event_asserted_def
  by (auto elim!: tx_bind_InrE simp: allocate_org_seq_def insert_event_def split: option.splits list.splits)

text \<open>
  C16. A device is granted only work every gate passes, in its turn: the item is queued and its job not being deleted,
  or it is a stranded create and the claim reconciles; the device is registered and its session with the marketplace
  connected, the account linked and its inventory worked by devices, nothing halted, the plan not lapsed, no lease
  live on the account, and the marketplace and the payload's kind among those asked for; no other item that passes
  them comes before it. What it is granted is that row alone, leased to the device under the epoch it had, and one
  event that says so.
\<close>

theorem a_claim_passes_every_gate:
  assumes "ledger_history db" "claim_for_device env claimant policy at db = (Inr (Leased item), db')"
  shows "\<exists>r j. r \<in> set (ld_items db) \<and> job_of db (ji_org_id r) (ji_job_id r) = Some j
    \<and> le_item item = JobItemId (uuid_from_db (ji_id r)) \<and> le_lease_epoch item = ji_lease_epoch r
    \<and> (ji_state r = ''queued'' \<and> jb_deletion_requested_at j = None \<or> cp_reconcile policy \<and> reconcilable db r)
    \<and> device_ready db claimant j r \<and> linked db (ji_org_id r) (jb_marketplace j) \<and> runs_over db ''seller_device'' j
    \<and> \<not> halted db j r \<and> \<not> lapsed_plan env policy db r \<and> \<not> account_busy db r
    \<and> cp_marketplace policy \<in> {None} \<union> {Some m | m. ji_marketplace r = marketplace_to_db m}
    \<and> (device_runs_sourced claimant db \<or> \<not> payload_sourced db r)
    \<and> list_all (\<lambda>s. \<not> device_candidate env claimant policy (device_runs_sourced claimant db) db s \<or> serves_before r s)
        (ld_items db)
    \<and> ld_items db' = map (\<lambda>x. if x = r then lease_to_device env claimant policy r else x) (ld_items db)
    \<and> (\<exists>e. ld_events db' = ld_events db @ [e]
         \<and> ev_payload e = JE_ItemLeased (df_device claimant) (ji_lease_epoch r))"
proof -
  have ok: "ledger_ok db" using assms(1) by (rule history_ledger_ok)
  obtain r db1 where r: "next_for_device env claimant policy (device_runs_sourced claimant db) db = Some r"
    and grant: "grant env r (lease_to_device env claimant policy) db = Inr ([lease_to_device env claimant policy r], db1)"
    and told: "claim_event env claimant (lease_to_device env claimant policy r) at db1 = Inr ((), db')"
    and item: "le_item item = JobItemId (uuid_from_db (ji_id r))" "le_lease_epoch item = ji_lease_epoch r"
    using claimed [OF ok assms(2)] .
  have mine: "r \<in> set (ld_items db)" "device_candidate env claimant policy (device_runs_sourced claimant db) db r"
    using next_claimed [OF r] by simp_all
  then obtain j where j: "job_of db (ji_org_id r) (ji_job_id r) = Some j"
    by (auto simp: device_candidate_def split: option.splits)
  have "ld_items db1 = map (\<lambda>x. if x = r then lease_to_device env claimant policy r else x) (ld_items db)"
    "ld_events db1 = ld_events db"
    using granted(2) [OF ok mine(1) grant] by (auto intro!: map_cong)
  moreover have "\<exists>e. ld_events db' = ld_events db1 @ [e] \<and> ev_payload e = JE_ItemLeased (df_device claimant) (ji_lease_epoch r)
      \<and> ld_items db' = ld_items db1"
    using event_told [OF told [unfolded claim_event_def append_event_def]]
    by (auto simp: lease_to_device_def lease_to_def unparked_def)
  moreover have "list_all (\<lambda>s. \<not> device_candidate env claimant policy (device_runs_sourced claimant db) db s \<or> serves_before r s)
      (ld_items db)"
    using served_first [OF r] by (auto simp: list_all_iff)
  ultimately show ?thesis
    using mine j item
    by (intro exI [of _ r] exI [of _ j])
      (auto simp: device_candidate_def open_to_work_def split: option.splits)
qed

subsection \<open>Events\<close>

lemma events_grow: "ledger_move db db' \<Longrightarrow> \<exists>es. ld_events db' = ld_events db @ es"
  by (induction rule: ledger_move.induct) auto


subsection \<open>Landings\<close>

text \<open>What a landing's answer says of the mapping, before and after.\<close>

definition landing_answer ::
  "Std \<Rightarrow> u8 list \<Rightarrow> u8 list \<Rightarrow> RemoteListingId \<Rightarrow> RemoteIdColumns \<Rightarrow> LedgerDb \<Rightarrow> LedgerDb \<Rightarrow> BindDisposition \<Rightarrow> bool" where
  "landing_answer std org mapping listing remote db db' answer \<longleftrightarrow>
     (case answer of
        BD_Bound \<Rightarrow>
          (\<exists>m m'. mapping_of db org mapping = Some m \<and> bindable org mapping m
             \<and> mapping_of db' org mapping = Some m' \<and> bound_to org mapping remote m')
      | BD_AlreadyBound \<Rightarrow>
          (\<exists>m m'. mapping_of db org mapping = Some m \<and> mr_binding_state m = ''bound''
             \<and> mapping_of db' org mapping = Some m' \<and> mr_binding_state m' = ''bound''
             \<and> standing_binding std org mapping db' = Inr (Inr listing))
      | BD_DivergentLanding other \<Rightarrow>
          ld_mapping db' = ld_mapping db \<and> other \<noteq> listing \<and> standing_binding std org mapping db = Inr (Inr other)
      | BD_ClaimedElsewhere claimant \<Rightarrow>
          ld_mapping db' = ld_mapping db
        \<and> (\<exists>m c. mapping_of db org mapping = Some m \<and> c \<in> set (md_mappings (ld_mapping db))
             \<and> mr_inventory c = mr_inventory m \<and> bound_to org (mr_id c) remote c
             \<and> claimant = MappingId (uuid_from_db (mr_id c)))
      | BD_Refused state \<Rightarrow>
          ld_mapping db' = ld_mapping db
        \<and> (\<exists>m. mapping_of db org mapping = Some m \<and> mr_binding_state m = state
             \<and> state \<notin> {''bound'', ''unbound'', ''creating'', ''severed''})
      | _ \<Rightarrow> False)"

lemma landing_answer_cong:
  assumes "ld_mapping db1 = ld_mapping db" "ld_mapping db1' = ld_mapping db'"
  shows "landing_answer std org mapping listing remote db1 db1' answer = landing_answer std org mapping listing remote db db' answer"
proof -
  have "mapping_of db1 = mapping_of db" "mapping_of db1' = mapping_of db'"
    using assms by (simp_all add: mapping_of_def fun_eq_iff)
  moreover from this have "standing_binding std org mapping db1 = standing_binding std org mapping db"
    "standing_binding std org mapping db1' = standing_binding std org mapping db'"
    by (simp_all add: standing_binding_def)
  ultimately show ?thesis using assms by (cases answer) (simp_all add: landing_answer_def)
qed

lemma mapping_found:
  assumes "ledger_ok db" "r \<in> set (md_mappings (ld_mapping db))"
  shows "mapping_of db (mr_org_id r) (mr_id r) = Some r"
proof -
  from assms(2) obtain s where s: "mapping_of db (mr_org_id r) (mr_id r) = Some s"
    by (cases "mapping_of db (mr_org_id r) (mr_id r)") (auto simp: mapping_of_def row_of_def find_None_iff)
  then have "s \<in> set (md_mappings (ld_mapping db))" "mr_org_id s = mr_org_id r" "mr_id s = mr_id r"
    by (auto simp: mapping_of_def row_of_def find_Some_iff)
  moreover have "db_ok (ld_mapping db)" using assms(1) by (simp add: ledger_ok_def)
  ultimately have "r = s" using db_ok_conflict [of "ld_mapping db" r s] assms(2) by (simp add: conflicts_Nil)
  with s show ?thesis by simp
qed

lemma updated_mapping:
  assumes "update_mappings env sel f db = Inr (n, db')" "\<And>r. mr_org_id (f r) = mr_org_id r \<and> mr_id (f r) = mr_id r"
  shows "mapping_of db' org mapping = map_option (\<lambda>r. if sel r then f r else r) (mapping_of db org mapping)"
  unfolding mapping_of_def row_of_def update_mappingsE(2) [OF assms(1)]
  using assms(2) by (simp add: find_map_same)

lemma landed_bound: "bindable org mapping m \<Longrightarrow> bound_to org mapping remote (landed_row remote columns d m)"
  by (simp add: bindable_def bound_to_def landed_row_def with_lifecycle_def pasted_row_def)

lemma landed:
  assumes ok: "ledger_ok db" and remote: "remote_encode listing = Inr remote"
    and land: "land env org mapping d listing lifecycle db = Inr (answer, db')"
  shows "landing_answer (te_std env) org mapping listing remote db db' answer"
proof -
  from land remote obtain columns where columns: "lifecycle_encode (te_std env) lifecycle = Inr columns"
    by (auto simp: land_def elim!: try_bind_InrE)
  let ?upd = "update_mappings env (bindable org mapping) (landed_row remote columns d) db"
  show ?thesis
  proof (cases ?upd)
    case (Inl e)
    with land remote columns have "claimed_elsewhere org mapping remote db = Inr answer" "db' = db"
      by (auto simp: land_def elim!: try_bind_InrE split: if_splits)
    then show ?thesis
      by (auto simp: landing_answer_def claimed_elsewhere_def dest!: find_SomeD split: option.splits)
  next
    case (Inr result)
    then obtain n db1 where upd: "?upd = Inr (n, db1)" by (cases result) simp
    show ?thesis
    proof (cases "0 < n")
      case True
      with land remote columns upd have answer: "answer = BD_Bound" "db' = db1" by (auto simp: land_def)
      from True upd obtain m where m: "m \<in> set (md_mappings (ld_mapping db))" "bindable org mapping m"
        by (auto simp: update_mappingsE(1) [OF upd] filter_empty_conv)
      then have found: "mapping_of db org mapping = Some m" using mapping_found [OF ok m(1)] by (simp add: bindable_def)
      with updated_mapping [OF upd] m have "mapping_of db' org mapping = Some (landed_row remote columns d m)"
        by (simp add: answer)
      with found m landed_bound show ?thesis by (auto simp: landing_answer_def answer)
    next
      case False
      have none: "\<not> bindable org mapping m" if "mapping_of db org mapping = Some m" for m
        using False that by (auto simp: update_mappingsE(1) [OF upd] filter_empty_conv mapping_of_def row_of_def find_Some_iff)
      from False land remote columns upd obtain classified where
        classified: "classify_bind (te_std env) org mapping listing db = Inr classified" and
        rest: "if classified = BD_AlreadyBound
          then answer = classified \<and> relanded env org mapping d remote columns db = Inr ((), db')
          else answer = classified \<and> db' = db"
        by (auto simp: land_def elim!: try_bind_InrE tx_bind_InrE split: if_splits)
      from classified obtain standing where
        standing: "standing_binding (te_std env) org mapping db = Inr standing" and
        by_state: "classified = (case standing of Inl state \<Rightarrow> BD_Refused state
            | Inr other \<Rightarrow> if other = listing then BD_AlreadyBound else BD_DivergentLanding other)"
        by (auto simp: classify_bind_def elim!: try_bind_InrE)
      from standing obtain m where m: "mapping_of db org mapping = Some m"
        by (auto simp: standing_binding_def split: option.splits)
      show ?thesis
      proof (cases standing)
        case (Inl state)
        with standing m have "mr_binding_state m = state" "state \<noteq> ''bound''"
          by (auto simp: standing_binding_def elim!: try_bind_InrE split: if_splits)
        moreover have "mr_org_id m = org \<and> mr_id m = mapping" using m by (auto simp: mapping_of_def row_of_def find_Some_iff)
        ultimately show ?thesis using none [OF m] m rest by_state Inl by (auto simp: landing_answer_def bindable_def)
      next
        case (Inr other)
        show ?thesis
        proof (cases "other = listing")
          case False
          then show ?thesis using Inr standing rest by_state by (auto simp: landing_answer_def)
        next
          case True
          with Inr rest by_state have answer: "answer = BD_AlreadyBound"
            and again: "relanded env org mapping d remote columns db = Inr ((), db')" by auto
          from again obtain k where upd': "update_mappings env (bound_to org mapping remote)
              (\<lambda>row. with_lifecycle columns row \<lparr>mr_updated_at := d\<rparr>) db = Inr (k, db')"
            unfolding relanded_def by (auto elim!: tx_bind_InrE)
          let ?m = "if bound_to org mapping remote m then with_lifecycle columns m \<lparr>mr_updated_at := d\<rparr> else m"
          have m': "mapping_of db' org mapping = Some ?m" using updated_mapping [OF upd'] m by simp
          have cols: "mr_binding_state ?m = mr_binding_state m" "mr_remote_id_kind ?m = mr_remote_id_kind m"
            "mr_remote_url ?m = mr_remote_url m" "mr_remote_numeric_id ?m = mr_remote_numeric_id m"
            by (simp_all add: with_lifecycle_def)
          have "standing_binding (te_std env) org mapping db' = standing_binding (te_std env) org mapping db"
            unfolding standing_binding_def m m' using cols by simp
          moreover have "mr_binding_state m = ''bound''"
            using standing m Inr by (auto simp: standing_binding_def split: if_splits)
          ultimately show ?thesis using m m' cols standing Inr True by (simp add: landing_answer_def answer)
        qed
      qed
    qed
  qed
qed

lemma updated_attempts: "update_mappings env sel f db = Inr (n, db') \<Longrightarrow> ld_attempts db' = ld_attempts db"
  by (drule update_mappingsE(2)) simp

lemma landed_attempts:
  "land env org mapping d listing lifecycle db = Inr (answer, db') \<Longrightarrow> ld_attempts db' = ld_attempts db"
  by (auto simp: land_def relanded_def elim!: try_bind_InrE tx_bind_InrE split: sum.splits if_splits
      dest!: updated_attempts)

text \<open>What a revival of the counterparts, and the attempt's own row, leave of the mappings.\<close>

lemma revived_elsewhere:
  assumes "revive_counterparts env org mapping at db = Inr (n, db')"
  shows "ld_mapping db' = ld_mapping db" "ld_attempts db' = ld_attempts db"
proof -
  from assms obtain sel f hit db1 where items: "update_items env sel f db = Inr (hit, db1)"
    and told: "record_resumptions env hit at db1 = Inr ((), db')"
    unfolding revive_counterparts_def requeue_parked_def by (auto elim!: tx_bind_InrE)
  from items have "ld_mapping db1 = ld_mapping db" "ld_attempts db1 = ld_attempts db" by (auto simp: update_items_Inr)
  moreover have "other_tables db1 db'" using resumptions_elsewhere told by (rule ot.withinD)
  ultimately show "ld_mapping db' = ld_mapping db" "ld_attempts db' = ld_attempts db" by (simp_all add: other_tables_def)
qed

text \<open>
  C19. A landing binds or says why: a settled attempt that landed a listing answers that it bound a mapping open to
  it, which then holds that listing; or that the mapping held that very listing already; or else leaves every mapping
  as it was and names the other listing it holds, the other mapping that holds the listing, or the state it refused
  from. Whatever the answer, the attempt's row is settled with the verdict and the listing it addressed.
\<close>

theorem a_landing_binds_or_says_why:
  assumes "ledger_history db" "repo_settle_attempt env lease settling verdict at db = Inr (answer, db')"
    and "av_landing verdict = LE_Landed listing lifecycle"
  shows "\<exists>remote d. remote_encode listing = Inr remote
    \<and> landing_answer (te_std env) (org_to_db (lr_org lease)) (mapping_to_db (af_mapping settling)) listing remote db db' answer
    \<and> list_ex (is_attempt lease (af_attempt settling)) (ld_attempts db)
    \<and> ld_attempts db' = map (\<lambda>w. if is_attempt lease (af_attempt settling) w
         then settled_attempt verdict (Some remote) d w else w) (ld_attempts db)"
proof -
  let ?org = "org_to_db (lr_org lease)" and ?mapping = "mapping_to_db (af_mapping settling)"
  from assms(2,3) obtain remote d n db1 db2 where remote: "remote_encode listing = Inr remote"
    and upd: "update_attempts env (\<lambda>_. is_attempt lease (af_attempt settling)) (\<lambda>_. settled_attempt verdict (Some remote) d) db
      = Inr (n, db1)" and n: "n \<noteq> 0"
    and land: "land env ?org ?mapping d listing lifecycle db1 = Inr (answer, db2)"
    and rest: "db' = db2 \<or> (\<exists>k. revive_counterparts env (lr_org lease) (af_mapping settling) at db2 = Inr (k, db'))"
    unfolding repo_settle_attempt_def Let_def landing_effect_def lock_owning_job_def assert_current_epoch_def commit_mapping_def
    by (auto elim!: tx_bind_InrE try_bind_InrE split: if_splits option.splits)
  have moves: "ledger_move\<^sup>*\<^sup>* db db1"
    using upd attempts_within [of "\<lambda>_. is_attempt lease (af_attempt settling)" "\<lambda>_. settled_attempt verdict (Some remote) d"]
    by (auto simp: attempt_move_def is_attempt_def settled_attempt_def mv.within_def)
  have attempts: "ld_attempts db1 = map (\<lambda>w. if is_attempt lease (af_attempt settling) w
      then settled_attempt verdict (Some remote) d w else w) (ld_attempts db)"
    and same: "ld_mapping db1 = ld_mapping db" and hit: "list_ex (is_attempt lease (af_attempt settling)) (ld_attempts db)"
    using upd n by (auto simp: update_attempts_Inr list_ex_iff filter_empty_conv)
  have "landing_answer (te_std env) ?org ?mapping listing remote db1 db2 answer"
    by (rule landed [OF oks_kept [OF moves history_ledger_ok [OF assms(1)]] remote land])
  moreover have "ld_mapping db' = ld_mapping db2" "ld_attempts db' = ld_attempts db2"
    using rest by (auto dest: revived_elsewhere)
  moreover have "ld_attempts db2 = ld_attempts db1"
    using land by (rule landed_attempts)
  ultimately show ?thesis
    using remote hit attempts landing_answer_cong [of db db1 db' db2] same by auto
qed

subsection \<open>At work\<close>

lemma one_step: "ledger_step db db' \<Longrightarrow> ledger_step\<^sup>*\<^sup>* db db'"
  by (rule r_into_rtranclp)

lemma one_pass: "unattended db db' \<Longrightarrow> unattended\<^sup>*\<^sup>* db db'"
  by (rule r_into_rtranclp)


theorem one_lease_an_account_and_one_write_a_mapping_witness:
  "length (filter (\<lambda>r. live_lease r = Some (replicate 16 1, ''tpt'')) (ld_items db_opened)) = 1
   \<and> length (filter (\<lambda>w. in_flight_claim w = Some (replicate 16 1, replicate 16 3)) (ld_attempts db_opened)) = 1
   \<and> (\<exists>r. r \<in> set (ld_items db_opened) \<and> attempt_of_item (hd (ld_attempts db_opened)) r)"
proof -
  have "filter (\<lambda>r. live_lease r = Some (replicate 16 1, ''tpt'')) (ld_items db_opened) \<noteq> []"
    "filter (\<lambda>w. in_flight_claim w = Some (replicate 16 1, replicate 16 3)) (ld_attempts db_opened) \<noteq> []"
    using evaluated by blast+
  moreover from this(2) have "hd (ld_attempts db_opened) \<in> set (ld_attempts db_opened)"
    by (cases "ld_attempts db_opened") auto
  ultimately show ?thesis
    using one_lease_an_account_and_one_write_a_mapping
      [OF opened_history, of "(replicate 16 1, ''tpt'')" "(replicate 16 1, replicate 16 3)"]
    by (auto simp: le_Suc_eq)
qed

theorem a_stale_lease_changes_nothing_witness:
  "committed_by (repo_settle (clock 10001) the_lease the_verdict (Timestamp 10001000)) db_lapsed = (Inl StaleLease, db_lapsed)"
proof -
  have "\<not> list_ex (held_under the_lease) (ld_items db_lapsed)" using evaluated by blast
  moreover have "timestamp_to_db (te_std (clock 10001)) (Timestamp 10001000) = Inr (DateTime 10001000000000)"
    by (simp add: clock_def example_std_def timestamp_to_db_def)
  ultimately show ?thesis using a_stale_lease_changes_nothing [OF lapsed_history] by blast
qed

theorem a_settled_item_is_final_witness:
  "\<exists>k. hd (ld_items db_settled) \<lparr>ji_idempotency_key := k\<rparr>
     \<in> set (ld_items (snd (finalise_deletions (\<lambda>_. clock 6) example_org (stamp_system CEngine (Timestamp 6000)) db_settled)))"
proof -
  have row: "ld_items db_settled \<noteq> []" "ji_state (hd (ld_items db_settled)) = ''settled''" using evaluated by blast+
  then have "hd (ld_items db_settled) \<in> set (ld_items db_settled)" by simp
  from a_settled_item_is_final [OF settled_history one_step [OF S_sweep] this row(2)] show ?thesis by blast
qed

theorem deleted_work_stays_deleted_witness:
  "classify_deletion (clock 20000) example_org (nw_job the_job)
     (snd (acquire (clock 3) ''worker'' 600 db_deleted)) = Deleted"
  using deleted_work_stays_deleted [OF queued_history deleted_first one_step [OF S_acquire]] by blast

theorem an_undecided_create_keeps_its_fence_witness:
  "\<exists>r' \<in> set (ld_items db_lapsed). undecided_create db_lapsed r' \<and> ji_lease_epoch r' = 0"
proof -
  let ?r = "hd (ld_items db_opened)"
  have row: "ld_items db_opened \<noteq> []" "undecided_create db_opened ?r" "is_live_lease ?r" "ji_lease_epoch ?r = 0"
    using evaluated by blast+
  then have "?r \<in> set (ld_items db_opened)" by simp
  from an_undecided_create_keeps_its_fence
      [OF opened_history this row(2) disjI1 [OF row(3)] one_pass [OF U_expire [OF lapsed_at_last]]]
  show ?thesis using row(4) by (auto simp: same_standing_def)
qed

theorem a_claim_passes_every_gate_witness:
  "\<exists>r. r \<in> set (ld_items db_queued) \<and> ji_state r = ''queued'' \<and> \<not> account_busy db_queued r
     \<and> lease_to_device (clock 2) the_device the_policy r \<in> set (ld_items db_claimed)"
proof -
  from claimed_once obtain item
    where "fst (claim_for_device (clock 2) the_device the_policy (Timestamp 2000) db_queued) = Inr (Leased item)"
    by (cases "fst (claim_for_device (clock 2) the_device the_policy (Timestamp 2000) db_queued)")
      (auto split: DeviceClaim.splits)
  then have claim: "claim_for_device (clock 2) the_device the_policy (Timestamp 2000) db_queued = (Inr (Leased item), db_claimed)"
    by (simp add: db_claimed_def prod_eq_iff)
  have "list_all (\<lambda>r. ji_state r = ''queued'') (ld_items db_queued)" using evaluated by blast
  with a_claim_passes_every_gate [OF queued_history claim] show ?thesis by (auto simp: list_all_iff)
qed


theorem a_landing_binds_or_says_why_witness:
  "\<exists>remote m. remote_encode (RTpt 70) = Inr remote
     \<and> mapping_of db_landed (replicate 16 1) (replicate 16 3) = Some m
     \<and> bound_to (replicate 16 1) (replicate 16 3) remote m"
  using a_landing_binds_or_says_why [OF opened_history landed_once, of "RTpt 70" "L_Live (Timestamp 4000)"]
  by (auto simp: landing_answer_def the_landing_def the_lease_def the_attempt_def the_item_def)

end
