(* ===== verification/Spec2Isabelle.thy ===== *)
theory Spec2Isabelle
  imports SyncTable Connection Gates Engine SellerRulesSafety ListingSafety MemoryLedger ListingAddress ProductForm Matcher ImportPage
    Sheets LedgerSafety
begin

text \<open>
  Listing sync, verified core.

  The program keeps a seller's catalogue and writes it to several marketplaces (Tes, Teachers Pay
  Teachers, Etsy). Its own logic is a set of pure crates that the servers and the desktop
  application drive: values (\<open>crates/tam-types\<close>), the vocabulary of a marketplace adapter
  (\<open>crates/tam-marketplace\<close>), the domain (\<open>crates/tam-domain\<close>: the machine that writes one item to
  one marketplace, the field registry, the answers a seller gives), the projection of a product's
  terms into a marketplace's vocabulary (\<open>crates/tam-taxonomy\<close>), the plans (\<open>crates/tam-limits\<close>)
  and the control loops (\<open>crates/tam-engine\<close>). The development models those crates function by
  function and proves what their comments and documents promise.

  Theories, in the order they build on one another.

  \<^item> Prelude: integers at their width (signed integers as \<open>int\<close> with saturating and checked
    operations, unsigned ones as words), texts as UTF-8 byte lists, \<open>Result\<close> as a sum with
    \<open>try_bind\<close>, iterator helpers, and the named collections.
  \<^item> Traces: the locales \<open>traces\<close>, \<open>licensed\<close> and \<open>metered\<close>: runs of a deterministic step that may
    refuse an input; what a run keeps, emits, absorbs, and what it may spend.
  \<^item> Types, Adapter, Domain: \<open>tam-types/src/{lib,actor,natives}.rs\<close>,
    \<open>tam-marketplace/src/{lib,idempotency}.rs\<close> and the part of \<open>tam-domain/src/lib.rs\<close> before the
    machine, field by field.
  \<^item> SyncMachine, SyncRuns, SyncSafety, SyncTable: \<open>SyncMachine\<close> of \<open>tam-domain/src/lib.rs\<close>. One
    definition per row group of the source, \<open>step\<close> as the source composes them, the relation
    \<open>sync_row\<close> that reads as the table, and \<open>step_iff_row\<close>, which says they agree. Runs start at
    \<open>initial\<close> with the entry row; the three locales of Traces are interpreted on \<open>step\<close>. The
    properties are about whole runs: writes follow recorded intents, every retry has a licence,
    nothing is written while an answer is awaited, ends are accounted for, the allowance is spent
    exactly and the budget report always decides. SyncTable compares \<open>step\<close> with the table of
    \<open>docs/design/sync-machine.md\<close> by kind.
  \<^item> Vocabulary, Connection: the locale \<open>closed_vocabulary\<close> of the wire spellings, and
    \<open>connection.rs\<close>.
  \<^item> PlanLimits: \<open>tam-limits/src/lib.rs\<close>, plans as a \<open>linorder\<close>, the table of features and prices.
  \<^item> Gates: the entitlement token from its minting (\<open>tam-domain/src/entitlement.rs\<close>) to the gate of
    the desktop application (\<open>apps/desktop/src-tauri/src/entitlement.rs\<close>), and \<open>serve.rs\<close>.
  \<^item> Engine: \<open>breaker.rs\<close>, \<open>canary.rs\<close>, \<open>outbox.rs\<close> of \<open>tam-engine\<close>.
  \<^item> Registry: \<open>tam-domain/src/registry\<close>, data and operations.
  \<^item> Equivalence: \<open>tam-domain/src/equivalence.rs\<close>; the two lists of answers share the locale
    \<open>standing_answers\<close>.
  \<^item> Projection, ProjectionSafety: \<open>tam-taxonomy/src/project.rs\<close>, and what a projection may and may
    not do: it invents nothing, loses nothing silently, keeps the target's cardinality except for
    an answered narrowing (a counterexample shows the exception is real) and inverts ingest.
  \<^item> SellerText, SellerRules, SellerRulesSafety: \<open>tam-domain/src/seller_rules.rs\<close>: the text a rule
    matches, the rate and price arithmetic, validation, evaluation, the digest of a frozen output.
  \<^item> Listing, ListingSafety: \<open>tam-taxonomy/src/listing.rs\<close>: the axes a listing is routed through,
    the gates before its rendering, and what is disclosed as lost.
  \<^item> DriverTypes, DriverPorts, Driver: \<open>tam-engine-driver\<close> (\<open>vocabulary.rs\<close>, \<open>ports.rs\<close>, \<open>seed.rs\<close>,
    \<open>driver.rs\<close>), the loop that carries one leased item through the sync machine. Every call to a
    port is appended to a log; a port is a function of the log, so it may answer differently each
    time. An effect of the machine is one definition; \<open>pump\<close> is the loop and ends because every
    pass steps the machine to a smaller allowance.
  \<^item> DriverLogic, DriverRuns, DriverLoop, DriverSafety, DriverHonest: a weakest-precondition
    calculus over logs; one contract per effect, with the locale \<open>quiet_invariant\<close> for what calls
    without effect on the story keep; the invariant of the loop; the properties of whole runs; and
    that a log holds what the ports really answered.
  \<^item> MemoryLedger: \<open>memory.rs\<close>, the in-memory implementation of the ledger port. The locale
    \<open>attempt_fence\<close> states the contract the driver relies on and is interpreted on it.

  \<^item> ListingAddress, ScalarText, ProductForm: \<open>registry/listing_url.rs\<close>, what a pasted address names, and
    \<open>tam-domain/src/product\<close>: the form, its vocabularies, its check and the canonical product of it.
  \<^item> Fingerprint, Matcher: \<open>tam-fingerprint\<close> and the duplicate matcher of \<open>tam-api/src/matcher.rs\<close>: what
    merges two resources without asking and which pairs are ever raised. A quotient of \<open>f32\<close> is an exact
    rational, with the reason stated there.
  \<^item> Base64, ImportPage: the values a device reports of an import in \<open>tam-engine-driver/src/import.rs\<close>; the
    locale \<open>wire_value\<close> is the contract of a type that refuses what it does not hold.
  \<^item> Csv, Sheets: the CSV writer of \<open>tam-api/src/export.rs\<close> and the reader of an uploaded spreadsheet,
    \<open>tam-api/src/import_batch/parse.rs\<close>, with the bounds before anything is kept.
  \<^item> Codec, MappingRows, MappingStore, MappingSafety: \<open>tam-storage/src/{codec,mapping}.rs\<close> and the
    constraints of \<open>migrations/0004_mapping.sql\<close> and \<open>0018_mapping_bind.sql\<close>. The locale
    \<open>column_codec\<close> says a written value is read back. A table is a list of rows, a transaction a
    function that fails or returns the new tables; the properties are of every history of them.
  \<^item> LedgerRows, LedgerEvents, LeaseStore, ClaimStore, AttemptStore, EnqueueStore: the job ledger of
    \<open>tam-storage/src/jobs.rs\<close>: the tables with the constraints of their migrations and the transactions,
    the event stream and the deletion fence, the leases with the two maintenance passes, the claims of
    the server and of a device, write attempts with what a landing does to its mapping, and the minting
    of jobs. A repository method is one transaction, \<open>hand_back\<close> two; the sweep of deletions is one a job.
  \<^item> LedgerMoves, LedgerSteps, LedgerHistory: the abstract ledger as step relations on rows and tables,
    every method a sequence of its moves (through the locale \<open>tx_order\<close> of what a transaction may do),
    the invariant the moves keep, and the histories. LedgerFence: what the unattended passes leave
    standing. LedgerExample evaluates one history; LedgerSafety holds the properties.

  Errors are sums, \<open>Option\<close> is \<open>option\<close>, a struct is a record and an enum a datatype whose
  constructors carry a short prefix where a name is shared. Every function is total: a loop is a
  recursion on the list it walks or on the tries it has left, and the driver's loop and its waits
  carry a termination proof. \<open>pump_within\<close> is the only function with fuel; it states the bound of
  the driver's loop and is shown to agree with \<open>pump\<close> once the fuel exceeds the step budget by two.

  Parameters stand for code that is not in the repository or whose effect is outside the program:
  the UUIDv5 digest, the BLAKE3 digest, the text of a JSON value, the signature check of
  \<open>jsonwebtoken\<close>, Unicode lower case, the \<open>Debug\<close> renderings that only reach a log, the database
  behind the outbox, the deliverer, the clock, the marketplace adapters and the driver's ledger port; in
  the tables of \<open>jobs.rs\<close> also which of several broken constraints the database reports and the price
  and terms an item is frozen with at its mint.

  Not modelled: of \<open>jobs.rs\<close> what two transactions do to each other between their statements (the row
  locks are there to make that the same as one after the other), the notification and the mail a
  settled job leaves, the halts' own writes, the outbox's and the rate budget's tables and the reads of
  the console; the other repositories of \<open>tam-storage\<close>, HTTP (\<open>tam-api\<close>, \<open>tam-server\<close>), the marketplace
  clients, user interfaces and tools: effects of a database, a network and a screen. The wire types
  of the driver's vocabulary and its conformance suite are left out, as are the seed tables of the
  taxonomy and their drift, and the authoring crate.
\<close>

end
